(* ===== verification/Prelude.thy ===== *)
theory Prelude
  imports Main "HOL-Library.Word" "HOL-Library.AList" "HOL-Library.Multiset"
begin

text \<open>
  What every theory of the development shares: the names of Rust's machine integers, the
  \<open>named_theorems\<close> collections, the panic type with its sequencing operator, saturating
  arithmetic, and one locale for components that consume a list of events one by one.

  Arithmetic of the integer types is the arithmetic of a release build (the release profiles of
  \<open>Cargo.toml\<close> leave \<open>overflow-checks\<close> off): \<open>+\<close>, \<open>-\<close> and \<open>*\<close> wrap, and the lemmas say where no
  wrap can happen. Lengths and indices (\<open>usize\<close>) are bounded by memory and modelled as \<^typ>\<open>nat\<close>.
\<close>

section \<open>Machine integers\<close>

type_synonym u8 = "8 word"
type_synonym u16 = "16 word"
type_synonym u32 = "32 word"
type_synonym u64 = "64 word"
type_synonym i32 = "32 word" \<comment> \<open>read with \<^const>\<open>sint\<close>\<close>
type_synonym i64 = "64 word" \<comment> \<open>read with \<^const>\<open>sint\<close>\<close>
type_synonym f32 = "32 word" \<comment> \<open>the IEEE bits; arithmetic on them is an argument where it is used\<close>

text \<open>A point of the monotonic clock (\<open>std::time::Instant\<close>) and a \<open>Duration\<close>, in milliseconds.\<close>

type_synonym instant = nat
type_synonym duration = nat

named_theorems rust_simps "unfolding rules of the standard-library operations"
named_theorems inv_intros "introduction rules: an operation keeps an invariant"
named_theorems frame_simps "fields an operation leaves alone"

section \<open>Panics\<close>

text \<open>
  A panic of the source (an index out of bounds, \<open>Vec::remove\<close> past the end, a string cut inside a
  character) is a value, so that whether it can happen is a question about the model.
\<close>

datatype panic = IndexOutOfBounds | RemoveOutOfBounds | SliceInsideChar

fun and_then :: "panic + 'a \<Rightarrow> ('a \<Rightarrow> panic + 'b) \<Rightarrow> panic + 'b" where
  "and_then (Inl p) f = Inl p"
| "and_then (Inr x) f = f x"

lemma and_then_Inr_iff:
  "and_then m f = Inr y \<longleftrightarrow> (\<exists>x. m = Inr x \<and> f x = Inr y)"
  by (cases m) auto

lemma and_then_Inl_iff:
  "and_then m f = Inl p \<longleftrightarrow> m = Inl p \<or> (\<exists>x. m = Inr x \<and> f x = Inl p)"
  by (cases m) auto

lemma and_then_assoc: "and_then (and_then m f) g = and_then m (\<lambda>x. and_then (f x) g)"
  by (cases m) simp_all

text \<open>\<open>v[i]\<close> of a Rust \<open>Vec\<close>: the element, or a panic.\<close>

definition vec_index :: "'a list \<Rightarrow> nat \<Rightarrow> panic + 'a" where
  "vec_index xs i = (if i < length xs then Inr (xs ! i) else Inl IndexOutOfBounds)"

text \<open>\<open>v.remove(i)\<close>: the removed element and the shifted rest, or a panic.\<close>

definition vec_remove :: "'a list \<Rightarrow> nat \<Rightarrow> panic + ('a \<times> 'a list)" where
  "vec_remove xs i =
     (if i < length xs then Inr (xs ! i, take i xs @ drop (Suc i) xs) else Inl RemoveOutOfBounds)"

lemma vec_index_in [simp]: "i < length xs \<Longrightarrow> vec_index xs i = Inr (xs ! i)"
  by (simp add: vec_index_def)

lemma vec_remove_in [simp]:
  "i < length xs \<Longrightarrow> vec_remove xs i = Inr (xs ! i, take i xs @ drop (Suc i) xs)"
  by (simp add: vec_remove_def)

section \<open>Saturating arithmetic\<close>

definition saturating_add :: "'a::len word \<Rightarrow> 'a word \<Rightarrow> 'a word" where
  "saturating_add a b = (if a + b < a then - 1 else a + b)"

definition saturating_sub :: "'a::len word \<Rightarrow> 'a word \<Rightarrow> 'a word" where
  "saturating_sub a b = (if a < b then 0 else a - b)"

lemma unat_saturating_add:
  fixes a b :: "'a::len word"
  shows "unat (saturating_add a b) = min (unat a + unat b) (2 ^ LENGTH('a) - 1)"
proof (cases "unat a + unat b < 2 ^ LENGTH('a)")
  case True
  then have "unat (a + b) = unat a + unat b"
    by (simp add: unat_add_lem)
  moreover have "unat a + unat b \<le> 2 ^ LENGTH('a) - 1"
    using True by linarith
  ultimately show ?thesis
    by (auto simp: saturating_add_def word_less_nat_alt)
next
  case False
  then have "\<not> unat a + unat b < 2 ^ LENGTH('a)" .
  then have "unat (a + b) = unat a + unat b - 2 ^ LENGTH('a)"
    using unat_plus_if_size [of a b] by (simp add: word_size)
  moreover have "unat b < 2 ^ LENGTH('a)" by simp
  ultimately have "unat (a + b) < unat a"
    using False by linarith
  then have "a + b < a"
    by (simp add: word_less_nat_alt)
  moreover have "min (unat a + unat b) (2 ^ LENGTH('a) - 1) = 2 ^ LENGTH('a) - 1"
    using False by linarith
  ultimately show ?thesis
    by (simp add: saturating_add_def unsigned_minus_1_eq_mask mask_eq_exp_minus_1)
qed

lemma unat_saturating_sub:
  fixes a b :: "'a::len word"
  shows "unat (saturating_sub a b) = unat a - unat b"
  by (auto simp: saturating_sub_def word_less_nat_alt not_less unat_sub word_le_nat_alt)

lemma u16_le: "unat (x :: u16) \<le> 65535"
proof -
  have "unat x < 2 ^ LENGTH(16)" by (rule unsigned_less)
  then show ?thesis by simp
qed

section \<open>Runs of an event-driven component\<close>

text \<open>
  A component is a step function on its state; a run folds it over the events in order. What one
  step keeps, a whole run keeps, and a run can be cut anywhere.
\<close>

locale event_machine =
  fixes step :: "'e \<Rightarrow> 's \<Rightarrow> 's"
    and inv :: "'s \<Rightarrow> bool"
  assumes step_inv: "inv s \<Longrightarrow> inv (step e s)"
begin

lemma run_inv: "inv s \<Longrightarrow> inv (fold step es s)"
  by (induction es arbitrary: s) (auto intro: step_inv)

lemma run_prefix_inv: "inv s \<Longrightarrow> inv (fold step (take n es) s)"
  by (rule run_inv)

end

text \<open>
  A parser that works byte by byte: a step from a state and a byte to a state and the items it
  puts out. The chunk boundaries of the input do not matter.
\<close>

fun run_items :: "('s \<Rightarrow> 'b \<Rightarrow> 's \<times> 'o list) \<Rightarrow> 's \<Rightarrow> 'b list \<Rightarrow> 's \<times> 'o list" where
  "run_items f s [] = (s, [])"
| "run_items f s (b # bs) =
     (case f s b of (s1, os1) \<Rightarrow> case run_items f s1 bs of (s2, os2) \<Rightarrow> (s2, os1 @ os2))"

lemma run_items_append:
  "run_items f s (xs @ ys) =
     (case run_items f s xs of (s1, os1) \<Rightarrow>
      case run_items f s1 ys of (s2, os2) \<Rightarrow> (s2, os1 @ os2))"
  by (induction xs arbitrary: s) (auto split: prod.splits)

section \<open>Lists\<close>

lemma butlast_length_le: "length (butlast xs) \<le> length xs"
  by simp

lemma set_take_drop_subset: "set (take i xs @ drop (Suc i) xs) \<subseteq> set xs"
  by (auto dest: in_set_takeD in_set_dropD)

lemma length_remove_at: "i < length xs \<Longrightarrow> length (take i xs @ drop (Suc i) xs) = length xs - 1"
  by simp

lemma map_remove_at:
  "map f (take i xs @ drop (Suc i) xs) = take i (map f xs) @ drop (Suc i) (map f xs)"
  by (simp add: take_map drop_map)

lemma distinct_remove_at: "distinct xs \<Longrightarrow> distinct (take i xs @ drop (Suc i) xs)"
proof -
  assume d: "distinct xs"
  have "set (take i xs) \<inter> set (drop (Suc i) xs) = {}"
    using set_take_disj_set_drop_if_distinct [OF d, of i "Suc i"] by simp
  then show ?thesis
    using d by simp
qed

lemma nth_remove_at:
  "i < length xs \<Longrightarrow> j < length xs - 1 \<Longrightarrow>
     (take i xs @ drop (Suc i) xs) ! j = (if j < i then xs ! j else xs ! Suc j)"
  by (auto simp: nth_append min_def)

end
