(* ===== verification/RustStd.thy ===== *)
theory RustStd
  imports Prelude
begin

text \<open>
  The part of Rust's standard library the modelled code uses on strings and bytes. A \<open>String\<close> or
  \<open>&str\<close> is the list of its UTF-8 bytes, written as a HOL \<^typ>\<open>string\<close> (one \<^typ>\<open>char\<close> per
  byte), a \<open>Vec<u8>\<close> is a \<^typ>\<open>u8 list\<close>. Operations that Rust defines on Unicode scalar values
  (\<open>chars\<close>, \<open>pop\<close>, \<open>from_utf8_lossy\<close>) work on the encoded bytes here. \<open>str::to_lowercase\<close> depends
  on the Unicode tables and is an argument of the definitions that use it.
\<close>

section \<open>Bytes and characters\<close>

definition byte_of :: "char \<Rightarrow> u8" where
  "byte_of c = word_of_nat (of_char c)"

definition char_of_byte :: "u8 \<Rightarrow> char" where
  "char_of_byte b = char_of (unat b)"

definition bytes_of :: "string \<Rightarrow> u8 list" where
  "bytes_of s = map byte_of s"

definition str_of :: "u8 list \<Rightarrow> string" where
  "str_of bs = map char_of_byte bs"

lemma char_of_byte_of [simp]: "char_of_byte (byte_of c) = c"
  by (simp add: char_of_byte_def byte_of_def unat_of_nat)

lemma byte_of_char_of [simp]: "byte_of (char_of_byte b) = b"
proof -
  have "unat b < 256"
    using unsigned_less [of b] by simp
  then show ?thesis
    by (simp add: char_of_byte_def byte_of_def of_char_of)
qed

lemma str_of_bytes_of [simp]: "str_of (bytes_of s) = s"
  by (simp add: str_of_def bytes_of_def comp_def map_idI)

lemma bytes_of_str_of [simp]: "bytes_of (str_of bs) = bs"
  by (simp add: str_of_def bytes_of_def comp_def map_idI)

lemma length_str_of [simp]: "length (str_of bs) = length bs"
  by (simp add: str_of_def)

lemma length_bytes_of [simp]: "length (bytes_of s) = length s"
  by (simp add: bytes_of_def)

section \<open>UTF-8\<close>

text \<open>A continuation byte is \<open>10xxxxxx\<close>; every other byte starts a scalar value.\<close>

definition is_cont :: "u8 \<Rightarrow> bool" where
  "is_cont b \<longleftrightarrow> 0x80 \<le> b \<and> b \<le> 0xBF"

text \<open>
  The bytes that may follow the first one of a sequence (Unicode, table 3-7), and how many more
  continuation bytes come after that second byte.
\<close>

fun second_range :: "u8 \<Rightarrow> (u8 \<times> u8 \<times> nat) option" where
  "second_range b =
     (if 0xC2 \<le> b \<and> b \<le> 0xDF then Some (0x80, 0xBF, 0)
      else if b = 0xE0 then Some (0xA0, 0xBF, 1)
      else if b = 0xED then Some (0x80, 0x9F, 1)
      else if 0xE1 \<le> b \<and> b \<le> 0xEF then Some (0x80, 0xBF, 1)
      else if b = 0xF0 then Some (0x90, 0xBF, 2)
      else if 0xF1 \<le> b \<and> b \<le> 0xF3 then Some (0x80, 0xBF, 2)
      else if b = 0xF4 then Some (0x80, 0x8F, 2)
      else None)"

declare second_range.simps [simp del]

text \<open>How many of the next (at most \<open>k\<close>) bytes are continuation bytes.\<close>

fun conts :: "nat \<Rightarrow> u8 list \<Rightarrow> nat" where
  "conts (Suc k) (b # bs) = (if is_cont b then Suc (conts k bs) else 0)"
| "conts _ _ = 0"

text \<open>
  One step of the decoder on a non-empty input: the length of the sequence at the front and
  whether it is well formed. An ill-formed one is cut where \<open>Utf8Chunks\<close> cuts it: after the bytes
  that were still a prefix of some well-formed sequence (at least one byte).
\<close>

fun utf8_step :: "u8 list \<Rightarrow> nat \<times> bool" where
  "utf8_step [] = (0, True)"
| "utf8_step (b # bs) =
     (if b < 0x80 then (1, True)
      else case second_range b of
        None \<Rightarrow> (1, False)
      | Some (lo, hi, k) \<Rightarrow>
          (case bs of
             [] \<Rightarrow> (1, False)
           | c # cs \<Rightarrow>
               if lo \<le> c \<and> c \<le> hi
               then (let n = conts k cs in (2 + n, n = k))
               else (1, False)))"

lemma conts_le: "conts k bs \<le> k \<and> conts k bs \<le> length bs"
  by (induction k bs rule: conts.induct) auto

lemma utf8_step_bounds:
  "bs \<noteq> [] \<Longrightarrow> 0 < fst (utf8_step bs) \<and> fst (utf8_step bs) \<le> length bs"
  using conts_le
  by (cases bs) (auto simp: Let_def split: option.splits list.splits prod.splits)

lemma utf8_step_shrinks:
  assumes "(n, ok) = utf8_step bs" and "bs \<noteq> []"
  shows "length bs - n < length bs"
proof -
  have "0 < n \<and> n \<le> length bs"
    using utf8_step_bounds [OF assms(2)] assms(1) by (metis fst_conv)
  then show ?thesis by linarith
qed

text \<open>\<open>String::from_utf8_lossy\<close>: every ill-formed sequence becomes U+FFFD.\<close>

definition replacement :: "u8 list" where
  "replacement = [0xEF, 0xBF, 0xBD]"

function utf8_lossy :: "u8 list \<Rightarrow> u8 list" where
  "utf8_lossy bs =
     (if bs = [] then []
      else case utf8_step bs of (n, ok) \<Rightarrow>
        (if ok then take n bs else replacement) @ utf8_lossy (drop n bs))"
  by pat_completeness auto
termination
  by (relation "measure length") (auto dest: utf8_step_shrinks)

text \<open>\<open>str::from_utf8\<close>: the bytes are well formed.\<close>

function utf8_valid :: "u8 list \<Rightarrow> bool" where
  "utf8_valid bs =
     (if bs = [] then True
      else case utf8_step bs of (n, ok) \<Rightarrow> ok \<and> utf8_valid (drop n bs))"
  by pat_completeness auto
termination
  by (relation "measure length") (auto dest: utf8_step_shrinks)

declare utf8_lossy.simps [simp del] utf8_valid.simps [simp del]

lemma utf8_lossy_Nil [simp]: "utf8_lossy [] = []"
  by (simp add: utf8_lossy.simps)

lemma utf8_valid_Nil [simp]: "utf8_valid []"
  by (simp add: utf8_valid.simps)

lemma utf8_lossy_ascii [simp]: "b < 0x80 \<Longrightarrow> utf8_lossy (b # bs) = b # utf8_lossy bs"
  by (subst utf8_lossy.simps) simp

lemma utf8_valid_ascii [simp]: "b < 0x80 \<Longrightarrow> utf8_valid (b # bs) = utf8_valid bs"
  by (subst utf8_valid.simps) simp

lemma utf8_lossy_valid: "utf8_valid bs \<Longrightarrow> utf8_lossy bs = bs"
proof (induction bs rule: utf8_lossy.induct)
  case (1 bs)
  show ?case
  proof (cases "bs = []")
    case False
    obtain n ok where st: "utf8_step bs = (n, ok)" by fastforce
    from "1.prems" False st have ok: ok and "utf8_valid (drop n bs)"
      by (subst (asm) utf8_valid.simps, simp)+
    with "1.IH" [OF False st [symmetric]] have "utf8_lossy (drop n bs) = drop n bs"
      by simp
    with False st ok show ?thesis
      by (subst utf8_lossy.simps) simp
  qed simp
qed

definition from_utf8_lossy :: "u8 list \<Rightarrow> string" where
  "from_utf8_lossy bs = str_of (utf8_lossy bs)"

definition from_utf8 :: "u8 list \<Rightarrow> string option" where
  "from_utf8 bs = (if utf8_valid bs then Some (str_of bs) else None)"

section \<open>Iterators\<close>

text \<open>\<open>Iterator::position\<close>: the index of the first element that satisfies the predicate.\<close>

fun position :: "('a \<Rightarrow> bool) \<Rightarrow> 'a list \<Rightarrow> nat option" where
  "position P [] = None"
| "position P (x # xs) = (if P x then Some 0 else map_option Suc (position P xs))"

lemma position_Some:
  "position P xs = Some i \<Longrightarrow> i < length xs \<and> P (xs ! i) \<and> (\<forall>j < i. \<not> P (xs ! j))"
proof (induction xs arbitrary: i)
  case (Cons x xs)
  then show ?case
    by (auto simp: nth_Cons split: if_splits nat.splits)
qed simp

lemma position_None: "position P xs = None \<longleftrightarrow> (\<forall>x \<in> set xs. \<not> P x)"
  by (induction xs) auto

text \<open>
  \<open>Iterator::min_by_key\<close> with a pair of integers as the key, compared lexicographically: the
  first of the smallest elements.
\<close>

definition key_less :: "int \<times> int \<Rightarrow> int \<times> int \<Rightarrow> bool" where
  "key_less a b \<longleftrightarrow> fst a < fst b \<or> fst a = fst b \<and> snd a < snd b"

fun min_by_key :: "('a \<Rightarrow> int \<times> int) \<Rightarrow> 'a list \<Rightarrow> 'a option" where
  "min_by_key f [] = None"
| "min_by_key f (x # xs) =
     (case min_by_key f xs of
        None \<Rightarrow> Some x
      | Some y \<Rightarrow> if key_less (f y) (f x) then Some y else Some x)"

lemma min_by_key_in: "min_by_key f xs = Some x \<Longrightarrow> x \<in> set xs"
  by (induction xs arbitrary: x) (auto split: option.splits if_splits)

lemma min_by_key_None [simp]: "min_by_key f xs = None \<longleftrightarrow> xs = []"
  by (cases xs) (auto split: option.splits)

lemma key_less_irrefl [simp]: "\<not> key_less a a"
  by (simp add: key_less_def)

lemma key_less_asym: "key_less a b \<Longrightarrow> \<not> key_less b a"
  by (auto simp: key_less_def)

lemma key_less_negtrans: "\<not> key_less a b \<Longrightarrow> \<not> key_less b c \<Longrightarrow> \<not> key_less a c"
  by (auto simp: key_less_def)

lemma min_by_key_least:
  "min_by_key f xs = Some x \<Longrightarrow> y \<in> set xs \<Longrightarrow> \<not> key_less (f y) (f x)"
proof (induction xs arbitrary: x)
  case (Cons z zs)
  show ?case
  proof (cases "min_by_key f zs")
    case None
    with Cons.prems show ?thesis by simp
  next
    case (Some w)
    then have le_w: "y \<in> set zs \<Longrightarrow> \<not> key_less (f y) (f w)"
      by (rule Cons.IH)
    show ?thesis
    proof (cases "key_less (f w) (f z)")
      case True
      then show ?thesis
        using Cons.prems Some le_w key_less_asym [OF True] by auto
    next
      case False
      then show ?thesis
        using Cons.prems Some le_w key_less_negtrans [of "f y" "f w" "f z"] by auto
    qed
  qed
qed simp

section \<open>Strings\<close>

text \<open>\<open>str::starts_with\<close>, \<open>str::contains\<close> with a string pattern, \<open>trim_start_matches(char)\<close>.\<close>

definition starts_with :: "string \<Rightarrow> string \<Rightarrow> bool" where
  "starts_with s p \<longleftrightarrow> take (length p) s = p"

fun contains :: "string \<Rightarrow> string \<Rightarrow> bool" where
  "contains [] q = (q = [])"
| "contains (c # s) q = (starts_with (c # s) q \<or> contains s q)"

definition trim_start_matches :: "char \<Rightarrow> string \<Rightarrow> string" where
  "trim_start_matches c s = dropWhile (\<lambda>x. x = c) s"

lemma contains_iff: "contains s q \<longleftrightarrow> (\<exists>u v. s = u @ q @ v)"
proof (induction s)
  case Nil
  then show ?case by auto
next
  case (Cons c s)
  have "starts_with (c # s) q \<longleftrightarrow> (\<exists>v. c # s = q @ v)"
    unfolding starts_with_def by (metis append_take_drop_id append_eq_conv_conj)
  moreover have "(\<exists>u v. c # s = u @ q @ v) \<longleftrightarrow> (\<exists>v. c # s = q @ v) \<or> (\<exists>u v. s = u @ q @ v)"
    by (metis append_Cons append_Nil list.exhaust list.sel(3))
  ultimately show ?case
    using Cons.IH by simp
qed

text \<open>\<open>str::split(char)\<close>: always at least one piece.\<close>

fun split_on :: "'a \<Rightarrow> 'a list \<Rightarrow> 'a list list" where
  "split_on d [] = [[]]"
| "split_on d (c # s) =
     (if c = d then [] # split_on d s
      else case split_on d s of [] \<Rightarrow> [[c]] | p # ps \<Rightarrow> (c # p) # ps)"

lemma split_on_ne [simp]: "split_on d s \<noteq> []"
  by (induction s) (auto split: list.splits)

lemma split_on_free: "d \<notin> set s \<Longrightarrow> split_on d s = [s]"
  by (induction s) auto

lemma split_on_piece: "d \<notin> set s \<Longrightarrow> split_on d (s @ d # t) = s # split_on d t"
  by (induction s) auto

text \<open>
  \<open>String::pop\<close> removes the last scalar value: its continuation bytes and the byte that starts
  it. \<open>chars().count()\<close> counts starting bytes; \<open>chars().take(n)\<close> keeps the first \<open>n\<close> scalar values;
  \<open>get(..n)\<close> is \<open>None\<close> past the end and inside a scalar value.
\<close>

definition string_pop :: "string \<Rightarrow> string option" where
  "string_pop s =
     (if s = [] then None
      else Some (rev (tl (dropWhile (\<lambda>c. is_cont (byte_of c)) (rev s)))))"

definition chars_count :: "string \<Rightarrow> nat" where
  "chars_count s = length (filter (\<lambda>c. \<not> is_cont (byte_of c)) s)"

fun chars_take :: "nat \<Rightarrow> string \<Rightarrow> string" where
  "chars_take n [] = []"
| "chars_take n (c # s) =
     (if is_cont (byte_of c) then c # chars_take n s
      else case n of 0 \<Rightarrow> [] | Suc m \<Rightarrow> c # chars_take m s)"

definition get_prefix :: "nat \<Rightarrow> string \<Rightarrow> string option" where
  "get_prefix n s =
     (if n < length s \<and> \<not> is_cont (byte_of (s ! n)) \<or> n = length s then Some (take n s)
      else None)"

lemma chars_count_take: "chars_count (chars_take n s) = min n (chars_count s)"
  by (induction n s rule: chars_take.induct) (auto simp: chars_count_def split: nat.splits)

lemma string_pop_snoc: "\<not> is_cont (byte_of c) \<Longrightarrow> string_pop (s @ [c]) = Some s"
  by (simp add: string_pop_def)

section \<open>Decimal numbers\<close>

definition digit_char :: "nat \<Rightarrow> char" where
  "digit_char d = char_of (48 + d)"

definition hex_digit :: "nat \<Rightarrow> char" where
  "hex_digit d = (if d < 10 then digit_char d else char_of (87 + d))"

definition is_digit :: "char \<Rightarrow> bool" where
  "is_digit c \<longleftrightarrow> 48 \<le> (of_char c :: nat) \<and> (of_char c :: nat) \<le> 57"

definition digit_val :: "char \<Rightarrow> nat" where
  "digit_val c = of_char c - 48"

text \<open>\<open>to_string\<close> / \<open>{}\<close> of an unsigned integer, and of a signed one.\<close>

fun show_nat :: "nat \<Rightarrow> string" where
  "show_nat n = (if n < 10 then [digit_char n] else show_nat (n div 10) @ [digit_char (n mod 10)])"

declare show_nat.simps [simp del]

definition show_i32 :: "i32 \<Rightarrow> string" where
  "show_i32 w = (if sint w < 0 then ''-'' @ show_nat (nat (- sint w)) else show_nat (nat (sint w)))"

text \<open>\<open>str::parse\<close> into an unsigned integer below \<open>bound\<close>: an optional \<open>+\<close>, then digits only.\<close>

definition digits_val :: "string \<Rightarrow> nat" where
  "digits_val s = foldl (\<lambda>n c. 10 * n + digit_val c) 0 s"

definition parse_uint :: "nat \<Rightarrow> string \<Rightarrow> nat option" where
  "parse_uint bound s =
     (let ds = (case s of CHR ''+'' # t \<Rightarrow> t | _ \<Rightarrow> s)
      in if ds \<noteq> [] \<and> list_all is_digit ds \<and> digits_val ds < bound then Some (digits_val ds)
         else None)"

definition parse_u32 :: "string \<Rightarrow> u32 option" where
  "parse_u32 s = map_option word_of_nat (parse_uint (2 ^ 32) s)"

lemma digit_char_props:
  "d < 10 \<Longrightarrow> is_digit (digit_char d) \<and> digit_val (digit_char d) = d"
  by (simp add: is_digit_def digit_val_def digit_char_def of_char_of)

lemma show_nat_digits: "list_all is_digit (show_nat n)"
proof (induction n rule: show_nat.induct)
  case (1 n)
  then show ?case
    by (cases "n < 10") (auto simp: show_nat.simps [of n] digit_char_props)
qed

lemma show_nat_ne [simp]: "show_nat n \<noteq> []"
  by (simp add: show_nat.simps [of n])

lemma digits_val_show_nat [simp]: "digits_val (show_nat n) = n"
proof (induction n rule: show_nat.induct)
  case (1 n)
  then show ?case
    by (cases "n < 10") (auto simp: show_nat.simps [of n] digits_val_def digit_char_props)
qed

lemma is_digit_not_plus: "is_digit c \<Longrightarrow> c \<noteq> CHR ''+''"
  by (auto simp: is_digit_def)

lemma parse_uint_show_nat: "n < bound \<Longrightarrow> parse_uint bound (show_nat n) = Some n"
proof -
  assume n: "n < bound"
  obtain c t where ct: "show_nat n = c # t"
    by (cases "show_nat n") auto
  have "is_digit c"
    using show_nat_digits [of n] ct by simp
  then have "(case show_nat n of CHR ''+'' # u \<Rightarrow> u | _ \<Rightarrow> show_nat n) = show_nat n"
    using is_digit_not_plus [of c] ct
    by (auto split: list.splits char.splits bool.splits)
  then show ?thesis
    using n show_nat_digits [of n] by (simp add: parse_uint_def)
qed

lemma parse_u32_show_nat: "n < 2 ^ 32 \<Longrightarrow> parse_u32 (show_nat n) = Some (word_of_nat n)"
  by (simp add: parse_u32_def parse_uint_show_nat)

lemma show_nat_no_sep: "\<not> is_digit d \<Longrightarrow> d \<notin> set (show_nat n)"
  using show_nat_digits [of n] by (auto simp: list_all_iff)

section \<open>Lower case, and an iterator's n-th element\<close>

text \<open>
  \<open>str::to_lowercase\<close>: letters of ASCII text are mapped here; the Unicode tables for text beyond
  ASCII are a parameter.
\<close>

definition ascii_lower :: "char \<Rightarrow> char" where
  "ascii_lower c = (if 65 \<le> (of_char c :: nat) \<and> (of_char c :: nat) \<le> 90 then char_of ((of_char c :: nat) + 32) else c)"

definition to_lowercase :: "(string \<Rightarrow> string) \<Rightarrow> string \<Rightarrow> string" where
  "to_lowercase unicode s =
     (if list_all (\<lambda>c. (of_char c :: nat) < 128) s then map ascii_lower s else unicode s)"

fun nth_opt :: "'a list \<Rightarrow> nat \<Rightarrow> 'a option" where
  "nth_opt [] i = None"
| "nth_opt (x # xs) i = (case i of 0 \<Rightarrow> Some x | Suc j \<Rightarrow> nth_opt xs j)"

lemma nth_opt_eq: "nth_opt xs i = (if i < length xs then Some (xs ! i) else None)"
  by (induction xs arbitrary: i) (auto split: nat.splits)

lemma nth_opt_Some [simp]: "i < length xs \<Longrightarrow> nth_opt xs i = Some (xs ! i)"
  by (simp add: nth_opt_eq)

section \<open>Text the messages share\<close>

text \<open>An em dash (U+2014), and \<open>slice::join\<close> of strings.\<close>

definition em_dash :: string where
  "em_dash = [CHR 0xE2, CHR 0x80, CHR 0x94]"

fun str_join :: "string \<Rightarrow> string list \<Rightarrow> string" where
  "str_join sep [] = []"
| "str_join sep [s] = s"
| "str_join sep (s # ss) = s @ sep @ str_join sep ss"

end
