(* ===== verification/Proto.thy ===== *)
theory Proto
  imports RustStd
begin

text \<open>
  The wire types of \<open>crates/tepegoz-proto/src/lib.rs\<close>: every message the client, the daemon and
  the agents exchange. Structs are records (the fields carry a short prefix that names their
  struct), enums are datatypes with the source's variants.
\<close>

section \<open>Leaf types\<close>

type_synonym pane_id = u64

text \<open>\<open>crates/tepegoz-proto/PROTOCOL_VERSION\<close>, read by \<open>build.rs\<close>.\<close>

definition PROTOCOL_VERSION :: u32 where
  "PROTOCOL_VERSION = 12"

record hello =
  he_client_version :: u32
  he_client_name :: string

record welcome_info =
  we_daemon_version :: string
  we_protocol_version :: u32
  we_daemon_pid :: u32

record status_snapshot =
  ss_daemon_pid :: u32
  ss_daemon_version :: string
  ss_started_at_unix_millis :: u64
  ss_uptime_seconds :: u64
  ss_clients_now :: u32
  ss_clients_total :: u64
  ss_events_sent :: u64
  ss_socket_path :: string
  ss_panes_open :: u32

datatype pane_target = PtLocal | PtRemote string

datatype scope_target = StLocal | StRemote string

record env_var =
  ev_key :: string
  ev_value :: string

record open_pane_spec =
  ops_shell :: "string option"
  ops_cwd :: "string option"
  ops_env :: "env_var list"
  ops_rows :: u16
  ops_cols :: u16
  ops_target :: pane_target

record pane_info =
  pi_id :: pane_id
  pi_created_at_unix_millis :: u64
  pi_rows :: u16
  pi_cols :: u16
  pi_shell :: string
  pi_alive :: bool

datatype error_kind =
  VersionMismatch | UnknownSubscription | UnknownPane | InvalidRequest | Internal

record error_info =
  ei_kind :: error_kind
  ei_message :: string

text \<open>What \<open>#[derive(Debug)]\<close> prints for an error kind.\<close>

fun error_kind_debug :: "error_kind \<Rightarrow> string" where
  "error_kind_debug VersionMismatch = ''VersionMismatch''"
| "error_kind_debug UnknownSubscription = ''UnknownSubscription''"
| "error_kind_debug UnknownPane = ''UnknownPane''"
| "error_kind_debug InvalidRequest = ''InvalidRequest''"
| "error_kind_debug Internal = ''Internal''"

section \<open>Docker, ports, processes, hosts\<close>

record docker_port =
  dp_ip :: string
  dp_private_port :: u16
  dp_public_port :: u16
  dp_protocol :: string

record key_value =
  kv_key :: string
  kv_value :: string

record docker_container =
  dc_id :: string
  dc_names :: "string list"
  dc_image :: string
  dc_image_id :: string
  dc_command :: string
  dc_created_unix_secs :: i64
  dc_state :: string
  dc_status :: string
  dc_ports :: "docker_port list"
  dc_labels :: "key_value list"

datatype docker_action_kind = DaStart | DaStop | DaRestart | DaKill | DaRemove

record docker_action_request =
  dar_request_id :: u64
  dar_container_id :: string
  dar_kind :: docker_action_kind
  dar_target :: scope_target

datatype docker_action_outcome = DaSuccess | DaFailure string

record docker_action_result =
  dres_request_id :: u64
  dres_container_id :: string
  dres_kind :: docker_action_kind
  dres_outcome :: docker_action_outcome
  dres_target :: scope_target

datatype log_stream = Stdout | Stderr

record docker_stats =
  ds_cpu_percent :: f32
  ds_mem_bytes :: u64
  ds_mem_limit_bytes :: u64

record probe_port =
  pp_local_ip :: string
  pp_local_port :: u16
  pp_protocol :: string
  pp_pid :: u32
  pp_process_name :: string
  pp_container_id :: "string option"
  pp_partial :: bool

record probe_process =
  pr_pid :: u32
  pr_parent_pid :: u32
  pr_start_time_unix_secs :: i64
  pr_command :: string
  pr_cpu_percent :: "f32 option"
  pr_mem_bytes :: u64
  pr_partial :: bool

record host_entry =
  he_alias :: string
  he_hostname :: string
  he_user :: string
  he_port :: u16
  he_identity_files :: "string list"
  he_proxy_jump :: "string option"

datatype host_state =
  HsDisconnected | HsConnecting | HsConnected | HsDegraded
| HsAuthFailed | HsHostKeyMismatch | HsAgentNotDeployed | HsAgentVersionMismatch

fun is_terminal :: "host_state \<Rightarrow> bool" where
  "is_terminal HsAuthFailed = True"
| "is_terminal HsHostKeyMismatch = True"
| "is_terminal HsAgentNotDeployed = True"
| "is_terminal HsAgentVersionMismatch = True"
| "is_terminal _ = False"

datatype fleet_action_kind = FaReconnect | FaDisconnect

record fleet_action_request =
  far_request_id :: u64
  far_alias :: string
  far_kind :: fleet_action_kind

datatype fleet_action_outcome = FaSuccess | FaFailure string

record fleet_action_result =
  fres_request_id :: u64
  fres_alias :: string
  fres_kind :: fleet_action_kind
  fres_outcome :: fleet_action_outcome

section \<open>Subscriptions, events, payloads\<close>

datatype subscription =
  SubStatus u64
| SubDocker u64 scope_target
| SubDockerLogs u64 string bool u32 scope_target
    \<comment> \<open>id, container id, follow, tail lines, target\<close>
| SubDockerStats u64 string scope_target
| SubPorts u64 scope_target
| SubProcesses u64 scope_target
| SubFleet u64

datatype event =
  EvStatus status_snapshot
| EvPaneSnapshot "u8 list" u16 u16
| EvPaneOutput "u8 list"
| EvPaneExit "i32 option"
| EvPaneLagged u64
| EvContainerList "docker_container list" string
| EvDockerUnavailable string
| EvContainerLog log_stream "u8 list"
| EvContainerStats docker_stats
| EvDockerStreamEnded string
| EvPortList "probe_port list" string
| EvPortsUnavailable string
| EvProcessList "probe_process list" string
| EvProcessesUnavailable string
| EvHostList "host_entry list" string
| EvHostStateChanged string host_state "string option"
| EvAgentCapabilities string "string list"

record event_frame =
  ef_subscription_id :: u64
  ef_event :: event

datatype payload =
  PHello hello
| PPing
| PSubscribe subscription
| PUnsubscribe u64
| POpenPane open_pane_spec
| PAttachPane pane_id u64 \<comment> \<open>pane id, subscription id\<close>
| PClosePane pane_id
| PListPanes
| PSendInput pane_id "u8 list"
| PResizePane pane_id u16 u16 \<comment> \<open>pane id, rows, cols\<close>
| PDockerAction docker_action_request
| PFleetAction fleet_action_request
| PAgentHandshake u64
| PWelcome welcome_info
| PPong
| PEvent event_frame
| PPaneOpened pane_info
| PPaneList "pane_info list"
| PDockerActionResult docker_action_result
| PFleetActionResult fleet_action_result
| PAgentHandshakeResponse u64 u32 string string "string list"
    \<comment> \<open>request id, version, os, arch, capabilities\<close>
| PError error_info

record envelope =
  en_version :: u32
  en_payload :: payload

text \<open>The id a client chose for a subscription.\<close>

fun subscription_id :: "subscription \<Rightarrow> u64" where
  "subscription_id (SubStatus i) = i"
| "subscription_id (SubDocker i _) = i"
| "subscription_id (SubDockerLogs i _ _ _ _) = i"
| "subscription_id (SubDockerStats i _ _) = i"
| "subscription_id (SubPorts i _) = i"
| "subscription_id (SubProcesses i _) = i"
| "subscription_id (SubFleet i) = i"

end
