(* ===== verification/RowViews.thy ===== *)
theory RowViews
  imports Proto
begin

text \<open>
  The scope tiles' row tables (\<open>crates/tepegoz-tui/src/app.rs\<close>): a filter over the rows the daemon
  sent, a selection that indexes the rows that pass it, and the re-anchoring of the selection when
  the rows change. The contract every table keeps is the locale \<open>row_list\<close>, and \<open>row_view\<close> for the
  tables that follow a selected row by its key; both are interpreted on the four tables of the code.
  \<open>u\<close> is the Unicode part of \<open>str::to_lowercase\<close>.
\<close>

section \<open>The interface\<close>

locale row_list =
  fixes rows :: "'v \<Rightarrow> 'r list option"
    and matches :: "'v \<Rightarrow> 'r \<Rightarrow> bool"
    and selection :: "'v \<Rightarrow> nat"
    and visible_count :: "'v \<Rightarrow> nat"
    and selected :: "'v \<Rightarrow> 'r option"
  assumes count_law: "visible_count v =
      (case rows v of Some rs \<Rightarrow> length (filter (matches v) rs) | None \<Rightarrow> 0)"
    and selected_law: "selected v =
      (case rows v of Some rs \<Rightarrow> nth_opt (filter (matches v) rs) (selection v) | None \<Rightarrow> None)"
begin

definition visible :: "'v \<Rightarrow> 'r list" where
  "visible v = (case rows v of Some rs \<Rightarrow> filter (matches v) rs | None \<Rightarrow> [])"

text \<open>The selection is a visible row, or 0 when there is none.\<close>

definition sel_ok :: "'v \<Rightarrow> bool" where
  "sel_ok v \<longleftrightarrow> selection v < visible_count v \<or> selection v = 0 \<and> visible_count v = 0"

lemma visible_count_eq: "visible_count v = length (visible v)"
  by (simp add: count_law visible_def split: option.splits)

lemma selected_eq: "selected v = nth_opt (visible v) (selection v)"
  by (simp add: selected_law visible_def split: option.splits)

lemma selected_in: "selected v = Some r \<Longrightarrow> r \<in> set (visible v) \<and> matches v r"
  by (auto simp: selected_law visible_def nth_opt_eq split: option.splits if_splits
      dest: nth_mem)

lemma sel_ok_selects: "sel_ok v \<Longrightarrow> 0 < visible_count v \<Longrightarrow> \<exists>r. selected v = Some r"
  by (auto simp: sel_ok_def selected_eq visible_count_eq nth_opt_eq)

end

locale row_view = row_list rows matches selection visible_count selected
  for rows :: "'v \<Rightarrow> 'r list option"
    and matches :: "'v \<Rightarrow> 'r \<Rightarrow> bool"
    and selection :: "'v \<Rightarrow> nat"
    and visible_count :: "'v \<Rightarrow> nat"
    and selected :: "'v \<Rightarrow> 'r option" +
  fixes key :: "'r \<Rightarrow> 'k"
    and selected_key :: "'v \<Rightarrow> 'k option"
    and reanchor :: "'k option \<Rightarrow> 'v \<Rightarrow> 'v"
  assumes key_law: "selected_key v = map_option key (selected v)"
    and reanchor_rows: "rows (reanchor k v) = rows v"
    and reanchor_matches: "matches (reanchor k v) = matches v"
    and reanchor_law: "selection (reanchor k v) =
      (case rows v of
         None \<Rightarrow> 0
       | Some rs \<Rightarrow>
           let vis = filter (matches v) rs;
               clamped = (if vis = [] then 0
                          else if length vis \<le> selection v then length vis - 1 else selection v)
           in case k of
                None \<Rightarrow> clamped
              | Some k' \<Rightarrow> (case position (\<lambda>r. key r = k') vis of Some i \<Rightarrow> i | None \<Rightarrow> clamped))"
begin

lemma reanchor_visible [simp]: "visible (reanchor k v) = visible v"
  unfolding visible_def reanchor_rows reanchor_matches ..

lemma reanchor_selection:
  "selection (reanchor k v) =
     (let clamped = (if visible v = [] then 0
                     else if length (visible v) \<le> selection v then length (visible v) - 1
                     else selection v)
      in case k of
           None \<Rightarrow> clamped
         | Some k' \<Rightarrow> (case position (\<lambda>r. key r = k') (visible v) of Some i \<Rightarrow> i | None \<Rightarrow> clamped))"
  by (auto simp: reanchor_law visible_def Let_def split: option.splits)

lemma reanchor_ok: "sel_ok (reanchor k v)"
proof (cases k)
  case (Some k')
  show ?thesis
  proof (cases "position (\<lambda>r. key r = k') (visible v)")
    case (Some i)
    with \<open>k = Some k'\<close> show ?thesis
      using position_Some [OF Some] by (simp add: sel_ok_def visible_count_eq reanchor_selection)
  qed (use \<open>k = Some k'\<close> in \<open>auto simp: sel_ok_def visible_count_eq reanchor_selection Let_def\<close>)
qed (auto simp: sel_ok_def visible_count_eq reanchor_selection Let_def)

text \<open>A row that is still there stays selected, whatever its index is now.\<close>

lemma reanchor_follows:
  "r \<in> set (visible v) \<Longrightarrow> key r = k \<Longrightarrow> selected_key (reanchor (Some k) v) = Some k"
proof -
  assume "r \<in> set (visible v)" "key r = k"
  then obtain i where i: "position (\<lambda>r. key r = k) (visible v) = Some i"
    by (cases "position (\<lambda>r. key r = k) (visible v)") (auto simp: position_None)
  then show ?thesis
    using position_Some [OF i] by (simp add: key_law selected_eq reanchor_selection)
qed

lemma reanchor_lost:
  "k \<notin> key ` set (visible v) \<Longrightarrow> selection (reanchor (Some k) v) = min (selection v) (length (visible v) - 1)"
proof -
  assume "k \<notin> key ` set (visible v)"
  then have "position (\<lambda>r. key r = k) (visible v) = None"
    by (auto simp: position_None)
  then show ?thesis by (auto simp: reanchor_selection Let_def min_def)
qed

end

section \<open>Ports\<close>

datatype ports_view_state =
  PvConnecting
| PvAvailable "probe_port list" string
| PvUnavailable string

record ports_view =
  pv_state :: ports_view_state
  pv_selection :: nat
  pv_filter :: string
  pv_filter_active :: bool

record port_key =
  pk_protocol :: string
  pk_local_port :: u16
  pk_pid :: u32

definition port_key_of :: "probe_port \<Rightarrow> port_key" where
  "port_key_of p = \<lparr>pk_protocol = pp_protocol p, pk_local_port = pp_local_port p, pk_pid = pp_pid p\<rparr>"

definition pv_matches :: "(string \<Rightarrow> string) \<Rightarrow> ports_view \<Rightarrow> probe_port \<Rightarrow> bool" where
  "pv_matches u v p =
     (if pv_filter v = [] then True
      else
        let q = to_lowercase u (pv_filter v)
        in contains (to_lowercase u (pp_process_name p)) q \<or>
           contains (to_lowercase u (pp_local_ip p)) q \<or>
           contains (show_nat (unat (pp_local_port p))) q \<or>
           (case pp_container_id p of Some i \<Rightarrow> contains (to_lowercase u i) q | None \<Rightarrow> False))"

definition pv_visible_count :: "(string \<Rightarrow> string) \<Rightarrow> ports_view \<Rightarrow> nat" where
  "pv_visible_count u v =
     (case pv_state v of PvAvailable rows _ \<Rightarrow> length (filter (pv_matches u v) rows) | _ \<Rightarrow> 0)"

definition selected_port :: "(string \<Rightarrow> string) \<Rightarrow> ports_view \<Rightarrow> probe_port option" where
  "selected_port u v =
     (case pv_state v of
        PvAvailable rows _ \<Rightarrow> nth_opt (filter (pv_matches u v) rows) (pv_selection v)
      | _ \<Rightarrow> None)"

definition pv_selected_key :: "(string \<Rightarrow> string) \<Rightarrow> ports_view \<Rightarrow> port_key option" where
  "pv_selected_key u v = map_option port_key_of (selected_port u v)"

definition pv_reanchor :: "(string \<Rightarrow> string) \<Rightarrow> port_key option \<Rightarrow> ports_view \<Rightarrow> ports_view" where
  "pv_reanchor u old_key v =
     (case pv_state v of
        PvAvailable rows _ \<Rightarrow>
          let visible = filter (pv_matches u v) rows;
              found = (case old_key of Some key \<Rightarrow> position (\<lambda>p. port_key_of p = key) visible | None \<Rightarrow> None)
          in case found of
               Some idx \<Rightarrow> v\<lparr>pv_selection := idx\<rparr>
             | None \<Rightarrow>
                 if visible = [] then v\<lparr>pv_selection := 0\<rparr>
                 else if length visible \<le> pv_selection v then v\<lparr>pv_selection := length visible - 1\<rparr>
                 else v
      | _ \<Rightarrow> v\<lparr>pv_selection := 0\<rparr>)"

definition pv_rows :: "ports_view \<Rightarrow> probe_port list option" where
  "pv_rows v = (case pv_state v of PvAvailable rows _ \<Rightarrow> Some rows | _ \<Rightarrow> None)"

lemma pv_matches_selection [simp]: "pv_matches u (v\<lparr>pv_selection := i\<rparr>) = pv_matches u v"
  by (rule ext) (simp add: pv_matches_def)

interpretation ports: row_view pv_rows "pv_matches u" pv_selection "pv_visible_count u"
  "selected_port u" port_key_of "pv_selected_key u" "pv_reanchor u" for u
  by unfold_locales
    (auto simp: pv_rows_def pv_visible_count_def selected_port_def pv_selected_key_def pv_reanchor_def
      Let_def split: ports_view_state.splits option.splits)

section \<open>Processes\<close>

datatype processes_view_state =
  SvConnecting
| SvAvailable "probe_process list" string
| SvUnavailable string

record processes_view =
  sv_state :: processes_view_state
  sv_selection :: nat
  sv_filter :: string
  sv_filter_active :: bool

record process_key =
  sk_pid :: u32
  sk_start_time_unix_secs :: i64

definition process_key_of :: "probe_process \<Rightarrow> process_key" where
  "process_key_of p = \<lparr>sk_pid = pr_pid p, sk_start_time_unix_secs = pr_start_time_unix_secs p\<rparr>"

definition sv_matches :: "(string \<Rightarrow> string) \<Rightarrow> processes_view \<Rightarrow> probe_process \<Rightarrow> bool" where
  "sv_matches u v p =
     (if sv_filter v = [] then True
      else
        let q = to_lowercase u (sv_filter v)
        in contains (to_lowercase u (pr_command p)) q \<or> contains (show_nat (unat (pr_pid p))) q)"

definition sv_visible_count :: "(string \<Rightarrow> string) \<Rightarrow> processes_view \<Rightarrow> nat" where
  "sv_visible_count u v =
     (case sv_state v of SvAvailable rows _ \<Rightarrow> length (filter (sv_matches u v) rows) | _ \<Rightarrow> 0)"

definition selected_process :: "(string \<Rightarrow> string) \<Rightarrow> processes_view \<Rightarrow> probe_process option" where
  "selected_process u v =
     (case sv_state v of
        SvAvailable rows _ \<Rightarrow> nth_opt (filter (sv_matches u v) rows) (sv_selection v)
      | _ \<Rightarrow> None)"

definition sv_selected_key :: "(string \<Rightarrow> string) \<Rightarrow> processes_view \<Rightarrow> process_key option" where
  "sv_selected_key u v = map_option process_key_of (selected_process u v)"

definition sv_reanchor :: "(string \<Rightarrow> string) \<Rightarrow> process_key option \<Rightarrow> processes_view \<Rightarrow> processes_view" where
  "sv_reanchor u old_key v =
     (case sv_state v of
        SvAvailable rows _ \<Rightarrow>
          let visible = filter (sv_matches u v) rows;
              found = (case old_key of Some key \<Rightarrow> position (\<lambda>p. process_key_of p = key) visible | None \<Rightarrow> None)
          in case found of
               Some idx \<Rightarrow> v\<lparr>sv_selection := idx\<rparr>
             | None \<Rightarrow>
                 if visible = [] then v\<lparr>sv_selection := 0\<rparr>
                 else if length visible \<le> sv_selection v then v\<lparr>sv_selection := length visible - 1\<rparr>
                 else v
      | _ \<Rightarrow> v\<lparr>sv_selection := 0\<rparr>)"

definition sv_rows :: "processes_view \<Rightarrow> probe_process list option" where
  "sv_rows v = (case sv_state v of SvAvailable rows _ \<Rightarrow> Some rows | _ \<Rightarrow> None)"

lemma sv_matches_selection [simp]: "sv_matches u (v\<lparr>sv_selection := i\<rparr>) = sv_matches u v"
  by (rule ext) (simp add: sv_matches_def)

interpretation procs: row_view sv_rows "sv_matches u" sv_selection "sv_visible_count u"
  "selected_process u" process_key_of "sv_selected_key u" "sv_reanchor u" for u
  by unfold_locales
    (auto simp: sv_rows_def sv_visible_count_def selected_process_def sv_selected_key_def sv_reanchor_def
      Let_def split: processes_view_state.splits option.splits)

section \<open>The two views of the Ports tile\<close>

datatype ports_active_view = AvPorts | AvProcesses

record ports_scope =
  po_ports :: ports_view
  po_processes :: processes_view
  po_active :: ports_active_view
  po_ports_sub_id :: u64
  po_processes_sub_id :: u64
  po_ports_target :: scope_target
  po_processes_target :: scope_target

definition ports_scope_new :: "u64 \<Rightarrow> u64 \<Rightarrow> ports_scope" where
  "ports_scope_new ports_sub_id processes_sub_id =
     \<lparr>po_ports = \<lparr>pv_state = PvConnecting, pv_selection = 0, pv_filter = [], pv_filter_active = False\<rparr>,
      po_processes = \<lparr>sv_state = SvConnecting, sv_selection = 0, sv_filter = [], sv_filter_active = False\<rparr>,
      po_active = AvPorts, po_ports_sub_id = ports_sub_id, po_processes_sub_id = processes_sub_id,
      po_ports_target = StLocal, po_processes_target = StLocal\<rparr>"

section \<open>Fleet\<close>

datatype fleet_scope_state =
  FsConnecting
| FsAvailable "host_entry list" "string \<rightharpoonup> host_state" string

record fleet_scope =
  fl_state :: fleet_scope_state
  fl_selection :: nat
  fl_filter :: string
  fl_filter_active :: bool
  fl_sub_id :: u64

definition fleet_scope_new :: "u64 \<Rightarrow> fleet_scope" where
  "fleet_scope_new sub_id =
     \<lparr>fl_state = FsConnecting, fl_selection = 0, fl_filter = [], fl_filter_active = False,
      fl_sub_id = sub_id\<rparr>"

datatype fleet_key = FleetKey string

definition fleet_key_of :: "host_entry \<Rightarrow> fleet_key" where
  "fleet_key_of h = FleetKey (he_alias h)"

definition fl_matches :: "(string \<Rightarrow> string) \<Rightarrow> fleet_scope \<Rightarrow> host_entry \<Rightarrow> bool" where
  "fl_matches u f h =
     (if fl_filter f = [] then True
      else
        let q = to_lowercase u (fl_filter f)
        in contains (to_lowercase u (he_alias h)) q \<or>
           contains (to_lowercase u (he_hostname h)) q \<or>
           contains (to_lowercase u (he_user h)) q)"

definition fl_visible_count :: "(string \<Rightarrow> string) \<Rightarrow> fleet_scope \<Rightarrow> nat" where
  "fl_visible_count u f =
     (case fl_state f of FsAvailable hosts _ _ \<Rightarrow> length (filter (fl_matches u f) hosts) | _ \<Rightarrow> 0)"

definition selected_host :: "(string \<Rightarrow> string) \<Rightarrow> fleet_scope \<Rightarrow> host_entry option" where
  "selected_host u f =
     (case fl_state f of
        FsAvailable hosts _ _ \<Rightarrow> nth_opt (filter (fl_matches u f) hosts) (fl_selection f)
      | _ \<Rightarrow> None)"

definition fl_selected_key :: "(string \<Rightarrow> string) \<Rightarrow> fleet_scope \<Rightarrow> fleet_key option" where
  "fl_selected_key u f = map_option fleet_key_of (selected_host u f)"

definition fl_reanchor :: "(string \<Rightarrow> string) \<Rightarrow> fleet_key option \<Rightarrow> fleet_scope \<Rightarrow> fleet_scope" where
  "fl_reanchor u old_key f =
     (case fl_state f of
        FsAvailable hosts _ _ \<Rightarrow>
          let visible = filter (fl_matches u f) hosts;
              found = (case old_key of Some key \<Rightarrow> position (\<lambda>h. fleet_key_of h = key) visible | None \<Rightarrow> None)
          in case found of
               Some idx \<Rightarrow> f\<lparr>fl_selection := idx\<rparr>
             | None \<Rightarrow>
                 if visible = [] then f\<lparr>fl_selection := 0\<rparr>
                 else if length visible \<le> fl_selection f then f\<lparr>fl_selection := length visible - 1\<rparr>
                 else f
      | _ \<Rightarrow> f\<lparr>fl_selection := 0\<rparr>)"

definition fl_rows :: "fleet_scope \<Rightarrow> host_entry list option" where
  "fl_rows f = (case fl_state f of FsAvailable hosts _ _ \<Rightarrow> Some hosts | _ \<Rightarrow> None)"

lemma fl_matches_selection [simp]: "fl_matches u (f\<lparr>fl_selection := i\<rparr>) = fl_matches u f"
  by (rule ext) (simp add: fl_matches_def)

interpretation fleet: row_view fl_rows "fl_matches u" fl_selection "fl_visible_count u"
  "selected_host u" fleet_key_of "fl_selected_key u" "fl_reanchor u" for u
  by unfold_locales
    (auto simp: fl_rows_def fl_visible_count_def selected_host_def fl_selected_key_def fl_reanchor_def
      Let_def split: fleet_scope_state.splits option.splits)

end
