(* ===== verification/Logs.thy ===== *)
theory Logs
  imports Proto
begin

text \<open>
  The log transcript of one container (\<open>LogsView\<close> of \<open>crates/tepegoz-tui/src/app.rs\<close>): bytes of the
  two streams become lines, the newest \<open>MAX_LOG_LINES\<close> are kept, and a scroll position counts lines
  from the tail.
\<close>

definition MAX_LOG_LINES :: nat where "MAX_LOG_LINES = 10000"
definition LOGS_PAGE_LINES :: nat where "LOGS_PAGE_LINES = 10"

record log_line =
  ll_stream :: log_stream
  ll_text :: string

record logs_view =
  lv_container_id :: string
  lv_container_name :: string
  lv_sub_id :: u64
  lv_lines :: "log_line list"
  lv_pending_stdout :: "u8 list"
  lv_pending_stderr :: "u8 list"
  lv_scroll_offset :: nat
  lv_at_tail :: bool
  lv_stream_ended :: "string option"

definition logs_view_new :: "string \<Rightarrow> string \<Rightarrow> u64 \<Rightarrow> logs_view" where
  "logs_view_new container_id container_name sub_id =
     \<lparr>lv_container_id = container_id, lv_container_name = container_name, lv_sub_id = sub_id,
      lv_lines = [], lv_pending_stdout = [], lv_pending_stderr = [], lv_scroll_offset = 0,
      lv_at_tail = True, lv_stream_ended = None\<rparr>"

text \<open>The text of a raw line: without its newline, and without a carriage return before that.\<close>

definition line_text :: "u8 list \<Rightarrow> string" where
  "line_text raw =
     (let e = length raw - 1;
          e' = (if 0 < e \<and> raw ! (e - 1) = 0x0d then e - 1 else e)
      in from_utf8_lossy (take e' raw))"

text \<open>The loop that drains complete lines: their texts and the bytes left pending.\<close>

function drain_lines :: "u8 list \<Rightarrow> string list \<times> u8 list" where
  "drain_lines pending =
     (case position (\<lambda>b. b = 0x0a) pending of
        None \<Rightarrow> ([], pending)
      | Some nl \<Rightarrow>
          let raw = take (Suc nl) pending;
              (completed, rest) = drain_lines (drop (Suc nl) pending)
          in (line_text raw # completed, rest))"
  by pat_completeness auto
termination
  by (relation "measure length") (auto dest!: position_Some)

declare drain_lines.simps [simp del]

definition push_line :: "log_line \<Rightarrow> logs_view \<Rightarrow> logs_view" where
  "push_line line v =
     v\<lparr>lv_lines := (if MAX_LOG_LINES \<le> length (lv_lines v) then tl (lv_lines v) else lv_lines v) @ [line]\<rparr>"

definition push_texts :: "log_stream \<Rightarrow> string list \<Rightarrow> logs_view \<Rightarrow> logs_view" where
  "push_texts s texts v = fold (\<lambda>t. push_line \<lparr>ll_stream = s, ll_text = t\<rparr>) texts v"

definition ingest :: "log_stream \<Rightarrow> u8 list \<Rightarrow> logs_view \<Rightarrow> logs_view" where
  "ingest s data v =
     (case s of
        Stdout \<Rightarrow>
          (case drain_lines (lv_pending_stdout v @ data) of
             (completed, rest) \<Rightarrow> push_texts s completed (v\<lparr>lv_pending_stdout := rest\<rparr>))
      | Stderr \<Rightarrow>
          (case drain_lines (lv_pending_stderr v @ data) of
             (completed, rest) \<Rightarrow> push_texts s completed (v\<lparr>lv_pending_stderr := rest\<rparr>)))"

definition scroll_up :: "nat \<Rightarrow> logs_view \<Rightarrow> logs_view" where
  "scroll_up n v =
     (let max_offset = length (lv_lines v) - 1;
          off = min (lv_scroll_offset v + n) max_offset
      in v\<lparr>lv_scroll_offset := off, lv_at_tail := (if 0 < off then False else lv_at_tail v)\<rparr>)"

definition scroll_down :: "nat \<Rightarrow> logs_view \<Rightarrow> logs_view" where
  "scroll_down n v =
     (let off = lv_scroll_offset v - n
      in v\<lparr>lv_scroll_offset := off, lv_at_tail := (if off = 0 then True else lv_at_tail v)\<rparr>)"

definition jump_to_tail :: "logs_view \<Rightarrow> logs_view" where
  "jump_to_tail v = v\<lparr>lv_scroll_offset := 0, lv_at_tail := True\<rparr>"

definition end_stream :: "string \<Rightarrow> logs_view \<Rightarrow> logs_view" where
  "end_stream reason v =
     (let out = lv_pending_stdout v;
          v1 = v\<lparr>lv_pending_stdout := []\<rparr>;
          v2 = (if out = [] then v1
                else push_line \<lparr>ll_stream = Stdout, ll_text = from_utf8_lossy out\<rparr> v1);
          err = lv_pending_stderr v2;
          v3 = v2\<lparr>lv_pending_stderr := []\<rparr>;
          v4 = (if err = [] then v3
                else push_line \<lparr>ll_stream = Stderr, ll_text = from_utf8_lossy err\<rparr> v3)
      in v4\<lparr>lv_stream_ended := Some reason, lv_at_tail := False\<rparr>)"

section \<open>Draining lines\<close>

lemma position_append:
  "position P (xs @ ys) =
     (case position P xs of Some i \<Rightarrow> Some i | None \<Rightarrow> map_option (\<lambda>i. i + length xs) (position P ys))"
  by (induction xs) (auto split: option.splits simp: option.map_comp o_def option.map_ident)

lemma drain_append:
  "drain_lines (xs @ ys) =
     (case drain_lines xs of (l1, r1) \<Rightarrow> case drain_lines (r1 @ ys) of (l2, r2) \<Rightarrow> (l1 @ l2, r2))"
proof (induction xs rule: drain_lines.induct)
  case (1 xs)
  show ?case
  proof (cases "position (\<lambda>b. b = 0x0a) xs")
    case None
    then show ?thesis by (simp add: drain_lines.simps [of xs] split: prod.splits)
  next
    case (Some nl)
    then have l: "nl < length xs" by (simp add: position_Some)
    have p: "position (\<lambda>b. b = 0x0a) (xs @ ys) = Some nl"
      using Some by (simp add: position_append)
    show ?thesis
      using 1 [OF Some] l
      by (simp add: drain_lines.simps [of xs] drain_lines.simps [of "xs @ ys"] Some p split: prod.splits)
  qed
qed

lemma drain_rest: "drain_lines xs = (ls, r) \<Longrightarrow> 0x0a \<notin> set r"
proof (induction xs arbitrary: ls r rule: drain_lines.induct)
  case (1 xs)
  then show ?case
    by (auto simp: drain_lines.simps [of xs] position_None split: option.splits prod.splits)
qed

lemma drain_free: "0x0a \<notin> set xs \<Longrightarrow> drain_lines xs = ([], xs)"
  using position_None [of "\<lambda>b. b = 0x0a" xs] by (subst drain_lines.simps) auto

section \<open>The transcript\<close>

text \<open>The last \<open>n\<close> elements.\<close>

definition last_n :: "nat \<Rightarrow> 'a list \<Rightarrow> 'a list" where
  "last_n n xs = drop (length xs - n) xs"

lemma last_n_length: "length (last_n n xs) = min n (length xs)"
  by (simp add: last_n_def min_def)

lemma last_n_all: "length xs \<le> n \<Longrightarrow> last_n n xs = xs"
  by (simp add: last_n_def)

lemma last_n_append: "last_n n (last_n n xs @ ys) = last_n n (xs @ ys)"
  by (cases "length xs \<le> n") (auto simp: last_n_def not_le add.commute)

lemma push_line_lines:
  "length (lv_lines v) \<le> MAX_LOG_LINES \<Longrightarrow> lv_lines (push_line l v) = last_n MAX_LOG_LINES (lv_lines v @ [l])"
  by (auto simp: push_line_def last_n_def MAX_LOG_LINES_def drop_Suc not_le)

lemma push_texts_lines:
  "length (lv_lines v) \<le> MAX_LOG_LINES \<Longrightarrow>
     lv_lines (push_texts s ts v) =
       last_n MAX_LOG_LINES (lv_lines v @ map (\<lambda>t. \<lparr>ll_stream = s, ll_text = t\<rparr>) ts)"
proof (induction ts arbitrary: v)
  case Nil
  then show ?case by (simp add: push_texts_def last_n_all)
next
  case (Cons t ts)
  let ?v = "push_line \<lparr>ll_stream = s, ll_text = t\<rparr> v"
  have "length (lv_lines ?v) \<le> MAX_LOG_LINES"
    using push_line_lines [OF Cons.prems] by (simp add: last_n_length)
  then show ?case
    using Cons.IH [of ?v] push_line_lines [OF Cons.prems]
    by (simp add: push_texts_def last_n_append [of _ "lv_lines v @ [_]", simplified])
qed

lemma push_texts_frame:
  "lv_pending_stdout (push_texts s ts v) = lv_pending_stdout v"
  "lv_pending_stderr (push_texts s ts v) = lv_pending_stderr v"
  "lv_scroll_offset (push_texts s ts v) = lv_scroll_offset v"
  "lv_at_tail (push_texts s ts v) = lv_at_tail v"
  "lv_sub_id (push_texts s ts v) = lv_sub_id v"
  "lv_container_id (push_texts s ts v) = lv_container_id v"
  "lv_container_name (push_texts s ts v) = lv_container_name v"
  "lv_stream_ended (push_texts s ts v) = lv_stream_ended v"
  by (induction ts arbitrary: v) (auto simp: push_texts_def push_line_def)


text \<open>What \<open>n\<close>-th lines mean: the stream cut at its newlines, all pieces but the last complete.\<close>

lemma position_split:
  "position (\<lambda>b. b = d) xs = Some i \<Longrightarrow> split_on d xs = take i xs # split_on d (drop (Suc i) xs)"
proof -
  assume p: "position (\<lambda>b. b = d) xs = Some i"
  note q = position_Some [OF p]
  have "xs = take i xs @ d # drop (Suc i) xs"
    using q id_take_nth_drop [of i xs] by auto
  moreover have "d \<notin> set (take i xs)"
    using q by (auto simp: in_set_conv_nth)
  ultimately show ?thesis using split_on_piece by metis
qed

lemma drain_lines_split:
  "drain_lines xs = (map (\<lambda>l. line_text (l @ [0x0a])) (butlast (split_on 0x0a xs)), last (split_on 0x0a xs))"
proof (induction xs rule: drain_lines.induct)
  case (1 xs)
  show ?case
  proof (cases "position (\<lambda>b. b = 0x0a) xs")
    case None
    then have "0x0a \<notin> set xs" by (auto simp: position_None)
    then show ?thesis by (simp add: drain_free split_on_free)
  next
    case (Some nl)
    note q = position_Some [OF Some]
    have "take (Suc nl) xs = take nl xs @ [0x0a]"
      using q by (simp add: take_Suc_conv_app_nth)
    then show ?thesis
      using 1 [OF Some] position_split [OF Some]
      by (simp add: drain_lines.simps [of xs] Some)
  qed
qed

fun stream_bytes :: "log_stream \<Rightarrow> (log_stream \<times> u8 list) list \<Rightarrow> u8 list" where
  "stream_bytes s [] = []"
| "stream_bytes s ((s', d) # cs) = (if s' = s then d else []) @ stream_bytes s cs"

definition ingest_all :: "(log_stream \<times> u8 list) list \<Rightarrow> logs_view \<Rightarrow> logs_view" where
  "ingest_all cs v = fold (\<lambda>(s, d). ingest s d) cs v"

definition pending_of :: "log_stream \<Rightarrow> logs_view \<Rightarrow> u8 list" where
  "pending_of s v = (case s of Stdout \<Rightarrow> lv_pending_stdout v | Stderr \<Rightarrow> lv_pending_stderr v)"

definition texts_of :: "log_stream \<Rightarrow> log_line list \<Rightarrow> string list" where
  "texts_of s ls = map ll_text (filter (\<lambda>l. ll_stream l = s) ls)"

lemma ingest_effect:
  assumes "length (lv_lines v) \<le> MAX_LOG_LINES"
  shows "lv_lines (ingest s d v) = last_n MAX_LOG_LINES
      (lv_lines v @ map (\<lambda>t. \<lparr>ll_stream = s, ll_text = t\<rparr>) (fst (drain_lines (pending_of s v @ d))))"
    and "pending_of s' (ingest s d v) =
      (if s' = s then snd (drain_lines (pending_of s v @ d)) else pending_of s' v)"
  using assms
  by (cases s; cases s'; auto simp: ingest_def pending_of_def push_texts_lines push_texts_frame split: prod.splits)+

lemma texts_of_simps:
  "texts_of s (xs @ ys) = texts_of s xs @ texts_of s ys"
  "texts_of s (map (\<lambda>t. \<lparr>ll_stream = s', ll_text = t\<rparr>) ts) = (if s = s' then ts else [])"
  by (induction ts) (auto simp: texts_of_def)

lemma pending_free:
  "0x0a \<notin> set (pending_of s' v) \<Longrightarrow> length (lv_lines v) \<le> MAX_LOG_LINES \<Longrightarrow> 0x0a \<notin> set (pending_of s' (ingest s d v))"
  by (simp add: ingest_effect drain_rest [OF prod.collapse [symmetric]])

lemma ingest_all_effect:
  assumes "lv_lines v = last_n MAX_LOG_LINES hist" and "\<forall>s. 0x0a \<notin> set (pending_of s v)"
  shows "\<exists>hist'. lv_lines (ingest_all cs v) = last_n MAX_LOG_LINES (hist @ hist') \<and>
    (\<forall>s. (texts_of s hist', pending_of s (ingest_all cs v)) = drain_lines (pending_of s v @ stream_bytes s cs))"
  using assms
proof (induction cs arbitrary: v hist)
  case Nil
  then show ?case
    by (intro exI [of _ "[]"]) (simp add: ingest_all_def drain_free texts_of_def)
next
  case (Cons c cs)
  obtain s0 d where c: "c = (s0, d)" by (cases c)
  let ?v = "ingest s0 d v"
  let ?new = "map (\<lambda>t. \<lparr>ll_stream = s0, ll_text = t\<rparr>) (fst (drain_lines (pending_of s0 v @ d)))"
  have len: "length (lv_lines v) \<le> MAX_LOG_LINES"
    using Cons.prems(1) by (simp add: last_n_length)
  have "lv_lines ?v = last_n MAX_LOG_LINES (hist @ ?new)"
    using ingest_effect(1) [OF len] Cons.prems(1) last_n_append by metis
  moreover have "\<forall>s. 0x0a \<notin> set (pending_of s ?v)"
    using Cons.prems(2) pending_free [OF _ len] by blast
  ultimately obtain hist' where h: "lv_lines (ingest_all cs ?v) = last_n MAX_LOG_LINES ((hist @ ?new) @ hist')"
    "\<forall>s. (texts_of s hist', pending_of s (ingest_all cs ?v)) = drain_lines (pending_of s ?v @ stream_bytes s cs)"
    using Cons.IH by blast
  have "(texts_of s (?new @ hist'), pending_of s (ingest_all cs ?v)) =
      drain_lines (pending_of s v @ stream_bytes s (c # cs))" for s
  proof (cases "s = s0")
    case True
    then show ?thesis
      using h(2) [rule_format, of s] drain_append [of "pending_of s v @ d" "stream_bytes s cs"]
        ingest_effect(2) [OF len]
      by (auto simp: c texts_of_simps split: prod.splits)
  next
    case False
    then show ?thesis
      using h(2) [rule_format, of s] ingest_effect(2) [OF len]
      by (simp add: c texts_of_simps)
  qed
  then show ?case
    using h(1) by (intro exI [of _ "?new @ hist'"]) (simp add: ingest_all_def c)
qed

section \<open>The view's invariant\<close>

definition logs_inv :: "logs_view \<Rightarrow> bool" where
  "logs_inv v \<longleftrightarrow> length (lv_lines v) \<le> MAX_LOG_LINES \<and> lv_scroll_offset v \<le> length (lv_lines v) - 1 \<and>
     (lv_at_tail v \<longrightarrow> lv_scroll_offset v = 0)"

datatype logs_op = LoIngest log_stream "u8 list" | LoUp nat | LoDown nat | LoTail | LoEnd string

fun logs_step :: "logs_op \<Rightarrow> logs_view \<Rightarrow> logs_view" where
  "logs_step (LoIngest s d) v = ingest s d v"
| "logs_step (LoUp n) v = scroll_up n v"
| "logs_step (LoDown n) v = scroll_down n v"
| "logs_step LoTail v = jump_to_tail v"
| "logs_step (LoEnd reason) v = end_stream reason v"

lemma logs_new_inv: "logs_inv (logs_view_new c n i)"
  by (simp add: logs_inv_def logs_view_new_def)

lemma push_line_inv: "logs_inv v \<Longrightarrow> logs_inv (push_line l v)"
  by (auto simp: logs_inv_def push_line_def MAX_LOG_LINES_def)

lemma push_texts_inv: "logs_inv v \<Longrightarrow> logs_inv (push_texts s ts v)"
  by (induction ts arbitrary: v) (auto simp: push_texts_def push_line_inv)

lemma logs_inv_pending [simp]:
  "logs_inv (v\<lparr>lv_pending_stdout := r\<rparr>) = logs_inv v" "logs_inv (v\<lparr>lv_pending_stderr := r\<rparr>) = logs_inv v"
  by (simp_all add: logs_inv_def)

lemma ingest_inv: "logs_inv v \<Longrightarrow> logs_inv (ingest s d v)"
  by (cases s) (auto simp: ingest_def push_texts_inv split: prod.splits)

lemma end_stream_inv:
  assumes "logs_inv v"
  shows "logs_inv (end_stream reason v)"
proof -
  have "logs_inv w \<Longrightarrow> logs_inv (w\<lparr>lv_stream_ended := Some reason, lv_at_tail := False\<rparr>)" for w
    by (simp add: logs_inv_def)
  then show ?thesis
    using assms by (simp add: end_stream_def Let_def push_line_inv)
qed

lemma scroll_inv:
  "logs_inv v \<Longrightarrow> logs_inv (scroll_up n v)" "logs_inv v \<Longrightarrow> logs_inv (scroll_down n v)"
  "logs_inv v \<Longrightarrow> logs_inv (jump_to_tail v)"
  by (auto simp: logs_inv_def scroll_up_def scroll_down_def jump_to_tail_def Let_def)

interpretation logs_run: event_machine logs_step logs_inv
proof unfold_locales
  fix v e assume "logs_inv v"
  then show "logs_inv (logs_step e v)"
    by (cases e) (simp_all add: ingest_inv scroll_inv end_stream_inv)
qed

section \<open>The rows on the screen\<close>

text \<open>
  \<open>render_transcript\<close> of \<open>crates/tepegoz-tui/src/scope/docker.rs\<close>: the rows of an area \<open>height\<close> lines
  high, a panic if a line index were out of range.
\<close>

datatype transcript_row = TrLine log_line | TrEnded string

fun rows_between :: "logs_view \<Rightarrow> nat list \<Rightarrow> panic + transcript_row list" where
  "rows_between v [] = Inr []"
| "rows_between v (i # is) =
     and_then
       (case lv_stream_ended v of
          Some reason \<Rightarrow>
            if i = length (lv_lines v) then Inr (TrEnded reason)
            else and_then (vec_index (lv_lines v) i) (\<lambda>l. Inr (TrLine l))
        | None \<Rightarrow> and_then (vec_index (lv_lines v) i) (\<lambda>l. Inr (TrLine l)))
       (\<lambda>r. and_then (rows_between v is) (\<lambda>rs. Inr (r # rs)))"

definition render_transcript :: "nat \<Rightarrow> logs_view \<Rightarrow> panic + transcript_row list" where
  "render_transcript height v =
     (if height = 0 then Inr []
      else
        let total = length (lv_lines v) + (if lv_stream_ended v \<noteq> None then 1 else 0);
            e = total - lv_scroll_offset v;
            s = e - height
        in rows_between v [s ..< e])"

definition transcript_rows :: "logs_view \<Rightarrow> transcript_row list" where
  "transcript_rows v = map TrLine (lv_lines v) @
     (case lv_stream_ended v of Some reason \<Rightarrow> [TrEnded reason] | None \<Rightarrow> [])"

lemma rows_between_ok:
  "list_all (\<lambda>i. i < length (transcript_rows v)) is \<Longrightarrow>
     rows_between v is = Inr (map (\<lambda>i. transcript_rows v ! i) is)"
  by (induction "is") (auto simp: transcript_rows_def nth_append less_Suc_eq split: option.splits)

lemma map_nth_slice: "e \<le> length xs \<Longrightarrow> map (\<lambda>i. xs ! i) [s ..< e] = drop s (take e xs)"
  by (rule nth_equalityI) auto

lemma render_transcript_slice:
  "render_transcript height v =
     Inr (let e = length (transcript_rows v) - lv_scroll_offset v
          in drop (e - height) (take e (transcript_rows v)))"
proof -
  have t: "length (lv_lines v) + (if lv_stream_ended v \<noteq> None then 1 else 0) = length (transcript_rows v)"
    by (auto simp: transcript_rows_def split: option.splits)
  have "list_all (\<lambda>i. i < length (transcript_rows v)) [s ..< length (transcript_rows v) - k]" for s k
    by (auto simp: list_all_iff)
  then show ?thesis
    unfolding render_transcript_def Let_def t
    by (simp add: rows_between_ok map_nth_slice)
qed

lemma ingest_scrolled_render:
  assumes "logs_inv v" "lv_stream_ended v = None"
    and "k = length (fst (drain_lines (pending_of s v @ d)))"
    and "k \<le> lv_scroll_offset v" "length (lv_lines v) + k \<le> MAX_LOG_LINES"
  shows "render_transcript height (ingest s d v) = render_transcript height (scroll_down k v)"
proof -
  let ?new = "map (\<lambda>t. \<lparr>ll_stream = s, ll_text = t\<rparr>) (fst (drain_lines (pending_of s v @ d)))"
  have l: "lv_lines (ingest s d v) = lv_lines v @ ?new"
    using assms by (simp add: ingest_effect(1) last_n_all logs_inv_def)
  have f: "lv_scroll_offset (ingest s d v) = lv_scroll_offset v" "lv_stream_ended (ingest s d v) = None"
    using assms(2) by (cases s; auto simp: ingest_def push_texts_frame split: prod.splits)+
  have o: "lv_scroll_offset v \<le> length (lv_lines v)"
    using assms(1) unfolding logs_inv_def by (elim conjE) linarith
  have g: "lv_scroll_offset (scroll_down k v) = lv_scroll_offset v - k"
    "lv_stream_ended (scroll_down k v) = None" "lv_lines (scroll_down k v) = lv_lines v"
    using assms(2) by (simp_all add: scroll_down_def Let_def)
  have r: "transcript_rows (ingest s d v) = map TrLine (lv_lines v) @ map TrLine ?new"
    "transcript_rows (scroll_down k v) = map TrLine (lv_lines v)"
    by (simp_all add: transcript_rows_def f g l)
  let ?e = "length (lv_lines v) + k - lv_scroll_offset v"
  have e: "length (map TrLine (lv_lines v) @ map TrLine ?new) - lv_scroll_offset v = ?e"
    "length (map TrLine (lv_lines v)) - (lv_scroll_offset v - k) = ?e" "?e \<le> length (lv_lines v)"
    using assms(3,4) o by simp_all
  show ?thesis
    unfolding render_transcript_slice r f g e Let_def using e(3) by simp
qed

end
