(* ===== verification/Keys.thy ===== *)
theory Keys
  imports RustStd
begin

text \<open>
  The key parser of the scope tiles (\<open>ScopeKey\<close> and \<open>ScopeKeyParser\<close> of
  \<open>crates/tepegoz-tui/src/app.rs\<close>): raw bytes to semantic keys, with an escape-sequence state that
  is kept across chunks except for a lone \<open>ESC\<close>, which the end of a chunk turns into \<open>Escape\<close>.
\<close>

datatype scope_key =
  KUp | KDown | KTop | KBottom | KHome | KEnd | KPgUp | KPgDn | KFilterStart | KEscape | KEnter
| KBackspace | KChar u8

datatype key_parser_state = KsNormal | KsEscape | KsCsi "u8 list"

text \<open>A byte outside an escape sequence that is not \<open>ESC\<close>.\<close>

definition plain_key :: "u8 \<Rightarrow> scope_key" where
  "plain_key b =
     (if b = 0x7f \<or> b = 0x08 then KBackspace
      else if b = 0x0a \<or> b = 0x0d then KEnter
      else KChar b)"

definition tilde_keys :: "u8 list \<Rightarrow> scope_key list" where
  "tilde_keys accum =
     (if accum = [0x31] \<or> accum = [0x37] then [KHome]
      else if accum = [0x34] \<or> accum = [0x38] then [KEnd]
      else if accum = [0x35] then [KPgUp]
      else if accum = [0x36] then [KPgDn]
      else [])"

fun key_step :: "key_parser_state \<Rightarrow> u8 \<Rightarrow> key_parser_state \<times> scope_key list" where
  "key_step KsNormal b = (if b = 0x1b then (KsEscape, []) else (KsNormal, [plain_key b]))"
| "key_step KsEscape b =
     (if b = 0x5b then (KsCsi [], [])
      else if b = 0x1b then (KsEscape, [KEscape])
      else (KsNormal, [KEscape, plain_key b]))"
| "key_step (KsCsi accum) b =
     (if b = 0x41 then (KsNormal, [KUp])
      else if b = 0x42 then (KsNormal, [KDown])
      else if b = 0x43 \<or> b = 0x44 then (KsNormal, [])
      else if b = 0x48 then (KsNormal, [KHome])
      else if b = 0x46 then (KsNormal, [KEnd])
      else if b = 0x7e then (KsNormal, tilde_keys accum)
      else if 0x30 \<le> b \<and> b \<le> 0x39 \<or> b = 0x3b then (KsCsi (accum @ [b]), [])
      else (KsNormal, []))"

text \<open>The end of a chunk: a lone \<open>ESC\<close> is a key press of its own.\<close>

definition key_flush :: "key_parser_state \<times> scope_key list \<Rightarrow> key_parser_state \<times> scope_key list" where
  "key_flush r = (case r of (st, out) \<Rightarrow> if st = KsEscape then (KsNormal, out @ [KEscape]) else (st, out))"

definition key_parse :: "key_parser_state \<Rightarrow> u8 list \<Rightarrow> key_parser_state \<times> scope_key list" where
  "key_parse st bytes = key_flush (run_items key_step st bytes)"

lemma key_flush_state: "fst (key_flush r) \<noteq> KsEscape"
  by (auto simp: key_flush_def split: prod.splits)

lemma key_parse_state: "fst (key_parse st bytes) \<noteq> KsEscape"
  by (simp add: key_parse_def key_flush_state)

text \<open>A chunk may be cut anywhere but right after a lone \<open>ESC\<close>.\<close>

lemma key_parse_append:
  assumes "fst (run_items key_step st xs) \<noteq> KsEscape"
  shows "key_parse st (xs @ ys) =
    (case key_parse st xs of (st1, k1) \<Rightarrow> case key_parse st1 ys of (st2, k2) \<Rightarrow> (st2, k1 @ k2))"
  using assms by (auto simp: key_parse_def run_items_append key_flush_def split: prod.splits)

section \<open>What terminals send\<close>

fun key_bytes :: "scope_key \<Rightarrow> u8 list" where
  "key_bytes KUp = [0x1b, 0x5b, 0x41]"
| "key_bytes KDown = [0x1b, 0x5b, 0x42]"
| "key_bytes KHome = [0x1b, 0x5b, 0x48]"
| "key_bytes KEnd = [0x1b, 0x5b, 0x46]"
| "key_bytes KPgUp = [0x1b, 0x5b, 0x35, 0x7e]"
| "key_bytes KPgDn = [0x1b, 0x5b, 0x36, 0x7e]"
| "key_bytes KEscape = [0x1b]"
| "key_bytes KEnter = [0x0d]"
| "key_bytes KBackspace = [0x7f]"
| "key_bytes (KChar b) = [b]"
| "key_bytes _ = []"

definition sendable :: "scope_key \<Rightarrow> bool" where
  "sendable k \<longleftrightarrow> k \<notin> {KTop, KBottom, KFilterStart} \<and>
     (\<forall>b. k = KChar b \<longrightarrow> b \<notin> {0x1b, 0x7f, 0x08, 0x0a, 0x0d})"

text \<open>\<open>Escape\<close> followed by the character \<open>[\<close> is the one ambiguous pair.\<close>

fun unambiguous :: "scope_key list \<Rightarrow> bool" where
  "unambiguous (k1 # k2 # ks) \<longleftrightarrow> \<not> (k1 = KEscape \<and> k2 = KChar 0x5b) \<and> unambiguous (k2 # ks)"
| "unambiguous _ \<longleftrightarrow> True"

lemma key_bytes_normal:
  "sendable k \<Longrightarrow> k \<noteq> KEscape \<Longrightarrow> run_items key_step KsNormal (key_bytes k) = (KsNormal, [k])"
  by (cases k) (auto simp: sendable_def plain_key_def tilde_keys_def)

lemma key_bytes_escape:
  "sendable k \<Longrightarrow> k \<noteq> KEscape \<Longrightarrow> k \<noteq> KChar 0x5b \<Longrightarrow>
     run_items key_step KsEscape (key_bytes k) = (KsNormal, [KEscape, k])"
  by (cases k) (auto simp: sendable_def plain_key_def tilde_keys_def)

lemma run_keys:
  "list_all sendable ks \<Longrightarrow> unambiguous ks \<Longrightarrow>
     key_flush (run_items key_step KsNormal (concat (map key_bytes ks))) = (KsNormal, ks)"
  "list_all sendable ks \<Longrightarrow> unambiguous (KEscape # ks) \<Longrightarrow>
     key_flush (run_items key_step KsEscape (concat (map key_bytes ks))) = (KsNormal, KEscape # ks)"
proof (induction ks)
  case (Cons k ks)
  have u: "unambiguous ks" if "unambiguous (k # ks)" using that by (cases ks) auto
  {
    case 1
    show ?case
    proof (cases "k = KEscape")
      case True
      then show ?thesis using Cons.IH(2) 1 by simp
    next
      case False
      then show ?thesis using Cons.IH(1) 1 u key_bytes_normal [of k]
        by (auto simp: run_items_append key_flush_def split: prod.splits)
    qed
  next
    case 2
    show ?case
    proof (cases "k = KEscape")
      case True
      then show ?thesis using Cons.IH(2) 2
        by (auto simp: key_flush_def split: prod.splits)
    next
      case False
      then show ?thesis using Cons.IH(1) 2 u key_bytes_escape [of k]
        by (auto simp: run_items_append key_flush_def split: prod.splits)
    qed
  }
qed (simp_all add: key_flush_def)

end
