(* ===== verification/Tile.thy ===== *)
theory Tile
  imports RustStd
begin

text \<open>
  The god-view layout and focus navigation of \<open>crates/tepegoz-tui/src/tile.rs\<close>. \<open>Rect::new\<close> and
  \<open>Rect::contains\<close> belong to ratatui: they are arguments of the definitions that call them, and
  \<^verbatim>\<open>rect_new_law\<close>, \<^verbatim>\<open>rect_contains_law\<close> state what ratatui documents of them.
\<close>

record rect =
  r_x :: u16
  r_y :: u16
  r_width :: u16
  r_height :: u16

type_synonym rect_ctor = "u16 \<Rightarrow> u16 \<Rightarrow> u16 \<Rightarrow> u16 \<Rightarrow> rect"

datatype scope_kind = ScopeDocker | ScopePorts | ScopeFleet

datatype tile_id = TilePty | TileDocker | TilePorts | TileFleet | TileClaudeCode | TileTooSmall

datatype tile_kind =
  KindPty
| KindScope scope_kind
| KindPlaceholder string u8 \<comment> \<open>label, phase\<close>
| KindTooSmall

datatype focus_dir = FocusLeft | FocusRight | FocusUp | FocusDown

record tile_def =
  td_id :: tile_id
  td_kind :: tile_kind
  td_rect :: rect

record tile_layout =
  tl_tiles :: "tile_def list"
  tl_default_focus :: tile_id

definition MIN_COLS :: u16 where "MIN_COLS = 80"
definition MIN_ROWS :: u16 where "MIN_ROWS = 24"
definition CLAUDE_ROWS :: u16 where "CLAUDE_ROWS = 3"

text \<open>\<open>"Claude Code - Phase 9"\<close> with an em dash (U+2014).\<close>

definition claude_label :: string where
  "claude_label = ''Claude Code '' @ em_dash @ '' Phase 9''"

definition tiny_fallback :: "rect \<Rightarrow> tile_layout" where
  "tiny_fallback area =
     \<lparr>tl_tiles = [\<lparr>td_id = TileTooSmall, td_kind = KindTooSmall, td_rect = area\<rparr>],
      tl_default_focus = TileTooSmall\<rparr>"

definition default_for :: "rect_ctor \<Rightarrow> rect \<Rightarrow> tile_layout" where
  "default_for rect_new area =
     (if r_width area < MIN_COLS \<or> r_height area < MIN_ROWS then tiny_fallback area
      else
        let cc_rows = CLAUDE_ROWS;
            remaining = r_height area - cc_rows;
            pty_rows = max (remaining * 3 div 5) 6;
            scope_rows = remaining - pty_rows;
            scope_col = r_width area div 3;
            docker_w = scope_col;
            ports_w = scope_col;
            fleet_w = r_width area - 2 * scope_col;
            pty_rect = rect_new (r_x area) (r_y area) (r_width area) pty_rows;
            docker_rect = rect_new (r_x area) (r_y area + pty_rows) docker_w scope_rows;
            ports_rect = rect_new (r_x area + docker_w) (r_y area + pty_rows) ports_w scope_rows;
            fleet_rect =
              rect_new (r_x area + docker_w + ports_w) (r_y area + pty_rows) fleet_w scope_rows;
            cc_rect = rect_new (r_x area) (r_y area + pty_rows + scope_rows) (r_width area) cc_rows
        in \<lparr>tl_tiles =
              [\<lparr>td_id = TilePty, td_kind = KindPty, td_rect = pty_rect\<rparr>,
               \<lparr>td_id = TileDocker, td_kind = KindScope ScopeDocker, td_rect = docker_rect\<rparr>,
               \<lparr>td_id = TilePorts, td_kind = KindScope ScopePorts, td_rect = ports_rect\<rparr>,
               \<lparr>td_id = TileFleet, td_kind = KindScope ScopeFleet, td_rect = fleet_rect\<rparr>,
               \<lparr>td_id = TileClaudeCode, td_kind = KindPlaceholder claude_label 9,
                 td_rect = cc_rect\<rparr>],
            tl_default_focus = TilePty\<rparr>)"

definition tile :: "tile_layout \<Rightarrow> tile_id \<Rightarrow> tile_def option" where
  "tile l i = List.find (\<lambda>t. td_id t = i) (tl_tiles l)"

definition rect_of :: "tile_layout \<Rightarrow> tile_id \<Rightarrow> rect option" where
  "rect_of l i = map_option td_rect (tile l i)"

section \<open>Focus navigation\<close>

fun beyond :: "focus_dir \<Rightarrow> rect \<Rightarrow> rect \<Rightarrow> bool" where
  "beyond FocusUp from_rect r = (r_y r + r_height r \<le> r_y from_rect)"
| "beyond FocusDown from_rect r = (r_y from_rect + r_height from_rect \<le> r_y r)"
| "beyond FocusLeft from_rect r = (r_x r + r_width r \<le> r_x from_rect)"
| "beyond FocusRight from_rect r = (r_x from_rect + r_width from_rect \<le> r_x r)"

fun focus_distance :: "focus_dir \<Rightarrow> rect \<Rightarrow> rect \<Rightarrow> int \<times> int" where
  "focus_distance FocusUp f r =
     (uint (r_y f) - uint (r_y r + r_height r), \<bar>uint (r_x r) - uint (r_x f)\<bar>)"
| "focus_distance FocusDown f r =
     (uint (r_y r) - uint (r_y f + r_height f), \<bar>uint (r_x r) - uint (r_x f)\<bar>)"
| "focus_distance FocusLeft f r =
     (uint (r_x f) - uint (r_x r + r_width r), \<bar>uint (r_y r) - uint (r_y f)\<bar>)"
| "focus_distance FocusRight f r =
     (uint (r_x r) - uint (r_x f + r_width f), \<bar>uint (r_y r) - uint (r_y f)\<bar>)"

definition next_focus :: "tile_layout \<Rightarrow> tile_id \<Rightarrow> focus_dir \<Rightarrow> tile_id option" where
  "next_focus l from_id dir =
     (if from_id = TileTooSmall then None
      else case rect_of l from_id of
        None \<Rightarrow> None
      | Some from_rect \<Rightarrow>
          map_option td_id
            (min_by_key (\<lambda>t. focus_distance dir from_rect (td_rect t))
              (filter (\<lambda>t. beyond dir from_rect (td_rect t))
                (filter (\<lambda>t. td_id t \<noteq> from_id \<and> td_id t \<noteq> TileTooSmall) (tl_tiles l)))))"

definition routes_to_pty :: "tile_layout \<Rightarrow> tile_id \<Rightarrow> bool" where
  "routes_to_pty l i = (case map_option td_kind (tile l i) of Some KindPty \<Rightarrow> True | _ \<Rightarrow> False)"

definition routes_to_scope :: "tile_layout \<Rightarrow> tile_id \<Rightarrow> scope_kind option" where
  "routes_to_scope l i =
     (case map_option td_kind (tile l i) of Some (KindScope kind) \<Rightarrow> Some kind | _ \<Rightarrow> None)"

definition CYCLE_ORDER :: "tile_id list" where
  "CYCLE_ORDER = [TilePty, TileDocker, TilePorts, TileFleet, TileClaudeCode]"

definition cycle_focus :: "tile_layout \<Rightarrow> tile_id \<Rightarrow> bool \<Rightarrow> tile_id option" where
  "cycle_focus l from_id forward =
     (if from_id = TileTooSmall then None
      else
        let n = length CYCLE_ORDER in
        case position (\<lambda>i. i = from_id) CYCLE_ORDER of
          None \<Rightarrow> None
        | Some start \<Rightarrow>
            List.find (\<lambda>candidate. tile l candidate \<noteq> None)
              (map (\<lambda>step. CYCLE_ORDER !
                     (if forward then (start + step) mod n else (start + n - step) mod n))
                [1..<Suc n]))"

section \<open>What ratatui documents of its rectangles\<close>

text \<open>
  \<open>Rect::new\<close> keeps its arguments when both far edges fit into a \<open>u16\<close>; \<open>contains\<close> is membership
  in the half-open cell range.
\<close>

definition rect_fits :: "rect \<Rightarrow> bool" where
  "rect_fits r \<longleftrightarrow>
     unat (r_x r) + unat (r_width r) \<le> 65535 \<and> unat (r_y r) + unat (r_height r) \<le> 65535"

definition rect_new_law :: "rect_ctor \<Rightarrow> bool" where
  "rect_new_law rn \<longleftrightarrow>
     (\<forall>x y w h. unat x + unat w \<le> 65535 \<and> unat y + unat h \<le> 65535 \<longrightarrow>
        rn x y w h = \<lparr>r_x = x, r_y = y, r_width = w, r_height = h\<rparr>)"

definition in_rect :: "rect \<Rightarrow> nat \<Rightarrow> nat \<Rightarrow> bool" where
  "in_rect r px py \<longleftrightarrow>
     unat (r_x r) \<le> px \<and> px < unat (r_x r) + unat (r_width r) \<and>
     unat (r_y r) \<le> py \<and> py < unat (r_y r) + unat (r_height r)"

definition rect_contains_law :: "(rect \<Rightarrow> u16 \<Rightarrow> u16 \<Rightarrow> bool) \<Rightarrow> bool" where
  "rect_contains_law rc \<longleftrightarrow>
     (\<forall>r px py. rect_fits r \<longrightarrow> rc r px py = in_rect r (unat px) (unat py))"

section \<open>The layout in natural numbers\<close>

type_synonym nat_rect = "nat \<times> nat \<times> nat \<times> nat"

definition nat_rect :: "rect \<Rightarrow> nat_rect" where
  "nat_rect r = (unat (r_x r), unat (r_y r), unat (r_width r), unat (r_height r))"

text \<open>
  The terminals the god view is laid out for: at least the minimum, and no taller than 21848 rows
  (above that \<open>remaining * 3\<close> leaves \<open>u16\<close>).
\<close>

definition god_area :: "rect \<Rightarrow> bool" where
  "god_area a \<longleftrightarrow> 80 \<le> unat (r_width a) \<and> 24 \<le> unat (r_height a) \<and> unat (r_height a) \<le> 21848 \<and>
     rect_fits a"

definition pty_rows_of :: "nat \<Rightarrow> nat" where
  "pty_rows_of h = max ((h - 3) * 3 div 5) 6"

fun god_rects :: "nat_rect \<Rightarrow> (tile_id \<times> nat_rect) list" where
  "god_rects (x, y, w, h) =
     (let p = pty_rows_of h; s = h - 3 - p; c = w div 3 in
      [(TilePty, x, y, w, p),
       (TileDocker, x, y + p, c, s),
       (TilePorts, x + c, y + p, c, s),
       (TileFleet, x + 2 * c, y + p, w - 2 * c, s),
       (TileClaudeCode, x, y + p + s, w, 3)])"

lemma pty_rows_bounds: "24 \<le> h \<Longrightarrow> 6 \<le> pty_rows_of h \<and> pty_rows_of h + 3 < h"
  unfolding pty_rows_of_def by (auto simp: max_def)

lemma unat_add_fits: "unat (a :: u16) + unat b \<le> 65535 \<Longrightarrow> unat (a + b) = unat a + unat b"
  by (simp add: unat_plus_if_size word_size)

lemma uint_add_fits:
  assumes "unat (a :: u16) + unat b \<le> 65535"
  shows "uint (a + b) = uint a + uint b"
proof -
  have "int (unat (a + b)) = int (unat a) + int (unat b)"
    using unat_add_fits [OF assms] by linarith
  then show ?thesis by simp
qed

lemma unat_max_u16: "unat (max (a :: u16) b) = max (unat a) (unat b)"
  by (simp add: max_def word_le_nat_alt)

lemma god_area_words:
  assumes "god_area a"
  defines "rem \<equiv> r_height a - CLAUDE_ROWS"
  defines "p \<equiv> max (rem * 3 div 5) 6"
  defines "c \<equiv> r_width a div 3"
  shows "unat p = pty_rows_of (unat (r_height a))"
    and "unat (rem - p) = unat (r_height a) - 3 - pty_rows_of (unat (r_height a))"
    and "unat c = unat (r_width a) div 3"
    and "unat (r_width a - 2 * c) = unat (r_width a) - 2 * (unat (r_width a) div 3)"
proof -
  have h: "24 \<le> unat (r_height a)" "unat (r_height a) \<le> 21848"
    using assms(1) by (simp_all add: god_area_def)
  have rem: "unat rem = unat (r_height a) - 3"
    using h by (simp add: rem_def CLAUDE_ROWS_def unat_sub word_le_nat_alt)
  then have "unat (rem * 3) = (unat (r_height a) - 3) * 3"
    using h by (subst unat_mult_lem [THEN iffD1]) simp_all
  then show p: "unat p = pty_rows_of (unat (r_height a))"
    by (simp add: p_def unat_max_u16 unat_div pty_rows_of_def)
  have "p \<le> rem"
    using pty_rows_bounds [OF h(1)] p rem unfolding word_le_nat_alt by linarith
  then show "unat (rem - p) = unat (r_height a) - 3 - pty_rows_of (unat (r_height a))"
    using p rem by (simp add: unat_sub)
  show c: "unat c = unat (r_width a) div 3"
    by (simp add: c_def unat_div)
  have w16: "unat (r_width a) < 65536"
    using unsigned_less [of "r_width a"] by simp
  have "unat (2 * c) = 2 * (unat (r_width a) div 3)"
    using c w16 by (subst unat_mult_lem [THEN iffD1]) simp_all
  moreover from this have "2 * c \<le> r_width a"
    by (simp add: word_le_nat_alt)
  ultimately show "unat (r_width a - 2 * c) = unat (r_width a) - 2 * (unat (r_width a) div 3)"
    by (simp add: unat_sub)
qed

text \<open>
  In a god-view terminal the five tiles lie exactly where \<^const>\<open>god_rects\<close> says: no arithmetic
  of \<^const>\<open>default_for\<close> wraps and no rectangle is clipped.
\<close>

lemma default_for_god:
  assumes law: "rect_new_law rn" and a: "god_area a"
  shows "map (\<lambda>t. (td_id t, nat_rect (td_rect t))) (tl_tiles (default_for rn a)) =
           god_rects (nat_rect a)"
    and "map td_kind (tl_tiles (default_for rn a)) =
           [KindPty, KindScope ScopeDocker, KindScope ScopePorts, KindScope ScopeFleet,
            KindPlaceholder claude_label 9]"
    and "tl_default_focus (default_for rn a) = TilePty"
proof -
  have w: "80 \<le> unat (r_width a)" and h: "24 \<le> unat (r_height a)" and fits: "rect_fits a"
    using a by (simp_all add: god_area_def)
  have big: "\<not> (r_width a < MIN_COLS \<or> r_height a < MIN_ROWS)"
    using w h by (simp add: word_less_nat_alt MIN_COLS_def MIN_ROWS_def)
  note words = god_area_words [OF a]
  note bounds = pty_rows_bounds [OF h]
  have new: "rn x y wd ht = \<lparr>r_x = x, r_y = y, r_width = wd, r_height = ht\<rparr>"
    if "unat x + unat wd \<le> 65535" "unat y + unat ht \<le> 65535" for x y wd ht
    using law that by (simp add: rect_new_law_def)
  have xw: "unat (r_x a) + unat (r_width a) \<le> 65535"
    and yh: "unat (r_y a) + unat (r_height a) \<le> 65535"
    using fits by (simp_all add: rect_fits_def)
  define p s c f where "p = max ((r_height a - CLAUDE_ROWS) * 3 div 5) 6"
    and "s = r_height a - CLAUDE_ROWS - p" and "c = r_width a div 3"
    and "f = r_width a - 2 * c"
  have up: "unat p = pty_rows_of (unat (r_height a))"
    and us: "unat s = unat (r_height a) - 3 - pty_rows_of (unat (r_height a))"
    and uc: "unat c = unat (r_width a) div 3"
    and uf: "unat f = unat (r_width a) - 2 * (unat (r_width a) div 3)"
    using words by (simp_all add: p_def s_def c_def f_def)
  have sum: "unat p + unat s + 3 = unat (r_height a)" and csum: "2 * unat c + unat f = unat (r_width a)"
    using bounds up us uc uf by simp_all
  have y1: "unat (r_y a + p) = unat (r_y a) + unat p"
    using yh sum by (intro unat_add_fits) linarith
  have y2: "unat (r_y a + p + s) = unat (r_y a) + unat p + unat s"
    using yh sum y1 by (subst unat_add_fits) linarith+
  have x1: "unat (r_x a + c) = unat (r_x a) + unat c"
    using xw csum by (intro unat_add_fits) linarith
  define q where "q = r_x a + c + c"
  have x2: "unat q = unat (r_x a) + 2 * unat c"
    unfolding q_def using xw csum x1 by (subst unat_add_fits) linarith+
  have tiles: "tl_tiles (default_for rn a) =
     [\<lparr>td_id = TilePty, td_kind = KindPty, td_rect = rn (r_x a) (r_y a) (r_width a) p\<rparr>,
      \<lparr>td_id = TileDocker, td_kind = KindScope ScopeDocker, td_rect = rn (r_x a) (r_y a + p) c s\<rparr>,
      \<lparr>td_id = TilePorts, td_kind = KindScope ScopePorts, td_rect = rn (r_x a + c) (r_y a + p) c s\<rparr>,
      \<lparr>td_id = TileFleet, td_kind = KindScope ScopeFleet,
        td_rect = rn q (r_y a + p) f s\<rparr>,
      \<lparr>td_id = TileClaudeCode, td_kind = KindPlaceholder claude_label 9,
        td_rect = rn (r_x a) (r_y a + p + s) (r_width a) CLAUDE_ROWS\<rparr>]"
    using big by (simp add: default_for_def Let_def p_def s_def c_def f_def q_def)
  have cc: "unat CLAUDE_ROWS = 3" by (simp add: CLAUDE_ROWS_def)
  have r1: "rn (r_x a) (r_y a) (r_width a) p = \<lparr>r_x = r_x a, r_y = r_y a, r_width = r_width a, r_height = p\<rparr>"
    using xw yh sum by (intro new) linarith+
  have r2: "rn (r_x a) (r_y a + p) c s = \<lparr>r_x = r_x a, r_y = r_y a + p, r_width = c, r_height = s\<rparr>"
    using xw yh sum csum y1 by (intro new) linarith+
  have r3: "rn (r_x a + c) (r_y a + p) c s = \<lparr>r_x = r_x a + c, r_y = r_y a + p, r_width = c, r_height = s\<rparr>"
    using xw yh sum csum y1 x1 by (intro new) linarith+
  have r4: "rn q (r_y a + p) f s = \<lparr>r_x = q, r_y = r_y a + p, r_width = f, r_height = s\<rparr>"
    using xw yh sum csum y1 x2 by (intro new) linarith+
  have r5: "rn (r_x a) (r_y a + p + s) (r_width a) CLAUDE_ROWS =
      \<lparr>r_x = r_x a, r_y = r_y a + p + s, r_width = r_width a, r_height = CLAUDE_ROWS\<rparr>"
    using xw yh sum y2 cc by (intro new) linarith+
  show "map (\<lambda>t. (td_id t, nat_rect (td_rect t))) (tl_tiles (default_for rn a)) =
          god_rects (nat_rect a)"
    by (simp add: tiles r1 r2 r3 r4 r5 nat_rect_def Let_def y1 y2 x1 x2 cc us up uc uf)
  show "map td_kind (tl_tiles (default_for rn a)) =
          [KindPty, KindScope ScopeDocker, KindScope ScopePorts, KindScope ScopeFleet,
           KindPlaceholder claude_label 9]"
    by (simp add: tiles)
  show "tl_default_focus (default_for rn a) = TilePty"
    using big by (simp add: default_for_def Let_def)
qed

fun in_nat_rect :: "nat_rect \<Rightarrow> nat \<Rightarrow> nat \<Rightarrow> bool" where
  "in_nat_rect (x, y, w, h) px py \<longleftrightarrow> x \<le> px \<and> px < x + w \<and> y \<le> py \<and> py < y + h"

lemma in_rect_nat: "in_rect r = in_nat_rect (nat_rect r)"
  by (intro ext) (simp add: in_rect_def nat_rect_def)

lemma strip_partition:
  fixes x y w p s c px py :: nat
  assumes "2 * c \<le> w"
  shows "length (filter (\<lambda>(i, r). in_nat_rect r px py)
           [(TilePty, x, y, w, p), (TileDocker, x, y + p, c, s), (TilePorts, x + c, y + p, c, s),
            (TileFleet, x + 2 * c, y + p, w - 2 * c, s), (TileClaudeCode, x, y + p + s, w, 3)]) =
         (if in_nat_rect (x, y, w, p + s + 3) px py then 1 else 0)"
proof -
  have cols: "x + 2 * c \<le> px \<and> px < x + 2 * c + (w - 2 * c) \<longleftrightarrow> x + 2 * c \<le> px \<and> px < x + w"
    using assms by linarith
  consider "py < y \<or> y + p + s + 3 \<le> py \<or> px < x \<or> x + w \<le> px"
    | "y \<le> py" "py < y + p" "x \<le> px" "px < x + w"
    | "y + p \<le> py" "py < y + p + s" "x \<le> px" "px < x + c"
    | "y + p \<le> py" "py < y + p + s" "x + c \<le> px" "px < x + 2 * c"
    | "y + p \<le> py" "py < y + p + s" "x + 2 * c \<le> px" "px < x + w"
    | "y + p + s \<le> py" "py < y + p + s + 3" "x \<le> px" "px < x + w"
    by linarith
  then show ?thesis
  proof cases
    case 1
    then have "\<not> in_nat_rect (x, y, w, p + s + 3) px py"
      by auto
    moreover have "\<not> in_nat_rect (x, y, w, p) px py" "\<not> in_nat_rect (x, y + p, c, s) px py"
      "\<not> in_nat_rect (x + c, y + p, c, s) px py"
      "\<not> in_nat_rect (x + 2 * c, y + p, w - 2 * c, s) px py"
      "\<not> in_nat_rect (x, y + p + s, w, 3) px py"
      using 1 assms by auto
    ultimately show ?thesis
      by (simp del: in_nat_rect.simps)
  qed (use assms cols in simp_all)
qed

lemma god_rects_partition:
  assumes "24 \<le> h"
  shows "length (filter (\<lambda>(i, r). in_nat_rect r px py) (god_rects (x, y, w, h))) =
           (if in_nat_rect (x, y, w, h) px py then 1 else 0)"
proof -
  have "pty_rows_of h + (h - 3 - pty_rows_of h) + 3 = h"
    using pty_rows_bounds [OF assms] by simp
  then show ?thesis
    using strip_partition [of "w div 3" w px py x y "pty_rows_of h" "h - 3 - pty_rows_of h"]
    by (simp only: god_rects.simps Let_def)
qed

lemma length_filter_map_eq: "length (filter P (map f xs)) = length (filter (P \<circ> f) xs)"
  by (simp add: filter_map)

lemma default_for_partition:
  assumes "rect_new_law rn" and "god_area a"
  shows "length (filter (\<lambda>t. in_rect (td_rect t) px py) (tl_tiles (default_for rn a))) =
           (if in_rect a px py then 1 else 0)"
proof -
  have "length (filter (\<lambda>t. in_rect (td_rect t) px py) (tl_tiles (default_for rn a))) =
      length (filter (\<lambda>(i, r). in_nat_rect r px py)
        (map (\<lambda>t. (td_id t, nat_rect (td_rect t))) (tl_tiles (default_for rn a))))"
    by (simp add: length_filter_map_eq comp_def in_rect_nat)
  also have "\<dots> = length (filter (\<lambda>(i, r). in_nat_rect r px py) (god_rects (nat_rect a)))"
    by (simp only: default_for_god(1) [OF assms])
  also have "\<dots> = (if in_nat_rect (nat_rect a) px py then 1 else 0)"
    using assms(2) god_rects_partition [of "unat (r_height a)" px py]
    by (simp only: nat_rect_def god_area_def)
  finally show ?thesis
    by (simp only: in_rect_nat)
qed

section \<open>Navigation in natural numbers\<close>

fun nat_beyond :: "focus_dir \<Rightarrow> nat_rect \<Rightarrow> nat_rect \<Rightarrow> bool" where
  "nat_beyond FocusUp (fx, fy, fw, fh) (x, y, w, h) = (y + h \<le> fy)"
| "nat_beyond FocusDown (fx, fy, fw, fh) (x, y, w, h) = (fy + fh \<le> y)"
| "nat_beyond FocusLeft (fx, fy, fw, fh) (x, y, w, h) = (x + w \<le> fx)"
| "nat_beyond FocusRight (fx, fy, fw, fh) (x, y, w, h) = (fx + fw \<le> x)"

fun nat_distance :: "focus_dir \<Rightarrow> nat_rect \<Rightarrow> nat_rect \<Rightarrow> int \<times> int" where
  "nat_distance FocusUp (fx, fy, fw, fh) (x, y, w, h) = (int fy - int (y + h), \<bar>int x - int fx\<bar>)"
| "nat_distance FocusDown (fx, fy, fw, fh) (x, y, w, h) = (int y - int (fy + fh), \<bar>int x - int fx\<bar>)"
| "nat_distance FocusLeft (fx, fy, fw, fh) (x, y, w, h) = (int fx - int (x + w), \<bar>int y - int fy\<bar>)"
| "nat_distance FocusRight (fx, fy, fw, fh) (x, y, w, h) = (int x - int (fx + fw), \<bar>int y - int fy\<bar>)"

definition nat_next_focus ::
  "(tile_id \<times> nat_rect) list \<Rightarrow> tile_id \<Rightarrow> focus_dir \<Rightarrow> tile_id option" where
  "nat_next_focus ts i dir =
     (if i = TileTooSmall then None
      else case map_of ts i of
        None \<Rightarrow> None
      | Some f \<Rightarrow>
          map_option fst
            (min_by_key (\<lambda>t. nat_distance dir f (snd t))
              (filter (\<lambda>t. nat_beyond dir f (snd t))
                (filter (\<lambda>t. fst t \<noteq> i \<and> fst t \<noteq> TileTooSmall) ts))))"

lemma beyond_nat:
  "rect_fits f \<Longrightarrow> rect_fits r \<Longrightarrow> beyond dir f r = nat_beyond dir (nat_rect f) (nat_rect r)"
  by (cases dir) (simp_all add: rect_fits_def nat_rect_def word_le_nat_alt unat_add_fits)

lemma focus_distance_nat:
  "rect_fits f \<Longrightarrow> rect_fits r \<Longrightarrow>
     focus_distance dir f r = nat_distance dir (nat_rect f) (nat_rect r)"
  by (cases dir)
    (simp_all add: rect_fits_def nat_rect_def uint_add_fits)

lemma rect_fits_nat:
  "rect_fits r \<longleftrightarrow> (case nat_rect r of (x, y, w, h) \<Rightarrow> x + w \<le> 65535 \<and> y + h \<le> 65535)"
  by (simp add: rect_fits_def nat_rect_def)

lemma find_map_of:
  "map_of (map (\<lambda>t. (td_id t, g t)) ts) i = map_option g (List.find (\<lambda>t. td_id t = i) ts)"
  by (induction ts) auto

lemma min_by_key_map: "min_by_key k (map g xs) = map_option g (min_by_key (k \<circ> g) xs)"
  by (induction xs) (auto split: option.splits)

lemma min_by_key_cong:
  "(\<And>x. x \<in> set xs \<Longrightarrow> k x = k' x) \<Longrightarrow> min_by_key k xs = min_by_key k' xs"
proof (induction xs)
  case (Cons x xs)
  then show ?case
    by (auto split: option.splits dest: min_by_key_in)
qed simp

lemma next_focus_nat:
  assumes fits: "\<forall>t \<in> set (tl_tiles l). rect_fits (td_rect t)"
  shows "next_focus l i dir =
     nat_next_focus (map (\<lambda>t. (td_id t, nat_rect (td_rect t))) (tl_tiles l)) i dir"
proof (cases "tile l i")
  case None
  then show ?thesis
    by (simp add: next_focus_def nat_next_focus_def rect_of_def tile_def find_map_of)
next
  case (Some t0)
  define ts where "ts = filter (\<lambda>t. td_id t \<noteq> i \<and> td_id t \<noteq> TileTooSmall) (tl_tiles l)"
  have t0: "rect_fits (td_rect t0)"
    using Some fits by (auto simp: tile_def find_Some_iff)
  have ts: "\<forall>t \<in> set ts. rect_fits (td_rect t)"
    using fits by (simp add: ts_def)
  have filt: "filter (\<lambda>t. beyond dir (td_rect t0) (td_rect t)) ts =
      filter (\<lambda>t. nat_beyond dir (nat_rect (td_rect t0)) (nat_rect (td_rect t))) ts"
    using ts t0 by (intro filter_cong) (simp_all add: beyond_nat)
  have mink: "min_by_key (\<lambda>t. focus_distance dir (td_rect t0) (td_rect t)) us =
      min_by_key (\<lambda>t. nat_distance dir (nat_rect (td_rect t0)) (nat_rect (td_rect t))) us"
    if "set us \<subseteq> set ts" for us
    using ts t0 that by (intro min_by_key_cong) (auto simp: focus_distance_nat)
  show ?thesis
    using Some
    by (simp add: next_focus_def nat_next_focus_def rect_of_def find_map_of tile_def filter_map
        comp_def min_by_key_map option.map_comp filt mink flip: ts_def)
qed

text \<open>The navigation map of the god view.\<close>

fun nav_table :: "tile_id \<Rightarrow> focus_dir \<Rightarrow> tile_id option" where
  "nav_table TilePty FocusDown = Some TileDocker"
| "nav_table TileDocker FocusUp = Some TilePty"
| "nav_table TileDocker FocusDown = Some TileClaudeCode"
| "nav_table TileDocker FocusRight = Some TilePorts"
| "nav_table TilePorts FocusUp = Some TilePty"
| "nav_table TilePorts FocusDown = Some TileClaudeCode"
| "nav_table TilePorts FocusLeft = Some TileDocker"
| "nav_table TilePorts FocusRight = Some TileFleet"
| "nav_table TileFleet FocusUp = Some TilePty"
| "nav_table TileFleet FocusDown = Some TileClaudeCode"
| "nav_table TileFleet FocusLeft = Some TilePorts"
| "nav_table TileClaudeCode FocusUp = Some TileDocker"
| "nav_table _ _ = None"

lemma strip_navigation:
  fixes x y w p s c :: nat
  assumes "0 < p" "0 < s" "0 < c" "2 * c < w"
  shows "nat_next_focus
     [(TilePty, x, y, w, p), (TileDocker, x, y + p, c, s), (TilePorts, x + c, y + p, c, s),
      (TileFleet, x + 2 * c, y + p, w - 2 * c, s), (TileClaudeCode, x, y + p + s, w, 3)] i dir =
   nav_table i dir"
  using assms
  by (cases i; cases dir) (simp_all add: nat_next_focus_def key_less_def)

lemma god_rects_fits:
  assumes "24 \<le> h" "x + w \<le> 65535" "y + h \<le> 65535"
  shows "\<forall>(i, x', y', w', h') \<in> set (god_rects (x, y, w, h)). x' + w' \<le> 65535 \<and> y' + h' \<le> 65535"
  using pty_rows_bounds [OF assms(1)] assms by (auto simp: Let_def)

lemma default_for_fits:
  assumes "rect_new_law rn" and "god_area a"
  shows "\<forall>t \<in> set (tl_tiles (default_for rn a)). rect_fits (td_rect t)"
proof
  fix t
  assume "t \<in> set (tl_tiles (default_for rn a))"
  then have "(td_id t, nat_rect (td_rect t)) \<in> set (god_rects (nat_rect a))"
    unfolding default_for_god(1) [OF assms, symmetric] by force
  moreover have "24 \<le> unat (r_height a)" "unat (r_x a) + unat (r_width a) \<le> 65535"
    "unat (r_y a) + unat (r_height a) \<le> 65535"
    using assms(2) by (simp_all add: god_area_def rect_fits_def)
  ultimately show "rect_fits (td_rect t)"
    using god_rects_fits [of "unat (r_height a)" "unat (r_x a)" "unat (r_width a)" "unat (r_y a)"]
    by (auto simp: rect_fits_nat nat_rect_def [of a])
qed

lemma default_for_navigation:
  assumes "rect_new_law rn" and "god_area a"
  shows "next_focus (default_for rn a) i dir = nav_table i dir"
proof -
  let ?p = "pty_rows_of (unat (r_height a))" and ?c = "unat (r_width a) div 3"
  have "0 < ?p" "0 < unat (r_height a) - 3 - ?p" "0 < ?c" "2 * ?c < unat (r_width a)"
    using assms(2) pty_rows_bounds [of "unat (r_height a)"] unfolding god_area_def by arith+
  note nav = strip_navigation [OF this, of "unat (r_x a)" "unat (r_y a)" i dir]
  have "next_focus (default_for rn a) i dir = nat_next_focus (god_rects (nat_rect a)) i dir"
    by (simp only: next_focus_nat [OF default_for_fits [OF assms]] default_for_god(1) [OF assms])
  also have "\<dots> = nav_table i dir"
    using nav by (simp only: nat_rect_def god_rects.simps Let_def)
  finally show ?thesis .
qed

section \<open>Which tiles there are\<close>

lemma map_ids_find: "List.find (\<lambda>t. td_id t = i) ts \<noteq> None \<longleftrightarrow> i \<in> set (map td_id ts)"
  by (induction ts) auto

lemma god_ids [simp]: "map fst (god_rects r) = CYCLE_ORDER"
  by (cases r) (simp add: Let_def CYCLE_ORDER_def)

lemma default_for_ids:
  assumes "rect_new_law rn" and "god_area a"
  shows "map td_id (tl_tiles (default_for rn a)) = CYCLE_ORDER"
proof -
  have "map td_id (tl_tiles (default_for rn a)) =
      map fst (map (\<lambda>t. (td_id t, nat_rect (td_rect t))) (tl_tiles (default_for rn a)))"
    by simp
  then show ?thesis
    by (simp only: default_for_god(1) [OF assms] god_ids)
qed

text \<open>Without any assumption on ratatui: the tiles, their kinds and the default focus.\<close>

definition god_sized :: "rect \<Rightarrow> bool" where
  "god_sized a \<longleftrightarrow> \<not> (r_width a < MIN_COLS \<or> r_height a < MIN_ROWS)"

lemma default_for_small: "\<not> god_sized a \<Longrightarrow> default_for rn a = tiny_fallback a"
  by (auto simp: default_for_def god_sized_def)

lemma default_for_kinds:
  "god_sized a \<Longrightarrow> map (\<lambda>t. (td_id t, td_kind t)) (tl_tiles (default_for rn a)) =
     [(TilePty, KindPty), (TileDocker, KindScope ScopeDocker), (TilePorts, KindScope ScopePorts),
      (TileFleet, KindScope ScopeFleet), (TileClaudeCode, KindPlaceholder claude_label 9)]"
  by (simp add: default_for_def god_sized_def Let_def)

lemma default_for_focus:
  "tl_default_focus (default_for rn a) = (if god_sized a then TilePty else TileTooSmall)"
  by (auto simp: default_for_def god_sized_def Let_def tiny_fallback_def)

lemma tile_kind_map:
  "map_option td_kind (tile l i) = map_of (map (\<lambda>t. (td_id t, td_kind t)) (tl_tiles l)) i"
  by (simp add: tile_def find_map_of)

lemma tile_present_iff: "tile l i \<noteq> None \<longleftrightarrow> i \<in> set (map td_id (tl_tiles l))"
  unfolding tile_def by (rule map_ids_find)

lemma routes_god:
  assumes "god_sized a"
  shows "routes_to_pty (default_for rn a) i \<longleftrightarrow> i = TilePty"
    and "routes_to_scope (default_for rn a) i =
      (case i of TileDocker \<Rightarrow> Some ScopeDocker | TilePorts \<Rightarrow> Some ScopePorts
       | TileFleet \<Rightarrow> Some ScopeFleet | _ \<Rightarrow> None)"
  by (cases i; simp add: routes_to_pty_def routes_to_scope_def tile_kind_map
      default_for_kinds [OF assms])+

lemma routes_small:
  assumes "\<not> god_sized a"
  shows "\<not> routes_to_pty (default_for rn a) i" and "routes_to_scope (default_for rn a) i = None"
  using assms
  by (simp_all add: default_for_small routes_to_pty_def routes_to_scope_def tile_kind_map
      tiny_fallback_def)

lemma default_for_present:
  "tile (default_for rn a) i \<noteq> None \<longleftrightarrow>
     (if god_sized a then i \<noteq> TileTooSmall else i = TileTooSmall)"
proof (cases "god_sized a")
  case True
  have "map td_id (tl_tiles (default_for rn a)) = CYCLE_ORDER"
    using arg_cong [OF default_for_kinds [OF True], of "map fst"]
    by (simp add: comp_def CYCLE_ORDER_def)
  then show ?thesis
    unfolding tile_present_iff using True by (cases i) (simp_all add: CYCLE_ORDER_def)
next
  case False
  then show ?thesis
    unfolding tile_present_iff by (auto simp: default_for_small tiny_fallback_def)
qed

section \<open>Cycling\<close>

text \<open>The successor and the predecessor in the reading order of the god view.\<close>

fun cycle_next :: "tile_id \<Rightarrow> tile_id" where
  "cycle_next TilePty = TileDocker"
| "cycle_next TileDocker = TilePorts"
| "cycle_next TilePorts = TileFleet"
| "cycle_next TileFleet = TileClaudeCode"
| "cycle_next TileClaudeCode = TilePty"
| "cycle_next TileTooSmall = TileTooSmall"

fun cycle_prev :: "tile_id \<Rightarrow> tile_id" where
  "cycle_prev TilePty = TileClaudeCode"
| "cycle_prev TileDocker = TilePty"
| "cycle_prev TilePorts = TileDocker"
| "cycle_prev TileFleet = TilePorts"
| "cycle_prev TileClaudeCode = TileFleet"
| "cycle_prev TileTooSmall = TileTooSmall"

lemma cycle_inverse [simp]: "cycle_prev (cycle_next i) = i" "cycle_next (cycle_prev i) = i"
  by (cases i; simp)+

lemma cycle_focus_present:
  assumes "\<forall>i \<in> set CYCLE_ORDER. tile l i \<noteq> None"
  shows "cycle_focus l i forward =
     (if i = TileTooSmall then None else Some (if forward then cycle_next i else cycle_prev i))"
  using assms
  by (cases i; cases forward) (simp_all add: cycle_focus_def CYCLE_ORDER_def upt_rec)

lemma cycle_focus_god:
  assumes "god_sized a"
  shows "cycle_focus (default_for rn a) i forward =
     (if i = TileTooSmall then None else Some (if forward then cycle_next i else cycle_prev i))"
  by (rule cycle_focus_present)
    (use default_for_present [of rn a] assms in \<open>auto simp: CYCLE_ORDER_def\<close>)

lemma cycle_focus_small:
  assumes "\<not> god_sized a"
  shows "cycle_focus (default_for rn a) i forward = None"
proof -
  have "tile (default_for rn a) j = None" if "j \<noteq> TileTooSmall" for j
    using default_for_present [of rn a j] assms that by auto
  then show ?thesis
    by (cases i; cases forward) (simp_all add: cycle_focus_def CYCLE_ORDER_def upt_rec)
qed

end
