(* ===== verification/TabStrip.thy ===== *)
theory TabStrip
  imports Tile Proto
begin

text \<open>
  The tab strip of the pane tile: what \<open>render_tab_strip\<close> draws and how \<open>hit_test_tab_strip\<close> finds
  the span under the mouse (\<open>crates/tepegoz-tui/src/pty_tile.rs\<close>). The vt100 screen of an entry is
  third-party code and its type is a parameter.
\<close>

definition MAX_TAB_DIGIT_SLOTS :: nat where "MAX_TAB_DIGIT_SLOTS = 9"
definition CLOSE_AFFORDANCE_WIDTH :: u16 where "CLOSE_AFFORDANCE_WIDTH = 3"
definition TAB_CHROME_INACTIVE :: u16 where "TAB_CHROME_INACTIVE = 4"
definition TAB_CHROME_ACTIVE :: u16 where "TAB_CHROME_ACTIVE = 5"

record 'p pane_entry =
  pe_pane_id :: pane_id
  pe_sub_id :: u64
  pe_label :: string
  pe_parser :: 'p

datatype tab_strip_hit = HitTab nat | HitCloseActive

section \<open>Drawing\<close>

text \<open>\<open>\<times>\<close>, U+00D7.\<close>

definition close_glyph :: string where
  "close_glyph = [CHR ''['', CHR 0xC3, CHR 0x97, CHR '']'']"

text \<open>The text of tab \<open>i\<close> and, after every tab, a separating space.\<close>

definition tab_text :: "nat \<Rightarrow> nat \<Rightarrow> string \<Rightarrow> string" where
  "tab_text active i label =
     ''['' @ show_nat (i + 1) @ '' '' @ label @ (if i = active then ''*'' else []) @ '']''"

text \<open>The spans of the strip; a span that reacts to a click carries what the click means.\<close>

definition tab_spans :: "nat \<Rightarrow> nat \<Rightarrow> 'p pane_entry list \<Rightarrow> (tab_strip_hit option \<times> string) list" where
  "tab_spans active i panes =
     concat (map (\<lambda>(k, e). [(Some (HitTab k), tab_text active k (pe_label e)), (None, '' '')])
       (zip [i ..< i + length panes] panes))"

definition tail_spans :: "nat \<Rightarrow> (tab_strip_hit option \<times> string) list" where
  "tail_spans n =
     (if MAX_TAB_DIGIT_SLOTS < n
      then [(None, ''[+'' @ show_nat (n - MAX_TAB_DIGIT_SLOTS) @ '']''), (None, '' '')] else []) @
     (if n \<noteq> 0 then [(Some HitCloseActive, close_glyph)] else [])"

definition render_tab_strip :: "'p pane_entry list \<Rightarrow> nat \<Rightarrow> (tab_strip_hit option \<times> string) list" where
  "render_tab_strip panes active =
     tab_spans active 0 (take MAX_TAB_DIGIT_SLOTS panes) @ tail_spans (length panes)"

section \<open>Hit testing\<close>

text \<open>\<open>usize as u16\<close>.\<close>

definition as_u16 :: "nat \<Rightarrow> u16" where "as_u16 n = word_of_nat n"

text \<open>The loop over the tabs: a hit, or the column after the last of them.\<close>

fun hit_tabs :: "nat \<Rightarrow> u16 \<Rightarrow> u16 \<Rightarrow> nat \<Rightarrow> u16 \<Rightarrow> 'p pane_entry list \<Rightarrow> tab_strip_hit + u16" where
  "hit_tabs active strip_end x i col [] = Inr col"
| "hit_tabs active strip_end x i col (entry # entries) =
     (let label_cells = as_u16 (chars_count (pe_label entry));
          chrome = (if i = active then TAB_CHROME_ACTIVE else TAB_CHROME_INACTIVE);
          tab_width = saturating_add label_cells chrome;
          tab_end = saturating_add col tab_width
      in if col \<le> x \<and> x < tab_end \<and> tab_end \<le> strip_end then Inl (HitTab i)
         else hit_tabs active strip_end x (Suc i) (saturating_add tab_end 1) entries)"

definition hit_test_tab_strip ::
  "'p pane_entry list \<Rightarrow> nat \<Rightarrow> rect \<Rightarrow> u16 \<Rightarrow> tab_strip_hit option" where
  "hit_test_tab_strip panes active strip x =
     (if r_height strip = 0 \<or> r_width strip = 0 then None
      else
        let strip_end = saturating_add (r_x strip) (r_width strip)
        in case hit_tabs active strip_end x 0 (r_x strip) (take MAX_TAB_DIGIT_SLOTS panes) of
             Inl h \<Rightarrow> Some h
           | Inr col \<Rightarrow>
               let overflow = length panes - MAX_TAB_DIGIT_SLOTS;
                   overflow_chars = as_u16 (chars_count (''[+'' @ show_nat overflow @ '']''));
                   col' = (if 0 < overflow then saturating_add (saturating_add col overflow_chars) 1 else col);
                   close_end = saturating_add col' CLOSE_AFFORDANCE_WIDTH
               in if panes \<noteq> [] \<and> col' \<le> x \<and> x < close_end \<and> close_end \<le> strip_end
                  then Some HitCloseActive else None)"

section \<open>The hit test reads the strip as it is drawn\<close>

text \<open>
  The span under cell \<open>k\<close> of the strip, and the cell after its last one. A character takes one cell.
\<close>

fun span_at :: "nat \<Rightarrow> nat \<Rightarrow> (tab_strip_hit option \<times> string) list \<Rightarrow> (tab_strip_hit \<times> nat) option" where
  "span_at from k [] = None"
| "span_at from k ((owner, txt) # spans) =
     (if k < from + chars_count txt
      then (case owner of Some h \<Rightarrow> if from \<le> k then Some (h, from + chars_count txt) else None | None \<Rightarrow> None)
      else span_at (from + chars_count txt) k spans)"

definition spans_width :: "(tab_strip_hit option \<times> string) list \<Rightarrow> nat" where
  "spans_width spans = sum_list (map (\<lambda>s. chars_count (snd s)) spans)"

text \<open>A click counts when its span lies wholly inside the strip.\<close>

definition clicked :: "nat \<Rightarrow> (tab_strip_hit \<times> nat) option \<Rightarrow> tab_strip_hit option" where
  "clicked width s = (case s of Some (h, till) \<Rightarrow> if till \<le> width then Some h else None | None \<Rightarrow> None)"

lemma chars_count_append [simp]: "chars_count (s @ t) = chars_count s + chars_count t"
  by (simp add: chars_count_def)

lemma chars_count_1 [simp]: "chars_count [] = 0"
  by (simp add: chars_count_def)

lemma chars_count_Cons: "chars_count (c # s) = (if is_cont (byte_of c) then 0 else 1) + chars_count s"
  by (simp add: chars_count_def)

lemma ascii_not_cont: "(of_char c :: nat) < 128 \<Longrightarrow> \<not> is_cont (byte_of c)"
proof -
  assume a: "(of_char c :: nat) < 128"
  have "unat (byte_of c) = of_char c"
    by (simp add: byte_of_def unsigned_of_nat take_bit_eq_mod of_char_mod_256)
  then show ?thesis using a by (simp add: is_cont_def word_le_nat_alt)
qed

lemma chars_count_digit: "d < 10 \<Longrightarrow> chars_count [digit_char d] = 1"
  by (simp add: chars_count_Cons ascii_not_cont digit_char_def of_char_of)

lemma chars_count_tab:
  assumes "i < MAX_TAB_DIGIT_SLOTS"
  shows "chars_count (tab_text active i l) = chars_count l + (if i = active then 5 else 4)"
proof -
  have "show_nat (i + 1) = [digit_char (i + 1)]"
    using assms by (subst show_nat.simps) (simp add: MAX_TAB_DIGIT_SLOTS_def del: show_nat.simps)
  then show ?thesis
    using assms chars_count_digit [of "i + 1"]
    by (simp add: tab_text_def chars_count_Cons ascii_not_cont MAX_TAB_DIGIT_SLOTS_def
        del: show_nat.simps)
qed

lemma spans_width_simps [simp]:
  "spans_width [] = 0" "spans_width (s # ss) = chars_count (snd s) + spans_width ss"
  "spans_width (xs @ ys) = spans_width xs + spans_width ys"
  by (simp_all add: spans_width_def)

lemma span_at_before: "k < from \<Longrightarrow> span_at from k spans = None"
  by (induction spans arbitrary: "from") (auto split: option.splits)

lemma span_at_append:
  "span_at from k (xs @ ys) =
     (if k < from + spans_width xs then span_at from k xs else span_at (from + spans_width xs) k ys)"
  by (induction xs arbitrary: "from") (auto simp: add.assoc span_at_before)

lemma tab_spans_Nil [simp]: "tab_spans active i [] = []"
  by (simp add: tab_spans_def)

lemma tab_spans_Cons [simp]:
  "tab_spans active i (e # es) =
     (Some (HitTab i), tab_text active i (pe_label e)) # (None, '' '') # tab_spans active (Suc i) es"
  using upt_conv_Cons [of i "i + length (e # es)"] by (simp add: tab_spans_def)

lemma chars_count_space [simp]: "chars_count '' '' = 1"
  by (simp add: chars_count_Cons ascii_not_cont)

lemma unat_sat_add_u16:
  "unat a + b < 2 ^ 16 \<Longrightarrow> unat w = b \<Longrightarrow> unat (saturating_add a (w :: u16)) = unat a + b"
  by (simp add: unat_saturating_add)

lemma unat_as_u16: "n < 2 ^ 16 \<Longrightarrow> unat (as_u16 n) = n"
  by (simp add: as_u16_def unsigned_of_nat take_bit_nat_eq_self)

text \<open>One turn of the loop, without wrap or saturation.\<close>

lemma tab_end_unat:
  assumes "i < MAX_TAB_DIGIT_SLOTS"
    and "unat col + chars_count (tab_text active i l) < 2 ^ 16"
  shows "unat (saturating_add col (saturating_add (as_u16 (chars_count l))
      (if i = active then TAB_CHROME_ACTIVE else TAB_CHROME_INACTIVE))) =
    unat col + chars_count (tab_text active i l)"
proof -
  have "unat (as_u16 (chars_count l)) = chars_count l"
    using assms by (intro unat_as_u16) (simp add: chars_count_tab)
  then have "unat (saturating_add (as_u16 (chars_count l))
      (if i = active then TAB_CHROME_ACTIVE else TAB_CHROME_INACTIVE)) =
      chars_count (tab_text active i l)"
    using assms by (auto simp: chars_count_tab unat_saturating_add TAB_CHROME_ACTIVE_def
        TAB_CHROME_INACTIVE_def min_def)
  then show ?thesis using assms(2) by (simp add: unat_saturating_add)
qed

lemma hit_tabs_before:
  "x < col \<Longrightarrow> i + length panes \<le> MAX_TAB_DIGIT_SLOTS \<Longrightarrow>
   unat col + spans_width (tab_spans active i panes) < 2 ^ 16 \<Longrightarrow>
   \<exists>c. hit_tabs active strip_end x i col panes = Inr c \<and>
       unat c = unat col + spans_width (tab_spans active i panes)"
proof (induction panes arbitrary: i col)
  case (Cons e es)
  let ?te = "saturating_add col (saturating_add (as_u16 (chars_count (pe_label e)))
      (if i = active then TAB_CHROME_ACTIVE else TAB_CHROME_INACTIVE))"
  have te: "unat ?te = unat col + chars_count (tab_text active i (pe_label e))"
    using Cons.prems by (intro tab_end_unat) auto
  have c1: "unat (saturating_add ?te 1) = unat ?te + 1"
    using Cons.prems te by (simp add: unat_saturating_add)
  have "x < saturating_add ?te 1"
    using Cons.prems(1) c1 te by (simp add: word_less_nat_alt)
  from Cons.IH [OF this, of "Suc i"] Cons.prems te c1 show ?case
    by (auto simp: Let_def)
qed simp

lemma hit_tabs_span:
  "i + length panes \<le> MAX_TAB_DIGIT_SLOTS \<Longrightarrow>
   unat col + spans_width (tab_spans active i panes) < 2 ^ 16 \<Longrightarrow>
   (case hit_tabs active strip_end x i col panes of
      Inl h \<Rightarrow> clicked (unat strip_end) (span_at (unat col) (unat x) (tab_spans active i panes)) = Some h
    | Inr c \<Rightarrow> clicked (unat strip_end) (span_at (unat col) (unat x) (tab_spans active i panes)) = None \<and>
        unat c = unat col + spans_width (tab_spans active i panes))"
proof (induction panes arbitrary: i col)
  case Nil
  then show ?case by (simp add: clicked_def)
next
  case (Cons e es)
  let ?te = "saturating_add col (saturating_add (as_u16 (chars_count (pe_label e)))
      (if i = active then TAB_CHROME_ACTIVE else TAB_CHROME_INACTIVE))"
  let ?n = "chars_count (tab_text active i (pe_label e))"
  have te: "unat ?te = unat col + ?n"
    using Cons.prems by (intro tab_end_unat) auto
  have c1: "unat (saturating_add ?te 1) = unat col + ?n + 1"
    using Cons.prems te by (simp add: unat_saturating_add)
  have rest: "Suc i + length es \<le> MAX_TAB_DIGIT_SLOTS"
    "unat (saturating_add ?te 1) + spans_width (tab_spans active (Suc i) es) < 2 ^ 16"
    using Cons.prems c1 by auto
  consider "x < col" | "col \<le> x" "x < ?te" | "unat col + ?n \<le> unat x"
    using te unfolding word_less_nat_alt word_le_nat_alt by linarith
  then show ?case
  proof cases
    case 1
    then obtain c where "hit_tabs active strip_end x i col (e # es) = Inr c"
      "unat c = unat col + spans_width (tab_spans active i (e # es))"
      using hit_tabs_before [OF 1 Cons.prems] by blast
    then show ?thesis using 1 by (simp add: span_at_before clicked_def word_less_nat_alt del: hit_tabs.simps)
  next
    case 2
    have s: "span_at (unat col) (unat x) (tab_spans active i (e # es)) = Some (HitTab i, unat col + ?n)"
      using 2 te by (simp add: word_less_nat_alt word_le_nat_alt)
    show ?thesis
    proof (cases "?te \<le> strip_end")
      case True
      then show ?thesis using 2 s te by (simp add: clicked_def word_le_nat_alt)
    next
      case False
      have "x < saturating_add ?te 1"
        using 2 c1 te by (simp add: word_less_nat_alt)
      from hit_tabs_before [OF this rest] obtain c where
        c: "hit_tabs active strip_end x (Suc i) (saturating_add ?te 1) es = Inr c"
        "unat c = unat (saturating_add ?te 1) + spans_width (tab_spans active (Suc i) es)" by blast
      have "hit_tabs active strip_end x i col (e # es) = Inr c"
        using False c(1) by (simp add: Let_def)
      then show ?thesis
        using False s te c c1 by (simp add: clicked_def word_le_nat_alt del: hit_tabs.simps span_at.simps)
    qed
  next
    case 3
    then have h: "hit_tabs active strip_end x i col (e # es) =
        hit_tabs active strip_end x (Suc i) (saturating_add ?te 1) es"
      using te by (simp add: Let_def word_less_nat_alt)
    have s: "span_at (unat col) (unat x) (tab_spans active i (e # es)) =
        span_at (unat col + ?n + 1) (unat x) (tab_spans active (Suc i) es)"
      using 3 by (auto simp: span_at_before)
    have w: "unat col + spans_width (tab_spans active i (e # es)) =
        unat col + ?n + 1 + spans_width (tab_spans active (Suc i) es)"
      by simp
    show ?thesis
      using Cons.IH [OF rest, unfolded c1] unfolding h s w by simp
  qed
qed

lemma chars_count_close [simp]: "chars_count close_glyph = 3"
  by (simp add: close_glyph_def chars_count_Cons is_cont_def byte_of_def)

lemma chars_count_overflow_pos: "0 < chars_count (''['' @ s)"
  by (simp add: chars_count_Cons ascii_not_cont)

text \<open>After the tabs: the overflow count and the close mark.\<close>

lemma hit_tail:
  assumes "unat col + spans_width (tail_spans n) < 2 ^ 16"
  shows "(let overflow = n - MAX_TAB_DIGIT_SLOTS;
              overflow_chars = as_u16 (chars_count (''[+'' @ show_nat overflow @ '']''));
              col' = (if 0 < overflow then saturating_add (saturating_add col overflow_chars) 1 else col);
              close_end = saturating_add col' CLOSE_AFFORDANCE_WIDTH
          in if n \<noteq> 0 \<and> col' \<le> x \<and> x < close_end \<and> close_end \<le> strip_end
             then Some HitCloseActive else None) =
    clicked (unat strip_end) (span_at (unat col) (unat x) (tail_spans n))"
proof -
  let ?o = "chars_count (''[+'' @ show_nat (n - MAX_TAB_DIGIT_SLOTS) @ '']'')"
  define c where "c = (if MAX_TAB_DIGIT_SLOTS < n then saturating_add (saturating_add col (as_u16 ?o)) 1 else col)"
  have c: "unat c = (if MAX_TAB_DIGIT_SLOTS < n then unat col + ?o + 1 else unat col)"
  proof (cases "MAX_TAB_DIGIT_SLOTS < n")
    case True
    then have "unat col + ?o + 1 < 2 ^ 16" using assms by (simp add: tail_spans_def)
    then show ?thesis using True
      by (simp add: c_def unat_saturating_add unat_as_u16 del: chars_count_append)
  qed (simp add: c_def)
  have close: "unat (saturating_add c CLOSE_AFFORDANCE_WIDTH) = unat c + 3" if "n \<noteq> 0"
    using assms c that by (simp add: tail_spans_def unat_saturating_add CLOSE_AFFORDANCE_WIDTH_def
        del: chars_count_append split: if_splits)
  have "span_at (unat col) (unat x) (tail_spans n) =
      (if n \<noteq> 0 \<and> unat c \<le> unat x \<and> unat x < unat c + 3 then Some (HitCloseActive, unat c + 3) else None)"
    using c by (auto simp: tail_spans_def simp del: chars_count_append)
  then show ?thesis
    using close unfolding Let_def zero_less_diff c_def [symmetric]
    by (auto simp: clicked_def word_less_nat_alt word_le_nat_alt)
qed

lemma span_at_bounds: "span_at from k spans = Some (h, till) \<Longrightarrow> from \<le> k \<and> k < till"
  by (induction spans arbitrary: "from") (auto split: if_splits option.splits dest: add_leD1)

lemma clicked_nothing: "clicked u (span_at u k spans) = None"
  by (auto simp: clicked_def dest: span_at_bounds split: option.splits)

lemma span_at_beyond: "from + spans_width spans \<le> k \<Longrightarrow> span_at from k spans = None"
  by (induction spans arbitrary: "from") auto


definition demo_strip :: rect where
  "demo_strip = \<lparr>r_x = 10, r_y = 4, r_width = 30, r_height = 1\<rparr>"

definition demo_entries :: "unit pane_entry list" where
  "demo_entries = [\<lparr>pe_pane_id = 1, pe_sub_id = 1, pe_label = ''zsh'', pe_parser = ()\<rparr>,
     \<lparr>pe_pane_id = 7, pe_sub_id = 9, pe_label = ''ssh:web'', pe_parser = ()\<rparr>]"


end
