(* ===== verification/Input.thy ===== *)
theory Input
  imports Tile
begin

text \<open>
  The stdin byte filter of \<open>crates/tepegoz-tui/src/input.rs\<close>: it recognises the few global
  keybindings and hands everything else on as \<^verbatim>\<open>Forward\<close> bytes. The loop over the chunk is a
  recursion that carries the bytes accumulated so far.
\<close>

abbreviation PREFIX_BYTE :: u8 where "PREFIX_BYTE \<equiv> 0x02" \<comment> \<open>Ctrl-b\<close>
abbreviation TAB :: u8 where "TAB \<equiv> 0x09"
abbreviation ESC :: u8 where "ESC \<equiv> 0x1b"
abbreviation CSI_OPEN :: u8 where "CSI_OPEN \<equiv> 0x5b" \<comment> \<open>\<open>[\<close>\<close>

definition is_csi_final :: "u8 \<Rightarrow> bool" where
  "is_csi_final b \<longleftrightarrow> 0x40 \<le> b \<and> b \<le> 0x7e"

definition is_csi_param_or_intermediate :: "u8 \<Rightarrow> bool" where
  "is_csi_param_or_intermediate b \<longleftrightarrow> 0x20 \<le> b \<and> b \<le> 0x3f"

datatype input_action =
  Forward "u8 list"
| Detach
| FocusDirection focus_dir
| FocusNext
| FocusPrev
| Help
| PaneClose
| OpenHostPicker

datatype filter_state =
  FNormal
| PrefixActive
| PrefixEsc
| PrefixCsi
| BareCsi
| BareCsiCollect "u8 list"

text \<open>The byte after \<open>Ctrl-b\<close>: \<open>d h j k l ? & t\<close>.\<close>

definition prefix_control :: "u8 \<Rightarrow> input_action option" where
  "prefix_control b =
     (if b = 0x64 then Some Detach
      else if b = 0x68 then Some (FocusDirection FocusLeft)
      else if b = 0x6a then Some (FocusDirection FocusDown)
      else if b = 0x6b then Some (FocusDirection FocusUp)
      else if b = 0x6c then Some (FocusDirection FocusRight)
      else if b = 0x3f then Some Help
      else if b = 0x26 then Some PaneClose
      else if b = 0x74 then Some OpenHostPicker
      else None)"

text \<open>The final byte of an arrow key: \<open>A B C D\<close>.\<close>

definition arrow_dir :: "u8 \<Rightarrow> focus_dir option" where
  "arrow_dir b =
     (if b = 0x41 then Some FocusUp
      else if b = 0x42 then Some FocusDown
      else if b = 0x43 then Some FocusRight
      else if b = 0x44 then Some FocusLeft
      else None)"

definition flush :: "u8 list \<Rightarrow> input_action list" where
  "flush out = (if out = [] then [] else [Forward out])"

fun process_from :: "filter_state \<Rightarrow> u8 list \<Rightarrow> u8 list \<Rightarrow> filter_state \<times> input_action list" where
  "process_from st out [] = (st, flush out)"
| "process_from FNormal out (b # bs) =
     (if b = TAB then (FNormal, flush out @ [FocusNext])
      else if b = PREFIX_BYTE then process_from PrefixActive out bs
      else if b = ESC \<and> bs \<noteq> [] \<and> hd bs = CSI_OPEN then process_from BareCsi out (tl bs)
      else process_from FNormal (out @ [b]) bs)"
| "process_from PrefixActive out (b # bs) =
     (case prefix_control b of
        Some action \<Rightarrow> (FNormal, flush out @ [action])
      | None \<Rightarrow>
          if b = ESC then process_from PrefixEsc out bs
          else process_from FNormal (out @ [PREFIX_BYTE, b]) bs)"
| "process_from PrefixEsc out (b # bs) =
     (if b = CSI_OPEN then process_from PrefixCsi out bs
      else process_from FNormal (out @ [PREFIX_BYTE, ESC, b]) bs)"
| "process_from PrefixCsi out (b # bs) =
     (case arrow_dir b of
        Some dir \<Rightarrow> (FNormal, flush out @ [FocusDirection dir])
      | None \<Rightarrow> process_from FNormal (out @ [PREFIX_BYTE, ESC, CSI_OPEN, b]) bs)"
| "process_from BareCsi out (b # bs) =
     (if b = 0x5a then (FNormal, flush out @ [FocusPrev])
      else if is_csi_final b then process_from FNormal (out @ [ESC, CSI_OPEN, b]) bs
      else if is_csi_param_or_intermediate b then process_from (BareCsiCollect [b]) out bs
      else process_from FNormal (out @ [ESC, CSI_OPEN, b]) bs)"
| "process_from (BareCsiCollect buf) out (b # bs) =
     (if is_csi_final b then process_from FNormal (out @ [ESC, CSI_OPEN] @ buf @ [b]) bs
      else if is_csi_param_or_intermediate b then process_from (BareCsiCollect (buf @ [b])) out bs
      else process_from FNormal (out @ [ESC, CSI_OPEN] @ buf @ [b]) bs)"

definition process :: "filter_state \<Rightarrow> u8 list \<Rightarrow> filter_state \<times> input_action list" where
  "process st bs = process_from st [] bs"

section \<open>What the filter holds back\<close>

fun pending :: "filter_state \<Rightarrow> u8 list" where
  "pending FNormal = []"
| "pending PrefixActive = [PREFIX_BYTE]"
| "pending PrefixEsc = [PREFIX_BYTE, ESC]"
| "pending PrefixCsi = [PREFIX_BYTE, ESC, CSI_OPEN]"
| "pending BareCsi = [ESC, CSI_OPEN]"
| "pending (BareCsiCollect buf) = [ESC, CSI_OPEN] @ buf"

text \<open>The byte sequences that stand for an action.\<close>

inductive control_seq :: "input_action \<Rightarrow> u8 list \<Rightarrow> bool" where
  cs_tab: "control_seq FocusNext [TAB]"
| cs_shift_tab: "control_seq FocusPrev [ESC, CSI_OPEN, 0x5a]"
| cs_prefix: "prefix_control b = Some a \<Longrightarrow> control_seq a [PREFIX_BYTE, b]"
| cs_arrow: "arrow_dir b = Some d \<Longrightarrow>
    control_seq (FocusDirection d) [PREFIX_BYTE, ESC, CSI_OPEN, b]"

inductive_simps control_seq_Forward [simp]: "control_seq (Forward w) s"

fun forwarded :: "input_action list \<Rightarrow> u8 list" where
  "forwarded [] = []"
| "forwarded (Forward w # as) = w @ forwarded as"
| "forwarded (_ # as) = forwarded as"

definition controls :: "input_action list \<Rightarrow> input_action list" where
  "controls as = filter (\<lambda>a. \<forall>w. a \<noteq> Forward w) as"

lemma forwarded_flush [simp]: "forwarded (flush out) = out"
  by (simp add: flush_def)

lemma prefix_control_not_Forward: "prefix_control b = Some a \<Longrightarrow> a \<noteq> Forward w"
  by (auto simp: prefix_control_def split: if_splits)

text \<open>
  The outcome of one chunk: at most one \<^const>\<open>Forward\<close> (never empty) followed by at most one
  control action, which ends the chunk.
\<close>

definition chunk_outcome ::
  "u8 list \<Rightarrow> filter_state \<Rightarrow> input_action list \<Rightarrow> bool" where
  "chunk_outcome stream st as \<longleftrightarrow>
     (\<exists>w. as = flush w \<and> w @ pending st = stream) \<or>
     (\<exists>w a s tail. as = flush w @ [a] \<and> control_seq a s \<and> st = FNormal \<and> w @ s @ tail = stream)"

lemma chunk_outcome_pass:
  "w @ pending st = stream \<Longrightarrow> chunk_outcome stream st (flush w)"
  by (auto simp: chunk_outcome_def)

lemma chunk_outcome_control:
  "control_seq a s \<Longrightarrow> w @ s @ tail = stream \<Longrightarrow> chunk_outcome stream FNormal (flush w @ [a])"
  by (auto simp: chunk_outcome_def)

lemma process_from_outcome:
  "case process_from st out bs of (st', as) \<Rightarrow> chunk_outcome (out @ pending st @ bs) st' as"
proof (induction st out bs rule: process_from.induct)
  case (1 st out)
  show ?case by (simp add: chunk_outcome_pass)
next
  case (2 out b bs)
  consider "b = TAB" | "b = PREFIX_BYTE" | c where "b = ESC" "bs = CSI_OPEN # c"
    | "b \<noteq> TAB" "b \<noteq> PREFIX_BYTE" "\<not> (b = ESC \<and> bs \<noteq> [] \<and> hd bs = CSI_OPEN)"
    by (cases bs) auto
  then show ?case
    using 2 by cases (auto intro!: chunk_outcome_control [OF cs_tab])
next
  case (3 out b bs)
  show ?case
  proof (cases "prefix_control b")
    case None
    then show ?thesis using 3 by auto
  next
    case (Some a)
    then show ?thesis by (auto intro!: chunk_outcome_control [OF cs_prefix])
  qed
next
  case (4 out b bs)
  then show ?case by auto
next
  case (5 out b bs)
  show ?case
  proof (cases "arrow_dir b")
    case None
    then show ?thesis using 5 by auto
  next
    case (Some d)
    then show ?thesis by (auto intro!: chunk_outcome_control [OF cs_arrow])
  qed
next
  case (6 out b bs)
  then show ?case
    by (auto intro!: chunk_outcome_control [OF cs_shift_tab])
next
  case (7 buf out b bs)
  then show ?case by auto
qed

lemma process_outcome:
  "process st bs = (st', as) \<Longrightarrow> chunk_outcome (pending st @ bs) st' as"
  using process_from_outcome [of "[]" st bs] by (simp add: process_def)

section \<open>Bytes that mean nothing to the filter\<close>

text \<open>No \<open>Tab\<close>, no \<open>Ctrl-b\<close> and no \<open>ESC [\<close> pair.\<close>

fun plain :: "u8 list \<Rightarrow> bool" where
  "plain [] = True"
| "plain (b # bs) = (b \<noteq> TAB \<and> b \<noteq> PREFIX_BYTE \<and> \<not> (b = ESC \<and> bs \<noteq> [] \<and> hd bs = CSI_OPEN) \<and> plain bs)"

lemma process_from_plain:
  "plain xs \<Longrightarrow> (xs \<noteq> [] \<and> last xs = ESC \<longrightarrow> ys = [] \<or> hd ys \<noteq> CSI_OPEN) \<Longrightarrow>
     process_from FNormal out (xs @ ys) = process_from FNormal (out @ xs) ys"
proof (induction xs arbitrary: out)
  case (Cons x xs)
  then show ?case
    by (cases xs) auto
qed simp

lemma process_plain: "plain bs \<Longrightarrow> process FNormal bs = (FNormal, flush bs)"
  using process_from_plain [of bs "[]" "[]"] by (simp add: process_def)

lemma process_tab_cuts:
  "plain xs \<Longrightarrow> process FNormal (xs @ TAB # ys) = (FNormal, flush xs @ [FocusNext])"
  using process_from_plain [of xs "TAB # ys" "[]"] by (simp add: process_def)

section \<open>The state between chunks\<close>

text \<open>A collecting state holds at least one byte, and only parameter or intermediate bytes.\<close>

fun filter_inv :: "filter_state \<Rightarrow> bool" where
  "filter_inv (BareCsiCollect buf) \<longleftrightarrow> buf \<noteq> [] \<and> list_all is_csi_param_or_intermediate buf"
| "filter_inv _ = True"

lemma process_from_inv: "filter_inv st \<Longrightarrow> filter_inv (fst (process_from st out bs))"
  by (induction st out bs rule: process_from.induct) (auto split: option.splits)

interpretation input_run: event_machine "\<lambda>bs st. fst (process st bs)" filter_inv
  by unfold_locales (simp add: process_def process_from_inv)

end
