(* ===== verification/Mouse.thy ===== *)
theory Mouse
  imports Input
begin

text \<open>
  The SGR mouse parser of \<open>crates/tepegoz-tui/src/mouse.rs\<close>: a byte automaton in front of the input
  filter that takes complete mouse reports out of the byte stream, turns the ones the program
  cares about into events and passes every other byte on.
\<close>

abbreviation SGR_MARKER :: u8 where "SGR_MARKER \<equiv> 0x3c" \<comment> \<open>\<open><\<close>\<close>
abbreviation SGR_PRESS :: u8 where "SGR_PRESS \<equiv> 0x4d" \<comment> \<open>\<open>M\<close>\<close>
abbreviation SGR_RELEASE :: u8 where "SGR_RELEASE \<equiv> 0x6d" \<comment> \<open>\<open>m\<close>\<close>

definition BUTTON_MASK :: u32 where "BUTTON_MASK = 3"
definition MOTION_BIT :: u32 where "MOTION_BIT = 32"
definition WHEEL_BIT :: u32 where "WHEEL_BIT = 64"

datatype mouse_state = MIdle | MEsc | MCsi | MParams "u8 list"

text \<open>The two variants of \<open>AppEvent\<close> the parser makes: column and row, from zero.\<close>

datatype mouse_event = MouseClick u16 u16 | MouseHover u16 u16

text \<open>\<open>u16::try_from\<close> of a \<open>u32\<close>.\<close>

definition u16_try_from :: "u32 \<Rightarrow> u16 option" where
  "u16_try_from w = (if unat w < 2 ^ 16 then Some (ucast w) else None)"

definition sgr_event :: "u32 \<Rightarrow> u16 \<Rightarrow> u16 \<Rightarrow> bool \<Rightarrow> mouse_event option" where
  "sgr_event cb x y is_press =
     (let motion = and cb MOTION_BIT \<noteq> 0;
          wheel = and cb WHEEL_BIT \<noteq> 0;
          button = and cb BUTTON_MASK
      in if motion then Some (MouseHover x y)
         else if wheel then None
         else if is_press \<and> button = 0 then Some (MouseClick x y)
         else None)"

definition parse_sgr_params :: "u8 list \<Rightarrow> bool \<Rightarrow> mouse_event option" where
  "parse_sgr_params params is_press =
     (case from_utf8 params of
        None \<Rightarrow> None
      | Some s \<Rightarrow>
          (case split_on (CHR '';'') s of
             [p1, p2, p3] \<Rightarrow>
               (case (parse_u32 p1, parse_u32 p2, parse_u32 p3) of
                  (Some cb, Some cx, Some cy) \<Rightarrow>
                    (case (u16_try_from (saturating_sub cx 1), u16_try_from (saturating_sub cy 1)) of
                       (Some x, Some y) \<Rightarrow> sgr_event cb x y is_press
                     | _ \<Rightarrow> None)
                | _ \<Rightarrow> None)
           | _ \<Rightarrow> None))"

definition sgr_final :: "u8 \<Rightarrow> bool" where
  "sgr_final b \<longleftrightarrow> b = SGR_PRESS \<or> b = SGR_RELEASE"

text \<open>One byte: the next state, the bytes passed on and the event found.\<close>

fun mouse_step :: "mouse_state \<Rightarrow> u8 \<Rightarrow> mouse_state \<times> u8 list \<times> mouse_event list" where
  "mouse_step MIdle b = (if b = ESC then (MEsc, [], []) else (MIdle, [b], []))"
| "mouse_step MEsc b = (if b = CSI_OPEN then (MCsi, [], []) else (MIdle, [ESC, b], []))"
| "mouse_step MCsi b =
     (if b = SGR_MARKER then (MParams [], [], []) else (MIdle, [ESC, CSI_OPEN, b], []))"
| "mouse_step (MParams buf) b =
     (if sgr_final b
      then (MIdle, [], case parse_sgr_params buf (b = SGR_PRESS) of Some ev \<Rightarrow> [ev] | None \<Rightarrow> [])
      else (MParams (buf @ [b]), [], []))"

fun mouse_parse :: "mouse_state \<Rightarrow> u8 list \<Rightarrow> mouse_state \<times> u8 list \<times> mouse_event list" where
  "mouse_parse st [] = (st, [], [])"
| "mouse_parse st (b # bs) =
     (case mouse_step st b of (st1, o1, e1) \<Rightarrow>
      case mouse_parse st1 bs of (st2, o2, e2) \<Rightarrow> (st2, o1 @ o2, e1 @ e2))"

section \<open>Chunk boundaries do not matter\<close>

lemma mouse_parse_append:
  "mouse_parse st (xs @ ys) =
     (case mouse_parse st xs of (st1, o1, e1) \<Rightarrow>
      case mouse_parse st1 ys of (st2, o2, e2) \<Rightarrow> (st2, o1 @ o2, e1 @ e2))"
  by (induction xs arbitrary: st) (auto split: prod.splits)

section \<open>What is taken out of the stream\<close>

text \<open>The bytes a state holds back.\<close>

fun mouse_held :: "mouse_state \<Rightarrow> u8 list" where
  "mouse_held MIdle = []"
| "mouse_held MEsc = [ESC]"
| "mouse_held MCsi = [ESC, CSI_OPEN]"
| "mouse_held (MParams buf) = [ESC, CSI_OPEN, SGR_MARKER] @ buf"

fun mouse_inv :: "mouse_state \<Rightarrow> bool" where
  "mouse_inv (MParams buf) \<longleftrightarrow> list_all (\<lambda>b. \<not> sgr_final b) buf"
| "mouse_inv _ = True"

text \<open>
  A stream demultiplexed: complete reports are removed, each leaving the event it decodes to (if
  any); every other byte is kept, in order.
\<close>

inductive demux :: "u8 list \<Rightarrow> u8 list \<Rightarrow> mouse_event list \<Rightarrow> bool" where
  demux_nil: "demux [] [] []"
| demux_keep: "demux s r es \<Longrightarrow> demux (s @ [b]) (r @ [b]) es"
| demux_report: "demux s r es \<Longrightarrow> list_all (\<lambda>b. \<not> sgr_final b) buf \<Longrightarrow> sgr_final f \<Longrightarrow>
    demux (s @ [ESC, CSI_OPEN, SGR_MARKER] @ buf @ [f]) r
      (es @ (case parse_sgr_params buf (f = SGR_PRESS) of Some ev \<Rightarrow> [ev] | None \<Rightarrow> []))"

lemma demux_keeps: "demux s r es \<Longrightarrow> demux (s @ bs) (r @ bs) es"
  by (induction bs rule: rev_induct) (auto dest: demux_keep simp flip: append_assoc)

lemma mouse_step_demux:
  "mouse_inv st \<Longrightarrow> demux s r es \<Longrightarrow> mouse_step st b = (st', o1, e1) \<Longrightarrow>
     mouse_inv st' \<and> (\<exists>s'. s' @ mouse_held st' = s @ mouse_held st @ [b] \<and> demux s' (r @ o1) (es @ e1))"
proof (cases st)
  case MIdle
  moreover assume "demux s r es" "mouse_step st b = (st', o1, e1)"
  ultimately show ?thesis by (auto intro: demux_keep split: if_splits)
next
  case MEsc
  moreover assume d: "demux s r es" "mouse_step st b = (st', o1, e1)"
  ultimately show ?thesis using demux_keeps [OF d(1), of "[ESC, b]"]
    by (auto split: if_splits)
next
  case MCsi
  moreover assume d: "demux s r es" "mouse_step st b = (st', o1, e1)"
  ultimately show ?thesis using demux_keeps [OF d(1), of "[ESC, CSI_OPEN, b]"]
    by (auto split: if_splits)
next
  case (MParams buf)
  moreover assume "mouse_inv st" "demux s r es" "mouse_step st b = (st', o1, e1)"
  ultimately show ?thesis
    using demux_report [of s r es buf b] by (auto split: if_splits)
qed

lemma mouse_parse_demux:
  "mouse_inv st \<Longrightarrow> demux s r es \<Longrightarrow> mouse_parse st bs = (st', o1, e1) \<Longrightarrow>
     mouse_inv st' \<and> (\<exists>s'. s' @ mouse_held st' = s @ mouse_held st @ bs \<and> demux s' (r @ o1) (es @ e1))"
proof (induction bs arbitrary: st st' s r es o1 e1)
  case (Cons b bs)
  obtain st1 oa ea where a: "mouse_step st b = (st1, oa, ea)"
    by (cases "mouse_step st b") auto
  obtain st2 ob eb where c: "mouse_parse st1 bs = (st2, ob, eb)"
    by (cases "mouse_parse st1 bs") auto
  obtain s1 where 1: "mouse_inv st1" "s1 @ mouse_held st1 = s @ mouse_held st @ [b]"
    "demux s1 (r @ oa) (es @ ea)"
    using mouse_step_demux [OF Cons.prems(1,2) a] by blast
  obtain s2 where "mouse_inv st2" "s2 @ mouse_held st2 = s1 @ mouse_held st1 @ bs"
    "demux s2 ((r @ oa) @ ob) ((es @ ea) @ eb)"
    using Cons.IH [OF 1(1,3) c] by blast
  moreover have "s1 @ mouse_held st1 @ bs = s @ mouse_held st @ b # bs"
    using 1(2) by (metis append.assoc append_Cons append_Nil)
  ultimately show ?case using Cons.prems(3) a c by auto
qed auto

interpretation mouse_run: event_machine "\<lambda>bs st. fst (mouse_parse st bs)" mouse_inv
proof unfold_locales
  fix st bs assume "mouse_inv st"
  then show "mouse_inv (fst (mouse_parse st bs))"
    using mouse_parse_demux [OF _ demux_nil, of st bs] by (cases "mouse_parse st bs") auto
qed

section \<open>Keyboard input and reports\<close>

lemma mouse_parse_no_esc: "ESC \<notin> set bs \<Longrightarrow> mouse_parse MIdle bs = (MIdle, bs, [])"
  by (induction bs) auto

lemma mouse_parse_params:
  "list_all (\<lambda>b. \<not> sgr_final b) bs \<Longrightarrow> mouse_parse (MParams buf) bs = (MParams (buf @ bs), [], [])"
  by (induction bs arbitrary: buf) auto

text \<open>What a terminal sends: \<open>ESC [ < Cb ; Cx ; Cy M\<close>, with column and row counted from one.\<close>

definition sgr_report :: "nat \<Rightarrow> nat \<Rightarrow> nat \<Rightarrow> u8 \<Rightarrow> u8 list" where
  "sgr_report cb cx cy f = [ESC, CSI_OPEN, SGR_MARKER] @
     bytes_of (show_nat cb @ '';'' @ show_nat cx @ '';'' @ show_nat cy) @ [f]"

lemma is_digit_byte: "is_digit c \<Longrightarrow> byte_of c < 0x80 \<and> \<not> sgr_final (byte_of c)"
proof -
  assume d: "is_digit c"
  have u: "unat (byte_of c) = of_char c"
    by (simp add: byte_of_def unsigned_of_nat take_bit_eq_mod of_char_mod_256)
  show ?thesis
    using d u by (auto simp: is_digit_def sgr_final_def word_less_nat_alt)
qed

lemma sgr_params_plain:
  "\<forall>c \<in> set s. is_digit c \<or> c = CHR '';'' \<Longrightarrow>
     list_all (\<lambda>b. \<not> sgr_final b) (bytes_of s) \<and> utf8_valid (bytes_of s)"
proof (induction s)
  case Nil then show ?case by (simp add: bytes_of_def)
next
  case (Cons c s)
  have "byte_of c < 0x80 \<and> \<not> sgr_final (byte_of c)"
  proof (cases "c = CHR '';''")
    case True then show ?thesis by (simp add: byte_of_def sgr_final_def)
  next
    case False then show ?thesis using Cons.prems is_digit_byte by auto
  qed
  then show ?case using Cons by (simp add: bytes_of_def)
qed

lemma split_sgr: "split_on (CHR '';'') (show_nat a @ '';'' @ show_nat b @ '';'' @ show_nat c) =
    [show_nat a, show_nat b, show_nat c]"
proof -
  have n: "CHR '';'' \<notin> set (show_nat k)" for k
    by (rule show_nat_no_sep) (simp add: is_digit_def)
  show ?thesis
    using split_on_piece [OF n, of a "show_nat b @ '';'' @ show_nat c"]
      split_on_piece [OF n, of b "show_nat c"] split_on_free [OF n, of c] by simp
qed

lemma coordinate:
  assumes "x < 2 ^ 16 - 1"
  shows "u16_try_from (saturating_sub (word_of_nat (Suc x)) 1) = Some (word_of_nat x)"
proof -
  have u: "unat (word_of_nat (Suc x) :: u32) = Suc x"
    using assms by (simp add: unsigned_of_nat take_bit_nat_eq_self del: of_nat_Suc)
  then have s: "unat (saturating_sub (word_of_nat (Suc x) :: u32) 1) = x"
    by (simp add: unat_saturating_sub del: of_nat_Suc)
  then have "saturating_sub (word_of_nat (Suc x) :: u32) 1 = word_of_nat x"
    using assms by (simp add: word_unat_eq_iff unsigned_of_nat take_bit_nat_eq_self del: of_nat_Suc)
  then show ?thesis
    using s assms by (simp add: u16_try_from_def word_unat_eq_iff unsigned_ucast_eq unsigned_of_nat take_bit_nat_eq_self del: of_nat_Suc) 
qed

lemma parse_report:
  assumes "cb < 2 ^ 32" "x < 2 ^ 16 - 1" "y < 2 ^ 16 - 1"
  shows "parse_sgr_params
           (bytes_of (show_nat cb @ '';'' @ show_nat (Suc x) @ '';'' @ show_nat (Suc y))) p =
         sgr_event (word_of_nat cb) (word_of_nat x) (word_of_nat y) p"
proof -
  let ?s = "show_nat cb @ '';'' @ show_nat (Suc x) @ '';'' @ show_nat (Suc y)"
  have "\<forall>c \<in> set ?s. is_digit c \<or> c = CHR '';''"
    using show_nat_digits by (auto simp: list_all_iff simp del: show_nat.simps)
  then have v: "from_utf8 (bytes_of ?s) = Some ?s"
    using sgr_params_plain [of ?s] by (simp add: from_utf8_def del: show_nat.simps)
  have "parse_u32 (show_nat cb) = Some (word_of_nat cb)"
    "parse_u32 (show_nat (Suc x)) = Some (word_of_nat (Suc x))"
    "parse_u32 (show_nat (Suc y)) = Some (word_of_nat (Suc y))"
    using assms by (simp_all add: parse_u32_show_nat del: show_nat.simps of_nat_Suc)
  then show ?thesis
    unfolding parse_sgr_params_def v option.case split_sgr list.case
    using coordinate [OF assms(2)] coordinate [OF assms(3)]
    by (simp del: of_nat_Suc show_nat.simps)
qed

lemma mouse_parse_report:
  assumes "cb < 2 ^ 32" "x < 2 ^ 16 - 1" "y < 2 ^ 16 - 1" "sgr_final f"
  shows "mouse_parse MIdle (sgr_report cb (Suc x) (Suc y) f) =
    (MIdle, [], case sgr_event (word_of_nat cb) (word_of_nat x) (word_of_nat y) (f = SGR_PRESS) of
                  Some ev \<Rightarrow> [ev] | None \<Rightarrow> [])"
proof -
  let ?s = "show_nat cb @ '';'' @ show_nat (Suc x) @ '';'' @ show_nat (Suc y)"
  have "\<forall>c \<in> set ?s. is_digit c \<or> c = CHR '';''"
    using show_nat_digits by (auto simp: list_all_iff simp del: show_nat.simps)
  then have "mouse_parse (MParams []) (bytes_of ?s) = (MParams (bytes_of ?s), [], [])"
    using sgr_params_plain mouse_parse_params by (metis append_Nil)
  then have "mouse_parse (MParams []) (bytes_of ?s @ [f]) =
    (MIdle, [], case parse_sgr_params (bytes_of ?s) (f = SGR_PRESS) of Some ev \<Rightarrow> [ev] | None \<Rightarrow> [])"
    using assms(4) by (simp add: mouse_parse_append del: show_nat.simps)
  then show ?thesis
    unfolding sgr_report_def parse_report [OF assms(1-3)] by (simp del: show_nat.simps)
qed

end
