(* ===== verification/AppState.thy ===== *)
theory AppState
  imports RowViews Logs Keys TabStrip Mouse
begin

text \<open>
  The state of the TUI's pure state machine (\<open>crates/tepegoz-tui/src/app.rs\<close>): the Docker tile, the
  pane stack, the in-flight requests, the toasts and the overlays, with the constructors and the
  helper functions the handlers share. Third-party code and the outside world are the fields of the
  record \<open>rt\<close>; \<open>'p\<close> is the type of the vt100 parser.
\<close>

section \<open>What the model is given\<close>

record 'p rt =
  x_rect_new :: rect_ctor \<comment> \<open>ratatui: \<open>Rect::new\<close>\<close>
  x_contains :: "rect \<Rightarrow> u16 \<Rightarrow> u16 \<Rightarrow> bool" \<comment> \<open>ratatui: \<open>Rect::contains\<close>\<close>
  x_unicode :: "string \<Rightarrow> string" \<comment> \<open>the Unicode part of \<open>str::to_lowercase\<close>\<close>
  x_vt_new :: "u16 \<Rightarrow> u16 \<Rightarrow> nat \<Rightarrow> 'p" \<comment> \<open>vt100: \<open>Parser::new\<close>\<close>
  x_vt_process :: "u8 list \<Rightarrow> 'p \<Rightarrow> 'p" \<comment> \<open>vt100: \<open>Parser::process\<close>\<close>
  x_vt_set_size :: "u16 \<Rightarrow> u16 \<Rightarrow> 'p \<Rightarrow> 'p" \<comment> \<open>vt100: \<open>Screen::set_size\<close>\<close>
  x_cwd :: "string option" \<comment> \<open>\<open>std::env::current_dir\<close>\<close>
  x_order :: "u64 list \<Rightarrow> u64 list" \<comment> \<open>the iteration order of a \<open>HashMap\<close>\<close>

definition MAX_TOASTS :: nat where "MAX_TOASTS = 3"
definition DOUBLE_CLICK_WINDOW :: duration where "DOUBLE_CLICK_WINDOW = 400"
definition TOAST_SUCCESS_DURATION :: duration where "TOAST_SUCCESS_DURATION = 3000"
definition TOAST_ERROR_DURATION :: duration where "TOAST_ERROR_DURATION = 8000"
definition TOAST_INFO_DURATION :: duration where "TOAST_INFO_DURATION = 4000"
definition PENDING_ACTION_TIMEOUT :: duration where "PENDING_ACTION_TIMEOUT = 30000"
definition PENDING_CONFIRM_TIMEOUT :: duration where "PENDING_CONFIRM_TIMEOUT = 10000"
definition VT100_SCROLLBACK_ROWS :: nat where "VT100_SCROLLBACK_ROWS = 1000"
definition FALLBACK_PTY_ROWS :: u16 where "FALLBACK_PTY_ROWS = 24"
definition FALLBACK_PTY_COLS :: u16 where "FALLBACK_PTY_COLS = 80"

definition inset_rect :: "rect_ctor \<Rightarrow> rect \<Rightarrow> rect option" where
  "inset_rect rn r =
     (if r_width r < 2 \<or> r_height r < 2 then None
      else Some (rn (r_x r + 1) (r_y r + 1) (r_width r - 2) (r_height r - 2)))"

section \<open>Events and actions\<close>

datatype app_event =
  AeStdinChunk "u8 list"
| AeDaemonEnvelope envelope
| AeResize u16 u16 \<comment> \<open>rows, cols\<close>
| AeTick
| AePendingActionTimeout u64
| AeMouseClick u16 u16
| AeMouseHover u16 u16

datatype toast_kind = TkInfo | TkSuccess | TkError

datatype detach_reason = DrUser | DrPaneExited "i32 option"

datatype app_action =
  SendEnvelope envelope
| DrawFrame
| FocusTile tile_id
| DetachApp detach_reason
| ShowToast toast_kind string

definition mk_envelope :: "payload \<Rightarrow> envelope" where
  "mk_envelope p = \<lparr>en_version = PROTOCOL_VERSION, en_payload = p\<rparr>"

abbreviation send :: "payload \<Rightarrow> app_action" where
  "send p \<equiv> SendEnvelope (mk_envelope p)"

section \<open>The Docker tile\<close>

datatype docker_scope_state =
  DsIdle
| DsConnecting
| DsAvailable "docker_container list" string
| DsUnavailable string

datatype docker_view = DvList | DvLogs logs_view

record pending_confirm =
  pc_kind :: docker_action_kind
  pc_container_id :: string
  pc_container_name :: string
  pc_deadline :: instant

record docker_scope =
  ds_state :: docker_scope_state
  ds_view :: docker_view
  ds_selection :: nat
  ds_filter :: string
  ds_filter_active :: bool
  ds_sub_id :: u64
  ds_pending_confirm :: "pending_confirm option"
  ds_target :: scope_target

definition docker_scope_new :: "u64 \<Rightarrow> docker_scope" where
  "docker_scope_new sub_id =
     \<lparr>ds_state = DsConnecting, ds_view = DvList, ds_selection = 0, ds_filter = [],
      ds_filter_active = False, ds_sub_id = sub_id, ds_pending_confirm = None, ds_target = StLocal\<rparr>"

definition is_current_logs_sub :: "docker_scope \<Rightarrow> u64 \<Rightarrow> bool" where
  "is_current_logs_sub d sub_id =
     (case ds_view d of DvLogs l \<Rightarrow> lv_sub_id l = sub_id | DvList \<Rightarrow> False)"

definition ds_matches :: "(string \<Rightarrow> string) \<Rightarrow> docker_scope \<Rightarrow> docker_container \<Rightarrow> bool" where
  "ds_matches u d c =
     (if ds_filter d = [] then True
      else
        let q = to_lowercase u (ds_filter d)
        in list_ex (\<lambda>n. contains (to_lowercase u n) q) (dc_names c) \<or>
           contains (to_lowercase u (dc_image c)) q)"

definition ds_visible_count :: "(string \<Rightarrow> string) \<Rightarrow> docker_scope \<Rightarrow> nat" where
  "ds_visible_count u d =
     (case ds_state d of DsAvailable cs _ \<Rightarrow> length (filter (ds_matches u d) cs) | _ \<Rightarrow> 0)"

definition selected_container :: "(string \<Rightarrow> string) \<Rightarrow> docker_scope \<Rightarrow> docker_container option" where
  "selected_container u d =
     (case ds_state d of
        DsAvailable cs _ \<Rightarrow> nth_opt (filter (ds_matches u d) cs) (ds_selection d)
      | _ \<Rightarrow> None)"

definition clamp_selection :: "(string \<Rightarrow> string) \<Rightarrow> docker_scope \<Rightarrow> docker_scope" where
  "clamp_selection u d =
     (let n = ds_visible_count u d
      in if n = 0 then d\<lparr>ds_selection := 0\<rparr>
         else if n \<le> ds_selection d then d\<lparr>ds_selection := n - 1\<rparr> else d)"

definition ds_rows :: "docker_scope \<Rightarrow> docker_container list option" where
  "ds_rows d = (case ds_state d of DsAvailable cs _ \<Rightarrow> Some cs | _ \<Rightarrow> None)"

interpretation docker: row_list ds_rows "ds_matches u" ds_selection "ds_visible_count u"
  "selected_container u" for u
  by unfold_locales
    (auto simp: ds_rows_def ds_visible_count_def selected_container_def split: docker_scope_state.splits)

text \<open>A container's name for the user: its first name without slashes, else a short id.\<close>

definition display_name_for :: "docker_container \<Rightarrow> string" where
  "display_name_for c =
     (let short = (case get_prefix 12 (dc_id c) of Some p \<Rightarrow> p | None \<Rightarrow> dc_id c)
      in case dc_names c of
           raw # _ \<Rightarrow> (let trimmed = trim_start_matches (CHR ''/'') raw
                       in if trimmed \<noteq> [] then trimmed else short)
         | [] \<Rightarrow> short)"

fun action_verb :: "docker_action_kind \<Rightarrow> string" where
  "action_verb DaStart = ''Start''"
| "action_verb DaStop = ''Stop''"
| "action_verb DaRestart = ''Restart''"
| "action_verb DaKill = ''Kill''"
| "action_verb DaRemove = ''Remove''"

fun fleet_action_verb :: "fleet_action_kind \<Rightarrow> string" where
  "fleet_action_verb FaReconnect = ''Reconnect''"
| "fleet_action_verb FaDisconnect = ''Disconnect''"

section \<open>Overlays, requests, toasts\<close>

datatype host_picker_target_tile = HpDocker | HpPorts | HpProcesses

record host_picker_modal =
  hp_target_tile :: host_picker_target_tile
  hp_required_capability :: string
  hp_selected :: nat

datatype host_picker_row =
  HrLocal
| HrRemote string host_state bool bool \<comment> \<open>alias, state, has the capability, usable\<close>

record pending_action =
  pa_deadline :: instant
  pa_description :: string

record toast =
  to_kind :: toast_kind
  to_message :: string
  to_expires_at :: instant

record pending_open =
  po_sub_id :: u64
  po_alias :: "string option"

record view =
  vw_layout :: tile_layout
  vw_focused :: tile_id

definition view_new :: "rect_ctor \<Rightarrow> rect \<Rightarrow> view" where
  "view_new rn area =
     (let layout = default_for rn area in \<lparr>vw_layout = layout, vw_focused = tl_default_focus layout\<rparr>)"

section \<open>The application\<close>

record 'p app =
  ap_view :: view
  ap_pane_stack :: "'p pane_entry list"
  ap_active_pane :: nat
  ap_pending_opens :: "pending_open list"
  ap_docker :: docker_scope
  ap_ports :: ports_scope
  ap_fleet :: fleet_scope
  ap_terminal_size :: "u16 \<times> u16" \<comment> \<open>rows, cols\<close>
  ap_next_sub_id :: u64
  ap_pending_actions :: "(u64 \<times> pending_action) list"
  ap_toasts :: "toast list"
  ap_help_visible :: bool
  ap_host_picker :: "host_picker_modal option"
  ap_host_capabilities :: "string \<rightharpoonup> string list"
  ap_hovered_tile :: "tile_id option"
  ap_last_click :: "(tile_id \<times> nat \<times> instant) option"
  ap_input_filter :: filter_state
  ap_scope_key_parser :: key_parser_state

definition pty_tile_dims :: "tile_layout \<Rightarrow> u16 \<times> u16" where
  "pty_tile_dims layout =
     (case rect_of layout TilePty of
        Some r \<Rightarrow> (max (r_height r) 1, max (r_width r) 1)
      | None \<Rightarrow> (FALLBACK_PTY_ROWS, FALLBACK_PTY_COLS))"

definition pty_content_dims :: "tile_layout \<Rightarrow> u16 \<times> u16" where
  "pty_content_dims layout =
     (case pty_tile_dims layout of (tile_rows, tile_cols) \<Rightarrow> (max (saturating_sub tile_rows 1) 1, tile_cols))"

text \<open>
  \<open>Path::file_name\<close> on Unix: the last component, unless that is \<open>..\<close> or there is none; empty and \<open>.\<close>
  components do not count.
\<close>

definition path_file_name :: "string \<Rightarrow> string option" where
  "path_file_name s =
     (let parts = filter (\<lambda>p. p \<noteq> [] \<and> p \<noteq> ''.'') (split_on (CHR ''/'') s)
      in if parts = [] \<or> last parts = ''..'' then None else Some (last parts))"

definition ellipsis :: string where
  "ellipsis = [CHR 0xE2, CHR 0x80, CHR 0xA6]"

definition MAX_LABEL_CHARS :: nat where "MAX_LABEL_CHARS = 20"

definition pane_label_from_shell :: "string \<Rightarrow> string" where
  "pane_label_from_shell shell =
     (let raw = (if starts_with shell ''ssh:'' \<or> shell = [] then shell
                 else case path_file_name shell of Some n \<Rightarrow> n | None \<Rightarrow> shell);
          trimmed = (if raw = [] then ''pane'' else raw)
      in if MAX_LABEL_CHARS < chars_count trimmed then chars_take MAX_LABEL_CHARS trimmed @ ellipsis
         else trimmed)"

definition app_new :: "'p rt \<Rightarrow> pane_id \<Rightarrow> string \<Rightarrow> u16 \<times> u16 \<Rightarrow> 'p app" where
  "app_new rt pane shell terminal_size =
     (let (rows, cols) = terminal_size;
          area = x_rect_new rt 0 0 cols rows;
          view = view_new (x_rect_new rt) area;
          (pty_rows, pty_cols) = pty_content_dims (vw_layout view);
          root_parser = x_vt_new rt pty_rows pty_cols VT100_SCROLLBACK_ROWS;
          pane_sub = 1;
          docker_sub = pane_sub + 1;
          ports_sub = docker_sub + 1;
          processes_sub = ports_sub + 1;
          fleet_sub = processes_sub + 1;
          root_entry = \<lparr>pe_pane_id = pane, pe_sub_id = pane_sub,
            pe_label = pane_label_from_shell shell, pe_parser = root_parser\<rparr>
      in \<lparr>ap_view = view, ap_pane_stack = [root_entry], ap_active_pane = 0, ap_pending_opens = [],
          ap_docker = docker_scope_new docker_sub, ap_ports = ports_scope_new ports_sub processes_sub,
          ap_fleet = fleet_scope_new fleet_sub, ap_terminal_size = terminal_size,
          ap_next_sub_id = fleet_sub + 1, ap_pending_actions = [], ap_toasts = [],
          ap_help_visible = False, ap_host_picker = None, ap_host_capabilities = Map.empty,
          ap_hovered_tile = None, ap_last_click = None, ap_input_filter = FNormal,
          ap_scope_key_parser = KsNormal\<rparr>)"

section \<open>Shared helpers\<close>

definition active_pane_id :: "'p app \<Rightarrow> panic + pane_id" where
  "active_pane_id a =
     and_then (vec_index (ap_pane_stack a) (ap_active_pane a)) (\<lambda>e. Inr (pe_pane_id e))"

definition active_pane_sub :: "'p app \<Rightarrow> panic + u64" where
  "active_pane_sub a =
     and_then (vec_index (ap_pane_stack a) (ap_active_pane a)) (\<lambda>e. Inr (pe_sub_id e))"

definition find_pane_by_sub :: "'p app \<Rightarrow> u64 \<Rightarrow> nat option" where
  "find_pane_by_sub a sub_id = position (\<lambda>p. pe_sub_id p = sub_id) (ap_pane_stack a)"

definition initial_actions :: "'p app \<Rightarrow> panic + app_action list" where
  "initial_actions a =
     (let (pty_rows, pty_cols) = pty_content_dims (vw_layout (ap_view a))
      in and_then (active_pane_id a) (\<lambda>pane_id. and_then (active_pane_sub a) (\<lambda>sub_id.
           Inr [send (PAttachPane pane_id sub_id),
                send (PResizePane pane_id pty_rows pty_cols),
                send (PSubscribe (SubDocker (ds_sub_id (ap_docker a)) (ds_target (ap_docker a)))),
                send (PSubscribe (SubPorts (po_ports_sub_id (ap_ports a)) (po_ports_target (ap_ports a)))),
                send (PSubscribe (SubProcesses (po_processes_sub_id (ap_ports a))
                  (po_processes_target (ap_ports a)))),
                send (PSubscribe (SubFleet (fl_sub_id (ap_fleet a)))),
                DrawFrame])))"

text \<open>A handler: the new state and the actions it pushed.\<close>

type_synonym 'p handled = "'p app \<times> app_action list"

definition alloc_sub_id :: "'p app \<Rightarrow> 'p app \<times> u64" where
  "alloc_sub_id a = (a\<lparr>ap_next_sub_id := ap_next_sub_id a + 1\<rparr>, ap_next_sub_id a)"

definition toast_duration :: "toast_kind \<Rightarrow> duration" where
  "toast_duration k =
     (case k of TkSuccess \<Rightarrow> TOAST_SUCCESS_DURATION | TkError \<Rightarrow> TOAST_ERROR_DURATION
      | TkInfo \<Rightarrow> TOAST_INFO_DURATION)"

definition push_toast_at :: "instant \<Rightarrow> toast_kind \<Rightarrow> string \<Rightarrow> 'p app \<Rightarrow> 'p handled" where
  "push_toast_at now kind message a =
     (let kept = (if MAX_TOASTS \<le> length (ap_toasts a) then tl (ap_toasts a) else ap_toasts a)
      in (a\<lparr>ap_toasts := kept @
            [\<lparr>to_kind = kind, to_message = message, to_expires_at = now + toast_duration kind\<rparr>]\<rparr>,
          [ShowToast kind message, DrawFrame]))"

definition host_picker_rows :: "'p app \<Rightarrow> string \<Rightarrow> host_picker_row list" where
  "host_picker_rows a required =
     HrLocal #
     (case fl_state (ap_fleet a) of
        FsAvailable hosts states _ \<Rightarrow>
          map (\<lambda>h.
            let state = (case states (he_alias h) of Some s \<Rightarrow> s | None \<Rightarrow> HsDisconnected);
                has_capability = (case ap_host_capabilities a (he_alias h) of
                    Some caps \<Rightarrow> list_ex (\<lambda>c. c = required) caps
                  | None \<Rightarrow> False);
                usable = (state = HsConnected \<and> has_capability)
            in HrRemote (he_alias h) state has_capability usable) hosts
      | FsConnecting \<Rightarrow> [])"

end
