(* ===== verification/AppPanes.thy ===== *)
theory AppPanes
  imports AppState
begin

text \<open>
  The handlers of \<open>crates/tepegoz-tui/src/app.rs\<close> that move the focus and manage the pane stack. A
  handler that can index past the stack returns a panic as a value.
\<close>

section \<open>Focus and overlays\<close>

definition move_focus_to :: "tile_id \<Rightarrow> 'p app \<Rightarrow> 'p handled" where
  "move_focus_to next_tile a =
     (if next_tile = vw_focused (ap_view a) then (a, [])
      else
        let a1 = (if vw_focused (ap_view a) = TileDocker
                  then a\<lparr>ap_docker := (ap_docker a)\<lparr>ds_pending_confirm := None\<rparr>\<rparr> else a)
        in (a1\<lparr>ap_view := (ap_view a1)\<lparr>vw_focused := next_tile\<rparr>\<rparr>, [FocusTile next_tile, DrawFrame]))"

definition handle_focus_direction :: "focus_dir \<Rightarrow> 'p app \<Rightarrow> 'p handled" where
  "handle_focus_direction dir a =
     (case next_focus (vw_layout (ap_view a)) (vw_focused (ap_view a)) dir of
        Some t \<Rightarrow> move_focus_to t a
      | None \<Rightarrow> (a, []))"

definition handle_focus_cycle :: "bool \<Rightarrow> 'p app \<Rightarrow> 'p handled" where
  "handle_focus_cycle forward a =
     (case cycle_focus (vw_layout (ap_view a)) (vw_focused (ap_view a)) forward of
        Some t \<Rightarrow> move_focus_to t a
      | None \<Rightarrow> (a, []))"

definition focus_routes_to_pty :: "'p app \<Rightarrow> bool" where
  "focus_routes_to_pty a = routes_to_pty (vw_layout (ap_view a)) (vw_focused (ap_view a))"

definition handle_tab :: "bool \<Rightarrow> 'p app \<Rightarrow> panic + 'p handled" where
  "handle_tab forward_cycle a =
     (if focus_routes_to_pty a then
        and_then (active_pane_id a) (\<lambda>pane_id.
          let data = (if forward_cycle then [TAB] else [ESC, CSI_OPEN, 0x5a])
          in Inr (a, [send (PSendInput pane_id data)]))
      else Inr (handle_focus_cycle forward_cycle a))"

definition handle_help_toggle :: "'p app \<Rightarrow> 'p handled" where
  "handle_help_toggle a = (a\<lparr>ap_help_visible := \<not> ap_help_visible a\<rparr>, [DrawFrame])"

definition tile_under :: "'p rt \<Rightarrow> 'p app \<Rightarrow> u16 \<Rightarrow> u16 \<Rightarrow> tile_def option" where
  "tile_under rt a x y = List.find (\<lambda>t. x_contains rt (td_rect t) x y) (tl_tiles (vw_layout (ap_view a)))"

definition handle_mouse_hover :: "'p rt \<Rightarrow> u16 \<Rightarrow> u16 \<Rightarrow> 'p app \<Rightarrow> 'p handled" where
  "handle_mouse_hover rt x y a =
     (let hovered = map_option td_id (tile_under rt a x y)
      in if hovered \<noteq> ap_hovered_tile a then (a\<lparr>ap_hovered_tile := hovered\<rparr>, [DrawFrame]) else (a, []))"

section \<open>The pane stack\<close>

definition open_pane_payload :: "string option \<Rightarrow> u16 \<Rightarrow> u16 \<Rightarrow> pane_target \<Rightarrow> payload" where
  "open_pane_payload cwd rows cols target =
     POpenPane \<lparr>ops_shell = None, ops_cwd = cwd, ops_env = [], ops_rows = rows, ops_cols = cols,
       ops_target = target\<rparr>"

definition close_active_pane :: "'p rt \<Rightarrow> 'p app \<Rightarrow> panic + 'p handled" where
  "close_active_pane rt a =
     (if ap_pane_stack a = [] then Inr (a, [])
      else and_then (vec_remove (ap_pane_stack a) (ap_active_pane a)) (\<lambda>(removed, rest).
        let a1 = a\<lparr>ap_pane_stack := rest\<rparr>;
            acts = [send (PClosePane (pe_pane_id removed)), send (PUnsubscribe (pe_sub_id removed))]
        in if rest = [] then
             let (pty_rows, pty_cols) = pty_content_dims (vw_layout (ap_view a1));
                 (a2, sub_id) = alloc_sub_id a1;
                 a3 = a2\<lparr>ap_pending_opens := ap_pending_opens a2 @ [\<lparr>po_sub_id = sub_id, po_alias = None\<rparr>]\<rparr>
             in Inr (a3\<lparr>ap_active_pane := 0\<rparr>,
                  acts @ [send (open_pane_payload (x_cwd rt) pty_rows pty_cols PtLocal)])
           else
             Inr (if length rest \<le> ap_active_pane a1 then a1\<lparr>ap_active_pane := length rest - 1\<rparr> else a1,
                  acts @ [DrawFrame])))"

definition pane_process :: "'p rt \<Rightarrow> nat \<Rightarrow> u8 list \<Rightarrow> 'p app \<Rightarrow> panic + 'p app" where
  "pane_process rt idx data a =
     and_then (vec_index (ap_pane_stack a) idx) (\<lambda>e.
       Inr (a\<lparr>ap_pane_stack := (ap_pane_stack a)[idx := e\<lparr>pe_parser := x_vt_process rt data (pe_parser e)\<rparr>]\<rparr>))"

text \<open>The active index after entry \<open>idx\<close> is gone and \<open>n\<close> entries are left.\<close>

definition active_after_exit :: "nat \<Rightarrow> nat \<Rightarrow> nat \<Rightarrow> nat" where
  "active_after_exit idx active n =
     (let was_active = (idx = active)
      in if was_active \<or> idx < active then
           let active' = (if idx \<le> active \<and> 0 < active then active - 1 else active)
           in if n \<le> active' then n - 1 else active'
         else active)"

definition pane_exit_text :: "string \<Rightarrow> i32 option \<Rightarrow> string" where
  "pane_exit_text label exit_code =
     ''pane '' @ label @ '' exited'' @
     (case exit_code of Some code \<Rightarrow> '' (code '' @ show_i32 code @ '')'' | None \<Rightarrow> [])"

definition handle_pane_exit :: "instant \<Rightarrow> nat \<Rightarrow> i32 option \<Rightarrow> 'p app \<Rightarrow> panic + 'p handled" where
  "handle_pane_exit now idx exit_code a =
     and_then (vec_index (ap_pane_stack a) idx) (\<lambda>e.
     and_then (vec_remove (ap_pane_stack a) idx) (\<lambda>(removed, rest).
       if rest = [] then Inr (a\<lparr>ap_pane_stack := rest\<rparr>, [DetachApp (DrPaneExited exit_code)])
       else
         let active = active_after_exit idx (ap_active_pane a) (length rest)
         in case push_toast_at now TkInfo (pane_exit_text (pe_label e) exit_code)
              (a\<lparr>ap_pane_stack := rest, ap_active_pane := active\<rparr>) of
              (a', acts) \<Rightarrow> Inr (a', acts @ [DrawFrame])))"

fun handle_pane_event :: "'p rt \<Rightarrow> instant \<Rightarrow> nat \<Rightarrow> event \<Rightarrow> 'p app \<Rightarrow> panic + 'p handled" where
  "handle_pane_event rt now idx (EvPaneSnapshot scroll _ _) a =
     (if scroll = [] then Inr (a, [])
      else and_then (pane_process rt idx scroll a) (\<lambda>a1.
        Inr (a1, if idx = ap_active_pane a1 then [DrawFrame] else [])))"
| "handle_pane_event rt now idx (EvPaneOutput data) a =
     and_then (pane_process rt idx data a) (\<lambda>a1.
       Inr (a1, if idx = ap_active_pane a1 then [DrawFrame] else []))"
| "handle_pane_event rt now idx (EvPaneExit exit_code) a = handle_pane_exit now idx exit_code a"
| "handle_pane_event rt now idx _ a = Inr (a, [])"

definition handle_pane_opened :: "'p rt \<Rightarrow> pane_info \<Rightarrow> 'p app \<Rightarrow> 'p handled" where
  "handle_pane_opened rt info a =
     (case ap_pending_opens a of
        [] \<Rightarrow> (a, [])
      | pend # rest \<Rightarrow>
          let a1 = a\<lparr>ap_pending_opens := rest\<rparr>;
              (pty_rows, pty_cols) = pty_content_dims (vw_layout (ap_view a1));
              parser = x_vt_new rt pty_rows pty_cols VT100_SCROLLBACK_ROWS;
              entry = \<lparr>pe_pane_id = pi_id info, pe_sub_id = po_sub_id pend,
                pe_label = pane_label_from_shell (pi_shell info), pe_parser = parser\<rparr>;
              stack = ap_pane_stack a1 @ [entry];
              a2 = a1\<lparr>ap_pane_stack := stack, ap_active_pane := length stack - 1\<rparr>;
              (a3, acts) =
                (if vw_focused (ap_view a2) \<noteq> TilePty \<and> tile (vw_layout (ap_view a2)) TilePty \<noteq> None
                 then (a2\<lparr>ap_view := (ap_view a2)\<lparr>vw_focused := TilePty\<rparr>\<rparr>, [FocusTile TilePty])
                 else (a2, []))
          in (a3, acts @ [send (PAttachPane (pi_id info) (po_sub_id pend)),
                send (PResizePane (pi_id info) pty_rows pty_cols), DrawFrame]))"

definition handle_resize :: "'p rt \<Rightarrow> u16 \<Rightarrow> u16 \<Rightarrow> 'p app \<Rightarrow> 'p handled" where
  "handle_resize rt rows cols a =
     (let a1 = a\<lparr>ap_terminal_size := (rows, cols)\<rparr>;
          area = x_rect_new rt 0 0 cols rows;
          layout = default_for (x_rect_new rt) area;
          focused = (if tile layout (vw_focused (ap_view a1)) = None then tl_default_focus layout
                     else vw_focused (ap_view a1));
          a2 = a1\<lparr>ap_view := \<lparr>vw_layout = layout, vw_focused = focused\<rparr>\<rparr>;
          (pty_rows, pty_cols) = pty_content_dims layout;
          a3 = a2\<lparr>ap_pane_stack :=
            map (\<lambda>e. e\<lparr>pe_parser := x_vt_set_size rt pty_rows pty_cols (pe_parser e)\<rparr>) (ap_pane_stack a2)\<rparr>
      in (a3, map (\<lambda>e. send (PResizePane (pe_pane_id e) pty_rows pty_cols)) (ap_pane_stack a2) @ [DrawFrame]))"

text \<open>
  A click in the pane tile: the tab strip is the top row of its inner area. \<open>Rect::new\<close> builds the
  strip.
\<close>

definition dispatch_pty_click :: "'p rt \<Rightarrow> rect \<Rightarrow> u16 \<Rightarrow> u16 \<Rightarrow> 'p app \<Rightarrow> panic + 'p handled" where
  "dispatch_pty_click rt r x y a =
     (case inset_rect (x_rect_new rt) r of
        None \<Rightarrow> Inr (a, [])
      | Some inner \<Rightarrow>
          if r_height inner < 2 \<or> y \<noteq> r_y inner then Inr (a, [])
          else
            let strip = x_rect_new rt (r_x inner) (r_y inner) (r_width inner) 1
            in case hit_test_tab_strip (ap_pane_stack a) (ap_active_pane a) strip x of
                 None \<Rightarrow> Inr (a, [])
               | Some (HitTab idx) \<Rightarrow>
                   if idx < length (ap_pane_stack a) \<and> idx \<noteq> ap_active_pane a
                   then Inr (a\<lparr>ap_active_pane := idx\<rparr>, [DrawFrame])
                   else Inr (a, [])
               | Some HitCloseActive \<Rightarrow> close_active_pane rt a)"

section \<open>The invariant of the pane stack\<close>

text \<open>
  The active index points into the stack unless the stack is empty; pane subscriptions, those of the
  panes to come and the fixed ones of the tiles were all allocated and are pairwise distinct.
\<close>

definition panes_ok :: "'p app \<Rightarrow> bool" where
  "panes_ok a \<longleftrightarrow> (ap_pane_stack a \<noteq> [] \<longrightarrow> ap_active_pane a < length (ap_pane_stack a))"

definition pane_subs :: "'p app \<Rightarrow> u64 list" where
  "pane_subs a = map pe_sub_id (ap_pane_stack a) @ map po_sub_id (ap_pending_opens a)"

lemma close_active_pane_total:
  "panes_ok a \<Longrightarrow> \<exists>a' acts. close_active_pane rt a = Inr (a', acts)"
  by (auto simp: close_active_pane_def panes_ok_def vec_remove_def alloc_sub_id_def Let_def
      split: prod.splits)

lemma close_active_pane_ok:
  "panes_ok a \<Longrightarrow> close_active_pane rt a = Inr (a', acts) \<Longrightarrow> panes_ok a'"
  by (auto simp: close_active_pane_def panes_ok_def vec_remove_def alloc_sub_id_def Let_def
      split: prod.splits if_splits)

lemma active_after_exit_less:
  "idx < Suc n \<Longrightarrow> act < Suc n \<Longrightarrow> 0 < n \<Longrightarrow> active_after_exit idx act n < n"
  by (auto simp: active_after_exit_def Let_def)

lemma push_toast_stack [simp]:
  "ap_pane_stack (fst (push_toast_at now k m a)) = ap_pane_stack a"
  "ap_active_pane (fst (push_toast_at now k m a)) = ap_active_pane a"
  by (simp_all add: push_toast_at_def Let_def)

lemma handle_pane_exit_cases:
  assumes "idx < length (ap_pane_stack a)"
  obtains rest where "rest = take idx (ap_pane_stack a) @ drop (Suc idx) (ap_pane_stack a)"
    and "length rest = length (ap_pane_stack a) - 1"
    and "handle_pane_exit now idx c a =
      (if rest = [] then Inr (a\<lparr>ap_pane_stack := rest\<rparr>, [DetachApp (DrPaneExited c)])
       else Inr (fst (push_toast_at now TkInfo (pane_exit_text (pe_label (ap_pane_stack a ! idx)) c)
              (a\<lparr>ap_pane_stack := rest,
                 ap_active_pane := active_after_exit idx (ap_active_pane a) (length rest)\<rparr>)),
            [ShowToast TkInfo (pane_exit_text (pe_label (ap_pane_stack a ! idx)) c), DrawFrame, DrawFrame]))"
  using assms that [OF refl]
  by (simp add: handle_pane_exit_def push_toast_at_def Let_def)

lemma pane_process_in:
  "idx < length (ap_pane_stack a) \<Longrightarrow> pane_process rt idx data a =
     Inr (a\<lparr>ap_pane_stack := (ap_pane_stack a)[idx := (ap_pane_stack a ! idx)\<lparr>pe_parser :=
       x_vt_process rt data (pe_parser (ap_pane_stack a ! idx))\<rparr>]\<rparr>)"
  by (simp add: pane_process_def)

lemma handle_pane_event_total:
  assumes "idx < length (ap_pane_stack a)"
  shows "\<exists>a' acts. handle_pane_event rt now idx ev a = Inr (a', acts)"
proof (cases ev)
  case (EvPaneExit c)
  then show ?thesis
    by (rule_tac handle_pane_exit_cases [OF assms, of now c]) auto
qed (use assms in \<open>simp_all add: pane_process_in\<close>)

lemma handle_pane_event_ok:
  assumes "panes_ok a" "idx < length (ap_pane_stack a)"
    and "handle_pane_event rt now idx ev a = Inr (a', acts)"
  shows "panes_ok a'"
proof (cases ev)
  case (EvPaneExit c)
  then show ?thesis
    using assms active_after_exit_less [of idx "length (ap_pane_stack a) - 1" "ap_active_pane a"]
    by (rule_tac handle_pane_exit_cases [OF assms(2), of now c])
      (auto simp: panes_ok_def split: if_splits)
qed (use assms in \<open>auto simp: pane_process_in panes_ok_def split: if_splits\<close>)

end
