(* ===== verification/AppScopes.thy ===== *)
theory AppScopes
  imports AppState
begin

text \<open>
  The key maps of the scope tiles and what they dispatch (\<open>crates/tepegoz-tui/src/app.rs\<close>): the Docker
  list with its confirm prompt, filter bar and log transcript, the two views of the Ports tile, and
  the Fleet tile. \<open>now\<close> is the clock reading of the event being handled.
\<close>

abbreviation upd_docker :: "(docker_scope \<Rightarrow> docker_scope) \<Rightarrow> 'p app \<Rightarrow> 'p app" where
  "upd_docker f a \<equiv> a\<lparr>ap_docker := f (ap_docker a)\<rparr>"

abbreviation upd_ports :: "(ports_scope \<Rightarrow> ports_scope) \<Rightarrow> 'p app \<Rightarrow> 'p app" where
  "upd_ports f a \<equiv> a\<lparr>ap_ports := f (ap_ports a)\<rparr>"

abbreviation upd_fleet :: "(fleet_scope \<Rightarrow> fleet_scope) \<Rightarrow> 'p app \<Rightarrow> 'p app" where
  "upd_fleet f a \<equiv> a\<lparr>ap_fleet := f (ap_fleet a)\<rparr>"

definition printable :: "u8 \<Rightarrow> bool" where
  "printable b \<longleftrightarrow> 0x20 \<le> b \<and> b \<le> 0x7e"

section \<open>Requests\<close>

definition register_action :: "u64 \<Rightarrow> instant \<Rightarrow> string \<Rightarrow> 'p app \<Rightarrow> 'p app" where
  "register_action request_id now description a =
     a\<lparr>ap_pending_actions := AList.update request_id
        \<lparr>pa_deadline = now + PENDING_ACTION_TIMEOUT, pa_description = description\<rparr> (ap_pending_actions a)\<rparr>"

definition dispatch_docker_action ::
  "instant \<Rightarrow> string \<Rightarrow> string \<Rightarrow> docker_action_kind \<Rightarrow> 'p app \<Rightarrow> 'p handled" where
  "dispatch_docker_action now container_id display_name kind a =
     (let (a1, request_id) = alloc_sub_id a;
          description = action_verb kind @ '' '' @ display_name;
          a2 = register_action request_id now description a1
      in (a2, [send (PDockerAction \<lparr>dar_request_id = request_id, dar_container_id = container_id,
                 dar_kind = kind, dar_target = ds_target (ap_docker a2)\<rparr>), DrawFrame]))"

definition issue_selected_docker_action ::
  "'p rt \<Rightarrow> instant \<Rightarrow> docker_action_kind \<Rightarrow> 'p app \<Rightarrow> 'p handled" where
  "issue_selected_docker_action rt now kind a =
     (case selected_container (x_unicode rt) (ap_docker a) of
        None \<Rightarrow> (a, [])
      | Some c \<Rightarrow> dispatch_docker_action now (dc_id c) (display_name_for c) kind a)"

definition begin_confirm :: "'p rt \<Rightarrow> instant \<Rightarrow> docker_action_kind \<Rightarrow> 'p app \<Rightarrow> 'p handled" where
  "begin_confirm rt now kind a =
     (case selected_container (x_unicode rt) (ap_docker a) of
        None \<Rightarrow> (a, [])
      | Some c \<Rightarrow>
          (upd_docker (\<lambda>d. d\<lparr>ds_pending_confirm := Some
             \<lparr>pc_kind = kind, pc_container_id = dc_id c, pc_container_name = display_name_for c,
              pc_deadline = now + PENDING_CONFIRM_TIMEOUT\<rparr>\<rparr>) a, [DrawFrame]))"

definition try_enter_logs_view :: "'p rt \<Rightarrow> 'p app \<Rightarrow> 'p handled" where
  "try_enter_logs_view rt a =
     (case selected_container (x_unicode rt) (ap_docker a) of
        None \<Rightarrow> (a, [])
      | Some c \<Rightarrow>
          let (a1, sub_id) = alloc_sub_id a;
              a2 = upd_docker (\<lambda>d. d\<lparr>ds_view := DvLogs (logs_view_new (dc_id c) (display_name_for c) sub_id)\<rparr>) a1
          in (a2, [send (PSubscribe (SubDockerLogs sub_id (dc_id c) True 0 (ds_target (ap_docker a2)))),
                DrawFrame]))"

section \<open>The Docker tile's keys\<close>

definition upd_logs :: "(logs_view \<Rightarrow> logs_view) \<Rightarrow> 'p app \<Rightarrow> 'p handled" where
  "upd_logs f a =
     (case ds_view (ap_docker a) of
        DvLogs l \<Rightarrow> (upd_docker (\<lambda>d. d\<lparr>ds_view := DvLogs (f l)\<rparr>) a, [DrawFrame])
      | DvList \<Rightarrow> (a, []))"

definition handle_logs_key :: "scope_key \<Rightarrow> 'p app \<Rightarrow> 'p handled" where
  "handle_logs_key key a =
     (case ds_view (ap_docker a) of
        DvList \<Rightarrow> (a, [])
      | DvLogs l \<Rightarrow>
          if key = KEscape \<or> key = KChar 0x71 then
            (upd_docker (\<lambda>d. d\<lparr>ds_view := DvList\<rparr>) a, [send (PUnsubscribe (lv_sub_id l)), DrawFrame])
          else if key = KUp \<or> key = KChar 0x6b then upd_logs (scroll_up 1) a
          else if key = KDown \<or> key = KChar 0x6a then upd_logs (scroll_down 1) a
          else if key = KPgUp then upd_logs (scroll_up LOGS_PAGE_LINES) a
          else if key = KPgDn then upd_logs (scroll_down LOGS_PAGE_LINES) a
          else if key = KChar 0x47 \<or> key = KBottom \<or> key = KEnd then upd_logs jump_to_tail a
          else (a, []))"

definition handle_confirm_key :: "instant \<Rightarrow> pending_confirm \<Rightarrow> scope_key \<Rightarrow> 'p app \<Rightarrow> 'p handled" where
  "handle_confirm_key now pend key a =
     (if key = KChar 0x79 \<or> key = KChar 0x59 then
        dispatch_docker_action now (pc_container_id pend) (pc_container_name pend) (pc_kind pend)
          (upd_docker (\<lambda>d. d\<lparr>ds_pending_confirm := None\<rparr>) a)
      else if key = KChar 0x4b \<or> key = KChar 0x58 then (a, [])
      else (upd_docker (\<lambda>d. d\<lparr>ds_pending_confirm := None\<rparr>) a, [DrawFrame]))"

definition handle_docker_filter_key :: "'p rt \<Rightarrow> scope_key \<Rightarrow> 'p app \<Rightarrow> 'p handled" where
  "handle_docker_filter_key rt key a =
     (let clamp = clamp_selection (x_unicode rt)
      in case key of
           KEscape \<Rightarrow>
             (upd_docker (\<lambda>d. clamp (d\<lparr>ds_filter := [], ds_filter_active := False\<rparr>)) a, [DrawFrame])
         | KEnter \<Rightarrow> (upd_docker (\<lambda>d. d\<lparr>ds_filter_active := False\<rparr>) a, [DrawFrame])
         | KBackspace \<Rightarrow>
             (case string_pop (ds_filter (ap_docker a)) of
                Some f \<Rightarrow> (upd_docker (\<lambda>d. clamp (d\<lparr>ds_filter := f\<rparr>)) a, [DrawFrame])
              | None \<Rightarrow> (a, []))
         | KChar b \<Rightarrow>
             if printable b then
               (upd_docker (\<lambda>d. clamp (d\<lparr>ds_filter := ds_filter d @ [char_of_byte b]\<rparr>)) a, [DrawFrame])
             else (a, [])
         | _ \<Rightarrow> (a, []))"

fun key_rank :: "scope_key \<Rightarrow> nat" where
  "key_rank (KChar b) = 1"
| "key_rank _ = 0"

function handle_scope_key :: "'p rt \<Rightarrow> instant \<Rightarrow> scope_key \<Rightarrow> 'p app \<Rightarrow> 'p handled" where
  "handle_scope_key rt now key a =
     (case ds_view (ap_docker a) of
        DvLogs _ \<Rightarrow> handle_logs_key key a
      | DvList \<Rightarrow>
          (case ds_pending_confirm (ap_docker a) of
             Some pend \<Rightarrow> handle_confirm_key now pend key a
           | None \<Rightarrow>
               if ds_filter_active (ap_docker a) then handle_docker_filter_key rt key a
               else
                 (case key of
                    KUp \<Rightarrow> (upd_docker (\<lambda>d. d\<lparr>ds_selection := ds_selection d - 1\<rparr>) a, [DrawFrame])
                  | KDown \<Rightarrow>
                      let n = ds_visible_count (x_unicode rt) (ap_docker a)
                      in (if 0 < n \<and> ds_selection (ap_docker a) + 1 < n
                          then upd_docker (\<lambda>d. d\<lparr>ds_selection := ds_selection d + 1\<rparr>) a else a, [DrawFrame])
                  | KTop \<Rightarrow> (upd_docker (\<lambda>d. d\<lparr>ds_selection := 0\<rparr>) a, [DrawFrame])
                  | KHome \<Rightarrow> (upd_docker (\<lambda>d. d\<lparr>ds_selection := 0\<rparr>) a, [DrawFrame])
                  | KBottom \<Rightarrow> (upd_docker (\<lambda>d. d\<lparr>ds_selection :=
                      ds_visible_count (x_unicode rt) (ap_docker a) - 1\<rparr>) a, [DrawFrame])
                  | KEnd \<Rightarrow> (upd_docker (\<lambda>d. d\<lparr>ds_selection :=
                      ds_visible_count (x_unicode rt) (ap_docker a) - 1\<rparr>) a, [DrawFrame])
                  | KFilterStart \<Rightarrow> (upd_docker (\<lambda>d. d\<lparr>ds_filter_active := True\<rparr>) a, [DrawFrame])
                  | KChar b \<Rightarrow>
                      if b = 0x6a then handle_scope_key rt now KDown a
                      else if b = 0x6b then handle_scope_key rt now KUp a
                      else if b = 0x67 then handle_scope_key rt now KTop a
                      else if b = 0x47 then handle_scope_key rt now KBottom a
                      else if b = 0x2f then handle_scope_key rt now KFilterStart a
                      else if b = 0x72 then issue_selected_docker_action rt now DaRestart a
                      else if b = 0x73 then issue_selected_docker_action rt now DaStop a
                      else if b = 0x4b then begin_confirm rt now DaKill a
                      else if b = 0x58 then begin_confirm rt now DaRemove a
                      else if b = 0x6c then try_enter_logs_view rt a
                      else (a, [])
                  | _ \<Rightarrow> (a, []))))"
  by pat_completeness auto
termination
  by (relation "measure (\<lambda>(rt, now, key, a). key_rank key)") simp_all

declare handle_scope_key.simps [simp del]

section \<open>The Ports tile's keys\<close>

abbreviation upd_pv :: "(ports_view \<Rightarrow> ports_view) \<Rightarrow> 'p app \<Rightarrow> 'p app" where
  "upd_pv f a \<equiv> upd_ports (\<lambda>s. s\<lparr>po_ports := f (po_ports s)\<rparr>) a"

abbreviation upd_sv :: "(processes_view \<Rightarrow> processes_view) \<Rightarrow> 'p app \<Rightarrow> 'p app" where
  "upd_sv f a \<equiv> upd_ports (\<lambda>s. s\<lparr>po_processes := f (po_processes s)\<rparr>) a"

text \<open>
  The filter bar of a view: the selected key is read after the filter has changed, then the selection
  is re-anchored at it.
\<close>

definition pv_refilter :: "'p rt \<Rightarrow> ports_view \<Rightarrow> ports_view" where
  "pv_refilter rt v = (let old_key = pv_selected_key (x_unicode rt) v in pv_reanchor (x_unicode rt) old_key v)"

definition handle_ports_filter_key :: "'p rt \<Rightarrow> scope_key \<Rightarrow> 'p app \<Rightarrow> 'p handled" where
  "handle_ports_filter_key rt key a =
     (case key of
        KEscape \<Rightarrow>
          (upd_pv (\<lambda>v. pv_refilter rt (v\<lparr>pv_filter := [], pv_filter_active := False\<rparr>)) a, [DrawFrame])
      | KEnter \<Rightarrow> (upd_pv (\<lambda>v. v\<lparr>pv_filter_active := False\<rparr>) a, [DrawFrame])
      | KBackspace \<Rightarrow>
          (case string_pop (pv_filter (po_ports (ap_ports a))) of
             Some f \<Rightarrow> (upd_pv (\<lambda>v. pv_refilter rt (v\<lparr>pv_filter := f\<rparr>)) a, [DrawFrame])
           | None \<Rightarrow> (a, []))
      | KChar b \<Rightarrow>
          if printable b then
            (upd_pv (\<lambda>v. pv_refilter rt (v\<lparr>pv_filter := pv_filter v @ [char_of_byte b]\<rparr>)) a, [DrawFrame])
          else (a, [])
      | _ \<Rightarrow> (a, []))"

function handle_ports_list_key :: "'p rt \<Rightarrow> scope_key \<Rightarrow> 'p app \<Rightarrow> 'p handled" where
  "handle_ports_list_key rt key a =
     (if pv_filter_active (po_ports (ap_ports a)) then handle_ports_filter_key rt key a
      else
        let n = pv_visible_count (x_unicode rt) (po_ports (ap_ports a))
        in case key of
             KUp \<Rightarrow> (upd_pv (\<lambda>v. v\<lparr>pv_selection := pv_selection v - 1\<rparr>) a, [DrawFrame])
           | KDown \<Rightarrow>
               (if 0 < n \<and> pv_selection (po_ports (ap_ports a)) + 1 < n
                then upd_pv (\<lambda>v. v\<lparr>pv_selection := pv_selection v + 1\<rparr>) a else a, [DrawFrame])
           | KTop \<Rightarrow> (upd_pv (\<lambda>v. v\<lparr>pv_selection := 0\<rparr>) a, [DrawFrame])
           | KHome \<Rightarrow> (upd_pv (\<lambda>v. v\<lparr>pv_selection := 0\<rparr>) a, [DrawFrame])
           | KBottom \<Rightarrow> (upd_pv (\<lambda>v. v\<lparr>pv_selection := n - 1\<rparr>) a, [DrawFrame])
           | KEnd \<Rightarrow> (upd_pv (\<lambda>v. v\<lparr>pv_selection := n - 1\<rparr>) a, [DrawFrame])
           | KFilterStart \<Rightarrow> (upd_pv (\<lambda>v. v\<lparr>pv_filter_active := True\<rparr>) a, [DrawFrame])
           | KChar b \<Rightarrow>
               if b = 0x6a then handle_ports_list_key rt KDown a
               else if b = 0x6b then handle_ports_list_key rt KUp a
               else if b = 0x67 then handle_ports_list_key rt KTop a
               else if b = 0x47 then handle_ports_list_key rt KBottom a
               else if b = 0x2f then handle_ports_list_key rt KFilterStart a
               else (a, [])
           | _ \<Rightarrow> (a, []))"
  by pat_completeness auto
termination
  by (relation "measure (\<lambda>(rt, key, a). key_rank key)") simp_all

declare handle_ports_list_key.simps [simp del]

definition sv_refilter :: "'p rt \<Rightarrow> processes_view \<Rightarrow> processes_view" where
  "sv_refilter rt v = (let old_key = sv_selected_key (x_unicode rt) v in sv_reanchor (x_unicode rt) old_key v)"

definition handle_processes_filter_key :: "'p rt \<Rightarrow> scope_key \<Rightarrow> 'p app \<Rightarrow> 'p handled" where
  "handle_processes_filter_key rt key a =
     (case key of
        KEscape \<Rightarrow>
          (upd_sv (\<lambda>v. sv_refilter rt (v\<lparr>sv_filter := [], sv_filter_active := False\<rparr>)) a, [DrawFrame])
      | KEnter \<Rightarrow> (upd_sv (\<lambda>v. v\<lparr>sv_filter_active := False\<rparr>) a, [DrawFrame])
      | KBackspace \<Rightarrow>
          (case string_pop (sv_filter (po_processes (ap_ports a))) of
             Some f \<Rightarrow> (upd_sv (\<lambda>v. sv_refilter rt (v\<lparr>sv_filter := f\<rparr>)) a, [DrawFrame])
           | None \<Rightarrow> (a, []))
      | KChar b \<Rightarrow>
          if printable b then
            (upd_sv (\<lambda>v. sv_refilter rt (v\<lparr>sv_filter := sv_filter v @ [char_of_byte b]\<rparr>)) a, [DrawFrame])
          else (a, [])
      | _ \<Rightarrow> (a, []))"

function handle_processes_list_key :: "'p rt \<Rightarrow> scope_key \<Rightarrow> 'p app \<Rightarrow> 'p handled" where
  "handle_processes_list_key rt key a =
     (if sv_filter_active (po_processes (ap_ports a)) then handle_processes_filter_key rt key a
      else
        let n = sv_visible_count (x_unicode rt) (po_processes (ap_ports a))
        in case key of
             KUp \<Rightarrow> (upd_sv (\<lambda>v. v\<lparr>sv_selection := sv_selection v - 1\<rparr>) a, [DrawFrame])
           | KDown \<Rightarrow>
               (if 0 < n \<and> sv_selection (po_processes (ap_ports a)) + 1 < n
                then upd_sv (\<lambda>v. v\<lparr>sv_selection := sv_selection v + 1\<rparr>) a else a, [DrawFrame])
           | KTop \<Rightarrow> (upd_sv (\<lambda>v. v\<lparr>sv_selection := 0\<rparr>) a, [DrawFrame])
           | KHome \<Rightarrow> (upd_sv (\<lambda>v. v\<lparr>sv_selection := 0\<rparr>) a, [DrawFrame])
           | KBottom \<Rightarrow> (upd_sv (\<lambda>v. v\<lparr>sv_selection := n - 1\<rparr>) a, [DrawFrame])
           | KEnd \<Rightarrow> (upd_sv (\<lambda>v. v\<lparr>sv_selection := n - 1\<rparr>) a, [DrawFrame])
           | KFilterStart \<Rightarrow> (upd_sv (\<lambda>v. v\<lparr>sv_filter_active := True\<rparr>) a, [DrawFrame])
           | KChar b \<Rightarrow>
               if b = 0x6a then handle_processes_list_key rt KDown a
               else if b = 0x6b then handle_processes_list_key rt KUp a
               else if b = 0x67 then handle_processes_list_key rt KTop a
               else if b = 0x47 then handle_processes_list_key rt KBottom a
               else if b = 0x2f then handle_processes_list_key rt KFilterStart a
               else (a, [])
           | _ \<Rightarrow> (a, []))"
  by pat_completeness auto
termination
  by (relation "measure (\<lambda>(rt, key, a). key_rank key)") simp_all

declare handle_processes_list_key.simps [simp del]

text \<open>\<open>p\<close> toggles the views, except while the active view's filter bar takes text.\<close>

definition handle_ports_key :: "'p rt \<Rightarrow> scope_key \<Rightarrow> 'p app \<Rightarrow> 'p handled" where
  "handle_ports_key rt key a =
     (let s = ap_ports a;
          filter_active = (case po_active s of
            AvPorts \<Rightarrow> pv_filter_active (po_ports s) | AvProcesses \<Rightarrow> sv_filter_active (po_processes s))
      in if key = KChar 0x70 \<and> \<not> filter_active then
           (upd_ports (\<lambda>s. s\<lparr>po_active := (case po_active s of AvPorts \<Rightarrow> AvProcesses | AvProcesses \<Rightarrow> AvPorts)\<rparr>) a,
            [DrawFrame])
         else case po_active s of
                AvPorts \<Rightarrow> handle_ports_list_key rt key a
              | AvProcesses \<Rightarrow> handle_processes_list_key rt key a)"

section \<open>The Fleet tile's keys\<close>

definition opening_toast :: "string \<Rightarrow> string" where
  "opening_toast alias = ''opening ssh:'' @ alias @ ellipsis"

definition dispatch_open_remote_pane :: "'p rt \<Rightarrow> instant \<Rightarrow> 'p app \<Rightarrow> 'p handled" where
  "dispatch_open_remote_pane rt now a =
     (case selected_host (x_unicode rt) (ap_fleet a) of
        None \<Rightarrow> (a, [])
      | Some host \<Rightarrow>
          let (pty_rows, pty_cols) = pty_content_dims (vw_layout (ap_view a));
              (a1, sub_id) = alloc_sub_id a;
              a2 = a1\<lparr>ap_pending_opens :=
                ap_pending_opens a1 @ [\<lparr>po_sub_id = sub_id, po_alias = Some (he_alias host)\<rparr>]\<rparr>;
              (a3, acts) = push_toast_at now TkInfo (opening_toast (he_alias host)) a2
          in (a3, send (POpenPane \<lparr>ops_shell = None, ops_cwd = None, ops_env = [], ops_rows = pty_rows,
                 ops_cols = pty_cols, ops_target = PtRemote (he_alias host)\<rparr>) # acts))"

definition dispatch_fleet_reconnect :: "'p rt \<Rightarrow> instant \<Rightarrow> 'p app \<Rightarrow> 'p handled" where
  "dispatch_fleet_reconnect rt now a =
     (case selected_host (x_unicode rt) (ap_fleet a) of
        None \<Rightarrow> (a, [])
      | Some host \<Rightarrow>
          let (a1, request_id) = alloc_sub_id a;
              a2 = register_action request_id now (''reconnect '' @ he_alias host) a1
          in (a2, [send (PFleetAction \<lparr>far_request_id = request_id, far_alias = he_alias host,
                far_kind = FaReconnect\<rparr>), DrawFrame]))"

definition fl_refilter :: "'p rt \<Rightarrow> fleet_scope \<Rightarrow> fleet_scope" where
  "fl_refilter rt f = (let old_key = fl_selected_key (x_unicode rt) f in fl_reanchor (x_unicode rt) old_key f)"

definition handle_fleet_filter_key :: "'p rt \<Rightarrow> scope_key \<Rightarrow> 'p app \<Rightarrow> 'p handled" where
  "handle_fleet_filter_key rt key a =
     (case key of
        KEscape \<Rightarrow>
          (upd_fleet (\<lambda>f. fl_refilter rt (f\<lparr>fl_filter := [], fl_filter_active := False\<rparr>)) a, [DrawFrame])
      | KEnter \<Rightarrow> (upd_fleet (\<lambda>f. f\<lparr>fl_filter_active := False\<rparr>) a, [DrawFrame])
      | KBackspace \<Rightarrow>
          (case string_pop (fl_filter (ap_fleet a)) of
             Some s \<Rightarrow> (upd_fleet (\<lambda>f. fl_refilter rt (f\<lparr>fl_filter := s\<rparr>)) a, [DrawFrame])
           | None \<Rightarrow> (a, []))
      | KChar b \<Rightarrow>
          if printable b then
            (upd_fleet (\<lambda>f. fl_refilter rt (f\<lparr>fl_filter := fl_filter f @ [char_of_byte b]\<rparr>)) a, [DrawFrame])
          else (a, [])
      | _ \<Rightarrow> (a, []))"

function handle_fleet_key :: "'p rt \<Rightarrow> instant \<Rightarrow> scope_key \<Rightarrow> 'p app \<Rightarrow> 'p handled" where
  "handle_fleet_key rt now key a =
     (if fl_filter_active (ap_fleet a) then handle_fleet_filter_key rt key a
      else
        let n = fl_visible_count (x_unicode rt) (ap_fleet a)
        in case key of
             KUp \<Rightarrow> (upd_fleet (\<lambda>f. f\<lparr>fl_selection := fl_selection f - 1\<rparr>) a, [DrawFrame])
           | KDown \<Rightarrow>
               (if 0 < n \<and> fl_selection (ap_fleet a) + 1 < n
                then upd_fleet (\<lambda>f. f\<lparr>fl_selection := fl_selection f + 1\<rparr>) a else a, [DrawFrame])
           | KTop \<Rightarrow> (upd_fleet (\<lambda>f. f\<lparr>fl_selection := 0\<rparr>) a, [DrawFrame])
           | KHome \<Rightarrow> (upd_fleet (\<lambda>f. f\<lparr>fl_selection := 0\<rparr>) a, [DrawFrame])
           | KBottom \<Rightarrow> (upd_fleet (\<lambda>f. f\<lparr>fl_selection := n - 1\<rparr>) a, [DrawFrame])
           | KEnd \<Rightarrow> (upd_fleet (\<lambda>f. f\<lparr>fl_selection := n - 1\<rparr>) a, [DrawFrame])
           | KFilterStart \<Rightarrow> (upd_fleet (\<lambda>f. f\<lparr>fl_filter_active := True\<rparr>) a, [DrawFrame])
           | KChar b \<Rightarrow>
               if b = 0x6a then handle_fleet_key rt now KDown a
               else if b = 0x6b then handle_fleet_key rt now KUp a
               else if b = 0x67 then handle_fleet_key rt now KTop a
               else if b = 0x47 then handle_fleet_key rt now KBottom a
               else if b = 0x2f then handle_fleet_key rt now KFilterStart a
               else if b = 0x72 then dispatch_fleet_reconnect rt now a
               else (a, [])
           | KEnter \<Rightarrow> dispatch_open_remote_pane rt now a
           | _ \<Rightarrow> (a, []))"
  by pat_completeness auto
termination
  by (relation "measure (\<lambda>(rt, now, key, a). key_rank key)") simp_all

declare handle_fleet_key.simps [simp del]

end
