(* ===== verification/AppPicker.thy ===== *)
theory AppPicker
  imports AppScopes
begin

text \<open>
  The host picker and the retargeting of the scope tiles (\<open>crates/tepegoz-tui/src/app.rs\<close>): a tile's
  subscription is ended and opened again, under the same id, for the host the user picked.
\<close>

definition open_host_picker :: "'p app \<Rightarrow> 'p handled" where
  "open_host_picker a =
     (let pick = (case routes_to_scope (vw_layout (ap_view a)) (vw_focused (ap_view a)) of
            Some ScopeDocker \<Rightarrow> Some (HpDocker, ''docker'', ds_target (ap_docker a))
          | Some ScopePorts \<Rightarrow>
              (case po_active (ap_ports a) of
                 AvPorts \<Rightarrow> Some (HpPorts, ''ports'', po_ports_target (ap_ports a))
               | AvProcesses \<Rightarrow> Some (HpProcesses, ''processes'', po_processes_target (ap_ports a)))
          | _ \<Rightarrow> None)
      in case pick of
           None \<Rightarrow> (a, [])
         | Some (target_tile, required, current_target) \<Rightarrow>
             let rows = host_picker_rows a required;
                 selected = (case position (\<lambda>r. case (r, current_target) of
                       (HrLocal, StLocal) \<Rightarrow> True
                     | (HrRemote alias _ _ _, StRemote t) \<Rightarrow> alias = t
                     | _ \<Rightarrow> False) rows of Some i \<Rightarrow> i | None \<Rightarrow> 0)
             in (a\<lparr>ap_host_picker := Some \<lparr>hp_target_tile = target_tile,
                   hp_required_capability = required, hp_selected = selected\<rparr>\<rparr>, [DrawFrame]))"

definition dismiss_host_picker :: "'p app \<Rightarrow> 'p handled" where
  "dismiss_host_picker a =
     (if ap_host_picker a \<noteq> None then (a\<lparr>ap_host_picker := None\<rparr>, [DrawFrame]) else (a, []))"

definition retarget_docker :: "scope_target \<Rightarrow> 'p app \<Rightarrow> 'p handled" where
  "retarget_docker new_target a =
     (if ds_target (ap_docker a) = new_target then (a, [DrawFrame])
      else
        let (d1, acts1) = (case ds_view (ap_docker a) of
              DvLogs logs \<Rightarrow> ((ap_docker a)\<lparr>ds_view := DvList\<rparr>, [send (PUnsubscribe (lv_sub_id logs))])
            | DvList \<Rightarrow> (ap_docker a, []));
            d2 = d1\<lparr>ds_state := DsConnecting, ds_selection := 0, ds_pending_confirm := None,
              ds_target := new_target\<rparr>
        in (a\<lparr>ap_docker := d2\<rparr>,
            acts1 @ [send (PUnsubscribe (ds_sub_id d1)),
              send (PSubscribe (SubDocker (ds_sub_id d2) new_target)), DrawFrame]))"

definition retarget_ports :: "scope_target \<Rightarrow> 'p app \<Rightarrow> 'p handled" where
  "retarget_ports new_target a =
     (if po_ports_target (ap_ports a) = new_target then (a, [DrawFrame])
      else
        (upd_ports (\<lambda>s. s\<lparr>po_ports := (po_ports s)\<lparr>pv_state := PvConnecting, pv_selection := 0\<rparr>,
           po_ports_target := new_target\<rparr>) a,
         [send (PUnsubscribe (po_ports_sub_id (ap_ports a))),
          send (PSubscribe (SubPorts (po_ports_sub_id (ap_ports a)) new_target)), DrawFrame]))"

definition retarget_processes :: "scope_target \<Rightarrow> 'p app \<Rightarrow> 'p handled" where
  "retarget_processes new_target a =
     (if po_processes_target (ap_ports a) = new_target then (a, [DrawFrame])
      else
        (upd_ports (\<lambda>s. s\<lparr>po_processes := (po_processes s)\<lparr>sv_state := SvConnecting, sv_selection := 0\<rparr>,
           po_processes_target := new_target\<rparr>) a,
         [send (PUnsubscribe (po_processes_sub_id (ap_ports a))),
          send (PSubscribe (SubProcesses (po_processes_sub_id (ap_ports a)) new_target)), DrawFrame]))"

definition picker_required :: "'p app \<Rightarrow> string" where
  "picker_required a = (case ap_host_picker a of Some p \<Rightarrow> hp_required_capability p | None \<Rightarrow> [])"

definition commit_host_picker :: "'p app \<Rightarrow> 'p handled" where
  "commit_host_picker a =
     (let rows = host_picker_rows a (picker_required a)
      in case ap_host_picker a of
           None \<Rightarrow> (a, [])
         | Some picker \<Rightarrow>
             (case nth_opt rows (hp_selected picker) of
                None \<Rightarrow> (a\<lparr>ap_host_picker := None\<rparr>, [DrawFrame])
              | Some row \<Rightarrow>
                  (let target = (case row of
                         HrLocal \<Rightarrow> Some StLocal
                       | HrRemote alias _ _ usable \<Rightarrow> if usable then Some (StRemote alias) else None)
                   in case target of
                        None \<Rightarrow> (a, [])
                      | Some new_target \<Rightarrow>
                          let a1 = a\<lparr>ap_host_picker := None\<rparr>
                          in case hp_target_tile picker of
                               HpDocker \<Rightarrow> retarget_docker new_target a1
                             | HpPorts \<Rightarrow> retarget_ports new_target a1
                             | HpProcesses \<Rightarrow> retarget_processes new_target a1)))"

definition picker_select :: "nat \<Rightarrow> host_picker_modal \<Rightarrow> 'p app \<Rightarrow> 'p handled" where
  "picker_select i picker a = (a\<lparr>ap_host_picker := Some (picker\<lparr>hp_selected := i\<rparr>)\<rparr>, [DrawFrame])"

definition handle_host_picker_key :: "scope_key \<Rightarrow> 'p app \<Rightarrow> 'p handled" where
  "handle_host_picker_key key a =
     (let rows_len = length (host_picker_rows a (picker_required a))
      in case ap_host_picker a of
           None \<Rightarrow> (a, [])
         | Some picker \<Rightarrow>
             let i = hp_selected picker
             in if key = KUp \<or> key = KChar 0x6b then
                  (if 0 < i then picker_select (i - 1) picker a else (a, []))
                else if key = KDown \<or> key = KChar 0x6a then
                  (if i + 1 < rows_len then picker_select (i + 1) picker a else (a, []))
                else if key = KHome \<or> key = KTop \<or> key = KChar 0x67 then
                  (if i \<noteq> 0 then picker_select 0 picker a else (a, []))
                else if key = KEnd \<or> key = KBottom \<or> key = KChar 0x47 then
                  (if 0 < rows_len \<and> i \<noteq> rows_len - 1 then picker_select (rows_len - 1) picker a else (a, []))
                else if key = KEnter then commit_host_picker a
                else if key = KEscape then dismiss_host_picker a
                else (a, []))"

end
