(* ===== verification/AppDaemon.thy ===== *)
theory AppDaemon
  imports AppPanes AppPicker
begin

text \<open>
  What the TUI's state machine does with the daemon's messages and with time
  (\<open>crates/tepegoz-tui/src/app.rs\<close>): events are routed by subscription id, answers are matched with
  the requests in flight, and the tick sweeps what has expired.
\<close>

section \<open>Events of the scope subscriptions\<close>

fun handle_docker_event :: "'p rt \<Rightarrow> event \<Rightarrow> 'p app \<Rightarrow> 'p handled" where
  "handle_docker_event rt (EvContainerList containers engine_source) a =
     (upd_docker (\<lambda>d. clamp_selection (x_unicode rt) (d\<lparr>ds_state := DsAvailable containers engine_source\<rparr>)) a,
      [DrawFrame])"
| "handle_docker_event rt (EvDockerUnavailable reason) a =
     (upd_docker (\<lambda>d. d\<lparr>ds_state := DsUnavailable reason, ds_selection := 0\<rparr>) a, [DrawFrame])"
| "handle_docker_event rt _ a = (a, [])"

fun handle_ports_event :: "'p rt \<Rightarrow> event \<Rightarrow> 'p app \<Rightarrow> 'p handled" where
  "handle_ports_event rt (EvPortList ports source) a =
     (let old_key = pv_selected_key (x_unicode rt) (po_ports (ap_ports a))
      in (upd_pv (\<lambda>v. pv_reanchor (x_unicode rt) old_key (v\<lparr>pv_state := PvAvailable ports source\<rparr>)) a,
          [DrawFrame]))"
| "handle_ports_event rt (EvPortsUnavailable reason) a =
     (upd_pv (\<lambda>v. v\<lparr>pv_state := PvUnavailable reason, pv_selection := 0\<rparr>) a, [DrawFrame])"
| "handle_ports_event rt _ a = (a, [])"

fun handle_processes_event :: "'p rt \<Rightarrow> event \<Rightarrow> 'p app \<Rightarrow> 'p handled" where
  "handle_processes_event rt (EvProcessList rows source) a =
     (let old_key = sv_selected_key (x_unicode rt) (po_processes (ap_ports a))
      in (upd_sv (\<lambda>v. sv_reanchor (x_unicode rt) old_key (v\<lparr>sv_state := SvAvailable rows source\<rparr>)) a,
          [DrawFrame]))"
| "handle_processes_event rt (EvProcessesUnavailable reason) a =
     (upd_sv (\<lambda>v. v\<lparr>sv_state := SvUnavailable reason, sv_selection := 0\<rparr>) a, [DrawFrame])"
| "handle_processes_event rt _ a = (a, [])"

text \<open>The states of a new host list: what was known of each host, \<open>Disconnected\<close> otherwise.\<close>

definition seed_states :: "fleet_scope_state \<Rightarrow> host_entry list \<Rightarrow> string \<rightharpoonup> host_state" where
  "seed_states prev hosts =
     fold (\<lambda>h states. states(he_alias h \<mapsto>
       (case prev of
          FsAvailable _ prev_states _ \<Rightarrow>
            (case prev_states (he_alias h) of Some s \<Rightarrow> s | None \<Rightarrow> HsDisconnected)
        | FsConnecting \<Rightarrow> HsDisconnected))) hosts Map.empty"

definition terminal_text :: "string \<Rightarrow> host_state \<Rightarrow> string \<Rightarrow> string option" where
  "terminal_text alias state reason =
     (let line = (\<lambda>what. Some (alias @ what @ em_dash @ '' '' @ reason))
      in case state of
           HsAuthFailed \<Rightarrow> line '': auth failed ''
         | HsHostKeyMismatch \<Rightarrow> line '': host key rejected ''
         | HsAgentNotDeployed \<Rightarrow> line '': agent not deployed ''
         | HsAgentVersionMismatch \<Rightarrow> line '': agent version mismatch ''
         | _ \<Rightarrow> None)"

definition host_state_changed ::
  "instant \<Rightarrow> string \<Rightarrow> host_state \<Rightarrow> string option \<Rightarrow> 'p app \<Rightarrow> 'p handled" where
  "host_state_changed now alias state reason a =
     (case fl_state (ap_fleet a) of
        FsConnecting \<Rightarrow> (a, [])
      | FsAvailable hosts states source \<Rightarrow>
          let prev_state = states alias;
              should_toast = (is_terminal state \<and> reason \<noteq> None \<and> prev_state \<noteq> Some state);
              a1 = upd_fleet (\<lambda>f. f\<lparr>fl_state := FsAvailable hosts (states(alias \<mapsto> state)) source\<rparr>) a
          in if should_toast then
               (case terminal_text alias state (case reason of Some r \<Rightarrow> r | None \<Rightarrow> ''<no reason>'') of
                  Some txt \<Rightarrow>
                    (let (a2, acts) = push_toast_at now TkError txt a1 in (a2, DrawFrame # acts))
                | None \<Rightarrow> (a1, [DrawFrame]))
             else (a1, [DrawFrame]))"

fun handle_fleet_event :: "'p rt \<Rightarrow> instant \<Rightarrow> event \<Rightarrow> 'p app \<Rightarrow> 'p handled" where
  "handle_fleet_event rt now (EvHostList hosts source) a =
     (let old_key = fl_selected_key (x_unicode rt) (ap_fleet a);
          states = seed_states (fl_state (ap_fleet a)) hosts
      in (upd_fleet (\<lambda>f. fl_reanchor (x_unicode rt) old_key (f\<lparr>fl_state := FsAvailable hosts states source\<rparr>)) a,
          [DrawFrame]))"
| "handle_fleet_event rt now (EvHostStateChanged alias state reason) a =
     host_state_changed now alias state reason a"
| "handle_fleet_event rt now (EvAgentCapabilities alias capabilities) a =
     (a\<lparr>ap_host_capabilities := (ap_host_capabilities a)(alias \<mapsto> capabilities)\<rparr>, [DrawFrame])"
| "handle_fleet_event rt now _ a = (a, [])"

fun handle_logs_event :: "event \<Rightarrow> 'p app \<Rightarrow> 'p handled" where
  "handle_logs_event (EvContainerLog stream data) a = upd_logs (ingest stream data) a"
| "handle_logs_event (EvDockerStreamEnded reason) a = upd_logs (end_stream reason) a"
| "handle_logs_event _ a = (a, [])"

section \<open>Answers to requests\<close>

definition dash_suffix :: "string \<Rightarrow> string" where
  "dash_suffix what = '' '' @ em_dash @ '' '' @ what"

text \<open>The description of a request that is still pending, and the table without it.\<close>

definition take_pending :: "u64 \<Rightarrow> string \<Rightarrow> 'p app \<Rightarrow> 'p app \<times> string" where
  "take_pending request_id fallback a =
     (a\<lparr>ap_pending_actions := AList.delete request_id (ap_pending_actions a)\<rparr>,
      case map_of (ap_pending_actions a) request_id of
        Some pa \<Rightarrow> pa_description pa
      | None \<Rightarrow> fallback)"

definition docker_action_result :: "instant \<Rightarrow> docker_action_result \<Rightarrow> 'p app \<Rightarrow> 'p handled" where
  "docker_action_result now r a =
     (let (a1, description) = take_pending (dres_request_id r)
            (action_verb (dres_kind r) @ '' '' @ dres_container_id r) a
      in case dres_outcome r of
           DaSuccess \<Rightarrow> push_toast_at now TkSuccess (description @ dash_suffix ''succeeded'') a1
         | DaFailure reason \<Rightarrow> push_toast_at now TkError (description @ '' failed: '' @ reason) a1)"

definition fleet_action_result :: "instant \<Rightarrow> fleet_action_result \<Rightarrow> 'p app \<Rightarrow> 'p handled" where
  "fleet_action_result now r a =
     (let (a1, description) = take_pending (fres_request_id r)
            (fleet_action_verb (fres_kind r) @ '' '' @ fres_alias r) a
      in case fres_outcome r of
           FaSuccess \<Rightarrow> push_toast_at now TkInfo (description @ dash_suffix ''dispatched'') a1
         | FaFailure reason \<Rightarrow> push_toast_at now TkError (description @ '' failed: '' @ reason) a1)"

definition is_open_failure :: "error_info \<Rightarrow> bool" where
  "is_open_failure info \<longleftrightarrow>
     starts_with (ei_message info) ''open pane'' \<or> starts_with (ei_message info) ''open remote pane''"

definition daemon_error :: "instant \<Rightarrow> error_info \<Rightarrow> 'p app \<Rightarrow> 'p handled" where
  "daemon_error now info a =
     (case (is_open_failure info, ap_pending_opens a) of
        (True, pend # rest) \<Rightarrow>
          (let alias = (case po_alias pend of Some s \<Rightarrow> s | None \<Rightarrow> ''local'')
           in push_toast_at now TkError (''open pane '' @ alias @ '' failed: '' @ ei_message info)
                (a\<lparr>ap_pending_opens := rest\<rparr>))
      | _ \<Rightarrow>
          push_toast_at now TkError
            (''daemon error '' @ error_kind_debug (ei_kind info) @ '': '' @ ei_message info) a)"

section \<open>The message dispatcher\<close>

definition handle_event_frame :: "'p rt \<Rightarrow> instant \<Rightarrow> u64 \<Rightarrow> event \<Rightarrow> 'p app \<Rightarrow> panic + 'p handled" where
  "handle_event_frame rt now sub_id ev a =
     (case find_pane_by_sub a sub_id of
        Some idx \<Rightarrow> handle_pane_event rt now idx ev a
      | None \<Rightarrow>
          if sub_id = ds_sub_id (ap_docker a) then Inr (handle_docker_event rt ev a)
          else if is_current_logs_sub (ap_docker a) sub_id then Inr (handle_logs_event ev a)
          else if sub_id = po_ports_sub_id (ap_ports a) then Inr (handle_ports_event rt ev a)
          else if sub_id = po_processes_sub_id (ap_ports a) then Inr (handle_processes_event rt ev a)
          else if sub_id = fl_sub_id (ap_fleet a) then Inr (handle_fleet_event rt now ev a)
          else Inr (a, []))"

fun handle_daemon_envelope :: "'p rt \<Rightarrow> instant \<Rightarrow> payload \<Rightarrow> 'p app \<Rightarrow> panic + 'p handled" where
  "handle_daemon_envelope rt now (PEvent frame) a =
     handle_event_frame rt now (ef_subscription_id frame) (ef_event frame) a"
| "handle_daemon_envelope rt now (PPaneOpened info) a = Inr (handle_pane_opened rt info a)"
| "handle_daemon_envelope rt now (PError info) a = Inr (daemon_error now info a)"
| "handle_daemon_envelope rt now (PDockerActionResult r) a = Inr (docker_action_result now r a)"
| "handle_daemon_envelope rt now (PFleetActionResult r) a = Inr (fleet_action_result now r a)"
| "handle_daemon_envelope rt now _ a = Inr (a, [])"

section \<open>Time\<close>

definition expire_pending_action_at :: "instant \<Rightarrow> 'p app \<Rightarrow> u64 \<Rightarrow> 'p handled" where
  "expire_pending_action_at now a i =
     (case map_of (ap_pending_actions a) i of
        Some pa \<Rightarrow>
          push_toast_at now TkError (pa_description pa @ '' timed out '' @ em_dash @ '' check engine'')
            (a\<lparr>ap_pending_actions := AList.delete i (ap_pending_actions a)\<rparr>)
      | None \<Rightarrow> (a, []))"

definition expired_actions :: "instant \<Rightarrow> 'p app \<Rightarrow> u64 list" where
  "expired_actions now a =
     map fst (filter (\<lambda>(i, pa). pa_deadline pa \<le> now) (ap_pending_actions a))"

definition sweep_expired :: "'p rt \<Rightarrow> instant \<Rightarrow> 'p app \<Rightarrow> 'p handled" where
  "sweep_expired rt now a =
     (let confirm_expired = (case ds_pending_confirm (ap_docker a) of
            Some pc \<Rightarrow> pc_deadline pc \<le> now | None \<Rightarrow> False);
          a1 = (if confirm_expired then upd_docker (\<lambda>d. d\<lparr>ds_pending_confirm := None\<rparr>) a else a);
          (a2, acts) = run_items (expire_pending_action_at now) a1 (x_order rt (expired_actions now a1))
      in (a2\<lparr>ap_toasts := filter (\<lambda>t. now < to_expires_at t) (ap_toasts a2)\<rparr>, acts))"

end
