(* ===== verification/App.thy ===== *)
theory App
  imports AppDaemon
begin

text \<open>
  The single mutator of the TUI (\<open>App::handle_event\<close> of \<open>crates/tepegoz-tui/src/app.rs\<close>): keyboard
  input, mouse clicks, daemon messages, resizes and ticks. The loops over input actions and keys
  stop where the code returns or breaks.
\<close>

section \<open>Mouse clicks\<close>

definition scope_filter_visible :: "scope_kind \<Rightarrow> 'p app \<Rightarrow> bool" where
  "scope_filter_visible kind a =
     (case kind of
        ScopeDocker \<Rightarrow> ds_filter_active (ap_docker a) \<or> ds_filter (ap_docker a) \<noteq> []
      | ScopePorts \<Rightarrow>
          (case po_active (ap_ports a) of
             AvPorts \<Rightarrow> pv_filter_active (po_ports (ap_ports a)) \<or> pv_filter (po_ports (ap_ports a)) \<noteq> []
           | AvProcesses \<Rightarrow>
               sv_filter_active (po_processes (ap_ports a)) \<or> sv_filter (po_processes (ap_ports a)) \<noteq> [])
      | ScopeFleet \<Rightarrow> fl_filter_active (ap_fleet a) \<or> fl_filter (ap_fleet a) \<noteq> [])"

definition scope_selection :: "scope_kind \<Rightarrow> 'p app \<Rightarrow> nat" where
  "scope_selection kind a =
     (case kind of
        ScopeDocker \<Rightarrow> ds_selection (ap_docker a)
      | ScopePorts \<Rightarrow>
          (case po_active (ap_ports a) of
             AvPorts \<Rightarrow> pv_selection (po_ports (ap_ports a))
           | AvProcesses \<Rightarrow> sv_selection (po_processes (ap_ports a)))
      | ScopeFleet \<Rightarrow> fl_selection (ap_fleet a))"

definition scope_set_selection :: "scope_kind \<Rightarrow> nat \<Rightarrow> 'p app \<Rightarrow> 'p app" where
  "scope_set_selection kind idx a =
     (case kind of
        ScopeDocker \<Rightarrow> upd_docker (\<lambda>d. d\<lparr>ds_selection := idx\<rparr>) a
      | ScopePorts \<Rightarrow>
          (case po_active (ap_ports a) of
             AvPorts \<Rightarrow> upd_pv (\<lambda>v. v\<lparr>pv_selection := idx\<rparr>) a
           | AvProcesses \<Rightarrow> upd_sv (\<lambda>v. v\<lparr>sv_selection := idx\<rparr>) a)
      | ScopeFleet \<Rightarrow> upd_fleet (\<lambda>f. f\<lparr>fl_selection := idx\<rparr>) a)"

definition scope_visible :: "'p rt \<Rightarrow> scope_kind \<Rightarrow> 'p app \<Rightarrow> nat" where
  "scope_visible rt kind a =
     (case kind of
        ScopeDocker \<Rightarrow> ds_visible_count (x_unicode rt) (ap_docker a)
      | ScopePorts \<Rightarrow>
          (case po_active (ap_ports a) of
             AvPorts \<Rightarrow> pv_visible_count (x_unicode rt) (po_ports (ap_ports a))
           | AvProcesses \<Rightarrow> sv_visible_count (x_unicode rt) (po_processes (ap_ports a)))
      | ScopeFleet \<Rightarrow> fl_visible_count (x_unicode rt) (ap_fleet a))"

text \<open>The row under the mouse: below the status line, the filter bar and a header, if any.\<close>

definition clicked_row :: "scope_kind \<Rightarrow> u16 \<Rightarrow> u16 \<Rightarrow> u16 \<Rightarrow> nat option" where
  "clicked_row kind body_y_start body_y_end y =
     (if y < body_y_start \<or> body_y_end \<le> y then None
      else case kind of
        ScopeFleet \<Rightarrow> Some (unat (y - body_y_start))
      | _ \<Rightarrow> if y \<le> body_y_start then None else Some (unat (y - body_y_start - 1)))"

text \<open>A click on row \<open>row_idx\<close>: select it; a second click in time on a Fleet row opens a pane.\<close>

definition click_row ::
  "'p rt \<Rightarrow> tile_id \<Rightarrow> scope_kind \<Rightarrow> nat \<Rightarrow> instant \<Rightarrow> 'p app \<Rightarrow> 'p handled" where
  "click_row rt tile_id kind row_idx now a =
     (let prev_selection = scope_selection kind a;
          a1 = scope_set_selection kind row_idx a;
          acts1 = (if scope_selection kind a1 \<noteq> prev_selection then [DrawFrame] else []);
          is_double = (case ap_last_click a1 of
              Some (prev_tile, prev_row, prev_time) \<Rightarrow>
                prev_tile = tile_id \<and> prev_row = row_idx \<and> now - prev_time < DOUBLE_CLICK_WINDOW
            | None \<Rightarrow> False);
          a2 = a1\<lparr>ap_last_click := Some (tile_id, row_idx, now)\<rparr>
      in if is_double \<and> kind = ScopeFleet then
           (case dispatch_open_remote_pane rt now a2 of (a3, acts2) \<Rightarrow> (a3, acts1 @ acts2))
         else (a2, acts1))"

definition dispatch_scope_click ::
  "'p rt \<Rightarrow> tile_id \<Rightarrow> scope_kind \<Rightarrow> rect \<Rightarrow> u16 \<Rightarrow> u16 \<Rightarrow> instant \<Rightarrow> 'p app \<Rightarrow> 'p handled" where
  "dispatch_scope_click rt tile_id kind r x y now a =
     (case inset_rect (x_rect_new rt) r of
        None \<Rightarrow> (a, [])
      | Some inner \<Rightarrow>
          let filter_offset = (if scope_filter_visible kind a then 1 else 0);
              body_y_start = saturating_add (saturating_add (r_y inner) 1) filter_offset;
              body_y_end = saturating_sub (saturating_add (r_y inner) (r_height inner)) 1
          in if y = r_y r \<and> (kind = ScopeDocker \<or> kind = ScopePorts) then open_host_picker a
             else case clicked_row kind body_y_start body_y_end y of
               None \<Rightarrow> (a, [])
             | Some row_idx \<Rightarrow>
                 if scope_visible rt kind a \<le> row_idx then (a, [])
                 else click_row rt tile_id kind row_idx now a)"

definition handle_mouse_click_at :: "'p rt \<Rightarrow> u16 \<Rightarrow> u16 \<Rightarrow> instant \<Rightarrow> 'p app \<Rightarrow> panic + 'p handled" where
  "handle_mouse_click_at rt x y now a =
     (if ap_help_visible a then Inr (a\<lparr>ap_help_visible := False\<rparr>, [DrawFrame])
      else if ap_host_picker a \<noteq> None then Inr (dismiss_host_picker a)
      else case tile_under rt a x y of
        None \<Rightarrow> Inr (a, [])
      | Some t \<Rightarrow>
          (case move_focus_to (td_id t) a of (a1, acts1) \<Rightarrow>
            (case td_kind t of
               KindPty \<Rightarrow>
                 and_then (dispatch_pty_click rt (td_rect t) x y a1) (\<lambda>(a2, acts2). Inr (a2, acts1 @ acts2))
             | KindScope kind \<Rightarrow>
                 (case dispatch_scope_click rt (td_id t) kind (td_rect t) x y now a1 of
                    (a2, acts2) \<Rightarrow> Inr (a2, acts1 @ acts2))
             | _ \<Rightarrow> Inr (a1, acts1))))"

section \<open>Keyboard input\<close>

definition scope_keys ::
  "(scope_key \<Rightarrow> 'p app \<Rightarrow> 'p handled) \<Rightarrow> u8 list \<Rightarrow> 'p app \<Rightarrow> 'p handled" where
  "scope_keys f bytes a =
     (case key_parse (ap_scope_key_parser a) bytes of (st, keys) \<Rightarrow>
        run_items (\<lambda>s k. f k s) (a\<lparr>ap_scope_key_parser := st\<rparr>) keys)"

definition handle_forward_bytes :: "'p rt \<Rightarrow> instant \<Rightarrow> u8 list \<Rightarrow> 'p app \<Rightarrow> panic + 'p handled" where
  "handle_forward_bytes rt now bytes a =
     (if focus_routes_to_pty a then
        and_then (active_pane_id a) (\<lambda>pane_id. Inr (a, [send (PSendInput pane_id bytes)]))
      else Inr (case routes_to_scope (vw_layout (ap_view a)) (vw_focused (ap_view a)) of
        Some ScopeDocker \<Rightarrow> scope_keys (handle_scope_key rt now) bytes a
      | Some ScopePorts \<Rightarrow> scope_keys (handle_ports_key rt) bytes a
      | Some ScopeFleet \<Rightarrow> scope_keys (handle_fleet_key rt now) bytes a
      | None \<Rightarrow> (a, [])))"

text \<open>The picker's key loop: all keys of the chunk are parsed, the rest is dropped once it closes.\<close>

fun picker_keys :: "scope_key list \<Rightarrow> 'p app \<Rightarrow> 'p handled" where
  "picker_keys [] a = (a, [])"
| "picker_keys (k # ks) a =
     (case handle_host_picker_key k a of (a1, acts1) \<Rightarrow>
        if ap_host_picker a1 = None then (a1, acts1)
        else case picker_keys ks a1 of (a2, acts2) \<Rightarrow> (a2, acts1 @ acts2))"

text \<open>One input action: the new state, the actions, and whether \<open>handle_stdin\<close> returns after it.\<close>

definition help_input :: "input_action \<Rightarrow> 'p app \<Rightarrow> 'p handled \<times> bool" where
  "help_input ia a =
     (case ia of
        Detach \<Rightarrow> ((a, [DetachApp DrUser]), True)
      | Help \<Rightarrow> (handle_help_toggle a, False)
      | _ \<Rightarrow> ((a\<lparr>ap_help_visible := False\<rparr>, [DrawFrame]), False))"

definition picker_input :: "input_action \<Rightarrow> 'p app \<Rightarrow> 'p handled \<times> bool" where
  "picker_input ia a =
     (case ia of
        Detach \<Rightarrow> ((a, [DetachApp DrUser]), True)
      | OpenHostPicker \<Rightarrow> (dismiss_host_picker a, False)
      | Help \<Rightarrow>
          (case dismiss_host_picker a of (a1, acts1) \<Rightarrow>
           case handle_help_toggle a1 of (a2, acts2) \<Rightarrow> ((a2, acts1 @ acts2), False))
      | Forward b \<Rightarrow>
          (case key_parse (ap_scope_key_parser a) b of (st, keys) \<Rightarrow>
            (picker_keys keys (a\<lparr>ap_scope_key_parser := st\<rparr>), False))
      | _ \<Rightarrow> (dismiss_host_picker a, False))"

definition plain_input :: "'p rt \<Rightarrow> instant \<Rightarrow> input_action \<Rightarrow> 'p app \<Rightarrow> panic + ('p handled \<times> bool)" where
  "plain_input rt now ia a =
     (case ia of
        Forward b \<Rightarrow> and_then (handle_forward_bytes rt now b a) (\<lambda>h. Inr (h, False))
      | Detach \<Rightarrow> Inr ((a, [DetachApp DrUser]), True)
      | FocusDirection dir \<Rightarrow> Inr (handle_focus_direction dir a, False)
      | FocusNext \<Rightarrow> and_then (handle_tab True a) (\<lambda>h. Inr (h, False))
      | FocusPrev \<Rightarrow> and_then (handle_tab False a) (\<lambda>h. Inr (h, False))
      | Help \<Rightarrow> Inr (handle_help_toggle a, False)
      | OpenHostPicker \<Rightarrow> Inr (open_host_picker a, False)
      | PaneClose \<Rightarrow>
          if focus_routes_to_pty a then and_then (close_active_pane rt a) (\<lambda>h. Inr (h, False))
          else Inr ((a, []), False))"

definition handle_input_action ::
  "'p rt \<Rightarrow> instant \<Rightarrow> input_action \<Rightarrow> 'p app \<Rightarrow> panic + ('p handled \<times> bool)" where
  "handle_input_action rt now ia a =
     (if ap_help_visible a then Inr (help_input ia a)
      else if ap_host_picker a \<noteq> None then Inr (picker_input ia a)
      else plain_input rt now ia a)"

fun input_actions :: "'p rt \<Rightarrow> instant \<Rightarrow> input_action list \<Rightarrow> 'p app \<Rightarrow> panic + 'p handled" where
  "input_actions rt now [] a = Inr (a, [])"
| "input_actions rt now (ia # ias) a =
     and_then (handle_input_action rt now ia a) (\<lambda>((a1, acts1), stop).
       if stop then Inr (a1, acts1)
       else and_then (input_actions rt now ias a1) (\<lambda>(a2, acts2). Inr (a2, acts1 @ acts2)))"

definition handle_stdin :: "'p rt \<Rightarrow> instant \<Rightarrow> u8 list \<Rightarrow> 'p app \<Rightarrow> panic + 'p handled" where
  "handle_stdin rt now bytes a =
     (case process (ap_input_filter a) bytes of (st, ias) \<Rightarrow>
        input_actions rt now ias (a\<lparr>ap_input_filter := st\<rparr>))"

section \<open>The mutator\<close>

fun handle_event :: "'p rt \<Rightarrow> instant \<Rightarrow> app_event \<Rightarrow> 'p app \<Rightarrow> panic + 'p handled" where
  "handle_event rt now (AeStdinChunk bytes) a = handle_stdin rt now bytes a"
| "handle_event rt now (AeDaemonEnvelope env) a = handle_daemon_envelope rt now (en_payload env) a"
| "handle_event rt now (AeResize rows cols) a = Inr (handle_resize rt rows cols a)"
| "handle_event rt now AeTick a =
     (case sweep_expired rt now a of (a1, acts) \<Rightarrow> Inr (a1, acts @ [DrawFrame]))"
| "handle_event rt now (AePendingActionTimeout i) a = Inr (expire_pending_action_at now a i)"
| "handle_event rt now (AeMouseClick x y) a = handle_mouse_click_at rt x y now a"
| "handle_event rt now (AeMouseHover x y) a = Inr (handle_mouse_hover rt x y a)"

text \<open>A run: the events with the clock readings at which they are handled.\<close>

fun run_app :: "'p rt \<Rightarrow> (instant \<times> app_event) list \<Rightarrow> 'p app \<Rightarrow> panic + 'p handled" where
  "run_app rt [] a = Inr (a, [])"
| "run_app rt ((now, e) # es) a =
     and_then (handle_event rt now e a) (\<lambda>(a1, acts1).
       and_then (run_app rt es a1) (\<lambda>(a2, acts2). Inr (a2, acts1 @ acts2)))"

end
