(* ===== verification/Codec.thy ===== *)
theory Codec
  imports Proto "HOL-Library.Sublist"
begin

text \<open>
  The framing of \<open>crates/tepegoz-proto/src/codec.rs\<close>: a frame is a 4-byte big-endian length and
  that many bytes of rkyv. Serialisation itself (\<open>rkyv::to_bytes\<close>, \<open>rkyv::from_bytes\<close>) is
  third-party code and an argument of the definitions; what the framing relies on is the
  hypothesis \<^verbatim>\<open>rkyv_roundtrip\<close>. A writer is the bytes it has accepted and how many more it
  accepts before the peer goes away; a reader is the bytes still to come before the end of file.
\<close>

definition MAX_FRAME_SIZE :: nat where
  "MAX_FRAME_SIZE = 16 * 1024 * 1024"

datatype codec_error =
  SerializeFailed
| EnvelopeTooLarge nat
| WriteFailed
| UnexpectedEof
| FrameTooLarge u32 string string \<comment> \<open>length, hex of the prefix, hex of the next bytes\<close>
| DeserializeFailed

section \<open>Diagnostics\<close>

fun event_variant :: "event \<Rightarrow> string" where
  "event_variant (EvStatus _) = ''Event::Status''"
| "event_variant (EvPaneSnapshot _ _ _) = ''Event::PaneSnapshot''"
| "event_variant (EvPaneOutput _) = ''Event::PaneOutput''"
| "event_variant (EvPaneExit _) = ''Event::PaneExit''"
| "event_variant (EvPaneLagged _) = ''Event::PaneLagged''"
| "event_variant (EvContainerList _ _) = ''Event::ContainerList''"
| "event_variant (EvDockerUnavailable _) = ''Event::DockerUnavailable''"
| "event_variant (EvContainerLog _ _) = ''Event::ContainerLog''"
| "event_variant (EvContainerStats _) = ''Event::ContainerStats''"
| "event_variant (EvDockerStreamEnded _) = ''Event::DockerStreamEnded''"
| "event_variant (EvPortList _ _) = ''Event::PortList''"
| "event_variant (EvPortsUnavailable _) = ''Event::PortsUnavailable''"
| "event_variant (EvProcessList _ _) = ''Event::ProcessList''"
| "event_variant (EvProcessesUnavailable _) = ''Event::ProcessesUnavailable''"
| "event_variant (EvHostList _ _) = ''Event::HostList''"
| "event_variant (EvHostStateChanged _ _ _) = ''Event::HostStateChanged''"
| "event_variant (EvAgentCapabilities _ _) = ''Event::AgentCapabilities''"

fun payload_variant :: "payload \<Rightarrow> string" where
  "payload_variant (PHello _) = ''Hello''"
| "payload_variant PPing = ''Ping''"
| "payload_variant (PSubscribe _) = ''Subscribe''"
| "payload_variant (PUnsubscribe _) = ''Unsubscribe''"
| "payload_variant (POpenPane _) = ''OpenPane''"
| "payload_variant (PAttachPane _ _) = ''AttachPane''"
| "payload_variant (PClosePane _) = ''ClosePane''"
| "payload_variant PListPanes = ''ListPanes''"
| "payload_variant (PSendInput _ _) = ''SendInput''"
| "payload_variant (PResizePane _ _ _) = ''ResizePane''"
| "payload_variant (PDockerAction _) = ''DockerAction''"
| "payload_variant (PFleetAction _) = ''FleetAction''"
| "payload_variant (PWelcome _) = ''Welcome''"
| "payload_variant PPong = ''Pong''"
| "payload_variant (PEvent frame) = event_variant (ef_event frame)"
| "payload_variant (PPaneOpened _) = ''PaneOpened''"
| "payload_variant (PPaneList _) = ''PaneList''"
| "payload_variant (PDockerActionResult _) = ''DockerActionResult''"
| "payload_variant (PFleetActionResult _) = ''FleetActionResult''"
| "payload_variant (PAgentHandshake _) = ''AgentHandshake''"
| "payload_variant (PAgentHandshakeResponse _ _ _ _ _) = ''AgentHandshakeResponse''"
| "payload_variant (PError _) = ''Error''"

definition hex_byte :: "u8 \<Rightarrow> string" where
  "hex_byte b = [hex_digit (unat b div 16), hex_digit (unat b mod 16)]"

fun hex_dump :: "u8 list \<Rightarrow> string" where
  "hex_dump [] = []"
| "hex_dump [b] = hex_byte b"
| "hex_dump (b # bs) = hex_byte b @ '' '' @ hex_dump bs"

section \<open>Length prefix\<close>

text \<open>\<open>u32::to_be_bytes\<close> and \<open>u32::from_be_bytes\<close>.\<close>

definition byte_at :: "nat \<Rightarrow> u32 \<Rightarrow> u8" where
  "byte_at k n = word_of_nat (unat n div 2 ^ k)"

definition to_be_bytes :: "u32 \<Rightarrow> u8 list" where
  "to_be_bytes n = [byte_at 24 n, byte_at 16 n, byte_at 8 n, byte_at 0 n]"

definition from_be_bytes :: "u8 list \<Rightarrow> u32" where
  "from_be_bytes bs = word_of_nat (foldl (\<lambda>n b. 256 * n + unat b) 0 bs)"

lemma length_to_be_bytes [simp]: "length (to_be_bytes n) = 4"
  by (simp add: to_be_bytes_def)

lemma bytes_recombine:
  fixes n :: nat
  assumes "n < 2 ^ 32"
  shows "256 * (256 * (256 * (n div 2 ^ 24 mod 256) + n div 2 ^ 16 mod 256) + n div 2 ^ 8 mod 256)
           + n mod 256 = n"
proof -
  define a b c where "a = n div 256" and "b = a div 256" and "c = b div 256"
  have "n div 2 ^ 8 = a" "n div 2 ^ 16 = b" "n div 2 ^ 24 = c"
    by (simp_all add: a_def b_def c_def flip: div_mult2_eq)
  moreover have "c < 256"
    using assms by (simp add: a_def b_def c_def flip: div_mult2_eq)
  moreover have "n = 256 * a + n mod 256" "a = 256 * b + a mod 256" "b = 256 * c + b mod 256"
    by (simp_all add: a_def b_def c_def)
  ultimately show ?thesis
    by simp
qed

lemma unat_byte_at: "unat (byte_at k n) = unat n div 2 ^ k mod 256"
  by (simp only: byte_at_def unat_of_nat) simp

lemma foldl_to_be_bytes: "foldl (\<lambda>n b. 256 * n + unat b) 0 (to_be_bytes n) = unat n"
proof -
  have "unat n < 2 ^ 32"
    using unsigned_less [of n] by simp
  from bytes_recombine [OF this] show ?thesis
    by (simp only: to_be_bytes_def unat_byte_at foldl.simps mult_0_right add_0 power_0 div_by_1)
qed

lemma from_to_be_bytes [simp]: "from_be_bytes (to_be_bytes n) = n"
  by (simp add: from_be_bytes_def foldl_to_be_bytes)

section \<open>Writing and reading\<close>

record writer =
  wr_out :: "u8 list"
  wr_room :: "nat option"

definition write_all :: "u8 list \<Rightarrow> writer \<Rightarrow> (codec_error + unit) \<times> writer" where
  "write_all bs w =
     (case wr_room w of
        None \<Rightarrow> (Inr (), w\<lparr>wr_out := wr_out w @ bs\<rparr>)
      | Some n \<Rightarrow>
          if length bs \<le> n
          then (Inr (), w\<lparr>wr_out := wr_out w @ bs, wr_room := Some (n - length bs)\<rparr>)
          else (Inl WriteFailed, w\<lparr>wr_out := wr_out w @ take n bs, wr_room := Some 0\<rparr>))"

definition read_exact :: "nat \<Rightarrow> u8 list \<Rightarrow> (codec_error + u8 list) \<times> u8 list" where
  "read_exact n r =
     (if n \<le> length r then (Inr (take n r), drop n r) else (Inl UnexpectedEof, []))"

definition write_envelope ::
  "(envelope \<Rightarrow> u8 list option) \<Rightarrow> writer \<Rightarrow> envelope \<Rightarrow> (codec_error + unit) \<times> writer" where
  "write_envelope to_bytes w env =
     (case to_bytes env of
        None \<Rightarrow> (Inl SerializeFailed, w)
      | Some bs \<Rightarrow>
          if 2 ^ 32 \<le> length bs then (Inl (EnvelopeTooLarge (length bs)), w)
          else case write_all (to_be_bytes (word_of_nat (length bs))) w of
                 (Inl e, w1) \<Rightarrow> (Inl e, w1)
               | (Inr _, w1) \<Rightarrow> write_all bs w1)"

definition read_envelope ::
  "(u8 list \<Rightarrow> envelope option) \<Rightarrow> u8 list \<Rightarrow> (codec_error + envelope) \<times> u8 list" where
  "read_envelope from_bytes r =
     (case read_exact 4 r of
        (Inl e, r1) \<Rightarrow> (Inl e, r1)
      | (Inr len_buf, r1) \<Rightarrow>
          let len = from_be_bytes len_buf in
          if MAX_FRAME_SIZE < unat len then
            (case read_exact 32 r1 of
               (Inr peek, r2) \<Rightarrow> (Inl (FrameTooLarge len (hex_dump len_buf) (hex_dump peek)), r2)
             | (Inl _, r2) \<Rightarrow>
                 (Inl (FrameTooLarge len (hex_dump len_buf)
                    ''(failed to read next 32 bytes: early eof)''), r2))
          else
            (case read_exact (unat len) r1 of
               (Inl e, r2) \<Rightarrow> (Inl e, r2)
             | (Inr raw, r2) \<Rightarrow>
                 (case from_bytes raw of
                    None \<Rightarrow> (Inl DeserializeFailed, r2)
                  | Some env \<Rightarrow> (Inr env, r2))))"

text \<open>
  The reader task (\<open>spawn_reader_task\<close> of \<open>crates/tepegoz-tui/src/session.rs\<close>): read until the
  first error, hand every envelope on, then the error.
\<close>

lemma read_envelope_takes:
  "read_envelope fb r = (Inr env, r') \<Longrightarrow> length r' + 4 \<le> length r"
  by (auto simp: read_envelope_def read_exact_def Let_def split: if_splits option.splits)

lemma read_envelope_consumes:
  "read_envelope fb r = (Inr env, r') \<Longrightarrow> length r' < length r"
  using read_envelope_takes by fastforce

function reader_task ::
  "(u8 list \<Rightarrow> envelope option) \<Rightarrow> u8 list \<Rightarrow> (codec_error + envelope) list" where
  "reader_task fb r =
     (case read_envelope fb r of
        (Inr env, r') \<Rightarrow> Inr env # reader_task fb r'
      | (Inl e, _) \<Rightarrow> [Inl e])"
  by pat_completeness auto
termination
  by (relation "measure (\<lambda>(fb, r). length r)") (auto dest: read_envelope_consumes sym)

declare reader_task.simps [simp del]

text \<open>
  C37. The reader task ends on every stream, whatever its bytes and whatever they decode to: it hands on at
  most one envelope for four bytes, then exactly one error, and nothing after it.
\<close>

theorem reader_task_ends:
  "\<exists>envs e. reader_task fb r = map Inr envs @ [Inl e] \<and> 4 * length envs \<le> length r"
proof (induction fb r rule: reader_task.induct)
  case (1 fb r)
  obtain res r' where read: "read_envelope fb r = (res, r')" by fastforce
  show ?case
  proof (cases res)
    case (Inl e)
    then have "reader_task fb r = map Inr [] @ [Inl e]" by (simp add: reader_task.simps [of fb r] read)
    then show ?thesis by (intro exI [of _ "[]"] exI [of _ e]) simp
  next
    case (Inr env)
    from 1 [OF read [symmetric] Inr] obtain envs e
      where ih: "reader_task fb r' = map Inr envs @ [Inl e]" "4 * length envs \<le> length r'" by blast
    have "reader_task fb r = map Inr (env # envs) @ [Inl e]"
      by (simp add: reader_task.simps [of fb r] read Inr ih(1))
    moreover have "4 * length (env # envs) \<le> length r"
      using read_envelope_takes [of fb r env r'] read Inr ih(2) by simp
    ultimately show ?thesis by blast
  qed
qed

text \<open>The writer task: envelopes go out in the order they were queued, until the first failure.\<close>

fun writer_task :: "(envelope \<Rightarrow> u8 list option) \<Rightarrow> writer \<Rightarrow> envelope list \<Rightarrow> writer" where
  "writer_task tb w [] = w"
| "writer_task tb w (env # envs) =
     (case write_envelope tb w env of
        (Inr _, w1) \<Rightarrow> writer_task tb w1 envs
      | (Inl _, w1) \<Rightarrow> w1)"


section \<open>Round trips\<close>

text \<open>
  What the framing relies on from rkyv: a value that serialises comes back from its bytes.
\<close>

definition rkyv_roundtrip ::
  "(envelope \<Rightarrow> u8 list option) \<Rightarrow> (u8 list \<Rightarrow> envelope option) \<Rightarrow> bool" where
  "rkyv_roundtrip tb fb \<longleftrightarrow> (\<forall>env bs. tb env = Some bs \<longrightarrow> fb bs = Some env)"

text \<open>The frame of an envelope, and when its length is one the reader accepts.\<close>

definition frame_of :: "u8 list \<Rightarrow> u8 list" where
  "frame_of bs = to_be_bytes (word_of_nat (length bs)) @ bs"

definition framable :: "(envelope \<Rightarrow> u8 list option) \<Rightarrow> envelope \<Rightarrow> bool" where
  "framable tb env \<longleftrightarrow> (case tb env of None \<Rightarrow> False | Some bs \<Rightarrow> length bs \<le> MAX_FRAME_SIZE)"

lemma unat_length_u32: "n < 2 ^ 32 \<Longrightarrow> unat (word_of_nat n :: u32) = n"
  by (simp add: unat_of_nat)

lemma max_frame_fits: "n \<le> MAX_FRAME_SIZE \<Longrightarrow> n < 2 ^ 32"
  by (simp add: MAX_FRAME_SIZE_def)

lemma write_envelope_open:
  assumes "tb env = Some bs" and "length bs < 2 ^ 32" and "wr_room w = None"
  shows "write_envelope tb w env = (Inr (), w\<lparr>wr_out := wr_out w @ frame_of bs\<rparr>)"
  using assms by (simp add: write_envelope_def write_all_def frame_of_def)

lemma read_exact_append:
  "length xs = n \<Longrightarrow> read_exact n (xs @ r) = (Inr xs, r)"
  by (simp add: read_exact_def)

lemma read_envelope_frame:
  assumes "length bs \<le> MAX_FRAME_SIZE"
  shows "read_envelope fb (frame_of bs @ r) =
           (case fb bs of None \<Rightarrow> (Inl DeserializeFailed, r) | Some env \<Rightarrow> (Inr env, r))"
  using assms max_frame_fits [OF assms]
  by (simp add: read_envelope_def frame_of_def read_exact_append unat_length_u32)

lemma read_envelope_oversize:
  assumes "MAX_FRAME_SIZE < length bs" and "length bs < 2 ^ 32"
  shows "\<exists>m1 m2 r'. read_envelope fb (frame_of bs @ r) =
           (Inl (FrameTooLarge (word_of_nat (length bs)) m1 m2), r')"
  using assms
  by (auto simp: read_envelope_def frame_of_def read_exact_append unat_length_u32 Let_def
      split: sum.splits prod.splits)

definition frames :: "(envelope \<Rightarrow> u8 list option) \<Rightarrow> envelope list \<Rightarrow> u8 list" where
  "frames tb envs = concat (map (\<lambda>env. frame_of (the (tb env))) envs)"

lemma writer_task_open:
  "list_all (framable tb) envs \<Longrightarrow> wr_room w = None \<Longrightarrow>
     writer_task tb w envs = w\<lparr>wr_out := wr_out w @ frames tb envs\<rparr>"
proof (induction envs arbitrary: w)
  case Nil
  then show ?case by (simp add: frames_def)
next
  case (Cons env envs)
  from Cons.prems obtain bs where bs: "tb env = Some bs" "length bs \<le> MAX_FRAME_SIZE"
    by (auto simp: framable_def split: option.splits)
  with Cons show ?case
    using write_envelope_open [of tb env bs w] max_frame_fits [of "length bs"]
    by (simp add: frames_def)
qed

lemma reader_task_frames:
  assumes "rkyv_roundtrip tb fb"
  shows "list_all (framable tb) envs \<Longrightarrow>
     reader_task fb (frames tb envs @ r) = map Inr envs @ reader_task fb r"
proof (induction envs)
  case Nil
  then show ?case by (simp add: frames_def)
next
  case (Cons env envs)
  from Cons.prems obtain bs where bs: "tb env = Some bs" "length bs \<le> MAX_FRAME_SIZE"
    by (auto simp: framable_def split: option.splits)
  then have "read_envelope fb (frames tb (env # envs) @ r) = (Inr env, frames tb envs @ r)"
    using assms by (simp add: frames_def read_envelope_frame rkyv_roundtrip_def)
  then show ?case
    using Cons by (subst reader_task.simps) simp
qed

lemma reader_task_eof: "reader_task fb [] = [Inl UnexpectedEof]"
  by (subst reader_task.simps) (simp add: read_envelope_def read_exact_def)

text \<open>A torn frame (a strict prefix) is an end of file or nothing at all, never an envelope.\<close>

lemma read_envelope_torn:
  assumes "length bs \<le> MAX_FRAME_SIZE" and "strict_prefix r (frame_of bs)"
  shows "fst (read_envelope fb r) = Inl UnexpectedEof"
proof -
  from assms(2) obtain t where t: "frame_of bs = r @ t" "t \<noteq> []"
    by (auto elim: strict_prefixE')
  show ?thesis
  proof (cases "length r < 4")
    case True
    then show ?thesis by (simp add: read_envelope_def read_exact_def)
  next
    case False
    define u where "u = drop 4 r"
    have r: "r = take 4 r @ u" and len: "length (take 4 r) = 4"
      using False by (simp_all add: u_def)
    have "to_be_bytes (word_of_nat (length bs)) @ bs = take 4 r @ (u @ t)"
      using t(1) r by (metis append.assoc frame_of_def)
    then have eqs: "to_be_bytes (word_of_nat (length bs)) = take 4 r \<and> bs = u @ t"
      by (subst (asm) append_eq_append_conv) (use len in auto)
    then have "length u < length bs"
      using t(2) by simp
    moreover have "from_be_bytes (take 4 r) = word_of_nat (length bs)"
      by (simp only: from_to_be_bytes flip: conjunct1 [OF eqs])
    ultimately show ?thesis
      using False assms(1) max_frame_fits [OF assms(1)]
      by (simp add: read_envelope_def read_exact_def u_def unat_length_u32)
  qed
qed

section \<open>Streams\<close>

lemma write_envelope_room:
  assumes "tb env = Some bs" "length bs < 2 ^ 32" "wr_room w = Some n"
  shows "length (frame_of bs) \<le> n \<Longrightarrow> write_envelope tb w env =
      (Inr (), w\<lparr>wr_out := wr_out w @ frame_of bs, wr_room := Some (n - length (frame_of bs))\<rparr>)"
    and "n < length (frame_of bs) \<Longrightarrow> \<exists>e. write_envelope tb w env =
      (Inl e, w\<lparr>wr_out := wr_out w @ take n (frame_of bs), wr_room := Some 0\<rparr>)"
  using assms by (auto simp: write_envelope_def write_all_def frame_of_def)

lemma writer_task_room:
  "list_all (framable tb) envs \<Longrightarrow> wr_room w = Some n \<Longrightarrow>
     wr_out (writer_task tb w envs) = wr_out w @ take n (frames tb envs)"
proof (induction envs arbitrary: w n)
  case (Cons env envs)
  from Cons.prems obtain bs where bs: "tb env = Some bs" "length bs \<le> MAX_FRAME_SIZE"
    by (auto simp: framable_def split: option.splits)
  note w = write_envelope_room [of tb env bs w n, OF bs(1) max_frame_fits [OF bs(2)] Cons.prems(2)]
  show ?case
  proof (cases "length (frame_of bs) \<le> n")
    case True
    then show ?thesis using Cons w(1) bs(1) by (simp add: frames_def)
  next
    case False
    then obtain e where "write_envelope tb w env =
        (Inl e, w\<lparr>wr_out := wr_out w @ take n (frame_of bs), wr_room := Some 0\<rparr>)"
      using w(2) by auto
    then show ?thesis using False bs(1) by (simp add: frames_def)
  qed
qed (simp add: frames_def)

lemma reader_task_cut:
  assumes "rkyv_roundtrip tb fb" "list_all (framable tb) envs"
  shows "\<exists>k \<le> length envs. reader_task fb (take n (frames tb envs)) =
      map Inr (take k envs) @ [Inl UnexpectedEof] \<and>
    (\<forall>j \<le> length envs. length (frames tb (take j envs)) \<le> n \<longrightarrow> j \<le> k)"
  using assms(2)
proof (induction envs arbitrary: n)
  case Nil
  then show ?case by (simp add: frames_def reader_task_eof)
next
  case (Cons env envs)
  from Cons.prems obtain bs where bs: "tb env = Some bs" "length bs \<le> MAX_FRAME_SIZE"
    by (auto simp: framable_def split: option.splits)
  have fr: "frames tb (env # es) = frame_of bs @ frames tb es" for es
    using bs(1) by (simp add: frames_def)
  show ?case
  proof (cases "length (frame_of bs) \<le> n")
    case True
    let ?m = "n - length (frame_of bs)"
    obtain k where k: "k \<le> length envs"
      "reader_task fb (take ?m (frames tb envs)) = map Inr (take k envs) @ [Inl UnexpectedEof]"
      "\<forall>j \<le> length envs. length (frames tb (take j envs)) \<le> ?m \<longrightarrow> j \<le> k"
      using Cons.IH [of ?m] Cons.prems by auto
    have "reader_task fb (take n (frames tb (env # envs))) =
        Inr env # reader_task fb (take ?m (frames tb envs))"
      using True bs assms(1)
      by (subst reader_task.simps) (simp add: fr read_envelope_frame rkyv_roundtrip_def)
    moreover have "j \<le> Suc k"
      if "j \<le> length (env # envs)" "length (frames tb (take j (env # envs))) \<le> n" for j
      using that k(3) True by (cases j) (auto simp: fr)
    ultimately show ?thesis
      using k by (intro exI [of _ "Suc k"]) auto
  next
    case False
    then have "strict_prefix (take n (frame_of bs)) (frame_of bs)"
      by (auto simp: strict_prefix_def take_is_prefix dest: arg_cong [of _ _ length])
    then have "fst (read_envelope fb (take n (frame_of bs))) = Inl UnexpectedEof"
      by (rule read_envelope_torn [OF bs(2)])
    then have "reader_task fb (take n (frame_of bs)) = [Inl UnexpectedEof]"
      by (subst reader_task.simps) (auto split: prod.splits sum.splits)
    moreover have "j = 0"
      if "j \<le> length (env # envs)" "length (frames tb (take j (env # envs))) \<le> n" for j
      using that False by (cases j) (auto simp: fr)
    ultimately show ?thesis
      using False by (intro exI [of _ 0]) (auto simp: fr)
  qed
qed


text \<open>A serialiser of pings: the bytes are the protocol version.\<close>

definition ping_bytes :: "envelope \<Rightarrow> u8 list option" where
  "ping_bytes env = (if en_payload env = PPing then Some (to_be_bytes (en_version env)) else None)"

definition ping_of :: "u8 list \<Rightarrow> envelope option" where
  "ping_of bs = (if length bs = 4 then Some \<lparr>en_version = from_be_bytes bs, en_payload = PPing\<rparr> else None)"

lemma ping_roundtrip: "rkyv_roundtrip ping_bytes ping_of"
  by (auto simp: rkyv_roundtrip_def ping_bytes_def ping_of_def)


text \<open>
  The limit on the frame length is the reader's alone: an envelope of more than 16 MiB is written
  without an error, and the peer's reader rejects the frame and ends, so that nothing queued behind it
  arrives.
\<close>

theorem oversized_frame_ends_stream:
  assumes "tb env = Some bs" "MAX_FRAME_SIZE < length bs" "length bs < 2 ^ 32"
  shows "fst (write_envelope tb \<lparr>wr_out = [], wr_room = None\<rparr> env) = Inr () \<and>
    (\<exists>m1 m2. reader_task fb (wr_out (snd (write_envelope tb \<lparr>wr_out = [], wr_room = None\<rparr> env)) @ later) =
       [Inl (FrameTooLarge (word_of_nat (length bs)) m1 m2)])"
proof -
  obtain m1 m2 r' where "read_envelope fb (frame_of bs @ later) =
      (Inl (FrameTooLarge (word_of_nat (length bs)) m1 m2), r')"
    using read_envelope_oversize [OF assms(2,3)] by blast
  then have "reader_task fb (frame_of bs @ later) = [Inl (FrameTooLarge (word_of_nat (length bs)) m1 m2)]"
    by (subst reader_task.simps) simp
  then show ?thesis
    using write_envelope_open [of tb env bs "\<lparr>wr_out = [], wr_room = None\<rparr>"] assms by auto
qed

theorem oversized_frame_ends_stream_witness:
  "\<exists>tb m1 m2. tb \<lparr>en_version = 10, en_payload = PPing\<rparr> = Some (replicate (MAX_FRAME_SIZE + 1) 0) \<and>
     reader_task ping_of
       (wr_out (snd (write_envelope tb \<lparr>wr_out = [], wr_room = None\<rparr> \<lparr>en_version = 10, en_payload = PPing\<rparr>)) @ [])
     = [Inl (FrameTooLarge (word_of_nat (MAX_FRAME_SIZE + 1)) m1 m2)]"
proof -
  let ?tb = "\<lambda>env :: envelope. Some (replicate (MAX_FRAME_SIZE + 1) (0 :: u8))"
  have "MAX_FRAME_SIZE < length (replicate (MAX_FRAME_SIZE + 1) (0 :: u8))"
    "length (replicate (MAX_FRAME_SIZE + 1) (0 :: u8)) < 2 ^ 32"
    by (simp_all add: MAX_FRAME_SIZE_def del: replicate.simps replicate_Suc)
  from oversized_frame_ends_stream [of ?tb, OF refl this]
  obtain m1 m2 where "reader_task ping_of
       (wr_out (snd (write_envelope ?tb \<lparr>wr_out = [], wr_room = None\<rparr> \<lparr>en_version = 10, en_payload = PPing\<rparr>)) @ [])
     = [Inl (FrameTooLarge (word_of_nat (length (replicate (MAX_FRAME_SIZE + 1) (0 :: u8)))) m1 m2)]"
    by blast
  then show ?thesis
    unfolding length_replicate by (intro exI [of _ ?tb] exI [of _ m1] exI [of _ m2]) (rule conjI [OF refl])
qed

text \<open>A serialiser for the witnesses: it knows the envelopes of one list, by their position.\<close>

definition index_bytes :: "envelope list \<Rightarrow> envelope \<Rightarrow> u8 list option" where
  "index_bytes known env = map_option (\<lambda>i. replicate i 0) (position (\<lambda>e. e = env) known)"

definition index_of :: "envelope list \<Rightarrow> u8 list \<Rightarrow> envelope option" where
  "index_of known bs = nth_opt known (length bs)"

lemma index_roundtrip: "rkyv_roundtrip (index_bytes known) (index_of known)"
  by (auto simp: rkyv_roundtrip_def index_bytes_def index_of_def dest!: position_Some)

lemma index_framable:
  "env \<in> set known \<Longrightarrow> length known \<le> MAX_FRAME_SIZE \<Longrightarrow> framable (index_bytes known) env"
  by (cases "position (\<lambda>e. e = env) known")
    (auto simp: framable_def index_bytes_def position_None dest!: position_Some)

end
