(* ===== verification/Runtime.thy ===== *)
theory Runtime
  imports App Codec
begin

text \<open>
  The I/O runtime around the state machine (\<open>crates/tepegoz-tui/src/session.rs\<close>): the handshake and
  the first pane over the framed socket, the turn of the event loop that splits a chunk of keyboard
  input into mouse events and text, and the execution of the actions. \<open>select!\<close> and the scheduling of
  the tasks are the environment: a turn is given the one branch that became ready.
\<close>

section \<open>Start-up\<close>

datatype startup_error =
  SeCodec codec_error
| SeRefused error_info
| SeUnexpected payload

definition send_payload :: "(envelope \<Rightarrow> u8 list option) \<Rightarrow> writer \<Rightarrow> payload \<Rightarrow> (startup_error + unit) \<times> writer" where
  "send_payload tb w p =
     (case write_envelope tb w (mk_envelope p) of
        (Inl e, w1) \<Rightarrow> (Inl (SeCodec e), w1)
      | (Inr _, w1) \<Rightarrow> (Inr (), w1))"

definition handshake ::
  "(envelope \<Rightarrow> u8 list option) \<Rightarrow> (u8 list \<Rightarrow> envelope option) \<Rightarrow> u8 list \<Rightarrow> writer \<Rightarrow>
     (startup_error + welcome_info) \<times> u8 list \<times> writer" where
  "handshake tb fb r w =
     (case send_payload tb w (PHello \<lparr>he_client_version = PROTOCOL_VERSION, he_client_name = ''tepegoz-tui''\<rparr>) of
        (Inl e, w1) \<Rightarrow> (Inl e, r, w1)
      | (Inr _, w1) \<Rightarrow>
          (case read_envelope fb r of
             (Inl e, r1) \<Rightarrow> (Inl (SeCodec e), r1, w1)
           | (Inr env, r1) \<Rightarrow>
               (case en_payload env of
                  PWelcome wi \<Rightarrow> (Inr wi, r1, w1)
                | PError e \<Rightarrow> (Inl (SeRefused e), r1, w1)
                | other \<Rightarrow> (Inl (SeUnexpected other), r1, w1))))"

definition open_first_pane ::
  "(envelope \<Rightarrow> u8 list option) \<Rightarrow> (u8 list \<Rightarrow> envelope option) \<Rightarrow> string option \<Rightarrow> u16 \<Rightarrow> u16 \<Rightarrow> pane_target \<Rightarrow>
     u8 list \<Rightarrow> writer \<Rightarrow> (startup_error + pane_info) \<times> u8 list \<times> writer" where
  "open_first_pane tb fb cwd rows cols target r w =
     (case send_payload tb w (POpenPane \<lparr>ops_shell = None, ops_cwd = cwd, ops_env = [], ops_rows = rows,
          ops_cols = cols, ops_target = target\<rparr>) of
        (Inl e, w1) \<Rightarrow> (Inl e, r, w1)
      | (Inr _, w1) \<Rightarrow>
          (case read_envelope fb r of
             (Inl e, r1) \<Rightarrow> (Inl (SeCodec e), r1, w1)
           | (Inr env, r1) \<Rightarrow>
               (case en_payload env of
                  PPaneOpened info \<Rightarrow> (Inr info, r1, w1)
                | PError e \<Rightarrow> (Inl (SeRefused e), r1, w1)
                | other \<Rightarrow> (Inl (SeUnexpected other), r1, w1))))"

definition ensure_pane ::
  "(envelope \<Rightarrow> u8 list option) \<Rightarrow> (u8 list \<Rightarrow> envelope option) \<Rightarrow> string option \<Rightarrow> u16 \<Rightarrow> u16 \<Rightarrow> pane_target \<Rightarrow>
     bool \<Rightarrow> u8 list \<Rightarrow> writer \<Rightarrow> (startup_error + pane_info) \<times> u8 list \<times> writer" where
  "ensure_pane tb fb cwd rows cols target reuse_alive r w =
     (if \<not> reuse_alive then open_first_pane tb fb cwd rows cols target r w
      else
        case send_payload tb w PListPanes of
          (Inl e, w1) \<Rightarrow> (Inl e, r, w1)
        | (Inr _, w1) \<Rightarrow>
            (case read_envelope fb r of
               (Inl e, r1) \<Rightarrow> (Inl (SeCodec e), r1, w1)
             | (Inr env, r1) \<Rightarrow>
                 (case en_payload env of
                    PPaneList panes \<Rightarrow>
                      (case List.find pi_alive panes of
                         Some info \<Rightarrow> (Inr info, r1, w1)
                       | None \<Rightarrow> open_first_pane tb fb cwd rows cols target r1 w1)
                  | other \<Rightarrow> (Inl (SeUnexpected other), r1, w1))))"

section \<open>The event loop\<close>

datatype exit_reason =
  ErUserDetach
| ErPaneExited "i32 option"
| ErDaemonClosed string
| ErDaemonError string
| ErStdinClosed
| ErStdinError string
| ErAppError string

text \<open>What executing actions meets: an open writer channel, and a terminal that draws or an error.\<close>

record io =
  io_writer_open :: bool
  io_draw_error :: "string option"

text \<open>\<open>dispatch\<close>: the envelopes queued for the daemon, and why the loop ends, if it does.\<close>

fun dispatch :: "io \<Rightarrow> app_action list \<Rightarrow> envelope list \<times> exit_reason option" where
  "dispatch io [] = ([], None)"
| "dispatch io (SendEnvelope env # as) =
     (if io_writer_open io then (case dispatch io as of (es, r) \<Rightarrow> (env # es, r))
      else ([], Some (ErDaemonError ''writer closed'')))"
| "dispatch io (DrawFrame # as) =
     (case io_draw_error io of
        Some e \<Rightarrow> ([], Some (ErAppError (''ratatui draw: '' @ e)))
      | None \<Rightarrow> dispatch io as)"
| "dispatch io (DetachApp DrUser # as) = ([], Some ErUserDetach)"
| "dispatch io (DetachApp (DrPaneExited c) # as) = ([], Some (ErPaneExited c))"
| "dispatch io (FocusTile i # as) = dispatch io as"
| "dispatch io (ShowToast k m # as) = dispatch io as"

text \<open>The branch of \<open>select!\<close> that became ready.\<close>

datatype runtime_input =
  RiStdin "u8 list"
| RiStdinError string
| RiInbox "(string + envelope) option"
| RiWinch u16 u16 \<comment> \<open>rows, cols\<close>
| RiTick

fun mouse_app_event :: "mouse_event \<Rightarrow> app_event" where
  "mouse_app_event (MouseClick x y) = AeMouseClick x y"
| "mouse_app_event (MouseHover x y) = AeMouseHover x y"

record 'p runtime =
  rn_app :: "'p app"
  rn_mouse :: mouse_state

text \<open>The events of one turn: of a chunk, the mouse events first, then the text that is left.\<close>

definition stdin_events :: "mouse_state \<Rightarrow> u8 list \<Rightarrow> mouse_state \<times> app_event list" where
  "stdin_events st bytes =
     (case mouse_parse st bytes of (st', rest, mouse_events) \<Rightarrow>
        (st', map mouse_app_event mouse_events @ (if rest \<noteq> [] then [AeStdinChunk rest] else [])))"

fun turn_events :: "mouse_state \<Rightarrow> runtime_input \<Rightarrow> exit_reason + (mouse_state \<times> app_event list)" where
  "turn_events st (RiStdin bytes) = (if bytes = [] then Inl ErStdinClosed else Inr (stdin_events st bytes))"
| "turn_events st (RiStdinError e) = Inl (ErStdinError e)"
| "turn_events st (RiInbox (Some (Inr env))) = Inr (st, [AeDaemonEnvelope env])"
| "turn_events st (RiInbox (Some (Inl e))) = Inl (ErDaemonClosed e)"
| "turn_events st (RiInbox None) = Inl (ErDaemonClosed ''reader task ended'')"
| "turn_events st (RiWinch rows cols) = Inr (st, [AeResize rows cols])"
| "turn_events st RiTick = Inr (st, [AeTick])"

fun handle_all :: "'p rt \<Rightarrow> instant \<Rightarrow> io \<Rightarrow> app_event list \<Rightarrow> 'p app \<Rightarrow>
    panic + ('p app \<times> envelope list \<times> exit_reason option)" where
  "handle_all rt now io [] a = Inr (a, [], None)"
| "handle_all rt now io (e # es) a =
     and_then (handle_event rt now e a) (\<lambda>(a1, acts).
       case dispatch io acts of
         (sent, Some r) \<Rightarrow> Inr (a1, sent, Some r)
       | (sent, None) \<Rightarrow>
           and_then (handle_all rt now io es a1) (\<lambda>(a2, sent2, r). Inr (a2, sent @ sent2, r)))"

definition runtime_turn :: "'p rt \<Rightarrow> instant \<Rightarrow> io \<Rightarrow> runtime_input \<Rightarrow> 'p runtime \<Rightarrow>
    panic + ('p runtime \<times> envelope list \<times> exit_reason option)" where
  "runtime_turn rt now io i s =
     (case turn_events (rn_mouse s) i of
        Inl r \<Rightarrow> Inr (s, [], Some r)
      | Inr (st, events) \<Rightarrow>
          and_then (handle_all rt now io events (rn_app s)) (\<lambda>(a, sent, r).
            Inr (\<lparr>rn_app = a, rn_mouse = st\<rparr>, sent, r)))"

definition runtime_start :: "'p rt \<Rightarrow> io \<Rightarrow> pane_info \<Rightarrow> u16 \<times> u16 \<Rightarrow>
    panic + ('p runtime \<times> envelope list \<times> exit_reason option)" where
  "runtime_start rt io info dims =
     (let a = app_new rt (pi_id info) (pi_shell info) dims
      in and_then (initial_actions a) (\<lambda>acts.
           case dispatch io acts of (sent, r) \<Rightarrow> Inr (\<lparr>rn_app = a, rn_mouse = MIdle\<rparr>, sent, r)))"

section \<open>Facts\<close>

definition open_io :: io where
  "open_io = \<lparr>io_writer_open = True, io_draw_error = None\<rparr>"

fun envelopes_of :: "app_action list \<Rightarrow> envelope list" where
  "envelopes_of [] = []"
| "envelopes_of (SendEnvelope env # as) = env # envelopes_of as"
| "envelopes_of (_ # as) = envelopes_of as"

lemma dispatch_open:
  "(\<forall>r. DetachApp r \<notin> set acts) \<Longrightarrow> dispatch open_io acts = (envelopes_of acts, None)"
  by (induction acts rule: envelopes_of.induct) (auto simp: open_io_def)

end
