(* ===== verification/Pty.thy ===== *)
theory Pty
  imports Proto "HOL-Library.Sublist"
begin

text \<open>
  Daemon-owned pseudo terminals: the pane, its bounded scrollback and its reader and waiter threads
  (\<open>crates/tepegoz-pty/src/lib.rs\<close>), and the task that forwards a pane to one subscriber
  (\<open>forward_pane\<close> of \<open>crates/tepegoz-core/src/client.rs\<close>). Threads interleave as the steps of a
  relation; one step is what runs under one lock. The broadcast channel is third-party code
  (\<open>tokio\<close>): it is a parameter, and \<open>broadcast_laws\<close> states what the code relies on.
\<close>

definition DEFAULT_RING_CAPACITY :: nat where
  "DEFAULT_RING_CAPACITY = 2 * 1024 * 1024"

definition READ_BUF :: nat where "READ_BUF = 8192"

datatype pane_update = PuBytes "u8 list" | PuExit "i32 option"

section \<open>The scrollback\<close>

record scrollback =
  sb_chunks :: "u8 list list"
  sb_total_bytes :: nat
  sb_capacity :: nat

definition scrollback_new :: "nat \<Rightarrow> scrollback" where
  "scrollback_new capacity = \<lparr>sb_chunks = [], sb_total_bytes = 0, sb_capacity = capacity\<rparr>"

text \<open>The loop that drops chunks from the front while the tot is above the capacity.\<close>

fun evict :: "nat \<Rightarrow> u8 list list \<Rightarrow> nat \<Rightarrow> u8 list list \<times> nat" where
  "evict capacity [] tot = ([], tot)"
| "evict capacity (dropped # chunks) tot =
     (if capacity < tot then evict capacity chunks (tot - length dropped)
      else (dropped # chunks, tot))"

definition scrollback_append :: "u8 list \<Rightarrow> scrollback \<Rightarrow> scrollback" where
  "scrollback_append bytes sb =
     (if bytes = [] then sb
      else
        let tot = sb_total_bytes sb + length bytes;
            chunks = sb_chunks sb @ [bytes];
            (chunks', tot') = evict (sb_capacity sb) chunks tot
        in sb\<lparr>sb_chunks := chunks', sb_total_bytes := tot'\<rparr>)"

definition snapshot :: "scrollback \<Rightarrow> u8 list" where
  "snapshot sb = (if sb_chunks sb = [] then [] else concat (sb_chunks sb))"

lemma snapshot_concat [simp]: "snapshot sb = concat (sb_chunks sb)"
  by (simp add: snapshot_def)

definition sb_inv :: "scrollback \<Rightarrow> bool" where
  "sb_inv sb \<longleftrightarrow> sb_total_bytes sb = length (concat (sb_chunks sb)) \<and>
     sb_total_bytes sb \<le> sb_capacity sb \<and> [] \<notin> set (sb_chunks sb)"

text \<open>What is left after dropping whole chunks until the rest fits.\<close>

fun fitting :: "nat \<Rightarrow> u8 list list \<Rightarrow> u8 list list" where
  "fitting capacity [] = []"
| "fitting capacity (c # cs) =
     (if length (concat (c # cs)) \<le> capacity then c # cs else fitting capacity cs)"

lemma evict_fitting:
  "tot = length (concat cs) \<Longrightarrow> evict cap cs tot = (fitting cap cs, length (concat (fitting cap cs)))"
  by (induction cs arbitrary: tot) auto

lemma fitting_bound: "length (concat (fitting cap cs)) \<le> cap"
  by (induction cs) auto

lemma fitting_suffix: "suffix (fitting cap cs) cs"
  by (induction cs) (auto intro: suffix_ConsI)

lemma fitting_all: "length (concat cs) \<le> cap \<Longrightarrow> fitting cap cs = cs"
  by (cases cs) auto

lemma fitting_longest:
  "suffix ds cs \<Longrightarrow> length (concat ds) \<le> cap \<Longrightarrow> suffix ds (fitting cap cs)"
  by (induction cs) (auto simp: suffix_Cons)

lemma fitting_snoc: "fitting cap (fitting cap cs @ [c]) = fitting cap (cs @ [c])"
  by (induction cs) auto

lemma scrollback_append_inv [inv_intros]: "sb_inv sb \<Longrightarrow> sb_inv (scrollback_append bs sb)"
proof -
  assume i: "sb_inv sb"
  have "set (fitting (sb_capacity sb) (sb_chunks sb @ [bs])) \<subseteq> set (sb_chunks sb @ [bs])"
    using fitting_suffix set_mono_suffix by blast
  then show ?thesis
    using i fitting_bound [of "sb_capacity sb" "sb_chunks sb @ [bs]"]
    by (auto simp: sb_inv_def scrollback_append_def evict_fitting)
qed

interpretation scrollback_run: event_machine scrollback_append sb_inv
  by unfold_locales (rule scrollback_append_inv)

lemma scrollback_append_capacity [simp]: "sb_capacity (scrollback_append bs sb) = sb_capacity sb"
  by (auto simp: scrollback_append_def split: prod.splits)

lemma scrollback_append_chunks:
  "sb_inv sb \<Longrightarrow> sb_chunks (scrollback_append bs sb) =
     (if bs = [] then sb_chunks sb else fitting (sb_capacity sb) (sb_chunks sb @ [bs]))"
  by (simp add: sb_inv_def scrollback_append_def evict_fitting)

lemma sb_new_inv [simp]: "sb_inv (scrollback_new cap)"
  by (simp add: sb_inv_def scrollback_new_def)

lemma scrollback_fold:
  "sb_inv sb \<Longrightarrow> sb_chunks sb = fitting (sb_capacity sb) old \<Longrightarrow>
     sb_chunks (fold scrollback_append cs sb) =
       fitting (sb_capacity sb) (old @ filter (\<lambda>c. c \<noteq> []) cs)"
proof (induction cs arbitrary: sb old)
  case (Cons c cs)
  show ?case
  proof (cases "c = []")
    case True
    then show ?thesis using Cons by (simp add: scrollback_append_def)
  next
    case False
    then have "sb_chunks (scrollback_append c sb) = fitting (sb_capacity sb) (old @ [c])"
      using Cons.prems by (simp add: scrollback_append_chunks fitting_snoc)
    then show ?thesis
      using Cons.IH [OF scrollback_append_inv [OF Cons.prems(1), of c], of "old @ [c]"] False by simp
  qed
qed simp

lemma scrollback_history:
  "sb_chunks (fold scrollback_append cs (scrollback_new cap)) = fitting cap (filter (\<lambda>c. c \<noteq> []) cs)"
  using scrollback_fold [of "scrollback_new cap" "[]" cs] by (simp add: scrollback_new_def sb_inv_def)

section \<open>Panes and their threads\<close>

record 'c pane =
  pn_id :: pane_id
  pn_created_at_unix_millis :: u64
  pn_shell :: string
  pn_size :: "u16 \<times> u16"
  pn_output_tx :: 'c
  pn_scrollback :: scrollback
  pn_exit_code :: "i32 option"
  pn_alive :: bool

definition pane_info_of :: "'c pane \<Rightarrow> pane_info" where
  "pane_info_of p = \<lparr>pi_id = pn_id p, pi_created_at_unix_millis = pn_created_at_unix_millis p,
     pi_rows = fst (pn_size p), pi_cols = snd (pn_size p), pi_shell = pn_shell p,
     pi_alive = pn_alive p\<rparr>"

text \<open>Under the scrollback lock: the snapshot and a receiver of everything sent from now on.\<close>

definition pane_subscribe :: "('c \<Rightarrow> 'r) \<Rightarrow> 'c pane \<Rightarrow> u8 list \<times> 'r" where
  "pane_subscribe chan_subscribe p = (snapshot (pn_scrollback p), chan_subscribe (pn_output_tx p))"

definition pane_resize :: "bool \<Rightarrow> u16 \<Rightarrow> u16 \<Rightarrow> 'c pane \<Rightarrow> 'c pane option" where
  "pane_resize master_ok rows cols p = (if master_ok then Some (p\<lparr>pn_size := (rows, cols)\<rparr>) else None)"

text \<open>One turn of the reader loop that read \<open>bytes\<close>: append and send, under the scrollback lock.\<close>

definition reader_publish :: "('c \<Rightarrow> pane_update \<Rightarrow> 'c) \<Rightarrow> u8 list \<Rightarrow> 'c pane \<Rightarrow> 'c pane" where
  "reader_publish chan_send bytes p =
     p\<lparr>pn_scrollback := scrollback_append bytes (pn_scrollback p),
       pn_output_tx := chan_send (pn_output_tx p) (PuBytes bytes)\<rparr>"

text \<open>
  Where the waiter thread stands: waiting for the child, then three statements, each under a lock of
  its own: the exit code, the alive flag, the \<open>Exit\<close> message.
\<close>

datatype waiter_pc = WWait | WSetCode "i32 option" | WSetAlive "i32 option" | WSend "i32 option" | WDone

text \<open>\<open>status.exit_code().try_into().ok()\<close>, or \<open>None\<close> when \<open>wait\<close> failed.\<close>

definition wait_code :: "u32 option \<Rightarrow> i32 option" where
  "wait_code r = (case r of Some c \<Rightarrow> if unat c < 2 ^ 31 then Some c else None | None \<Rightarrow> None)"

record 'c pane_sys =
  sy_pane :: "'c pane"
  sy_reading :: bool
  sy_waiter :: waiter_pc

datatype pane_label =
  LRead "u8 list" \<comment> \<open>the reader got bytes\<close>
| LInterrupted
| LReadEnd \<comment> \<open>end of file or an error\<close>
| LWaited "u32 option"
| LWaiter \<comment> \<open>the waiter's next statement\<close>
| LResize u16 u16

inductive pane_step ::
  "('c \<Rightarrow> pane_update \<Rightarrow> 'c) \<Rightarrow> 'c pane_sys \<Rightarrow> pane_label \<Rightarrow> 'c pane_sys \<Rightarrow> bool"
  for chan_send :: "'c \<Rightarrow> pane_update \<Rightarrow> 'c"
where
  ps_read: "sy_reading s \<Longrightarrow> bytes \<noteq> [] \<Longrightarrow> length bytes \<le> READ_BUF \<Longrightarrow>
    pane_step chan_send s (LRead bytes) (s\<lparr>sy_pane := reader_publish chan_send bytes (sy_pane s)\<rparr>)"
| ps_interrupted: "sy_reading s \<Longrightarrow> pane_step chan_send s LInterrupted s"
| ps_read_end: "sy_reading s \<Longrightarrow> pane_step chan_send s LReadEnd (s\<lparr>sy_reading := False\<rparr>)"
| ps_waited: "sy_waiter s = WWait \<Longrightarrow>
    pane_step chan_send s (LWaited r) (s\<lparr>sy_waiter := WSetCode (wait_code r)\<rparr>)"
| ps_set_code: "sy_waiter s = WSetCode c \<Longrightarrow>
    pane_step chan_send s LWaiter
      (s\<lparr>sy_pane := (sy_pane s)\<lparr>pn_exit_code := c\<rparr>, sy_waiter := WSetAlive c\<rparr>)"
| ps_set_alive: "sy_waiter s = WSetAlive c \<Longrightarrow>
    pane_step chan_send s LWaiter
      (s\<lparr>sy_pane := (sy_pane s)\<lparr>pn_alive := False\<rparr>, sy_waiter := WSend c\<rparr>)"
| ps_send: "sy_waiter s = WSend c \<Longrightarrow>
    pane_step chan_send s LWaiter
      (s\<lparr>sy_pane := (sy_pane s)\<lparr>pn_output_tx := chan_send (pn_output_tx (sy_pane s)) (PuExit c)\<rparr>,
         sy_waiter := WDone\<rparr>)"
| ps_resize: "pane_resize True rows cols (sy_pane s) = Some p \<Longrightarrow>
    pane_step chan_send s (LResize rows cols) (s\<lparr>sy_pane := p\<rparr>)"

inductive_cases pane_stepE: "pane_step chan_send s l s'"

inductive pane_run ::
  "('c \<Rightarrow> pane_update \<Rightarrow> 'c) \<Rightarrow> 'c pane_sys \<Rightarrow> pane_label list \<Rightarrow> 'c pane_sys \<Rightarrow> bool"
  for chan_send :: "'c \<Rightarrow> pane_update \<Rightarrow> 'c"
where
  pr_nil: "pane_run chan_send s [] s"
| pr_snoc: "pane_run chan_send s ls s1 \<Longrightarrow> pane_step chan_send s1 l s2 \<Longrightarrow>
    pane_run chan_send s (ls @ [l]) s2"

text \<open>The threads of a pane that has just been opened.\<close>

definition pane_sys_new :: "'c \<Rightarrow> pane_id \<Rightarrow> u64 \<Rightarrow> string \<Rightarrow> u16 \<times> u16 \<Rightarrow> 'c pane_sys" where
  "pane_sys_new tx i created shell dims =
     \<lparr>sy_pane = \<lparr>pn_id = i, pn_created_at_unix_millis = created, pn_shell = shell, pn_size = dims,
        pn_output_tx = tx, pn_scrollback = scrollback_new DEFAULT_RING_CAPACITY,
        pn_exit_code = None, pn_alive = True\<rparr>,
      sy_reading = True, sy_waiter = WWait\<rparr>"

section \<open>What a subscriber sees\<close>

text \<open>
  What the code needs of the broadcast channel: a receiver gets, in order, every value sent after
  it subscribed. (A receiver that falls behind by more than the channel holds gets \<open>Lagged\<close> instead
  of the values it missed; see \<open>forward_pane\<close>.)
\<close>

definition broadcast_laws :: "('c \<Rightarrow> 'r) \<Rightarrow> ('c \<Rightarrow> pane_update \<Rightarrow> 'c) \<Rightarrow> ('r \<Rightarrow> 'c \<Rightarrow> pane_update list) \<Rightarrow> bool" where
  "broadcast_laws chan_subscribe chan_send chan_stream \<longleftrightarrow>
     (\<forall>c us. chan_stream (chan_subscribe c) (foldl chan_send c us) = us)"

fun published :: "waiter_pc \<Rightarrow> pane_label list \<Rightarrow> waiter_pc \<times> pane_update list" where
  "published w [] = (w, [])"
| "published w (LRead bytes # ls) = (case published w ls of (w', us) \<Rightarrow> (w', PuBytes bytes # us))"
| "published w (LWaited r # ls) = published (WSetCode (wait_code r)) ls"
| "published w (LWaiter # ls) =
     (case w of
        WSetCode c \<Rightarrow> published (WSetAlive c) ls
      | WSetAlive c \<Rightarrow> published (WSend c) ls
      | WSend c \<Rightarrow> (case published WDone ls of (w', us) \<Rightarrow> (w', PuExit c # us))
      | _ \<Rightarrow> published w ls)"
| "published w (_ # ls) = published w ls"

fun chunks_read :: "pane_label list \<Rightarrow> u8 list list" where
  "chunks_read [] = []"
| "chunks_read (LRead bytes # ls) = bytes # chunks_read ls"
| "chunks_read (_ # ls) = chunks_read ls"

fun update_bytes :: "pane_update list \<Rightarrow> u8 list" where
  "update_bytes [] = []"
| "update_bytes (PuBytes bytes # us) = bytes @ update_bytes us"
| "update_bytes (PuExit c # us) = update_bytes us"

lemma update_bytes_append [simp]: "update_bytes (us @ vs) = update_bytes us @ update_bytes vs"
  by (induction us rule: update_bytes.induct) auto

lemma chunks_read_append [simp]: "chunks_read (ls @ ms) = chunks_read ls @ chunks_read ms"
  by (induction ls rule: chunks_read.induct) auto

lemma published_append:
  "published w (ls @ ms) =
     (case published w ls of (w1, us) \<Rightarrow> case published w1 ms of (w2, vs) \<Rightarrow> (w2, us @ vs))"
  by (induction w ls rule: published.induct) (auto split: prod.splits waiter_pc.splits)

lemma published_bytes: "update_bytes (snd (published w ls)) = concat (chunks_read ls)"
  by (induction w ls rule: published.induct) (auto split: prod.splits waiter_pc.splits)

lemma pane_run_effect:
  "pane_run chan_send s ls s' \<Longrightarrow>
     \<exists>us. published (sy_waiter s) ls = (sy_waiter s', us) \<and>
       pn_output_tx (sy_pane s') = foldl chan_send (pn_output_tx (sy_pane s)) us \<and>
       pn_scrollback (sy_pane s') = fold scrollback_append (chunks_read ls) (pn_scrollback (sy_pane s))"
proof (induction rule: pane_run.induct)
  case (pr_nil s)
  then show ?case by simp
next
  case (pr_snoc s ls s1 l s2)
  from pr_snoc.hyps(2) show ?case
    using pr_snoc.IH
    by (cases rule: pane_stepE) (auto simp: published_append reader_publish_def pane_resize_def)
qed

lemma pane_run_inv:
  "pane_run chan_send s ls s' \<Longrightarrow> sb_inv (pn_scrollback (sy_pane s)) \<Longrightarrow> sb_inv (pn_scrollback (sy_pane s'))"
  using pane_run_effect scrollback_run.run_inv by metis

lemma concat_nonempty: "concat (filter (\<lambda>c. c \<noteq> []) cs) = concat cs"
  by (induction cs) auto

section \<open>The forwarder\<close>

text \<open>What \<open>rx.recv()\<close> returns.\<close>

datatype recv_result = RvUpdate pane_update | RvLagged u64 | RvClosed

text \<open>
  \<open>forward_pane\<close>: the events one subscriber is sent. \<open>accepts\<close> is how many sends its outgoing channel
  takes before the client is gone; \<open>alive\<close> and \<open>code_now\<close> are read after the snapshot went out,
  \<open>code_closed\<close> when the channel is found closed.
\<close>

fun forward_loop :: "i32 option \<Rightarrow> nat \<Rightarrow> recv_result list \<Rightarrow> event list" where
  "forward_loop code_closed accepts [] = []"
| "forward_loop code_closed 0 (r # rs) = []"
| "forward_loop code_closed (Suc n) (RvUpdate (PuBytes b) # rs) =
     EvPaneOutput b # forward_loop code_closed n rs"
| "forward_loop code_closed (Suc n) (RvUpdate (PuExit c) # rs) = [EvPaneExit c]"
| "forward_loop code_closed (Suc n) (RvLagged k # rs) =
     EvPaneLagged k # forward_loop code_closed n rs"
| "forward_loop code_closed (Suc n) (RvClosed # rs) = [EvPaneExit code_closed]"

definition forward_pane ::
  "u8 list \<Rightarrow> u16 \<times> u16 \<Rightarrow> bool \<Rightarrow> i32 option \<Rightarrow> i32 option \<Rightarrow> nat \<Rightarrow> recv_result list \<Rightarrow> event list" where
  "forward_pane scroll dims alive code_now code_closed accepts rs =
     (case accepts of
        0 \<Rightarrow> []
      | Suc n \<Rightarrow> EvPaneSnapshot scroll (fst dims) (snd dims) #
          (if \<not> alive then (if n = 0 then [] else [EvPaneExit code_now])
           else forward_loop code_closed n rs))"

text \<open>The bytes a client's terminal is fed by a list of events.\<close>

fun terminal_bytes :: "event list \<Rightarrow> u8 list" where
  "terminal_bytes [] = []"
| "terminal_bytes (EvPaneSnapshot b _ _ # es) = b @ terminal_bytes es"
| "terminal_bytes (EvPaneOutput b # es) = b @ terminal_bytes es"
| "terminal_bytes (_ # es) = terminal_bytes es"

fun before_exit :: "pane_update list \<Rightarrow> pane_update list" where
  "before_exit [] = []"
| "before_exit (PuBytes b # us) = PuBytes b # before_exit us"
| "before_exit (PuExit c # us) = []"

lemma forward_loop_bytes:
  "length us \<le> n \<Longrightarrow>
     terminal_bytes (forward_loop cc n (map RvUpdate us)) = update_bytes (before_exit us)"
proof (induction us arbitrary: n rule: before_exit.induct)
  case (2 b us)
  then show ?case by (cases n) auto
next
  case (3 c us)
  then show ?case by (cases n) auto
qed simp

lemma before_exit_id: "(\<forall>c. PuExit c \<notin> set us) \<Longrightarrow> before_exit us = us"
  by (induction us rule: before_exit.induct) auto

text \<open>
  The subscription is exact: whatever the threads did before and do after, the snapshot and the
  stream together are the pane's whole output, less bytes evicted from the front before the
  snapshot was taken.
\<close>

lemma subscribe_exact:
  assumes laws: "broadcast_laws chan_subscribe chan_send chan_stream"
    and inv: "sb_inv (pn_scrollback (sy_pane s))"
    and empty: "sb_chunks (pn_scrollback (sy_pane s)) = []"
    and run1: "pane_run chan_send s ls s1"
    and sub: "pane_subscribe chan_subscribe (sy_pane s1) = (snap, rx)"
    and run2: "pane_run chan_send s1 ms s2"
  shows "\<exists>lost. lost @ snap @ update_bytes (chan_stream rx (pn_output_tx (sy_pane s2))) =
           concat (chunks_read (ls @ ms)) \<and>
         (length (concat (chunks_read ls)) \<le> sb_capacity (pn_scrollback (sy_pane s)) \<longrightarrow> lost = [])"
proof -
  let ?cap = "sb_capacity (pn_scrollback (sy_pane s))"
  let ?cs = "filter (\<lambda>c. c \<noteq> []) (chunks_read ls)"
  have ne: "concat ?cs = concat (chunks_read ls)"
    by (rule concat_nonempty)
  have "sb_chunks (pn_scrollback (sy_pane s1)) = fitting ?cap ?cs"
    using pane_run_effect [OF run1] scrollback_fold [OF inv, of "[]" "chunks_read ls"] empty by auto
  then have snap: "snap = concat (fitting ?cap ?cs)" and rx: "rx = chan_subscribe (pn_output_tx (sy_pane s1))"
    using sub by (auto simp: pane_subscribe_def)
  obtain us where us: "published (sy_waiter s1) ms = (sy_waiter s2, us)"
    "pn_output_tx (sy_pane s2) = foldl chan_send (pn_output_tx (sy_pane s1)) us"
    using pane_run_effect [OF run2] by blast
  have "update_bytes (chan_stream rx (pn_output_tx (sy_pane s2))) = concat (chunks_read ms)"
    using laws us published_bytes [of "sy_waiter s1" ms] unfolding broadcast_laws_def rx by simp
  moreover obtain ds where "?cs = ds @ fitting ?cap ?cs"
    using fitting_suffix [of ?cap ?cs] by (auto simp: suffix_def)
  then have "concat ds @ snap = concat (chunks_read ls)"
    unfolding snap by (metis concat_append ne)
  moreover have "length (concat (chunks_read ls)) \<le> ?cap \<longrightarrow> concat ds = []"
    using ne fitting_all [of ?cs ?cap] calculation(2) snap by auto
  ultimately show ?thesis by (metis append.assoc chunks_read_append concat_append)
qed

section \<open>The manager\<close>

text \<open>
  The map of open panes and the id counter. \<open>opened\<close> is whether the terminal and the child came up;
  the id is taken before that is known.
\<close>

record 'p pty_manager =
  pm_panes :: "pane_id \<rightharpoonup> 'p"
  pm_next_id :: u64

definition manager_new :: "'p pty_manager" where
  "manager_new = \<lparr>pm_panes = Map.empty, pm_next_id = 1\<rparr>"

definition manager_open :: "(pane_id \<Rightarrow> 'p option) \<Rightarrow> 'p pty_manager \<Rightarrow> 'p pty_manager \<times> 'p option" where
  "manager_open spawn m =
     (let i = pm_next_id m;
          m' = m\<lparr>pm_next_id := i + 1\<rparr>
      in case spawn i of
           None \<Rightarrow> (m', None)
         | Some p \<Rightarrow> (m'\<lparr>pm_panes := (pm_panes m')(i \<mapsto> p)\<rparr>, Some p))"

definition manager_close :: "pane_id \<Rightarrow> 'p pty_manager \<Rightarrow> 'p pty_manager \<times> bool" where
  "manager_close i m = (m\<lparr>pm_panes := (pm_panes m)(i := None)\<rparr>, pm_panes m i \<noteq> None)"

datatype 'p manager_op = MoOpen "pane_id \<Rightarrow> 'p option" | MoClose pane_id

fun manager_step :: "'p manager_op \<Rightarrow> 'p pty_manager \<Rightarrow> 'p pty_manager" where
  "manager_step (MoOpen spawn) m = fst (manager_open spawn m)"
| "manager_step (MoClose i) m = fst (manager_close i m)"

text \<open>Every pane's id was given out before, and ids are given out in order.\<close>

definition manager_inv :: "'p pty_manager \<Rightarrow> bool" where
  "manager_inv m \<longleftrightarrow> (\<forall>i \<in> dom (pm_panes m). 0 < unat i \<and> unat i < unat (pm_next_id m))"

lemma manager_step_bounded:
  assumes "manager_inv m" "0 < unat (pm_next_id m)" "unat (pm_next_id m) < 2 ^ 64 - 1"
  shows "manager_inv (manager_step e m) \<and>
    unat (pm_next_id m) \<le> unat (pm_next_id (manager_step e m)) \<and>
    unat (pm_next_id (manager_step e m)) \<le> unat (pm_next_id m) + 1"
proof -
  have "unat (pm_next_id m + 1) = unat (pm_next_id m) + 1"
    using assms(3) by (subst unat_add_lem [THEN iffD1]) auto
  then show ?thesis
    using assms(1,2)
    by (cases e) (auto simp: manager_inv_def manager_open_def manager_close_def Let_def
        split: option.splits if_splits intro: less_SucI)
qed

lemma manager_run_bounded:
  assumes "manager_inv m" "0 < unat (pm_next_id m)" "unat (pm_next_id m) + length es < 2 ^ 64"
  shows "manager_inv (fold manager_step es m) \<and>
    unat (pm_next_id (fold manager_step es m)) \<le> unat (pm_next_id m) + length es"
  using assms
proof (induction es arbitrary: m)
  case (Cons e es)
  have "unat (pm_next_id m) < 2 ^ 64 - 1" using Cons.prems(3) by simp
  from manager_step_bounded [OF Cons.prems(1,2) this, of e]
  show ?case using Cons.IH [of "manager_step e m"] Cons.prems by fastforce
qed simp

end
