(* ===== verification/AppInv.thy ===== *)
theory AppInv
  imports App
begin

text \<open>
  The invariant of the application state and its preservation by every handler, component by
  component; the event machine of the whole application is the interpretation at the end.
\<close>

section \<open>Filters\<close>

definition filter_ok :: "string \<Rightarrow> bool" where
  "filter_ok s \<longleftrightarrow> list_all (\<lambda>c. 32 \<le> (of_char c :: nat) \<and> (of_char c :: nat) \<le> 126) s"

lemma filter_ok_Nil [simp]: "filter_ok []"
  by (simp add: filter_ok_def)

lemma filter_ok_snoc: "filter_ok s \<Longrightarrow> printable b \<Longrightarrow> filter_ok (s @ [char_of_byte b])"
proof -
  assume "filter_ok s" "printable b"
  moreover have "(of_char (char_of_byte b) :: nat) = unat b"
  proof -
    have "unat b < 2 ^ LENGTH(8)" by (rule unsigned_less)
    then show ?thesis by (simp add: char_of_byte_def of_char_of)
  qed
  ultimately show ?thesis
    by (auto simp: filter_ok_def printable_def word_le_nat_alt)
qed

lemma filter_ok_pop: "filter_ok s \<Longrightarrow> string_pop s = Some t \<Longrightarrow> filter_ok t"
proof -
  assume f: "filter_ok s" and p: "string_pop s = Some t"
  have "set (tl xs) \<subseteq> set xs" for xs :: "'a list" by (cases xs) auto
  then have "set t \<subseteq> set s"
    using p set_dropWhileD by (fastforce simp: string_pop_def split: if_splits)
  then show ?thesis
    using f by (auto simp: filter_ok_def list_all_iff)
qed

section \<open>Docker\<close>

definition docker_ok :: "(string \<Rightarrow> string) \<Rightarrow> docker_scope \<Rightarrow> bool" where
  "docker_ok u d \<longleftrightarrow> docker.sel_ok u d \<and> filter_ok (ds_filter d) \<and>
     (\<forall>l. ds_view d = DvLogs l \<longrightarrow> logs_inv l \<and> ds_pending_confirm d = None)"

lemma docker_sel_ok_def:
  "docker.sel_ok u d \<longleftrightarrow> ds_selection d < ds_visible_count u d \<or> ds_selection d = 0 \<and> ds_visible_count u d = 0"
  by (simp add: docker.sel_ok_def)

lemma ds_matches_frame [simp]:
  "ds_matches u (d\<lparr>ds_selection := i\<rparr>) = ds_matches u d"
  "ds_matches u (d\<lparr>ds_filter_active := b\<rparr>) = ds_matches u d"
  "ds_matches u (d\<lparr>ds_pending_confirm := pc\<rparr>) = ds_matches u d"
  "ds_matches u (d\<lparr>ds_view := w\<rparr>) = ds_matches u d"
  "ds_matches u (d\<lparr>ds_state := st\<rparr>) = ds_matches u d"
  "ds_matches u (d\<lparr>ds_target := t\<rparr>) = ds_matches u d"
  by (rule ext, simp add: ds_matches_def)+

lemma ds_visible_frame [simp]:
  "ds_visible_count u (d\<lparr>ds_selection := i\<rparr>) = ds_visible_count u d"
  "ds_visible_count u (d\<lparr>ds_filter_active := b\<rparr>) = ds_visible_count u d"
  "ds_visible_count u (d\<lparr>ds_pending_confirm := pc\<rparr>) = ds_visible_count u d"
  "ds_visible_count u (d\<lparr>ds_view := w\<rparr>) = ds_visible_count u d"
  "ds_visible_count u (d\<lparr>ds_target := t\<rparr>) = ds_visible_count u d"
  by (simp_all add: ds_visible_count_def split: docker_scope_state.splits)

lemma clamp_selection_frame [simp]:
  "ds_view (clamp_selection u d) = ds_view d" "ds_filter (clamp_selection u d) = ds_filter d"
  "ds_pending_confirm (clamp_selection u d) = ds_pending_confirm d"
  "ds_sub_id (clamp_selection u d) = ds_sub_id d" "ds_target (clamp_selection u d) = ds_target d"
  "ds_visible_count u (clamp_selection u d) = ds_visible_count u d"
  by (simp_all add: clamp_selection_def Let_def)

lemma clamp_selection_sel: "docker.sel_ok u (clamp_selection u d)"
  by (auto simp: docker_sel_ok_def clamp_selection_def Let_def)

lemma clamp_docker_ok:
  "filter_ok (ds_filter d) \<Longrightarrow> ds_view d = DvList \<Longrightarrow> docker_ok u (clamp_selection u d)"
  by (simp add: docker_ok_def clamp_selection_sel)

section \<open>Ports, processes, fleet\<close>

lemma pv_matches_frame [simp]: "pv_matches u (v\<lparr>pv_filter_active := b\<rparr>) = pv_matches u v"
  by (rule ext) (simp add: pv_matches_def)

lemma pv_frame [simp]:
  "pv_visible_count u (v\<lparr>pv_selection := i\<rparr>) = pv_visible_count u v"
  "pv_visible_count u (v\<lparr>pv_filter_active := b\<rparr>) = pv_visible_count u v"
  by (simp_all add: pv_visible_count_def split: ports_view_state.splits)

lemma pv_reanchor_filter [simp]: "pv_filter (pv_reanchor u k v) = pv_filter v"
  by (auto simp: pv_reanchor_def Let_def split: ports_view_state.splits option.splits)

lemma sv_matches_frame [simp]: "sv_matches u (v\<lparr>sv_filter_active := b\<rparr>) = sv_matches u v"
  by (rule ext) (simp add: sv_matches_def)

lemma sv_frame [simp]:
  "sv_visible_count u (v\<lparr>sv_selection := i\<rparr>) = sv_visible_count u v"
  "sv_visible_count u (v\<lparr>sv_filter_active := b\<rparr>) = sv_visible_count u v"
  by (simp_all add: sv_visible_count_def split: processes_view_state.splits)

lemma sv_reanchor_filter [simp]: "sv_filter (sv_reanchor u k v) = sv_filter v"
  by (auto simp: sv_reanchor_def Let_def split: processes_view_state.splits option.splits)

lemma fl_matches_frame [simp]: "fl_matches u (f\<lparr>fl_filter_active := b\<rparr>) = fl_matches u f"
  by (rule ext) (simp add: fl_matches_def)

lemma fl_frame [simp]:
  "fl_visible_count u (f\<lparr>fl_selection := i\<rparr>) = fl_visible_count u f"
  "fl_visible_count u (f\<lparr>fl_filter_active := b\<rparr>) = fl_visible_count u f"
  by (simp_all add: fl_visible_count_def split: fleet_scope_state.splits)

lemma fl_reanchor_filter [simp]: "fl_filter (fl_reanchor u k f) = fl_filter f"
  by (auto simp: fl_reanchor_def Let_def split: fleet_scope_state.splits option.splits)

definition pv_ok :: "(string \<Rightarrow> string) \<Rightarrow> ports_view \<Rightarrow> bool" where
  "pv_ok u v \<longleftrightarrow> ports.sel_ok u v \<and> filter_ok (pv_filter v)"

definition sv_ok :: "(string \<Rightarrow> string) \<Rightarrow> processes_view \<Rightarrow> bool" where
  "sv_ok u v \<longleftrightarrow> procs.sel_ok u v \<and> filter_ok (sv_filter v)"

definition fleet_ok :: "(string \<Rightarrow> string) \<Rightarrow> fleet_scope \<Rightarrow> bool" where
  "fleet_ok u f \<longleftrightarrow> fleet.sel_ok u f \<and> filter_ok (fl_filter f)"

lemma pv_reanchor_ok: "filter_ok (pv_filter v) \<Longrightarrow> pv_ok u (pv_reanchor u k v)"
  by (simp add: pv_ok_def ports.reanchor_ok)

lemma sv_reanchor_ok: "filter_ok (sv_filter v) \<Longrightarrow> sv_ok u (sv_reanchor u k v)"
  by (simp add: sv_ok_def procs.reanchor_ok)

lemma fl_reanchor_ok: "filter_ok (fl_filter f) \<Longrightarrow> fleet_ok u (fl_reanchor u k f)"
  by (simp add: fleet_ok_def fleet.reanchor_ok)

lemma refilter_ok:
  "filter_ok (pv_filter v) \<Longrightarrow> pv_ok (x_unicode rt) (pv_refilter rt v)"
  "filter_ok (sv_filter w) \<Longrightarrow> sv_ok (x_unicode rt) (sv_refilter rt w)"
  "filter_ok (fl_filter f) \<Longrightarrow> fleet_ok (x_unicode rt) (fl_refilter rt f)"
  by (simp_all add: pv_refilter_def sv_refilter_def fl_refilter_def pv_reanchor_ok sv_reanchor_ok fl_reanchor_ok)

section \<open>The invariant\<close>

text \<open>
  The layout is the one for some area and the focused tile is in it; the stack index is in range; all
  selections are on visible rows; filters hold printable ASCII only; a confirm prompt is never up
  behind a transcript; there are at most \<open>MAX_TOASTS\<close> toasts; the parsers are in states a chunk can
  end in; help and host picker are never both open.
\<close>

definition view_ok :: "'p rt \<Rightarrow> view \<Rightarrow> bool" where
  "view_ok rt v \<longleftrightarrow> (\<exists>area. vw_layout v = default_for (x_rect_new rt) area) \<and>
     tile (vw_layout v) (vw_focused v) \<noteq> None"

definition app_inv :: "'p rt \<Rightarrow> 'p app \<Rightarrow> bool" where
  "app_inv rt a \<longleftrightarrow>
     view_ok rt (ap_view a) \<and> panes_ok a \<and> docker_ok (x_unicode rt) (ap_docker a) \<and>
     pv_ok (x_unicode rt) (po_ports (ap_ports a)) \<and> sv_ok (x_unicode rt) (po_processes (ap_ports a)) \<and>
     fleet_ok (x_unicode rt) (ap_fleet a) \<and> length (ap_toasts a) \<le> MAX_TOASTS \<and>
     ap_scope_key_parser a \<noteq> KsEscape \<and> filter_inv (ap_input_filter a) \<and>
     \<not> (ap_help_visible a \<and> ap_host_picker a \<noteq> None)"

lemma app_invI:
  assumes "view_ok rt (ap_view a)" "panes_ok a" "docker_ok (x_unicode rt) (ap_docker a)"
    "pv_ok (x_unicode rt) (po_ports (ap_ports a))" "sv_ok (x_unicode rt) (po_processes (ap_ports a))"
    "fleet_ok (x_unicode rt) (ap_fleet a)" "length (ap_toasts a) \<le> MAX_TOASTS"
    "ap_scope_key_parser a \<noteq> KsEscape" "filter_inv (ap_input_filter a)"
    "\<not> (ap_help_visible a \<and> ap_host_picker a \<noteq> None)"
  shows "app_inv rt a"
  using assms by (simp add: app_inv_def)

lemma app_invD:
  assumes "app_inv rt a"
  shows "view_ok rt (ap_view a)" "panes_ok a" "docker_ok (x_unicode rt) (ap_docker a)"
    "pv_ok (x_unicode rt) (po_ports (ap_ports a))" "sv_ok (x_unicode rt) (po_processes (ap_ports a))"
    "fleet_ok (x_unicode rt) (ap_fleet a)" "length (ap_toasts a) \<le> MAX_TOASTS"
    "ap_scope_key_parser a \<noteq> KsEscape" "filter_inv (ap_input_filter a)"
    "\<not> (ap_help_visible a \<and> ap_host_picker a \<noteq> None)"
  using assms by (simp_all add: app_inv_def)

text \<open>Fields no part of the invariant reads, and updates of one part.\<close>

lemma panes_ok_frame [simp]:
  "panes_ok (a\<lparr>ap_view := v\<rparr>) = panes_ok a" "panes_ok (a\<lparr>ap_docker := d\<rparr>) = panes_ok a"
  "panes_ok (a\<lparr>ap_ports := s\<rparr>) = panes_ok a" "panes_ok (a\<lparr>ap_fleet := f\<rparr>) = panes_ok a"
  "panes_ok (a\<lparr>ap_toasts := t\<rparr>) = panes_ok a" "panes_ok (a\<lparr>ap_next_sub_id := i\<rparr>) = panes_ok a"
  "panes_ok (a\<lparr>ap_pending_actions := pa\<rparr>) = panes_ok a" "panes_ok (a\<lparr>ap_pending_opens := po\<rparr>) = panes_ok a"
  "panes_ok (a\<lparr>ap_scope_key_parser := k\<rparr>) = panes_ok a" "panes_ok (a\<lparr>ap_input_filter := fi\<rparr>) = panes_ok a"
  "panes_ok (a\<lparr>ap_help_visible := h\<rparr>) = panes_ok a" "panes_ok (a\<lparr>ap_host_picker := hp\<rparr>) = panes_ok a"
  "panes_ok (a\<lparr>ap_host_capabilities := hc\<rparr>) = panes_ok a" "panes_ok (a\<lparr>ap_hovered_tile := ht\<rparr>) = panes_ok a"
  "panes_ok (a\<lparr>ap_last_click := lc\<rparr>) = panes_ok a" "panes_ok (a\<lparr>ap_terminal_size := ts\<rparr>) = panes_ok a"
  by (simp_all add: panes_ok_def)

lemma app_inv_frame [simp]:
  "app_inv rt (a\<lparr>ap_next_sub_id := i\<rparr>) = app_inv rt a"
  "app_inv rt (a\<lparr>ap_pending_actions := pa\<rparr>) = app_inv rt a"
  "app_inv rt (a\<lparr>ap_pending_opens := po\<rparr>) = app_inv rt a"
  "app_inv rt (a\<lparr>ap_host_capabilities := hc\<rparr>) = app_inv rt a"
  "app_inv rt (a\<lparr>ap_hovered_tile := ht\<rparr>) = app_inv rt a"
  "app_inv rt (a\<lparr>ap_last_click := lc\<rparr>) = app_inv rt a"
  "app_inv rt (a\<lparr>ap_terminal_size := ts\<rparr>) = app_inv rt a"
  by (simp_all add: app_inv_def)

lemma app_inv_parts [inv_intros]:
  "app_inv rt a \<Longrightarrow> docker_ok (x_unicode rt) d \<Longrightarrow> app_inv rt (a\<lparr>ap_docker := d\<rparr>)"
  "app_inv rt a \<Longrightarrow> pv_ok (x_unicode rt) pv \<Longrightarrow> app_inv rt (a\<lparr>ap_ports := (ap_ports a)\<lparr>po_ports := pv\<rparr>\<rparr>)"
  "app_inv rt a \<Longrightarrow> sv_ok (x_unicode rt) w \<Longrightarrow> app_inv rt (a\<lparr>ap_ports := (ap_ports a)\<lparr>po_processes := w\<rparr>\<rparr>)"
  "app_inv rt a \<Longrightarrow> fleet_ok (x_unicode rt) f \<Longrightarrow> app_inv rt (a\<lparr>ap_fleet := f\<rparr>)"
  "app_inv rt a \<Longrightarrow> length t \<le> MAX_TOASTS \<Longrightarrow> app_inv rt (a\<lparr>ap_toasts := t\<rparr>)"
  "app_inv rt a \<Longrightarrow> k \<noteq> KsEscape \<Longrightarrow> app_inv rt (a\<lparr>ap_scope_key_parser := k\<rparr>)"
  "app_inv rt a \<Longrightarrow> filter_inv fi \<Longrightarrow> app_inv rt (a\<lparr>ap_input_filter := fi\<rparr>)"
  "app_inv rt a \<Longrightarrow> view_ok rt v \<Longrightarrow> app_inv rt (a\<lparr>ap_view := v\<rparr>)"
  "app_inv rt a \<Longrightarrow> app_inv rt (a\<lparr>ap_help_visible := False\<rparr>)"
  "app_inv rt a \<Longrightarrow> app_inv rt (a\<lparr>ap_host_picker := None\<rparr>)"
  by (simp_all add: app_inv_def)

lemma push_toast_inv [inv_intros]: "app_inv rt a \<Longrightarrow> app_inv rt (fst (push_toast_at now k m a))"
  by (auto simp: push_toast_at_def Let_def MAX_TOASTS_def intro!: app_inv_parts dest: app_invD(7))

lemma push_toast_inv_eq: "push_toast_at now k m a = (a', acts) \<Longrightarrow> app_inv rt a \<Longrightarrow> app_inv rt a'"
  using push_toast_inv [of rt a now k m] by simp

section \<open>Focus\<close>

lemma tile_mem: "t \<in> set (tl_tiles l) \<Longrightarrow> \<exists>y. tile l (td_id t) = Some y"
  using tile_present_iff [of l "td_id t"] by auto

lemma next_focus_present: "next_focus l i dir = Some t \<Longrightarrow> tile l t \<noteq> None"
  by (auto simp: next_focus_def tile_mem split: if_splits option.splits dest!: min_by_key_in)

lemma find_prop: "List.find P xs = Some x \<Longrightarrow> P x \<and> x \<in> set xs"
  by (induction xs) (auto split: if_splits)

lemma cycle_focus_tile: "cycle_focus l i fwd = Some t \<Longrightarrow> tile l t \<noteq> None"
  by (auto simp: cycle_focus_def Let_def split: if_splits option.splits dest!: find_prop)

lemma tile_under_present:
  "tile_under rt a x y = Some t \<Longrightarrow> tile (vw_layout (ap_view a)) (td_id t) \<noteq> None"
  by (auto simp: tile_under_def tile_mem dest!: find_prop)

lemma docker_ok_cancel [inv_intros]: "docker_ok u d \<Longrightarrow> docker_ok u (d\<lparr>ds_pending_confirm := None\<rparr>)"
  by (auto simp: docker_ok_def docker_sel_ok_def)

lemma view_ok_focus:
  "view_ok rt v \<Longrightarrow> tile (vw_layout v) t \<noteq> None \<Longrightarrow> view_ok rt (v\<lparr>vw_focused := t\<rparr>)"
  by (simp add: view_ok_def)

lemma move_focus_inv:
  assumes "app_inv rt a" "tile (vw_layout (ap_view a)) t \<noteq> None"
  shows "app_inv rt (fst (move_focus_to t a))"
  using assms
  by (auto simp: move_focus_to_def Let_def intro!: app_inv_parts docker_ok_cancel view_ok_focus
      dest: app_invD)

lemma focus_direction_inv: "app_inv rt a \<Longrightarrow> app_inv rt (fst (handle_focus_direction d a))"
  by (auto simp: handle_focus_direction_def intro!: move_focus_inv split: option.splits
      dest: next_focus_present)

lemma focus_cycle_inv: "app_inv rt a \<Longrightarrow> app_inv rt (fst (handle_focus_cycle f a))"
  by (auto simp: handle_focus_cycle_def intro!: move_focus_inv split: option.splits
      dest: cycle_focus_tile)

lemma handle_tab_inv: "app_inv rt a \<Longrightarrow> handle_tab f a = Inr (a', acts) \<Longrightarrow> app_inv rt a'"
  using focus_cycle_inv [of rt a f]
  by (auto simp: handle_tab_def and_then_Inr_iff split: if_splits)

lemma handle_mouse_hover_inv: "app_inv rt a \<Longrightarrow> app_inv rt (fst (handle_mouse_hover rt x y a))"
  by (simp add: handle_mouse_hover_def Let_def)

section \<open>Docker keys\<close>

lemma alloc_sub_id_inv: "alloc_sub_id a = (a', i) \<Longrightarrow> app_inv rt a \<Longrightarrow> app_inv rt a'"
  by (auto simp: alloc_sub_id_def)

lemma register_action_inv: "app_inv rt a \<Longrightarrow> app_inv rt (register_action i now d a)"
  by (simp add: register_action_def)

lemma dispatch_docker_action_inv:
  "app_inv rt a \<Longrightarrow> app_inv rt (fst (dispatch_docker_action now c n k a))"
  by (simp add: dispatch_docker_action_def alloc_sub_id_def register_action_def)

lemma issue_selected_inv: "app_inv rt a \<Longrightarrow> app_inv rt (fst (issue_selected_docker_action rt now k a))"
  by (simp add: issue_selected_docker_action_def dispatch_docker_action_inv split: option.splits)

lemma begin_confirm_inv:
  "app_inv rt a \<Longrightarrow> ds_view (ap_docker a) = DvList \<Longrightarrow> app_inv rt (fst (begin_confirm rt now k a))"
  by (auto simp: begin_confirm_def docker_ok_def docker_sel_ok_def split: option.splits
      intro!: app_inv_parts dest: app_invD(3))

lemma try_enter_logs_inv:
  "app_inv rt a \<Longrightarrow> ds_pending_confirm (ap_docker a) = None \<Longrightarrow> app_inv rt (fst (try_enter_logs_view rt a))"
  by (auto simp: try_enter_logs_view_def alloc_sub_id_def docker_ok_def docker_sel_ok_def logs_new_inv
      split: option.splits intro!: app_inv_parts dest: app_invD(3))

lemma upd_logs_inv:
  assumes "app_inv rt a" "\<And>l. logs_inv l \<Longrightarrow> logs_inv (f l)"
  shows "app_inv rt (fst (upd_logs f a))"
  using assms app_invD(3) [OF assms(1)]
  by (auto simp: upd_logs_def docker_ok_def docker_sel_ok_def split: docker_view.splits
      intro!: app_inv_parts)

lemma handle_logs_key_inv: "app_inv rt a \<Longrightarrow> app_inv rt (fst (handle_logs_key key a))"
  using app_invD(3) [of rt a]
  by (auto simp: handle_logs_key_def scroll_inv docker_ok_def docker_sel_ok_def split: docker_view.splits
      intro!: upd_logs_inv app_inv_parts)

lemma handle_confirm_key_inv: "app_inv rt a \<Longrightarrow> app_inv rt (fst (handle_confirm_key now pc key a))"
  by (auto simp: handle_confirm_key_def
      intro!: dispatch_docker_action_inv app_inv_parts docker_ok_cancel dest: app_invD(3))

lemma handle_docker_filter_key_inv:
  assumes "app_inv rt a" "ds_view (ap_docker a) = DvList"
  shows "app_inv rt (fst (handle_docker_filter_key rt key a))"
proof -
  note ok = app_invD(3) [OF assms(1)]
  have "docker_ok (x_unicode rt) ((ap_docker a)\<lparr>ds_filter_active := False\<rparr>)"
    using ok by (simp add: docker_ok_def docker_sel_ok_def)
  then show ?thesis
    using assms ok
    by (auto simp: handle_docker_filter_key_def docker_ok_def Let_def split: scope_key.splits option.splits
        intro!: app_inv_parts clamp_docker_ok filter_ok_snoc dest: filter_ok_pop)
qed

lemma docker_ok_select:
  "docker_ok u d \<Longrightarrow> i < ds_visible_count u d \<or> i = 0 \<Longrightarrow> docker_ok u (d\<lparr>ds_selection := i\<rparr>)"
  by (auto simp: docker_ok_def docker_sel_ok_def)

lemma docker_ok_filter_active: "docker_ok u d \<Longrightarrow> docker_ok u (d\<lparr>ds_filter_active := b\<rparr>)"
  by (simp add: docker_ok_def docker_sel_ok_def)

text \<open>The key maps' equations, one per key, so that they can be simplification rules.\<close>

lemmas handle_scope_key_at =
  handle_scope_key.simps [of _ _ KUp] handle_scope_key.simps [of _ _ KDown]
  handle_scope_key.simps [of _ _ KTop] handle_scope_key.simps [of _ _ KBottom]
  handle_scope_key.simps [of _ _ KHome] handle_scope_key.simps [of _ _ KEnd]
  handle_scope_key.simps [of _ _ KPgUp] handle_scope_key.simps [of _ _ KPgDn]
  handle_scope_key.simps [of _ _ KFilterStart] handle_scope_key.simps [of _ _ KEscape]
  handle_scope_key.simps [of _ _ KEnter] handle_scope_key.simps [of _ _ KBackspace]
  handle_scope_key.simps [of _ _ "KChar b"] for b

lemmas handle_ports_list_key_at =
  handle_ports_list_key.simps [of _ KUp] handle_ports_list_key.simps [of _ KDown]
  handle_ports_list_key.simps [of _ KTop] handle_ports_list_key.simps [of _ KBottom]
  handle_ports_list_key.simps [of _ KHome] handle_ports_list_key.simps [of _ KEnd]
  handle_ports_list_key.simps [of _ KPgUp] handle_ports_list_key.simps [of _ KPgDn]
  handle_ports_list_key.simps [of _ KFilterStart] handle_ports_list_key.simps [of _ KEscape]
  handle_ports_list_key.simps [of _ KEnter] handle_ports_list_key.simps [of _ KBackspace]
  handle_ports_list_key.simps [of _ "KChar b"] for b

lemmas handle_processes_list_key_at =
  handle_processes_list_key.simps [of _ KUp] handle_processes_list_key.simps [of _ KDown]
  handle_processes_list_key.simps [of _ KTop] handle_processes_list_key.simps [of _ KBottom]
  handle_processes_list_key.simps [of _ KHome] handle_processes_list_key.simps [of _ KEnd]
  handle_processes_list_key.simps [of _ KPgUp] handle_processes_list_key.simps [of _ KPgDn]
  handle_processes_list_key.simps [of _ KFilterStart]
  handle_processes_list_key.simps [of _ KEscape] handle_processes_list_key.simps [of _ KEnter]
  handle_processes_list_key.simps [of _ KBackspace]
  handle_processes_list_key.simps [of _ "KChar b"] for b

lemmas handle_fleet_key_at =
  handle_fleet_key.simps [of _ _ KUp] handle_fleet_key.simps [of _ _ KDown]
  handle_fleet_key.simps [of _ _ KTop] handle_fleet_key.simps [of _ _ KBottom]
  handle_fleet_key.simps [of _ _ KHome] handle_fleet_key.simps [of _ _ KEnd]
  handle_fleet_key.simps [of _ _ KPgUp] handle_fleet_key.simps [of _ _ KPgDn]
  handle_fleet_key.simps [of _ _ KFilterStart] handle_fleet_key.simps [of _ _ KEscape]
  handle_fleet_key.simps [of _ _ KEnter] handle_fleet_key.simps [of _ _ KBackspace]
  handle_fleet_key.simps [of _ _ "KChar b"] for b

lemma handle_scope_key_inv: "app_inv rt a \<Longrightarrow> app_inv rt (fst (handle_scope_key rt now key a))"
proof (induction rt now key a rule: handle_scope_key.induct)
  case (1 rt now key a)
  note ok = app_invD(3) [OF "1.prems"]
  show ?case
  proof (cases "ds_view (ap_docker a)")
    case (DvLogs l)
    then show ?thesis
      using handle_logs_key_inv [OF "1.prems"] by (simp add: handle_scope_key.simps [of rt now key a])
  next
    case DvList
    show ?thesis
    proof (cases "ds_pending_confirm (ap_docker a)")
      case (Some pc)
      then show ?thesis
        using handle_confirm_key_inv [OF "1.prems"] DvList by (simp add: handle_scope_key.simps [of rt now key a])
    next
      case None
      note fin = app_inv_parts(1) [OF "1.prems"] docker_ok_select [OF ok] docker_ok_filter_active [OF ok]
        begin_confirm_inv [OF "1.prems" DvList] try_enter_logs_inv [OF "1.prems" None]
        issue_selected_inv [OF "1.prems"]
      have up: "ds_selection (ap_docker a) - Suc 0 < ds_visible_count (x_unicode rt) (ap_docker a) \<or>
          ds_selection (ap_docker a) - Suc 0 = 0"
        using ok by (auto simp: docker_ok_def docker_sel_ok_def)
      have bot: "docker_ok (x_unicode rt)
          ((ap_docker a)\<lparr>ds_selection := ds_visible_count (x_unicode rt) (ap_docker a) - Suc 0\<rparr>)"
        by (rule docker_ok_select [OF ok]) arith
      show ?thesis
      proof (cases "ds_filter_active (ap_docker a)")
        case True
        then show ?thesis
          using handle_docker_filter_key_inv [OF "1.prems" DvList] DvList None
          by (simp add: handle_scope_key.simps [of rt now key a])
      next
        case False
        show ?thesis
        proof (cases key)
          case (KChar b)
          then show ?thesis
            using "1.IH" [OF DvList None False KChar] "1.prems" fin DvList None False
            by (simp add: handle_scope_key_at)
        qed (use DvList None False fin up bot in \<open>simp_all add: handle_scope_key_at Let_def "1.prems"\<close>)
      qed
    qed
  qed
qed

section \<open>Keys of the other tiles\<close>

lemma pv_ok_select:
  "pv_ok u v \<Longrightarrow> i < pv_visible_count u v \<or> i = 0 \<Longrightarrow> pv_ok u (v\<lparr>pv_selection := i\<rparr>)"
  by (auto simp: pv_ok_def ports.sel_ok_def)

lemma pv_ok_filter_active: "pv_ok u v \<Longrightarrow> pv_ok u (v\<lparr>pv_filter_active := b\<rparr>)"
  by (simp add: pv_ok_def ports.sel_ok_def)

lemma sv_ok_select:
  "sv_ok u v \<Longrightarrow> i < sv_visible_count u v \<or> i = 0 \<Longrightarrow> sv_ok u (v\<lparr>sv_selection := i\<rparr>)"
  by (auto simp: sv_ok_def procs.sel_ok_def)

lemma sv_ok_filter_active: "sv_ok u v \<Longrightarrow> sv_ok u (v\<lparr>sv_filter_active := b\<rparr>)"
  by (simp add: sv_ok_def procs.sel_ok_def)

lemma fl_ok_select:
  "fleet_ok u v \<Longrightarrow> i < fl_visible_count u v \<or> i = 0 \<Longrightarrow> fleet_ok u (v\<lparr>fl_selection := i\<rparr>)"
  by (auto simp: fleet_ok_def fleet.sel_ok_def)

lemma fl_ok_filter_active: "fleet_ok u v \<Longrightarrow> fleet_ok u (v\<lparr>fl_filter_active := b\<rparr>)"
  by (simp add: fleet_ok_def fleet.sel_ok_def)

lemma handle_ports_filter_key_inv: "app_inv rt a \<Longrightarrow> app_inv rt (fst (handle_ports_filter_key rt key a))"
proof -
  assume i: "app_inv rt a"
  note ok = app_invD(4) [OF i]
  have f: "filter_ok (pv_filter (po_ports (ap_ports a)))" using ok by (simp add: pv_ok_def)
  show ?thesis
    using i f pv_ok_filter_active [OF ok]
    by (auto simp: handle_ports_filter_key_def intro!: app_inv_parts(2) refilter_ok filter_ok_snoc dest: filter_ok_pop
        split: scope_key.splits option.splits)
qed

lemma handle_processes_filter_key_inv: "app_inv rt a \<Longrightarrow> app_inv rt (fst (handle_processes_filter_key rt key a))"
proof -
  assume i: "app_inv rt a"
  note ok = app_invD(5) [OF i]
  have f: "filter_ok (sv_filter (po_processes (ap_ports a)))" using ok by (simp add: sv_ok_def)
  show ?thesis
    using i f sv_ok_filter_active [OF ok]
    by (auto simp: handle_processes_filter_key_def intro!: app_inv_parts(3) refilter_ok filter_ok_snoc dest: filter_ok_pop
        split: scope_key.splits option.splits)
qed

lemma handle_fleet_filter_key_inv: "app_inv rt a \<Longrightarrow> app_inv rt (fst (handle_fleet_filter_key rt key a))"
proof -
  assume i: "app_inv rt a"
  note ok = app_invD(6) [OF i]
  have f: "filter_ok (fl_filter (ap_fleet a))" using ok by (simp add: fleet_ok_def)
  show ?thesis
    using i f fl_ok_filter_active [OF ok]
    by (auto simp: handle_fleet_filter_key_def intro!: app_inv_parts(4) refilter_ok filter_ok_snoc dest: filter_ok_pop
        split: scope_key.splits option.splits)
qed

lemma handle_ports_list_key_inv: "app_inv rt a \<Longrightarrow> app_inv rt (fst (handle_ports_list_key rt key a))"
proof (induction rt key a rule: handle_ports_list_key.induct)
  case (1 rt key a)
  note ok = app_invD(4) [OF "1.prems"]
  note fin = app_inv_parts(2) [OF "1.prems"] pv_ok_select [OF ok] pv_ok_filter_active [OF ok]
  have up: "pv_selection (po_ports (ap_ports a)) - Suc 0 < pv_visible_count (x_unicode rt) (po_ports (ap_ports a)) \<or>
      pv_selection (po_ports (ap_ports a)) - Suc 0 = 0"
    using ok by (auto simp: pv_ok_def ports.sel_ok_def)
  have bot: "pv_ok (x_unicode rt)
      ((po_ports (ap_ports a))\<lparr>pv_selection := pv_visible_count (x_unicode rt) (po_ports (ap_ports a)) - Suc 0\<rparr>)"
    by (rule pv_ok_select [OF ok]) arith
  show ?case
  proof (cases "pv_filter_active (po_ports (ap_ports a))")
    case True
    then show ?thesis
      using handle_ports_filter_key_inv [OF "1.prems"] by (cases key) (simp_all add: handle_ports_list_key_at)
  next
    case False
    show ?thesis
    proof (cases key)
      case (KChar b)
      then show ?thesis
        using "1.IH" [OF False refl KChar] "1.prems" fin False by (simp add: handle_ports_list_key_at)
    qed (use False fin up bot in \<open>simp_all add: handle_ports_list_key_at Let_def "1.prems"\<close>)
  qed
qed

lemma handle_processes_list_key_inv: "app_inv rt a \<Longrightarrow> app_inv rt (fst (handle_processes_list_key rt key a))"
proof (induction rt key a rule: handle_processes_list_key.induct)
  case (1 rt key a)
  note ok = app_invD(5) [OF "1.prems"]
  note fin = app_inv_parts(3) [OF "1.prems"] sv_ok_select [OF ok] sv_ok_filter_active [OF ok]
  have up: "sv_selection (po_processes (ap_ports a)) - Suc 0 < sv_visible_count (x_unicode rt) (po_processes (ap_ports a)) \<or>
      sv_selection (po_processes (ap_ports a)) - Suc 0 = 0"
    using ok by (auto simp: sv_ok_def procs.sel_ok_def)
  have bot: "sv_ok (x_unicode rt)
      ((po_processes (ap_ports a))\<lparr>sv_selection := sv_visible_count (x_unicode rt) (po_processes (ap_ports a)) - Suc 0\<rparr>)"
    by (rule sv_ok_select [OF ok]) arith
  show ?case
  proof (cases "sv_filter_active (po_processes (ap_ports a))")
    case True
    then show ?thesis
      using handle_processes_filter_key_inv [OF "1.prems"] by (cases key) (simp_all add: handle_processes_list_key_at)
  next
    case False
    show ?thesis
    proof (cases key)
      case (KChar b)
      then show ?thesis
        using "1.IH" [OF False refl KChar] "1.prems" fin False by (simp add: handle_processes_list_key_at)
    qed (use False fin up bot in \<open>simp_all add: handle_processes_list_key_at Let_def "1.prems"\<close>)
  qed
qed

lemma handle_ports_key_inv: "app_inv rt a \<Longrightarrow> app_inv rt (fst (handle_ports_key rt key a))"
  using handle_ports_list_key_inv [of rt a key] handle_processes_list_key_inv [of rt a key]
  by (auto simp: handle_ports_key_def Let_def app_inv_def split: ports_active_view.splits)

lemma dispatch_open_remote_pane_inv: "app_inv rt a \<Longrightarrow> app_inv rt (fst (dispatch_open_remote_pane rt now a))"
  by (auto simp: dispatch_open_remote_pane_def alloc_sub_id_def split: option.splits prod.splits
      dest: push_toast_inv_eq [where rt = rt])

lemma dispatch_fleet_reconnect_inv: "app_inv rt a \<Longrightarrow> app_inv rt (fst (dispatch_fleet_reconnect rt now a))"
  by (auto simp: dispatch_fleet_reconnect_def alloc_sub_id_def register_action_def split: option.splits)

lemma handle_fleet_key_inv: "app_inv rt a \<Longrightarrow> app_inv rt (fst (handle_fleet_key rt now key a))"
proof (induction rt now key a rule: handle_fleet_key.induct)
  case (1 rt now key a)
  note ok = app_invD(6) [OF "1.prems"]
  note fin = app_inv_parts(4) [OF "1.prems"] fl_ok_select [OF ok] fl_ok_filter_active [OF ok] dispatch_open_remote_pane_inv [OF "1.prems"]
    dispatch_fleet_reconnect_inv [OF "1.prems"]
  have up: "fl_selection (ap_fleet a) - Suc 0 < fl_visible_count (x_unicode rt) (ap_fleet a) \<or>
      fl_selection (ap_fleet a) - Suc 0 = 0"
    using ok by (auto simp: fleet_ok_def fleet.sel_ok_def)
  have bot: "fleet_ok (x_unicode rt)
      ((ap_fleet a)\<lparr>fl_selection := fl_visible_count (x_unicode rt) (ap_fleet a) - Suc 0\<rparr>)"
    by (rule fl_ok_select [OF ok]) arith
  show ?case
  proof (cases "fl_filter_active (ap_fleet a)")
    case True
    then show ?thesis
      using handle_fleet_filter_key_inv [OF "1.prems"] by (cases key) (simp_all add: handle_fleet_key_at)
  next
    case False
    show ?thesis
    proof (cases key)
      case (KChar b)
      then show ?thesis
        using "1.IH" [OF False refl KChar] "1.prems" fin False by (simp add: handle_fleet_key_at)
    qed (use False fin up bot in \<open>simp_all add: handle_fleet_key_at Let_def "1.prems"\<close>)
  qed
qed

section \<open>Host picker and retargeting\<close>

lemma sel_ok_empty:
  "docker.sel_ok u (d\<lparr>ds_state := DsConnecting, ds_selection := 0\<rparr>)"
  "ports.sel_ok u (v\<lparr>pv_state := PvConnecting, pv_selection := 0\<rparr>)"
  "procs.sel_ok u (w\<lparr>sv_state := SvConnecting, sv_selection := 0\<rparr>)"
  by (simp_all add: docker.sel_ok_def ports.sel_ok_def procs.sel_ok_def ds_visible_count_def
      pv_visible_count_def sv_visible_count_def)

lemma open_host_picker_inv:
  "app_inv rt a \<Longrightarrow> \<not> ap_help_visible a \<Longrightarrow> app_inv rt (fst (open_host_picker a))"
  by (auto simp: open_host_picker_def Let_def app_inv_def panes_ok_def
      split: option.splits prod.splits)

lemma dismiss_host_picker_inv: "app_inv rt a \<Longrightarrow> app_inv rt (fst (dismiss_host_picker a))"
  by (auto simp: dismiss_host_picker_def intro: app_inv_parts)

lemma retarget_docker_inv: "app_inv rt a \<Longrightarrow> app_inv rt (fst (retarget_docker t a))"
proof -
  assume i: "app_inv rt a"
  have "docker_ok u (d\<lparr>ds_view := DvList, ds_state := DsConnecting, ds_selection := 0,
      ds_pending_confirm := None, ds_target := t\<rparr>)" if "filter_ok (ds_filter d)" for u d
    using that by (simp add: docker_ok_def docker_sel_ok_def ds_visible_count_def)
  moreover have "docker_ok u (d\<lparr>ds_state := DsConnecting, ds_selection := 0,
      ds_pending_confirm := None, ds_target := t\<rparr>)" if "filter_ok (ds_filter d)" "ds_view d = DvList" for u d
    using that by (simp add: docker_ok_def docker_sel_ok_def ds_visible_count_def)
  moreover have "filter_ok (ds_filter (ap_docker a))"
    using app_invD(3) [OF i] by (simp add: docker_ok_def)
  ultimately show ?thesis
    using i by (auto simp: retarget_docker_def intro!: app_inv_parts split: docker_view.splits)
qed

lemma app_inv_ports_target [simp]:
  "app_inv rt (a\<lparr>ap_ports := (s\<lparr>po_ports_target := t\<rparr>)\<rparr>) = app_inv rt (a\<lparr>ap_ports := s\<rparr>)"
  "app_inv rt (a\<lparr>ap_ports := (s\<lparr>po_processes_target := t\<rparr>)\<rparr>) = app_inv rt (a\<lparr>ap_ports := s\<rparr>)"
  by (simp_all add: app_inv_def)

lemma retarget_views_inv:
  assumes i: "app_inv rt a"
  shows "app_inv rt (fst (retarget_ports t a))" "app_inv rt (fst (retarget_processes t a))"
proof -
  have "pv_ok u (v\<lparr>pv_state := PvConnecting, pv_selection := 0\<rparr>)" if "filter_ok (pv_filter v)" for u v
    using that sel_ok_empty(2) by (simp add: pv_ok_def)
  moreover have "sv_ok u (w\<lparr>sv_state := SvConnecting, sv_selection := 0\<rparr>)" if "filter_ok (sv_filter w)" for u w
    using that sel_ok_empty(3) by (simp add: sv_ok_def)
  ultimately show "app_inv rt (fst (retarget_ports t a))" "app_inv rt (fst (retarget_processes t a))"
    using i app_invD(4,5) [OF i] app_inv_parts(2,3) [OF i]
    by (auto simp: retarget_ports_def retarget_processes_def pv_ok_def sv_ok_def)
qed

lemma commit_host_picker_inv: "app_inv rt a \<Longrightarrow> app_inv rt (fst (commit_host_picker a))"
  by (auto simp: commit_host_picker_def Let_def retarget_docker_inv retarget_views_inv
      split: option.splits host_picker_row.splits host_picker_target_tile.splits intro: app_inv_parts
      intro!: retarget_docker_inv retarget_views_inv)

lemma picker_select_inv:
  "app_inv rt a \<Longrightarrow> ap_host_picker a = Some p \<Longrightarrow> app_inv rt (fst (picker_select i p a))"
  by (simp add: picker_select_def app_inv_def)

lemma handle_host_picker_key_inv: "app_inv rt a \<Longrightarrow> app_inv rt (fst (handle_host_picker_key key a))"
  by (auto simp: handle_host_picker_key_def Let_def picker_select_inv commit_host_picker_inv
      dismiss_host_picker_inv split: option.splits)

section \<open>Panes\<close>

lemma app_inv_stack:
  "app_inv rt a \<Longrightarrow> (stack \<noteq> [] \<Longrightarrow> i < length stack) \<Longrightarrow>
     app_inv rt (a\<lparr>ap_pane_stack := stack, ap_active_pane := i\<rparr>)"
  by (simp add: app_inv_def panes_ok_def)

lemma app_inv_pane_update: "app_inv rt a' \<longleftrightarrow> app_inv rt (a'\<lparr>ap_pane_stack := ap_pane_stack a'\<rparr>)"
  by simp

text \<open>What an operation on the pane stack leaves alone.\<close>

definition panes_only :: "'p app \<Rightarrow> 'p app \<Rightarrow> bool" where
  "panes_only a a' \<longleftrightarrow> ap_view a' = ap_view a \<and> ap_docker a' = ap_docker a \<and> ap_ports a' = ap_ports a \<and>
     ap_fleet a' = ap_fleet a \<and> ap_scope_key_parser a' = ap_scope_key_parser a \<and>
     ap_input_filter a' = ap_input_filter a \<and> ap_help_visible a' = ap_help_visible a \<and>
     ap_host_picker a' = ap_host_picker a \<and>
     (length (ap_toasts a) \<le> MAX_TOASTS \<longrightarrow> length (ap_toasts a') \<le> MAX_TOASTS)"

lemma panes_only_inv: "app_inv rt a \<Longrightarrow> panes_only a a' \<Longrightarrow> panes_ok a' \<Longrightarrow> app_inv rt a'"
  by (simp add: app_inv_def panes_only_def)

lemma close_active_pane_inv: "app_inv rt a \<Longrightarrow> close_active_pane rt' a = Inr (a', acts) \<Longrightarrow> app_inv rt a'"
proof (rule panes_only_inv)
  assume i: "app_inv rt a" and c: "close_active_pane rt' a = Inr (a', acts)"
  show "panes_ok a'" using close_active_pane_ok [OF app_invD(2) [OF i] c] .
  show "panes_only a a'"
    using c by (auto simp: close_active_pane_def panes_only_def alloc_sub_id_def Let_def vec_remove_def
        split: if_splits prod.splits)
qed

lemma panes_only_toast: "panes_only b a \<Longrightarrow> panes_only b (fst (push_toast_at now k m a))"
  by (auto simp: panes_only_def push_toast_at_def Let_def MAX_TOASTS_def)

lemma panes_only_stack:
  "panes_only a (a\<lparr>ap_pane_stack := st\<rparr>)" "panes_only a (a\<lparr>ap_pane_stack := st, ap_active_pane := i\<rparr>)"
  "panes_only a a"
  by (simp_all add: panes_only_def)

lemma handle_pane_event_inv:
  assumes "app_inv rt a" "idx < length (ap_pane_stack a)" "handle_pane_event rt' now idx ev a = Inr (a', acts)"
  shows "app_inv rt a'"
proof (rule panes_only_inv [OF assms(1)])
  show "panes_ok a'" using handle_pane_event_ok [OF app_invD(2) [OF assms(1)] assms(2,3)] .
  show "panes_only a a'"
  proof (cases ev)
    case (EvPaneExit c)
    then show ?thesis
      using assms(3) by (rule_tac handle_pane_exit_cases [OF assms(2), of now c])
        (auto simp: panes_only_toast panes_only_stack split: if_splits)
  qed (use assms(2,3) in \<open>auto simp: pane_process_in panes_only_stack split: if_splits\<close>)
qed

lemma handle_pane_opened_inv: "app_inv rt a \<Longrightarrow> app_inv rt (fst (handle_pane_opened rt' info a))"
  by (auto simp: handle_pane_opened_def app_inv_def panes_ok_def Let_def view_ok_def
      split: list.splits prod.splits)

lemma default_focus_present: "tile (default_for rn area) (tl_default_focus (default_for rn area)) \<noteq> None"
  by (cases "r_width area < MIN_COLS \<or> r_height area < MIN_ROWS")
    (auto simp: default_for_def tiny_fallback_def tile_def Let_def)

lemma handle_resize_inv: "app_inv rt a \<Longrightarrow> app_inv rt (fst (handle_resize rt rows cols a))"
  using default_focus_present
  by (auto simp: handle_resize_def app_inv_def panes_ok_def view_ok_def Let_def split: prod.splits)

lemma app_inv_active:
  "app_inv rt a \<Longrightarrow> i < length (ap_pane_stack a) \<Longrightarrow> app_inv rt (a\<lparr>ap_active_pane := i\<rparr>)"
  by (simp add: app_inv_def panes_ok_def)

lemma dispatch_pty_click_inv:
  "app_inv rt a \<Longrightarrow> dispatch_pty_click rt' r x y a = Inr (a', acts) \<Longrightarrow> app_inv rt a'"
  unfolding dispatch_pty_click_def Let_def
  by (auto intro: app_inv_active close_active_pane_inv split: option.splits if_splits tab_strip_hit.splits)

section \<open>Daemon messages and time\<close>

lemma handle_docker_event_inv: "app_inv rt a \<Longrightarrow> app_inv rt (fst (handle_docker_event rt ev a))"
proof -
  assume i: "app_inv rt a"
  note ok = app_invD(3) [OF i]
  have "docker_ok u (clamp_selection u (d\<lparr>ds_state := st\<rparr>))"
    "docker_ok u (d\<lparr>ds_state := DsUnavailable r, ds_selection := 0\<rparr>)" if "docker_ok u d" for u d st r
    using that clamp_selection_sel by (auto simp: docker_ok_def docker_sel_ok_def ds_visible_count_def)
  then show ?thesis using i ok by (cases ev) (auto intro!: app_inv_parts)
qed

lemma handle_ports_event_inv: "app_inv rt a \<Longrightarrow> app_inv rt (fst (handle_ports_event rt ev a))"
proof -
  assume i: "app_inv rt a"
  have "filter_ok (pv_filter (po_ports (ap_ports a)))"
    using app_invD(4) [OF i] by (simp add: pv_ok_def)
  moreover have "pv_ok u (v\<lparr>pv_state := PvUnavailable r, pv_selection := 0\<rparr>)" if "filter_ok (pv_filter v)" for u v r
    using that by (simp add: pv_ok_def ports.sel_ok_def pv_visible_count_def)
  ultimately show ?thesis using i by (cases ev) (auto intro!: app_inv_parts pv_reanchor_ok simp: Let_def)
qed

lemma handle_processes_event_inv: "app_inv rt a \<Longrightarrow> app_inv rt (fst (handle_processes_event rt ev a))"
proof -
  assume i: "app_inv rt a"
  have "filter_ok (sv_filter (po_processes (ap_ports a)))"
    using app_invD(5) [OF i] by (simp add: sv_ok_def)
  moreover have "sv_ok u (v\<lparr>sv_state := SvUnavailable r, sv_selection := 0\<rparr>)" if "filter_ok (sv_filter v)" for u v r
    using that by (simp add: sv_ok_def procs.sel_ok_def sv_visible_count_def)
  ultimately show ?thesis using i by (cases ev) (auto intro!: app_inv_parts sv_reanchor_ok simp: Let_def)
qed

lemma host_state_changed_inv: "app_inv rt a \<Longrightarrow> app_inv rt (fst (host_state_changed now alias st reason a))"
proof -
  assume i: "app_inv rt a"
  have "fleet_ok u (f\<lparr>fl_state := FsAvailable hosts states' source\<rparr>)"
    if "fleet_ok u f" "fl_state f = FsAvailable hosts states source" for u f hosts states states' source
  proof -
    have "fl_matches u (f\<lparr>fl_state := s\<rparr>) = fl_matches u f" for s
      by (rule ext) (simp add: fl_matches_def)
    then show ?thesis using that by (simp add: fleet_ok_def fleet.sel_ok_def fl_visible_count_def)
  qed
  then show ?thesis
    using i app_invD(6) [OF i] push_toast_inv [of rt]
    by (auto simp: host_state_changed_def Let_def case_prod_beta intro!: app_inv_parts push_toast_inv
        split: fleet_scope_state.splits option.splits)
qed

lemma handle_fleet_event_inv: "app_inv rt a \<Longrightarrow> app_inv rt (fst (handle_fleet_event rt now ev a))"
proof -
  assume i: "app_inv rt a"
  have "filter_ok (fl_filter (ap_fleet a))"
    using app_invD(6) [OF i] by (simp add: fleet_ok_def)
  then show ?thesis
    using i by (cases ev) (auto intro!: app_inv_parts fl_reanchor_ok host_state_changed_inv simp: Let_def)
qed

lemma handle_logs_event_inv: "app_inv rt a \<Longrightarrow> app_inv rt (fst (handle_logs_event ev a))"
  by (cases ev) (auto intro!: upd_logs_inv ingest_inv end_stream_inv)

lemma action_result_inv:
  "app_inv rt a \<Longrightarrow> app_inv rt (fst (docker_action_result now r a))"
  "app_inv rt a \<Longrightarrow> app_inv rt (fst (fleet_action_result now q a))"
  by (auto simp: docker_action_result_def fleet_action_result_def take_pending_def push_toast_inv
      split: docker_action_outcome.splits fleet_action_outcome.splits)

lemma daemon_error_inv: "app_inv rt a \<Longrightarrow> app_inv rt (fst (daemon_error now info a))"
  by (auto simp: daemon_error_def push_toast_inv split: list.splits bool.splits)

lemma find_pane_in: "find_pane_by_sub a i = Some idx \<Longrightarrow> idx < length (ap_pane_stack a)"
  by (auto simp: find_pane_by_sub_def dest: position_Some)

lemma handle_event_frame_inv:
  "app_inv rt a \<Longrightarrow> handle_event_frame rt now i ev a = Inr (a', acts) \<Longrightarrow> app_inv rt a'"
  using handle_docker_event_inv [of rt a ev] handle_ports_event_inv [of rt a ev]
    handle_processes_event_inv [of rt a ev] handle_fleet_event_inv [of rt a now ev]
    handle_logs_event_inv [of rt a ev]
  by (auto simp: handle_event_frame_def dest: find_pane_in handle_pane_event_inv
      split: option.splits if_splits)

lemma handle_daemon_envelope_inv:
  "app_inv rt a \<Longrightarrow> handle_daemon_envelope rt now p a = Inr (a', acts) \<Longrightarrow> app_inv rt a'"
  using handle_pane_opened_inv [of rt a rt] daemon_error_inv [of rt a now] action_result_inv [of rt a now]
  by (cases p) (auto dest: handle_event_frame_inv, (metis fst_conv)+)

lemma expire_inv: "app_inv rt a \<Longrightarrow> app_inv rt (fst (expire_pending_action_at now a i))"
  by (auto simp: expire_pending_action_at_def push_toast_inv split: option.splits)

lemma run_items_inv:
  assumes "\<And>s b. P s \<Longrightarrow> P (fst (f s b))"
  shows "P s \<Longrightarrow> P (fst (run_items f s bs))"
  by (induction bs arbitrary: s) (auto split: prod.splits dest: assms, metis assms fst_conv)

lemma sweep_expired_inv: "app_inv rt a \<Longrightarrow> app_inv rt (fst (sweep_expired rt now a))"
proof -
  assume i: "app_inv rt a"
  let ?a1 = "if (case ds_pending_confirm (ap_docker a) of Some pc \<Rightarrow> pc_deadline pc \<le> now | None \<Rightarrow> False)
    then a\<lparr>ap_docker := (ap_docker a)\<lparr>ds_pending_confirm := None\<rparr>\<rparr> else a"
  have "app_inv rt ?a1"
    using i by (auto intro: app_inv_parts docker_ok_cancel dest: app_invD(3))
  then have r: "app_inv rt (fst (run_items (expire_pending_action_at now) ?a1 (x_order rt (expired_actions now ?a1))))"
    by (rule run_items_inv [rotated]) (rule expire_inv)
  have "length (filter P (ap_toasts b)) \<le> MAX_TOASTS" if "app_inv rt b" for b :: "'a app" and P
    using app_invD(7) [OF that] length_filter_le le_trans by blast
  then show ?thesis
    using r unfolding sweep_expired_def Let_def
    by (auto intro!: app_inv_parts split: prod.splits)
qed

section \<open>Clicks and keyboard input\<close>

lemma scope_set_selection_inv:
  assumes i: "app_inv rt a" and v: "idx < scope_visible rt kind a"
  shows "app_inv rt (scope_set_selection kind idx a)"
proof (cases kind)
  case ScopeDocker
  then show ?thesis
    using v by (auto simp: scope_set_selection_def scope_visible_def
        intro!: app_inv_parts(1) [OF i] docker_ok_select app_invD(3) [OF i])
next
  case ScopePorts
  then show ?thesis
    using v by (auto simp: scope_set_selection_def scope_visible_def split: ports_active_view.splits
        intro!: app_inv_parts(2,3) [OF i] pv_ok_select sv_ok_select app_invD(4,5) [OF i])
next
  case ScopeFleet
  then show ?thesis
    using v by (auto simp: scope_set_selection_def scope_visible_def
        intro!: app_inv_parts(4) [OF i] fl_ok_select app_invD(6) [OF i])
qed

lemma click_row_inv:
  assumes "app_inv rt a" "idx < scope_visible rt kind a"
  shows "app_inv rt (fst (click_row rt tid kind idx now a))"
proof -
  let ?a = "(scope_set_selection kind idx a)\<lparr>ap_last_click := Some (tid, idx, now)\<rparr>"
  have "app_inv rt ?a" using scope_set_selection_inv [OF assms] by simp
  then show ?thesis
    using dispatch_open_remote_pane_inv [of rt ?a now]
    unfolding click_row_def Let_def by (auto split: prod.splits)
qed

lemma dispatch_scope_click_inv:
  "app_inv rt a \<Longrightarrow> \<not> ap_help_visible a \<Longrightarrow> app_inv rt (fst (dispatch_scope_click rt tid kind r x y now a))"
  unfolding dispatch_scope_click_def Let_def
  by (auto simp: open_host_picker_inv not_le intro: click_row_inv split: option.splits)

lemma move_focus_help [simp]:
  "ap_help_visible (fst (move_focus_to t a)) = ap_help_visible a"
  by (simp add: move_focus_to_def Let_def)

lemma handle_mouse_click_inv:
  assumes i: "app_inv rt a" and r: "handle_mouse_click_at rt x y now a = Inr (a', acts)"
  shows "app_inv rt a'"
proof (cases "tile_under rt a x y")
  case None
  then show ?thesis
    using i r dismiss_host_picker_inv [OF i]
    by (auto simp: handle_mouse_click_at_def split: if_splits intro: app_inv_parts)
next
  case (Some t)
  obtain a1 acts1 where m: "move_focus_to (td_id t) a = (a1, acts1)"
    by (cases "move_focus_to (td_id t) a")
  have i1: "app_inv rt a1"
    using move_focus_inv [OF i tile_under_present [OF Some]] m by simp
  have h1: "ap_help_visible a1 = ap_help_visible a"
    using move_focus_help [of "td_id t" a] m by simp
  show ?thesis
    using r Some m i1 h1 dismiss_host_picker_inv [OF i] app_inv_parts(9) [OF i]
      dispatch_pty_click_inv [OF i1] dispatch_scope_click_inv [OF i1]
    by (auto simp: handle_mouse_click_at_def and_then_Inr_iff case_prod_beta split: if_splits tile_kind.splits)
qed

lemma scope_keys_inv:
  assumes "\<And>k b. app_inv rt b \<Longrightarrow> app_inv rt (fst (f k b))" and i: "app_inv rt a"
  shows "app_inv rt (fst (scope_keys f bytes a))"
proof -
  obtain st keys where p: "key_parse (ap_scope_key_parser a) bytes = (st, keys)"
    by (cases "key_parse (ap_scope_key_parser a) bytes")
  have "st \<noteq> KsEscape"
    using key_parse_state [of "ap_scope_key_parser a" bytes] p by simp
  then have "app_inv rt (a\<lparr>ap_scope_key_parser := st\<rparr>)"
    using i by (intro app_inv_parts)
  then show ?thesis
    unfolding scope_keys_def p by (simp add: run_items_inv [where P = "app_inv rt"] assms(1))
qed

lemma handle_forward_bytes_inv:
  "app_inv rt a \<Longrightarrow> handle_forward_bytes rt now b a = Inr (a', acts) \<Longrightarrow> app_inv rt a'"
  using scope_keys_inv [of rt "handle_scope_key rt now" a b] scope_keys_inv [of rt "handle_ports_key rt" a b]
    scope_keys_inv [of rt "handle_fleet_key rt now" a b]
  by (auto simp: handle_forward_bytes_def and_then_Inr_iff handle_scope_key_inv handle_ports_key_inv
      handle_fleet_key_inv split: if_splits option.splits scope_kind.splits)

lemma picker_keys_inv: "app_inv rt a \<Longrightarrow> app_inv rt (fst (picker_keys ks a))"
proof (induction ks arbitrary: a)
  case (Cons k ks)
  then show ?case
    using handle_host_picker_key_inv [OF Cons.prems, of k] Cons.IH [of "fst (handle_host_picker_key k a)"]
    by (auto simp: case_prod_beta)
qed simp

lemma help_toggle_inv:
  "app_inv rt a \<Longrightarrow> ap_host_picker a = None \<Longrightarrow> app_inv rt (fst (handle_help_toggle a))"
  by (simp add: handle_help_toggle_def app_inv_def)

lemma help_input_inv:
  "app_inv rt a \<Longrightarrow> ap_help_visible a \<Longrightarrow> app_inv rt (fst (fst (help_input ia a)))"
  using app_invD(10) [of rt a]
  by (cases ia) (auto simp: help_input_def intro!: help_toggle_inv app_inv_parts)

lemma picker_input_inv: "app_inv rt a \<Longrightarrow> app_inv rt (fst (fst (picker_input ia a)))"
proof (cases ia)
  case (Forward b)
  moreover assume i: "app_inv rt a"
  ultimately show ?thesis
    using key_parse_state [of "ap_scope_key_parser a" b]
    by (auto simp: picker_input_def intro!: picker_keys_inv app_inv_parts split: prod.splits)
next
  case Help
  moreover assume i: "app_inv rt a"
  ultimately show ?thesis
    by (auto simp: picker_input_def dismiss_host_picker_def handle_help_toggle_def app_inv_def
        panes_ok_def split: prod.splits)
qed (simp_all add: picker_input_def dismiss_host_picker_inv)

lemma plain_input_inv:
  "app_inv rt a \<Longrightarrow> \<not> ap_help_visible a \<Longrightarrow> ap_host_picker a = None \<Longrightarrow>
     plain_input rt now ia a = Inr (h, stop) \<Longrightarrow> app_inv rt (fst h)"
  by (cases ia)
    (auto simp: plain_input_def and_then_Inr_iff focus_direction_inv help_toggle_inv open_host_picker_inv
      split: if_splits dest: handle_forward_bytes_inv handle_tab_inv close_active_pane_inv)

lemma handle_input_action_inv:
  "app_inv rt a \<Longrightarrow> handle_input_action rt now ia a = Inr (h, stop) \<Longrightarrow> app_inv rt (fst h)"
  using help_input_inv [of rt a ia] picker_input_inv [of rt a ia] plain_input_inv [of rt a now ia h stop]
  by (auto simp: handle_input_action_def split: if_splits)

lemma input_actions_inv: "app_inv rt a \<Longrightarrow> input_actions rt now ias a = Inr (a', acts) \<Longrightarrow> app_inv rt a'"
proof (induction ias arbitrary: a acts)
  case (Cons ia ias)
  then show ?case
    using handle_input_action_inv [OF Cons.prems(1)]
    by (fastforce simp: and_then_Inr_iff split: if_splits)
qed simp

lemma handle_stdin_inv: "app_inv rt a \<Longrightarrow> handle_stdin rt now bytes a = Inr (a', acts) \<Longrightarrow> app_inv rt a'"
proof -
  assume i: "app_inv rt a" and h: "handle_stdin rt now bytes a = Inr (a', acts)"
  obtain st ias where p: "process (ap_input_filter a) bytes = (st, ias)"
    by (cases "process (ap_input_filter a) bytes")
  have "filter_inv st"
    using process_from_inv [OF app_invD(9) [OF i], of "[]" bytes] p by (simp add: process_def)
  then have "app_inv rt (a\<lparr>ap_input_filter := st\<rparr>)"
    using i by (intro app_inv_parts)
  then show ?thesis
    using h input_actions_inv unfolding handle_stdin_def p by simp
qed

lemma handle_event_inv: "app_inv rt a \<Longrightarrow> handle_event rt now e a = Inr (a', acts) \<Longrightarrow> app_inv rt a'"
  using handle_resize_inv [of rt a] sweep_expired_inv [of rt a now] expire_inv [of rt a now]
    handle_mouse_hover_inv [of rt a]
  by (cases e) (auto dest: handle_stdin_inv handle_daemon_envelope_inv handle_mouse_click_inv
      split: prod.splits, (metis fst_conv)+)

section \<open>A run of the application\<close>

text \<open>The machine of the whole application: once it has panicked it stays so.\<close>

definition app_step :: "'p rt \<Rightarrow> instant \<times> app_event \<Rightarrow> panic + 'p app \<Rightarrow> panic + 'p app" where
  "app_step rt e s = and_then s (\<lambda>a. and_then (handle_event rt (fst e) (snd e) a) (\<lambda>(a', acts). Inr a'))"

definition running_inv :: "'p rt \<Rightarrow> panic + 'p app \<Rightarrow> bool" where
  "running_inv rt s \<longleftrightarrow> (case s of Inr a \<Rightarrow> app_inv rt a | Inl p \<Rightarrow> True)"

interpretation app_machine: event_machine "app_step rt" "running_inv rt" for rt :: "'p rt"
proof unfold_locales
  fix s :: "panic + 'p app" and e
  assume "running_inv rt s"
  then show "running_inv rt (app_step rt e s)"
    by (cases s; cases "handle_event rt (fst e) (snd e) (projr s)")
      (auto simp: running_inv_def app_step_def dest: handle_event_inv)
qed

lemma app_new_inv:
  "app_inv rt (app_new rt pane shell dims)"
  using default_focus_present
  by (auto simp: app_new_def app_inv_def view_new_def view_ok_def panes_ok_def docker_ok_def
      docker_sel_ok_def docker_scope_new_def ports_scope_new_def fleet_scope_new_def pv_ok_def sv_ok_def
      fleet_ok_def ports.sel_ok_def procs.sel_ok_def fleet.sel_ok_def ds_visible_count_def
      pv_visible_count_def sv_visible_count_def fl_visible_count_def Let_def split: prod.splits)

end
