(* ===== verification/AppSafety.thy ===== *)
theory AppSafety
  imports AppInv
begin

text \<open>
  When the state machine can panic: what the key maps leave alone, and that every index into the pane
  stack is in range as long as there is a pane.
\<close>

section \<open>Handlers that leave panes and focus alone\<close>

definition same_panes :: "'p app \<Rightarrow> 'p app \<Rightarrow> bool" where
  "same_panes a a' \<longleftrightarrow> ap_view a' = ap_view a \<and> ap_pane_stack a' = ap_pane_stack a \<and>
     ap_active_pane a' = ap_active_pane a"

lemma same_panes_refl [simp]: "same_panes a a"
  by (simp add: same_panes_def)

lemma same_panes_trans: "same_panes a b \<Longrightarrow> same_panes b c \<Longrightarrow> same_panes a c"
  by (simp add: same_panes_def)

lemma same_panes_updates [simp]:
  "same_panes a (b\<lparr>ap_docker := d\<rparr>) = same_panes a b" "same_panes a (b\<lparr>ap_ports := s\<rparr>) = same_panes a b"
  "same_panes a (b\<lparr>ap_fleet := f\<rparr>) = same_panes a b" "same_panes a (b\<lparr>ap_toasts := t\<rparr>) = same_panes a b"
  "same_panes a (b\<lparr>ap_next_sub_id := i\<rparr>) = same_panes a b"
  "same_panes a (b\<lparr>ap_pending_actions := pa\<rparr>) = same_panes a b"
  "same_panes a (b\<lparr>ap_pending_opens := po\<rparr>) = same_panes a b"
  "same_panes a (b\<lparr>ap_scope_key_parser := k\<rparr>) = same_panes a b"
  "same_panes a (b\<lparr>ap_input_filter := fi\<rparr>) = same_panes a b"
  "same_panes a (b\<lparr>ap_help_visible := h\<rparr>) = same_panes a b"
  "same_panes a (b\<lparr>ap_host_picker := hp\<rparr>) = same_panes a b"
  by (simp_all add: same_panes_def)

lemma push_toast_panes [simp]: "same_panes a (fst (push_toast_at now k m b)) = same_panes a b"
  by (simp add: push_toast_at_def Let_def)

lemma dispatch_panes [simp]:
  "same_panes a (fst (dispatch_docker_action now c n k b)) = same_panes a b"
  "same_panes a (fst (issue_selected_docker_action rt now k b)) = same_panes a b"
  "same_panes a (fst (begin_confirm rt now k b)) = same_panes a b"
  "same_panes a (fst (try_enter_logs_view rt b)) = same_panes a b"
  "same_panes a (fst (upd_logs g b)) = same_panes a b"
  "same_panes a (fst (dispatch_fleet_reconnect rt now b)) = same_panes a b"
  by (simp_all add: dispatch_docker_action_def issue_selected_docker_action_def begin_confirm_def
      try_enter_logs_view_def upd_logs_def dispatch_fleet_reconnect_def alloc_sub_id_def
      register_action_def split: option.splits docker_view.splits)

lemma open_remote_panes [simp]: "same_panes a (fst (dispatch_open_remote_pane rt now b)) = same_panes a b"
  by (simp add: dispatch_open_remote_pane_def alloc_sub_id_def case_prod_beta Let_def split: option.splits)

lemma docker_key_panes:
  "same_panes a (fst (handle_logs_key key a))" "same_panes a (fst (handle_confirm_key now pc key a))"
  "same_panes a (fst (handle_docker_filter_key rt key a))"
  by (auto simp: handle_logs_key_def handle_confirm_key_def handle_docker_filter_key_def Let_def
      split: docker_view.splits scope_key.splits option.splits)

lemma handle_scope_key_panes: "same_panes a (fst (handle_scope_key rt now key a))"
proof (induction rt now key a rule: handle_scope_key.induct)
  case (1 rt now key a)
  then show ?case
    using docker_key_panes [of a]
    by (cases key) (auto simp: handle_scope_key_at Let_def split: docker_view.splits option.splits)
qed

lemma filter_key_panes:
  "same_panes a (fst (handle_ports_filter_key rt key a))"
  "same_panes a (fst (handle_processes_filter_key rt key a))"
  "same_panes a (fst (handle_fleet_filter_key rt key a))"
  by (auto simp: handle_ports_filter_key_def handle_processes_filter_key_def handle_fleet_filter_key_def
      split: scope_key.splits option.splits)

lemma handle_ports_list_key_panes: "same_panes a (fst (handle_ports_list_key rt key a))"
proof (induction rt key a rule: handle_ports_list_key.induct)
  case (1 rt key a)
  then show ?case
    using filter_key_panes(1) by (cases key) (auto simp: handle_ports_list_key_at Let_def)
qed

lemma handle_processes_list_key_panes: "same_panes a (fst (handle_processes_list_key rt key a))"
proof (induction rt key a rule: handle_processes_list_key.induct)
  case (1 rt key a)
  then show ?case
    using filter_key_panes(2) by (cases key) (auto simp: handle_processes_list_key_at Let_def)
qed

lemma handle_ports_key_panes: "same_panes a (fst (handle_ports_key rt key a))"
  using handle_ports_list_key_panes handle_processes_list_key_panes
  by (auto simp: handle_ports_key_def Let_def split: ports_active_view.splits)

lemma handle_fleet_key_panes: "same_panes a (fst (handle_fleet_key rt now key a))"
proof (induction rt now key a rule: handle_fleet_key.induct)
  case (1 rt now key a)
  then show ?case
    using filter_key_panes(3) by (cases key) (auto simp: handle_fleet_key_at Let_def)
qed

lemma run_items_panes:
  assumes "\<And>s k. same_panes s (fst (f s k))"
  shows "same_panes s (fst (run_items f s ks))"
proof (induction ks arbitrary: s)
  case (Cons k ks)
  show ?case
    using same_panes_trans [OF assms [of s k] Cons.IH [of "fst (f s k)"]] by (simp add: case_prod_beta)
qed simp

lemma scope_keys_panes:
  assumes "\<And>k s. same_panes s (fst (f k s))"
  shows "same_panes a (fst (scope_keys f bytes a))"
proof -
  have "same_panes (a\<lparr>ap_scope_key_parser := st\<rparr>)
      (fst (run_items (\<lambda>s k. f k s) (a\<lparr>ap_scope_key_parser := st\<rparr>) keys))" for st keys
    by (rule run_items_panes) (rule assms)
  then show ?thesis
    by (auto simp: scope_keys_def same_panes_def split: prod.splits)
qed

lemma retarget_panes [simp]:
  "same_panes a (fst (retarget_docker t b)) = same_panes a b"
  "same_panes a (fst (retarget_ports t b)) = same_panes a b"
  "same_panes a (fst (retarget_processes t b)) = same_panes a b"
  "same_panes a (fst (dismiss_host_picker b)) = same_panes a b"
  "same_panes a (fst (picker_select i p b)) = same_panes a b"
  by (simp_all add: retarget_docker_def retarget_ports_def retarget_processes_def dismiss_host_picker_def
      picker_select_def split: docker_view.splits)

lemma commit_panes [simp]: "same_panes a (fst (commit_host_picker b)) = same_panes a b"
  by (simp add: commit_host_picker_def Let_def split: option.splits host_picker_row.splits
      host_picker_target_tile.splits)

lemma picker_key_panes: "same_panes a (fst (handle_host_picker_key key a))"
  unfolding handle_host_picker_key_def Let_def by (simp split: option.splits)

lemma picker_keys_panes: "same_panes a (fst (picker_keys ks a))"
proof (induction ks arbitrary: a)
  case (Cons k ks)
  show ?case
    using picker_key_panes [of a k] same_panes_trans [OF picker_key_panes Cons.IH, of a k]
    by (simp add: case_prod_beta)
qed simp

section \<open>Panics\<close>

lemma active_pane_id_panics:
  "panes_ok a \<Longrightarrow> active_pane_id a = Inl p \<Longrightarrow> p = IndexOutOfBounds \<and> ap_pane_stack a = []"
  by (cases "ap_pane_stack a = []") (auto simp: active_pane_id_def panes_ok_def vec_index_def)

lemma scope_keys_panes_eq:
  "(\<And>k s. same_panes s (fst (f k s))) \<Longrightarrow> scope_keys f bytes a = (a', acts) \<Longrightarrow> same_panes a a'"
  using scope_keys_panes [of f a bytes] by simp

lemma handle_forward_panes:
  "handle_forward_bytes rt now b a = Inr (a', acts) \<Longrightarrow> same_panes a a'"
  by (auto simp: handle_forward_bytes_def and_then_Inr_iff split: if_splits option.splits scope_kind.splits
      dest: scope_keys_panes_eq [OF handle_scope_key_panes] scope_keys_panes_eq [OF handle_ports_key_panes]
        scope_keys_panes_eq [OF handle_fleet_key_panes])

text \<open>A \<open>Forward\<close> leaves panes and focus alone and does not end the chunk.\<close>

lemma forward_action_panes:
  assumes "handle_input_action rt now (Forward w) a = Inr ((a', acts), stop)"
  shows "same_panes a a' \<and> \<not> stop"
proof -
  have "same_panes (a\<lparr>ap_scope_key_parser := st\<rparr>) (fst (picker_keys ks (a\<lparr>ap_scope_key_parser := st\<rparr>)))" for st ks
    by (rule picker_keys_panes)
  then have "same_panes a (fst (picker_keys ks (a\<lparr>ap_scope_key_parser := st\<rparr>)))" for st ks
    by (simp add: same_panes_def)
  from this show ?thesis
    using assms
    by (auto simp: handle_input_action_def help_input_def picker_input_def plain_input_def
        and_then_Inr_iff handle_forward_panes split: if_splits prod.splits)
      (metis fst_conv)
qed

lemma input_action_panics:
  assumes "panes_ok a" "handle_input_action rt now ia a = Inl p"
  shows "p = IndexOutOfBounds \<and> ap_pane_stack a = [] \<and> focus_routes_to_pty a"
  using assms close_active_pane_total [OF assms(1), of rt]
  by (cases ia)
    (auto simp: handle_input_action_def plain_input_def handle_forward_bytes_def handle_tab_def
      and_then_Inl_iff split: if_splits dest: active_pane_id_panics)

lemma input_actions_panics:
  assumes i: "panes_ok a"
    and c: "chunk_outcome s st ias"
    and p: "input_actions rt now ias a = Inl p"
  shows "p = IndexOutOfBounds \<and> ap_pane_stack a = [] \<and> focus_routes_to_pty a"
proof -
  have one: "p' = IndexOutOfBounds \<and> ap_pane_stack b = [] \<and> focus_routes_to_pty b"
    if "input_actions rt now [ia] b = Inl p'" "panes_ok b" for ia b p'
    using that by (auto simp: and_then_Inl_iff split: if_splits dest: input_action_panics)
  have two: "p = IndexOutOfBounds \<and> ap_pane_stack a = [] \<and> focus_routes_to_pty a"
    if t: "input_actions rt now (Forward w # as) a = Inl p" and as: "as = [] \<or> (\<exists>ia. as = [ia])" for w as
  proof (cases "handle_input_action rt now (Forward w) a")
    case (Inl q)
    then show ?thesis using t input_action_panics [OF i] by simp
  next
    case (Inr r)
    obtain a1 acts stop where r: "r = ((a1, acts), stop)" by (cases r) auto
    have s: "same_panes a a1" "\<not> stop"
      using forward_action_panes Inr r by blast+
    then have "input_actions rt now as a1 = Inl p"
      using t Inr r by (auto simp: and_then_Inl_iff)
    moreover have "panes_ok a1"
      using i s(1) by (simp add: panes_ok_def same_panes_def)
    ultimately show ?thesis
      using as one [of _ a1 p] s(1)
      by (auto simp: same_panes_def focus_routes_to_pty_def simp del: input_actions.simps(2))
  qed
  from c p show ?thesis
    unfolding chunk_outcome_def flush_def
    using one [OF _ i] two by (auto split: if_splits)
qed

lemma handle_stdin_panics:
  assumes "app_inv rt a" "handle_stdin rt now bytes a = Inl p"
  shows "p = IndexOutOfBounds \<and> ap_pane_stack a = [] \<and> focus_routes_to_pty a"
proof -
  obtain st ias where pr: "process (ap_input_filter a) bytes = (st, ias)"
    by (cases "process (ap_input_filter a) bytes")
  let ?a = "a\<lparr>ap_input_filter := st\<rparr>"
  have "input_actions rt now ias ?a = Inl p"
    using assms(2) by (simp add: handle_stdin_def pr)
  moreover have "panes_ok ?a" using app_invD(2) [OF assms(1)] by simp
  ultimately show ?thesis
    using input_actions_panics [OF _ process_outcome [OF pr]] by (fastforce simp: focus_routes_to_pty_def)
qed

lemma mouse_click_total:
  assumes "app_inv rt a"
  shows "\<exists>a' acts. handle_mouse_click_at rt x y now a = Inr (a', acts)"
proof -
  have "\<exists>a' acts. dispatch_pty_click rt r x y b = Inr (a', acts)" if "panes_ok b" for r and b :: "'a app"
    using close_active_pane_total [OF that, of rt]
    by (auto simp: dispatch_pty_click_def Let_def split: option.splits tab_strip_hit.splits)
  moreover have "panes_ok (fst (move_focus_to t a))" for t
    using app_invD(2) [OF assms] by (simp add: move_focus_to_def Let_def)
  ultimately show ?thesis
    unfolding handle_mouse_click_at_def
    by (auto simp: case_prod_beta split: option.splits tile_kind.splits) (metis and_then.simps(2) prod.case)
qed

lemma daemon_envelope_total:
  "\<exists>a' acts. handle_daemon_envelope rt now p a = Inr (a', acts)"
proof (cases p)
  case (PEvent frame)
  show ?thesis
  proof (cases "find_pane_by_sub a (ef_subscription_id frame)")
    case (Some idx)
    then show ?thesis
      using PEvent handle_pane_event_total [OF find_pane_in [OF Some]] by (simp add: handle_event_frame_def)
  next
    case None
    then have "\<exists>h. handle_event_frame rt now (ef_subscription_id frame) (ef_event frame) a = Inr h"
      by (simp add: handle_event_frame_def)
    then show ?thesis using PEvent by auto
  qed
qed (simp_all add: surj_pair)

lemma handle_event_panics:
  assumes i: "app_inv rt a" and p: "handle_event rt now e a = Inl p"
  shows "p = IndexOutOfBounds \<and> ap_pane_stack a = [] \<and> focus_routes_to_pty a \<and> (\<exists>bytes. e = AeStdinChunk bytes)"
proof (cases e)
  case (AeStdinChunk bytes)
  then show ?thesis using p handle_stdin_panics [OF i] by auto
next
  case (AeDaemonEnvelope env)
  then show ?thesis using p daemon_envelope_total [of rt now "en_payload env" a] by auto
next
  case (AeMouseClick x y)
  then show ?thesis using p mouse_click_total [OF i, of x y now] by auto
qed (use p in \<open>auto split: prod.splits\<close>)

lemma handle_event_runs:
  assumes "app_inv rt a" "ap_pane_stack a \<noteq> [] \<or> \<not> focus_routes_to_pty a"
  shows "\<exists>a' acts. handle_event rt now e a = Inr (a', acts)"
proof (cases "handle_event rt now e a")
  case (Inl p)
  then show ?thesis using handle_event_panics [OF assms(1) Inl] assms(2) by simp
next
  case (Inr h)
  then show ?thesis by (cases h) simp
qed

end
