(* ===== verification/AppProps.thy ===== *)
theory AppProps
  imports AppSafety
begin

text \<open>
  What the TUI's state machine guarantees: the properties of \<open>crates/tepegoz-tui/src/app.rs\<close>, each
  with a concrete instance where it has hypotheses.
\<close>

section \<open>A concrete setting\<close>

text \<open>
  A vt100 parser that keeps what it was fed, ratatui's rectangles as documented, and an application
  on an 80 by 24 terminal.
\<close>

definition demo_rt :: "(u8 list) rt" where
  "demo_rt = \<lparr>x_rect_new = (\<lambda>x y w h. \<lparr>r_x = x, r_y = y, r_width = w, r_height = h\<rparr>),
     x_contains = (\<lambda>r x y. in_rect r (unat x) (unat y)), x_unicode = id,
     x_vt_new = (\<lambda>r c n. []), x_vt_process = (\<lambda>d p. p @ d), x_vt_set_size = (\<lambda>r c p. p),
     x_cwd = None, x_order = id\<rparr>"

definition demo_app :: "(u8 list) app" where
  "demo_app = app_new demo_rt 1 ''/bin/zsh'' (24, 80)"

lemma demo_app_inv: "app_inv demo_rt demo_app"
  by (simp add: demo_app_def app_new_inv)

section \<open>Invariant and panics\<close>

lemma run_app_fold:
  "(case run_app rt es a of Inr (a', acts) \<Rightarrow> Inr a' | Inl p \<Rightarrow> Inl p) = fold (app_step rt) es (Inr a)"
proof (induction es arbitrary: a)
  case (Cons e es)
  obtain now ev where e: "e = (now, ev)" by (cases e)
  have stuck: "fold (app_step rt) es (Inl p) = Inl p" for p
    by (induction es) (simp_all add: app_step_def)
  have step: "app_step rt (now, ev) (Inr a) = and_then (handle_event rt now ev a) (\<lambda>(a', acts). Inr a')"
    by (simp add: app_step_def)
  show ?case
  proof (cases "handle_event rt now ev a")
    case (Inl p)
    then show ?thesis by (simp add: e step stuck)
  next
    case (Inr r)
    then show ?thesis
      using Cons.IH [of "fst r"]
      by (cases r; cases "run_app rt es (fst r)") (auto simp: e step)
  qed
qed simp

lemma run_app_inv:
  "app_inv rt a \<Longrightarrow> run_app rt es a = Inr (a', acts) \<Longrightarrow> app_inv rt a'"
proof -
  assume i: "app_inv rt a" and r: "run_app rt es a = Inr (a', acts)"
  have "running_inv rt (fold (app_step rt) es (Inr a))"
    using i by (intro app_machine.run_inv) (simp add: running_inv_def)
  then show ?thesis
    using run_app_fold [of rt es a, symmetric] r by (simp add: running_inv_def)
qed

text \<open>
  C1. Whatever events arrive, in whatever order and at whatever times, the state a run has reached
  is well formed: the focused tile is one of the layout, the active index points into the pane stack,
  every selection is on a visible row, filters hold printable text, no confirm prompt is up behind a
  transcript, at most three toasts are shown, and help and host picker are never both open.
\<close>

theorem run_keeps_invariant:
  assumes "run_app rt es (app_new rt pane shell dims) = Inr (a, acts)"
  shows "app_inv rt a"
  using app_new_inv assms by (rule run_app_inv)

theorem run_keeps_invariant_witness:
  "\<exists>a acts. run_app demo_rt [(0, AeTick), (5, AeResize 50 132)] (app_new demo_rt 1 ''/bin/zsh'' (24, 80)) =
     Inr (a, acts) \<and> app_inv demo_rt a"
proof -
  obtain a acts where
    "run_app demo_rt [(0, AeTick), (5, AeResize 50 132)] (app_new demo_rt 1 ''/bin/zsh'' (24, 80)) = Inr (a, acts)"
    by (simp add: case_prod_beta)
  then show ?thesis using run_keeps_invariant by blast
qed

lemma fresh_routes_to_pty:
  assumes "rect_new_law (x_rect_new rt)" "MIN_ROWS \<le> rows" "MIN_COLS \<le> cols"
  shows "focus_routes_to_pty (app_new rt pane shell (rows, cols))"
proof -
  have "unat cols \<le> 65535" "unat rows \<le> 65535"
    by (rule u16_le)+
  then have "x_rect_new rt 0 0 cols rows = \<lparr>r_x = 0, r_y = 0, r_width = cols, r_height = rows\<rparr>"
    using assms(1) by (simp add: rect_new_law_def)
  then have "god_sized (x_rect_new rt 0 0 cols rows)"
    using assms(2,3) by (simp add: god_sized_def not_less)
  then show ?thesis
    by (simp add: focus_routes_to_pty_def app_new_def view_new_def Let_def case_prod_beta
        routes_god default_for_focus)
qed

lemma closed_then_key_panics:
  assumes "rect_new_law (x_rect_new rt)" "MIN_ROWS \<le> rows" "MIN_COLS \<le> cols" "plain [b]"
  shows "\<exists>a1 acts. handle_event rt t1 (AeStdinChunk [PREFIX_BYTE, 0x26]) (app_new rt pane shell (rows, cols)) =
      Inr (a1, acts) \<and> handle_event rt t2 (AeStdinChunk [b]) a1 = Inl IndexOutOfBounds"
proof -
  define a where "a = app_new rt pane shell (rows, cols)"
  have f: "focus_routes_to_pty a"
    using fresh_routes_to_pty assms unfolding a_def by blast
  have s: "ap_help_visible a = False" "ap_host_picker a = None" "ap_input_filter a = FNormal"
    "length (ap_pane_stack a) = 1" "ap_active_pane a = 0"
    by (simp_all add: a_def app_new_def Let_def case_prod_beta)
  have pb: "process FNormal [PREFIX_BYTE, 0x26] = (FNormal, [PaneClose])"
    by (simp add: process_def prefix_control_def flush_def)
  obtain e where e: "ap_pane_stack a = [e]"
    using s(4) by (cases "ap_pane_stack a") auto
  obtain a1 acts where c: "close_active_pane rt a = Inr (a1, acts)"
    and a1: "ap_pane_stack a1 = []" "ap_view a1 = ap_view a" "ap_help_visible a1 = False"
      "ap_host_picker a1 = None" "ap_input_filter a1 = FNormal"
    using e s by (simp add: close_active_pane_def vec_remove_def alloc_sub_id_def Let_def case_prod_beta)
  have up: "a\<lparr>ap_input_filter := FNormal\<rparr> = a"
    using s(3) by simp
  have "handle_event rt t1 (AeStdinChunk [PREFIX_BYTE, 0x26]) a = Inr (a1, acts)"
    using f c s(1,2) up
    by (simp add: handle_stdin_def s(3) up pb handle_input_action_def plain_input_def)
  moreover have "handle_event rt t2 (AeStdinChunk [b]) a1 = Inl IndexOutOfBounds"
    using a1 f process_plain [OF assms(4)]
    by (simp add: handle_stdin_def flush_def handle_input_action_def plain_input_def
        handle_forward_bytes_def focus_routes_to_pty_def active_pane_id_def vec_index_def)
  ultimately show ?thesis by (auto simp flip: a_def)
qed

text \<open>
  C2. The state machine can panic only in one situation: the pane stack is empty, the pane tile has
  the focus, and keyboard input arrives. In every reachable state with a pane, every event is handled.
\<close>

theorem panics_only_without_pane:
  assumes "run_app rt es (app_new rt pane shell dims) = Inr (a, acts)"
    and "handle_event rt now e a = Inl p"
  shows "p = IndexOutOfBounds \<and> ap_pane_stack a = [] \<and> focus_routes_to_pty a \<and>
    (\<exists>bytes. e = AeStdinChunk bytes)"
  using run_app_inv [OF app_new_inv assms(1)] assms(2) by (rule handle_event_panics)

theorem panics_only_without_pane_witness:
  "\<exists>a acts p. run_app demo_rt [(3, AeStdinChunk [PREFIX_BYTE, 0x26])] (app_new demo_rt 1 ''/bin/zsh'' (24, 80)) =
       Inr (a, acts) \<and>
     handle_event demo_rt 4 (AeStdinChunk [0x61]) a = Inl p \<and> ap_pane_stack a = [] \<and> focus_routes_to_pty a"
proof -
  have "rect_new_law (x_rect_new demo_rt)" by (simp add: rect_new_law_def demo_rt_def)
  moreover have "MIN_ROWS \<le> 24" "MIN_COLS \<le> 80" "plain [0x61]"
    by (simp_all add: MIN_ROWS_def MIN_COLS_def)
  ultimately obtain a acts where
    a: "handle_event demo_rt 3 (AeStdinChunk [PREFIX_BYTE, 0x26]) (app_new demo_rt 1 ''/bin/zsh'' (24, 80)) = Inr (a, acts)"
    and p: "handle_event demo_rt 4 (AeStdinChunk [0x61]) a = Inl IndexOutOfBounds"
    using closed_then_key_panics [of demo_rt 24 80 "0x61"] by blast
  have r: "run_app demo_rt [(3, AeStdinChunk [PREFIX_BYTE, 0x26])] (app_new demo_rt 1 ''/bin/zsh'' (24, 80)) = Inr (a, acts)"
    using a by simp
  show ?thesis
    using panics_only_without_pane [OF r p] r p by blast
qed

text \<open>
  C38. And there it does panic: on a fresh application closing the only pane (\<open>Ctrl-b &\<close>) and typing
  a key before the daemon has answered with the replacement pane indexes an empty stack.
\<close>

theorem last_pane_closed_then_key_panics:
  assumes "rect_new_law (x_rect_new rt)" "MIN_ROWS \<le> rows" "MIN_COLS \<le> cols" "plain [b]"
  shows "run_app rt [(t1, AeStdinChunk [PREFIX_BYTE, 0x26]), (t2, AeStdinChunk [b])]
    (app_new rt pane shell (rows, cols)) = Inl IndexOutOfBounds"
  using closed_then_key_panics [OF assms, of t1 pane shell t2] by auto

theorem last_pane_closed_then_key_panics_witness:
  "run_app demo_rt [(1, AeStdinChunk [PREFIX_BYTE, 0x26]), (2, AeStdinChunk [0x61])]
     (app_new demo_rt 1 ''/bin/zsh'' (24, 80)) = Inl IndexOutOfBounds"
  by (rule last_pane_closed_then_key_panics)
    (simp_all add: rect_new_law_def demo_rt_def MIN_ROWS_def MIN_COLS_def)

end
