(* ===== verification/PropsInput.thy ===== *)
theory PropsInput
  imports AppProps
begin

text \<open>
  Keyboard, focus and panes: where typed bytes go, what a click focuses, how panes are opened, closed
  and sized (\<open>crates/tepegoz-tui/src/app.rs\<close>, \<open>input.rs\<close>, \<open>tile.rs\<close>).
\<close>

section \<open>Typed bytes\<close>

text \<open>The pane tile has the focus, no overlay is up, and the input filter holds nothing back.\<close>

definition typing_to_pane :: "'p app \<Rightarrow> bool" where
  "typing_to_pane a \<longleftrightarrow> focus_routes_to_pty a \<and> \<not> ap_help_visible a \<and> ap_host_picker a = None \<and>
     ap_input_filter a = FNormal \<and> ap_active_pane a < length (ap_pane_stack a)"

definition active_pane :: "'p app \<Rightarrow> 'p pane_entry" where
  "active_pane a = ap_pane_stack a ! ap_active_pane a"

lemma forward_to_pane:
  "typing_to_pane a \<Longrightarrow> input_actions rt now (flush bs) a =
     Inr (a, if bs = [] then [] else [send (PSendInput (pe_pane_id (active_pane a)) bs)])"
  by (simp add: flush_def typing_to_pane_def handle_input_action_def plain_input_def
      handle_forward_bytes_def active_pane_id_def active_pane_def)

lemma input_actions_append:
  "input_actions rt now ias a = Inr (a1, acts1) \<Longrightarrow> (\<forall>ia \<in> set ias. \<exists>w. ia = Forward w) \<Longrightarrow>
   input_actions rt now (ias @ jas) a =
     and_then (input_actions rt now jas a1) (\<lambda>(a2, acts2). Inr (a2, acts1 @ acts2))"
proof (induction ias arbitrary: a acts1)
  case Nil
  then show ?case by (cases "input_actions rt now jas a1") auto
next
  case (Cons ia ias)
  obtain w where ia: "ia = Forward w" using Cons.prems(2) by auto
  obtain b acts stop where h: "handle_input_action rt now ia a = Inr ((b, acts), stop)"
    using Cons.prems(1) by (auto simp: and_then_Inr_iff)
  have "\<not> stop" using forward_action_panes h ia by blast
  then obtain acts2 where r: "input_actions rt now ias b = Inr (a1, acts2)" "acts1 = acts @ acts2"
    using Cons.prems(1) h by (auto simp: and_then_Inr_iff)
  show ?case
    using Cons.IH [OF r(1)] Cons.prems(2) h \<open>\<not> stop\<close> r(2)
    by (cases "input_actions rt now jas a1") auto
qed

text \<open>
  While the pane tile has the focus, a chunk without any of the global keybindings is sent to the
  active pane, byte for byte and in one message, and nothing else happens.
\<close>

theorem typed_bytes_reach_pane:
  assumes "typing_to_pane a" "plain bs" "bs \<noteq> []"
  shows "handle_event rt now (AeStdinChunk bs) a =
    Inr (a, [send (PSendInput (pe_pane_id (active_pane a)) bs)])"
proof -
  have "ap_input_filter a = FNormal" using assms(1) by (simp add: typing_to_pane_def)
  then have "process (ap_input_filter a) bs = (FNormal, flush bs)" "a\<lparr>ap_input_filter := FNormal\<rparr> = a"
    using process_plain [OF assms(2)] by simp_all
  then show ?thesis
    using forward_to_pane [OF assms(1), of rt now bs] assms(3) by (simp add: handle_stdin_def)
qed

lemma demo_typing: "typing_to_pane demo_app"
  by (simp add: typing_to_pane_def demo_app_def fresh_routes_to_pty rect_new_law_def demo_rt_def
      MIN_ROWS_def MIN_COLS_def) (simp add: app_new_def Let_def case_prod_beta)

theorem typed_bytes_reach_pane_witness:
  "handle_event demo_rt 0 (AeStdinChunk (bytes_of ''ls'')) demo_app =
     Inr (demo_app, [send (PSendInput (pe_pane_id (active_pane demo_app)) (bytes_of ''ls''))])"
  by (rule typed_bytes_reach_pane [OF demo_typing]) (simp_all add: bytes_of_def byte_of_def)

text \<open>
  A \<open>Tab\<close> ends the chunk: the pane gets the text before it and the tab itself, and whatever
  followed the tab in the same read (the rest of a paste, say) is dropped.
\<close>

theorem tab_drops_rest_of_chunk:
  assumes "typing_to_pane a" "plain xs"
  shows "handle_event rt now (AeStdinChunk (xs @ TAB # ys)) a =
    Inr (a, (if xs = [] then [] else [send (PSendInput (pe_pane_id (active_pane a)) xs)]) @
            [send (PSendInput (pe_pane_id (active_pane a)) [TAB])])"
proof -
  have f: "ap_input_filter a = FNormal" using assms(1) by (simp add: typing_to_pane_def)
  have "input_actions rt now (flush xs @ [FocusNext]) a =
      and_then (input_actions rt now [FocusNext] a)
        (\<lambda>(a2, acts2). Inr (a2, (if xs = [] then [] else [send (PSendInput (pe_pane_id (active_pane a)) xs)]) @ acts2))"
    by (rule input_actions_append [OF forward_to_pane [OF assms(1)]]) (auto simp: flush_def)
  moreover have "input_actions rt now [FocusNext] a = Inr (a, [send (PSendInput (pe_pane_id (active_pane a)) [TAB])])"
    using assms(1) by (simp add: typing_to_pane_def handle_input_action_def plain_input_def handle_tab_def
        active_pane_id_def active_pane_def)
  moreover have up: "a\<lparr>ap_input_filter := FNormal\<rparr> = a" using f by simp
  ultimately show ?thesis
    using process_tab_cuts [OF assms(2), of ys] f by (simp add: handle_stdin_def up)
qed

theorem tab_drops_rest_of_chunk_witness:
  "handle_event demo_rt 0 (AeStdinChunk (bytes_of ''a'' @ TAB # bytes_of ''b'')) demo_app =
     Inr (demo_app, (if bytes_of ''a'' = [] then []
        else [send (PSendInput (pe_pane_id (active_pane demo_app)) (bytes_of ''a''))]) @
       [send (PSendInput (pe_pane_id (active_pane demo_app)) [TAB])])"
  by (rule tab_drops_rest_of_chunk [OF demo_typing]) (simp add: bytes_of_def byte_of_def)

section \<open>Keys of a tile never reach a pane\<close>

fun is_send_input :: "app_action \<Rightarrow> bool" where
  "is_send_input (SendEnvelope env) = (case en_payload env of PSendInput _ _ \<Rightarrow> True | _ \<Rightarrow> False)"
| "is_send_input _ = False"

abbreviation no_input :: "app_action list \<Rightarrow> bool" where
  "no_input acts \<equiv> list_all (\<lambda>x. \<not> is_send_input x) acts"

lemma en_payload_mk [simp]: "en_payload (mk_envelope p) = p"
  by (simp add: mk_envelope_def)

lemma no_input_basic [simp]:
  "no_input (snd (push_toast_at now k m a))"
  "no_input (snd (dispatch_docker_action now c n kd a))"
  "no_input (snd (issue_selected_docker_action rt now kd a))"
  "no_input (snd (begin_confirm rt now kd a))" "no_input (snd (try_enter_logs_view rt a))"
  "no_input (snd (upd_logs g a))" "no_input (snd (dispatch_fleet_reconnect rt now a))"
  "no_input (snd (dispatch_open_remote_pane rt now a))"
  by (simp_all add: push_toast_at_def dispatch_docker_action_def issue_selected_docker_action_def
      begin_confirm_def try_enter_logs_view_def upd_logs_def dispatch_fleet_reconnect_def
      dispatch_open_remote_pane_def alloc_sub_id_def case_prod_beta Let_def
      split: option.splits docker_view.splits)

lemma docker_key_no_input:
  "no_input (snd (handle_logs_key key a))" "no_input (snd (handle_confirm_key now pc key a))"
  "no_input (snd (handle_docker_filter_key rt key a))"
  by (auto simp: handle_logs_key_def handle_confirm_key_def handle_docker_filter_key_def Let_def
      split: docker_view.splits scope_key.splits option.splits)

lemma handle_scope_key_no_input: "no_input (snd (handle_scope_key rt now key a))"
proof (induction rt now key a rule: handle_scope_key.induct)
  case (1 rt now key a)
  then show ?case
    using docker_key_no_input
    by (cases key) (auto simp: handle_scope_key_at Let_def split: docker_view.splits option.splits)
qed

lemma filter_key_no_input:
  "no_input (snd (handle_ports_filter_key rt key a))"
  "no_input (snd (handle_processes_filter_key rt key a))"
  "no_input (snd (handle_fleet_filter_key rt key a))"
  by (auto simp: handle_ports_filter_key_def handle_processes_filter_key_def handle_fleet_filter_key_def
      split: scope_key.splits option.splits)

lemma handle_ports_key_no_input: "no_input (snd (handle_ports_key rt key a))"
proof -
  have "no_input (snd (handle_ports_list_key rt key a))"
  proof (induction rt key a rule: handle_ports_list_key.induct)
    case (1 rt key a)
    then show ?case
      using filter_key_no_input(1) by (cases key) (auto simp: handle_ports_list_key_at Let_def)
  qed
  moreover have "no_input (snd (handle_processes_list_key rt key a))"
  proof (induction rt key a rule: handle_processes_list_key.induct)
    case (1 rt key a)
    then show ?case
      using filter_key_no_input(2) by (cases key) (auto simp: handle_processes_list_key_at Let_def)
  qed
  ultimately show ?thesis
    by (simp add: handle_ports_key_def Let_def split: ports_active_view.splits)
qed

lemma handle_fleet_key_no_input: "no_input (snd (handle_fleet_key rt now key a))"
proof (induction rt now key a rule: handle_fleet_key.induct)
  case (1 rt now key a)
  then show ?case
    using filter_key_no_input(3) by (cases key) (auto simp: handle_fleet_key_at Let_def)
qed

lemma run_items_all:
  "(\<And>s k. list_all P (snd (f s k))) \<Longrightarrow> list_all P (snd (run_items f s ks))"
  by (induction ks arbitrary: s) (auto simp: case_prod_beta)

lemma scope_keys_no_input:
  "(\<And>k s. no_input (snd (f k s))) \<Longrightarrow> no_input (snd (scope_keys f bytes a))"
  by (simp add: scope_keys_def run_items_all split: prod.splits)

lemma scope_keys_no_input_eq:
  "(\<And>k s. no_input (snd (f k s))) \<Longrightarrow> scope_keys f bytes a = (a', acts) \<Longrightarrow> no_input acts"
  using scope_keys_no_input [of f bytes a] by simp

lemma picker_key_no_input: "no_input (snd (handle_host_picker_key key a))"
proof -
  have r: "no_input (snd (retarget_docker t b))" "no_input (snd (retarget_ports t b))"
    "no_input (snd (retarget_processes t b))" for t and b :: "'a app"
    by (simp_all add: retarget_docker_def retarget_ports_def retarget_processes_def split: docker_view.splits)
  then have "no_input (snd (commit_host_picker a))"
    by (simp add: commit_host_picker_def Let_def split: option.splits host_picker_row.splits
        host_picker_target_tile.splits)
  then show ?thesis
    unfolding handle_host_picker_key_def Let_def
    by (simp add: picker_select_def dismiss_host_picker_def split: option.splits)
qed

lemma picker_keys_no_input: "no_input (snd (picker_keys ks a))"
proof (induction ks arbitrary: a)
  case (Cons k ks)
  then show ?case
    using picker_key_no_input [of k a] by (simp add: case_prod_beta)
qed simp

lemma input_action_no_input:
  assumes "\<not> focus_routes_to_pty a" "handle_input_action rt now ia a = Inr (h, stop)"
  shows "no_input (snd h)"
proof -
  have m: "no_input (snd (move_focus_to t a))" for t
    by (simp add: move_focus_to_def Let_def)
  have f: "handle_forward_bytes rt now b a = Inr (b', acts') \<Longrightarrow> no_input acts'" for b b' acts'
    using assms(1)
    by (auto simp: handle_forward_bytes_def split: option.splits scope_kind.splits
        dest: scope_keys_no_input_eq [OF handle_scope_key_no_input]
          scope_keys_no_input_eq [OF handle_ports_key_no_input]
          scope_keys_no_input_eq [OF handle_fleet_key_no_input])
  have t: "handle_tab fw a = Inr (b', acts') \<Longrightarrow> no_input acts'" for fw b' acts'
    using assms(1) m by (auto simp: handle_tab_def handle_focus_cycle_def split: option.splits) (metis snd_conv)
  have d: "no_input (snd (handle_focus_direction dir a))" "no_input (snd (open_host_picker a))" for dir
    using m by (auto simp: handle_focus_direction_def open_host_picker_def Let_def split: option.splits prod.splits)
  show ?thesis
    using assms d picker_keys_no_input
    by (cases ia)
      (auto simp: handle_input_action_def help_input_def picker_input_def plain_input_def and_then_Inr_iff
        handle_help_toggle_def dismiss_host_picker_def case_prod_beta split: if_splits dest: f t)
qed

lemma input_actions_no_input:
  assumes f: "\<not> focus_routes_to_pty a" and c: "chunk_outcome st fs ias"
    and r: "input_actions rt now ias a = Inr (a', acts)"
  shows "no_input acts"
proof -
  have one: "no_input acts1"
    if "input_actions rt now [ia] b = Inr (b', acts1)" "\<not> focus_routes_to_pty b" for ia b b' acts1
    using that by (auto simp: and_then_Inr_iff split: if_splits dest: input_action_no_input)
  have two: "no_input acts"
    if t: "input_actions rt now (Forward w # ias') a = Inr (a', acts)" and as: "ias' = [] \<or> (\<exists>ia. ias' = [ia])"
    for w ias'
  proof -
    obtain a1 acts1 stop where h: "handle_input_action rt now (Forward w) a = Inr ((a1, acts1), stop)"
      using t by (auto simp: and_then_Inr_iff)
    have s: "same_panes a a1" "\<not> stop" using forward_action_panes [OF h] by simp_all
    obtain acts2 where i2: "input_actions rt now ias' a1 = Inr (a', acts2)" "acts = acts1 @ acts2"
      using t h s(2) by (auto simp: and_then_Inr_iff)
    have "\<not> focus_routes_to_pty a1"
      using f s(1) by (simp add: same_panes_def focus_routes_to_pty_def)
    then have "no_input acts2"
      using as i2(1) one [of _ a1 a' acts2] by (auto simp del: input_actions.simps(2))
    then show ?thesis
      using input_action_no_input [OF f h] i2(2) by simp
  qed
  from c r show ?thesis
    unfolding chunk_outcome_def flush_def
    using one [OF _ f] two by (auto simp del: input_actions.simps(2) split: if_splits)
qed

text \<open>
  C35. While any other tile has the focus, no keyboard input is sent to a pane, whatever the chunk
  holds: what is typed into a filter bar, a transcript, the host picker or a prompt stays there.
\<close>

theorem scope_input_never_reaches_pane:
  assumes "\<not> focus_routes_to_pty a" "handle_event rt now (AeStdinChunk bytes) a = Inr (a', acts)"
  shows "list_all (\<lambda>x. \<not> is_send_input x) acts"
proof -
  obtain st ias where p: "process (ap_input_filter a) bytes = (st, ias)"
    by (cases "process (ap_input_filter a) bytes")
  have "input_actions rt now ias (a\<lparr>ap_input_filter := st\<rparr>) = Inr (a', acts)"
    using assms(2) by (simp add: handle_stdin_def p)
  moreover have "\<not> focus_routes_to_pty (a\<lparr>ap_input_filter := st\<rparr>)"
    using assms(1) by (simp add: focus_routes_to_pty_def)
  ultimately show ?thesis
    using input_actions_no_input process_outcome [OF p] by blast
qed

definition demo_docker_app :: "(u8 list) app" where
  "demo_docker_app = fst (move_focus_to TileDocker demo_app)"

lemma demo_god: "god_sized (x_rect_new demo_rt 0 0 80 24)"
  by (simp add: god_sized_def demo_rt_def MIN_COLS_def MIN_ROWS_def)

lemma demo_layout: "vw_layout (ap_view demo_app) = default_for (x_rect_new demo_rt) (x_rect_new demo_rt 0 0 80 24)"
  by (simp add: demo_app_def app_new_def view_new_def Let_def case_prod_beta)

lemma demo_focused: "vw_focused (ap_view demo_app) = TilePty"
  by (simp add: demo_app_def app_new_def view_new_def Let_def case_prod_beta default_for_focus demo_god)

lemma demo_docker_focus:
  "vw_focused (ap_view demo_docker_app) = TileDocker"
  "vw_layout (ap_view demo_docker_app) = vw_layout (ap_view demo_app)"
  by (simp_all add: demo_docker_app_def move_focus_to_def demo_focused)

lemma demo_docker_inv: "app_inv demo_rt demo_docker_app"
  unfolding demo_docker_app_def
  by (rule move_focus_inv [OF demo_app_inv]) (simp add: demo_layout default_for_present demo_god del: not_None_eq)

theorem scope_input_never_reaches_pane_witness:
  "\<exists>a acts. handle_event demo_rt 0 (AeStdinChunk (bytes_of ''jK'')) demo_docker_app = Inr (a, acts) \<and>
     list_all (\<lambda>x. \<not> is_send_input x) acts"
proof -
  have f: "\<not> focus_routes_to_pty demo_docker_app"
    by (simp add: focus_routes_to_pty_def demo_docker_focus demo_layout routes_god demo_god)
  obtain a acts where "handle_event demo_rt 0 (AeStdinChunk (bytes_of ''jK'')) demo_docker_app = Inr (a, acts)"
    using handle_event_runs [OF demo_docker_inv] f by blast
  then show ?thesis using scope_input_never_reaches_pane [OF f] by blast
qed

section \<open>The mouse\<close>

lemma close_active_view: "close_active_pane rt a = Inr (a', acts) \<Longrightarrow> ap_view a' = ap_view a"
  by (auto simp: close_active_pane_def vec_remove_def alloc_sub_id_def Let_def case_prod_beta
      split: if_splits)

lemma pty_click_view: "dispatch_pty_click rt r x y a = Inr (a', acts) \<Longrightarrow> ap_view a' = ap_view a"
  by (auto simp: dispatch_pty_click_def Let_def split: option.splits if_splits tab_strip_hit.splits
      dest: close_active_view)

lemma scope_click_view: "ap_view (fst (dispatch_scope_click rt i k r x y now a)) = ap_view a"
proof -
  have "ap_view (fst (dispatch_open_remote_pane rt now b)) = ap_view b" for b
    using open_remote_panes [of b rt now b] by (simp add: same_panes_def)
  moreover have "ap_view (scope_set_selection kk j b) = ap_view b" for kk j and b :: "'a app"
    by (simp add: scope_set_selection_def split: scope_kind.splits ports_active_view.splits)
  ultimately have "ap_view (fst (click_row rt i k j now a)) = ap_view a" for j
    by (simp add: click_row_def Let_def case_prod_beta)
  moreover have "ap_view (fst (open_host_picker a)) = ap_view a"
    by (simp add: open_host_picker_def Let_def split: option.splits prod.splits)
  ultimately show ?thesis
    by (simp add: dispatch_scope_click_def Let_def split: option.splits)
qed

text \<open>
  On the god view a left click moves the focus to the tile under the pointer: exactly one tile of
  the layout covers that cell, and it is the focused one afterwards.
\<close>

theorem click_focuses_tile_under_pointer:
  assumes laws: "rect_new_law (x_rect_new rt)" "rect_contains_law (x_contains rt)"
    and layout: "vw_layout (ap_view a) = default_for (x_rect_new rt) area" "god_area area"
    and inside: "in_rect area (unat x) (unat y)"
    and free: "\<not> ap_help_visible a" "ap_host_picker a = None"
    and click: "handle_event rt now (AeMouseClick x y) a = Inr (a', acts)"
  shows "\<exists>t. filter (\<lambda>t. in_rect (td_rect t) (unat x) (unat y)) (tl_tiles (vw_layout (ap_view a))) = [t] \<and>
    vw_focused (ap_view a') = td_id t"
proof -
  let ?ts = "tl_tiles (vw_layout (ap_view a))"
  have "length (filter (\<lambda>t. in_rect (td_rect t) (unat x) (unat y)) ?ts) = 1"
    using default_for_partition [OF laws(1) layout(2), of "unat x" "unat y"] inside layout(1) by simp
  then obtain t where t: "filter (\<lambda>t. in_rect (td_rect t) (unat x) (unat y)) ?ts = [t]"
    by (auto simp: length_Suc_conv)
  have c: "x_contains rt (td_rect s) x y = in_rect (td_rect s) (unat x) (unat y)" if "s \<in> set ?ts" for s
    using laws(2) default_for_fits [OF laws(1) layout(2)] that layout(1) by (auto simp: rect_contains_law_def)
  have fc: "List.find P us = (case filter P us of [] \<Rightarrow> None | u # _ \<Rightarrow> Some u)" for P and us :: "tile_def list"
    by (induction us) auto
  have "filter (\<lambda>t. x_contains rt (td_rect t) x y) ?ts = [t]"
    using t c by (simp cong: filter_cong)
  then have u: "tile_under rt a x y = Some t"
    by (simp add: tile_under_def fc)
  have m: "vw_focused (ap_view (fst (move_focus_to (td_id t) a))) = td_id t"
    by (simp add: move_focus_to_def Let_def)
  show ?thesis
    using click free u t m
    by (auto simp: handle_mouse_click_at_def and_then_Inr_iff case_prod_beta pty_click_view scope_click_view
        split: tile_kind.splits)
qed

lemma demo_laws: "rect_new_law (x_rect_new demo_rt)" "rect_contains_law (x_contains demo_rt)"
  by (simp_all add: rect_new_law_def rect_contains_law_def demo_rt_def)

lemma demo_area: "god_area (x_rect_new demo_rt 0 0 80 24)"
  by (simp add: god_area_def rect_fits_def demo_rt_def)

theorem click_focuses_tile_under_pointer_witness:
  "\<exists>a acts t. handle_event demo_rt 7 (AeMouseClick 30 16) demo_app = Inr (a, acts) \<and>
     filter (\<lambda>t. in_rect (td_rect t) (unat (30 :: u16)) (unat (16 :: u16)))
       (tl_tiles (vw_layout (ap_view demo_app))) = [t] \<and> vw_focused (ap_view a) = td_id t"
proof -
  have "ap_pane_stack demo_app \<noteq> []" "\<not> ap_help_visible demo_app" "ap_host_picker demo_app = None"
    by (simp_all add: demo_app_def app_new_def Let_def case_prod_beta)
  moreover have "in_rect (x_rect_new demo_rt 0 0 80 24) (unat (30 :: u16)) (unat (16 :: u16))"
    by (simp add: in_rect_def demo_rt_def)
  moreover obtain a acts where "handle_event demo_rt 7 (AeMouseClick 30 16) demo_app = Inr (a, acts)"
    using handle_event_runs [OF demo_app_inv] calculation(1) by blast
  ultimately show ?thesis
    using click_focuses_tile_under_pointer [OF demo_laws demo_layout demo_area] by blast
qed

section \<open>The size of a pane\<close>

lemma pty_content_dims_pos: "0 < fst (pty_content_dims l) \<and> 0 < snd (pty_content_dims l)"
proof -
  have "0 < max (w :: u16) 1" for w
    by (simp add: max_def word_less_nat_alt word_le_nat_alt)
  then show ?thesis
    by (auto simp: pty_content_dims_def pty_tile_dims_def FALLBACK_PTY_COLS_def split: option.splits)
qed

text \<open>
  After a resize every pane's screen and every pane of the daemon has one and the same size, which
  is never zero (a zero size would make the screen's constructor panic), and the focus is on a tile of
  the new layout.
\<close>

theorem resize_sizes_every_pane:
  assumes "handle_event rt now (AeResize rows cols) a = Inr (a', acts)"
  shows "\<exists>r c. 0 < r \<and> 0 < c \<and> pty_content_dims (vw_layout (ap_view a')) = (r, c) \<and>
    map pe_parser (ap_pane_stack a') = map (\<lambda>e. x_vt_set_size rt r c (pe_parser e)) (ap_pane_stack a) \<and>
    map pe_pane_id (ap_pane_stack a') = map pe_pane_id (ap_pane_stack a) \<and>
    acts = map (\<lambda>e. send (PResizePane (pe_pane_id e) r c)) (ap_pane_stack a) @ [DrawFrame] \<and>
    tile (vw_layout (ap_view a')) (vw_focused (ap_view a')) \<noteq> None"
proof -
  obtain r c where d: "pty_content_dims (default_for (x_rect_new rt) (x_rect_new rt 0 0 cols rows)) = (r, c)"
    by (cases "pty_content_dims (default_for (x_rect_new rt) (x_rect_new rt 0 0 cols rows))")
  have "0 < r" "0 < c"
    using pty_content_dims_pos [of "default_for (x_rect_new rt) (x_rect_new rt 0 0 cols rows)"] d by simp_all
  then show ?thesis
    using assms d default_focus_present [of "x_rect_new rt" "x_rect_new rt 0 0 cols rows"]
    by (auto simp: handle_resize_def Let_def o_def split: if_splits)
qed

theorem resize_sizes_every_pane_witness:
  "\<exists>a acts r c. handle_event demo_rt 0 (AeResize 40 120) demo_app = Inr (a, acts) \<and> 0 < r \<and> 0 < c \<and>
     pty_content_dims (vw_layout (ap_view a)) = (r, c)"
proof -
  obtain a acts where "handle_event demo_rt 0 (AeResize 40 120) demo_app = Inr (a, acts)"
    by (cases "handle_event demo_rt 0 (AeResize 40 120) demo_app") auto
  then show ?thesis using resize_sizes_every_pane by blast
qed

text \<open>
  The size a pane is given is not the size of the box it is drawn in. The renderer draws the
  screen inside the tile's border and below the tab strip; the pane is told it has two rows and two
  columns more than that, so the last rows and columns of its screen are never visible.
\<close>

definition drawable_dims :: "rect_ctor \<Rightarrow> rect \<Rightarrow> (u16 \<times> u16) option" where
  "drawable_dims rn r =
     (case inset_rect rn r of
        None \<Rightarrow> None
      | Some inner \<Rightarrow>
          Some (if 2 \<le> r_height inner then r_height inner - 1 else r_height inner, r_width inner))"

theorem pane_larger_than_its_box:
  assumes "rect_new_law rn" "god_area area" "rect_of (default_for rn area) TilePty = Some r"
  shows "\<exists>rows cols. drawable_dims rn r = Some (rows, cols) \<and>
    pty_content_dims (default_for rn area) = (rows + 2, cols + 2)"
proof -
  obtain t where t: "t \<in> set (tl_tiles (default_for rn area))" "td_id t = TilePty" "td_rect t = r"
    using assms(3) by (auto simp: rect_of_def tile_def dest: find_prop)
  have "(TilePty, nat_rect r) \<in> set (god_rects (nat_rect area))"
    unfolding default_for_god(1) [OF assms(1,2), symmetric] using t by force
  then have r: "unat (r_width r) = unat (r_width area)" "unat (r_height r) = pty_rows_of (unat (r_height area))"
    by (auto simp: nat_rect_def Let_def)
  have fit: "rect_fits r"
    using default_for_fits [OF assms(1,2)] t by blast
  have big: "80 \<le> unat (r_width r)" "6 \<le> unat (r_height r)"
    using r assms(2) pty_rows_bounds [of "unat (r_height area)"] by (simp_all add: god_area_def)
  have sub: "unat (r_width r - 2) = unat (r_width r) - 2" "unat (r_height r - 2) = unat (r_height r) - 2"
    "unat (r_height r - 3) = unat (r_height r) - 3" "unat (r_height r - 1) = unat (r_height r) - 1"
    using big by (simp_all add: unat_sub word_le_nat_alt)
  have add: "unat (r_x r + 1) = unat (r_x r) + 1" "unat (r_y r + 1) = unat (r_y r) + 1"
    using fit big by (simp_all add: rect_fits_def unat_add_fits)
  have "unat (r_x r + 1) + unat (r_width r - 2) \<le> 65535 \<and> unat (r_y r + 1) + unat (r_height r - 2) \<le> 65535"
    using fit big unfolding sub add rect_fits_def by linarith
  from assms(1) [unfolded rect_new_law_def, rule_format, OF this]
  have "inset_rect rn r = Some \<lparr>r_x = r_x r + 1, r_y = r_y r + 1, r_width = r_width r - 2, r_height = r_height r - 2\<rparr>"
    using big by (simp add: inset_rect_def word_less_nat_alt)
  moreover have ge: "2 \<le> r_height r - 2"
  proof -
    have "unat (2 :: u16) \<le> unat (r_height r - 2)" unfolding sub(2) using big(2) by simp
    then show ?thesis by (simp only: word_le_nat_alt)
  qed
  ultimately have "drawable_dims rn r = Some (r_height r - 3, r_width r - 2)"
    using ge by (simp add: drawable_dims_def)
  moreover have "saturating_sub (max (r_height r) 1) 1 = r_height r - 1" "max (r_height r - 1) 1 = r_height r - 1"
    "max (r_width r) 1 = r_width r"
    using big sub by (simp_all add: saturating_sub_def max_def word_le_nat_alt word_less_nat_alt) linarith
  then have "pty_content_dims (default_for rn area) = (r_height r - 1, r_width r)"
    using assms(3) by (simp add: pty_content_dims_def pty_tile_dims_def)
  ultimately show ?thesis by simp
qed

theorem pane_larger_than_its_box_witness:
  "\<exists>r rows cols. rect_of (default_for (x_rect_new demo_rt) (x_rect_new demo_rt 0 0 80 24)) TilePty = Some r \<and>
     drawable_dims (x_rect_new demo_rt) r = Some (rows, cols) \<and>
     pty_content_dims (default_for (x_rect_new demo_rt) (x_rect_new demo_rt 0 0 80 24)) = (rows + 2, cols + 2)"
proof -
  obtain r where r: "rect_of (default_for (x_rect_new demo_rt) (x_rect_new demo_rt 0 0 80 24)) TilePty = Some r"
    using default_for_present [of "x_rect_new demo_rt" "x_rect_new demo_rt 0 0 80 24" TilePty] demo_god
    by (auto simp: rect_of_def)
  then show ?thesis
    using pane_larger_than_its_box [OF demo_laws(1) demo_area r] by blast
qed

section \<open>Opening and closing panes\<close>

lemma nth_after_remove:
  "i < length xs \<Longrightarrow> j \<noteq> i \<Longrightarrow> j < length xs \<Longrightarrow>
     (take i xs @ drop (Suc i) xs) ! (if i < j then j - 1 else j) = xs ! j"
  by (auto simp: nth_append min_def)

text \<open>
  When a pane's process exits, its tab goes and the user keeps looking at the same pane as
  before, whatever its new position, unless it was the one that exited; the last pane's exit ends the
  session.
\<close>

theorem pane_exit_keeps_active_pane:
  assumes "app_inv rt a" "idx < length (ap_pane_stack a)" "idx \<noteq> ap_active_pane a"
    and "handle_pane_event rt now idx (EvPaneExit code) a = Inr (a', acts)"
  shows "ap_pane_stack a' = take idx (ap_pane_stack a) @ drop (Suc idx) (ap_pane_stack a) \<and>
    ap_active_pane a' < length (ap_pane_stack a') \<and>
    ap_pane_stack a' ! ap_active_pane a' = ap_pane_stack a ! ap_active_pane a"
proof -
  have l: "ap_active_pane a < length (ap_pane_stack a)"
    using app_invD(2) [OF assms(1)] assms(2) by (auto simp: panes_ok_def)
  let ?rest = "take idx (ap_pane_stack a) @ drop (Suc idx) (ap_pane_stack a)"
  have ne: "?rest \<noteq> []" using l assms(2,3) by (cases "idx = 0") (auto simp: Suc_le_eq)
  have len: "length ?rest = length (ap_pane_stack a) - 1"
    using assms(2) by simp
  have act: "active_after_exit idx (ap_active_pane a) (length ?rest) =
      (if idx < ap_active_pane a then ap_active_pane a - 1 else ap_active_pane a)"
    using l assms(2,3) unfolding len by (auto simp: active_after_exit_def Let_def)
  have lt: "(if idx < ap_active_pane a then ap_active_pane a - 1 else ap_active_pane a) <
      length (ap_pane_stack a) - 1"
    using l assms(2,3) by auto
  show ?thesis
    using lt assms(4) act ne nth_after_remove [OF assms(2) _ l] assms(3) l len
    by (rule_tac handle_pane_exit_cases [OF assms(2), of now code]) auto
qed

definition demo_entry :: "pane_id \<Rightarrow> u64 \<Rightarrow> (u8 list) pane_entry" where
  "demo_entry p i = \<lparr>pe_pane_id = p, pe_sub_id = i, pe_label = ''sh'', pe_parser = []\<rparr>"

definition demo_two :: "(u8 list) app" where
  "demo_two = demo_app\<lparr>ap_pane_stack := [demo_entry 1 1, demo_entry 2 6], ap_active_pane := 1\<rparr>"

lemma demo_two_inv: "app_inv demo_rt demo_two"
  unfolding demo_two_def by (rule app_inv_stack [OF demo_app_inv]) simp

theorem pane_exit_keeps_active_pane_witness:
  "\<exists>a acts. handle_pane_event demo_rt 9 0 (EvPaneExit (Some 1)) demo_two = Inr (a, acts) \<and>
     ap_pane_stack a ! ap_active_pane a = demo_entry 2 6"
proof -
  have s: "ap_pane_stack demo_two = [demo_entry 1 1, demo_entry 2 6]" "ap_active_pane demo_two = 1"
    by (simp_all add: demo_two_def)
  obtain a acts where h: "handle_pane_event demo_rt 9 0 (EvPaneExit (Some 1)) demo_two = Inr (a, acts)"
    using handle_pane_event_total [of 0 demo_two demo_rt 9 "EvPaneExit (Some 1)"] s by auto
  show ?thesis
    using pane_exit_keeps_active_pane [OF demo_two_inv _ _ h] h s by auto
qed

abbreviation opened_event :: "pane_info \<Rightarrow> app_event" where
  "opened_event info \<equiv> AeDaemonEnvelope (mk_envelope (PPaneOpened info))"

lemma handle_pane_opened_effect:
  assumes "ap_pending_opens a = pend # rest"
  shows "map (\<lambda>e. (pe_pane_id e, pe_sub_id e)) (ap_pane_stack (fst (handle_pane_opened rt info a))) =
      map (\<lambda>e. (pe_pane_id e, pe_sub_id e)) (ap_pane_stack a) @ [(pi_id info, po_sub_id pend)]"
    and "ap_pending_opens (fst (handle_pane_opened rt info a)) = rest"
    and "ap_active_pane (fst (handle_pane_opened rt info a)) = length (ap_pane_stack a)"
  using assms by (simp_all add: handle_pane_opened_def Let_def case_prod_beta)

text \<open>
  Requests to open a pane are answered in order: after any number of \<open>PaneOpened\<close> replies, each
  new tab carries the pane of the \<open>n\<close>-th reply and the subscription of the \<open>n\<close>-th request, the
  unanswered requests are still queued in order, and the newest pane is the active one.
\<close>

theorem opens_answered_in_order:
  assumes "length infos \<le> length (ap_pending_opens a)"
    and "run_app rt (map (\<lambda>i. (now, opened_event i)) infos) a = Inr (a', acts)"
  shows "map (\<lambda>e. (pe_pane_id e, pe_sub_id e)) (ap_pane_stack a') =
      map (\<lambda>e. (pe_pane_id e, pe_sub_id e)) (ap_pane_stack a) @
      zip (map pi_id infos) (map po_sub_id (ap_pending_opens a)) \<and>
    ap_pending_opens a' = drop (length infos) (ap_pending_opens a) \<and>
    (infos \<noteq> [] \<longrightarrow> Suc (ap_active_pane a') = length (ap_pane_stack a'))"
  using assms
proof (induction infos arbitrary: a acts)
  case (Cons info infos)
  obtain pend rest where p: "ap_pending_opens a = pend # rest"
    using Cons.prems(1) by (cases "ap_pending_opens a") auto
  let ?a = "fst (handle_pane_opened rt info a)"
  note e = handle_pane_opened_effect [OF p, of rt info]
  have l: "length (ap_pane_stack ?a) = Suc (length (ap_pane_stack a))"
    using arg_cong [OF e(1), of length] by simp
  obtain acts' where r: "run_app rt (map (\<lambda>i. (now, opened_event i)) infos) ?a = Inr (a', acts')"
    using Cons.prems(2) by (auto simp: and_then_Inr_iff case_prod_beta)
  show ?case
  proof (cases infos)
    case Nil
    then show ?thesis using r e l p by simp
  next
    case (Cons i infos')
    then show ?thesis
      using Cons.IH [OF _ r] Cons.prems(1) e p by simp
  qed
qed simp

definition demo_info :: "pane_id \<Rightarrow> pane_info" where
  "demo_info i = \<lparr>pi_id = i, pi_created_at_unix_millis = 0, pi_rows = 24, pi_cols = 80,
     pi_shell = ''ssh:web'', pi_alive = True\<rparr>"

definition demo_waiting :: "(u8 list) app" where
  "demo_waiting = demo_app\<lparr>ap_pending_opens :=
     [\<lparr>po_sub_id = 6, po_alias = Some ''web''\<rparr>, \<lparr>po_sub_id = 7, po_alias = Some ''db''\<rparr>]\<rparr>"

theorem opens_answered_in_order_witness:
  "\<exists>a acts. run_app demo_rt (map (\<lambda>i. (1, opened_event i)) [demo_info 40, demo_info 41]) demo_waiting = Inr (a, acts) \<and>
     map (\<lambda>e. (pe_pane_id e, pe_sub_id e)) (ap_pane_stack a) = [(1, 1), (40, 6), (41, 7)] \<and>
     ap_pending_opens a = []"
proof -
  obtain a acts where
    r: "run_app demo_rt (map (\<lambda>i. (1, opened_event i)) [demo_info 40, demo_info 41]) demo_waiting = Inr (a, acts)"
    by (simp add: case_prod_beta)
  have "map (\<lambda>e. (pe_pane_id e, pe_sub_id e)) (ap_pane_stack demo_waiting) = [(1, 1)]"
    by (simp add: demo_waiting_def demo_app_def app_new_def Let_def case_prod_beta)
  moreover have "ap_pending_opens demo_waiting =
      [\<lparr>po_sub_id = 6, po_alias = Some ''web''\<rparr>, \<lparr>po_sub_id = 7, po_alias = Some ''db''\<rparr>]"
    by (simp add: demo_waiting_def)
  ultimately show ?thesis
    using opens_answered_in_order [OF _ r] r by (auto simp: demo_info_def)
qed

end
