(* ===== verification/PropsParts.thy ===== *)
theory PropsParts
  imports Runtime TabStrip Pty PropsInput
begin

text \<open>
  The properties of the parts the program is built from: the tile layout
  (\<open>crates/tepegoz-tui/src/tile.rs\<close>), the input filter (\<open>input.rs\<close>), the mouse and key parsers
  (\<open>mouse.rs\<close>, \<open>app.rs\<close>), the log transcript (\<open>app.rs\<close>, \<open>scope/docker.rs\<close>) and the daemon's panes
  (\<open>crates/tepegoz-pty/src/lib.rs\<close>).
\<close>

section \<open>Layout\<close>

text \<open>
  C36. On a terminal of at least 80 by 24 cells (and at most 21848 rows, beyond which the 16-bit
  arithmetic of the layout wraps) the five tiles cover the screen and do not overlap: a
  character cell lies in exactly one tile, and a cell outside the terminal in none.
\<close>

theorem tiles_partition_screen:
  assumes "rect_new_law rn" "god_area a"
  shows "length (filter (\<lambda>t. in_rect (td_rect t) px py) (tl_tiles (default_for rn a))) =
    (if in_rect a px py then 1 else 0)"
  by (rule default_for_partition [OF assms])

definition demo_area :: rect where
  "demo_area = \<lparr>r_x = 0, r_y = 0, r_width = 80, r_height = 24\<rparr>"

lemma demo_area_god: "god_area demo_area"
  by (simp add: god_area_def demo_area_def rect_fits_def)

lemma god_area_sized: "god_area a \<Longrightarrow> god_sized a"
  by (simp add: god_area_def god_sized_def MIN_COLS_def MIN_ROWS_def word_less_nat_alt not_less)

theorem tiles_partition_screen_witness:
  "length (filter (\<lambda>t. in_rect (td_rect t) 79 23) (tl_tiles (default_for (x_rect_new demo_rt) demo_area))) = 1"
  using tiles_partition_screen [OF demo_laws(1) demo_area_god, of 79 23]
  by (simp add: in_rect_def demo_area_def)

text \<open>
  Directional focus on such a terminal is the table a user expects: up and down move between the
  three rows, left and right within the scope row, nothing wraps. Cycling forward and backward are
  inverse to each other and reach every tile.
\<close>

theorem focus_navigation:
  assumes "rect_new_law rn" "god_area a"
  shows "next_focus (default_for rn a) i dir = nav_table i dir \<and>
    (i \<noteq> TileTooSmall \<longrightarrow>
       cycle_focus (default_for rn a) i True = Some (cycle_next i) \<and>
       cycle_focus (default_for rn a) (cycle_next i) False = Some i)"
proof -
  have "cycle_next i \<noteq> TileTooSmall" if "i \<noteq> TileTooSmall"
    using that by (cases i) auto
  then show ?thesis
    using default_for_navigation [OF assms(1,2)] cycle_focus_god [OF god_area_sized [OF assms(2)]] by simp
qed

theorem focus_navigation_witness:
  "next_focus (default_for (x_rect_new demo_rt) demo_area) TilePty FocusDown = nav_table TilePty FocusDown \<and>
   cycle_focus (default_for (x_rect_new demo_rt) demo_area) TileFleet True = Some TileClaudeCode"
  using focus_navigation [OF demo_laws(1) demo_area_god, of TilePty FocusDown]
    focus_navigation [OF demo_laws(1) demo_area_god, of TileFleet FocusDown]
  by simp

section \<open>Input\<close>

text \<open>
  The input filter of one chunk: the bytes it forwards, in one piece, the bytes it still holds
  back, and at most one control action, whose byte sequence follows the forwarded bytes and ends the
  chunk, account for the stream; nothing is invented, reordered or forwarded twice.
\<close>

theorem filter_accounts_for_chunk:
  assumes "process st bs = (st', as)"
  shows "chunk_outcome (pending st @ bs) st' as"
  by (rule process_outcome [OF assms])

theorem filter_accounts_for_chunk_witness:
  "chunk_outcome (pending PrefixEsc @ [CSI_OPEN, 0x44, 0x61]) FNormal [FocusDirection FocusLeft]"
  using filter_accounts_for_chunk [of PrefixEsc "[CSI_OPEN, 0x44, 0x61]"]
  by (simp add: process_def flush_def arrow_dir_def)

fun mouse_chunks :: "mouse_state \<Rightarrow> u8 list list \<Rightarrow> mouse_state \<times> u8 list \<times> mouse_event list" where
  "mouse_chunks st [] = (st, [], [])"
| "mouse_chunks st (c # cs) =
     (case mouse_parse st c of (st1, o1, e1) \<Rightarrow>
      case mouse_chunks st1 cs of (st2, o2, e2) \<Rightarrow> (st2, o1 @ o2, e1 @ e2))"

lemma mouse_chunks_concat: "mouse_chunks st cs = mouse_parse st (concat cs)"
  by (induction cs arbitrary: st) (simp_all add: mouse_parse_append)

text \<open>
  However the terminal's bytes are cut into reads, the mouse parser takes complete reports out of
  the stream, one event for each that decodes to one, and passes every other byte on in order; what is
  missing at the end are the bytes of a report that is not complete.
\<close>

theorem mouse_reports_taken_out:
  "\<exists>st r es s. mouse_chunks MIdle cs = (st, r, es) \<and> s @ mouse_held st = concat cs \<and> demux s r es"
proof -
  obtain st r es where m: "mouse_parse MIdle (concat cs) = (st, r, es)"
    by (cases "mouse_parse MIdle (concat cs)")
  then show ?thesis
    using mouse_parse_demux [OF _ demux_nil m] unfolding mouse_chunks_concat by auto
qed

text \<open>
  A report of button, column and row is decoded to the zero-based cell: a press of the left
  button is a click there and a motion a hover, a release and the wheel are nothing.
\<close>

theorem mouse_report_decoded:
  assumes "cb < 2 ^ 32" "x < 2 ^ 16 - 1" "y < 2 ^ 16 - 1" "sgr_final f"
  shows "mouse_parse MIdle (sgr_report cb (Suc x) (Suc y) f) =
    (MIdle, [],
     if and (word_of_nat cb :: u32) 32 \<noteq> 0 then [MouseHover (word_of_nat x) (word_of_nat y)]
     else if and (word_of_nat cb :: u32) 64 = 0 \<and> f = SGR_PRESS \<and> and (word_of_nat cb :: u32) 3 = 0
       then [MouseClick (word_of_nat x) (word_of_nat y)]
     else [])"
  unfolding mouse_parse_report [OF assms]
  by (simp add: sgr_event_def MOTION_BIT_def WHEEL_BIT_def BUTTON_MASK_def Let_def)

theorem mouse_report_decoded_witness:
  "mouse_parse MIdle (sgr_report 0 (Suc 4) (Suc 9) SGR_PRESS) = (MIdle, [], [MouseClick 4 9])"
  using mouse_report_decoded [of 0 4 9 SGR_PRESS] by (simp add: sgr_final_def)

text \<open>An \<open>Esc\<close> key right before a report makes the parser miss the report.\<close>

lemma escape_before_report_leaks:
  "mouse_parse MIdle (ESC # sgr_report 0 5 10 SGR_PRESS) = (MIdle, ESC # sgr_report 0 5 10 SGR_PRESS, [])"
  by code_simp

lemma run_keys_escape:
  "fst (run_items key_step st (xs @ [b])) = KsEscape \<Longrightarrow> b = 0x1b"
proof -
  have "fst (key_step st b) = KsEscape \<Longrightarrow> b = 0x1b" for st
    by (cases st) (auto split: if_splits)
  then show "fst (run_items key_step st (xs @ [b])) = KsEscape \<Longrightarrow> b = 0x1b"
    by (cases "run_items key_step st xs") (auto simp: run_items_append split: prod.splits, metis fst_conv)
qed

text \<open>
  Keys survive the way through the terminal: the bytes of any sequence of keys a terminal sends
  are parsed back into these keys, as long as \<open>Esc\<close> is not followed by a typed \<open>[\<close>, and the bytes may
  arrive in two reads cut anywhere but right behind an \<open>ESC\<close>.
\<close>

theorem keys_roundtrip:
  assumes "list_all sendable ks" "unambiguous ks" "concat (map key_bytes ks) = xs @ ys"
    and "xs = [] \<or> last xs \<noteq> 0x1b"
  shows "run_items key_parse KsNormal [xs, ys] = (KsNormal, ks)"
proof -
  have "fst (run_items key_step KsNormal xs) \<noteq> KsEscape"
    using assms(4) by (cases xs rule: rev_cases) (auto dest: run_keys_escape)
  note cut = key_parse_append [OF this, of ys]
  have "key_parse KsNormal (xs @ ys) = (KsNormal, ks)"
    unfolding key_parse_def assms(3) [symmetric] by (rule run_keys(1) [OF assms(1,2)])
  then show ?thesis
    using cut by (simp add: case_prod_beta)
qed

theorem keys_roundtrip_witness:
  "run_items key_parse KsNormal [[0x71, 0x1b, 0x5b], [0x35, 0x7e, 0x1b]] = (KsNormal, [KChar 0x71, KPgUp, KEscape])"
  by (rule keys_roundtrip) (simp_all add: sendable_def)

text \<open>Cut right behind the \<open>ESC\<close>, an arrow key becomes \<open>Escape\<close> and two characters.\<close>

lemma arrow_cut_behind_escape:
  "run_items key_parse KsNormal [[0x1b], [0x5b, 0x41]] = (KsNormal, [KEscape, KChar 0x5b, KChar 0x41])"
  by (simp add: key_parse_def key_flush_def plain_key_def)

section \<open>Logs\<close>

text \<open>
  The transcript of a container: however the two streams are cut into chunks and interleaved,
  the lines of each stream are the stream's own lines in order, what follows the last newline stays
  pending, and of all lines the newest ten thousand are kept.
\<close>

theorem transcript_keeps_newest_lines:
  "\<exists>hist. lv_lines (ingest_all cs (logs_view_new c n i)) = last_n 10000 hist \<and>
     (\<forall>s. (texts_of s hist, pending_of s (ingest_all cs (logs_view_new c n i))) =
            drain_lines (stream_bytes s cs))"
proof -
  have "lv_lines (logs_view_new c n i) = last_n MAX_LOG_LINES []" "\<forall>s. pending_of s (logs_view_new c n i) = []"
    by (simp_all add: logs_view_new_def pending_of_def last_n_def split: log_stream.splits)
  then show ?thesis
    using ingest_all_effect [of "logs_view_new c n i" "[]" cs] by (simp add: MAX_LOG_LINES_def)
qed

text \<open>
  Drawing the transcript never indexes a line that is not there, in any state that can come
  about: it shows the window of the transcript (the end marker included) that ends the scroll offset
  above its end.
\<close>

theorem transcript_draws_window:
  "render_transcript height (fold logs_step ops (logs_view_new c n i)) =
     (let v = fold logs_step ops (logs_view_new c n i);
          e = length (transcript_rows v) - lv_scroll_offset v
      in Inr (drop (e - height) (take e (transcript_rows v)))) \<and>
   lv_scroll_offset (fold logs_step ops (logs_view_new c n i)) \<le>
     length (lv_lines (fold logs_step ops (logs_view_new c n i))) - 1"
  using logs_run.run_inv [OF logs_new_inv, of ops c n i]
  by (simp add: render_transcript_slice Let_def logs_inv_def)

section \<open>Panes\<close>

text \<open>
  The scrollback of a pane is the longest run of whole output chunks, up to the newest, whose
  bytes fit its capacity.
\<close>

theorem scrollback_keeps_newest:
  "\<exists>dropped. filter (\<lambda>c. c \<noteq> []) cs = dropped @ sb_chunks (fold scrollback_append cs (scrollback_new cap)) \<and>
     length (snapshot (fold scrollback_append cs (scrollback_new cap))) \<le> cap \<and>
     (\<forall>older newer. filter (\<lambda>c. c \<noteq> []) cs = older @ newer \<longrightarrow> length (concat newer) \<le> cap \<longrightarrow>
        length newer \<le> length (sb_chunks (fold scrollback_append cs (scrollback_new cap))))"
proof -
  let ?cs = "filter (\<lambda>c. c \<noteq> []) cs"
  have "length newer \<le> length (fitting cap ?cs)"
    if "?cs = older @ newer" "length (concat newer) \<le> cap" for older newer
    using fitting_longest [of newer ?cs cap] that by (simp add: suffix_length_le suffix_def)
  then show ?thesis
    using fitting_suffix [of cap ?cs] fitting_bound [of cap ?cs]
    by (auto simp: scrollback_history suffix_def)
qed

theorem scrollback_keeps_newest_witness:
  "\<exists>dropped. [[1, 2], [3, 4 :: u8]] =
     dropped @ sb_chunks (fold scrollback_append [[1, 2], [], [3, 4]] (scrollback_new 3)) \<and>
     length (snapshot (fold scrollback_append [[1, 2], [], [3, 4 :: u8]] (scrollback_new 3))) \<le> 3"
  using scrollback_keeps_newest [of "[[1, 2], [], [3, 4]]" 3] by auto


text \<open>A channel that keeps what was sent; a receiver is the number of messages sent before it.\<close>

definition demo_send :: "pane_update list \<Rightarrow> pane_update \<Rightarrow> pane_update list" where
  "demo_send c u = c @ [u]"

definition demo_stream :: "nat \<Rightarrow> pane_update list \<Rightarrow> pane_update list" where
  "demo_stream r c = drop r c"

lemma demo_channel: "broadcast_laws length demo_send demo_stream"
proof -
  have "foldl demo_send c us = c @ us" for c us
    by (induction us arbitrary: c) (simp_all add: demo_send_def)
  then show ?thesis by (simp add: broadcast_laws_def demo_stream_def)
qed

lemma run_read: "sy_reading s \<Longrightarrow> bytes \<noteq> [] \<Longrightarrow> length bytes \<le> READ_BUF \<Longrightarrow>
    pane_run f s [LRead bytes] (s\<lparr>sy_pane := reader_publish f bytes (sy_pane s)\<rparr>)"
  using pr_snoc [OF pr_nil ps_read] by fastforce


text \<open>
  The waiter does not wait for the reader: a run in which the exit is published while the child's last
  output is still to be read, and the forwarder drops that output.
\<close>

lemma exit_overtakes_output:
  "\<exists>s. pane_run demo_send (pane_sys_new [] 1 0 ''/bin/sh'' (24, 80))
       [LWaited (Some 0), LWaiter, LWaiter, LWaiter, LRead [1, 2]] s \<and>
     pn_output_tx (sy_pane s) = [PuExit (Some 0), PuBytes [1, 2]] \<and>
     forward_loop None 9 (map RvUpdate (pn_output_tx (sy_pane s))) = [EvPaneExit (Some 0)]"
proof -
  let ?s = "\<lambda>w p. \<lparr>sy_pane = p, sy_reading = True, sy_waiter = w\<rparr> :: pane_update list pane_sys"
  define p0 :: "pane_update list pane" where "p0 = sy_pane (pane_sys_new [] 1 0 ''/bin/sh'' (24, 80))"
  let ?p1 = "p0\<lparr>pn_exit_code := Some 0\<rparr>"
  let ?p2 = "?p1\<lparr>pn_alive := False\<rparr>"
  let ?p3 = "?p2\<lparr>pn_output_tx := demo_send (pn_output_tx ?p2) (PuExit (Some 0))\<rparr>"
  let ?p4 = "reader_publish demo_send [1, 2] ?p3"
  have s0: "pane_sys_new [] 1 0 ''/bin/sh'' (24, 80) = ?s WWait p0"
    by (simp add: pane_sys_new_def p0_def)
  have 1: "pane_step demo_send (?s WWait p0) (LWaited (Some 0)) (?s (WSetCode (Some 0)) p0)"
    using ps_waited [of "?s WWait p0" demo_send "Some 0"] by (simp add: wait_code_def)
  have 2: "pane_step demo_send (?s (WSetCode (Some 0)) p0) LWaiter (?s (WSetAlive (Some 0)) ?p1)"
    using ps_set_code [of "?s (WSetCode (Some 0)) p0"] by simp
  have 3: "pane_step demo_send (?s (WSetAlive (Some 0)) ?p1) LWaiter (?s (WSend (Some 0)) ?p2)"
    using ps_set_alive [of "?s (WSetAlive (Some 0)) ?p1"] by simp
  have 4: "pane_step demo_send (?s (WSend (Some 0)) ?p2) LWaiter (?s WDone ?p3)"
    using ps_send [of "?s (WSend (Some 0)) ?p2"] by simp
  have 5: "pane_step demo_send (?s WDone ?p3) (LRead [1, 2]) (?s WDone ?p4)"
    using ps_read [of "?s WDone ?p3" "[1, 2]" demo_send] by (simp add: READ_BUF_def)
  note run = pr_snoc [OF pr_snoc [OF pr_snoc [OF pr_snoc [OF pr_snoc [OF pr_nil 1] 2] 3] 4] 5]
  have "pn_output_tx ?p4 = [PuExit (Some 0), PuBytes [1, 2]]"
    by (simp add: reader_publish_def demo_send_def p0_def pane_sys_new_def)
  with run show ?thesis
    by (subst s0, intro exI [of _ "?s WDone ?p4"]) (simp add: numeral_eq_Suc)
qed

text \<open>
  Pane ids are never reused: they are given out in increasing order from one, a pane that is
  registered has an id given out before, and the id of the next pane is not one of them.
\<close>

theorem pane_ids_fresh:
  fixes ops :: "'a manager_op list"
  assumes "length ops < 2 ^ 64 - 1"
  shows "pm_panes (fold manager_step ops manager_new) (pm_next_id (fold manager_step ops manager_new)) = None \<and>
    unat (pm_next_id (fold manager_step ops manager_new)) \<le> 1 + length ops"
proof -
  let ?m = "fold manager_step ops manager_new"
  have "manager_inv (manager_new :: 'a pty_manager)" "0 < unat (pm_next_id (manager_new :: 'a pty_manager))"
    and n: "unat (pm_next_id (manager_new :: 'a pty_manager)) = 1"
    by (simp_all add: manager_inv_def manager_new_def)
  then have r: "manager_inv ?m \<and> unat (pm_next_id ?m) \<le> 1 + length ops"
    using manager_run_bounded [of "manager_new :: 'a pty_manager" ops] assms by (simp add: n)
  then have "pm_next_id ?m \<notin> dom (pm_panes ?m)"
    unfolding manager_inv_def by blast
  then show ?thesis using r by (simp add: domIff)
qed

theorem pane_ids_fresh_witness:
  "pm_panes (fold manager_step [MoOpen Some, MoClose 1, MoOpen Some] manager_new) 3 = None"
  using pane_ids_fresh [of "[MoOpen Some, MoClose 1, MoOpen Some]"]
  by (simp add: manager_open_def manager_close_def manager_new_def Let_def)

end
