(* ===== verification/PropsRuntime.thy ===== *)
theory PropsRuntime
  imports PropsParts
begin

text \<open>
  The runtime of the TUI end to end (\<open>crates/tepegoz-tui/src/session.rs\<close> with \<open>app.rs\<close>, \<open>mouse.rs\<close>,
  \<open>crates/tepegoz-proto/src/codec.rs\<close>, \<open>crates/tepegoz-core/src/client.rs\<close>): start-up over the
  socket, a keystroke on its way to the daemon, a pane's output on its way to the screen.
\<close>

section \<open>Start-up\<close>

definition hello_payload :: payload where
  "hello_payload = PHello \<lparr>he_client_version = PROTOCOL_VERSION, he_client_name = ''tepegoz-tui''\<rparr>"

definition first_open :: "string option \<Rightarrow> u16 \<Rightarrow> u16 \<Rightarrow> pane_target \<Rightarrow> payload" where
  "first_open cwd rows cols target = POpenPane \<lparr>ops_shell = None, ops_cwd = cwd, ops_env = [],
     ops_rows = rows, ops_cols = cols, ops_target = target\<rparr>"

definition startup_requests :: "string option \<Rightarrow> u16 \<Rightarrow> u16 \<Rightarrow> pane_target \<Rightarrow> bool \<Rightarrow> pane_info list \<Rightarrow> payload list" where
  "startup_requests cwd rows cols target reuse panes =
     (if \<not> reuse then [first_open cwd rows cols target]
      else if List.find pi_alive panes = None then [PListPanes, first_open cwd rows cols target]
      else [PListPanes])"

definition startup_answers :: "bool \<Rightarrow> pane_info list \<Rightarrow> pane_info \<Rightarrow> payload list" where
  "startup_answers reuse panes opened =
     (if \<not> reuse then [PPaneOpened opened]
      else if List.find pi_alive panes = None then [PPaneList panes, PPaneOpened opened]
      else [PPaneList panes])"

lemma send_payload_open:
  assumes "framable tb (mk_envelope p)" "wr_room w = None"
  shows "send_payload tb w p = (Inr (), w\<lparr>wr_out := wr_out w @ frames tb [mk_envelope p]\<rparr>)"
proof -
  obtain bs where "tb (mk_envelope p) = Some bs" "length bs \<le> MAX_FRAME_SIZE"
    using assms(1) by (auto simp: framable_def split: option.splits)
  then show ?thesis
    using write_envelope_open [OF _ _ assms(2)] max_frame_fits
    by (simp add: send_payload_def frames_def)
qed

lemma read_envelope_first:
  assumes "rkyv_roundtrip tb fb" "framable tb env"
  shows "read_envelope fb (frames tb (env # envs) @ r) = (Inr env, frames tb envs @ r)"
proof -
  obtain bs where "tb env = Some bs" "length bs \<le> MAX_FRAME_SIZE"
    using assms(2) by (auto simp: framable_def split: option.splits)
  then show ?thesis
    using assms(1) by (simp add: frames_def read_envelope_frame rkyv_roundtrip_def)
qed

lemma frames_append: "frames tb (xs @ ys) = frames tb xs @ frames tb ys"
  by (simp add: frames_def)

lemma frames_Nil [simp]: "frames tb [] = []"
  by (simp add: frames_def)

text \<open>
  Start-up asks for no more than it needs: a pane that is still alive is taken over, the first of
  the daemon's list, and only when there is none (or none is wanted) a new one is opened; exactly these
  requests are written, exactly the answers to them are read, and the pane of the answer is used.
\<close>

theorem startup_finds_pane:
  assumes "rkyv_roundtrip tb fb" "wr_room w = None"
    and "list_all (\<lambda>p. framable tb (mk_envelope p)) (startup_requests cwd rows cols target reuse panes)"
    and "list_all (\<lambda>p. framable tb (mk_envelope p)) (startup_answers reuse panes opened)"
  shows "ensure_pane tb fb cwd rows cols target reuse
      (frames tb (map mk_envelope (startup_answers reuse panes opened)) @ rest) w =
    (Inr (if reuse \<and> List.find pi_alive panes \<noteq> None then the (List.find pi_alive panes) else opened), rest,
     w\<lparr>wr_out := wr_out w @ frames tb (map mk_envelope (startup_requests cwd rows cols target reuse panes))\<rparr>)"
proof -
  have o: "open_first_pane tb fb cwd rows cols target (frames tb (mk_envelope (PPaneOpened opened) # []) @ rest) v =
      (Inr opened, rest, v\<lparr>wr_out := wr_out v @ frames tb [mk_envelope (first_open cwd rows cols target)]\<rparr>)"
    if "wr_room v = None" "framable tb (mk_envelope (first_open cwd rows cols target))"
      "framable tb (mk_envelope (PPaneOpened opened))" for v
    using send_payload_open [OF that(2,1)] read_envelope_first [OF assms(1) that(3), of "[]" rest]
    by (simp add: open_first_pane_def first_open_def)
  show ?thesis
  proof (cases "reuse")
    case False
    then show ?thesis
      using o [OF assms(2)] assms(3,4)
      by (simp add: ensure_pane_def startup_requests_def startup_answers_def)
  next
    case True
    show ?thesis
    proof (cases "List.find pi_alive panes")
      case None
      then show ?thesis
        using True assms o [of "w\<lparr>wr_out := wr_out w @ frames tb [mk_envelope PListPanes]\<rparr>"]
          send_payload_open [of tb PListPanes w]
          read_envelope_first [OF assms(1), of "mk_envelope (PPaneList panes)" "[mk_envelope (PPaneOpened opened)]" rest]
          frames_append [of tb "[mk_envelope PListPanes]" "[mk_envelope (first_open cwd rows cols target)]"]
        by (simp add: ensure_pane_def startup_requests_def startup_answers_def)
    next
      case (Some i)
      then show ?thesis
        using True assms send_payload_open [of tb PListPanes w]
          read_envelope_first [OF assms(1), of "mk_envelope (PPaneList panes)" "[]" rest]
        by (simp add: ensure_pane_def startup_requests_def startup_answers_def)
    qed
  qed
qed

definition listed_pane :: "pane_id \<Rightarrow> bool \<Rightarrow> pane_info" where
  "listed_pane i alive = \<lparr>pi_id = i, pi_created_at_unix_millis = 0, pi_rows = 24, pi_cols = 80,
     pi_shell = ''/bin/zsh'', pi_alive = alive\<rparr>"

lemma listed_alive [simp]: "pi_alive (listed_pane i b) = b"
  by (simp add: listed_pane_def)

theorem startup_finds_pane_witness:
  "\<exists>tb fb w. ensure_pane tb fb None 24 80 PtLocal True
      (frames tb [mk_envelope (PPaneList [listed_pane 1 False, listed_pane 2 True])]) \<lparr>wr_out = [], wr_room = None\<rparr> =
    (Inr (listed_pane 2 True), [], w)"
proof -
  let ?ps = "[listed_pane 1 False, listed_pane 2 True]"
  let ?known = "[mk_envelope PListPanes, mk_envelope (PPaneList ?ps)]"
  have f: "List.find pi_alive ?ps = Some (listed_pane 2 True)" by simp
  have k: "length ?known \<le> MAX_FRAME_SIZE" by (simp add: MAX_FRAME_SIZE_def)
  have "ensure_pane (index_bytes ?known) (index_of ?known) None 24 80 PtLocal True
      (frames (index_bytes ?known) (map mk_envelope (startup_answers True ?ps (listed_pane 3 True))) @ [])
      \<lparr>wr_out = [], wr_room = None\<rparr> = (Inr (if True \<and> List.find pi_alive ?ps \<noteq> None
        then the (List.find pi_alive ?ps) else listed_pane 3 True), [],
       \<lparr>wr_out = [], wr_room = None\<rparr>\<lparr>wr_out := wr_out \<lparr>wr_out = [], wr_room = None\<rparr> @
         frames (index_bytes ?known) (map mk_envelope (startup_requests None 24 80 PtLocal True ?ps))\<rparr>)"
    by (rule startup_finds_pane [OF index_roundtrip])
      (simp_all add: startup_requests_def startup_answers_def index_framable [OF _ k])
  then show ?thesis
    by (intro exI [of _ "index_bytes ?known"] exI [of _ "index_of ?known"]) (simp add: startup_answers_def f)
qed

section \<open>From the keyboard to the daemon\<close>



text \<open>
  Typed text that is followed by a click in the same read is handled after the click, with the focus
  where the click put it.
\<close>

lemma click_overtakes_typed_text:
  assumes "ESC \<notin> set xs" "ESC \<notin> set ys" "xs @ ys \<noteq> []" "x < 2 ^ 16 - 1" "y < 2 ^ 16 - 1"
  shows "stdin_events MIdle (xs @ sgr_report 0 (Suc x) (Suc y) SGR_PRESS @ ys) =
    (MIdle, [AeMouseClick (word_of_nat x) (word_of_nat y), AeStdinChunk (xs @ ys)])"
  using assms mouse_parse_report [of 0 x y SGR_PRESS]
  by (simp add: stdin_events_def mouse_parse_append mouse_parse_no_esc sgr_final_def sgr_event_def
      MOTION_BIT_def WHEEL_BIT_def BUTTON_MASK_def Let_def)

section \<open>From the pane to the screen\<close>

text \<open>The vt100 parser reads a stream: how the stream is cut does not matter.\<close>

definition vt_stream_law :: "'p rt \<Rightarrow> bool" where
  "vt_stream_law rt \<longleftrightarrow> (\<forall>p. x_vt_process rt [] p = p) \<and>
     (\<forall>xs ys p. x_vt_process rt (xs @ ys) p = x_vt_process rt ys (x_vt_process rt xs p))"

definition event_env :: "u64 \<Rightarrow> event \<Rightarrow> envelope" where
  "event_env sub e = mk_envelope (PEvent \<lparr>ef_subscription_id = sub, ef_event = e\<rparr>)"

fun is_pane_exit :: "event \<Rightarrow> bool" where
  "is_pane_exit (EvPaneExit _) = True"
| "is_pane_exit _ = False"

definition fed :: "'p rt \<Rightarrow> nat \<Rightarrow> u8 list \<Rightarrow> 'p app \<Rightarrow> 'p app" where
  "fed rt idx bs a = a\<lparr>ap_pane_stack := (ap_pane_stack a)[idx := (ap_pane_stack a ! idx)\<lparr>
     pe_parser := x_vt_process rt bs (pe_parser (ap_pane_stack a ! idx))\<rparr>]\<rparr>"

lemma pane_event_fed:
  assumes "vt_stream_law rt" "idx < length (ap_pane_stack a)" "\<not> is_pane_exit e"
  shows "\<exists>acts. handle_pane_event rt now idx e a = Inr (fed rt idx (terminal_bytes [e]) a, acts)"
proof -
  have "a\<lparr>ap_pane_stack := (ap_pane_stack a)[idx := (ap_pane_stack a ! idx)]\<rparr> = a" by simp
  then have n: "fed rt idx [] a = a"
    using assms(1) by (simp add: fed_def vt_stream_law_def)
  show ?thesis
  proof (cases e)
    case (EvPaneSnapshot b r c)
    then show ?thesis using assms(2) n
      by (cases "b = []") (auto simp: pane_process_def fed_def)
  next
    case (EvPaneOutput b)
    then show ?thesis using assms(2) by (simp add: pane_process_def fed_def)
  qed (use assms(3) n in auto)
qed

lemma position_update:
  "idx < length xs \<Longrightarrow> P y = P (xs ! idx) \<Longrightarrow> position P (xs[idx := y]) = position P xs"
  by (induction xs arbitrary: idx) (auto split: nat.splits)

lemma fed_stack [simp]:
  "length (ap_pane_stack (fed rt idx bs a)) = length (ap_pane_stack a)"
  "idx < length (ap_pane_stack a) \<Longrightarrow> find_pane_by_sub (fed rt idx bs a) sub = find_pane_by_sub a sub"
  by (simp_all add: find_pane_by_sub_def fed_def position_update)

lemma fed_fed:
  "vt_stream_law rt \<Longrightarrow> idx < length (ap_pane_stack a) \<Longrightarrow> fed rt idx ys (fed rt idx xs a) = fed rt idx (xs @ ys) a"
  by (simp add: fed_def vt_stream_law_def)

lemma terminal_bytes_Cons: "terminal_bytes (e # es) = terminal_bytes [e] @ terminal_bytes es"
  by (cases e) auto

lemma run_app_fed:
  assumes "vt_stream_law rt"
  shows "find_pane_by_sub a sub = Some idx \<Longrightarrow> list_all (\<lambda>e. \<not> is_pane_exit e) es \<Longrightarrow>
    \<exists>acts. run_app rt (map (\<lambda>e. (clock, AeDaemonEnvelope (event_env sub e))) es) a =
      Inr (fed rt idx (terminal_bytes es) a, acts)"
proof (induction es arbitrary: a)
  case Nil
  have "a\<lparr>ap_pane_stack := (ap_pane_stack a)[idx := (ap_pane_stack a ! idx)]\<rparr> = a" by simp
  then show ?case using assms by (simp add: fed_def vt_stream_law_def)
next
  case (Cons e es)
  have i: "idx < length (ap_pane_stack a)"
    using Cons.prems(1) by (simp add: find_pane_by_sub_def position_Some)
  obtain acts where h: "handle_pane_event rt clock idx e a = Inr (fed rt idx (terminal_bytes [e]) a, acts)"
    using pane_event_fed [OF assms i] Cons.prems(2) by auto
  obtain acts2 where r: "run_app rt (map (\<lambda>e. (clock, AeDaemonEnvelope (event_env sub e))) es)
      (fed rt idx (terminal_bytes [e]) a) = Inr (fed rt idx (terminal_bytes es) (fed rt idx (terminal_bytes [e]) a), acts2)"
    using Cons.IH [of "fed rt idx (terminal_bytes [e]) a"] Cons.prems i by auto
  show ?case
    using h r Cons.prems(1) fed_fed [OF assms i]
    by (simp add: event_env_def handle_event_frame_def terminal_bytes_Cons [of e es])
qed

text \<open>
  C3. A pane's output on its way to the screen: the events the daemon's forwarder sends for a pane
  cross the socket and the state machine, and the terminal parser of that pane's tab has then read
  exactly the bytes of the snapshot and of the output published after it, in order; no other pane and
  nothing else of the state is touched.
\<close>

theorem pane_output_reaches_screen:
  assumes "rkyv_roundtrip tb fb" "vt_stream_law rt" "find_pane_by_sub a sub = Some idx"
    and "\<forall>c. PuExit c \<notin> set us" "length us < accepts"
    and "evs = forward_pane snap dims True code_now code_closed accepts (map RvUpdate us)"
    and "list_all (framable tb) (map (event_env sub) evs)"
  shows "\<exists>envs acts. reader_task fb (frames tb (map (event_env sub) evs)) = map Inr envs @ [Inl UnexpectedEof] \<and>
    run_app rt (map (\<lambda>env. (clock, AeDaemonEnvelope env)) envs) a =
      Inr (fed rt idx (snap @ update_bytes us) a, acts)"
proof -
  obtain n where n: "accepts = Suc n" "length us \<le> n"
    using assms(5) by (cases accepts) auto
  have "list_all (\<lambda>e. \<not> is_pane_exit e) (forward_loop code_closed m (map RvUpdate vs))"
    if "\<forall>c. PuExit c \<notin> set vs" for m vs
    using that
  proof (induction vs arbitrary: m)
    case (Cons v vs)
    then show ?case by (cases v; cases m) auto
  qed simp
  then have x: "list_all (\<lambda>e. \<not> is_pane_exit e) evs"
    using assms(4) by (simp add: assms(6) forward_pane_def n(1))
  have b: "terminal_bytes evs = snap @ update_bytes us"
    using forward_loop_bytes [OF n(2), of code_closed] before_exit_id [OF assms(4)]
    by (simp add: assms(6) forward_pane_def n(1))
  show ?thesis
    using reader_task_frames [OF assms(1,7), of "[]"] run_app_fed [OF assms(2,3) x, of clock]
    by (intro exI [of _ "map (event_env sub) evs"]) (simp add: reader_task_eof b comp_def)
qed

theorem pane_output_reaches_screen_witness:
  "\<exists>sub tb fb envs a acts.
     reader_task fb (frames tb (map (event_env sub)
       (forward_pane [0x24] (24, 80) True None None 9 (map RvUpdate [PuBytes [0x6c, 0x73]])))) =
       map Inr envs @ [Inl UnexpectedEof] \<and>
     run_app demo_rt (map (\<lambda>env. (0, AeDaemonEnvelope env)) envs) demo_app =
       Inr (fed demo_rt 0 [0x24, 0x6c, 0x73] demo_app, acts)"
proof -
  let ?us = "[PuBytes [0x6c, 0x73]]"
  let ?evs = "forward_pane [0x24] (24, 80) True None None 9 (map RvUpdate ?us)"
  obtain e es where st: "ap_pane_stack demo_app = e # es"
    using demo_typing by (cases "ap_pane_stack demo_app") (auto simp: typing_to_pane_def)
  then have p: "find_pane_by_sub demo_app (pe_sub_id e) = Some 0"
    by (simp add: find_pane_by_sub_def)
  let ?known = "map (event_env (pe_sub_id e)) ?evs"
  have "length ?known = 2" by (simp add: forward_pane_def eval_nat_numeral)
  then have l: "length ?known \<le> MAX_FRAME_SIZE" by (simp only: MAX_FRAME_SIZE_def)
  have f: "list_all (framable (index_bytes ?known)) ?known"
    unfolding list_all_iff by (intro ballI, rule index_framable [OF _ l], assumption)
  have v: "vt_stream_law demo_rt" by (simp add: vt_stream_law_def demo_rt_def)
  from pane_output_reaches_screen [OF index_roundtrip v p _ _ refl f, of 0]
  show ?thesis by fastforce
qed

end
