(* ===== verification/PropsRequests.thy ===== *)
theory PropsRequests
  imports AppProps
begin

text \<open>
  Requests and their answers (\<open>crates/tepegoz-tui/src/app.rs\<close>): destructive container actions need a
  confirmation, answers are matched with the request that is pending, and the tick expires what has
  waited too long.
\<close>

section \<open>Destructive actions\<close>

definition destructive :: "docker_action_kind \<Rightarrow> bool" where
  "destructive k \<longleftrightarrow> k = DaKill \<or> k = DaRemove"

lemma mk_envelope_eq [simp]: "mk_envelope p = mk_envelope q \<longleftrightarrow> p = q"
  by (simp add: mk_envelope_def)

lemma toast_sends_nothing [simp]: "send p \<notin> set (snd (push_toast_at now k m a))"
  by (simp add: push_toast_at_def Let_def)

lemma quiet_handlers:
  "send (PDockerAction r) \<notin> set (snd (begin_confirm rt now k a))"
  "send (PDockerAction r) \<notin> set (snd (try_enter_logs_view rt a))"
  "send (PDockerAction r) \<notin> set (snd (handle_docker_filter_key rt key a))"
  "send (PDockerAction r) \<notin> set (snd (upd_logs g a))"
  by (auto simp: begin_confirm_def try_enter_logs_view_def handle_docker_filter_key_def upd_logs_def
      Let_def case_prod_beta split: option.splits scope_key.splits docker_view.splits)

lemma logs_key_quiet: "send (PDockerAction r) \<notin> set (snd (handle_logs_key key a))"
  by (auto simp: handle_logs_key_def quiet_handlers split: docker_view.splits)

lemma issue_sends:
  "send (PDockerAction r) \<in> set (snd (issue_selected_docker_action rt now k a)) \<Longrightarrow> dar_kind r = k"
  by (auto simp: issue_selected_docker_action_def dispatch_docker_action_def alloc_sub_id_def Let_def
      split: option.splits)

lemma list_key_not_destructive:
  assumes "ds_view (ap_docker a) = DvList" "ds_pending_confirm (ap_docker a) = None"
    and "send (PDockerAction r) \<in> set (snd (handle_scope_key rt now key a))"
  shows "\<not> destructive (dar_kind r)"
  using assms
proof (induction rt now key a rule: handle_scope_key.induct)
  case (1 rt now key a)
  then show ?case
    by (cases key) (auto simp: handle_scope_key_at Let_def destructive_def quiet_handlers
        dest!: issue_sends split: if_splits)
qed

text \<open>
  C23. A key in the Docker tile makes the program kill or remove a container only when the prompt for
  exactly that action on exactly that container is on the screen and the key is \<open>y\<close> or \<open>Y\<close>; the
  prompt is gone afterwards.
\<close>

theorem destructive_needs_confirmation:
  assumes "handle_scope_key rt now key a = (a', acts)"
    and "send (PDockerAction r) \<in> set acts" "destructive (dar_kind r)"
  shows "\<exists>pc. ds_pending_confirm (ap_docker a) = Some pc \<and> (key = KChar 0x79 \<or> key = KChar 0x59) \<and>
    dar_kind r = pc_kind pc \<and> dar_container_id r = pc_container_id pc \<and>
    ds_pending_confirm (ap_docker a') = None"
proof (cases "ds_view (ap_docker a)")
  case (DvLogs l)
  then show ?thesis
    using assms logs_key_quiet [of r key a] by (simp add: handle_scope_key.simps [of rt now key a])
next
  case DvList
  show ?thesis
  proof (cases "ds_pending_confirm (ap_docker a)")
    case None
    then show ?thesis
      using list_key_not_destructive [OF DvList None, of r rt now key] assms by simp
  next
    case (Some pc)
    then have "handle_confirm_key now pc key a = (a', acts)"
      using assms(1) DvList by (simp add: handle_scope_key.simps [of rt now key a])
    then show ?thesis
      using Some assms(2)
      by (auto simp: handle_confirm_key_def dispatch_docker_action_def alloc_sub_id_def
          register_action_def Let_def split: if_splits)
  qed
qed

definition demo_container :: docker_container where
  "demo_container = \<lparr>dc_id = ''0123456789abcdef'', dc_names = [''/web''], dc_image = ''nginx'',
     dc_image_id = ''i'', dc_command = ''run'', dc_created_unix_secs = 0, dc_state = ''running'',
     dc_status = ''Up'', dc_ports = [], dc_labels = []\<rparr>"

definition demo_listed :: "(u8 list) app" where
  "demo_listed = demo_app\<lparr>ap_docker := (ap_docker demo_app)\<lparr>ds_state := DsAvailable [demo_container] ''sock''\<rparr>\<rparr>"

definition demo_prompt :: pending_confirm where
  "demo_prompt = \<lparr>pc_kind = DaKill, pc_container_id = ''0123456789abcdef'', pc_container_name = ''web'',
     pc_deadline = 10000\<rparr>"

definition demo_confirming :: "(u8 list) app" where
  "demo_confirming = demo_listed\<lparr>ap_docker := (ap_docker demo_listed)\<lparr>ds_pending_confirm := Some demo_prompt\<rparr>\<rparr>"

lemma demo_listed_docker:
  "ds_view (ap_docker demo_listed) = DvList" "ds_pending_confirm (ap_docker demo_listed) = None"
  "ds_filter_active (ap_docker demo_listed) = False" "ds_target (ap_docker demo_listed) = StLocal"
  "ds_state (ap_docker demo_listed) = DsAvailable [demo_container] ''sock''"
  "ds_filter (ap_docker demo_listed) = []" "ds_selection (ap_docker demo_listed) = 0"
  "ap_pending_actions demo_listed = []" "ap_next_sub_id demo_listed = 6"
  by (simp_all add: demo_listed_def demo_app_def app_new_def docker_scope_new_def Let_def case_prod_beta)

theorem destructive_needs_confirmation_witness:
  "\<exists>a acts r. handle_scope_key demo_rt 5 (KChar 0x79) demo_confirming = (a, acts) \<and>
     send (PDockerAction r) \<in> set acts \<and> destructive (dar_kind r) \<and>
     dar_container_id r = pc_container_id demo_prompt \<and> ds_pending_confirm (ap_docker a) = None"
proof -
  have v: "ds_view (ap_docker demo_confirming) = DvList"
    "ds_pending_confirm (ap_docker demo_confirming) = Some demo_prompt"
    by (simp_all add: demo_confirming_def demo_listed_docker)
  obtain a acts where h: "handle_scope_key demo_rt 5 (KChar 0x79) demo_confirming = (a, acts)"
    by (cases "handle_scope_key demo_rt 5 (KChar 0x79) demo_confirming")
  then obtain r where "send (PDockerAction r) \<in> set acts" "dar_kind r = DaKill"
    using v by (auto simp: handle_scope_key_at handle_confirm_key_def dispatch_docker_action_def
        alloc_sub_id_def register_action_def demo_prompt_def Let_def)
  moreover from this have "destructive (dar_kind r)" by (simp add: destructive_def)
  ultimately show ?thesis
    using destructive_needs_confirmation [OF h] h v by fastforce
qed

section \<open>A request and its answer\<close>

lemma update_fresh: "k \<notin> fst ` set al \<Longrightarrow> AList.update k v al = al @ [(k, v)]"
  by (induction al) auto

lemma delete_fresh: "k \<notin> fst ` set al \<Longrightarrow> AList.delete k (al @ [(k, v)]) = al"
  by (induction al) auto

lemma map_of_fresh: "k \<notin> fst ` set al \<Longrightarrow> map_of (al @ [(k, v)]) k = Some v"
  by (simp add: map_add_def map_of_eq_None_iff [THEN iffD2])

text \<open>
  The restart key sends one request, with a fresh id, for the selected container on the tile's
  current host, and when the daemon answers that id with success the user is told so by name, and the
  table of pending requests is as it was before.
\<close>

theorem restart_answered:
  assumes "ds_view (ap_docker a) = DvList" "ds_pending_confirm (ap_docker a) = None"
    and "\<not> ds_filter_active (ap_docker a)"
    and "selected_container (x_unicode rt) (ap_docker a) = Some c"
    and "ap_next_sub_id a \<notin> fst ` set (ap_pending_actions a)"
    and "handle_scope_key rt t1 (KChar 0x72) a = (a1, acts1)"
    and "handle_event rt t2 (AeDaemonEnvelope (mk_envelope (PDockerActionResult
           \<lparr>dres_request_id = ap_next_sub_id a, dres_container_id = dc_id c, dres_kind = DaRestart,
            dres_outcome = DaSuccess, dres_target = ds_target (ap_docker a)\<rparr>))) a1 = Inr (a2, acts2)"
  shows "acts1 = [send (PDockerAction \<lparr>dar_request_id = ap_next_sub_id a, dar_container_id = dc_id c,
             dar_kind = DaRestart, dar_target = ds_target (ap_docker a)\<rparr>), DrawFrame] \<and>
    ap_pending_actions a1 = ap_pending_actions a @
      [(ap_next_sub_id a, \<lparr>pa_deadline = t1 + PENDING_ACTION_TIMEOUT,
         pa_description = ''Restart '' @ display_name_for c\<rparr>)] \<and>
    acts2 = [ShowToast TkSuccess (''Restart '' @ display_name_for c @ '' '' @ em_dash @ '' succeeded''), DrawFrame] \<and>
    ap_pending_actions a2 = ap_pending_actions a"
proof -
  let ?i = "ap_next_sub_id a"
  let ?pa = "\<lparr>pa_deadline = t1 + PENDING_ACTION_TIMEOUT, pa_description = ''Restart '' @ display_name_for c\<rparr>"
  have u: "AList.update ?i ?pa (ap_pending_actions a) = ap_pending_actions a @ [(?i, ?pa)]"
    using assms(5) by (rule update_fresh)
  have d: "AList.delete ?i (ap_pending_actions a @ [(?i, ?pa)]) = ap_pending_actions a"
    using assms(5) by (rule delete_fresh)
  have m: "map_of (ap_pending_actions a @ [(?i, ?pa)]) ?i = Some ?pa"
    using assms(5) by (rule map_of_fresh)
  show ?thesis
    using assms(1-4,6,7) u d m
    by (auto simp: handle_scope_key_at issue_selected_docker_action_def dispatch_docker_action_def
        alloc_sub_id_def register_action_def docker_action_result_def take_pending_def push_toast_at_def
        dash_suffix_def mk_envelope_def Let_def simp del: map_of_append)
qed

theorem restart_answered_witness:
  "\<exists>a1 a2. handle_scope_key demo_rt 7 (KChar 0x72) demo_listed =
       (a1, [send (PDockerAction \<lparr>dar_request_id = 6, dar_container_id = ''0123456789abcdef'',
          dar_kind = DaRestart, dar_target = StLocal\<rparr>), DrawFrame]) \<and>
     handle_event demo_rt 9 (AeDaemonEnvelope (mk_envelope (PDockerActionResult
       \<lparr>dres_request_id = 6, dres_container_id = ''0123456789abcdef'', dres_kind = DaRestart,
        dres_outcome = DaSuccess, dres_target = StLocal\<rparr>))) a1 =
       Inr (a2, [ShowToast TkSuccess (''Restart web '' @ em_dash @ '' succeeded''), DrawFrame]) \<and>
     ap_pending_actions a2 = []"
proof -
  have c: "selected_container (x_unicode demo_rt) (ap_docker demo_listed) = Some demo_container"
    by (simp add: selected_container_def demo_listed_docker ds_matches_def)
  have n: "display_name_for demo_container = ''web''"
    by (simp add: display_name_for_def demo_container_def trim_start_matches_def Let_def)
  obtain a1 acts where h: "handle_scope_key demo_rt 7 (KChar 0x72) demo_listed = (a1, acts)"
    by (cases "handle_scope_key demo_rt 7 (KChar 0x72) demo_listed")
  let ?e = "AeDaemonEnvelope (mk_envelope (PDockerActionResult
      \<lparr>dres_request_id = ap_next_sub_id demo_listed, dres_container_id = dc_id demo_container,
       dres_kind = DaRestart, dres_outcome = DaSuccess, dres_target = ds_target (ap_docker demo_listed)\<rparr>))"
  obtain a2 acts2 where e: "handle_event demo_rt 9 ?e a1 = Inr (a2, acts2)"
    by (simp add: mk_envelope_def docker_action_result_def take_pending_def push_toast_at_def Let_def)
  show ?thesis
    using restart_answered [OF _ _ _ c _ h e] h e n
    by (auto simp: demo_listed_docker demo_container_def)
qed

section \<open>The tick\<close>

definition timeout_text :: "pending_action \<Rightarrow> string" where
  "timeout_text pa = pa_description pa @ '' timed out '' @ em_dash @ '' check engine''"

definition timeout_toast :: "instant \<Rightarrow> pending_action \<Rightarrow> toast" where
  "timeout_toast now pa =
     \<lparr>to_kind = TkError, to_message = timeout_text pa, to_expires_at = now + TOAST_ERROR_DURATION\<rparr>"

lemma push_toast_last:
  "length (ap_toasts a) \<le> MAX_TOASTS \<Longrightarrow>
     push_toast_at now k m a =
       (a\<lparr>ap_toasts := last_n MAX_TOASTS (ap_toasts a @
          [\<lparr>to_kind = k, to_message = m, to_expires_at = now + toast_duration k\<rparr>])\<rparr>,
        [ShowToast k m, DrawFrame])"
  by (cases "ap_toasts a") (auto simp: push_toast_at_def Let_def last_n_def MAX_TOASTS_def)

lemma expire_one:
  assumes "length (ap_toasts a) \<le> MAX_TOASTS" "map_of (ap_pending_actions a) i = Some pa"
  shows "expire_pending_action_at now a i =
     (a\<lparr>ap_pending_actions := AList.delete i (ap_pending_actions a),
        ap_toasts := last_n MAX_TOASTS (ap_toasts a @ [timeout_toast now pa])\<rparr>,
      [ShowToast TkError (timeout_text pa), DrawFrame])"
  using assms by (simp add: expire_pending_action_at_def push_toast_last timeout_toast_def
      timeout_text_def toast_duration_def)

lemma expire_all:
  assumes "length (ap_toasts a) \<le> MAX_TOASTS" "distinct is"
    and "\<And>i. i \<in> set is \<Longrightarrow> map_of (ap_pending_actions a) i = Some (f i)"
  shows "run_items (expire_pending_action_at now) a is =
     (a\<lparr>ap_pending_actions := filter (\<lambda>(i, pa). i \<notin> set is) (ap_pending_actions a),
        ap_toasts := last_n MAX_TOASTS (ap_toasts a @ map (timeout_toast now \<circ> f) is)\<rparr>,
      concat (map (\<lambda>i. [ShowToast TkError (timeout_text (f i)), DrawFrame]) is))"
  using assms
proof (induction "is" arbitrary: a)
  case Nil
  then show ?case by (simp add: last_n_all case_prod_beta)
next
  case (Cons i is')
  let ?a = "a\<lparr>ap_pending_actions := AList.delete i (ap_pending_actions a),
        ap_toasts := last_n MAX_TOASTS (ap_toasts a @ [timeout_toast now (f i)])\<rparr>"
  have one: "expire_pending_action_at now a i =
      (?a, [ShowToast TkError (timeout_text (f i)), DrawFrame])"
    using Cons.prems by (intro expire_one) auto
  have rest: "run_items (expire_pending_action_at now) ?a is' =
     (?a\<lparr>ap_pending_actions := filter (\<lambda>(i, pa). i \<notin> set is') (ap_pending_actions ?a),
        ap_toasts := last_n MAX_TOASTS (ap_toasts ?a @ map (timeout_toast now \<circ> f) is')\<rparr>,
      concat (map (\<lambda>i. [ShowToast TkError (timeout_text (f i)), DrawFrame]) is'))"
    using Cons.prems by (intro Cons.IH) (auto simp: last_n_length delete_conv')
  have eq: "(\<lambda>x. i \<noteq> fst x \<and> fst x \<notin> set is') = (\<lambda>x. fst x \<noteq> i \<and> fst x \<notin> set is')"
    for is' :: "u64 list"
    by auto
  show ?case
    by (simp add: one rest)
      (simp add: last_n_append AList.delete_eq case_prod_unfold comp_def eq)
qed

text \<open>
  What a tick does, completely: each request whose deadline has passed leaves the table and is
  reported once, in the table's iteration order, an expired prompt goes away, of the toasts (the newest
  three, the new reports included) those not yet expired stay, and nothing else of the state changes.
\<close>

theorem tick_sweeps_expired:
  assumes "app_inv rt a" "distinct (map fst (ap_pending_actions a))"
    and "\<forall>xs. mset (x_order rt xs) = mset xs"
  shows "handle_event rt now AeTick a =
    (let gone = x_order rt (map fst (filter (\<lambda>(i, pa). pa_deadline pa \<le> now) (ap_pending_actions a)));
         lost = map (\<lambda>i. the (map_of (ap_pending_actions a) i)) gone
     in Inr (a\<lparr>ap_pending_actions := filter (\<lambda>(i, pa). now < pa_deadline pa) (ap_pending_actions a),
               ap_docker := (ap_docker a)\<lparr>ds_pending_confirm :=
                 (case ds_pending_confirm (ap_docker a) of
                    Some pc \<Rightarrow> if now < pc_deadline pc then Some pc else None | None \<Rightarrow> None)\<rparr>,
               ap_toasts := filter (\<lambda>t. now < to_expires_at t)
                 (last_n 3 (ap_toasts a @ map (timeout_toast now) lost))\<rparr>,
            concat (map (\<lambda>pa. [ShowToast TkError (timeout_text pa), DrawFrame]) lost) @ [DrawFrame]))"
proof -
  let ?al = "ap_pending_actions a"
  let ?gone = "x_order rt (map fst (filter (\<lambda>(i, pa). pa_deadline pa \<le> now) ?al))"
  let ?a1 = "if (case ds_pending_confirm (ap_docker a) of Some pc \<Rightarrow> pc_deadline pc \<le> now | None \<Rightarrow> False)
      then upd_docker (\<lambda>d. d\<lparr>ds_pending_confirm := None\<rparr>) a else a"
  have m: "mset ?gone = mset (map fst (filter (\<lambda>(i, pa). pa_deadline pa \<le> now) ?al))"
    using assms(3) by blast
  have d: "distinct ?gone"
    using assms(2) mset_eq_imp_distinct_iff [OF m] by (simp add: distinct_map_filter)
  have st: "set ?gone = fst ` {e \<in> set ?al. pa_deadline (snd e) \<le> now}"
    using mset_eq_setD [OF m] by (simp add: case_prod_beta)
  have l: "map_of ?al i = Some (the (map_of ?al i))" if "i \<in> set ?gone" for i
    using that unfolding st by (force dest: weak_map_of_SomeI)
  have k: "filter (\<lambda>(i, pa). i \<notin> set ?gone) ?al = filter (\<lambda>(i, pa). now < pa_deadline pa) ?al"
    using assms(2) unfolding st
    by (intro filter_cong refl) (force simp: case_prod_beta not_le dest: eq_key_imp_eq_value)
  have p: "ap_pending_actions ?a1 = ?al" "ap_toasts ?a1 = ap_toasts a"
    "?a1 = a\<lparr>ap_docker := (ap_docker a)\<lparr>ds_pending_confirm :=
       (case ds_pending_confirm (ap_docker a) of
          Some pc \<Rightarrow> if now < pc_deadline pc then Some pc else None | None \<Rightarrow> None)\<rparr>\<rparr>"
    by (auto split: option.splits)
  have r: "run_items (expire_pending_action_at now) ?a1 ?gone =
     (?a1\<lparr>ap_pending_actions := filter (\<lambda>(i, pa). i \<notin> set ?gone) ?al,
        ap_toasts := last_n MAX_TOASTS (ap_toasts a @ map (timeout_toast now \<circ> (\<lambda>i. the (map_of ?al i))) ?gone)\<rparr>,
      concat (map (\<lambda>i. [ShowToast TkError (timeout_text (the (map_of ?al i))), DrawFrame]) ?gone))"
    using expire_all [of ?a1 ?gone "\<lambda>i. the (map_of ?al i)" now] app_invD(7) [OF assms(1)] d l
    by (simp only: p(1,2))
  show ?thesis
    using r k unfolding p(3)
    by (simp add: sweep_expired_def expired_actions_def Let_def p(3) MAX_TOASTS_def comp_def)
qed

definition demo_waiting :: "(u8 list) app" where
  "demo_waiting = demo_app\<lparr>ap_pending_actions :=
     [(6, \<lparr>pa_deadline = 10, pa_description = ''Restart web''\<rparr>),
      (7, \<lparr>pa_deadline = 50, pa_description = ''Stop db''\<rparr>)]\<rparr>"

theorem tick_sweeps_expired_witness:
  "\<exists>a. handle_event demo_rt 20 AeTick demo_waiting =
       Inr (a, [ShowToast TkError (''Restart web timed out '' @ em_dash @ '' check engine''), DrawFrame,
                DrawFrame]) \<and>
     map fst (ap_pending_actions a) = [7] \<and> length (ap_toasts a) = 1"
proof -
  have i: "app_inv demo_rt demo_waiting"
    using demo_app_inv by (simp add: demo_waiting_def app_inv_def)
  note t = tick_sweeps_expired [OF i, of 20]
  have "ap_toasts demo_waiting = []"
    by (simp add: demo_waiting_def demo_app_def app_new_def Let_def case_prod_beta)
  moreover have "x_order demo_rt = id" by (simp add: demo_rt_def)
  ultimately show ?thesis
    using t by (simp add: demo_waiting_def timeout_text_def timeout_toast_def last_n_def TOAST_ERROR_DURATION_def)
qed

end
