(* ===== verification/PropsTiles.thy ===== *)
theory PropsTiles
  imports PropsRequests
begin

text \<open>
  The scope tiles as the user sees them (\<open>crates/tepegoz-tui/src/app.rs\<close>): what a refresh keeps, what a
  filter edit does to the selection, how a tile moves to another host, and what the Fleet tile reports.
\<close>

section \<open>Refreshes and filters\<close>

text \<open>
  When the daemon sends a new list, the row the user had selected stays selected, wherever it is
  in the new list, as long as it is there and passes the filter: in the two views of the Ports tile by
  protocol, port and process and by process and start time, in the Fleet tile by alias.
\<close>

theorem refresh_keeps_selected_row:
  "(\<forall>p\<in>set ports. pv_matches (x_unicode rt) (po_ports (ap_ports a)) p \<longrightarrow>
      pv_selected_key (x_unicode rt) (po_ports (ap_ports a)) = Some (port_key_of p) \<longrightarrow>
      pv_selected_key (x_unicode rt) (po_ports (ap_ports (fst (handle_ports_event rt (EvPortList ports src) a)))) =
        Some (port_key_of p)) \<and>
   (\<forall>p\<in>set procs. sv_matches (x_unicode rt) (po_processes (ap_ports a)) p \<longrightarrow>
      sv_selected_key (x_unicode rt) (po_processes (ap_ports a)) = Some (process_key_of p) \<longrightarrow>
      sv_selected_key (x_unicode rt)
          (po_processes (ap_ports (fst (handle_processes_event rt (EvProcessList procs src) a)))) =
        Some (process_key_of p)) \<and>
   (\<forall>h\<in>set hosts. fl_matches (x_unicode rt) (ap_fleet a) h \<longrightarrow>
      fl_selected_key (x_unicode rt) (ap_fleet a) = Some (fleet_key_of h) \<longrightarrow>
      fl_selected_key (x_unicode rt) (ap_fleet (fst (handle_fleet_event rt now (EvHostList hosts src) a))) =
        Some (fleet_key_of h))"
proof (intro conjI ballI impI)
  show "pv_selected_key (x_unicode rt)
      (po_ports (ap_ports (fst (handle_ports_event rt (EvPortList ports src) a)))) = Some (port_key_of p)"
    if "p \<in> set ports" "pv_matches (x_unicode rt) (po_ports (ap_ports a)) p"
      "pv_selected_key (x_unicode rt) (po_ports (ap_ports a)) = Some (port_key_of p)" for p
    using that by (auto simp: Let_def ports.visible_def pv_rows_def pv_matches_def intro!: ports.reanchor_follows)
  show "sv_selected_key (x_unicode rt)
      (po_processes (ap_ports (fst (handle_processes_event rt (EvProcessList procs src) a)))) =
        Some (process_key_of p)"
    if "p \<in> set procs" "sv_matches (x_unicode rt) (po_processes (ap_ports a)) p"
      "sv_selected_key (x_unicode rt) (po_processes (ap_ports a)) = Some (process_key_of p)" for p
    using that by (auto simp: Let_def procs.visible_def sv_rows_def sv_matches_def intro!: procs.reanchor_follows)
  show "fl_selected_key (x_unicode rt) (ap_fleet (fst (handle_fleet_event rt now (EvHostList hosts src) a))) =
        Some (fleet_key_of h)"
    if "h \<in> set hosts" "fl_matches (x_unicode rt) (ap_fleet a) h"
      "fl_selected_key (x_unicode rt) (ap_fleet a) = Some (fleet_key_of h)" for h
    using that by (auto simp: Let_def fleet.visible_def fl_rows_def fl_matches_def intro!: fleet.reanchor_follows)
qed

definition demo_host :: "string \<Rightarrow> host_entry" where
  "demo_host alias = \<lparr>he_alias = alias, he_hostname = ''10.0.0.1'', he_user = ''root'', he_port = 22,
     he_identity_files = [], he_proxy_jump = None\<rparr>"

definition demo_fleet :: "string list \<Rightarrow> nat \<Rightarrow> fleet_scope" where
  "demo_fleet aliases i = \<lparr>fl_state = FsAvailable (map demo_host aliases) Map.empty ''ssh config'',
     fl_selection = i, fl_filter = [], fl_filter_active = False, fl_sub_id = 5\<rparr>"

definition demo_hosts :: "(u8 list) app" where
  "demo_hosts = demo_app\<lparr>ap_fleet := demo_fleet [''web'', ''db1'', ''db2''] 1\<rparr>"

lemma demo_host_simps [simp]:
  "he_alias (demo_host s) = s" "he_hostname (demo_host s) = ''10.0.0.1''" "he_user (demo_host s) = ''root''"
  by (simp_all add: demo_host_def)

lemma demo_rt_unicode [simp]: "x_unicode demo_rt = id"
  by (simp add: demo_rt_def)

text \<open>The host \<open>db1\<close>, selected in the second row, moves to the third and stays selected.\<close>

theorem refresh_keeps_selected_row_witness:
  "fl_selected_key id (ap_fleet (fst (handle_fleet_event demo_rt 0
     (EvHostList (map demo_host [''api'', ''web'', ''db1'']) ''ssh config'') demo_hosts))) = Some (FleetKey ''db1'')"
proof -
  have k: "fl_selected_key id (ap_fleet demo_hosts) = Some (fleet_key_of (demo_host ''db1''))"
    by (simp add: fl_selected_key_def selected_host_def demo_hosts_def demo_fleet_def fl_matches_def)
  have m: "fl_matches id (ap_fleet demo_hosts) (demo_host ''db1'')"
    by (simp add: demo_hosts_def demo_fleet_def fl_matches_def)
  show ?thesis
    using refresh_keeps_selected_row [where rt = demo_rt and a = demo_hosts and now = 0
        and src = "''ssh config''" and hosts = "map demo_host [''api'', ''web'', ''db1'']"] k m
    by (simp add: fleet_key_of_def del: handle_fleet_event.simps)
qed

text \<open>
  An edit of the filter does not follow the selected row: with three hosts and the second one
  selected, typing \<open>d\<close> in the filter bar leaves the second and the third host visible and selects the
  third. The key the selection is re-anchored to is read after the filter has changed.
\<close>

definition demo_filtering :: "(u8 list) app" where
  "demo_filtering = demo_app\<lparr>ap_fleet := (demo_fleet [''web'', ''db1'', ''db2''] 1)\<lparr>fl_filter_active := True\<rparr>\<rparr>"

theorem filter_edit_moves_selection:
  "fl_selected_key id (ap_fleet demo_filtering) = Some (FleetKey ''db1'') \<and>
   (\<exists>a acts. handle_fleet_key demo_rt 0 (KChar 0x64) demo_filtering = (a, acts) \<and>
      fleet.visible id (ap_fleet a) = map demo_host [''db1'', ''db2''] \<and>
      fl_selected_key id (ap_fleet a) = Some (FleetKey ''db2''))"
proof -
  have "char_of_byte 0x64 = CHR ''d''" by code_simp
  then have h: "handle_fleet_key demo_rt 0 (KChar 0x64) demo_filtering =
      (upd_fleet (\<lambda>f. fl_refilter demo_rt (f\<lparr>fl_filter := ''d''\<rparr>)) demo_filtering, [DrawFrame])"
    by (simp add: handle_fleet_key.simps handle_fleet_filter_key_def printable_def demo_filtering_def
        demo_fleet_def)
  let ?f = "(demo_fleet [''web'', ''db1'', ''db2''] 1)\<lparr>fl_filter_active := True, fl_filter := ''d''\<rparr>"
  have m: "\<not> fl_matches id ?f (demo_host ''web'')" "fl_matches id ?f (demo_host ''db1'')"
    "fl_matches id ?f (demo_host ''db2'')"
    by (simp_all add: fl_matches_def to_lowercase_def ascii_lower_def demo_fleet_def starts_with_def Let_def)
  then have v: "fleet.visible id ?f = map demo_host [''db1'', ''db2'']"
    by (simp add: fleet.visible_def fl_rows_def demo_fleet_def)
  have k: "fl_selected_key id ?f = Some (FleetKey ''db2'')"
    unfolding fleet.key_law fleet.selected_eq v by (simp add: demo_fleet_def fleet_key_of_def)
  have "fl_selected_key id (fl_reanchor id (Some (FleetKey ''db2'')) ?f) = Some (FleetKey ''db2'')"
    by (rule fleet.reanchor_follows [of "demo_host ''db2''"], unfold v) (simp_all add: fleet_key_of_def)
  moreover have "fl_selected_key id (ap_fleet demo_filtering) = Some (FleetKey ''db1'')"
    by (simp add: fl_selected_key_def selected_host_def demo_filtering_def demo_fleet_def fl_matches_def
        fleet_key_of_def)
  ultimately show ?thesis
    using h k v by (simp add: fl_refilter_def demo_filtering_def)
qed

section \<open>Moving a tile to another host\<close>

definition host_usable :: "'p app \<Rightarrow> string \<Rightarrow> string \<Rightarrow> bool" where
  "host_usable a capability alias \<longleftrightarrow>
     (\<exists>hosts states src. fl_state (ap_fleet a) = FsAvailable hosts states src \<and>
        alias \<in> he_alias ` set hosts \<and> states alias = Some HsConnected) \<and>
     (\<exists>caps. ap_host_capabilities a alias = Some caps \<and> capability \<in> set caps)"

lemma picker_row_usable:
  assumes "HrRemote alias st has_cap True \<in> set (host_picker_rows a capability)"
  shows "host_usable a capability alias"
  using assms
  by (cases "fl_state (ap_fleet a)")
    (auto simp: host_picker_rows_def host_usable_def list_ex_iff Let_def split: option.splits)

lemma nth_opt_in: "nth_opt xs i = Some x \<Longrightarrow> x \<in> set xs"
  by (auto simp: nth_opt_eq split: if_splits)

lemma commit_row:
  assumes "ap_host_picker a = Some picker" "commit_host_picker a = (a', acts)"
    and "ds_target (ap_docker a') \<noteq> ds_target (ap_docker a)"
  shows "hp_target_tile picker = HpDocker \<and>
    (a', acts) = retarget_docker (ds_target (ap_docker a')) (a\<lparr>ap_host_picker := None\<rparr>) \<and>
    (case ds_target (ap_docker a') of StLocal \<Rightarrow> True
     | StRemote alias \<Rightarrow> host_usable a (hp_required_capability picker) alias)"
  using assms
  by (auto simp: commit_host_picker_def picker_required_def retarget_docker_def retarget_ports_def
      retarget_processes_def Let_def intro!: picker_row_usable dest!: nth_opt_in
      split: option.splits host_picker_row.splits host_picker_target_tile.splits if_splits docker_view.splits)

lemma retarget_docker_effect:
  assumes "(a', acts) = retarget_docker t a" "ds_target (ap_docker a') \<noteq> ds_target (ap_docker a)"
  shows "ap_host_picker a' = ap_host_picker a \<and> ds_state (ap_docker a') = DsConnecting \<and>
    ds_view (ap_docker a') = DvList \<and> ds_selection (ap_docker a') = 0 \<and>
    ds_pending_confirm (ap_docker a') = None \<and>
    acts = (case ds_view (ap_docker a) of DvLogs l \<Rightarrow> [send (PUnsubscribe (lv_sub_id l))] | DvList \<Rightarrow> []) @
      [send (PUnsubscribe (ds_sub_id (ap_docker a))),
       send (PSubscribe (SubDocker (ds_sub_id (ap_docker a)) t)), DrawFrame]"
  using assms by (auto simp: retarget_docker_def Let_def split: if_splits docker_view.splits)

text \<open>
  C34. The only key that moves the Docker tile to another host is Enter in the host picker, on the
  local machine or on a host that is connected and whose agent has the capability the tile needs.
  The tile then shows nothing of the old host: an open log is closed and its subscription ended, the
  list, the selection and any prompt are gone, and the list subscription is ended and opened again
  for the new host, in this order.
\<close>

theorem picker_moves_docker_tile:
  assumes "ap_host_picker a = Some picker" "handle_host_picker_key key a = (a', acts)"
    and "ds_target (ap_docker a') \<noteq> ds_target (ap_docker a)"
  shows "key = KEnter \<and> ap_host_picker a' = None \<and> hp_target_tile picker = HpDocker \<and>
    (case ds_target (ap_docker a') of StLocal \<Rightarrow> True
     | StRemote alias \<Rightarrow> host_usable a (hp_required_capability picker) alias) \<and>
    ds_state (ap_docker a') = DsConnecting \<and> ds_view (ap_docker a') = DvList \<and>
    ds_selection (ap_docker a') = 0 \<and> ds_pending_confirm (ap_docker a') = None \<and>
    acts = (case ds_view (ap_docker a) of DvLogs l \<Rightarrow> [send (PUnsubscribe (lv_sub_id l))] | DvList \<Rightarrow> []) @
      [send (PUnsubscribe (ds_sub_id (ap_docker a))),
       send (PSubscribe (SubDocker (ds_sub_id (ap_docker a)) (ds_target (ap_docker a')))), DrawFrame]"
proof -
  have k: "key = KEnter" and c: "commit_host_picker a = (a', acts)"
    using assms by (auto simp: handle_host_picker_key_def picker_select_def dismiss_host_picker_def Let_def
        split: if_splits)
  show ?thesis
    using commit_row [OF assms(1) c assms(3)] k assms(3)
      retarget_docker_effect [of a' acts "ds_target (ap_docker a')" "a\<lparr>ap_host_picker := None\<rparr>"]
    by simp
qed

definition demo_picking :: "(u8 list) app" where
  "demo_picking = demo_listed\<lparr>
     ap_fleet := \<lparr>fl_state = FsAvailable [demo_host ''web''] [''web'' \<mapsto> HsConnected] ''ssh config'',
       fl_selection = 0, fl_filter = [], fl_filter_active = False, fl_sub_id = 5\<rparr>,
     ap_host_capabilities := [''web'' \<mapsto> [''docker'']],
     ap_host_picker := Some \<lparr>hp_target_tile = HpDocker, hp_required_capability = ''docker'', hp_selected = 1\<rparr>\<rparr>"

lemma demo_picking_docker: "ap_docker demo_picking = ap_docker demo_listed"
  by (simp add: demo_picking_def)

lemma demo_listed_sub: "ds_sub_id (ap_docker demo_listed) = 2"
  by (simp add: demo_listed_def demo_app_def app_new_def docker_scope_new_def Let_def case_prod_beta)

theorem picker_moves_docker_tile_witness:
  "\<exists>a. handle_host_picker_key KEnter demo_picking =
       (a, [send (PUnsubscribe 2), send (PSubscribe (SubDocker 2 (StRemote ''web''))), DrawFrame]) \<and>
     host_usable demo_picking ''docker'' ''web'' \<and> ds_state (ap_docker a) = DsConnecting"
proof -
  have rows: "host_picker_rows demo_picking ''docker'' =
      [HrLocal, HrRemote ''web'' HsConnected True True]"
    by (simp add: host_picker_rows_def demo_picking_def)
  have p: "ap_host_picker demo_picking =
      Some \<lparr>hp_target_tile = HpDocker, hp_required_capability = ''docker'', hp_selected = 1\<rparr>"
    by (simp add: demo_picking_def)
  obtain a acts where h: "handle_host_picker_key KEnter demo_picking = (a, acts)"
    by (cases "handle_host_picker_key KEnter demo_picking")
  moreover from h have t: "ds_target (ap_docker a) = StRemote ''web''"
    by (auto simp: handle_host_picker_key_def commit_host_picker_def picker_required_def p rows
        retarget_docker_def demo_picking_docker demo_listed_docker Let_def)
  ultimately show ?thesis
    using picker_moves_docker_tile [OF p h]
    by (simp add: demo_picking_docker demo_listed_docker demo_listed_sub)
qed

text \<open>
  The subscription id does not change when the Docker tile moves to another host, so a list of
  the old host that is still on its way is shown as the new host's, and the restart key sends the old
  host's container id to the new host.
\<close>

theorem late_list_acted_on_at_new_host:
  assumes "retarget_docker new a = (a1, acts1)" "ds_target (ap_docker a) \<noteq> new"
    and "handle_docker_event rt (EvContainerList cs src) a1 = (a2, acts2)"
    and "filter (ds_matches (x_unicode rt) (ap_docker a)) cs = c # rest"
    and "\<not> ds_filter_active (ap_docker a)"
  shows "ds_sub_id (ap_docker a2) = ds_sub_id (ap_docker a) \<and>
    snd (handle_scope_key rt now (KChar 0x72) a2) =
      [send (PDockerAction \<lparr>dar_request_id = ap_next_sub_id a, dar_container_id = dc_id c,
         dar_kind = DaRestart, dar_target = new\<rparr>), DrawFrame]"
proof -
  have a1: "a1 = a\<lparr>ap_docker := (ap_docker a)\<lparr>ds_view := DvList, ds_state := DsConnecting,
      ds_selection := 0, ds_pending_confirm := None, ds_target := new\<rparr>\<rparr>"
    using assms(1,2) by (auto simp: retarget_docker_def Let_def split: docker_view.splits)
  have m: "ds_matches (x_unicode rt) (d\<lparr>ds_view := v, ds_state := s, ds_selection := i,
      ds_pending_confirm := p, ds_target := t\<rparr>) = ds_matches (x_unicode rt) d" for d v s i p t
    by (rule ext) (simp add: ds_matches_def)
  have a2: "a2 = a\<lparr>ap_docker := (ap_docker a)\<lparr>ds_view := DvList, ds_state := DsAvailable cs src,
      ds_selection := 0, ds_pending_confirm := None, ds_target := new\<rparr>\<rparr>"
    using assms(3,4) by (auto simp: a1 clamp_selection_def ds_visible_count_def m)
  have "selected_container (x_unicode rt) (ap_docker a2) = Some c"
    using assms(4) by (simp add: a2 selected_container_def m)
  then show ?thesis
    using assms(5) by (simp add: a2 handle_scope_key_at issue_selected_docker_action_def
        dispatch_docker_action_def alloc_sub_id_def register_action_def Let_def)
qed

theorem late_list_acted_on_at_new_host_witness:
  "snd (handle_scope_key demo_rt 0 (KChar 0x72)
     (fst (handle_docker_event demo_rt (EvContainerList [demo_container] ''sock'')
        (fst (retarget_docker (StRemote ''web'') demo_listed))))) =
   [send (PDockerAction \<lparr>dar_request_id = 6, dar_container_id = ''0123456789abcdef'',
      dar_kind = DaRestart, dar_target = StRemote ''web''\<rparr>), DrawFrame]"
proof -
  have m: "ds_matches (x_unicode demo_rt) (ap_docker demo_listed) c" for c
    by (simp add: ds_matches_def demo_listed_docker)
  show ?thesis
    using late_list_acted_on_at_new_host [of "StRemote ''web''" demo_listed
        "fst (retarget_docker (StRemote ''web'') demo_listed)"
        "snd (retarget_docker (StRemote ''web'') demo_listed)" demo_rt "[demo_container]" "''sock''" _ _
        demo_container "[]" 0, OF _ _ prod.collapse [symmetric]] m
    by (simp add: demo_listed_docker demo_container_def del: handle_docker_event.simps)
qed

section \<open>What the Fleet tile reports\<close>

text \<open>
  A host's new state is recorded for that host alone, and the user is told of it exactly when it
  is a terminal failure with a reason and not the state already known: a failure that repeats is
  reported once.
\<close>

theorem terminal_failure_reported_once:
  "fl_state (ap_fleet a) = FsAvailable hosts states src \<Longrightarrow>
   handle_fleet_event rt now (EvHostStateChanged alias st reason) a = (a', acts) \<Longrightarrow>
     fl_state (ap_fleet a') = FsAvailable hosts (states(alias \<mapsto> st)) src \<and>
     ((\<exists>k m. ShowToast k m \<in> set acts) \<longleftrightarrow> is_terminal st \<and> reason \<noteq> None \<and> states alias \<noteq> Some st) \<and>
     (\<exists>b. handle_fleet_event rt now' (EvHostStateChanged alias st reason') a' = (b, [DrawFrame]))"
  by (cases st) (auto simp: host_state_changed_def push_toast_at_def terminal_text_def Let_def split: if_splits)

theorem terminal_failure_reported_once_witness:
  "\<exists>a acts b. handle_fleet_event demo_rt 0 (EvHostStateChanged ''web'' HsAuthFailed (Some ''denied'')) demo_picking =
       (a, acts) \<and> (\<exists>k m. ShowToast k m \<in> set acts) \<and>
     handle_fleet_event demo_rt 9 (EvHostStateChanged ''web'' HsAuthFailed (Some ''denied'')) a = (b, [DrawFrame])"
proof -
  have f: "fl_state (ap_fleet demo_picking) = FsAvailable [demo_host ''web''] [''web'' \<mapsto> HsConnected] ''ssh config''"
    by (simp add: demo_picking_def)
  obtain a acts where h:
    "handle_fleet_event demo_rt 0 (EvHostStateChanged ''web'' HsAuthFailed (Some ''denied'')) demo_picking = (a, acts)"
    by (cases "handle_fleet_event demo_rt 0 (EvHostStateChanged ''web'' HsAuthFailed (Some ''denied'')) demo_picking")
  show ?thesis
    using terminal_failure_reported_once [OF f h] h
    by (simp del: handle_fleet_event.simps)
qed

section \<open>A prompt and a pane that opens\<close>

text \<open>
  A pane that opens while a kill prompt is on the screen takes the focus away from the Docker
  tile and leaves the prompt pending, where every other way of leaving the tile cancels it.
\<close>

theorem opened_pane_leaves_prompt:
  assumes "vw_focused (ap_view a) = TileDocker" "tile (vw_layout (ap_view a)) TilePty \<noteq> None"
    and "ap_pending_opens a = pend # rest"
    and "handle_event rt now (AeDaemonEnvelope (mk_envelope (PPaneOpened info))) a = Inr (a', acts)"
  shows "vw_focused (ap_view a') = TilePty \<and>
    ds_pending_confirm (ap_docker a') = ds_pending_confirm (ap_docker a) \<and>
    (\<forall>t. t = TileDocker \<or> ds_pending_confirm (ap_docker (fst (move_focus_to t a))) = None)"
  using assms by (auto simp: mk_envelope_def handle_pane_opened_def move_focus_to_def Let_def split: prod.splits)

theorem opened_pane_leaves_prompt_witness:
  "\<exists>a acts. handle_event demo_rt 0 (AeDaemonEnvelope (mk_envelope (PPaneOpened info)))
       (demo_confirming\<lparr>ap_pending_opens := [\<lparr>po_sub_id = 9, po_alias = None\<rparr>],
          ap_view := (ap_view demo_app)\<lparr>vw_focused := TileDocker\<rparr>\<rparr>) = Inr (a, acts) \<and>
     vw_focused (ap_view a) = TilePty \<and> ds_pending_confirm (ap_docker a) = Some demo_prompt"
proof -
  let ?a = "demo_confirming\<lparr>ap_pending_opens := [\<lparr>po_sub_id = 9, po_alias = None\<rparr>],
          ap_view := (ap_view demo_app)\<lparr>vw_focused := TileDocker\<rparr>\<rparr>"
  have "focus_routes_to_pty demo_app"
    unfolding demo_app_def
    by (rule fresh_routes_to_pty)
      (simp_all add: rect_new_law_def demo_rt_def MIN_ROWS_def MIN_COLS_def)
  moreover have "vw_focused (ap_view demo_app) = TilePty"
    unfolding demo_app_def app_new_def view_new_def
    by (simp add: Let_def case_prod_beta default_for_focus demo_rt_def god_sized_def MIN_ROWS_def MIN_COLS_def)
  ultimately have t: "tile (vw_layout (ap_view ?a)) TilePty \<noteq> None"
    by (auto simp: focus_routes_to_pty_def routes_to_pty_def split: option.splits)
  obtain a acts where h: "handle_event demo_rt 0 (AeDaemonEnvelope (mk_envelope (PPaneOpened info))) ?a = Inr (a, acts)"
    by (cases "handle_pane_opened demo_rt info ?a") (simp add: mk_envelope_def)
  show ?thesis
    using opened_pane_leaves_prompt [OF _ t _ h] h by (simp add: demo_confirming_def del: handle_event.simps)
qed

end
