(* ===== verification/SshError.thy ===== *)
theory SshError
  imports RustStd
begin

text \<open>
  The error type of the ssh crate (\<open>crates/tepegoz-ssh/src/error.rs\<close>) and the text \<open>Display\<close>
  prints for it, which reaches users in toasts and in the reasons of the Fleet tile. A \<open>PathBuf\<close> is
  the string \<open>display()\<close> shows.
\<close>

datatype ssh_error =
  UnknownAlias string string \<comment> \<open>alias, source label\<close>
| ConfigParse string string \<comment> \<open>path, reason\<close>
| TepegozConfig string string \<comment> \<open>path, reason\<close>
| KnownHosts string string \<comment> \<open>path, reason\<close>
| HostKeyMismatch string string u16 string nat \<comment> \<open>alias, host name, port, path, line\<close>
| AuthFailed string string string u16 string \<comment> \<open>alias, user, host name, port, reason\<close>
| ConnectFailed string string u16 string \<comment> \<open>alias, host name, port, reason\<close>
| PathResolution string
| SshIo string
| UnsupportedPlatform string string "string list" \<comment> \<open>os, arch, supported\<close>
| AgentNotEmbedded string
| DeployFailed string string \<comment> \<open>stage, reason\<close>
| ChecksumMismatch string string string \<comment> \<open>remote path, expected, actual\<close>
| AgentVersionMismatch u32 u32 \<comment> \<open>embedded, reported\<close>

definition backquote :: "string \<Rightarrow> string" where
  "backquote s = [CHR 0x60] @ s @ [CHR 0x60]"

definition squote :: "string \<Rightarrow> string" where
  "squote s = [CHR 0x27] @ s @ [CHR 0x27]"

definition show_u16 :: "u16 \<Rightarrow> string" where "show_u16 w = show_nat (unat w)"
definition show_u32 :: "u32 \<Rightarrow> string" where "show_u32 w = show_nat (unat w)"
definition show_u64 :: "u64 \<Rightarrow> string" where "show_u64 w = show_nat (unat w)"

definition tepegoz_name :: string where
  "tepegoz_name = ''Tepeg'' @ [CHR 0xC3, CHR 0xB6] @ ''z''"

fun ssh_error_text :: "ssh_error \<Rightarrow> string" where
  "ssh_error_text (UnknownAlias alias label) =
     ''host alias '' @ squote alias @ '' not found in host list (source: '' @ label @ '')''"
| "ssh_error_text (ConfigParse path reason) = ''ssh_config parse error at '' @ path @ '': '' @ reason"
| "ssh_error_text (TepegozConfig path reason) =
     ''tepegoz config.toml error at '' @ path @ '': '' @ reason"
| "ssh_error_text (KnownHosts path reason) = ''known_hosts error at '' @ path @ '': '' @ reason"
| "ssh_error_text (HostKeyMismatch alias hostname port path line) =
     ''host key mismatch for '' @ alias @ '' ('' @ hostname @ '':'' @ show_u16 port @
     ''): stored key at '' @ path @ '':'' @ show_nat line @
     '' differs from the presented key. TOFU rejected this connection; recover with '' @
     backquote (''tepegoz doctor --ssh-forget '' @ alias) @
     '' after confirming the change is legitimate.''"
| "ssh_error_text (AuthFailed alias user hostname port reason) =
     ''authentication failed for '' @ alias @ '' ('' @ user @ ''@'' @ hostname @ '':'' @ show_u16 port @
     ''): '' @ reason"
| "ssh_error_text (ConnectFailed alias hostname port reason) =
     ''connection failed to '' @ alias @ '' ('' @ hostname @ '':'' @ show_u16 port @ ''): '' @ reason"
| "ssh_error_text (PathResolution reason) = ''path resolution failed: '' @ reason"
| "ssh_error_text (SshIo reason) = ''i/o error: '' @ reason"
| "ssh_error_text (UnsupportedPlatform os arch supported) =
     ''unsupported remote platform: os='' @ os @ '' arch='' @ arch @ ''. '' @ tepegoz_name @
     '' supports: '' @ str_join '', '' supported"
| "ssh_error_text (AgentNotEmbedded triple) =
     ''tepegoz-agent binary for target '' @ triple @
     '' is not embedded in this controller build. Rebuild with '' @ backquote ''cargo xtask build-agents'' @
     '' (requires zig + cargo-zigbuild) and retry.''"
| "ssh_error_text (DeployFailed stage reason) =
     ''agent deploy failed at stage '' @ squote stage @ '': '' @ reason"
| "ssh_error_text (ChecksumMismatch remote_path expected actual) =
     ''agent checksum mismatch at '' @ remote_path @ '': expected sha256 '' @ expected @
     '', got '' @ actual @ ''. Partial transfer or corruption on the remote filesystem.''"
| "ssh_error_text (AgentVersionMismatch embedded reported) =
     ''agent reported wire protocol v'' @ show_u32 reported @ '', controller expects v'' @
     show_u32 embedded @ ''. Redeploy with '' @ backquote ''cargo xtask build-agents'' @
     '' + rebuild the controller, or confirm no stale '' @ backquote ''~/.cache/tepegoz/agent-v*'' @
     '' binaries are shadowing the new deploy.''"

end
