(* ===== verification/RemotePane.thy ===== *)
theory RemotePane
  imports Pty SshError
begin

text \<open>
  Panes on remote hosts (\<open>crates/tepegoz-core/src/remote_pane.rs\<close>): the pane, the driver task that
  owns its SSH channel, the manager, and the task that forwards such a pane to a subscriber
  (\<open>forward_remote_pane\<close> of \<open>client.rs\<close>). The SSH channel and the broadcast channel are third-party;
  what the driver reads from the one is a label of its steps, the other is the parameter of
  \<open>Pty\<close>. The scrollback is a copy of the local one, line by line, and shares its model.
\<close>

definition REMOTE_SCROLLBACK_CAPACITY :: nat where
  "REMOTE_SCROLLBACK_CAPACITY = 2 * 1024 * 1024"

datatype remote_pane_cmd = RcData "u8 list" | RcResize u16 u16 | RcClose

record 'c remote_pane =
  rp_id :: pane_id
  rp_alias :: string
  rp_created_at_unix_millis :: u64
  rp_size :: "u16 \<times> u16"
  rp_output_tx :: 'c
  rp_scrollback :: scrollback
  rp_exit_code :: "i32 option"
  rp_alive :: bool
  rp_cmds :: "remote_pane_cmd list" \<comment> \<open>sent and not yet taken by the driver\<close>

definition remote_info :: "'c remote_pane \<Rightarrow> pane_info" where
  "remote_info p = \<lparr>pi_id = rp_id p, pi_created_at_unix_millis = rp_created_at_unix_millis p,
     pi_rows = fst (rp_size p), pi_cols = snd (rp_size p), pi_shell = ''ssh:'' @ rp_alias p,
     pi_alive = rp_alive p\<rparr>"

definition remote_subscribe :: "('c \<Rightarrow> 'r) \<Rightarrow> 'c remote_pane \<Rightarrow> u8 list \<times> 'r" where
  "remote_subscribe chan_subscribe p = (snapshot (rp_scrollback p), chan_subscribe (rp_output_tx p))"

text \<open>
  The commands: \<open>driver\<close> says whether the driver task still holds the receiver. A resize stores the
  size whether or not it can be passed on.
\<close>

definition remote_send_cmd :: "bool \<Rightarrow> remote_pane_cmd \<Rightarrow> 'c remote_pane \<Rightarrow> (string + unit) \<times> 'c remote_pane" where
  "remote_send_cmd driver cmd p =
     (if driver then (Inr (), p\<lparr>rp_cmds := rp_cmds p @ [cmd]\<rparr>)
      else (Inl ''remote pane driver task has exited'', p))"

definition remote_send_input :: "bool \<Rightarrow> u8 list \<Rightarrow> 'c remote_pane \<Rightarrow> (string + unit) \<times> 'c remote_pane" where
  "remote_send_input driver data p = remote_send_cmd driver (RcData data) p"

definition remote_resize :: "bool \<Rightarrow> u16 \<Rightarrow> u16 \<Rightarrow> 'c remote_pane \<Rightarrow> (string + unit) \<times> 'c remote_pane" where
  "remote_resize driver rows cols p =
     remote_send_cmd driver (RcResize rows cols) (p\<lparr>rp_size := (rows, cols)\<rparr>)"

definition remote_shutdown :: "bool \<Rightarrow> 'c remote_pane \<Rightarrow> 'c remote_pane" where
  "remote_shutdown driver p = snd (remote_send_cmd driver RcClose p)"

section \<open>The driver\<close>

datatype channel_msg =
  CmData "u8 list" | CmExtendedData "u8 list" | CmExitStatus u32 | CmClose | CmEof | CmNone | CmOther

text \<open>What the driver does to the SSH channel.\<close>

datatype channel_op = CoData "u8 list" | CoWindowChange u32 u32 | CoEof | CoClose

datatype driver_pc = DrSelect | DrPublish "u8 list" | DrMarkDead | DrPublishExit | DrDone

record 'c remote_sys =
  rs_pane :: "'c remote_pane"
  rs_pc :: driver_pc
  rs_ops :: "channel_op list"

datatype driver_label =
  DlCmd bool \<comment> \<open>the next command; whether the channel took it\<close>
| DlDropped \<comment> \<open>every sender is gone\<close>
| DlMsg channel_msg
| DlPublish | DlMarkDead | DlPublishExit

text \<open>
  \<open>select!\<close> is biased: a message is taken only when no command waits. The bytes go to the scrollback
  under its lock, and to the channel after the lock is released.
\<close>

definition take_cmd :: "bool \<Rightarrow> 'c remote_sys \<Rightarrow> 'c remote_sys option" where
  "take_cmd ok s =
     (case rp_cmds (rs_pane s) of
        [] \<Rightarrow> None
      | cmd # rest \<Rightarrow>
          (let s1 = s\<lparr>rs_pane := (rs_pane s)\<lparr>rp_cmds := rest\<rparr>\<rparr>
           in Some (case cmd of
                RcData data \<Rightarrow>
                  s1\<lparr>rs_ops := rs_ops s @ [CoData data], rs_pc := if ok then DrSelect else DrMarkDead\<rparr>
              | RcResize rows cols \<Rightarrow>
                  s1\<lparr>rs_ops := rs_ops s @ [CoWindowChange (ucast cols) (ucast rows)]\<rparr>
              | RcClose \<Rightarrow> s1\<lparr>rs_ops := rs_ops s @ [CoEof, CoClose], rs_pc := DrMarkDead\<rparr>)))"

definition take_msg :: "channel_msg \<Rightarrow> 'c remote_sys \<Rightarrow> 'c remote_sys" where
  "take_msg m s =
     (case m of
        CmData data \<Rightarrow>
          s\<lparr>rs_pane := (rs_pane s)\<lparr>rp_scrollback := scrollback_append data (rp_scrollback (rs_pane s))\<rparr>,
            rs_pc := DrPublish data\<rparr>
      | CmExtendedData data \<Rightarrow>
          s\<lparr>rs_pane := (rs_pane s)\<lparr>rp_scrollback := scrollback_append data (rp_scrollback (rs_pane s))\<rparr>,
            rs_pc := DrPublish data\<rparr>
      | CmExitStatus exit_status \<Rightarrow> s\<lparr>rs_pane := (rs_pane s)\<lparr>rp_exit_code := Some exit_status\<rparr>\<rparr>
      | CmOther \<Rightarrow> s
      | _ \<Rightarrow> s\<lparr>rs_pc := DrMarkDead\<rparr>)"

definition publish :: "('c \<Rightarrow> pane_update \<Rightarrow> 'c) \<Rightarrow> pane_update \<Rightarrow> 'c remote_sys \<Rightarrow> 'c remote_sys" where
  "publish chan_send u s =
     s\<lparr>rs_pane := (rs_pane s)\<lparr>rp_output_tx := chan_send (rp_output_tx (rs_pane s)) u\<rparr>\<rparr>"

inductive drive_step ::
  "('c \<Rightarrow> pane_update \<Rightarrow> 'c) \<Rightarrow> 'c remote_sys \<Rightarrow> driver_label \<Rightarrow> 'c remote_sys \<Rightarrow> bool"
  for chan_send :: "'c \<Rightarrow> pane_update \<Rightarrow> 'c"
where
  dr_cmd: "rs_pc s = DrSelect \<Longrightarrow> take_cmd ok s = Some s' \<Longrightarrow> drive_step chan_send s (DlCmd ok) s'"
| dr_dropped: "rs_pc s = DrSelect \<Longrightarrow> rp_cmds (rs_pane s) = [] \<Longrightarrow>
    drive_step chan_send s DlDropped (s\<lparr>rs_ops := rs_ops s @ [CoClose], rs_pc := DrMarkDead\<rparr>)"
| dr_msg: "rs_pc s = DrSelect \<Longrightarrow> rp_cmds (rs_pane s) = [] \<Longrightarrow>
    drive_step chan_send s (DlMsg m) (take_msg m s)"
| dr_publish: "rs_pc s = DrPublish data \<Longrightarrow>
    drive_step chan_send s DlPublish ((publish chan_send (PuBytes data) s)\<lparr>rs_pc := DrSelect\<rparr>)"
| dr_mark_dead: "rs_pc s = DrMarkDead \<Longrightarrow>
    drive_step chan_send s DlMarkDead
      (s\<lparr>rs_pane := (rs_pane s)\<lparr>rp_alive := False\<rparr>, rs_pc := DrPublishExit\<rparr>)"
| dr_publish_exit: "rs_pc s = DrPublishExit \<Longrightarrow>
    drive_step chan_send s DlPublishExit
      ((publish chan_send (PuExit (rp_exit_code (rs_pane s))) s)\<lparr>rs_pc := DrDone\<rparr>)"

inductive_cases drive_stepE: "drive_step chan_send s l s'"

text \<open>
  Between the driver's steps the handlers of the clients run: they only queue commands and change
  the size.
\<close>

inductive remote_step ::
  "('c \<Rightarrow> pane_update \<Rightarrow> 'c) \<Rightarrow> 'c remote_sys \<Rightarrow> driver_label option \<Rightarrow> 'c remote_sys \<Rightarrow> bool"
  for chan_send :: "'c \<Rightarrow> pane_update \<Rightarrow> 'c"
where
  rm_driver: "drive_step chan_send s l s' \<Longrightarrow> remote_step chan_send s (Some l) s'"
| rm_input: "remote_send_input (rs_pc s \<noteq> DrDone) data (rs_pane s) = (r, p) \<Longrightarrow>
    remote_step chan_send s None (s\<lparr>rs_pane := p\<rparr>)"
| rm_resize: "remote_resize (rs_pc s \<noteq> DrDone) rows cols (rs_pane s) = (r, p) \<Longrightarrow>
    remote_step chan_send s None (s\<lparr>rs_pane := p\<rparr>)"
| rm_shutdown: "remote_step chan_send s None (s\<lparr>rs_pane := remote_shutdown (rs_pc s \<noteq> DrDone) (rs_pane s)\<rparr>)"

inductive_cases remote_stepE: "remote_step chan_send s l s'"

inductive remote_run ::
  "('c \<Rightarrow> pane_update \<Rightarrow> 'c) \<Rightarrow> 'c remote_sys \<Rightarrow> driver_label list \<Rightarrow> 'c remote_sys \<Rightarrow> bool"
  for chan_send :: "'c \<Rightarrow> pane_update \<Rightarrow> 'c"
where
  rr_nil: "remote_run chan_send s [] s"
| rr_driver: "remote_run chan_send s ls s1 \<Longrightarrow> remote_step chan_send s1 (Some l) s2 \<Longrightarrow>
    remote_run chan_send s (ls @ [l]) s2"
| rr_client: "remote_run chan_send s ls s1 \<Longrightarrow> remote_step chan_send s1 None s2 \<Longrightarrow>
    remote_run chan_send s ls s2"

definition remote_spawn :: "'c \<Rightarrow> pane_id \<Rightarrow> u64 \<Rightarrow> string \<Rightarrow> u16 \<Rightarrow> u16 \<Rightarrow> 'c remote_sys" where
  "remote_spawn tx i created alias rows cols =
     \<lparr>rs_pane = \<lparr>rp_id = i, rp_alias = alias, rp_created_at_unix_millis = created,
        rp_size = (rows, cols), rp_output_tx = tx,
        rp_scrollback = scrollback_new REMOTE_SCROLLBACK_CAPACITY, rp_exit_code = None,
        rp_alive = True, rp_cmds = []\<rparr>,
      rs_pc = DrSelect, rs_ops = []\<rparr>"

section \<open>The manager\<close>

text \<open>
  The steps of opening a pane that can fail, each with the text \<open>anyhow\<close> gives it; the id is taken
  only when all of them went through.
\<close>

record open_results =
  or_discover_task :: "string option"
  or_discover :: "ssh_error option"
  or_known_hosts :: "ssh_error option"
  or_connect :: "ssh_error option"
  or_open_session :: "ssh_error option"
  or_request_pty :: "string option"
  or_request_shell :: "string option"

definition remote_open_error :: "string \<Rightarrow> open_results \<Rightarrow> string option" where
  "remote_open_error alias io =
     (case or_discover_task io of Some e \<Rightarrow> Some (''host discovery task panic: '' @ e) | None \<Rightarrow>
      case or_discover io of Some e \<Rightarrow> Some (''ssh host discovery failed: '' @ ssh_error_text e) | None \<Rightarrow>
      case or_known_hosts io of Some e \<Rightarrow> Some (''open known_hosts: '' @ ssh_error_text e) | None \<Rightarrow>
      case or_connect io of Some e \<Rightarrow> Some (''connect_host('' @ alias @ ''): '' @ ssh_error_text e) | None \<Rightarrow>
      case or_open_session io of Some e \<Rightarrow> Some (''open_session('' @ alias @ ''): '' @ ssh_error_text e) | None \<Rightarrow>
      case or_request_pty io of Some e \<Rightarrow> Some (''request_pty: '' @ e) | None \<Rightarrow>
      case or_request_shell io of Some e \<Rightarrow> Some (''request_shell: '' @ e) | None \<Rightarrow> None)"

definition remote_manager_new :: "'p pty_manager" where
  "remote_manager_new = \<lparr>pm_panes = Map.empty, pm_next_id = push_bit 32 1\<rparr>"

definition remote_manager_open ::
  "open_results \<Rightarrow> 'c \<Rightarrow> u64 \<Rightarrow> string \<Rightarrow> u16 \<Rightarrow> u16 \<Rightarrow> 'c remote_sys pty_manager \<Rightarrow>
     'c remote_sys pty_manager \<times> (string + 'c remote_sys)" where
  "remote_manager_open io tx created alias rows cols m =
     (case remote_open_error alias io of
        Some e \<Rightarrow> (m, Inl e)
      | None \<Rightarrow>
          (let i = pm_next_id m;
               p = remote_spawn tx i created alias rows cols
           in (m\<lparr>pm_next_id := i + 1, pm_panes := (pm_panes m)(i \<mapsto> p)\<rparr>, Inr p)))"

definition remote_manager_close :: "pane_id \<Rightarrow> 'c remote_sys pty_manager \<Rightarrow>
    'c remote_sys pty_manager \<times> 'c remote_sys option" where
  "remote_manager_close i m =
     (case pm_panes m i of
        None \<Rightarrow> (m, None)
      | Some p \<Rightarrow>
          (m\<lparr>pm_panes := (pm_panes m)(i := None)\<rparr>,
           Some (p\<lparr>rs_pane := remote_shutdown (rs_pc p \<noteq> DrDone) (rs_pane p)\<rparr>)))"

section \<open>The forwarder\<close>

text \<open>
  As \<open>forward_pane\<close> of a local pane, except that a channel found closed ends the subscription without
  an \<open>Exit\<close>.
\<close>

fun forward_remote_loop :: "nat \<Rightarrow> recv_result list \<Rightarrow> event list" where
  "forward_remote_loop accepts [] = []"
| "forward_remote_loop 0 (r # rs) = []"
| "forward_remote_loop (Suc n) (RvUpdate (PuBytes b) # rs) = EvPaneOutput b # forward_remote_loop n rs"
| "forward_remote_loop (Suc n) (RvUpdate (PuExit c) # rs) = [EvPaneExit c]"
| "forward_remote_loop (Suc n) (RvLagged k # rs) = EvPaneLagged k # forward_remote_loop n rs"
| "forward_remote_loop (Suc n) (RvClosed # rs) = []"

definition forward_remote_pane ::
  "u8 list \<Rightarrow> u16 \<times> u16 \<Rightarrow> bool \<Rightarrow> i32 option \<Rightarrow> nat \<Rightarrow> recv_result list \<Rightarrow> event list" where
  "forward_remote_pane scroll dims alive code_now accepts rs =
     (case accepts of
        0 \<Rightarrow> []
      | Suc n \<Rightarrow> EvPaneSnapshot scroll (fst dims) (snd dims) #
          (if \<not> alive then (if n = 0 then [] else [EvPaneExit code_now])
           else forward_remote_loop n rs))"

end
