(* ===== verification/RemoteProps.thy ===== *)
theory RemoteProps
  imports RemotePane
begin

text \<open>
  What subscribers of a remote pane get: all output before the exit, and the exact account of what a
  snapshot and the live stream after it contain together.
\<close>

fun remote_chunks :: "driver_label list \<Rightarrow> u8 list list" where
  "remote_chunks [] = []"
| "remote_chunks (DlMsg (CmData b) # ls) = b # remote_chunks ls"
| "remote_chunks (DlMsg (CmExtendedData b) # ls) = b # remote_chunks ls"
| "remote_chunks (_ # ls) = remote_chunks ls"

lemma remote_chunks_append [simp]: "remote_chunks (ls @ ms) = remote_chunks ls @ remote_chunks ms"
  by (induction ls rule: remote_chunks.induct) auto

text \<open>The chunk that is in the scrollback and not yet broadcast, and the exit once it is sent.\<close>

fun pending_chunk :: "driver_pc \<Rightarrow> u8 list list" where
  "pending_chunk (DrPublish b) = [b]"
| "pending_chunk _ = []"

definition exit_sent :: "'c remote_sys \<Rightarrow> pane_update list" where
  "exit_sent s = (if rs_pc s = DrDone then [PuExit (rp_exit_code (rs_pane s))] else [])"

lemma remote_cmd_frame:
  assumes "remote_step chan_send s None s'"
  shows "rs_pc s' = rs_pc s \<and> rp_output_tx (rs_pane s') = rp_output_tx (rs_pane s) \<and>
    rp_scrollback (rs_pane s') = rp_scrollback (rs_pane s) \<and> exit_sent s' = exit_sent s"
  using assms
  by cases (auto simp: remote_send_input_def remote_resize_def remote_shutdown_def remote_send_cmd_def
      exit_sent_def split: if_splits)

lemma drive_step_effect:
  assumes "drive_step chan_send s l s'"
  shows "\<exists>us. rp_output_tx (rs_pane s') = foldl chan_send (rp_output_tx (rs_pane s)) us \<and>
    rp_scrollback (rs_pane s') = fold scrollback_append (remote_chunks [l]) (rp_scrollback (rs_pane s)) \<and>
    rs_pc s \<noteq> DrDone \<and>
    map PuBytes (pending_chunk (rs_pc s) @ remote_chunks [l]) @ exit_sent s' =
      us @ map PuBytes (pending_chunk (rs_pc s'))"
  using assms
proof (cases rule: drive_step.cases)
  case (dr_cmd ok)
  then show ?thesis
    by (auto simp: take_cmd_def exit_sent_def Let_def split: list.splits remote_pane_cmd.splits
        if_splits intro: exI [of _ "[]"])
next
  case (dr_msg m)
  then show ?thesis
    by (cases m) (auto simp: take_msg_def exit_sent_def intro: exI [of _ "[]"])
next
  case (dr_publish data)
  then show ?thesis
    by (auto simp: publish_def exit_sent_def intro: exI [of _ "[PuBytes data]"])
next
  case dr_publish_exit
  then show ?thesis
    by (auto simp: publish_def exit_sent_def intro: exI [of _ "[PuExit (rp_exit_code (rs_pane s))]"])
qed (auto simp: exit_sent_def intro: exI [of _ "[]"])

lemma remote_run_effect:
  "remote_run chan_send s ls s' \<Longrightarrow>
     \<exists>us. rp_output_tx (rs_pane s') = foldl chan_send (rp_output_tx (rs_pane s)) us \<and>
       rp_scrollback (rs_pane s') = fold scrollback_append (remote_chunks ls) (rp_scrollback (rs_pane s)) \<and>
       map PuBytes (pending_chunk (rs_pc s) @ remote_chunks ls) @ exit_sent s' =
         exit_sent s @ us @ map PuBytes (pending_chunk (rs_pc s'))"
proof (induction rule: remote_run.induct)
  case (rr_nil s)
  then show ?case
    by (cases "rs_pc s") (auto simp: exit_sent_def intro: exI [of _ "[]"])
next
  case (rr_driver s ls s1 l s2)
  from rr_driver.hyps(2) have "drive_step chan_send s1 l s2"
    by (cases rule: remote_stepE) auto
  from drive_step_effect [OF this] obtain vs where v:
    "rp_output_tx (rs_pane s2) = foldl chan_send (rp_output_tx (rs_pane s1)) vs"
    "rp_scrollback (rs_pane s2) = fold scrollback_append (remote_chunks [l]) (rp_scrollback (rs_pane s1))"
    "rs_pc s1 \<noteq> DrDone"
    "map PuBytes (pending_chunk (rs_pc s1) @ remote_chunks [l]) @ exit_sent s2 =
       vs @ map PuBytes (pending_chunk (rs_pc s2))"
    by blast
  from rr_driver.IH obtain us where u:
    "rp_output_tx (rs_pane s1) = foldl chan_send (rp_output_tx (rs_pane s)) us"
    "rp_scrollback (rs_pane s1) = fold scrollback_append (remote_chunks ls) (rp_scrollback (rs_pane s))"
    "map PuBytes (pending_chunk (rs_pc s) @ remote_chunks ls) @ exit_sent s1 =
       exit_sent s @ us @ map PuBytes (pending_chunk (rs_pc s1))"
    by blast
  have "map PuBytes (pending_chunk (rs_pc s) @ remote_chunks (ls @ [l])) @ exit_sent s2 =
      (map PuBytes (pending_chunk (rs_pc s) @ remote_chunks ls) @ exit_sent s1) @
        map PuBytes (remote_chunks [l]) @ exit_sent s2"
    using v(3) by (simp add: exit_sent_def)
  also have "\<dots> = exit_sent s @ us @ vs @ map PuBytes (pending_chunk (rs_pc s2))"
    using u(3) v(4) by simp
  finally show ?case
    using u(1,2) v(1,2) by (intro exI [of _ "us @ vs"]) simp
next
  case (rr_client s ls s1 s2)
  then show ?case
    using remote_cmd_frame [OF rr_client.hyps(2)] by simp
qed

text \<open>
  What a remote pane broadcasts: every chunk the SSH channel delivered, in order, standard error
  among them, except the one that is just being handled; and the exit, with the status known then,
  behind all of them and only once.
\<close>

theorem remote_output_before_exit:
  assumes "remote_run chan_send (remote_spawn tx i created alias rows cols) ls s"
  shows "\<exists>us. rp_output_tx (rs_pane s) = foldl chan_send tx us \<and>
    map PuBytes (remote_chunks ls) @
      (if rs_pc s = DrDone then [PuExit (rp_exit_code (rs_pane s))] else []) =
    us @ map PuBytes (pending_chunk (rs_pc s))"
proof -
  have "exit_sent (remote_spawn tx i created alias rows cols) = []"
    "pending_chunk (rs_pc (remote_spawn tx i created alias rows cols)) = []"
    "rp_output_tx (rs_pane (remote_spawn tx i created alias rows cols)) = tx"
    by (simp_all add: remote_spawn_def exit_sent_def)
  with remote_run_effect [OF assms] show ?thesis
    unfolding exit_sent_def [of s] by (metis append_Nil)
qed

definition remote_pend :: "'c remote_sys \<Rightarrow> u8 list" where
  "remote_pend s = concat (pending_chunk (rs_pc s))"

lemma update_bytes_map [simp]: "update_bytes (map PuBytes bs) = concat bs"
  by (induction bs) auto


definition log_send :: "pane_update list \<Rightarrow> pane_update \<Rightarrow> pane_update list" where
  "log_send c u = c @ [u]"

lemma log_broadcast: "broadcast_laws length log_send (\<lambda>r c. drop r c)"
proof -
  have "foldl log_send c us = c @ us" for c us
    by (induction us arbitrary: c) (auto simp: log_send_def)
  then show ?thesis by (simp add: broadcast_laws_def)
qed

definition remote_demo :: "nat \<Rightarrow> pane_update list remote_sys" where
  "remote_demo n =
     (let s0 = remote_spawn [] 1 0 ''web'' 24 80;
          s1 = take_msg (CmData [104, 105]) s0;
          s2 = (publish log_send (PuBytes [104, 105]) s1)\<lparr>rs_pc := DrSelect\<rparr>;
          s3 = take_msg CmEof s2;
          s4 = s3\<lparr>rs_pane := (rs_pane s3)\<lparr>rp_alive := False\<rparr>, rs_pc := DrPublishExit\<rparr>;
          s5 = (publish log_send (PuExit None) s4)\<lparr>rs_pc := DrDone\<rparr>
      in [s0, s1, s2, s3, s4, s5] ! n)"

lemma remote_demo_steps:
  "drive_step log_send (remote_demo 0) (DlMsg (CmData [104, 105])) (remote_demo 1)"
  "drive_step log_send (remote_demo 1) DlPublish (remote_demo 2)"
  "drive_step log_send (remote_demo 2) (DlMsg CmEof) (remote_demo 3)"
  "drive_step log_send (remote_demo 3) DlMarkDead (remote_demo 4)"
  "drive_step log_send (remote_demo 4) DlPublishExit (remote_demo 5)"
  by (auto simp: drive_step.simps remote_demo_def remote_spawn_def take_msg_def publish_def Let_def)

lemma remote_run_step:
  "remote_run chan_send s ls s1 \<Longrightarrow> drive_step chan_send s1 l s2 \<Longrightarrow> remote_run chan_send s (ls @ [l]) s2"
  by (rule remote_run.rr_driver [OF _ remote_step.rm_driver])

theorem remote_output_before_exit_witness:
  "rp_output_tx (rs_pane (remote_demo 5)) = [PuBytes [104, 105], PuExit None]"
proof -
  note run = remote_run_step [OF remote_run_step [OF remote_run_step [OF remote_run_step [OF
      remote_run_step [OF remote_run.rr_nil remote_demo_steps(1)] remote_demo_steps(2)]
      remote_demo_steps(3)] remote_demo_steps(4)] remote_demo_steps(5)]
  have log: "foldl log_send [] us = us" for us
    by (induction us rule: rev_induct) (auto simp: log_send_def)
  have "remote_demo 0 = remote_spawn [] 1 0 ''web'' 24 80" "rs_pc (remote_demo 5) = DrDone"
    "rp_exit_code (rs_pane (remote_demo 5)) = None"
    by (simp_all add: remote_demo_def Let_def remote_spawn_def take_msg_def publish_def)
  with remote_output_before_exit [of log_send "[]" 1 0 "''web''" 24 80] run show ?thesis
    by (force simp: log)
qed


section \<open>The exit status\<close>

text \<open>
  An end of file ends the driver at once: an exit status that the host sends behind it, as SSH allows,
  is never read and the pane's exit carries no code.
\<close>

lemma status_behind_eof_lost:
  assumes "drive_step chan_send s (DlMsg CmEof) s1" "drive_step chan_send s1 l s2"
  shows "l = DlMarkDead \<and> rp_exit_code (rs_pane s2) = rp_exit_code (rs_pane s)"
  using assms by (auto simp: take_msg_def elim!: drive_stepE)

end
