(* ===== verification/AgentRouting.thy ===== *)
theory AgentRouting
  imports Proto SshError
begin

text \<open>
  The pool of remote agents and the translation of ids between clients and agents
  (\<open>crates/tepegoz-core/src/agent.rs\<close>, and the \<open>route_remote_*\<close> functions of
  \<open>crates/tepegoz-core/src/client.rs\<close>).

  Clients and agents are reached through \<open>tokio\<close> channels, which are third-party code. The model
  keeps the list of the sends that went through, in order; whether the receiving task still exists,
  which is what a send returns, is the argument \<open>alive\<close>. An \<open>Arc<AgentConnection>\<close> is shared: the
  pool, the parser task and a handler that is about to use it hold the same object, so connections
  live in a store and are named by their address. A \<open>HashMap\<close> has no iteration order: where the
  code iterates, the order of the keys is an argument.
\<close>

section \<open>Channels\<close>

datatype dest = ToClient nat | ToAgent nat

type_synonym outbox = "(dest \<times> envelope) list"

definition tx_send :: "(dest \<Rightarrow> bool) \<Rightarrow> dest \<Rightarrow> envelope \<Rightarrow> outbox \<Rightarrow> outbox \<times> bool" where
  "tx_send alive d env out = (if alive d then (out @ [(d, env)], True) else (out, False))"

definition envelope_of :: "payload \<Rightarrow> envelope" where
  "envelope_of p = \<lparr>en_version = PROTOCOL_VERSION, en_payload = p\<rparr>"

definition event_envelope :: "u64 \<Rightarrow> event \<Rightarrow> envelope" where
  "event_envelope sub ev = envelope_of (PEvent \<lparr>ef_subscription_id = sub, ef_event = ev\<rparr>)"

text \<open>What was sent to one receiver, in order.\<close>

definition received :: "dest \<Rightarrow> outbox \<Rightarrow> envelope list" where
  "received d out = map snd (filter (\<lambda>(d', _). d' = d) out)"

lemma received_append [simp]: "received d (out @ out') = received d out @ received d out'"
  by (simp add: received_def)

lemma received_Nil [simp]: "received d [] = []"
  by (simp add: received_def)

lemma received_single [simp]: "received d [(d', env)] = (if d' = d then [env] else [])"
  by (simp add: received_def)

lemma received_send:
  "received d (fst (tx_send alive d' env out)) =
     received d out @ (if d' = d \<and> alive d' then [env] else [])"
  by (simp add: tx_send_def)

section \<open>Connections and routing entries\<close>

datatype routed_kind = RkSubscription | RkOneShot

datatype routed_scope =
  RsDocker | RsDockerLogs | RsDockerStats
| RsDockerAction string docker_action_kind \<comment> \<open>container id, action kind\<close>
| RsPorts | RsProcesses

record routed_sub =
  rt_client :: nat
  rt_client_id :: u64
  rt_kind :: routed_kind
  rt_scope :: routed_scope

record agent_connection =
  ac_alias :: string
  ac_capabilities :: "string list"
  ac_next_sub_id :: u64
  ac_routing :: "u64 \<rightharpoonup> routed_sub"

text \<open>\<open>fetch_add\<close> returns the old value and wraps.\<close>

definition alloc_id :: "agent_connection \<Rightarrow> u64 \<times> agent_connection" where
  "alloc_id c = (ac_next_sub_id c, c\<lparr>ac_next_sub_id := ac_next_sub_id c + 1\<rparr>)"

definition agent_connection_new :: "string \<Rightarrow> string list \<Rightarrow> agent_connection" where
  "agent_connection_new alias capabilities =
     \<lparr>ac_alias = alias, ac_capabilities = capabilities, ac_next_sub_id = 1, ac_routing = Map.empty\<rparr>"

section \<open>From the agent to the clients\<close>

definition route_agent_envelope ::
  "(dest \<Rightarrow> bool) \<Rightarrow> envelope \<Rightarrow> agent_connection \<Rightarrow> outbox \<Rightarrow> agent_connection \<times> outbox" where
  "route_agent_envelope alive env c out =
     (case en_payload env of
        PEvent frame \<Rightarrow>
          (case ac_routing c (ef_subscription_id frame) of
             Some r \<Rightarrow>
               (c, fst (tx_send alive (ToClient (rt_client r))
                     \<lparr>en_version = en_version env,
                      en_payload = PEvent (frame\<lparr>ef_subscription_id := rt_client_id r\<rparr>)\<rparr> out))
           | None \<Rightarrow> (c, out))
      | PDockerActionResult result \<Rightarrow>
          (case ac_routing c (dres_request_id result) of
             Some r \<Rightarrow>
               (c\<lparr>ac_routing := (ac_routing c)(dres_request_id result := None)\<rparr>,
                if rt_kind r = RkOneShot
                then fst (tx_send alive (ToClient (rt_client r))
                       \<lparr>en_version = en_version env,
                        en_payload = PDockerActionResult (result\<lparr>dres_request_id := rt_client_id r\<rparr>)\<rparr> out)
                else out)
           | None \<Rightarrow> (c, out))
      | _ \<Rightarrow> (c, out))"

definition docker_unavailable_envelope :: "u64 \<Rightarrow> string \<Rightarrow> envelope" where
  "docker_unavailable_envelope sub reason = event_envelope sub (EvDockerUnavailable reason)"

definition stream_ended_envelope :: "u64 \<Rightarrow> string \<Rightarrow> envelope" where
  "stream_ended_envelope sub reason = event_envelope sub (EvDockerStreamEnded reason)"

definition ports_unavailable_envelope :: "u64 \<Rightarrow> string \<Rightarrow> envelope" where
  "ports_unavailable_envelope sub reason = event_envelope sub (EvPortsUnavailable reason)"

definition processes_unavailable_envelope :: "u64 \<Rightarrow> string \<Rightarrow> envelope" where
  "processes_unavailable_envelope sub reason = event_envelope sub (EvProcessesUnavailable reason)"

definition docker_action_failure_envelope ::
  "u64 \<Rightarrow> string \<Rightarrow> docker_action_kind \<Rightarrow> string \<Rightarrow> envelope" where
  "docker_action_failure_envelope request_id container_id action_kind reason =
     envelope_of (PDockerActionResult
       \<lparr>dres_request_id = request_id, dres_container_id = container_id, dres_kind = action_kind,
        dres_outcome = DaFailure reason, dres_target = StLocal\<rparr>)"

text \<open>What one entry's client is told when the agent goes away.\<close>

fun drain_envelope :: "string \<Rightarrow> routed_sub \<Rightarrow> envelope" where
  "drain_envelope reason r =
     (case rt_scope r of
        RsDocker \<Rightarrow> docker_unavailable_envelope (rt_client_id r) reason
      | RsDockerLogs \<Rightarrow> stream_ended_envelope (rt_client_id r) reason
      | RsDockerStats \<Rightarrow> stream_ended_envelope (rt_client_id r) reason
      | RsDockerAction container_id action_kind \<Rightarrow>
          docker_action_failure_envelope (rt_client_id r) container_id action_kind reason
      | RsPorts \<Rightarrow> ports_unavailable_envelope (rt_client_id r) reason
      | RsProcesses \<Rightarrow> processes_unavailable_envelope (rt_client_id r) reason)"

definition drain_one :: "(dest \<Rightarrow> bool) \<Rightarrow> string \<Rightarrow> (u64 \<rightharpoonup> routed_sub) \<Rightarrow> u64 \<Rightarrow> outbox \<Rightarrow> outbox" where
  "drain_one alive reason routing d out =
     (case routing d of
        Some r \<Rightarrow> fst (tx_send alive (ToClient (rt_client r)) (drain_envelope reason r) out)
      | None \<Rightarrow> out)"

definition disconnect_reason :: "string \<Rightarrow> string" where
  "disconnect_reason alias = ''agent disconnected: '' @ alias"

definition drain_routing_on_disconnect ::
  "(dest \<Rightarrow> bool) \<Rightarrow> u64 list \<Rightarrow> agent_connection \<Rightarrow> outbox \<Rightarrow> agent_connection \<times> outbox" where
  "drain_routing_on_disconnect alive order c out =
     (c\<lparr>ac_routing := Map.empty\<rparr>,
      fold (drain_one alive (disconnect_reason (ac_alias c)) (ac_routing c)) order out)"

text \<open>
  The parser task: it routes what it reads until the stream ends or a frame is malformed, then
  drains. The drain takes the order in which the map is iterated at that moment.
\<close>

fun run_envelope_parser ::
  "(dest \<Rightarrow> bool) \<Rightarrow> ((u64 \<rightharpoonup> routed_sub) \<Rightarrow> u64 list) \<Rightarrow> ('e + envelope) list \<Rightarrow>
     agent_connection \<Rightarrow> outbox \<Rightarrow> agent_connection \<times> outbox" where
  "run_envelope_parser alive order (Inr env # rest) c out =
     (case route_agent_envelope alive env c out of
        (c', out') \<Rightarrow> run_envelope_parser alive order rest c' out')"
| "run_envelope_parser alive order _ c out =
     drain_routing_on_disconnect alive (order (ac_routing c)) c out"

section \<open>The pool\<close>

record hub =
  hb_conns :: "nat \<Rightarrow> agent_connection"
  hb_next :: nat \<comment> \<open>the first address not in use\<close>
  hb_pool :: "string \<rightharpoonup> nat"
  hb_out :: outbox

text \<open>The empty pool of a daemon that starts.\<close>

definition hub_new :: hub where
  "hub_new = \<lparr>hb_conns = (\<lambda>_. agent_connection_new [] []), hb_next = 0, hb_pool = Map.empty, hb_out = []\<rparr>"

definition shutdown_agent_connection ::
  "(dest \<Rightarrow> bool) \<Rightarrow> ((u64 \<rightharpoonup> routed_sub) \<Rightarrow> u64 list) \<Rightarrow> nat \<Rightarrow> hub \<Rightarrow> hub" where
  "shutdown_agent_connection alive order a h =
     (case drain_routing_on_disconnect alive (order (ac_routing (hb_conns h a))) (hb_conns h a) (hb_out h) of
        (c, out) \<Rightarrow> h\<lparr>hb_conns := (hb_conns h)(a := c), hb_out := out\<rparr>)"

text \<open>
  \<open>deploy_and_register_inner\<close> after the handshake: the new connection gets an address and replaces
  the entry of its alias, whose subscribers are told.
\<close>

definition register_agent ::
  "(dest \<Rightarrow> bool) \<Rightarrow> ((u64 \<rightharpoonup> routed_sub) \<Rightarrow> u64 list) \<Rightarrow> string \<Rightarrow> string list \<Rightarrow> hub \<Rightarrow> hub" where
  "register_agent alive order alias capabilities h =
     (let a = hb_next h;
          h1 = h\<lparr>hb_conns := (hb_conns h)(a := agent_connection_new alias capabilities),
                 hb_next := a + 1\<rparr>;
          h2 = (case hb_pool h1 alias of
                  Some prev \<Rightarrow>
                    shutdown_agent_connection alive order prev
                      (h1\<lparr>hb_pool := (hb_pool h1)(alias := None)\<rparr>)
                | None \<Rightarrow> h1)
      in h2\<lparr>hb_pool := (hb_pool h2)(alias \<mapsto> a)\<rparr>)"

definition remove_and_shutdown_agent ::
  "(dest \<Rightarrow> bool) \<Rightarrow> ((u64 \<rightharpoonup> routed_sub) \<Rightarrow> u64 list) \<Rightarrow> string \<Rightarrow> hub \<Rightarrow> hub" where
  "remove_and_shutdown_agent alive order alias h =
     (let h1 = h\<lparr>hb_pool := (hb_pool h)(alias := None)\<rparr>
      in case hb_pool h alias of
           Some a \<Rightarrow> shutdown_agent_connection alive order a h1
         | None \<Rightarrow> h1)"

text \<open>
  The steps of a deployment, each of which may fail: what \<open>tepegoz_ssh::deploy\<close> returned for this
  session, and the resolver of the binaries built into the daemon.
\<close>

record agent_info =
  ai_version :: u32
  ai_os :: string
  ai_arch :: string
  ai_capabilities :: "string list"

record deploy_results =
  de_detect_target :: "ssh_error + string" \<comment> \<open>the target triple\<close>
  de_deploy_agent :: "u8 list \<Rightarrow> u32 \<Rightarrow> ssh_error + string" \<comment> \<open>the remote path\<close>
  de_spawn_channel :: "string \<Rightarrow> ssh_error + unit"
  de_handshake :: "u32 \<Rightarrow> ssh_error + agent_info"

definition deploy_and_register_inner ::
  "(dest \<Rightarrow> bool) \<Rightarrow> ((u64 \<rightharpoonup> routed_sub) \<Rightarrow> u64 list) \<Rightarrow> deploy_results \<Rightarrow> (string \<Rightarrow> u8 list option) \<Rightarrow>
     string \<Rightarrow> hub \<Rightarrow> (ssh_error + string list) \<times> hub" where
  "deploy_and_register_inner alive order io resolver alias h =
     (case de_detect_target io of
        Inl e \<Rightarrow> (Inl e, h)
      | Inr triple \<Rightarrow>
          (case resolver triple of
             None \<Rightarrow> (Inl (AgentNotEmbedded triple), h)
           | Some binary \<Rightarrow>
               (case de_deploy_agent io binary PROTOCOL_VERSION of
                  Inl e \<Rightarrow> (Inl e, h)
                | Inr remote_path \<Rightarrow>
                    (case de_spawn_channel io remote_path of
                       Inl e \<Rightarrow> (Inl e, h)
                     | Inr _ \<Rightarrow>
                         (case de_handshake io PROTOCOL_VERSION of
                            Inl e \<Rightarrow> (Inl e, h)
                          | Inr info \<Rightarrow>
                              (Inr (ai_capabilities info),
                               register_agent alive order alias (ai_capabilities info) h))))))"

definition deploy_and_register_agent ::
  "(dest \<Rightarrow> bool) \<Rightarrow> ((u64 \<rightharpoonup> routed_sub) \<Rightarrow> u64 list) \<Rightarrow> deploy_results \<Rightarrow>
     (string \<Rightarrow> u8 list option) option \<Rightarrow> string \<Rightarrow> hub \<Rightarrow> string list option \<times> hub" where
  "deploy_and_register_agent alive order io resolver alias h =
     (case resolver of
        None \<Rightarrow> (None, h)
      | Some f \<Rightarrow>
          (case deploy_and_register_inner alive order io f alias h of
             (Inr capabilities, h') \<Rightarrow> (Some capabilities, h')
           | (Inl _, h') \<Rightarrow> (None, h')))"

section \<open>From a client to an agent\<close>

record agent_sub_handle =
  ah_alias :: string
  ah_daemon_id :: u64

text \<open>The routing failures are reported in the shape of the scope that asked.\<close>

fun unavailable_envelope_for_scope :: "routed_scope \<Rightarrow> u64 \<Rightarrow> string \<Rightarrow> envelope" where
  "unavailable_envelope_for_scope scope client_id reason =
     event_envelope client_id
       (case scope of
          RsDocker \<Rightarrow> EvDockerUnavailable reason
        | RsDockerLogs \<Rightarrow> EvDockerStreamEnded reason
        | RsDockerStats \<Rightarrow> EvDockerStreamEnded reason
        | RsDockerAction _ _ \<Rightarrow> EvDockerUnavailable reason
        | RsPorts \<Rightarrow> EvPortsUnavailable reason
        | RsProcesses \<Rightarrow> EvProcessesUnavailable reason)"

definition hub_send :: "(dest \<Rightarrow> bool) \<Rightarrow> dest \<Rightarrow> envelope \<Rightarrow> hub \<Rightarrow> hub" where
  "hub_send alive d env h = h\<lparr>hb_out := fst (tx_send alive d env (hb_out h))\<rparr>"

text \<open>Under the routing lock of the connection at \<open>a\<close>: an id, and an entry under it.\<close>

definition register_route :: "nat \<Rightarrow> routed_sub \<Rightarrow> hub \<Rightarrow> u64 \<times> hub" where
  "register_route a r h =
     (case alloc_id (hb_conns h a) of
        (d, c) \<Rightarrow> (d, h\<lparr>hb_conns := (hb_conns h)(a := c\<lparr>ac_routing := (ac_routing c)(d \<mapsto> r)\<rparr>)\<rparr>))"

definition drop_route :: "nat \<Rightarrow> u64 \<Rightarrow> hub \<Rightarrow> hub" where
  "drop_route a d h =
     h\<lparr>hb_conns := (hb_conns h)(a := (hb_conns h a)\<lparr>ac_routing := (ac_routing (hb_conns h a))(d := None)\<rparr>)\<rparr>"

text \<open>
  \<open>route_remote_subscribe\<close> from the point where the connection has been looked up: other tasks run
  between the lookup and this.
\<close>

definition subscribe_on ::
  "(dest \<Rightarrow> bool) \<Rightarrow> nat \<Rightarrow> nat \<Rightarrow> u64 \<Rightarrow> string \<Rightarrow> routed_scope \<Rightarrow> (u64 \<Rightarrow> subscription) \<Rightarrow>
     (u64 \<rightharpoonup> agent_sub_handle) \<Rightarrow> hub \<Rightarrow> (u64 \<rightharpoonup> agent_sub_handle) \<times> hub" where
  "subscribe_on alive a cl client_id alias scope builder subs h =
     (case register_route a \<lparr>rt_client = cl, rt_client_id = client_id, rt_kind = RkSubscription,
                             rt_scope = scope\<rparr> h of
        (d, h1) \<Rightarrow>
          (case tx_send alive (ToAgent a) (envelope_of (PSubscribe (builder d))) (hb_out h1) of
             (out, True) \<Rightarrow>
               (subs(client_id \<mapsto> \<lparr>ah_alias = alias, ah_daemon_id = d\<rparr>), h1\<lparr>hb_out := out\<rparr>)
           | (out, False) \<Rightarrow>
               (subs, hub_send alive (ToClient cl)
                        (unavailable_envelope_for_scope scope client_id (''agent writer closed: '' @ alias))
                        (drop_route a d h1))))"

definition route_remote_subscribe ::
  "(dest \<Rightarrow> bool) \<Rightarrow> nat \<Rightarrow> u64 \<Rightarrow> string \<Rightarrow> routed_scope \<Rightarrow> string \<Rightarrow> (u64 \<Rightarrow> subscription) \<Rightarrow>
     (u64 \<rightharpoonup> agent_sub_handle) \<Rightarrow> hub \<Rightarrow> (u64 \<rightharpoonup> agent_sub_handle) \<times> hub" where
  "route_remote_subscribe alive cl client_id alias scope required builder subs h =
     (case hb_pool h alias of
        None \<Rightarrow>
          (subs, hub_send alive (ToClient cl)
                   (unavailable_envelope_for_scope scope client_id (''agent not connected: '' @ alias)) h)
      | Some a \<Rightarrow>
          if required \<notin> set (ac_capabilities (hb_conns h a)) then
            (subs, hub_send alive (ToClient cl)
                     (unavailable_envelope_for_scope scope client_id
                        (''no '' @ required @ '' on '' @ alias)) h)
          else subscribe_on alive a cl client_id alias scope builder subs h)"

definition action_failure_envelope :: "docker_action_request \<Rightarrow> string \<Rightarrow> envelope" where
  "action_failure_envelope req reason =
     envelope_of (PDockerActionResult
       \<lparr>dres_request_id = dar_request_id req, dres_container_id = dar_container_id req,
        dres_kind = dar_kind req, dres_outcome = DaFailure reason, dres_target = dar_target req\<rparr>)"

definition route_remote_docker_action ::
  "(dest \<Rightarrow> bool) \<Rightarrow> nat \<Rightarrow> string \<Rightarrow> docker_action_request \<Rightarrow> hub \<Rightarrow> hub" where
  "route_remote_docker_action alive cl alias req h =
     (case hb_pool h alias of
        None \<Rightarrow>
          hub_send alive (ToClient cl) (action_failure_envelope req (''agent not connected: '' @ alias)) h
      | Some a \<Rightarrow>
          if ''docker'' \<notin> set (ac_capabilities (hb_conns h a)) then
            hub_send alive (ToClient cl) (action_failure_envelope req (''no docker on '' @ alias)) h
          else
            (case register_route a
                    \<lparr>rt_client = cl, rt_client_id = dar_request_id req, rt_kind = RkOneShot,
                     rt_scope = RsDockerAction (dar_container_id req) (dar_kind req)\<rparr> h of
               (d, h1) \<Rightarrow>
                 (case tx_send alive (ToAgent a)
                         (envelope_of (PDockerAction (req\<lparr>dar_request_id := d, dar_target := StLocal\<rparr>)))
                         (hb_out h1) of
                    (out, True) \<Rightarrow> h1\<lparr>hb_out := out\<rparr>
                  | (out, False) \<Rightarrow>
                      hub_send alive (ToClient cl)
                        (action_failure_envelope req (''agent writer closed: '' @ alias))
                        (drop_route a d h1))))"

text \<open>
  Taking a subscription back: the routing entry goes and the agent is told. The connection is the
  one the pool holds now.
\<close>

definition drop_agent_sub :: "(dest \<Rightarrow> bool) \<Rightarrow> agent_sub_handle \<Rightarrow> hub \<Rightarrow> hub" where
  "drop_agent_sub alive handle h =
     (case hb_pool h (ah_alias handle) of
        Some a \<Rightarrow>
          hub_send alive (ToAgent a) (envelope_of (PUnsubscribe (ah_daemon_id handle)))
            (drop_route a (ah_daemon_id handle) h)
      | None \<Rightarrow> h)"

end
