(* ===== verification/Fleet.thy ===== *)
theory Fleet
  imports AgentRouting
begin

text \<open>
  The Fleet subscription of the daemon (\<open>crates/tepegoz-core/src/client.rs\<close>, lines 1560 to 2338):
  one supervisor task per host, which connects, watches and reconnects, and the coordinator that
  hands actions to the supervisors.

  An \<open>async\<close> function is a machine whose states are its points of suspension: \<open>sup_pc\<close> says at which
  \<open>await\<close> a supervisor stands, \<open>sup_input\<close> what the awaited future returned, and one step runs the
  code up to the next suspension. A step that this suspension cannot see is \<open>None\<close>. What the
  \<open>ssh\<close> crate answers is an input; clocks are readings in milliseconds.
\<close>

section \<open>Constants\<close>

definition SSH_HEARTBEAT_INTERVAL :: duration where "SSH_HEARTBEAT_INTERVAL = 30000"
definition SSH_DEGRADED_THRESHOLD :: u32 where "SSH_DEGRADED_THRESHOLD = 1"
definition SSH_DISCONNECTED_THRESHOLD :: u32 where "SSH_DISCONNECTED_THRESHOLD = 3"
definition SSH_RECONNECT_RESET_THRESHOLD :: duration where "SSH_RECONNECT_RESET_THRESHOLD = 30000"

definition SSH_BACKOFF_LADDER :: "duration list" where
  "SSH_BACKOFF_LADDER = [1000, 2000, 5000, 15000, 60000]"

section \<open>The supervisor\<close>

datatype host_action = HaReconnect | HaDisconnect

datatype sup_pc =
  PcProxyJump string \<comment> \<open>parked with its reason\<close>
| PcIdle
| PcConnecting
| PcDeploying \<comment> \<open>\<open>deploy_and_register_agent\<close>\<close>
| PcSession u32 host_state \<comment> \<open>\<open>run_connected_session\<close>: misses, state shown\<close>
| PcTerminal \<comment> \<open>\<open>await_terminal_reset\<close>\<close>
| PcBackoff \<comment> \<open>\<open>wait_backoff\<close>\<close>
| PcDone

datatype sup_input =
  SiAction "host_action option" \<comment> \<open>\<open>action_rx.recv()\<close>\<close>
| SiConnect "(ssh_error + unit) option" \<comment> \<open>the attempt's outcome, \<open>None\<close> when its task died\<close>
| SiDeployed "string list option"
| SiHeartbeat bool \<comment> \<open>the keepalive was sent\<close>
| SiElapsed

datatype sup_out =
  SoEvent event
| SoConnect \<comment> \<open>spawn the attempt\<close>
| SoAbort \<comment> \<open>abort it\<close>
| SoDeploy
| SoRemoveAgent
| SoSleep duration

record supervisor =
  sp_entry :: host_entry
  sp_pc :: sup_pc
  sp_should_connect :: bool
  sp_backoff_idx :: nat
  sp_connect_start :: instant

type_synonym sup_result = "supervisor \<times> sup_out list"

definition emit_state :: "supervisor \<Rightarrow> host_state \<Rightarrow> string option \<Rightarrow> sup_out" where
  "emit_state s st reason = SoEvent (EvHostStateChanged (he_alias (sp_entry s)) st reason)"

definition emit_agent_capabilities :: "supervisor \<Rightarrow> string list \<Rightarrow> sup_out" where
  "emit_agent_capabilities s caps = SoEvent (EvAgentCapabilities (he_alias (sp_entry s)) caps)"

definition proxy_jump_reason :: "string \<Rightarrow> string" where
  "proxy_jump_reason jump =
     ''host requires ProxyJump ('' @ jump @ '') which is not supported in Phase 5 (v1.1)''"

text \<open>The top of the main loop; \<open>now\<close> is read when an attempt is spawned.\<close>

definition start_attempt :: "instant \<Rightarrow> supervisor \<Rightarrow> sup_result" where
  "start_attempt now s =
     (s\<lparr>sp_pc := PcConnecting, sp_connect_start := now\<rparr>, [emit_state s HsConnecting None, SoConnect])"

definition loop_head :: "instant \<Rightarrow> supervisor \<Rightarrow> sup_result" where
  "loop_head now s = (if sp_should_connect s then start_attempt now s else (s\<lparr>sp_pc := PcIdle\<rparr>, []))"

definition backoff_delay :: "supervisor \<Rightarrow> duration" where
  "backoff_delay s = SSH_BACKOFF_LADDER ! min (sp_backoff_idx s) (length SSH_BACKOFF_LADDER - 1)"

definition back_off :: "supervisor \<Rightarrow> sup_result" where
  "back_off s = (s\<lparr>sp_pc := PcBackoff\<rparr>, [SoSleep (backoff_delay s)])"

definition also_out :: "sup_out list \<Rightarrow> sup_result \<Rightarrow> sup_result" where
  "also_out os r = (fst r, os @ snd r)"

text \<open>\<open>connect_outcome_err_reason\<close>.\<close>

fun connect_outcome_err_reason :: "ssh_error + unit \<Rightarrow> string" where
  "connect_outcome_err_reason (Inr _) = []"
| "connect_outcome_err_reason (Inl (AuthFailed alias user hostname port reason)) = reason"
| "connect_outcome_err_reason (Inl (HostKeyMismatch alias hostname port path line)) =
     ''host-key TOFU rejected '' @ em_dash @ '' stored key at '' @ path @ '':'' @ show_nat line @
     '' does not match; recover with '' @ backquote ''tepegoz doctor --ssh-forget <alias>'' @
     '' after verifying''"
| "connect_outcome_err_reason (Inl e) = ssh_error_text e"

datatype connected_outcome = HeartbeatFailed | ReconnectRequested | DisconnectRequested | CoShutdown

text \<open>What follows \<open>run_connected_session\<close>.\<close>

definition session_ended :: "instant \<Rightarrow> connected_outcome \<Rightarrow> supervisor \<Rightarrow> sup_result" where
  "session_ended now outcome s =
     also_out [SoRemoveAgent, emit_agent_capabilities s []]
       (case outcome of
          HeartbeatFailed \<Rightarrow>
            (let s1 = (if SSH_RECONNECT_RESET_THRESHOLD \<le> now - sp_connect_start s
                       then s\<lparr>sp_backoff_idx := 0\<rparr> else s)
             in also_out [emit_state s HsDisconnected None] (back_off s1))
        | ReconnectRequested \<Rightarrow>
            also_out [emit_state s HsDisconnected None] (loop_head now (s\<lparr>sp_backoff_idx := 0\<rparr>))
        | DisconnectRequested \<Rightarrow>
            also_out [emit_state s HsDisconnected None] (loop_head now (s\<lparr>sp_should_connect := False\<rparr>))
        | CoShutdown \<Rightarrow> (s\<lparr>sp_pc := PcDone\<rparr>, []))"

text \<open>One turn of the heartbeat: the outcome of the session, or its misses, state and events.\<close>

definition heartbeat_step :: "bool \<Rightarrow> u32 \<Rightarrow> host_state \<Rightarrow> (u32 \<times> host_state \<times> host_state option) option" where
  "heartbeat_step send_ok miss_counter current_state =
     (if send_ok then
        (if 0 < miss_counter \<and> current_state = HsDegraded
         then Some (0, HsConnected, Some HsConnected)
         else Some (0, current_state, None))
      else
        (let m = miss_counter + 1
         in if SSH_DISCONNECTED_THRESHOLD \<le> m then None
            else if SSH_DEGRADED_THRESHOLD \<le> m \<and> current_state \<noteq> HsDegraded
                 then Some (m, HsDegraded, Some HsDegraded)
                 else Some (m, current_state, None)))"

text \<open>The outcome of a connection attempt.\<close>

fun connect_done :: "supervisor \<Rightarrow> (ssh_error + unit) option \<Rightarrow> sup_result" where
  "connect_done s (Some (Inr u)) =
     (s\<lparr>sp_pc := PcDeploying\<rparr>, [emit_state s HsConnected None, SoDeploy])"
| "connect_done s (Some (Inl e)) =
     (case e of
        HostKeyMismatch _ _ _ _ _ \<Rightarrow>
          (s\<lparr>sp_pc := PcTerminal\<rparr>,
           [emit_state s HsHostKeyMismatch (Some (connect_outcome_err_reason (Inl e)))])
      | AuthFailed _ _ _ _ _ \<Rightarrow>
          (s\<lparr>sp_pc := PcTerminal\<rparr>,
           [emit_state s HsAuthFailed (Some (connect_outcome_err_reason (Inl e)))])
      | _ \<Rightarrow> also_out [emit_state s HsDisconnected None] (back_off s))"
| "connect_done s None = also_out [emit_state s HsDisconnected None] (back_off s)"

definition done_sup :: "supervisor \<Rightarrow> sup_result" where
  "done_sup s = (s\<lparr>sp_pc := PcDone\<rparr>, [])"

fun sup_step :: "instant \<Rightarrow> sup_input \<Rightarrow> supervisor \<Rightarrow> sup_result option" where
  "sup_step now (SiAction act) s =
     (case sp_pc s of
        PcProxyJump reason \<Rightarrow>
          (case act of
             Some HaReconnect \<Rightarrow> Some (s, [emit_state s HsAuthFailed (Some reason)])
           | Some HaDisconnect \<Rightarrow> Some (s, [])
           | None \<Rightarrow> Some (done_sup s))
      | PcIdle \<Rightarrow>
          (case act of
             Some HaReconnect \<Rightarrow>
               Some (start_attempt now (s\<lparr>sp_should_connect := True, sp_backoff_idx := 0\<rparr>))
           | Some HaDisconnect \<Rightarrow> Some (loop_head now s)
           | None \<Rightarrow> Some (done_sup s))
      | PcConnecting \<Rightarrow>
          (case act of
             Some HaReconnect \<Rightarrow> Some (also_out [SoAbort] (loop_head now (s\<lparr>sp_backoff_idx := 0\<rparr>)))
           | Some HaDisconnect \<Rightarrow>
               Some (also_out [SoAbort, emit_state s HsDisconnected None]
                       (loop_head now (s\<lparr>sp_should_connect := False\<rparr>)))
           | None \<Rightarrow> Some (also_out [SoAbort] (done_sup s)))
      | PcSession _ _ \<Rightarrow>
          (case act of
             Some HaReconnect \<Rightarrow> Some (session_ended now ReconnectRequested s)
           | Some HaDisconnect \<Rightarrow> Some (session_ended now DisconnectRequested s)
           | None \<Rightarrow> Some (session_ended now CoShutdown s))
      | PcTerminal \<Rightarrow>
          (case act of
             Some HaReconnect \<Rightarrow>
               Some (also_out [emit_state s HsDisconnected None] (loop_head now (s\<lparr>sp_backoff_idx := 0\<rparr>)))
           | Some HaDisconnect \<Rightarrow> Some (s, [])
           | None \<Rightarrow> Some (done_sup s))
      | PcBackoff \<Rightarrow>
          (case act of
             Some HaReconnect \<Rightarrow> Some (loop_head now (s\<lparr>sp_backoff_idx := 0\<rparr>))
           | Some HaDisconnect \<Rightarrow> Some (loop_head now (s\<lparr>sp_should_connect := False\<rparr>))
           | None \<Rightarrow> Some (done_sup s))
      | _ \<Rightarrow> None)"
| "sup_step now (SiConnect r) s =
     (if sp_pc s = PcConnecting then Some (connect_done s r) else None)"
| "sup_step now (SiDeployed caps) s =
     (if sp_pc s = PcDeploying
      then Some (s\<lparr>sp_pc := PcSession 0 HsConnected\<rparr>,
                 [emit_agent_capabilities s (case caps of Some cs \<Rightarrow> cs | None \<Rightarrow> [])])
      else None)"
| "sup_step now (SiHeartbeat send_ok) s =
     (case sp_pc s of
        PcSession m st \<Rightarrow>
          (case heartbeat_step send_ok m st of
             None \<Rightarrow> Some (session_ended now HeartbeatFailed s)
           | Some (m', st', shown) \<Rightarrow>
               Some (s\<lparr>sp_pc := PcSession m' st'\<rparr>,
                     (case shown of Some x \<Rightarrow> [emit_state s x None] | None \<Rightarrow> [])))
      | _ \<Rightarrow> None)"
| "sup_step now SiElapsed s =
     (if sp_pc s = PcBackoff
      then Some (loop_head now
             (s\<lparr>sp_backoff_idx := min (sp_backoff_idx s + 1) (length SSH_BACKOFF_LADDER - 1)\<rparr>))
      else None)"

text \<open>From the call to the first suspension.\<close>

definition host_supervisor :: "instant \<Rightarrow> host_entry \<Rightarrow> bool \<Rightarrow> sup_result" where
  "host_supervisor now entry autoconnect =
     (let s = \<lparr>sp_entry = entry, sp_pc = PcIdle, sp_should_connect = autoconnect, sp_backoff_idx = 0,
               sp_connect_start = 0\<rparr>
      in case he_proxy_jump entry of
           Some jump \<Rightarrow>
             (s\<lparr>sp_pc := PcProxyJump (proxy_jump_reason jump)\<rparr>,
              [emit_state s HsAuthFailed (Some (proxy_jump_reason jump))])
         | None \<Rightarrow> also_out [emit_state s HsDisconnected None] (loop_head now s))"

text \<open>A run: the inputs in order, and everything put out.\<close>

fun sup_run :: "(instant \<times> sup_input) list \<Rightarrow> supervisor \<Rightarrow> sup_result option" where
  "sup_run [] s = Some (s, [])"
| "sup_run ((now, i) # is') s =
     (case sup_step now i s of
        None \<Rightarrow> None
      | Some (s1, os) \<Rightarrow> map_option (also_out os) (sup_run is' s1))"

section \<open>The coordinator\<close>

datatype host_source = HsrcTepegozConfig string | HsrcEnv | HsrcSshConfig string | HsrcNone

fun host_source_label :: "host_source \<Rightarrow> string" where
  "host_source_label (HsrcTepegozConfig p) = ''tepegoz config.toml ('' @ p @ '')''"
| "host_source_label HsrcEnv = ''TEPEGOZ_SSH_HOSTS env''"
| "host_source_label (HsrcSshConfig p) = ''ssh_config ('' @ p @ '')''"
| "host_source_label HsrcNone = ''(none)''"

record host_list =
  hl_hosts :: "host_entry list"
  hl_source :: host_source
  hl_autoconnect :: "string set"

datatype discovery = DiscoveryPanicked | DiscoveryFailed ssh_error | Discovered host_list

text \<open>
  A coordinator that has returned, one that waits for ever, and one that dispatches: the senders it
  keeps by alias, each naming a supervisor by its position in the host list.
\<close>

datatype coordinator = CoReturned | CoParked | CoDispatch "string \<rightharpoonup> nat"

text \<open>\<open>host_senders.insert\<close> in the order of the hosts: a later host with the same alias replaces.\<close>

fun host_senders :: "nat \<Rightarrow> host_entry list \<Rightarrow> (string \<rightharpoonup> nat) \<Rightarrow> (string \<rightharpoonup> nat)" where
  "host_senders i [] m = m"
| "host_senders i (h # hs) m = host_senders (Suc i) hs (m(he_alias h \<mapsto> i))"

text \<open>Up to the dispatch loop: the events sent, the state, and the supervisors spawned.\<close>

definition forward_fleet ::
  "bool \<Rightarrow> discovery \<Rightarrow> event list \<times> coordinator \<times> (host_entry \<times> bool) list" where
  "forward_fleet client_alive d =
     (case d of
        DiscoveryPanicked \<Rightarrow> ([], CoReturned, [])
      | DiscoveryFailed e \<Rightarrow>
          (if client_alive then [EvHostList [] (''discovery error: '' @ ssh_error_text e)] else [],
           CoParked, [])
      | Discovered l \<Rightarrow>
          if client_alive then
            ([EvHostList (hl_hosts l) (host_source_label (hl_source l))],
             CoDispatch (host_senders 0 (hl_hosts l) Map.empty),
             map (\<lambda>h. (h, he_alias h \<in> hl_autoconnect l)) (hl_hosts l))
          else ([], CoReturned, []))"

definition fleet_action_result_envelope :: "fleet_action_request \<Rightarrow> fleet_action_outcome \<Rightarrow> envelope" where
  "fleet_action_result_envelope req outcome =
     envelope_of (PFleetActionResult
       \<lparr>fres_request_id = far_request_id req, fres_alias = far_alias req, fres_kind = far_kind req,
        fres_outcome = outcome\<rparr>)"

fun internal_action :: "fleet_action_kind \<Rightarrow> host_action" where
  "internal_action FaReconnect = HaReconnect"
| "internal_action FaDisconnect = HaDisconnect"

text \<open>
  One request in the dispatch loop: what is sent to which supervisor, and the answer. \<open>running\<close>
  says which supervisors have not exited.
\<close>

definition dispatch_action ::
  "(nat \<Rightarrow> bool) \<Rightarrow> (string \<rightharpoonup> nat) \<Rightarrow> fleet_action_request \<Rightarrow> (nat \<times> host_action) option \<times> envelope" where
  "dispatch_action running senders req =
     (case senders (far_alias req) of
        Some i \<Rightarrow>
          if running i
          then (Some (i, internal_action (far_kind req)), fleet_action_result_envelope req FaSuccess)
          else (None, fleet_action_result_envelope req (FaFailure
                  (''supervisor task has exited '' @ em_dash @
                   '' subscription may have been torn down mid-action'')))
      | None \<Rightarrow>
          (None, fleet_action_result_envelope req (FaFailure
             (''unknown alias '' @ squote (far_alias req) @ '' '' @ em_dash @ '' check '' @
              backquote ''tepegoz doctor --ssh-hosts''))))"

text \<open>The coordinator's inputs: a request, the end of the requests, a supervisor's end, none left.\<close>

datatype co_input = CiRequest fleet_action_request | CiClosed | CiJoined | CiNoneLeft

fun coordinator_step ::
  "(nat \<Rightarrow> bool) \<Rightarrow> co_input \<Rightarrow> coordinator \<Rightarrow> coordinator \<times> (nat \<times> host_action) option \<times> envelope list" where
  "coordinator_step running i (CoDispatch senders) =
     (case i of
        CiRequest req \<Rightarrow>
          (case dispatch_action running senders req of
             (cmd, env) \<Rightarrow> (CoDispatch senders, cmd, [env]))
      | CiClosed \<Rightarrow> (CoParked, None, [])
      | CiJoined \<Rightarrow> (CoDispatch senders, None, [])
      | CiNoneLeft \<Rightarrow> (CoParked, None, []))"
| "coordinator_step running i co = (co, None, [])"

section \<open>Supervisors and the agent pool\<close>

text \<open>One output of a supervisor of client \<open>cl\<close> carried out; a deployment is a step of its own.\<close>

definition perform ::
  "(dest \<Rightarrow> bool) \<Rightarrow> ((u64 \<rightharpoonup> routed_sub) \<Rightarrow> u64 list) \<Rightarrow> nat \<Rightarrow> u64 \<Rightarrow> string \<Rightarrow> sup_out \<Rightarrow> hub \<Rightarrow> hub" where
  "perform alive order cl sub alias out h =
     (case out of
        SoEvent ev \<Rightarrow> hub_send alive (ToClient cl) (event_envelope sub ev) h
      | SoRemoveAgent \<Rightarrow> remove_and_shutdown_agent alive order alias h
      | _ \<Rightarrow> h)"

definition supervise ::
  "(dest \<Rightarrow> bool) \<Rightarrow> ((u64 \<rightharpoonup> routed_sub) \<Rightarrow> u64 list) \<Rightarrow> nat \<Rightarrow> u64 \<Rightarrow> instant \<Rightarrow> sup_input \<Rightarrow>
     supervisor \<times> hub \<Rightarrow> supervisor \<times> hub" where
  "supervise alive order cl sub now i sh =
     (case sup_step now i (fst sh) of
        None \<Rightarrow> sh
      | Some (s', outs) \<Rightarrow>
          (s', fold (perform alive order cl sub (he_alias (sp_entry s'))) outs (snd sh)))"

definition supervise_deploy ::
  "(dest \<Rightarrow> bool) \<Rightarrow> ((u64 \<rightharpoonup> routed_sub) \<Rightarrow> u64 list) \<Rightarrow> deploy_results \<Rightarrow> (string \<Rightarrow> u8 list option) option \<Rightarrow>
     nat \<Rightarrow> u64 \<Rightarrow> supervisor \<times> hub \<Rightarrow> supervisor \<times> hub" where
  "supervise_deploy alive order io resolver cl sub sh =
     (case deploy_and_register_agent alive order io resolver (he_alias (sp_entry (fst sh))) (snd sh) of
        (caps, h') \<Rightarrow> supervise alive order cl sub 0 (SiDeployed caps) (fst sh, h'))"

end
