(* ===== verification/FleetProps.thy ===== *)
theory FleetProps
  imports Fleet
begin

text \<open>
  What a client of the Fleet subscription sees of a host: the states follow a fixed table, reasons
  come with terminal states only, capabilities are advertised only while the host is connected; how
  attempts are spaced, when a session is given up, and that a Reconnect always dials.
\<close>

section \<open>What a client sees\<close>

type_synonym host_view = "host_state option \<times> string list"

fun view_step :: "sup_out \<Rightarrow> host_view \<Rightarrow> host_view" where
  "view_step (SoEvent (EvHostStateChanged alias st reason)) v = (Some st, snd v)"
| "view_step (SoEvent (EvAgentCapabilities alias caps)) v = (fst v, caps)"
| "view_step _ v = v"

fun may_follow :: "host_state option \<Rightarrow> host_state \<Rightarrow> bool" where
  "may_follow None st = (st \<in> {HsDisconnected, HsAuthFailed})"
| "may_follow (Some HsDisconnected) st = (st = HsConnecting)"
| "may_follow (Some HsConnecting) st =
     (st \<in> {HsConnecting, HsConnected, HsDisconnected, HsAuthFailed, HsHostKeyMismatch})"
| "may_follow (Some HsConnected) st = (st \<in> {HsDegraded, HsDisconnected})"
| "may_follow (Some HsDegraded) st = (st \<in> {HsConnected, HsDisconnected})"
| "may_follow (Some HsAuthFailed) st = (st \<in> {HsAuthFailed, HsDisconnected})"
| "may_follow (Some HsHostKeyMismatch) st = (st = HsDisconnected)"
| "may_follow (Some _) st = False"

text \<open>One output is acceptable in a view: the state may follow, the reason fits, capabilities fit.\<close>

fun out_ok :: "string \<Rightarrow> host_view \<Rightarrow> sup_out \<Rightarrow> bool" where
  "out_ok alias v (SoEvent (EvHostStateChanged alias' st reason)) =
     (alias' = alias \<and> may_follow (fst v) st \<and> (reason \<noteq> None \<longleftrightarrow> is_terminal st) \<and>
      (snd v \<noteq> [] \<longrightarrow> st \<in> {HsConnected, HsDegraded}))"
| "out_ok alias v (SoEvent (EvAgentCapabilities alias' caps)) =
     (alias' = alias \<and> (caps \<noteq> [] \<longrightarrow> fst v = Some HsConnected))"
| "out_ok alias v (SoEvent _) = False"
| "out_ok alias v _ = True"

fun outs_ok :: "string \<Rightarrow> host_view \<Rightarrow> sup_out list \<Rightarrow> bool" where
  "outs_ok alias v [] = True"
| "outs_ok alias v (out # outs) = (out_ok alias v out \<and> outs_ok alias (view_step out v) outs)"

lemma outs_ok_append [simp]:
  "outs_ok alias v (os @ ps) \<longleftrightarrow> outs_ok alias v os \<and> outs_ok alias (fold view_step os v) ps"
  by (induction os arbitrary: v) auto

text \<open>Where the supervisor stands determines what the client sees.\<close>

definition sup_inv :: "supervisor \<Rightarrow> host_view \<Rightarrow> bool" where
  "sup_inv s v \<longleftrightarrow>
     sp_backoff_idx s < length SSH_BACKOFF_LADDER \<and>
     (case sp_pc s of
        PcProxyJump reason \<Rightarrow> v = (Some HsAuthFailed, [])
      | PcIdle \<Rightarrow> v = (Some HsDisconnected, []) \<and> \<not> sp_should_connect s
      | PcConnecting \<Rightarrow> v = (Some HsConnecting, []) \<and> sp_should_connect s
      | PcDeploying \<Rightarrow> v = (Some HsConnected, []) \<and> sp_should_connect s
      | PcSession m st \<Rightarrow> fst v = Some st \<and> sp_should_connect s \<and>
          (st = HsConnected \<and> m = 0 \<or> st = HsDegraded \<and> (m = 1 \<or> m = 2))
      | PcTerminal \<Rightarrow> v \<in> {(Some HsAuthFailed, []), (Some HsHostKeyMismatch, [])} \<and> sp_should_connect s
      | PcBackoff \<Rightarrow> v = (Some HsDisconnected, []) \<and> sp_should_connect s
      | PcDone \<Rightarrow> True)"

lemma loop_head_ok:
  assumes "sp_backoff_idx s < length SSH_BACKOFF_LADDER" "he_alias (sp_entry s) = alias"
    "loop_head now s = (s', os)"
  shows "outs_ok alias (Some HsDisconnected, []) os \<and>
     sup_inv s' (fold view_step os (Some HsDisconnected, [])) \<and> sp_entry s' = sp_entry s"
  using assms by (auto simp: loop_head_def start_attempt_def emit_state_def sup_inv_def split: if_splits)

lemma heartbeat_step_cases:
  assumes "st = HsConnected \<and> m = 0 \<or> st = HsDegraded \<and> (m = 1 \<or> m = 2)"
  shows "heartbeat_step ok m st =
    (if ok then Some (0, HsConnected, if m = 0 then None else Some HsConnected)
     else if m = 0 then Some (1, HsDegraded, Some HsDegraded)
     else if m = 1 then Some (2, HsDegraded, None) else None)"
  using assms by (auto simp: heartbeat_step_def SSH_DISCONNECTED_THRESHOLD_def SSH_DEGRADED_THRESHOLD_def Let_def
      word_le_nat_alt)

lemma session_ended_ok:
  assumes "sup_inv s v" "sp_pc s = PcSession m st" "session_ended now outcome s = (s', os)"
  shows "outs_ok (he_alias (sp_entry s)) v os \<and> sup_inv s' (fold view_step os v) \<and> sp_entry s' = sp_entry s"
proof -
  have v: "fst v \<in> {Some HsConnected, Some HsDegraded}" "sp_should_connect s"
    "sp_backoff_idx s < length SSH_BACKOFF_LADDER"
    using assms(1,2) by (auto simp: sup_inv_def)
  show ?thesis
    using assms(3) v
    by (cases outcome)
      (auto simp: session_ended_def also_out_def emit_agent_capabilities_def emit_state_def back_off_def
        loop_head_def start_attempt_def sup_inv_def Let_def SSH_BACKOFF_LADDER_def split: if_splits)
qed

lemma sup_step_ok:
  assumes inv: "sup_inv s v" and st: "sup_step now i s = Some (s', os)"
  shows "outs_ok (he_alias (sp_entry s)) v os \<and> sup_inv s' (fold view_step os v) \<and> sp_entry s' = sp_entry s"
proof (cases i)
  case (SiAction act)
  show ?thesis
  proof (cases "sp_pc s")
    case (PcSession m stt)
    then show ?thesis
      using st SiAction session_ended_ok [OF inv PcSession]
      by (auto split: option.splits host_action.splits)
  qed (use inv st SiAction in \<open>auto simp: sup_inv_def also_out_def done_sup_def emit_state_def loop_head_def
      start_attempt_def SSH_BACKOFF_LADDER_def split: option.splits host_action.splits if_splits\<close>)
next
  case (SiConnect r)
  then show ?thesis
    using inv st
    by (auto simp: sup_inv_def also_out_def emit_state_def back_off_def SSH_BACKOFF_LADDER_def
        split: if_splits ssh_error.splits elim!: connect_done.elims)
next
  case (SiDeployed caps)
  then show ?thesis
    using inv st by (auto simp: sup_inv_def emit_agent_capabilities_def split: if_splits)
next
  case (SiHeartbeat ok)
  then obtain m stt where pc: "sp_pc s = PcSession m stt"
    using st by (auto split: sup_pc.splits)
  then have ms: "stt = HsConnected \<and> m = 0 \<or> stt = HsDegraded \<and> (m = 1 \<or> m = 2)"
    using inv by (simp add: sup_inv_def)
  show ?thesis
    using st SiHeartbeat pc inv session_ended_ok [OF inv pc, of now HeartbeatFailed] ms
    by (auto simp: heartbeat_step_cases [OF ms] sup_inv_def emit_state_def split: if_splits)
next
  case SiElapsed
  then show ?thesis
    using inv st by (auto simp: sup_inv_def loop_head_def start_attempt_def emit_state_def
        SSH_BACKOFF_LADDER_def split: if_splits)
qed

lemma sup_run_ok:
  "sup_inv s v \<Longrightarrow> sup_run inputs s = Some (s', os) \<Longrightarrow>
     outs_ok (he_alias (sp_entry s)) v os \<and> sup_inv s' (fold view_step os v) \<and> sp_entry s' = sp_entry s"
proof (induction inputs s arbitrary: v os rule: sup_run.induct)
  case (2 now i is' s)
  from "2.prems"(2) obtain s1 os1 os2 where st: "sup_step now i s = Some (s1, os1)"
    and run: "sup_run is' s1 = Some (s', os2)" and os: "os = os1 @ os2"
    by (auto simp: also_out_def split: option.splits)
  note one = sup_step_ok [OF "2.prems"(1) st]
  then have "sup_inv s1 (fold view_step os1 v)" by blast
  from "2.IH" [OF st refl this run] one show ?case
    by (simp add: os)
qed simp

lemma host_supervisor_ok:
  assumes "host_supervisor now entry autoconnect = (s, os)"
  shows "outs_ok (he_alias entry) (None, []) os \<and> sup_inv s (fold view_step os (None, [])) \<and>
    sp_entry s = entry"
  using assms
  by (auto simp: host_supervisor_def Let_def also_out_def emit_state_def loop_head_def start_attempt_def
      sup_inv_def SSH_BACKOFF_LADDER_def split: option.splits if_splits)

text \<open>
  C5. In every run of a host's supervisor, whatever the host, the user and the network do: every
  event is about this host, its states follow the table \<^const>\<open>may_follow\<close>, a reason comes with a state
  exactly when the state is terminal, and capabilities are advertised only while the host is shown
  connected or degraded and are withdrawn before it is shown in any other state. The delay of a retry
  is always read inside the ladder.
\<close>

theorem host_states_follow_table:
  assumes "host_supervisor now entry autoconnect = (s0, os0)"
    and "sup_run inputs s0 = Some (s, os)"
  shows "outs_ok (he_alias entry) (None, []) (os0 @ os) \<and>
    sp_backoff_idx s < length SSH_BACKOFF_LADDER"
proof -
  note start = host_supervisor_ok [OF assms(1)]
  then have "sup_inv s0 (fold view_step os0 (None, []))" by blast
  from sup_run_ok [OF this assms(2)] start show ?thesis
    by (auto simp: sup_inv_def)
qed

definition demo_host :: host_entry where
  "demo_host = \<lparr>he_alias = ''web'', he_hostname = ''10.0.0.5'', he_user = ''deploy'', he_port = 22,
     he_identity_files = [], he_proxy_jump = None\<rparr>"

definition demo_inputs :: "(instant \<times> sup_input) list" where
  "demo_inputs = [(10, SiConnect (Some (Inr ()))), (20, SiDeployed (Some [''docker''])),
     (30020, SiHeartbeat False), (60020, SiHeartbeat True), (60021, SiAction (Some HaDisconnect))]"

theorem host_states_follow_table_witness:
  "\<exists>s os. sup_run demo_inputs (fst (host_supervisor 0 demo_host True)) = Some (s, os) \<and>
     os = [SoEvent (EvHostStateChanged ''web'' HsConnected None), SoDeploy,
       SoEvent (EvAgentCapabilities ''web'' [''docker'']),
       SoEvent (EvHostStateChanged ''web'' HsDegraded None),
       SoEvent (EvHostStateChanged ''web'' HsConnected None), SoRemoveAgent,
       SoEvent (EvAgentCapabilities ''web'' []), SoEvent (EvHostStateChanged ''web'' HsDisconnected None)] \<and>
     outs_ok ''web'' (None, []) (snd (host_supervisor 0 demo_host True) @ os)"
proof -
  obtain s os where run: "sup_run demo_inputs (fst (host_supervisor 0 demo_host True)) = Some (s, os)"
    and os: "os = [SoEvent (EvHostStateChanged ''web'' HsConnected None), SoDeploy,
       SoEvent (EvAgentCapabilities ''web'' [''docker'']),
       SoEvent (EvHostStateChanged ''web'' HsDegraded None),
       SoEvent (EvHostStateChanged ''web'' HsConnected None), SoRemoveAgent,
       SoEvent (EvAgentCapabilities ''web'' []), SoEvent (EvHostStateChanged ''web'' HsDisconnected None)]"
    by (simp add: demo_inputs_def demo_host_def host_supervisor_def Let_def also_out_def loop_head_def
        start_attempt_def heartbeat_step_def SSH_DISCONNECTED_THRESHOLD_def SSH_DEGRADED_THRESHOLD_def
        session_ended_def emit_state_def emit_agent_capabilities_def word_le_nat_alt)
  from host_states_follow_table [OF surjective_pairing run] os run show ?thesis
    by (auto simp: demo_host_def)
qed

section \<open>Retries\<close>

definition transient :: "(ssh_error + unit) option \<Rightarrow> bool" where
  "transient r \<longleftrightarrow>
     (case r of
        None \<Rightarrow> True
      | Some (Inr _) \<Rightarrow> False
      | Some (Inl e) \<Rightarrow> (case e of HostKeyMismatch _ _ _ _ _ \<Rightarrow> False | AuthFailed _ _ _ _ _ \<Rightarrow> False | _ \<Rightarrow> True))"

lemma connect_done_transient:
  "transient r \<Longrightarrow> connect_done s r = also_out [emit_state s HsDisconnected None] (back_off s)"
  by (cases "(s, r)" rule: connect_done.cases)
    (auto simp: transient_def back_off_def split: ssh_error.splits)

fun failures :: "(instant \<times> (ssh_error + unit) option \<times> instant) list \<Rightarrow> (instant \<times> sup_input) list" where
  "failures [] = []"
| "failures ((t, r, t') # fs) = (t, SiConnect r) # (t', SiElapsed) # failures fs"

fun slept :: "sup_out list \<Rightarrow> duration list" where
  "slept [] = []"
| "slept (SoSleep d # os) = d # slept os"
| "slept (_ # os) = slept os"

lemma slept_append [simp]: "slept (os @ ps) = slept os @ slept ps"
  by (induction os rule: slept.induct) auto

lemma ladder_length: "length SSH_BACKOFF_LADDER = 5"
  by (simp add: SSH_BACKOFF_LADDER_def)

lemma failures_run:
  assumes "sp_pc s = PcConnecting" "sp_should_connect s"
    "\<forall>(t, r, t') \<in> set fs. transient r"
  shows "\<exists>s' os. sup_run (failures fs) s = Some (s', os) \<and> sp_pc s' = PcConnecting \<and>
    slept os = map (\<lambda>k. SSH_BACKOFF_LADDER ! min (sp_backoff_idx s + k) 4) [0..<length fs]"
  using assms
proof (induction fs arbitrary: s rule: failures.induct)
  case (2 t r t' fs)
  define s1 where "s1 = s\<lparr>sp_pc := PcConnecting, sp_backoff_idx := min (sp_backoff_idx s + 1) 4,
    sp_connect_start := t'\<rparr>"
  have "sp_pc s1 = PcConnecting" "sp_should_connect s1"
    using "2.prems"(2) by (auto simp: s1_def)
  from "2.IH" [OF this] "2.prems"(3) obtain s' os where run: "sup_run (failures fs) s1 = Some (s', os)"
    and rest: "sp_pc s' = PcConnecting"
      "slept os = map (\<lambda>k. SSH_BACKOFF_LADDER ! min (sp_backoff_idx s1 + k) 4) [0..<length fs]"
    by auto
  have tail: "map (\<lambda>k. SSH_BACKOFF_LADDER ! min (sp_backoff_idx s + k) 4) [0..<length ((t, r, t') # fs)] =
      SSH_BACKOFF_LADDER ! min (sp_backoff_idx s) 4 #
      map (\<lambda>k. SSH_BACKOFF_LADDER ! min (sp_backoff_idx s1 + k) 4) [0..<length fs]"
    by (simp add: s1_def upt_conv_Cons map_Suc_upt [symmetric] del: upt_Suc)
      (auto simp: min_def)
  have tr: "transient r" using "2.prems"(3) by simp
  have "sup_step t (SiConnect r) s = Some (s\<lparr>sp_pc := PcBackoff\<rparr>,
      [emit_state s HsDisconnected None, SoSleep (SSH_BACKOFF_LADDER ! min (sp_backoff_idx s) 4)])"
    using "2.prems"(1) by (simp add: connect_done_transient [OF tr] back_off_def backoff_delay_def also_out_def ladder_length)
  moreover have "sup_step t' SiElapsed (s\<lparr>sp_pc := PcBackoff\<rparr>) =
      Some (s1, [emit_state s1 HsConnecting None, SoConnect])"
    using "2.prems"(2) by (simp add: s1_def loop_head_def start_attempt_def emit_state_def ladder_length)
  ultimately show ?case
    using run rest tail by (simp add: also_out_def emit_state_def del: sup_step.simps upt_Suc list.map)
qed simp

text \<open>
  A host that cannot be reached is tried again after 1, 2, 5 and 15 seconds and then every 60
  seconds, for any number of failures in a row, and never given up.
\<close>

theorem retries_climb_ladder:
  assumes "sp_pc s = PcConnecting" "sp_should_connect s" "sp_backoff_idx s = 0"
    and "\<forall>(t, r, t') \<in> set fs. transient r"
  shows "\<exists>s' os. sup_run (failures fs) s = Some (s', os) \<and> sp_pc s' = PcConnecting \<and>
    slept os = map (\<lambda>k. [1000, 2000, 5000, 15000, 60000] ! min k 4) [0..<length fs]"
  using failures_run [OF assms(1,2,4)] assms(3) by (simp add: SSH_BACKOFF_LADDER_def)

theorem retries_climb_ladder_witness:
  "\<exists>s' os. sup_run (failures [(0, None, 0), (0, None, 0), (0, None, 0), (0, None, 0), (0, None, 0), (0, None, 0)]) (fst (host_supervisor 0 demo_host True)) =
     Some (s', os) \<and> slept os = [1000, 2000, 5000, 15000, 60000, 60000]"
proof -
  let ?s = "fst (host_supervisor 0 demo_host True)"
  have "sp_pc ?s = PcConnecting" "sp_should_connect ?s" "sp_backoff_idx ?s = 0"
    by (simp_all add: host_supervisor_def demo_host_def also_out_def loop_head_def start_attempt_def Let_def)
  from retries_climb_ladder [OF this,
      of "[(0, None, 0), (0, None, 0), (0, None, 0), (0, None, 0), (0, None, 0), (0, None, 0)]"]
  show ?thesis by (auto simp: transient_def simp del: failures.simps)
qed

section \<open>The heartbeat\<close>

text \<open>How many misses a run of heartbeats ends with.\<close>

definition misses :: "bool list \<Rightarrow> nat" where
  "misses oks = length (takeWhile Not (rev oks))"

lemma misses_snoc: "misses (oks @ [ok]) = (if ok then 0 else Suc (misses oks))"
  by (simp add: misses_def)

definition in_session :: "supervisor \<Rightarrow> nat \<Rightarrow> supervisor" where
  "in_session s m = s\<lparr>sp_pc := PcSession (word_of_nat m) (if m = 0 then HsConnected else HsDegraded)\<rparr>"

lemma sup_run_append:
  "sup_run (xs @ ys) s =
     (case sup_run xs s of None \<Rightarrow> None
      | Some (s1, os) \<Rightarrow> map_option (also_out os) (sup_run ys s1))"
proof (induction xs arbitrary: s)
  case Nil
  have "also_out [] = (\<lambda>r. r)" by (simp add: also_out_def fun_eq_iff)
  then show ?case by (simp add: option.map_ident)
next
  case (Cons x xs)
  have "also_out (os @ ps) = also_out os \<circ> also_out ps" for os ps
    by (simp add: also_out_def fun_eq_iff)
  then show ?case
    by (cases x) (auto simp: Cons.IH option.map_comp also_out_def [of _ "(_, _)"] split: option.splits)
qed

lemma in_session_beat:
  assumes "m < 3"
  shows "sup_step now (SiHeartbeat ok) (in_session s m) =
    (if \<not> ok \<and> m = 2 then Some (session_ended now HeartbeatFailed (in_session s m))
     else Some (in_session s (if ok then 0 else Suc m),
       (if ok \<and> m \<noteq> 0 then [emit_state s HsConnected None]
        else if \<not> ok \<and> m = 0 then [emit_state s HsDegraded None] else [])))"
proof -
  from assms consider "m = 0" | "m = 1" | "m = 2" by linarith
  then show ?thesis
    by cases (auto simp: in_session_def emit_state_def heartbeat_step_def Let_def
        SSH_DISCONNECTED_THRESHOLD_def SSH_DEGRADED_THRESHOLD_def word_le_nat_alt)
qed

lemma in_session_run:
  assumes "\<forall>n \<le> length beats. misses (map snd (take n beats)) < 3"
  shows "\<exists>os. sup_run (map (\<lambda>(t, ok). (t, SiHeartbeat ok)) beats) (in_session s 0) =
     Some (in_session s (misses (map snd beats)), os)"
  using assms
proof (induction beats rule: rev_induct)
  case Nil
  then show ?case by (simp add: misses_def)
next
  case (snoc b bs)
  obtain t ok where b: "b = (t, ok)" by fastforce
  have "\<forall>n \<le> length bs. misses (map snd (take n bs)) < 3"
    using snoc.prems by (metis append_Nil2 diff_is_0_eq le_SucI length_append_singleton take0 take_append)
  from snoc.IH [OF this] obtain os
    where run: "sup_run (map (\<lambda>(t, ok). (t, SiHeartbeat ok)) bs) (in_session s 0) =
      Some (in_session s (misses (map snd bs)), os)"
    by blast
  have lt: "misses (map snd bs) < 3" "misses (map snd bs @ [ok]) < 3"
    using snoc.prems [rule_format, of "length bs"] snoc.prems [rule_format, of "length (bs @ [b])"] b
    by auto
  then have "\<not> (\<not> ok \<and> misses (map snd bs) = 2)"
    by (auto simp: misses_snoc)
  then show ?case
    using run lt by (auto simp: sup_run_append in_session_beat b misses_snoc also_out_def simp del: sup_step.simps)
qed

text \<open>
  A session survives exactly as long as no three heartbeats in a row are missed: until then the
  supervisor counts the misses since the last heartbeat that got through and shows the host degraded
  while there are any; the third miss in a row ends the session with the agent removed and the host
  shown disconnected.
\<close>

theorem third_miss_ends_session:
  assumes "\<forall>n \<le> length beats. misses (map snd (take n beats)) < 3"
  shows "\<exists>os. sup_run (map (\<lambda>(t, ok). (t, SiHeartbeat ok)) beats) (in_session s 0) =
      Some (in_session s (misses (map snd beats)), os) \<and>
    (misses (map snd beats) = 2 \<longrightarrow>
       (\<exists>d. sup_run (map (\<lambda>(t, ok). (t, SiHeartbeat ok)) (beats @ [(now, False)])) (in_session s 0) =
          Some (fst (session_ended now HeartbeatFailed (in_session s 2)),
            os @ [SoRemoveAgent, emit_agent_capabilities s [], emit_state s HsDisconnected None, SoSleep d])))"
proof -
  obtain os where run: "sup_run (map (\<lambda>(t, ok). (t, SiHeartbeat ok)) beats) (in_session s 0) =
      Some (in_session s (misses (map snd beats)), os)"
    using in_session_run [OF assms] by blast
  have "\<exists>d. snd (session_ended now HeartbeatFailed (in_session s 2)) =
      [SoRemoveAgent, emit_agent_capabilities s [], emit_state s HsDisconnected None, SoSleep d]"
    by (simp add: session_ended_def also_out_def back_off_def Let_def in_session_def emit_state_def
        emit_agent_capabilities_def)
  then show ?thesis
    using run
    by (auto simp: sup_run_append in_session_beat also_out_def prod_eq_iff simp del: sup_step.simps)
qed

theorem third_miss_ends_session_witness:
  "\<exists>os. sup_run (map (\<lambda>(t, ok). (t, SiHeartbeat ok)) [(30, False), (60, True), (90, False), (120, False)])
     (in_session (fst (host_supervisor 0 demo_host True)) 0) =
       Some (in_session (fst (host_supervisor 0 demo_host True)) 2, os)"
proof -
  have "\<forall>n \<le> 4. misses (map snd (take n [(30 :: nat, False), (60, True), (90, False), (120, False)])) < 3"
    by (simp add: le_Suc_eq numeral_eq_Suc all_conj_distrib misses_def)
  from third_miss_ends_session [of "[(30, False), (60, True), (90, False), (120, False)]"
      "fst (host_supervisor 0 demo_host True)" 150] this
  show ?thesis by (auto simp: misses_def numeral_2_eq_2 simp del: sup_run.simps)
qed

section \<open>A Reconnect\<close>

text \<open>
  C32. A Reconnect dials at once from every state the supervisor can wait in, a terminal failure
  included: the attempt is started, the ladder is back at its first rung and the client is shown the
  host connecting. The one exception is a host behind a ProxyJump, which is told its reason again.
\<close>

theorem reconnect_dials:
  assumes "host_supervisor now entry autoconnect = (s0, os0)" "sup_run inputs s0 = Some (s, os)"
    and "sup_step now' (SiAction (Some HaReconnect)) s = Some (s', os')"
  shows "(case he_proxy_jump entry of
       None \<Rightarrow> sp_pc s' = PcConnecting \<and> sp_backoff_idx s' = 0 \<and> sp_connect_start s' = now' \<and>
         (\<exists>ps. os' = ps @ [emit_state s HsConnecting None, SoConnect])
     | Some jump \<Rightarrow> s' = s \<and> os' = [emit_state s HsAuthFailed (Some (proxy_jump_reason jump))])"
proof -
  note start = host_supervisor_ok [OF assms(1)]
  then have i0: "sup_inv s0 (fold view_step os0 (None, []))" by blast
  note inv = sup_run_ok [OF i0 assms(2)]
  have pj: "case he_proxy_jump entry of
      None \<Rightarrow> \<forall>r. sp_pc s \<noteq> PcProxyJump r | Some jump \<Rightarrow> sp_pc s \<in> {PcProxyJump (proxy_jump_reason jump), PcDone}"
    using assms(1,2)
  proof (induction inputs arbitrary: os s rule: rev_induct)
    case Nil
    then show ?case
      by (auto simp: host_supervisor_def Let_def also_out_def loop_head_def start_attempt_def
          split: option.splits if_splits)
  next
    case (snoc x xs)
    obtain t i where x: "x = (t, i)" by fastforce
    from snoc.prems(2) obtain s1 os1 os2 where run: "sup_run xs s0 = Some (s1, os1)"
      and st: "sup_step t i s1 = Some (s, os2)"
      by (auto simp: sup_run_append x also_out_def split: option.splits)
    show ?case
      using snoc.IH [OF snoc.prems(1) run] st
      by (cases i) (auto simp: also_out_def loop_head_def start_attempt_def done_sup_def back_off_def
          session_ended_def Let_def split: option.splits sup_pc.splits host_action.splits if_splits
          ssh_error.splits connected_outcome.splits elim!: connect_done.elims)
  qed
  have shut: "sp_should_connect s" if "sp_pc s \<in> {PcConnecting, PcTerminal, PcBackoff} \<or> (\<exists>m st. sp_pc s = PcSession m st)"
    using inv that by (auto simp: sup_inv_def)
  show ?thesis
    using assms(3) pj shut
    by (auto simp: also_out_def loop_head_def start_attempt_def session_ended_def emit_state_def
        split: option.splits sup_pc.splits host_action.splits if_splits)
qed

theorem reconnect_dials_witness:
  "\<exists>s os s' os'. sup_run [(5, SiConnect (Some (Inl (AuthFailed ''web'' ''u'' ''h'' 22 ''no key''))))]
       (fst (host_supervisor 0 demo_host True)) = Some (s, os) \<and>
     sup_step 9 (SiAction (Some HaReconnect)) s = Some (s', os') \<and> sp_pc s' = PcConnecting"
proof -
  let ?in = "[(5, SiConnect (Some (Inl (AuthFailed ''web'' ''u'' ''h'' 22 ''no key''))))]"
  obtain s os s' os' where r: "sup_run ?in (fst (host_supervisor 0 demo_host True)) = Some (s, os)"
    "sup_step 9 (SiAction (Some HaReconnect)) s = Some (s', os')"
    by (simp add: demo_host_def host_supervisor_def also_out_def loop_head_def start_attempt_def Let_def)
  from reconnect_dials [OF surjective_pairing this] show ?thesis
    using r by (auto simp: demo_host_def)
qed

section \<open>The reset of the ladder\<close>

text \<open>
  The ladder is meant to keep climbing for a host whose connections die young, but no heartbeat
  failure is ever young: a session can fail at its third heartbeat at the earliest, at least 90
  seconds after the attempt was started, so the retry after it always comes after one second.
\<close>

theorem heartbeat_failure_always_resets_ladder:
  assumes "\<forall>k < length beats. sp_connect_start s + SSH_HEARTBEAT_INTERVAL * Suc k \<le> fst (beats ! k)"
    and "sup_run (map (\<lambda>(t, ok). (t, SiHeartbeat ok)) beats) (in_session s 0) = Some (s', os)"
    and "sp_pc s' = PcBackoff"
  shows "sp_backoff_idx s' = 0 \<and> last os = SoSleep 1000"
proof -
  have keep: "sup_run (map (\<lambda>(t, ok). (t, SiHeartbeat ok)) bs) (in_session s m) = Some (s', os) \<Longrightarrow>
      m < 3 \<Longrightarrow> sp_pc s' = PcBackoff \<Longrightarrow>
      \<forall>k < length bs. sp_connect_start s + SSH_HEARTBEAT_INTERVAL * (Suc (k + m)) \<le> fst (bs ! k) \<Longrightarrow>
      sp_backoff_idx s' = 0 \<and> last os = SoSleep 1000 \<and> os \<noteq> []" for bs m s' os
  proof (induction bs arbitrary: m s' os)
    case Nil
    then show ?case by (auto simp: in_session_def)
  next
    case (Cons b bs)
    obtain t ok where b: "b = (t, ok)" by fastforce
    have late: "sp_connect_start s + SSH_HEARTBEAT_INTERVAL * Suc m \<le> t"
      using Cons.prems(4) b by fastforce
    show ?case
    proof (cases "\<not> ok \<and> m = 2")
      case True
      define r where "r = session_ended t HeartbeatFailed (in_session s 2)"
      have "SSH_RECONNECT_RESET_THRESHOLD \<le> t - sp_connect_start s"
        using late True by (simp add: SSH_HEARTBEAT_INTERVAL_def SSH_RECONNECT_RESET_THRESHOLD_def)
      then have r: "sp_backoff_idx (fst r) = 0" "last (snd r) = SoSleep 1000" "snd r \<noteq> []"
        "sp_pc (fst r) = PcBackoff"
        by (simp_all add: r_def session_ended_def also_out_def back_off_def backoff_delay_def
            SSH_BACKOFF_LADDER_def in_session_def)
      have "bs = []"
      proof (cases bs)
        case (Cons c cs)
        then have "sup_step (fst c) (SiHeartbeat (snd c)) (fst r) = None"
          using r(4) by simp
        then show ?thesis
          using Cons.prems(1,2) True Cons
          by (auto simp: in_session_beat b r_def case_prod_beta simp del: sup_step.simps split: option.splits)
      qed simp
      then show ?thesis
        using Cons.prems(1,2) True r
        by (auto simp: in_session_beat b r_def [symmetric] also_out_def simp del: sup_step.simps)
    next
      case False
      define m' where "m' = (if ok then 0 else Suc m)"
      have m': "m' < 3" "m' \<le> Suc m"
        using False Cons.prems(2) by (auto simp: m'_def)
      obtain os1 os2 where run: "sup_run (map (\<lambda>(t, ok). (t, SiHeartbeat ok)) bs) (in_session s m') = Some (s', os2)"
        and os: "os = os1 @ os2"
        using Cons.prems(1,2) False
        by (auto simp: in_session_beat b m'_def also_out_def simp del: sup_step.simps split: option.splits if_splits)
      have "sp_connect_start s + SSH_HEARTBEAT_INTERVAL * (Suc (k + m')) \<le> fst (bs ! k)"
        if "k < length bs" for k
      proof -
        have "sp_connect_start s + SSH_HEARTBEAT_INTERVAL * (Suc (Suc k + m)) \<le> fst (bs ! k)"
          using Cons.prems(4) that by (metis Suc_less_eq length_Cons nth_Cons_Suc)
        moreover have "SSH_HEARTBEAT_INTERVAL * (Suc (k + m')) \<le> SSH_HEARTBEAT_INTERVAL * (Suc (Suc k + m))"
          using m'(2) by (intro mult_le_mono) auto
        ultimately show ?thesis by linarith
      qed
      from Cons.IH [OF run m'(1) Cons.prems(3)] this
      show ?thesis by (simp add: os)
    qed
  qed
  show ?thesis
    using keep [OF assms(2) _ assms(3)] assms(1) by simp
qed

theorem heartbeat_failure_always_resets_ladder_witness:
  "\<exists>s' os. sup_run (map (\<lambda>(t, ok). (t, SiHeartbeat ok)) [(30000, False), (60000, False), (90000, False)])
     (in_session (fst (host_supervisor 0 demo_host True)\<lparr>sp_backoff_idx := 4\<rparr>) 0) = Some (s', os) \<and>
     last os = SoSleep 1000"
proof -
  let ?beats = "[(30000, False), (60000, False), (90000, False)] :: (nat \<times> bool) list"
  let ?s = "fst (host_supervisor 0 demo_host True)\<lparr>sp_backoff_idx := 4\<rparr>"
  have late: "\<forall>k < length ?beats. sp_connect_start ?s + SSH_HEARTBEAT_INTERVAL * Suc k \<le> fst (?beats ! k)"
    by (simp add: less_Suc_eq all_conj_distrib nth_Cons' SSH_HEARTBEAT_INTERVAL_def host_supervisor_def
        demo_host_def also_out_def loop_head_def start_attempt_def Let_def)
  obtain s' os where r: "sup_run (map (\<lambda>(t, ok). (t, SiHeartbeat ok)) ?beats) (in_session ?s 0) = Some (s', os)"
    "sp_pc s' = PcBackoff"
    by (simp add: in_session_beat session_ended_def also_out_def back_off_def numeral_2_eq_2 [symmetric]
        Let_def del: sup_step.simps)
  from heartbeat_failure_always_resets_ladder [OF late this] r(1) show ?thesis by blast
qed

section \<open>Two subscriptions and one host\<close>

definition web_binary :: "string \<Rightarrow> u8 list option" where
  "web_binary triple = Some [0x7F]"

definition web_deploy :: deploy_results where
  "web_deploy = \<lparr>de_detect_target = Inr ''x86_64-unknown-linux-musl'',
     de_deploy_agent = (\<lambda>_ _. Inr ''agent''), de_spawn_channel = (\<lambda>_. Inr ()),
     de_handshake = (\<lambda>_. Inr \<lparr>ai_version = PROTOCOL_VERSION, ai_os = ''linux'', ai_arch = ''x86_64'', ai_capabilities = [''docker'']\<rparr>)\<rparr>"

abbreviation no_order :: "(u64 \<rightharpoonup> routed_sub) \<Rightarrow> u64 list" where
  "no_order \<equiv> (\<lambda>_. [])"

definition connects :: "nat \<Rightarrow> u64 \<Rightarrow> hub \<Rightarrow> supervisor \<times> hub" where
  "connects cl sub h =
     supervise_deploy (\<lambda>_. True) no_order web_deploy (Some web_binary) cl sub
       (supervise (\<lambda>_. True) no_order cl sub 5 (SiConnect (Some (Inr ())))
         (fst (host_supervisor 0 demo_host True), h))"

text \<open>
  The pool has one entry for a host, but every client's Fleet subscription runs a supervisor of
  its own for it. Two clients connect to the same host, the second disconnects again, and the first,
  still connected and still told that the host serves Docker, is refused Docker on it: the second
  supervisor has replaced the first one's agent and then removed the entry.
\<close>

theorem second_client_takes_agent_away:
  "let (s1, h1) = connects 1 7 hub_new;
       (s2, h2) = connects 2 9 h1;
       (s3, h3) = supervise (\<lambda>_. True) no_order 2 9 60 (SiAction (Some HaDisconnect)) (s2, h2)
   in sp_pc s1 = PcSession 0 HsConnected \<and>
      last (received (ToClient 1) (hb_out h3)) = event_envelope 7 (EvAgentCapabilities ''web'' [''docker'']) \<and>
      hb_pool h1 ''web'' = Some 0 \<and> hb_pool h3 ''web'' = None \<and>
      (\<forall>subs. hb_out (snd (route_remote_subscribe (\<lambda>_. True) 1 8 ''web'' RsDocker ''docker''
                (\<lambda>d. SubDocker d StLocal) subs h3)) =
         hb_out h3 @ [(ToClient 1, event_envelope 8 (EvDockerUnavailable ''agent not connected: web''))])"
  by (simp add: connects_def supervise_deploy_def supervise_def perform_def hub_new_def web_deploy_def
      web_binary_def deploy_and_register_agent_def deploy_and_register_inner_def register_agent_def
      shutdown_agent_connection_def drain_routing_on_disconnect_def remove_and_shutdown_agent_def
      session_ended_def host_supervisor_def demo_host_def also_out_def loop_head_def start_attempt_def
      emit_state_def emit_agent_capabilities_def hub_send_def tx_send_def received_def
      route_remote_subscribe_def Let_def)

end
