(* ===== verification/AgentProps.thy ===== *)
theory AgentProps
  imports AgentRouting
begin

text \<open>
  What the agent pool guarantees: a subscription routed to an agent is served exactly, an action is
  answered exactly once, a disconnect is reported to every subscriber once; and what it does not: a
  handle kept across a reconnect.
\<close>

section \<open>Orders of iteration\<close>

definition iterates :: "(('k \<rightharpoonup> 'v) \<Rightarrow> 'k list) \<Rightarrow> bool" where
  "iterates order \<longleftrightarrow> (\<forall>m. finite (dom m) \<longrightarrow> distinct (order m) \<and> set (order m) = dom m)"

lemma iterates_sorted: "iterates (\<lambda>m :: u64 \<rightharpoonup> 'v. sorted_list_of_set (dom m))"
  by (simp add: iterates_def)

lemma iterates_empty: "iterates order \<Longrightarrow> order Map.empty = []"
  unfolding iterates_def by (metis dom_empty finite.emptyI set_empty)

section \<open>Events of one subscription\<close>

fun event_for :: "nat \<Rightarrow> u64 \<Rightarrow> dest \<times> envelope \<Rightarrow> event option" where
  "event_for cl sub (d, env) =
     (case en_payload env of
        PEvent f \<Rightarrow> if d = ToClient cl \<and> ef_subscription_id f = sub then Some (ef_event f) else None
      | _ \<Rightarrow> None)"

definition events_for :: "nat \<Rightarrow> u64 \<Rightarrow> outbox \<Rightarrow> event list" where
  "events_for cl sub out = List.map_filter (event_for cl sub) out"

fun agent_event :: "u64 \<Rightarrow> envelope \<Rightarrow> event option" where
  "agent_event d env =
     (case en_payload env of
        PEvent f \<Rightarrow> if ef_subscription_id f = d then Some (ef_event f) else None
      | _ \<Rightarrow> None)"

definition answers_to :: "u64 \<Rightarrow> envelope \<Rightarrow> bool" where
  "answers_to d env \<longleftrightarrow>
     (case en_payload env of PDockerActionResult r \<Rightarrow> dres_request_id r = d | _ \<Rightarrow> False)"

fun route_all :: "(dest \<Rightarrow> bool) \<Rightarrow> envelope list \<Rightarrow> agent_connection \<Rightarrow> outbox \<Rightarrow> agent_connection \<times> outbox" where
  "route_all alive [] c out = (c, out)"
| "route_all alive (env # es) c out =
     (case route_agent_envelope alive env c out of (c', out') \<Rightarrow> route_all alive es c' out')"

lemma map_filter_append: "List.map_filter f (xs @ ys) = List.map_filter f xs @ List.map_filter f ys"
  by (simp add: List.map_filter_def)

declare event_for.simps [simp del] agent_event.simps [simp del]

lemma events_for_append [simp]:
  "events_for cl sub (out @ out') = events_for cl sub out @ events_for cl sub out'"
  by (simp add: events_for_def map_filter_append)

lemma events_for_Nil [simp]: "events_for cl sub [] = []"
  by (simp add: events_for_def List.map_filter_def)

lemma events_for_single:
  "events_for cl sub [x] = (case event_for cl sub x of Some e \<Rightarrow> [e] | None \<Rightarrow> [])"
  by (simp add: events_for_def List.map_filter_def split: option.splits)

definition sole_route :: "agent_connection \<Rightarrow> u64 \<Rightarrow> nat \<Rightarrow> u64 \<Rightarrow> bool" where
  "sole_route c d cl sub \<longleftrightarrow>
     (\<forall>d' r'. ac_routing c d' = Some r' \<and> rt_client r' = cl \<and> rt_client_id r' = sub \<longrightarrow> d' = d)"

lemma route_one_events:
  assumes r: "ac_routing c d = Some r" and al: "alive (ToClient (rt_client r))"
    and sole: "sole_route c d (rt_client r) (rt_client_id r)" and na: "\<not> answers_to d env"
    and step: "route_agent_envelope alive env c out = (c', out')"
  shows "ac_routing c' d = Some r" "sole_route c' d (rt_client r) (rt_client_id r)"
    "events_for (rt_client r) (rt_client_id r) out' =
       events_for (rt_client r) (rt_client_id r) out @
       (case agent_event d env of Some e \<Rightarrow> [e] | None \<Rightarrow> [])"
proof -
  show "ac_routing c' d = Some r" "sole_route c' d (rt_client r) (rt_client_id r)"
    using assms by (auto simp: route_agent_envelope_def answers_to_def sole_route_def
        split: payload.splits option.splits if_splits)
  show "events_for (rt_client r) (rt_client_id r) out' =
       events_for (rt_client r) (rt_client_id r) out @
       (case agent_event d env of Some e \<Rightarrow> [e] | None \<Rightarrow> [])"
  proof (cases "en_payload env")
    case (PEvent f)
    show ?thesis
    proof (cases "ef_subscription_id f = d")
      case True
      then show ?thesis
        using step r al PEvent by (auto simp: route_agent_envelope_def tx_send_def events_for_single event_for.simps
            agent_event.simps)
    next
      case False
      then have "rt_client_id r' \<noteq> rt_client_id r \<or> rt_client r' \<noteq> rt_client r"
        if "ac_routing c (ef_subscription_id f) = Some r'" for r'
        using sole that unfolding sole_route_def by blast
      with False show ?thesis
        using step PEvent
        by (auto simp: route_agent_envelope_def tx_send_def events_for_single event_for.simps
            agent_event.simps split: option.splits if_splits)
    qed
  qed (use step in \<open>auto simp: route_agent_envelope_def tx_send_def events_for_single event_for.simps agent_event.simps
        split: option.splits if_splits\<close>)
qed

lemma route_all_events:
  assumes "ac_routing c d = Some r" "alive (ToClient (rt_client r))"
    "sole_route c d (rt_client r) (rt_client_id r)" "\<forall>env \<in> set es. \<not> answers_to d env"
    "route_all alive es c out = (c', out')"
  shows "events_for (rt_client r) (rt_client_id r) out' =
     events_for (rt_client r) (rt_client_id r) out @ List.map_filter (agent_event d) es"
  using assms
proof (induction es arbitrary: c out)
  case Nil
  then show ?case by (simp add: List.map_filter_def)
next
  case (Cons env es)
  obtain c1 out1 where st: "route_agent_envelope alive env c out = (c1, out1)" by fastforce
  have na: "\<not> answers_to d env" using Cons.prems(4) by simp
  note one = route_one_events [OF Cons.prems(1,2,3) na st]
  have "events_for (rt_client r) (rt_client_id r) out' =
      events_for (rt_client r) (rt_client_id r) out1 @ List.map_filter (agent_event d) es"
    using Cons.IH [OF one(1) Cons.prems(2) one(2)] Cons.prems(4,5) st by simp
  then show ?case
    using one(3) by (simp add: List.map_filter_def split: option.splits)
qed

section \<open>The pool's invariant\<close>

text \<open>Ids in use are below the counter, so that the next one is fresh.\<close>

definition conn_inv :: "agent_connection \<Rightarrow> bool" where
  "conn_inv c \<longleftrightarrow> (\<forall>d. ac_routing c d \<noteq> None \<longrightarrow> unat d < unat (ac_next_sub_id c)) \<and>
     finite (dom (ac_routing c))"

lemma conn_new_inv [simp]: "conn_inv (agent_connection_new alias caps)"
  by (simp add: conn_inv_def agent_connection_new_def)

lemma conn_inv_fresh: "conn_inv c \<Longrightarrow> ac_routing c (ac_next_sub_id c) = None"
  unfolding conn_inv_def by (meson less_irrefl)

lemma register_route_inv:
  assumes "conn_inv (hb_conns h a)" "unat (ac_next_sub_id (hb_conns h a)) < 2 ^ 64 - 1"
    "register_route a r h = (d, h')"
  shows "conn_inv (hb_conns h' a)" "ac_routing (hb_conns h' a) = (ac_routing (hb_conns h a))(d \<mapsto> r)"
    "d = ac_next_sub_id (hb_conns h a)" "hb_out h' = hb_out h" "hb_pool h' = hb_pool h"
proof -
  have "unat (ac_next_sub_id (hb_conns h a) + 1) = unat (ac_next_sub_id (hb_conns h a)) + 1"
    using assms(2) by (subst unat_add_lem [THEN iffD1]) auto
  then show "conn_inv (hb_conns h' a)"
    using assms(1,3) by (fastforce simp: conn_inv_def register_route_def alloc_id_def less_Suc_eq split: if_splits)
qed (use assms(3) in \<open>auto simp: register_route_def alloc_id_def\<close>)

lemma conn_inv_drop: "conn_inv c \<Longrightarrow> conn_inv (c\<lparr>ac_routing := (ac_routing c)(d := None)\<rparr>)"
  by (auto simp: conn_inv_def)

lemma route_agent_envelope_inv:
  assumes "conn_inv c" "route_agent_envelope alive env c out = (c', out')"
  shows "conn_inv c'" "ac_alias c' = ac_alias c"
  using assms by (auto simp: route_agent_envelope_def conn_inv_def
      split: payload.splits option.splits if_splits)

section \<open>Disconnects\<close>

definition drain_item :: "string \<Rightarrow> (u64 \<rightharpoonup> routed_sub) \<Rightarrow> u64 \<Rightarrow> dest \<times> envelope" where
  "drain_item reason routing d =
     (ToClient (rt_client (the (routing d))), drain_envelope reason (the (routing d)))"

declare drain_envelope.simps [simp del]

lemma drain_fold:
  assumes "\<forall>d \<in> set ds. \<exists>r. routing d = Some r \<and> alive (ToClient (rt_client r))"
  shows "fold (drain_one alive reason routing) ds out = out @ map (drain_item reason routing) ds"
  using assms
proof (induction ds arbitrary: out)
  case (Cons d ds)
  then show ?case by (auto simp: drain_one_def drain_item_def tx_send_def)
qed simp

lemma drain_empty: "fold (drain_one alive reason Map.empty) ds out = out"
  by (induction ds arbitrary: out) (auto simp: drain_one_def)

text \<open>
  A disconnect of an agent: every client with a routing entry is told once, under its own id and
  in the shape of its scope, the table is empty afterwards, and a second drain (the parser and the
  supervisor both do it) tells nobody anything.
\<close>

theorem disconnect_reported_once:
  assumes "iterates order" "conn_inv c"
    and "\<forall>d r. ac_routing c d = Some r \<longrightarrow> alive (ToClient (rt_client r))"
    and "drain_routing_on_disconnect alive (order (ac_routing c)) c out = (c1, out1)"
  shows "ac_routing c1 = Map.empty \<and>
    (\<exists>ds. distinct ds \<and> set ds = dom (ac_routing c) \<and>
       out1 = out @ map (drain_item (''agent disconnected: '' @ ac_alias c) (ac_routing c)) ds) \<and>
    drain_routing_on_disconnect alive (order (ac_routing c1)) c1 out1 = (c1, out1)"
proof -
  have ds: "distinct (order (ac_routing c))" "set (order (ac_routing c)) = dom (ac_routing c)"
    using assms(1,2) unfolding iterates_def conn_inv_def by auto
  have "\<forall>d \<in> set (order (ac_routing c)). \<exists>r. ac_routing c d = Some r \<and> alive (ToClient (rt_client r))"
    using ds(2) assms(3) by auto
  then have "out1 = out @ map (drain_item (''agent disconnected: '' @ ac_alias c) (ac_routing c))
      (order (ac_routing c))" "c1 = c\<lparr>ac_routing := Map.empty\<rparr>"
    using assms(4) by (auto simp: drain_routing_on_disconnect_def drain_fold disconnect_reason_def)
  then show ?thesis
    using ds by (auto simp: drain_routing_on_disconnect_def drain_empty)
qed

definition demo_routes :: agent_connection where
  "demo_routes = (agent_connection_new ''web'' [''docker''])
     \<lparr>ac_next_sub_id := 3,
      ac_routing := [1 \<mapsto> \<lparr>rt_client = 1, rt_client_id = 7, rt_kind = RkSubscription, rt_scope = RsDocker\<rparr>,
                     2 \<mapsto> \<lparr>rt_client = 2, rt_client_id = 5, rt_kind = RkOneShot,
                           rt_scope = RsDockerAction ''c0ffee'' DaStop\<rparr>]\<rparr>"

lemma demo_routes_inv: "conn_inv demo_routes"
  by (auto simp: conn_inv_def demo_routes_def)

theorem disconnect_reported_once_witness:
  "ac_routing (fst (drain_routing_on_disconnect (\<lambda>_. True)
     (sorted_list_of_set (dom (ac_routing demo_routes))) demo_routes [])) = Map.empty"
  using disconnect_reported_once
      [OF iterates_sorted demo_routes_inv, of "\<lambda>_. True" "[]"]
  by (metis fst_conv surj_pair)

section \<open>Remote subscriptions\<close>

text \<open>
  A subscription for a connected agent with the capability: the agent is asked for it, for its
  own host, under an id it has in use for nobody else, and from then on whatever the agent publishes
  under that id reaches exactly this client, whole and in order, under the id the client chose.
\<close>

theorem remote_subscription_served:
  assumes "conn_inv (hb_conns h a)" "unat (ac_next_sub_id (hb_conns h a)) < 2 ^ 64 - 1"
    and "hb_pool h alias = Some a" "required \<in> set (ac_capabilities (hb_conns h a))"
    and "alive (ToAgent a)" "alive (ToClient cl)"
    and "\<forall>d r. ac_routing (hb_conns h a) d = Some r \<and> rt_client r = cl \<longrightarrow> rt_client_id r \<noteq> client_id"
    and "route_remote_subscribe alive cl client_id alias scope required builder subs h = (subs', h')"
  shows "\<exists>d. subs' = subs(client_id \<mapsto> \<lparr>ah_alias = alias, ah_daemon_id = d\<rparr>) \<and>
      ac_routing (hb_conns h a) d = None \<and>
      hb_out h' = hb_out h @ [(ToAgent a, envelope_of (PSubscribe (builder d)))] \<and>
      (\<forall>es c' out'. (\<forall>env \<in> set es. \<not> answers_to d env) \<longrightarrow>
         route_all alive es (hb_conns h' a) (hb_out h') = (c', out') \<longrightarrow>
         events_for cl client_id out' =
           events_for cl client_id (hb_out h) @ List.map_filter (agent_event d) es)"
proof -
  define r where "r = \<lparr>rt_client = cl, rt_client_id = client_id, rt_kind = RkSubscription, rt_scope = scope\<rparr>"
  obtain d h1 where reg: "register_route a r h = (d, h1)" by fastforce
  note facts = register_route_inv [OF assms(1,2) reg]
  have h': "subs' = subs(client_id \<mapsto> \<lparr>ah_alias = alias, ah_daemon_id = d\<rparr>)"
    "hb_out h' = hb_out h @ [(ToAgent a, envelope_of (PSubscribe (builder d)))]"
    "hb_conns h' = hb_conns h1"
    using assms(3-6,8) reg facts(4)
    by (auto simp: route_remote_subscribe_def subscribe_on_def r_def tx_send_def)
  have entry: "ac_routing (hb_conns h' a) d = Some r"
    using facts(2) h'(3) by simp
  have sole: "sole_route (hb_conns h' a) d cl client_id"
    using assms(7) facts(2) h'(3) by (auto simp: sole_route_def split: if_splits)
  have none: "events_for cl client_id (hb_out h') = events_for cl client_id (hb_out h)"
    using h'(2) by (simp add: events_for_single event_for.simps envelope_of_def)
  have "ac_routing (hb_conns h a) d = None"
    using conn_inv_fresh [OF assms(1)] facts(3) by simp
  moreover have "events_for cl client_id out' =
      events_for cl client_id (hb_out h) @ List.map_filter (agent_event d) es"
    if "\<forall>env \<in> set es. \<not> answers_to d env" "route_all alive es (hb_conns h' a) (hb_out h') = (c', out')"
    for es c' out'
    using route_all_events [OF entry, of alive es "hb_out h'" c' out'] that assms(6) sole none
    by (simp add: r_def)
  ultimately show ?thesis
    using h'(1,2) by blast
qed

section \<open>Remote actions\<close>

definition answers :: "nat \<Rightarrow> u64 \<Rightarrow> outbox \<Rightarrow> nat" where
  "answers cl req out = length (filter (\<lambda>(d, env). d = ToClient cl \<and> answers_to req env) out)"

lemma answers_append [simp]: "answers cl req (out @ out') = answers cl req out + answers cl req out'"
  by (simp add: answers_def)

lemma answers_Nil [simp]: "answers cl req [] = 0"
  by (simp add: answers_def)

lemma answers_single:
  "answers cl req [(d, env)] = (if d = ToClient cl \<and> answers_to req env then 1 else 0)"
  by (simp add: answers_def)

fun is_action_scope :: "routed_scope \<Rightarrow> bool" where
  "is_action_scope (RsDockerAction _ _) = True"
| "is_action_scope _ = False"

definition entries_wf :: "agent_connection \<Rightarrow> bool" where
  "entries_wf c \<longleftrightarrow>
     (\<forall>d r. ac_routing c d = Some r \<longrightarrow> (rt_kind r = RkOneShot \<longleftrightarrow> is_action_scope (rt_scope r)))"

text \<open>The entries that owe client \<open>cl\<close> the answer of its request \<open>req\<close>.\<close>

definition owing :: "nat \<Rightarrow> u64 \<Rightarrow> (u64 \<rightharpoonup> routed_sub) \<Rightarrow> u64 set" where
  "owing cl req routing =
     {d. \<exists>r. routing d = Some r \<and> rt_kind r = RkOneShot \<and> rt_client r = cl \<and> rt_client_id r = req}"

lemma owing_dom: "owing cl req routing \<subseteq> dom routing"
  by (auto simp: owing_def)

lemma owing_remove: "owing cl req (routing(d := None)) = owing cl req routing - {d}"
  by (auto simp: owing_def)

lemma drain_answers_to:
  "answers_to req (drain_envelope reason r) \<longleftrightarrow> is_action_scope (rt_scope r) \<and> rt_client_id r = req"
  by (cases "rt_scope r")
    (auto simp: drain_envelope.simps answers_to_def docker_unavailable_envelope_def event_envelope_def
      stream_ended_envelope_def ports_unavailable_envelope_def processes_unavailable_envelope_def
      docker_action_failure_envelope_def envelope_of_def)

lemma drain_answers:
  assumes "entries_wf c" "alive (ToClient cl)" "distinct ds"
  shows "answers cl req (fold (drain_one alive reason (ac_routing c)) ds out) =
    answers cl req out + card (owing cl req (ac_routing c) \<inter> set ds)"
  using assms(3)
proof (induction ds arbitrary: out)
  case (Cons d ds)
  let ?S = "owing cl req (ac_routing c)"
  have "answers cl req (drain_one alive reason (ac_routing c) d out) =
      answers cl req out + (if d \<in> ?S then 1 else 0)"
    using assms(1,2) by (auto simp: drain_one_def tx_send_def answers_single drain_answers_to owing_def
        entries_wf_def split: option.splits)
  moreover have "card (?S \<inter> set (d # ds)) = card (?S \<inter> set ds) + (if d \<in> ?S then 1 else 0)"
    using Cons.prems by (auto simp: Int_insert_right)
  ultimately show ?case
    using Cons by simp
qed simp

lemma route_answers:
  assumes "entries_wf c" "conn_inv c" "alive (ToClient cl)"
    "route_agent_envelope alive env c out = (c', out')"
  shows "answers cl req out' + card (owing cl req (ac_routing c')) =
     answers cl req out + card (owing cl req (ac_routing c))" "entries_wf c'"
proof -
  have fin: "finite (owing cl req (ac_routing c))"
    using assms(2) owing_dom finite_subset unfolding conn_inv_def by metis
  show "entries_wf c'"
    using assms(1,4) by (auto simp: route_agent_envelope_def entries_wf_def
        split: payload.splits option.splits if_splits)
  show "answers cl req out' + card (owing cl req (ac_routing c')) =
     answers cl req out + card (owing cl req (ac_routing c))"
  proof (cases "en_payload env")
    case (PDockerActionResult result)
    show ?thesis
    proof (cases "ac_routing c (dres_request_id result)")
      case (Some r)
      let ?d = "dres_request_id result"
      have "?d \<in> owing cl req (ac_routing c) \<longleftrightarrow>
          rt_kind r = RkOneShot \<and> rt_client r = cl \<and> rt_client_id r = req"
        using Some by (auto simp: owing_def)
      moreover have "card (owing cl req (ac_routing c)) =
          card (owing cl req (ac_routing c) - {?d}) + (if ?d \<in> owing cl req (ac_routing c) then 1 else 0)"
        using card.remove [OF fin, of ?d] by (simp del: card_Diff_insert)
      moreover have "answers cl req out' = answers cl req out +
          (if rt_kind r = RkOneShot \<and> rt_client r = cl \<and> rt_client_id r = req then 1 else 0)"
        "ac_routing c' = (ac_routing c)(?d := None)"
        using assms(3,4) PDockerActionResult Some
        by (auto simp: route_agent_envelope_def tx_send_def answers_single answers_to_def)
      ultimately show ?thesis
        by (simp only: owing_remove)
    qed (use assms(4) PDockerActionResult in \<open>auto simp: route_agent_envelope_def\<close>)
  qed (use assms(4) in \<open>auto simp: route_agent_envelope_def tx_send_def answers_single answers_to_def
        split: option.splits if_splits\<close>)
qed

lemma parser_answers:
  assumes "entries_wf c" "conn_inv c" "alive (ToClient cl)" "iterates order"
    "run_envelope_parser alive order es c out = (c', out')"
  shows "answers cl req out' = answers cl req out + card (owing cl req (ac_routing c))"
  using assms
proof (induction alive order es c out rule: run_envelope_parser.induct)
  case (1 alive order env rest c out)
  obtain c1 out1 where st: "route_agent_envelope alive env c out = (c1, out1)" by fastforce
  note one = route_answers [OF 1(2,3,4) st]
  show ?case
    using "1.IH" [OF st [symmetric] one(2) route_agent_envelope_inv(1) [OF 1(3) st] "1.prems"(3,4)]
      "1.prems"(5) st one(1) by simp
qed (use drain_answers owing_dom in \<open>auto simp: drain_routing_on_disconnect_def iterates_def conn_inv_def
      Int_absorb2\<close>)


definition demo_hub :: hub where
  "demo_hub = \<lparr>hb_conns = (\<lambda>_. demo_routes), hb_next = 1, hb_pool = [''web'' \<mapsto> 0], hb_out = []\<rparr>"

definition demo_action :: docker_action_request where
  "demo_action = \<lparr>dar_request_id = 8, dar_container_id = ''c0ffee'', dar_kind = DaKill,
     dar_target = StRemote ''web''\<rparr>"

theorem remote_subscription_served_witness:
  "\<exists>d. hb_out (snd (route_remote_subscribe (\<lambda>_. True) 1 9 ''web'' RsDocker ''docker''
       (\<lambda>d. SubDocker d StLocal) Map.empty demo_hub)) =
     [(ToAgent 0, envelope_of (PSubscribe (SubDocker d StLocal)))]"
proof -
  have "hb_pool demo_hub ''web'' = Some 0" "''docker'' \<in> set (ac_capabilities (hb_conns demo_hub 0))"
    "conn_inv (hb_conns demo_hub 0)" "unat (ac_next_sub_id (hb_conns demo_hub 0)) < 2 ^ 64 - 1"
    "\<forall>d r. ac_routing (hb_conns demo_hub 0) d = Some r \<and> rt_client r = 1 \<longrightarrow> rt_client_id r \<noteq> 9"
    using demo_routes_inv
    by (simp_all add: demo_hub_def demo_routes_def agent_connection_new_def)
  from remote_subscription_served [OF this(3,4,1,2), of "\<lambda>_. True" 1 9 RsDocker
      "\<lambda>d. SubDocker d StLocal" Map.empty, OF _ _ this(5) surjective_pairing]
  show ?thesis by (auto simp: demo_hub_def)
qed


section \<open>A handle kept across a reconnect\<close>

abbreviation docker_on_web :: "nat \<Rightarrow> u64 \<Rightarrow> hub \<Rightarrow> (u64 \<rightharpoonup> agent_sub_handle) \<times> hub" where
  "docker_on_web cl sub h \<equiv>
     route_remote_subscribe (\<lambda>_. True) cl sub ''web'' RsDocker ''docker'' (\<lambda>d. SubDocker d StLocal) Map.empty h"

text \<open>
  The ids of a connection start at one again after a reconnect, and a client's handle survives
  the connection it was made for. Client 1 subscribes, the agent reconnects, client 2 subscribes, and
  when client 1 takes its old subscription back the daemon removes the route of client 2 and tells the
  agent to end client 2's subscription: client 2 hears nothing more, and is not told.
\<close>

theorem stale_handle_cuts_other_client:
  "let order = (\<lambda>m. if m = Map.empty then [] else [1]);
       h1 = register_agent (\<lambda>_. True) order ''web'' [''docker''] hub_new;
       (subs1, h2) = docker_on_web 1 7 h1;
       h3 = remove_and_shutdown_agent (\<lambda>_. True) order ''web'' h2;
       h4 = register_agent (\<lambda>_. True) order ''web'' [''docker''] h3;
       (subs2, h5) = docker_on_web 2 9 h4;
       h6 = drop_agent_sub (\<lambda>_. True) (the (subs1 7)) h5
   in subs2 9 = Some \<lparr>ah_alias = ''web'', ah_daemon_id = 1\<rparr> \<and>
      ac_routing (hb_conns h5 1) 1 \<noteq> None \<and> ac_routing (hb_conns h6 1) = Map.empty \<and>
      received (ToAgent 1) (hb_out h6) =
        [envelope_of (PSubscribe (SubDocker 1 StLocal)), envelope_of (PUnsubscribe 1)] \<and>
      received (ToClient 2) (hb_out h6) = [] \<and>
      (\<forall>ev out. route_agent_envelope (\<lambda>_. True) (event_envelope 1 ev) (hb_conns h6 1) out =
         (hb_conns h6 1, out))"
  by (simp add: hub_new_def register_agent_def route_remote_subscribe_def subscribe_on_def
      register_route_def alloc_id_def remove_and_shutdown_agent_def shutdown_agent_connection_def
      drain_routing_on_disconnect_def drop_agent_sub_def drop_route_def hub_send_def tx_send_def
      agent_connection_new_def received_def drain_one_def event_envelope_def envelope_of_def
      route_agent_envelope_def Let_def)

end
