(* ===== verification/Session.thy ===== *)
theory Session
  imports Fleet RemotePane
begin

text \<open>
  One client's session with the daemon (\<open>crates/tepegoz-core/src/client.rs\<close>, lines 51 to 840) and
  the daemon's shared state (\<open>crates/tepegoz-core/src/state.rs\<close>): the handshake, the dispatch of
  commands with the tables of running forwarders, and the teardown.

  A spawned \<open>tokio\<close> task is an entry of the table of running tasks, with what it forwards; aborting
  it removes the entry. What the operating system, \<open>portable_pty\<close> and the iteration order of hash
  maps contribute is the record \<open>world\<close>.
\<close>

section \<open>State\<close>

datatype task_kind =
  TaskDocker u64
| TaskDockerLogs u64 string bool u32
| TaskDockerStats u64 string
| TaskPorts u64
| TaskProcesses u64
| TaskFleet u64
| TaskPane u64 pane_id
| TaskRemotePane u64 pane_id
| TaskDockerAction docker_action_request

record task =
  ta_client :: nat
  ta_kind :: task_kind

record 'c daemon =
  da_started_at :: instant
  da_started_at_unix_millis :: u64
  da_clients_now :: u32
  da_clients_total :: u64
  da_events_sent :: u64
  da_daemon_pid :: u32
  da_socket_path :: string
  da_pty :: "'c pane pty_manager"
  da_remote_pty :: "'c remote_sys pty_manager"
  da_hub :: hub \<comment> \<open>\<open>agent_conns\<close>, and everything sent to clients and agents\<close>
  da_tasks :: "nat \<rightharpoonup> task"
  da_next_task :: nat
  da_pty_writes :: "(pane_id \<times> u8 list) list" \<comment> \<open>bytes written to local terminals\<close>
  da_fleet_sends :: "(nat \<times> fleet_action_request) list" \<comment> \<open>requests sent to Fleet tasks\<close>

record session =
  se_client :: nat
  se_status_sub :: "u64 option"
  se_pane_subs :: "u64 \<rightharpoonup> nat"
  se_docker_subs :: "u64 \<rightharpoonup> nat"
  se_ports_subs :: "u64 \<rightharpoonup> nat"
  se_processes_subs :: "u64 \<rightharpoonup> nat"
  se_fleet_subs :: "u64 \<rightharpoonup> nat"
  se_agent_subs :: "u64 \<rightharpoonup> agent_sub_handle"

record 'c world =
  w_alive :: "dest \<Rightarrow> bool"
  w_now :: instant
  w_daemon_version :: string
  w_open_local :: "open_pane_spec \<Rightarrow> pane_id \<Rightarrow> string + 'c pane"
  w_open_remote :: "string \<Rightarrow> open_results"
  w_remote_tx :: 'c \<comment> \<open>a new broadcast channel\<close>
  w_created :: u64
  w_resize_ok :: "pane_id \<Rightarrow> bool"
  w_pane_order :: "(pane_id \<rightharpoonup> 'c pane) \<Rightarrow> pane_id list"
  w_remote_order :: "(pane_id \<rightharpoonup> 'c remote_sys) \<Rightarrow> pane_id list"
  w_fleet_order :: "(u64 \<rightharpoonup> nat) \<Rightarrow> u64 list"
  w_agent_sub_order :: "(u64 \<rightharpoonup> agent_sub_handle) \<Rightarrow> u64 list"

definition session_new :: "nat \<Rightarrow> session" where
  "session_new cl = \<lparr>se_client = cl, se_status_sub = None, se_pane_subs = Map.empty,
     se_docker_subs = Map.empty, se_ports_subs = Map.empty, se_processes_subs = Map.empty,
     se_fleet_subs = Map.empty, se_agent_subs = Map.empty\<rparr>"

section \<open>Effects\<close>

type_synonym 'c outcome = "session \<times> 'c daemon \<times> bool" \<comment> \<open>the flag: the session goes on\<close>

definition with_hub :: "(hub \<Rightarrow> hub) \<Rightarrow> 'c daemon \<Rightarrow> 'c daemon" where
  "with_hub f d = d\<lparr>da_hub := f (da_hub d)\<rparr>"

text \<open>\<open>event_tx.send(..)?\<close> ends the session when the client is gone, \<open>let _ = event_tx.send(..)\<close> does not.\<close>

definition reply :: "'c world \<Rightarrow> session \<Rightarrow> payload \<Rightarrow> 'c daemon \<Rightarrow> 'c outcome" where
  "reply w s p d =
     (s, with_hub (hub_send (w_alive w) (ToClient (se_client s)) (envelope_of p)) d,
      w_alive w (ToClient (se_client s)))"

definition error_envelope :: "error_kind \<Rightarrow> string \<Rightarrow> payload" where
  "error_envelope kind message = PError \<lparr>ei_kind = kind, ei_message = message\<rparr>"

definition spawn :: "session \<Rightarrow> task_kind \<Rightarrow> 'c daemon \<Rightarrow> nat \<times> 'c daemon" where
  "spawn s k d =
     (da_next_task d,
      d\<lparr>da_tasks := (da_tasks d)(da_next_task d \<mapsto> \<lparr>ta_client = se_client s, ta_kind = k\<rparr>),
        da_next_task := da_next_task d + 1\<rparr>)"

definition abort :: "nat option \<Rightarrow> 'c daemon \<Rightarrow> 'c daemon" where
  "abort h d = (case h of Some t \<Rightarrow> d\<lparr>da_tasks := (da_tasks d)(t := None)\<rparr> | None \<Rightarrow> d)"

text \<open>\<open>SharedState::snapshot\<close>; a pane count above \<open>u32\<close> saturates.\<close>

definition count_u32 :: "nat \<Rightarrow> u32" where
  "count_u32 n = (if n < 2 ^ 32 then word_of_nat n else - 1)"

definition state_snapshot :: "'c world \<Rightarrow> 'c daemon \<Rightarrow> status_snapshot" where
  "state_snapshot w d =
     (let local = count_u32 (length (w_pane_order w (pm_panes (da_pty d))));
          remote = count_u32 (length (w_remote_order w (pm_panes (da_remote_pty d))))
      in \<lparr>ss_daemon_pid = da_daemon_pid d, ss_daemon_version = w_daemon_version w,
          ss_started_at_unix_millis = da_started_at_unix_millis d,
          ss_uptime_seconds = word_of_nat ((w_now w - da_started_at d) div 1000),
          ss_clients_now = da_clients_now d, ss_clients_total = da_clients_total d,
          ss_events_sent = da_events_sent d, ss_socket_path = da_socket_path d,
          ss_panes_open = saturating_add local remote\<rparr>)"

definition send_status :: "'c world \<Rightarrow> session \<Rightarrow> u64 \<Rightarrow> 'c daemon \<Rightarrow> 'c outcome" where
  "send_status w s sub d =
     reply w s (PEvent \<lparr>ef_subscription_id = sub, ef_event = EvStatus (state_snapshot w d)\<rparr>) d"

section \<open>Subscriptions\<close>

definition subscribe_remote ::
  "'c world \<Rightarrow> u64 \<Rightarrow> string \<Rightarrow> routed_scope \<Rightarrow> string \<Rightarrow> (u64 \<Rightarrow> subscription) \<Rightarrow> session \<Rightarrow> 'c daemon \<Rightarrow> 'c outcome" where
  "subscribe_remote w i alias scope required builder s d =
     (case route_remote_subscribe (w_alive w) (se_client s) i alias scope required builder
             (se_agent_subs s) (da_hub d) of
        (subs, h) \<Rightarrow> (s\<lparr>se_agent_subs := subs\<rparr>, d\<lparr>da_hub := h\<rparr>, True))"

definition start_docker :: "u64 \<Rightarrow> task_kind \<Rightarrow> session \<Rightarrow> 'c daemon \<Rightarrow> 'c outcome" where
  "start_docker i k s d =
     (case spawn s k (abort (se_docker_subs s i) d) of
        (t, d1) \<Rightarrow> (s\<lparr>se_docker_subs := (se_docker_subs s)(i \<mapsto> t)\<rparr>, d1, True))"

fun handle_subscribe :: "'c world \<Rightarrow> subscription \<Rightarrow> session \<Rightarrow> 'c daemon \<Rightarrow> 'c outcome" where
  "handle_subscribe w (SubStatus i) s d = send_status w (s\<lparr>se_status_sub := Some i\<rparr>) i d"
| "handle_subscribe w (SubDocker i StLocal) s d = start_docker i (TaskDocker i) s d"
| "handle_subscribe w (SubDocker i (StRemote alias)) s d =
     subscribe_remote w i alias RsDocker ''docker'' (\<lambda>daemon_id. SubDocker daemon_id StLocal) s d"
| "handle_subscribe w (SubDockerLogs i cid follow tail_lines StLocal) s d =
     start_docker i (TaskDockerLogs i cid follow tail_lines) s d"
| "handle_subscribe w (SubDockerLogs i cid follow tail_lines (StRemote alias)) s d =
     subscribe_remote w i alias RsDockerLogs ''docker''
       (\<lambda>daemon_id. SubDockerLogs daemon_id cid follow tail_lines StLocal) s d"
| "handle_subscribe w (SubDockerStats i cid StLocal) s d = start_docker i (TaskDockerStats i cid) s d"
| "handle_subscribe w (SubDockerStats i cid (StRemote alias)) s d =
     subscribe_remote w i alias RsDockerStats ''docker''
       (\<lambda>daemon_id. SubDockerStats daemon_id cid StLocal) s d"
| "handle_subscribe w (SubPorts i StLocal) s d =
     (case spawn s (TaskPorts i) (abort (se_ports_subs s i) d) of
        (t, d1) \<Rightarrow> (s\<lparr>se_ports_subs := (se_ports_subs s)(i \<mapsto> t)\<rparr>, d1, True))"
| "handle_subscribe w (SubPorts i (StRemote alias)) s d =
     subscribe_remote w i alias RsPorts ''ports'' (\<lambda>daemon_id. SubPorts daemon_id StLocal) s d"
| "handle_subscribe w (SubProcesses i StLocal) s d =
     (case spawn s (TaskProcesses i) (abort (se_processes_subs s i) d) of
        (t, d1) \<Rightarrow> (s\<lparr>se_processes_subs := (se_processes_subs s)(i \<mapsto> t)\<rparr>, d1, True))"
| "handle_subscribe w (SubProcesses i (StRemote alias)) s d =
     subscribe_remote w i alias RsProcesses ''processes''
       (\<lambda>daemon_id. SubProcesses daemon_id StLocal) s d"
| "handle_subscribe w (SubFleet i) s d =
     (case spawn s (TaskFleet i) (abort (se_fleet_subs s i) d) of
        (t, d1) \<Rightarrow> (s\<lparr>se_fleet_subs := (se_fleet_subs s)(i \<mapsto> t)\<rparr>, d1, True))"

definition handle_unsubscribe :: "'c world \<Rightarrow> u64 \<Rightarrow> session \<Rightarrow> 'c daemon \<Rightarrow> 'c outcome" where
  "handle_unsubscribe w i s d =
     (let d1 = abort (se_fleet_subs s i) (abort (se_processes_subs s i) (abort (se_ports_subs s i)
                 (abort (se_pane_subs s i) (abort (se_docker_subs s i) d))));
          d2 = (case se_agent_subs s i of
                  Some handle \<Rightarrow> with_hub (drop_agent_sub (w_alive w) handle) d1
                | None \<Rightarrow> d1)
      in (s\<lparr>se_status_sub := if se_status_sub s = Some i then None else se_status_sub s,
           se_docker_subs := (se_docker_subs s)(i := None),
           se_pane_subs := (se_pane_subs s)(i := None),
           se_ports_subs := (se_ports_subs s)(i := None),
           se_processes_subs := (se_processes_subs s)(i := None),
           se_fleet_subs := (se_fleet_subs s)(i := None),
           se_agent_subs := (se_agent_subs s)(i := None)\<rparr>, d2, True))"

section \<open>Actions\<close>

definition no_fleet_reason :: string where
  "no_fleet_reason = ''no active Fleet subscription '' @ em_dash @ '' subscribe before dispatching FleetAction''"

definition handle_fleet_action :: "'c world \<Rightarrow> fleet_action_request \<Rightarrow> session \<Rightarrow> 'c daemon \<Rightarrow> 'c outcome" where
  "handle_fleet_action w req s d =
     (let ids = w_fleet_order w (se_fleet_subs s)
      in if ids = [] then
           (s, with_hub (hub_send (w_alive w) (ToClient (se_client s))
                 (fleet_action_result_envelope req (FaFailure no_fleet_reason))) d, True)
         else
           (s, d\<lparr>da_fleet_sends := da_fleet_sends d @
                   map (\<lambda>t. (t, req)) (List.map_filter (se_fleet_subs s) ids)\<rparr>, True))"

definition handle_docker_action :: "'c world \<Rightarrow> docker_action_request \<Rightarrow> session \<Rightarrow> 'c daemon \<Rightarrow> 'c outcome" where
  "handle_docker_action w req s d =
     (case dar_target req of
        StLocal \<Rightarrow> (s, snd (spawn s (TaskDockerAction req) d), True)
      | StRemote alias \<Rightarrow>
          (s, with_hub (route_remote_docker_action (w_alive w) (se_client s) alias req) d, True))"

section \<open>Panes\<close>

definition handle_open_pane :: "'c world \<Rightarrow> open_pane_spec \<Rightarrow> session \<Rightarrow> 'c daemon \<Rightarrow> 'c outcome" where
  "handle_open_pane w spec s d =
     (case ops_target spec of
        PtLocal \<Rightarrow>
          (let res = w_open_local w spec (pm_next_id (da_pty d));
               (m, opened) = manager_open (\<lambda>i. case w_open_local w spec i of Inr p \<Rightarrow> Some p | Inl _ \<Rightarrow> None)
                               (da_pty d);
               d1 = d\<lparr>da_pty := m\<rparr>
           in case res of
                Inr p \<Rightarrow> reply w s (PPaneOpened (pane_info_of p)) d1
              | Inl e \<Rightarrow> reply w s (error_envelope Internal (''open pane: '' @ e)) d1)
      | PtRemote alias \<Rightarrow>
          (case remote_manager_open (w_open_remote w alias) (w_remote_tx w) (w_created w) alias
                  (ops_rows spec) (ops_cols spec) (da_remote_pty d) of
             (m, Inr p) \<Rightarrow> reply w s (PPaneOpened (remote_info (rs_pane p))) (d\<lparr>da_remote_pty := m\<rparr>)
           | (m, Inl e) \<Rightarrow>
               reply w s (error_envelope Internal (''open remote pane ('' @ alias @ ''): '' @ e))
                 (d\<lparr>da_remote_pty := m\<rparr>)))"

definition handle_list_panes :: "'c world \<Rightarrow> session \<Rightarrow> 'c daemon \<Rightarrow> 'c outcome" where
  "handle_list_panes w s d =
     reply w s (PPaneList
       (map pane_info_of (List.map_filter (pm_panes (da_pty d)) (w_pane_order w (pm_panes (da_pty d)))) @
        map (\<lambda>p. remote_info (rs_pane p))
          (List.map_filter (pm_panes (da_remote_pty d)) (w_remote_order w (pm_panes (da_remote_pty d)))))) d"

definition handle_attach_pane :: "'c world \<Rightarrow> pane_id \<Rightarrow> u64 \<Rightarrow> session \<Rightarrow> 'c daemon \<Rightarrow> 'c outcome" where
  "handle_attach_pane w p i s d =
     (let d1 = abort (se_pane_subs s i) d;
          s1 = s\<lparr>se_pane_subs := (se_pane_subs s)(i := None)\<rparr>;
          attach = (\<lambda>k. case spawn s1 k d1 of
                      (t, d2) \<Rightarrow> (s1\<lparr>se_pane_subs := (se_pane_subs s1)(i \<mapsto> t)\<rparr>, d2, True))
      in if pm_panes (da_remote_pty d) p \<noteq> None then attach (TaskRemotePane i p)
         else if pm_panes (da_pty d) p \<noteq> None then attach (TaskPane i p)
         else reply w s1 (error_envelope UnknownPane (''no pane '' @ show_u64 p)) d1)"

definition with_remote :: "pane_id \<Rightarrow> 'c remote_sys \<Rightarrow> 'c remote_pane \<Rightarrow> 'c daemon \<Rightarrow> 'c daemon" where
  "with_remote p sys pane d =
     d\<lparr>da_remote_pty := (da_remote_pty d)
        \<lparr>pm_panes := (pm_panes (da_remote_pty d))(p \<mapsto> sys\<lparr>rs_pane := pane\<rparr>)\<rparr>\<rparr>"

definition handle_send_input :: "pane_id \<Rightarrow> u8 list \<Rightarrow> session \<Rightarrow> 'c daemon \<Rightarrow> 'c outcome" where
  "handle_send_input p bytes s d =
     (case pm_panes (da_remote_pty d) p of
        Some sys \<Rightarrow>
          (s, with_remote p sys (snd (remote_send_input (rs_pc sys \<noteq> DrDone) bytes (rs_pane sys))) d, True)
      | None \<Rightarrow>
          (case pm_panes (da_pty d) p of
             Some pane \<Rightarrow> (s, d\<lparr>da_pty_writes := da_pty_writes d @ [(p, bytes)]\<rparr>, True)
           | None \<Rightarrow> (s, d, True)))"

definition handle_resize_pane :: "'c world \<Rightarrow> pane_id \<Rightarrow> u16 \<Rightarrow> u16 \<Rightarrow> session \<Rightarrow> 'c daemon \<Rightarrow> 'c outcome" where
  "handle_resize_pane w p rows cols s d =
     (case pm_panes (da_remote_pty d) p of
        Some sys \<Rightarrow>
          (s, with_remote p sys (snd (remote_resize (rs_pc sys \<noteq> DrDone) rows cols (rs_pane sys))) d, True)
      | None \<Rightarrow>
          (case pm_panes (da_pty d) p of
             Some pane \<Rightarrow>
               (case pane_resize (w_resize_ok w p) rows cols pane of
                  Some pane' \<Rightarrow>
                    (s, d\<lparr>da_pty := (da_pty d)\<lparr>pm_panes := (pm_panes (da_pty d))(p \<mapsto> pane')\<rparr>\<rparr>, True)
                | None \<Rightarrow> (s, d, True))
           | None \<Rightarrow> (s, d, True)))"

definition handle_close_pane :: "pane_id \<Rightarrow> session \<Rightarrow> 'c daemon \<Rightarrow> 'c outcome" where
  "handle_close_pane p s d =
     (if pm_panes (da_remote_pty d) p \<noteq> None
      then (s, d\<lparr>da_remote_pty := fst (remote_manager_close p (da_remote_pty d))\<rparr>, True)
      else (s, d\<lparr>da_pty := fst (manager_close p (da_pty d))\<rparr>, True))"

section \<open>The dispatcher\<close>

fun handle_command :: "'c world \<Rightarrow> payload \<Rightarrow> session \<Rightarrow> 'c daemon \<Rightarrow> 'c outcome" where
  "handle_command w PPing s d = reply w s PPong d"
| "handle_command w (PSubscribe sub) s d = handle_subscribe w sub s d"
| "handle_command w (PFleetAction req) s d = handle_fleet_action w req s d"
| "handle_command w (PDockerAction req) s d = handle_docker_action w req s d"
| "handle_command w (PUnsubscribe i) s d = handle_unsubscribe w i s d"
| "handle_command w (POpenPane spec) s d = handle_open_pane w spec s d"
| "handle_command w PListPanes s d = handle_list_panes w s d"
| "handle_command w (PAttachPane p i) s d = handle_attach_pane w p i s d"
| "handle_command w (PSendInput p bytes) s d = handle_send_input p bytes s d"
| "handle_command w (PResizePane p rows cols) s d = handle_resize_pane w p rows cols s d"
| "handle_command w (PClosePane p) s d = handle_close_pane p s d"
| "handle_command w _ s d = (s, d, True)"

section \<open>The session\<close>

datatype handshake_result = HrAccept hello | HrReject envelope | HrBail

definition envelope_version_text :: "u32 \<Rightarrow> string" where
  "envelope_version_text v =
     ''envelope protocol v'' @ show_u32 v @ '' is not supported (daemon speaks v'' @
     show_u32 PROTOCOL_VERSION @ ''); upgrade your client''"

definition client_version_text :: "u32 \<Rightarrow> string" where
  "client_version_text v =
     ''client v'' @ show_u32 v @ '' not supported (daemon speaks v'' @
     show_u32 PROTOCOL_VERSION @ ''); upgrade your client''"

definition handshake :: "envelope \<Rightarrow> handshake_result" where
  "handshake env =
     (if en_version env \<noteq> PROTOCOL_VERSION then
        HrReject (envelope_of (error_envelope VersionMismatch (envelope_version_text (en_version env))))
      else case en_payload env of
        PHello h \<Rightarrow>
          if he_client_version h \<noteq> PROTOCOL_VERSION then
            HrReject (envelope_of (error_envelope VersionMismatch (client_version_text (he_client_version h))))
          else HrAccept h
      | _ \<Rightarrow> HrBail)"

definition welcome_payload :: "'c world \<Rightarrow> 'c daemon \<Rightarrow> payload" where
  "welcome_payload w d = PWelcome \<lparr>we_daemon_version = w_daemon_version w, we_protocol_version = PROTOCOL_VERSION,
     we_daemon_pid = da_daemon_pid d\<rparr>"

text \<open>
  The two branches of the loop: the ticker, only while a status subscription exists, and the next
  message, or the error that ends the stream.
\<close>

datatype session_input = SeTick | SeMsg envelope | SeReadError

definition session_step :: "'c world \<Rightarrow> session_input \<Rightarrow> session \<Rightarrow> 'c daemon \<Rightarrow> 'c outcome" where
  "session_step w i s d =
     (case i of
        SeTick \<Rightarrow> (case se_status_sub s of Some sub \<Rightarrow> send_status w s sub d | None \<Rightarrow> (s, d, True))
      | SeMsg env \<Rightarrow> handle_command w (en_payload env) s d
      | SeReadError \<Rightarrow> (s, d, False))"

definition abort_all :: "(u64 \<rightharpoonup> nat) \<Rightarrow> 'c daemon \<Rightarrow> 'c daemon" where
  "abort_all subs d = d\<lparr>da_tasks := (\<lambda>t. if t \<in> ran subs then None else da_tasks d t)\<rparr>"

definition teardown :: "'c world \<Rightarrow> session \<Rightarrow> 'c daemon \<Rightarrow> 'c daemon" where
  "teardown w s d =
     (let d1 = abort_all (se_fleet_subs s) (abort_all (se_processes_subs s) (abort_all (se_ports_subs s)
                 (abort_all (se_docker_subs s) (abort_all (se_pane_subs s) d))))
      in with_hub (fold (\<lambda>i h. case se_agent_subs s i of
                                Some handle \<Rightarrow> drop_agent_sub (w_alive w) handle h
                              | None \<Rightarrow> h)
                     (w_agent_sub_order w (se_agent_subs s))) d1)"

text \<open>The loop; it stops at the first error and otherwise waits for more.\<close>

fun session_loop :: "'c world \<Rightarrow> session_input list \<Rightarrow> session \<Rightarrow> 'c daemon \<Rightarrow> 'c outcome" where
  "session_loop w [] s d = (s, d, True)"
| "session_loop w (i # is') s d =
     (case session_step w i s d of
        (s1, d1, True) \<Rightarrow> session_loop w is' s1 d1
      | (s1, d1, False) \<Rightarrow> (s1, d1, False))"

text \<open>\<open>session\<close> from the first envelope on; a session that is still running has no teardown yet.\<close>

definition session ::
  "'c world \<Rightarrow> nat \<Rightarrow> envelope \<Rightarrow> session_input list \<Rightarrow> 'c daemon \<Rightarrow> session option \<times> 'c daemon" where
  "session w cl hello inputs d =
     (case handshake hello of
        HrReject env \<Rightarrow> (None, with_hub (hub_send (w_alive w) (ToClient cl) env) d)
      | HrBail \<Rightarrow> (None, d)
      | HrAccept h \<Rightarrow>
          (case reply w (session_new cl) (welcome_payload w d) d of
             (s, d1, False) \<Rightarrow> (None, d1)
           | (s, d1, True) \<Rightarrow>
               (case session_loop w inputs s d1 of
                  (s2, d2, True) \<Rightarrow> (Some s2, d2)
                | (s2, d2, False) \<Rightarrow> (None, teardown w s2 d2))))"

text \<open>\<open>handle_client\<close>: the counters around a session; the additions wrap.\<close>

definition client_connected :: "'c daemon \<Rightarrow> 'c daemon" where
  "client_connected d =
     d\<lparr>da_clients_total := da_clients_total d + 1, da_clients_now := da_clients_now d + 1\<rparr>"

definition client_disconnected :: "'c daemon \<Rightarrow> 'c daemon" where
  "client_disconnected d = d\<lparr>da_clients_now := da_clients_now d - 1\<rparr>"

definition handle_client ::
  "'c world \<Rightarrow> nat \<Rightarrow> envelope \<Rightarrow> session_input list \<Rightarrow> 'c daemon \<Rightarrow> session option \<times> 'c daemon" where
  "handle_client w cl hello inputs d =
     (case session w cl hello inputs (client_connected d) of
        (Some s, d1) \<Rightarrow> (Some s, d1)
      | (None, d1) \<Rightarrow> (None, client_disconnected d1))"

text \<open>
  The writer task of a session: it writes what the session has sent, counts every envelope written,
  and stops at the first that cannot be written. \<open>writable\<close> says how many the socket still takes.
\<close>

fun spawn_writer_task :: "nat \<Rightarrow> envelope list \<Rightarrow> 'c daemon \<Rightarrow> envelope list \<times> 'c daemon" where
  "spawn_writer_task writable [] d = ([], d)"
| "spawn_writer_task 0 (env # envs) d = ([], d)"
| "spawn_writer_task (Suc n) (env # envs) d =
     (case spawn_writer_task n envs (d\<lparr>da_events_sent := da_events_sent d + 1\<rparr>) of
        (written, d') \<Rightarrow> (env # written, d'))"

lemma events_sent_counts_written:
  "spawn_writer_task n envs d =
     (take n envs, d\<lparr>da_events_sent := da_events_sent d + word_of_nat (min n (length envs))\<rparr>)"
  by (induction n envs d rule: spawn_writer_task.induct) simp_all

end
