(* ===== verification/Forwarders.thy ===== *)
theory Forwarders
  imports AgentRouting
begin

text \<open>
  The tasks that forward a Docker engine and the probes to a subscriber
  (\<open>crates/tepegoz-core/src/client.rs\<close>, lines 1054 to 1560; \<open>crates/tepegoz-agent/src/lib.rs\<close> has the
  same code). A poll loop is a machine: an input is what the awaited call returned, a step emits
  events and says how long the task sleeps. The engine is the \<open>tepegoz-docker\<close> crate over \<open>bollard\<close>;
  its answers are inputs. \<open>alive\<close> says whether the subscriber's writer still exists at that step.
\<close>

definition DOCKER_REFRESH_INTERVAL :: duration where "DOCKER_REFRESH_INTERVAL = 2000"
definition DOCKER_RECONNECT_INTERVAL :: duration where "DOCKER_RECONNECT_INTERVAL = 5000"
definition PORTS_REFRESH_INTERVAL :: duration where "PORTS_REFRESH_INTERVAL = 2000"
definition PORTS_RECONNECT_INTERVAL :: duration where "PORTS_RECONNECT_INTERVAL = 5000"
definition PROCESSES_REFRESH_INTERVAL :: duration where "PROCESSES_REFRESH_INTERVAL = 2000"
definition PROCESSES_RECONNECT_INTERVAL :: duration where "PROCESSES_RECONNECT_INTERVAL = 5000"

section \<open>Polling\<close>

text \<open>What the loops share: the last report, and whether the task has returned.\<close>

record poll =
  po_last_was_unavailable :: "bool option"
  po_returned :: bool

definition poll_new :: poll where
  "poll_new = \<lparr>po_last_was_unavailable = None, po_returned = False\<rparr>"

definition report_unavailable :: "bool \<Rightarrow> event \<Rightarrow> poll \<Rightarrow> poll \<times> event list" where
  "report_unavailable alive ev p =
     (if po_last_was_unavailable p \<noteq> Some True \<and> \<not> alive then (p\<lparr>po_returned := True\<rparr>, [])
      else (p\<lparr>po_last_was_unavailable := Some True\<rparr>,
            if po_last_was_unavailable p \<noteq> Some True then [ev] else []))"

definition report_rows :: "bool \<Rightarrow> event \<Rightarrow> poll \<Rightarrow> poll \<times> event list" where
  "report_rows alive ev p =
     (if alive then (p\<lparr>po_last_was_unavailable := Some False\<rparr>, [ev])
      else (p\<lparr>po_returned := True\<rparr>, []))"

subsection \<open>Docker\<close>

text \<open>\<open>Engine::connect\<close> gives the source label or an error; \<open>list_containers\<close> rows or an error.\<close>

datatype docker_input = DiConnect "string + string" | DiList "string + docker_container list"

record docker_forwarder =
  df_poll :: poll
  df_engine :: "string option" \<comment> \<open>the source of the engine the inner loop polls\<close>

definition forward_docker_step ::
  "bool \<Rightarrow> docker_input \<Rightarrow> docker_forwarder \<Rightarrow> (docker_forwarder \<times> event list \<times> duration list) option" where
  "forward_docker_step alive i f =
     (if po_returned (df_poll f) then None
      else case (i, df_engine f) of
        (DiConnect (Inl e), None) \<Rightarrow>
          (case report_unavailable alive (EvDockerUnavailable e) (df_poll f) of
             (p, evs) \<Rightarrow> Some (f\<lparr>df_poll := p\<rparr>, evs, [DOCKER_RECONNECT_INTERVAL]))
      | (DiConnect (Inr source), None) \<Rightarrow> Some (f\<lparr>df_engine := Some source\<rparr>, [], [])
      | (DiList (Inr containers), Some source) \<Rightarrow>
          (case report_rows alive (EvContainerList containers source) (df_poll f) of
             (p, evs) \<Rightarrow> Some (f\<lparr>df_poll := p\<rparr>, evs, [DOCKER_REFRESH_INTERVAL]))
      | (DiList (Inl e), Some source) \<Rightarrow>
          (case report_unavailable alive (EvDockerUnavailable e) (df_poll f) of
             (p, evs) \<Rightarrow> Some (f\<lparr>df_poll := p, df_engine := None\<rparr>, evs, [DOCKER_RECONNECT_INTERVAL]))
      | _ \<Rightarrow> None)"

subsection \<open>Ports\<close>

text \<open>
  On macOS a row without a container is matched with the engine's containers by its port; the engine
  handle is kept between polls and dropped on an error. On Linux the probe has done it.
\<close>

definition matches_port :: "probe_port \<Rightarrow> docker_container \<Rightarrow> bool" where
  "matches_port p c \<longleftrightarrow>
     (\<exists>cp \<in> set (dc_ports c). dp_public_port cp = pp_local_port p \<and> dp_public_port cp \<noteq> 0)"

definition correlate_ports_to_containers ::
  "probe_port list \<Rightarrow> docker_container list \<Rightarrow> probe_port list" where
  "correlate_ports_to_containers ports containers =
     map (\<lambda>p. if pp_container_id p \<noteq> None then p
              else case find (matches_port p) containers of
                     Some c \<Rightarrow> p\<lparr>pp_container_id := Some (dc_id c)\<rparr>
                   | None \<Rightarrow> p) ports"

definition needs_correlation :: "probe_port list \<Rightarrow> bool" where
  "needs_correlation ports \<longleftrightarrow> (\<exists>p \<in> set ports. pp_container_id p = None \<and> pp_pid p \<noteq> 0)"

record engine_results =
  er_connect :: bool
  er_list :: "docker_container list option"

text \<open>The rows after correlation, and whether an engine handle is kept.\<close>

definition macos_correlation :: "engine_results \<Rightarrow> bool \<Rightarrow> probe_port list \<Rightarrow> probe_port list \<times> bool" where
  "macos_correlation er cached ports =
     (if \<not> needs_correlation ports then (ports, cached)
      else if cached \<or> er_connect er then
        (case er_list er of
           Some containers \<Rightarrow> (correlate_ports_to_containers ports containers, True)
         | None \<Rightarrow> (ports, False))
      else (ports, False))"

text \<open>What the blocking task gave: it panicked, the probe failed, or rows.\<close>

datatype 'a probe_result = PrPanicked string | PrFailed string | PrRows 'a

record ports_forwarder =
  pf_poll :: poll
  pf_docker_engine :: bool

definition forward_ports_step ::
  "bool \<Rightarrow> string \<Rightarrow> bool \<Rightarrow> engine_results \<Rightarrow> probe_port list probe_result \<Rightarrow> ports_forwarder \<Rightarrow>
     (ports_forwarder \<times> event list \<times> duration list) option" where
  "forward_ports_step macos source_label alive er r f =
     (if po_returned (pf_poll f) then None
      else case r of
        PrRows rows \<Rightarrow>
          (let (rows', engine) = (if macos then macos_correlation er (pf_docker_engine f) rows
                                  else (rows, pf_docker_engine f))
           in case report_rows alive (EvPortList rows' source_label) (pf_poll f) of
                (p, evs) \<Rightarrow> Some (\<lparr>pf_poll = p, pf_docker_engine = engine\<rparr>, evs, [PORTS_REFRESH_INTERVAL]))
      | PrFailed e \<Rightarrow>
          (case report_unavailable alive (EvPortsUnavailable e) (pf_poll f) of
             (p, evs) \<Rightarrow> Some (f\<lparr>pf_poll := p\<rparr>, evs, [PORTS_RECONNECT_INTERVAL]))
      | PrPanicked e \<Rightarrow>
          (case report_unavailable alive (EvPortsUnavailable (''ports probe task panicked: '' @ e)) (pf_poll f) of
             (p, evs) \<Rightarrow> Some (f\<lparr>pf_poll := p\<rparr>, evs, [PORTS_RECONNECT_INTERVAL])))"

subsection \<open>Processes\<close>

text \<open>
  \<open>ProcessesProbe::sample\<close>: the first sample of a probe has no CPU shares. A row of \<open>sysinfo\<close> is its
  argument vector, its name and the numbers.
\<close>

record sys_process =
  sp_pid :: u32
  sp_parent :: "u32 option"
  sp_start_time :: u64
  sp_cmd :: "string list"
  sp_name :: string
  sp_cpu_usage :: f32
  sp_memory :: u64

record processes_probe =
  pb_first_sample :: bool

definition processes_probe_new :: processes_probe where
  "processes_probe_new = \<lparr>pb_first_sample = True\<rparr>"

definition sample_row :: "bool \<Rightarrow> sys_process \<Rightarrow> probe_process" where
  "sample_row first_sample p =
     (let command = (if sp_cmd p = [] then sp_name p else str_join '' '' (sp_cmd p))
      in \<lparr>pr_pid = sp_pid p, pr_parent_pid = (case sp_parent p of Some q \<Rightarrow> q | None \<Rightarrow> 0),
          pr_start_time_unix_secs = sp_start_time p, pr_command = command,
          pr_cpu_percent = (if first_sample then None else Some (sp_cpu_usage p)),
          pr_mem_bytes = sp_memory p, pr_partial = (command = [])\<rparr>)"

definition sample :: "sys_process list \<Rightarrow> processes_probe \<Rightarrow> probe_process list \<times> processes_probe" where
  "sample procs pb = (map (sample_row (pb_first_sample pb)) procs, pb\<lparr>pb_first_sample := False\<rparr>)"

record processes_forwarder =
  xf_poll :: poll
  xf_probe :: processes_probe

definition processes_error_text :: "string \<Rightarrow> string" where
  "processes_error_text e = ''processes probe failed: '' @ e"

text \<open>A panic of the sampling task loses the probe; a new one starts over.\<close>

definition forward_processes_step ::
  "bool \<Rightarrow> sys_process list probe_result \<Rightarrow> processes_forwarder \<Rightarrow>
     (processes_forwarder \<times> event list \<times> duration list) option" where
  "forward_processes_step alive r f =
     (if po_returned (xf_poll f) then None
      else case r of
        PrRows procs \<Rightarrow>
          (case sample procs (xf_probe f) of
             (rows, pb) \<Rightarrow>
               (case report_rows alive (EvProcessList rows ''sysinfo'') (xf_poll f) of
                  (p, evs) \<Rightarrow> Some (\<lparr>xf_poll = p, xf_probe = pb\<rparr>, evs, [PROCESSES_REFRESH_INTERVAL])))
      | PrFailed e \<Rightarrow>
          (case report_unavailable alive (EvProcessesUnavailable (processes_error_text e)) (xf_poll f) of
             (p, evs) \<Rightarrow> Some (f\<lparr>xf_poll := p\<rparr>, evs, [PROCESSES_RECONNECT_INTERVAL]))
      | PrPanicked e \<Rightarrow>
          (case report_unavailable alive
                  (EvProcessesUnavailable (processes_error_text (''processes probe task panicked: '' @ e)))
                  (xf_poll f) of
             (p, evs) \<Rightarrow>
               Some (\<lparr>xf_poll = p, xf_probe = processes_probe_new\<rparr>, evs, [PROCESSES_RECONNECT_INTERVAL])))"

section \<open>Streams\<close>

text \<open>
  \<open>forward_docker_logs\<close> and \<open>forward_docker_stats\<close>: the items of the engine's stream up to its end.
  \<open>accepts\<close> is how many sends the writer takes before the client is gone.
\<close>

fun forward_items :: "('a \<Rightarrow> event) \<Rightarrow> nat \<Rightarrow> (string + 'a) list \<Rightarrow> event list" where
  "forward_items chunk 0 items = []"
| "forward_items chunk (Suc n) [] = [EvDockerStreamEnded ''stream ended'']"
| "forward_items chunk (Suc n) (Inl e # items) = [EvDockerStreamEnded e]"
| "forward_items chunk (Suc n) (Inr x # items) = chunk x # forward_items chunk n items"

definition forward_stream :: "('a \<Rightarrow> event) \<Rightarrow> string option \<Rightarrow> nat \<Rightarrow> (string + 'a) list \<Rightarrow> event list" where
  "forward_stream chunk connect_error accepts items =
     (case connect_error of
        Some e \<Rightarrow> if accepts = 0 then [] else [EvDockerStreamEnded (''engine unavailable: '' @ e)]
      | None \<Rightarrow> forward_items chunk accepts items)"

definition forward_docker_logs ::
  "string option \<Rightarrow> nat \<Rightarrow> (string + log_stream \<times> u8 list) list \<Rightarrow> event list" where
  "forward_docker_logs = forward_stream (\<lambda>(stream, bytes). EvContainerLog stream bytes)"

definition forward_docker_stats :: "string option \<Rightarrow> nat \<Rightarrow> (string + docker_stats) list \<Rightarrow> event list" where
  "forward_docker_stats = forward_stream EvContainerStats"

section \<open>Actions\<close>

definition run_docker_action :: "string option \<Rightarrow> string option \<Rightarrow> docker_action_request \<Rightarrow> docker_action_result" where
  "run_docker_action connect_error action_error req =
     \<lparr>dres_request_id = dar_request_id req, dres_container_id = dar_container_id req,
      dres_kind = dar_kind req,
      dres_outcome =
        (case connect_error of
           Some e \<Rightarrow> DaFailure (''docker engine unavailable: '' @ e)
         | None \<Rightarrow> (case action_error of Some e \<Rightarrow> DaFailure e | None \<Rightarrow> DaSuccess)),
      dres_target = dar_target req\<rparr>"

section \<open>Linux: the container of a process\<close>

text \<open>
  \<open>rsplit_once\<close> with a string or a character: the text behind the last occurrence.
\<close>

fun after_last :: "string \<Rightarrow> string \<Rightarrow> string option" where
  "after_last pat [] = (if pat = [] then Some [] else None)"
| "after_last pat (c # s) =
     (case after_last pat s of
        Some t \<Rightarrow> Some t
      | None \<Rightarrow> if starts_with (c # s) pat then Some (drop (length pat) (c # s)) else None)"

definition is_ascii_hexdigit :: "char \<Rightarrow> bool" where
  "is_ascii_hexdigit c \<longleftrightarrow>
     (let n = (of_char c :: nat) in 48 \<le> n \<and> n \<le> 57 \<or> 65 \<le> n \<and> n \<le> 70 \<or> 97 \<le> n \<and> n \<le> 102)"

definition container_id_from_cgroup_path :: "string \<Rightarrow> string option" where
  "container_id_from_cgroup_path path =
     (case after_last ''docker'' path of
        None \<Rightarrow> None
      | Some tail \<Rightarrow>
          (let i = takeWhile is_ascii_hexdigit (dropWhile (\<lambda>c. c = CHR ''-'' \<or> c = CHR ''/'') tail)
           in if 12 \<le> length i then Some i else None))"

text \<open>The lines of \<open>/proc/<pid>/cgroup\<close>; the first one that names a container.\<close>

fun container_id_of_lines :: "string list \<Rightarrow> string option" where
  "container_id_of_lines [] = None"
| "container_id_of_lines (line # rest) =
     (let path = (case after_last '':'' line of Some p \<Rightarrow> p | None \<Rightarrow> line)
      in case container_id_from_cgroup_path path of
           Some i \<Rightarrow> Some i
         | None \<Rightarrow> container_id_of_lines rest)"

section \<open>Rows of the ports probe\<close>

text \<open>A socket of \<open>netstat2\<close>: its address as text, port, whether it listens over TCP, and its owners.\<close>

record socket_info =
  si_listening :: bool
  si_local_addr :: string
  si_local_port :: u16
  si_pids :: "u32 list"

definition build_row :: "(u32 \<Rightarrow> string option) \<Rightarrow> (u32 \<Rightarrow> string option) \<Rightarrow> socket_info \<Rightarrow> probe_port" where
  "build_row process_name container_id_for_pid info =
     (let pid = (case si_pids info of p # _ \<Rightarrow> p | [] \<Rightarrow> 0);
          (name, cid, partial_details) =
            (if pid = 0 then ([], None, True)
             else let name = (case process_name pid of Some n \<Rightarrow> n | None \<Rightarrow> [])
                  in (name, container_id_for_pid pid, name = []))
      in \<lparr>pp_local_ip = si_local_addr info, pp_local_port = si_local_port info, pp_protocol = ''tcp'',
          pp_pid = pid, pp_process_name = name, pp_container_id = cid,
          pp_partial = (pid = 0 \<or> partial_details)\<rparr>)"

definition list_ports ::
  "(u32 \<Rightarrow> string option) \<Rightarrow> (u32 \<Rightarrow> string option) \<Rightarrow> string + socket_info list \<Rightarrow> string + probe_port list" where
  "list_ports process_name container_id_for_pid sockets =
     (case sockets of
        Inl e \<Rightarrow> Inl (''ports probe failed: '' @ e)
      | Inr infos \<Rightarrow> Inr (map (build_row process_name container_id_for_pid) (filter si_listening infos)))"

end
