(* ===== verification/Agent.thy ===== *)
theory Agent
  imports Session Forwarders
begin

text \<open>
  The agent that runs on a remote host (\<open>crates/tepegoz-agent/src/lib.rs\<close>): the server loop over its
  standard input and output and the dispatch of envelopes. Its forwarders are in
  \<open>AgentForwarders\<close>. A spawned task is an entry of the table of running tasks.
\<close>

record agent_state =
  as_subs :: "u64 \<rightharpoonup> nat"
  as_tasks :: "nat \<rightharpoonup> task_kind"
  as_next_task :: nat

definition agent_state_new :: agent_state where
  "agent_state_new = \<lparr>as_subs = Map.empty, as_tasks = Map.empty, as_next_task = 0\<rparr>"

text \<open>The platform the agent was built for, and whether its host's engine answers at the handshake.\<close>

record agent_host =
  ag_os :: string
  ag_arch :: string
  ag_docker_ok :: bool

definition probe_capabilities :: "agent_host \<Rightarrow> string list" where
  "probe_capabilities host = (if ag_docker_ok host then [''docker''] else []) @ [''ports'', ''processes'']"

definition agent_abort :: "u64 \<Rightarrow> agent_state \<Rightarrow> agent_state" where
  "agent_abort i s =
     (case as_subs s i of
        Some t \<Rightarrow> s\<lparr>as_subs := (as_subs s)(i := None), as_tasks := (as_tasks s)(t := None)\<rparr>
      | None \<Rightarrow> s)"

definition agent_start :: "u64 \<Rightarrow> task_kind \<Rightarrow> agent_state \<Rightarrow> agent_state" where
  "agent_start i k s =
     (let s1 = agent_abort i s
      in s1\<lparr>as_subs := (as_subs s1)(i \<mapsto> as_next_task s1),
            as_tasks := (as_tasks s1)(as_next_task s1 \<mapsto> k), as_next_task := as_next_task s1 + 1\<rparr>)"

definition unhandled_text :: string where
  "unhandled_text = ''agent v'' @ show_u32 PROTOCOL_VERSION @ '' does not handle this payload in Slice 6c-proper''"

fun handle_envelope :: "agent_host \<Rightarrow> payload \<Rightarrow> agent_state \<Rightarrow> agent_state \<times> payload list" where
  "handle_envelope host (PAgentHandshake request_id) s =
     (s, [PAgentHandshakeResponse request_id PROTOCOL_VERSION (ag_os host) (ag_arch host)
            (probe_capabilities host)])"
| "handle_envelope host PPing s = (s, [PPong])"
| "handle_envelope host (PSubscribe (SubDocker i target)) s = (agent_start i (TaskDocker i) s, [])"
| "handle_envelope host (PSubscribe (SubDockerLogs i cid follow tail_lines target)) s =
     (agent_start i (TaskDockerLogs i cid follow tail_lines) s, [])"
| "handle_envelope host (PSubscribe (SubDockerStats i cid target)) s =
     (agent_start i (TaskDockerStats i cid) s, [])"
| "handle_envelope host (PSubscribe (SubPorts i target)) s = (agent_start i (TaskPorts i) s, [])"
| "handle_envelope host (PSubscribe (SubProcesses i target)) s = (agent_start i (TaskProcesses i) s, [])"
| "handle_envelope host (PUnsubscribe i) s = (agent_abort i s, [])"
| "handle_envelope host (PDockerAction req) s =
     (s\<lparr>as_tasks := (as_tasks s)(as_next_task s \<mapsto> TaskDockerAction req),
        as_next_task := as_next_task s + 1\<rparr>, [])"
| "handle_envelope host _ s =
     (s, [PError \<lparr>ei_kind = InvalidRequest, ei_message = unhandled_text\<rparr>])"

definition agent_version_text :: "u32 \<Rightarrow> string" where
  "agent_version_text v =
     ''agent built for wire v'' @ show_u32 PROTOCOL_VERSION @ '', controller sent v'' @ show_u32 v"

text \<open>
  The loop of \<open>serve\<close>: the state, what was answered at once, and how it ended (\<open>None\<close> while it waits
  for more). A read error whose text looks like an end of file is a clean end.
\<close>

fun serve_loop ::
  "agent_host \<Rightarrow> (string + envelope) list \<Rightarrow> agent_state \<Rightarrow> agent_state \<times> envelope list \<times> (string + unit) option" where
  "serve_loop host [] s = (s, [], None)"
| "serve_loop host (Inl msg # rest) s =
     (s, [], Some (if contains msg ''early eof'' \<or> contains msg ''UnexpectedEof'' then Inr () else Inl msg))"
| "serve_loop host (Inr env # rest) s =
     (if en_version env \<noteq> PROTOCOL_VERSION then
        (s, [envelope_of (PError \<lparr>ei_kind = VersionMismatch,
               ei_message = agent_version_text (en_version env)\<rparr>)], Some (Inr ()))
      else
        (case handle_envelope host (en_payload env) s of
           (s1, out) \<Rightarrow>
             (case serve_loop host rest s1 of
                (s2, outs, r) \<Rightarrow> (s2, map envelope_of out @ outs, r))))"

text \<open>At the end every forwarder is aborted.\<close>

definition agent_stop :: "agent_state \<Rightarrow> agent_state" where
  "agent_stop s = s\<lparr>as_subs := Map.empty, as_tasks := (\<lambda>t. if t \<in> ran (as_subs s) then None else as_tasks s t)\<rparr>"

definition serve :: "agent_host \<Rightarrow> (string + envelope) list \<Rightarrow> agent_state \<times> envelope list \<times> (string + unit) option" where
  "serve host inputs =
     (case serve_loop host inputs agent_state_new of
        (s, outs, None) \<Rightarrow> (s, outs, None)
      | (s, outs, Some r) \<Rightarrow> (agent_stop s, outs, Some r))"

end
