(* ===== verification/SessionProps.thy ===== *)
theory SessionProps
  imports Session
begin

text \<open>
  What a session keeps: every running forwarder of a client is in the table its kind belongs to,
  under the subscription it serves. From it: an Unsubscribe stops exactly the forwarders of its id,
  and a session that ends leaves none behind.
\<close>

section \<open>Forwarders and their tables\<close>

fun task_sub :: "task_kind \<Rightarrow> u64 option" where
  "task_sub (TaskDocker i) = Some i"
| "task_sub (TaskDockerLogs i _ _ _) = Some i"
| "task_sub (TaskDockerStats i _) = Some i"
| "task_sub (TaskPorts i) = Some i"
| "task_sub (TaskProcesses i) = Some i"
| "task_sub (TaskFleet i) = Some i"
| "task_sub (TaskPane i _) = Some i"
| "task_sub (TaskRemotePane i _) = Some i"
| "task_sub (TaskDockerAction _) = None"

datatype table = TbDocker | TbPorts | TbProcesses | TbFleet | TbPane

fun task_table :: "task_kind \<Rightarrow> table" where
  "task_table (TaskPorts _) = TbPorts"
| "task_table (TaskProcesses _) = TbProcesses"
| "task_table (TaskFleet _) = TbFleet"
| "task_table (TaskPane _ _) = TbPane"
| "task_table (TaskRemotePane _ _) = TbPane"
| "task_table _ = TbDocker"

fun table_of :: "table \<Rightarrow> session \<Rightarrow> u64 \<rightharpoonup> nat" where
  "table_of TbDocker s = se_docker_subs s"
| "table_of TbPorts s = se_ports_subs s"
| "table_of TbProcesses s = se_processes_subs s"
| "table_of TbFleet s = se_fleet_subs s"
| "table_of TbPane s = se_pane_subs s"

text \<open>
  A handle in a table is of an old task; if that still runs, it is this client's and serves that id.
  A running task of the client that serves an id is in its table.
\<close>

definition session_inv :: "session \<Rightarrow> 'c daemon \<Rightarrow> bool" where
  "session_inv s d \<longleftrightarrow>
     (\<forall>t. da_tasks d t \<noteq> None \<longrightarrow> t < da_next_task d) \<and>
     (\<forall>tb i t. table_of tb s i = Some t \<longrightarrow> t < da_next_task d \<and>
        (\<forall>k. da_tasks d t = Some k \<longrightarrow>
           ta_client k = se_client s \<and> task_table (ta_kind k) = tb \<and> task_sub (ta_kind k) = Some i)) \<and>
     (\<forall>t k i. da_tasks d t = Some k \<longrightarrow> ta_client k = se_client s \<longrightarrow> task_sub (ta_kind k) = Some i \<longrightarrow>
        table_of (task_table (ta_kind k)) s i = Some t)"

lemma session_new_inv:
  assumes "\<forall>t. da_tasks d t \<noteq> None \<longrightarrow> t < da_next_task d"
    and "\<forall>t k. da_tasks d t = Some k \<longrightarrow> ta_client k \<noteq> cl"
  shows "session_inv (session_new cl) d"
proof -
  have "table_of tb (session_new cl) = Map.empty" for tb
    by (cases tb) (simp_all add: session_new_def)
  then show ?thesis
    using assms by (auto simp: session_inv_def session_new_def)
qed

lemma inv_in_table:
  "session_inv s d \<Longrightarrow> da_tasks d t = Some k \<Longrightarrow> ta_client k = se_client s \<Longrightarrow>
     task_sub (ta_kind k) = Some i \<Longrightarrow> table_of (task_table (ta_kind k)) s i = Some t"
  unfolding session_inv_def by blast

lemma inv_of_table:
  "session_inv s d \<Longrightarrow> table_of tb s i = Some t \<Longrightarrow> da_tasks d t = Some k \<Longrightarrow>
     ta_client k = se_client s \<and> task_table (ta_kind k) = tb \<and> task_sub (ta_kind k) = Some i"
  unfolding session_inv_def by blast

text \<open>Handlers that leave the tasks and the tables alone.\<close>

definition same_tasks :: "session \<Rightarrow> 'c daemon \<Rightarrow> session \<Rightarrow> 'c daemon \<Rightarrow> bool" where
  "same_tasks s d s' d' \<longleftrightarrow> da_tasks d' = da_tasks d \<and> da_next_task d' = da_next_task d \<and>
     se_client s' = se_client s \<and> (\<forall>tb. table_of tb s' = table_of tb s)"

lemma same_tasksI:
  assumes "da_tasks d' = da_tasks d" "da_next_task d' = da_next_task d" "se_client s' = se_client s"
    "se_docker_subs s' = se_docker_subs s" "se_ports_subs s' = se_ports_subs s"
    "se_processes_subs s' = se_processes_subs s" "se_fleet_subs s' = se_fleet_subs s"
    "se_pane_subs s' = se_pane_subs s"
  shows "same_tasks s d s' d'"
proof -
  have "table_of tb s' = table_of tb s" for tb
    using assms by (cases tb) simp_all
  then show ?thesis using assms by (simp add: same_tasks_def)
qed

lemma same_tasks_inv: "same_tasks s d s' d' \<Longrightarrow> session_inv s d \<Longrightarrow> session_inv s' d'"
  by (simp add: same_tasks_def session_inv_def)

text \<open>
  The effect of a handler on the tasks, for the client itself and for the others: it ends the
  tasks \<open>A\<close> and starts \<open>N\<close>, both its own.
\<close>

definition task_effect :: "session \<Rightarrow> 'c daemon \<Rightarrow> 'c daemon \<Rightarrow> bool" where
  "task_effect s d d' \<longleftrightarrow> da_next_task d \<le> da_next_task d' \<and>
     (\<forall>t. da_tasks d' t \<noteq> None \<longrightarrow> t < da_next_task d') \<and>
     (\<forall>t k. da_tasks d' t = Some k \<longrightarrow> da_tasks d t = Some k \<or>
        da_next_task d \<le> t \<and> ta_client k = se_client s) \<and>
     (\<forall>t k. da_tasks d t = Some k \<longrightarrow> ta_client k \<noteq> se_client s \<longrightarrow> da_tasks d' t = Some k)"

lemma other_session_inv:
  assumes "task_effect s d d'" "session_inv s2 d" "se_client s2 \<noteq> se_client s"
  shows "session_inv s2 d'"
proof -
  note te = assms(1) [unfolded task_effect_def]
  show ?thesis
    unfolding session_inv_def
  proof (intro conjI allI impI)
    fix t assume "da_tasks d' t \<noteq> None" then show "t < da_next_task d'" using te by blast
  next
    fix tb i t assume e: "table_of tb s2 i = Some t"
    then have old: "t < da_next_task d" using assms(2) by (auto simp: session_inv_def)
    then show "t < da_next_task d'" using te by linarith
    fix k assume "da_tasks d' t = Some k"
    then have "da_tasks d t = Some k" using te old by (meson leD)
    then show "ta_client k = se_client s2" "task_table (ta_kind k) = tb" "task_sub (ta_kind k) = Some i"
      using assms(2) e unfolding session_inv_def by blast+
  next
    fix t k i assume "da_tasks d' t = Some k" "ta_client k = se_client s2" "task_sub (ta_kind k) = Some i"
    then show "table_of (task_table (ta_kind k)) s2 i = Some t"
      using te assms(2,3) unfolding session_inv_def by metis
  qed
qed

lemma same_tasks_effect: "same_tasks s d s' d' \<Longrightarrow> session_inv s d \<Longrightarrow> task_effect s d d'"
  by (auto simp: same_tasks_def task_effect_def session_inv_def)

text \<open>
  A start of a forwarder that replaces the one under the same id of its table: the shape of every
  local subscription and of an attach.
\<close>

definition set_table :: "table \<Rightarrow> u64 \<Rightarrow> nat option \<Rightarrow> session \<Rightarrow> session \<Rightarrow> bool" where
  "set_table tb i h s s' \<longleftrightarrow> se_client s' = se_client s \<and>
     (\<forall>tb'. table_of tb' s' = (if tb' = tb then (table_of tb s)(i := h) else table_of tb' s))"

lemma abort_tasks [simp]:
  "da_tasks (abort h d) = (case h of Some t \<Rightarrow> (da_tasks d)(t := None) | None \<Rightarrow> da_tasks d)"
  "da_next_task (abort h d) = da_next_task d"
  by (auto simp: abort_def split: option.splits)

lemma start_keeps:
  assumes inv: "session_inv s d" and st: "set_table tb i (Some (da_next_task d)) s s'"
    and k: "task_table k = tb" "task_sub k = Some i"
    and d': "da_tasks d' = (da_tasks (abort (table_of tb s i) d))
      (da_next_task d \<mapsto> \<lparr>ta_client = se_client s, ta_kind = k\<rparr>)" "da_next_task d' = da_next_task d + 1"
  shows "session_inv s' d' \<and> task_effect s d d'"
proof -
  have tables: "table_of tb' s' = (if tb' = tb then (table_of tb s)(i := Some (da_next_task d)) else table_of tb' s)"
    and cl: "se_client s' = se_client s" for tb'
    using st by (auto simp: set_table_def)
  have i1: "da_tasks d t \<noteq> None \<Longrightarrow> t < da_next_task d" for t
    using inv by (auto simp: session_inv_def)
  have i2: "table_of tb' s j = Some t \<Longrightarrow> t < da_next_task d" for tb' j t
    using inv by (auto simp: session_inv_def)
  have i3: "table_of tb' s j = Some t \<Longrightarrow> da_tasks d t = Some k' \<Longrightarrow>
      ta_client k' = se_client s \<and> task_table (ta_kind k') = tb' \<and> task_sub (ta_kind k') = Some j" for tb' j t k'
    using inv unfolding session_inv_def by blast
  have i4: "da_tasks d t = Some k' \<Longrightarrow> ta_client k' = se_client s \<Longrightarrow> task_sub (ta_kind k') = Some j \<Longrightarrow>
      table_of (task_table (ta_kind k')) s j = Some t" for t k' j
    using inv unfolding session_inv_def by blast
  have run: "da_tasks d' t = (if t = da_next_task d then Some \<lparr>ta_client = se_client s, ta_kind = k\<rparr>
      else if table_of tb s i = Some t then None else da_tasks d t)" for t
    unfolding d'(1) by (auto split: option.splits)
  have "session_inv s' d'"
    unfolding session_inv_def cl d'(2)
  proof (intro conjI allI impI)
    fix t assume "da_tasks d' t \<noteq> None"
    then show "t < da_next_task d + 1"
      using i1 [of t] by (auto simp: run split: if_splits)
  next
    fix tb' j t assume e: "table_of tb' s' j = Some t"
    show "t < da_next_task d + 1"
      using e i2 [of tb' j t] i2 [of tb j t] by (auto simp: tables split: if_splits)
    fix k' assume r: "da_tasks d' t = Some k'"
    show "ta_client k' = se_client s" "task_table (ta_kind k') = tb'" "task_sub (ta_kind k') = Some j"
      using e r k i2 [of tb' j t] i2 [of tb j t] i3 [of tb' j t k'] i3 [of tb j t k']
      by (auto simp: tables run split: if_splits)
  next
    fix t k' j assume "da_tasks d' t = Some k'" "ta_client k' = se_client s" "task_sub (ta_kind k') = Some j"
    then show "table_of (task_table (ta_kind k')) s' j = Some t"
      using k i4 [of t k' j] by (auto simp: tables run split: if_splits)
  qed
  moreover have "task_effect s d d'"
    unfolding task_effect_def d'(2)
    using i1 i3 by (auto simp: run split: if_splits intro: less_SucI)
  ultimately show ?thesis by blast
qed

lemma stop_keeps:
  assumes inv: "session_inv s d"
    and tables: "\<And>tb j. table_of tb s' j = (if R tb j then None else table_of tb s j)"
    and cl: "se_client s' = se_client s"
    and run: "\<And>t. da_tasks d' t = (if \<exists>tb j. R tb j \<and> table_of tb s j = Some t then None else da_tasks d t)"
    and nx: "da_next_task d' = da_next_task d"
  shows "session_inv s' d' \<and> task_effect s d d'"
proof -
  have i3: "table_of tb' s j = Some t \<Longrightarrow> da_tasks d t = Some k' \<Longrightarrow>
      ta_client k' = se_client s \<and> task_table (ta_kind k') = tb' \<and> task_sub (ta_kind k') = Some j" for tb' j t k'
    using inv unfolding session_inv_def by blast
  have i4: "da_tasks d t = Some k' \<Longrightarrow> ta_client k' = se_client s \<Longrightarrow> task_sub (ta_kind k') = Some j \<Longrightarrow>
      table_of (task_table (ta_kind k')) s j = Some t" for t k' j
    using inv unfolding session_inv_def by blast
  have "session_inv s' d'"
    unfolding session_inv_def cl nx
  proof (intro conjI allI impI)
    fix t assume "da_tasks d' t \<noteq> None"
    then show "t < da_next_task d"
      using inv by (auto simp: run session_inv_def split: if_splits)
  next
    fix tb' j t assume e: "table_of tb' s' j = Some t"
    show "t < da_next_task d"
      using e inv by (auto simp: tables session_inv_def split: if_splits)
    fix k' assume r: "da_tasks d' t = Some k'"
    show "ta_client k' = se_client s" "task_table (ta_kind k') = tb'" "task_sub (ta_kind k') = Some j"
      using e r i3 [of tb' j t k'] by (auto simp: tables run split: if_splits)
  next
    fix t k' j assume "da_tasks d' t = Some k'" "ta_client k' = se_client s" "task_sub (ta_kind k') = Some j"
    then show "table_of (task_table (ta_kind k')) s' j = Some t"
      using i4 [of t k' j] by (auto simp: tables run split: if_splits)
  qed
  moreover have "task_effect s d d'"
    unfolding task_effect_def nx
    using inv i3 by (auto simp: run session_inv_def split: if_splits)
  ultimately show ?thesis by blast
qed

lemma spawn_action_keeps:
  assumes inv: "session_inv s d"
  shows "session_inv s (snd (spawn s (TaskDockerAction req) d)) \<and>
    task_effect s d (snd (spawn s (TaskDockerAction req) d))"
proof -
  have lt: "\<And>tb i t. table_of tb s i = Some t \<Longrightarrow> t < da_next_task d"
    using inv by (auto simp: session_inv_def)
  show ?thesis
    using inv unfolding session_inv_def task_effect_def
    by (auto simp: spawn_def less_SucI split: if_splits dest: lt)
qed

section \<open>One command\<close>

lemma with_hub_tasks [simp]:
  "da_tasks (with_hub f d) = da_tasks d" "da_next_task (with_hub f d) = da_next_task d"
  by (simp_all add: with_hub_def)

lemma reply_same: "reply w s p d = (s', d', ok) \<Longrightarrow> same_tasks s d s' d'"
  by (auto simp: reply_def intro: same_tasksI)

lemma subscribe_remote_same:
  "subscribe_remote w i alias scope required builder s d = (s', d', ok) \<Longrightarrow> same_tasks s d s' d'"
  by (auto simp: subscribe_remote_def split: prod.splits intro: same_tasksI)

lemmas spawned = spawn_def abort_def

lemma start_docker_keeps:
  assumes "session_inv s d" "task_table k = TbDocker" "task_sub k = Some i"
    "start_docker i k s d = (s', d', ok)"
  shows "session_inv s' d' \<and> task_effect s d d'"
proof (rule start_keeps [OF assms(1) _ assms(2,3)])
  show "set_table TbDocker i (Some (da_next_task d)) s s'"
  proof -
    have "table_of tb s' = (if tb = TbDocker then (table_of TbDocker s)(i := Some (da_next_task d)) else table_of tb s)" for tb
      using assms(4) by (cases tb) (auto simp: start_docker_def spawn_def)
    then show ?thesis
      using assms(4) by (auto simp: set_table_def start_docker_def spawn_def)
  qed
qed (use assms(4) in \<open>auto simp: start_docker_def spawn_def\<close>)

lemma handle_subscribe_keeps:
  assumes inv: "session_inv s d" and st: "handle_subscribe w sub s d = (s', d', ok)"
  shows "session_inv s' d' \<and> task_effect s d d'"
proof -
  have same: "same_tasks s d s' d' \<Longrightarrow> ?thesis"
    using inv same_tasks_inv same_tasks_effect by blast
  show ?thesis
  proof (cases sub)
    case (SubStatus i)
    then have "same_tasks (s\<lparr>se_status_sub := Some i\<rparr>) d s' d'"
      using st reply_same by (simp add: send_status_def) blast
    moreover have "table_of tb (s\<lparr>se_status_sub := Some i\<rparr>) = table_of tb s" for tb
      by (cases tb) simp_all
    ultimately show ?thesis by (intro same) (simp add: same_tasks_def)
  next
    case (SubDocker i target)
    then show ?thesis
      using st start_docker_keeps [OF inv, of "TaskDocker i"] subscribe_remote_same same by (cases target) fastforce+
  next
    case (SubDockerLogs i cid follow tail target)
    then show ?thesis
      using st start_docker_keeps [OF inv, of "TaskDockerLogs i cid follow tail"] subscribe_remote_same same
      by (cases target) fastforce+
  next
    case (SubDockerStats i cid target)
    then show ?thesis
      using st start_docker_keeps [OF inv, of "TaskDockerStats i cid"] subscribe_remote_same same
      by (cases target) fastforce+
  next
    case (SubPorts i target)
    show ?thesis
    proof (cases target)
      case StLocal
      have "table_of tb s' = (if tb = TbPorts then (table_of TbPorts s)(i := Some (da_next_task d)) else table_of tb s)" for tb
        using st SubPorts StLocal by (cases tb) (auto simp: spawn_def)
      then show ?thesis
        using st SubPorts StLocal
        by (intro start_keeps [OF inv, of TbPorts i s' "TaskPorts i"]) (auto simp: set_table_def spawn_def)
    qed (use st SubPorts subscribe_remote_same same in fastforce)
  next
    case (SubProcesses i target)
    show ?thesis
    proof (cases target)
      case StLocal
      have "table_of tb s' = (if tb = TbProcesses then (table_of TbProcesses s)(i := Some (da_next_task d)) else table_of tb s)" for tb
        using st SubProcesses StLocal by (cases tb) (auto simp: spawn_def)
      then show ?thesis
        using st SubProcesses StLocal
        by (intro start_keeps [OF inv, of TbProcesses i s' "TaskProcesses i"]) (auto simp: set_table_def spawn_def)
    qed (use st SubProcesses subscribe_remote_same same in fastforce)
  next
    case (SubFleet i)
    have "table_of tb s' = (if tb = TbFleet then (table_of TbFleet s)(i := Some (da_next_task d)) else table_of tb s)" for tb
      using st SubFleet by (cases tb) (auto simp: spawn_def)
    then show ?thesis
      using st SubFleet
      by (intro start_keeps [OF inv, of TbFleet i s' "TaskFleet i"]) (auto simp: set_table_def spawn_def)
  qed
qed

lemma ex_table: "(\<exists>tb. P tb) \<longleftrightarrow> P TbDocker \<or> P TbPane \<or> P TbPorts \<or> P TbProcesses \<or> P TbFleet"
  by (metis table.exhaust)

lemma unsubscribe_effect:
  assumes "handle_unsubscribe w i s d = (s', d', ok)"
  shows "table_of tb s' j = (if j = i then None else table_of tb s j)" "se_client s' = se_client s"
    "da_tasks d' t = (if \<exists>tb. table_of tb s i = Some t then None else da_tasks d t)"
    "da_next_task d' = da_next_task d" "ok"
    "se_status_sub s' \<noteq> Some i" "se_agent_subs s' i = None"
proof -
  show "table_of tb s' j = (if j = i then None else table_of tb s j)"
    using assms by (cases tb) (auto simp: handle_unsubscribe_def Let_def)
  have ex: "(\<exists>tb. table_of tb s i = Some t) \<longleftrightarrow> se_docker_subs s i = Some t \<or> se_pane_subs s i = Some t \<or>
      se_ports_subs s i = Some t \<or> se_processes_subs s i = Some t \<or> se_fleet_subs s i = Some t"
    unfolding ex_table by auto
  have "d' = (case se_agent_subs s i of Some handle \<Rightarrow> with_hub (drop_agent_sub (w_alive w) handle) d1 | None \<Rightarrow> d1)
      \<Longrightarrow> da_tasks d' = da_tasks d1" for d1
    by (simp split: option.splits)
  then show "da_tasks d' t = (if \<exists>tb. table_of tb s i = Some t then None else da_tasks d t)"
    using assms unfolding ex by (auto simp: handle_unsubscribe_def Let_def split: option.splits)
qed (use assms in \<open>auto simp: handle_unsubscribe_def Let_def split: option.splits if_splits\<close>)

lemma handle_attach_pane_keeps:
  assumes inv: "session_inv s d" and st: "handle_attach_pane w p i s d = (s', d', ok)"
  shows "session_inv s' d' \<and> task_effect s d d'"
proof (cases "pm_panes (da_remote_pty d) p = None \<and> pm_panes (da_pty d) p = None")
  case True
  then have eqs: "s' = s\<lparr>se_pane_subs := (se_pane_subs s)(i := None)\<rparr>"
    "da_tasks d' = da_tasks (abort (se_pane_subs s i) d)" "da_next_task d' = da_next_task d"
    using st by (auto simp: handle_attach_pane_def Let_def reply_def)
  have "table_of tb s' j = (if tb = TbPane \<and> j = i then None else table_of tb s j)" for tb j
    by (cases tb) (auto simp: eqs)
  moreover have "da_tasks d' t = (if \<exists>tb j. (tb = TbPane \<and> j = i) \<and> table_of tb s j = Some t then None else da_tasks d t)" for t
    by (auto simp: eqs split: option.splits)
  ultimately show ?thesis
    by (intro stop_keeps [OF inv, where R = "\<lambda>tb j. tb = TbPane \<and> j = i"]) (auto simp: eqs)
next
  case False
  define k where "k = (if pm_panes (da_remote_pty d) p \<noteq> None then TaskRemotePane i p else TaskPane i p)"
  have k: "task_table k = TbPane" "task_sub k = Some i" by (auto simp: k_def)
  have eqs: "s' = s\<lparr>se_pane_subs := (se_pane_subs s)(i \<mapsto> da_next_task d)\<rparr>"
    "da_tasks d' = (da_tasks (abort (se_pane_subs s i) d))
       (da_next_task d \<mapsto> \<lparr>ta_client = se_client s, ta_kind = k\<rparr>)" "da_next_task d' = da_next_task d + 1"
    using st False by (auto simp: handle_attach_pane_def Let_def spawn_def k_def split: if_splits)
  have "table_of tb s' = (if tb = TbPane then (table_of TbPane s)(i := Some (da_next_task d)) else table_of tb s)" for tb
    by (cases tb) (auto simp: eqs)
  then show ?thesis
    by (intro start_keeps [OF inv _ k]) (auto simp: set_table_def eqs)
qed

lemma handle_unsubscribe_keeps:
  assumes inv: "session_inv s d" and st: "handle_unsubscribe w i s d = (s', d', ok)"
  shows "session_inv s' d' \<and> task_effect s d d'"
  by (rule stop_keeps [OF inv, where R = "\<lambda>tb j. j = i"]) (use unsubscribe_effect [OF st] in auto)

lemma handle_command_keeps:
  assumes inv: "session_inv s d" and st: "handle_command w p s d = (s', d', ok)"
  shows "session_inv s' d' \<and> task_effect s d d'"
proof -
  have same: "same_tasks s d s' d' \<Longrightarrow> ?thesis"
    using inv same_tasks_inv same_tasks_effect by blast
  show ?thesis
  proof (cases p)
    case (PSubscribe sub)
    then show ?thesis using st handle_subscribe_keeps [OF inv] by simp
  next
    case (PUnsubscribe i)
    then show ?thesis using st handle_unsubscribe_keeps [OF inv] by simp
  next
    case (PAttachPane q i)
    then show ?thesis using st handle_attach_pane_keeps [OF inv] by simp
  next
    case (PDockerAction req)
    show ?thesis
    proof (cases "dar_target req")
      case StLocal
      then show ?thesis
        using PDockerAction st spawn_action_keeps [OF inv, of req] by (auto simp: handle_docker_action_def)
    next
      case (StRemote al)
      then show ?thesis
        using PDockerAction st by (intro same) (auto simp: handle_docker_action_def intro!: same_tasksI)
    qed
  next
    case (POpenPane spec)
    then show ?thesis
      using st by (intro same) (auto simp: handle_open_pane_def Let_def reply_def
          split: pane_target.splits sum.splits prod.splits intro!: same_tasksI)
  next
    case (PSendInput q bytes)
    then show ?thesis
      using st by (intro same) (auto simp: handle_send_input_def with_remote_def split: option.splits
          intro!: same_tasksI)
  next
    case (PResizePane q rows cols)
    then show ?thesis
      using st by (intro same) (auto simp: handle_resize_pane_def with_remote_def split: option.splits
          intro!: same_tasksI)
  next
    case (PClosePane q)
    then show ?thesis
      using st by (intro same) (auto simp: handle_close_pane_def split: if_splits intro!: same_tasksI)
  qed (rule same, (use st in \<open>auto simp: handle_fleet_action_def handle_list_panes_def Let_def reply_def
      split: if_splits intro!: same_tasksI\<close>)[1])+
qed

lemma handle_command_client:
  assumes "handle_command w p s d = (s', d', ok)"
  shows "se_client s' = se_client s"
proof (cases p)
  case (PSubscribe sub)
  with assms show ?thesis
    by (cases "(w, sub, s, d)" rule: handle_subscribe.cases)
      (auto simp: send_status_def reply_def start_docker_def spawn_def subscribe_remote_def split: prod.splits)
qed (use assms in \<open>auto simp: handle_fleet_action_def handle_list_panes_def Let_def reply_def
    handle_docker_action_def handle_open_pane_def handle_send_input_def handle_resize_pane_def
    handle_close_pane_def handle_unsubscribe_def handle_attach_pane_def spawn_def
    split: if_splits scope_target.splits pane_target.splits sum.splits prod.splits option.splits\<close>)

text \<open>A command ends the session only when the client is gone.\<close>

lemma handle_command_ok:
  assumes "handle_command w p s d = (s', d', ok)" "w_alive w (ToClient (se_client s))"
  shows "ok"
proof (cases p)
  case (PSubscribe sub)
  with assms show ?thesis
    by (cases "(w, sub, s, d)" rule: handle_subscribe.cases)
      (auto simp: send_status_def reply_def start_docker_def spawn_def subscribe_remote_def split: prod.splits)
qed (use assms in \<open>auto simp: handle_fleet_action_def handle_list_panes_def Let_def reply_def
    handle_docker_action_def handle_open_pane_def handle_send_input_def handle_resize_pane_def
    handle_close_pane_def handle_unsubscribe_def handle_attach_pane_def spawn_def
    split: if_splits scope_target.splits pane_target.splits sum.splits prod.splits option.splits\<close>)

lemma session_step_keeps:
  assumes "session_inv s d" "session_step w i s d = (s', d', ok)"
  shows "session_inv s' d' \<and> task_effect s d d' \<and> se_client s' = se_client s"
proof (cases i)
  case SeTick
  have same: "same_tasks s d s' d'"
    using assms(2) SeTick reply_same
    by (auto simp: session_step_def send_status_def split: option.splits intro: same_tasksI)
  then show ?thesis
    using assms(1) same_tasks_inv same_tasks_effect by (metis same_tasks_def)
next
  case (SeMsg env)
  then show ?thesis
    using assms handle_command_keeps handle_command_client by (simp add: session_step_def) blast
next
  case SeReadError
  then have "same_tasks s d s' d'"
    using assms(2) by (auto simp: session_step_def intro: same_tasksI)
  then show ?thesis
    using assms(1) same_tasks_inv same_tasks_effect by (metis same_tasks_def)
qed

lemma session_loop_keeps:
  "session_loop w inputs s d = (s', d', ok) \<Longrightarrow> session_inv s d \<Longrightarrow>
     session_inv s' d' \<and> se_client s' = se_client s \<and>
     (\<forall>s2. se_client s2 \<noteq> se_client s \<longrightarrow> session_inv s2 d \<longrightarrow> session_inv s2 d') \<and>
     (\<forall>t k. da_tasks d t = Some k \<longrightarrow> ta_client k \<noteq> se_client s \<longrightarrow> da_tasks d' t = Some k)"
proof (induction inputs arbitrary: s d)
  case (Cons i is')
  obtain s1 d1 ok1 where st: "session_step w i s d = (s1, d1, ok1)"
    by (cases "session_step w i s d") auto
  note one = session_step_keeps [OF Cons.prems(2) st]
  have others: "\<forall>s2. se_client s2 \<noteq> se_client s \<longrightarrow> session_inv s2 d \<longrightarrow> session_inv s2 d1"
    "\<forall>t k. da_tasks d t = Some k \<longrightarrow> ta_client k \<noteq> se_client s \<longrightarrow> da_tasks d1 t = Some k"
    using one other_session_inv unfolding task_effect_def by blast+
  show ?case
  proof (cases ok1)
    case True
    with Cons.prems(1) st have "session_loop w is' s1 d1 = (s', d', ok)" by simp
    from Cons.IH [OF this] one others show ?thesis by metis
  next
    case False
    with Cons.prems(1) st one others show ?thesis by simp
  qed
qed simp

section \<open>Properties\<close>

text \<open>
  C12. Through any sequence of commands, ticks and errors of a session, every running forwarder of
  the client is the one its table holds for its subscription, so that there is never a second one
  for the same subscription in a table, and the tables of every other client stay right as well.
\<close>

theorem session_keeps_tables:
  assumes "session_inv s d" "session_loop w inputs s d = (s', d', ok)"
  shows "session_inv s' d' \<and>
    (\<forall>t1 k1 t2 k2 i. da_tasks d' t1 = Some k1 \<longrightarrow> da_tasks d' t2 = Some k2 \<longrightarrow>
       ta_client k1 = se_client s \<longrightarrow> ta_client k2 = se_client s \<longrightarrow>
       task_sub (ta_kind k1) = Some i \<longrightarrow> task_sub (ta_kind k2) = Some i \<longrightarrow>
       task_table (ta_kind k1) = task_table (ta_kind k2) \<longrightarrow> t1 = t2) \<and>
    (\<forall>s2. se_client s2 \<noteq> se_client s \<longrightarrow> session_inv s2 d \<longrightarrow> session_inv s2 d')"
proof -
  note loop = session_loop_keeps [OF assms(2,1)]
  have "t1 = t2"
    if "da_tasks d' t1 = Some k1" "da_tasks d' t2 = Some k2" "ta_client k1 = se_client s"
      "ta_client k2 = se_client s" "task_sub (ta_kind k1) = Some i" "task_sub (ta_kind k2) = Some i"
      "task_table (ta_kind k1) = task_table (ta_kind k2)" for t1 k1 t2 k2 i
    using that inv_in_table [of s' d' t1 k1 i] inv_in_table [of s' d' t2 k2 i] loop by simp
  with loop show ?thesis by blast
qed

text \<open>
  An Unsubscribe stops the forwarders of that id, all of them and nothing else, clears the status
  subscription if it has the id, and forgets the remote subscription.
\<close>

theorem unsubscribe_stops_exactly:
  assumes "session_inv s d" "handle_command w (PUnsubscribe i) s d = (s', d', ok)"
  shows "ok \<and>
    (\<forall>t k. da_tasks d' t = Some k \<longleftrightarrow>
       da_tasks d t = Some k \<and> \<not> (ta_client k = se_client s \<and> task_sub (ta_kind k) = Some i)) \<and>
    se_status_sub s' \<noteq> Some i \<and> se_agent_subs s' i = None"
proof -
  have st: "handle_unsubscribe w i s d = (s', d', ok)" using assms(2) by simp
  note eff = unsubscribe_effect [OF st]
  have tab: "(\<exists>tb. table_of tb s i = Some t) \<longleftrightarrow> ta_client k = se_client s \<and> task_sub (ta_kind k) = Some i"
    if "da_tasks d t = Some k" for t k
    using inv_in_table [OF assms(1) that] inv_of_table [OF assms(1) _ that] by blast
  have "da_tasks d' t = Some k \<longleftrightarrow>
      da_tasks d t = Some k \<and> \<not> (ta_client k = se_client s \<and> task_sub (ta_kind k) = Some i)" for t k
    using eff(3) [of t] tab [of t k] by (cases "da_tasks d t = Some k") (auto split: if_splits)
  then show ?thesis
    using eff(5-7) by blast
qed

lemma teardown_tasks:
  "da_tasks (teardown w s d) t = (if \<exists>tb i. table_of tb s i = Some t then None else da_tasks d t)"
proof -
  have "(\<exists>tb i. table_of tb s i = Some t) \<longleftrightarrow> (\<exists>tb. t \<in> ran (table_of tb s))"
    by (simp add: ran_def)
  also have "\<dots> \<longleftrightarrow> t \<in> ran (se_docker_subs s) \<or> t \<in> ran (se_pane_subs s) \<or> t \<in> ran (se_ports_subs s) \<or>
      t \<in> ran (se_processes_subs s) \<or> t \<in> ran (se_fleet_subs s)"
    unfolding ex_table by simp
  finally show ?thesis
    by (auto simp: teardown_def abort_all_def Let_def)
qed

text \<open>
  C13. When a session has ended, no forwarder of its client is running any more; only Docker actions
  already under way are, and no task of another client has been touched.
\<close>

theorem session_end_leaves_no_forwarder:
  assumes "\<forall>t. da_tasks d t \<noteq> None \<longrightarrow> t < da_next_task d"
    and "\<forall>t k. da_tasks d t = Some k \<longrightarrow> ta_client k \<noteq> cl"
    and "session w cl hello inputs d = (None, d')"
  shows "(\<forall>t k. da_tasks d' t = Some k \<longrightarrow> ta_client k = cl \<longrightarrow> task_sub (ta_kind k) = None) \<and>
    (\<forall>t k. da_tasks d t = Some k \<longrightarrow> da_tasks d' t = Some k)"
proof (cases "handshake hello")
  case (HrAccept h)
  obtain d1 ok1 where rep: "reply w (session_new cl) (welcome_payload w d) d = (session_new cl, d1, ok1)"
    by (auto simp: reply_def)
  have inv: "session_inv (session_new cl) d1" and same: "da_tasks d1 = da_tasks d"
    using session_new_inv [OF assms(1,2)] same_tasks_inv [OF reply_same [OF rep]] rep
    by (auto simp: reply_def)
  show ?thesis
  proof (cases ok1)
    case False
    then show ?thesis
      using assms(2,3) HrAccept rep same by (auto simp: session_def)
  next
    case True
    obtain s2 d2 where loop: "session_loop w inputs (session_new cl) d1 = (s2, d2, False)"
      and d': "d' = teardown w s2 d2"
      using assms(3) HrAccept rep True by (auto simp: session_def split: prod.splits bool.splits)
    note keeps = session_loop_keeps [OF loop inv]
    then have cl: "se_client s2 = cl" and i2: "session_inv s2 d2" by (auto simp: session_new_def)
    have "task_sub (ta_kind k) = None" if "da_tasks d' t = Some k" "ta_client k = cl" for t k
    proof (cases "task_sub (ta_kind k)")
      case (Some i)
      have "da_tasks d2 t = Some k" "\<nexists>tb i. table_of tb s2 i = Some t"
        using that(1) unfolding d' teardown_tasks by (auto split: if_splits)
      then show ?thesis
        using inv_in_table [OF i2 _ _ Some, of t] that(2) cl by (metis (full_types))
    qed
    moreover have "da_tasks d' t = Some k" if t: "da_tasks d t = Some k" for t k
    proof -
      have "da_tasks d2 t = Some k" "ta_client k \<noteq> cl"
        using keeps t assms(2) same by (auto simp: session_new_def)
      then show ?thesis
        using inv_of_table [OF i2, of _ _ t k] cl unfolding d' teardown_tasks by auto
    qed
    ultimately show ?thesis by blast
  qed
next
  case (HrReject env)
  then have "da_tasks d' = da_tasks d" using assms(3) by (auto simp: session_def)
  then show ?thesis using assms(2) by metis
next
  case HrBail
  then have "da_tasks d' = da_tasks d" using assms(3) by (auto simp: session_def)
  then show ?thesis using assms(2) by metis
qed

section \<open>The handshake\<close>

text \<open>
  A peer that speaks another version, in the envelope or in its Hello, is answered with one
  VersionMismatch error that names both versions, and nothing else: none of its commands is carried
  out and the daemon's state is as before.
\<close>

theorem version_mismatch_rejected:
  assumes "en_version hello \<noteq> PROTOCOL_VERSION \<or>
      (\<exists>h. en_payload hello = PHello h \<and> he_client_version h \<noteq> PROTOCOL_VERSION)"
    and "w_alive w (ToClient cl)"
  shows "\<exists>info. session w cl hello inputs d =
      (None, d\<lparr>da_hub := (da_hub d)\<lparr>hb_out := hb_out (da_hub d) @
                 [(ToClient cl, envelope_of (PError info))]\<rparr>\<rparr>) \<and>
    ei_kind info = VersionMismatch \<and>
    ei_message info =
      (if en_version hello \<noteq> PROTOCOL_VERSION then envelope_version_text (en_version hello)
       else case en_payload hello of PHello h \<Rightarrow> client_version_text (he_client_version h))"
proof -
  define info where "info = \<lparr>ei_kind = VersionMismatch, ei_message =
      (if en_version hello \<noteq> PROTOCOL_VERSION then envelope_version_text (en_version hello)
       else case en_payload hello of PHello h \<Rightarrow> client_version_text (he_client_version h))\<rparr>"
  have "handshake hello = HrReject (envelope_of (PError info))"
    using assms(1) by (auto simp: handshake_def info_def error_envelope_def)
  then have "session w cl hello inputs d = (None, d\<lparr>da_hub := (da_hub d)\<lparr>hb_out := hb_out (da_hub d) @
                 [(ToClient cl, envelope_of (PError info))]\<rparr>\<rparr>)"
    using assms(2) by (simp add: session_def with_hub_def hub_send_def tx_send_def)
  then show ?thesis
    by (intro exI [of _ info]) (simp add: info_def)
qed

section \<open>A concrete daemon\<close>

definition idle_world :: "unit world" where
  "idle_world = \<lparr>w_alive = (\<lambda>_. True), w_now = 0, w_daemon_version = ''0.1.0'',
     w_open_local = (\<lambda>spec i. Inl ''no pty''), w_open_remote = (\<lambda>_. \<lparr>or_discover_task = None,
       or_discover = None, or_known_hosts = None, or_connect = None, or_open_session = None,
       or_request_pty = None, or_request_shell = None\<rparr>), w_remote_tx = (), w_created = 0,
     w_resize_ok = (\<lambda>_. True), w_pane_order = (\<lambda>_. []), w_remote_order = (\<lambda>_. []),
     w_fleet_order = (\<lambda>_. []), w_agent_sub_order = (\<lambda>_. [])\<rparr>"

definition fresh_daemon :: "unit daemon" where
  "fresh_daemon = \<lparr>da_started_at = 0, da_started_at_unix_millis = 0, da_clients_now = 0,
     da_clients_total = 0, da_events_sent = 0, da_daemon_pid = 1, da_socket_path = ''/tmp/d.sock'',
     da_pty = manager_new, da_remote_pty = remote_manager_new, da_hub = hub_new,
     da_tasks = Map.empty, da_next_task = 0, da_pty_writes = [], da_fleet_sends = []\<rparr>"

definition hello_v :: "u32 \<Rightarrow> envelope" where
  "hello_v v = envelope_of (PHello \<lparr>he_client_version = v, he_client_name = ''tui''\<rparr>)"

lemma fresh_inv: "session_inv (session_new 1) fresh_daemon"
  by (rule session_new_inv) (simp_all add: fresh_daemon_def)

abbreviation two_subs :: "session_input list" where
  "two_subs \<equiv> [SeMsg (envelope_of (PSubscribe (SubDocker 7 StLocal))),
     SeMsg (envelope_of (PSubscribe (SubPorts 7 StLocal)))]"

theorem session_keeps_tables_witness:
  "da_tasks (fst (snd (session_loop idle_world two_subs (session_new 1) fresh_daemon))) 1 =
     Some \<lparr>ta_client = 1, ta_kind = TaskPorts 7\<rparr> \<and>
   session_inv (fst (session_loop idle_world two_subs (session_new 1) fresh_daemon))
     (fst (snd (session_loop idle_world two_subs (session_new 1) fresh_daemon)))"
proof -
  obtain s d ok where run: "session_loop idle_world two_subs (session_new 1) fresh_daemon = (s, d, ok)"
    by (cases "session_loop idle_world two_subs (session_new 1) fresh_daemon") auto
  have "da_tasks d 1 = Some \<lparr>ta_client = 1, ta_kind = TaskPorts 7\<rparr>"
    using run by (auto simp: session_step_def envelope_of_def start_docker_def spawn_def abort_def
        session_new_def fresh_daemon_def)
  with session_keeps_tables [OF fresh_inv run] run show ?thesis by simp
qed

theorem unsubscribe_stops_exactly_witness:
  "da_tasks (fst (snd (handle_command idle_world (PUnsubscribe 7)
     (fst (session_loop idle_world two_subs (session_new 1) fresh_daemon))
     (fst (snd (session_loop idle_world two_subs (session_new 1) fresh_daemon)))))) = Map.empty"
proof -
  obtain s d ok where run: "session_loop idle_world two_subs (session_new 1) fresh_daemon = (s, d, ok)"
    by (cases "session_loop idle_world two_subs (session_new 1) fresh_daemon") auto
  have inv: "session_inv s d"
    using session_loop_keeps [OF run fresh_inv] by blast
  have tasks: "da_tasks d = [0 \<mapsto> \<lparr>ta_client = 1, ta_kind = TaskDocker 7\<rparr>, 1 \<mapsto> \<lparr>ta_client = 1, ta_kind = TaskPorts 7\<rparr>]"
    and cl: "se_client s = 1"
    using run by (auto simp: session_step_def envelope_of_def start_docker_def spawn_def abort_def
        session_new_def fresh_daemon_def)
  obtain s' d' ok' where st: "handle_command idle_world (PUnsubscribe 7) s d = (s', d', ok')"
    by (cases "handle_command idle_world (PUnsubscribe 7) s d") auto
  have "da_tasks d' t = None" for t
  proof (rule ccontr)
    assume "da_tasks d' t \<noteq> None"
    then obtain k where "da_tasks d' t = Some k" by blast
    then show False
      using unsubscribe_stops_exactly [OF inv st] tasks cl by (auto split: if_splits)
  qed
  then show ?thesis using st run by auto
qed

theorem session_end_leaves_no_forwarder_witness:
  "da_tasks (snd (session idle_world 1 (hello_v 12) (two_subs @ [SeReadError]) fresh_daemon)) 1 = None"
proof -
  obtain r d' where run: "session idle_world 1 (hello_v 12) (two_subs @ [SeReadError]) fresh_daemon = (r, d')"
    by (cases "session idle_world 1 (hello_v 12) (two_subs @ [SeReadError]) fresh_daemon") auto
  have r: "r = None"
    using run by (auto simp: session_def handshake_def hello_v_def envelope_of_def PROTOCOL_VERSION_def
        reply_def idle_world_def session_step_def start_docker_def spawn_def)
  have bounded: "\<forall>t. da_tasks fresh_daemon t \<noteq> None \<longrightarrow> t < da_next_task fresh_daemon"
    "\<forall>t k. da_tasks fresh_daemon t = Some k \<longrightarrow> ta_client k \<noteq> 1"
    by (simp_all add: fresh_daemon_def)
  note last = session_end_leaves_no_forwarder [OF bounded run [unfolded r]]
  have kinds: "da_tasks d' 1 = Some k \<Longrightarrow> k = \<lparr>ta_client = 1, ta_kind = TaskPorts 7\<rparr>" for k
    using run by (auto simp: session_def handshake_def hello_v_def envelope_of_def PROTOCOL_VERSION_def
        reply_def idle_world_def session_step_def start_docker_def spawn_def teardown_tasks abort_def
        fresh_daemon_def session_new_def with_hub_def split: if_splits)
  have "da_tasks d' 1 = None"
  proof (rule ccontr)
    assume "da_tasks d' 1 \<noteq> None"
    then obtain k where "da_tasks d' 1 = Some k" by blast
    with kinds [OF this] last show False by fastforce
  qed
  then show ?thesis using run by simp
qed

theorem version_mismatch_rejected_witness:
  "\<exists>info. fst (session idle_world 1 (hello_v 11) two_subs fresh_daemon) = None \<and>
     hb_out (da_hub (snd (session idle_world 1 (hello_v 11) two_subs fresh_daemon))) =
       [(ToClient 1, envelope_of (PError info))] \<and>
     ei_message info = ''client v11 not supported (daemon speaks v12); upgrade your client''"
proof -
  have bad: "en_version (hello_v 11) \<noteq> PROTOCOL_VERSION \<or>
      (\<exists>h. en_payload (hello_v 11) = PHello h \<and> he_client_version h \<noteq> PROTOCOL_VERSION)"
    and good: "en_version (hello_v 11) = PROTOCOL_VERSION"
    and p: "en_payload (hello_v 11) = PHello \<lparr>he_client_version = 11, he_client_name = ''tui''\<rparr>"
    and alive: "w_alive idle_world (ToClient 1)" "hb_out (da_hub fresh_daemon) = []"
    by (auto simp: hello_v_def envelope_of_def PROTOCOL_VERSION_def idle_world_def fresh_daemon_def hub_new_def)
  have message: "client_version_text 11 = ''client v11 not supported (daemon speaks v12); upgrade your client''"
    by code_simp
  from version_mismatch_rejected [of "hello_v 11" idle_world 1 two_subs fresh_daemon, OF bad alive(1)]
  show ?thesis using good p alive(2) message by auto
qed

end
