(* ===== verification/PropsDaemon.thy ===== *)
theory PropsDaemon
  imports AppDaemon SessionProps
begin

text \<open>
  Properties across the wire: what the client's queue of open requests relies on, the ids of local and
  remote panes, and a remote subscription taken twice.
\<close>

section \<open>Answers to open requests\<close>

text \<open>What the client takes for the answer to its oldest open request.\<close>

definition open_reply :: "payload \<Rightarrow> bool" where
  "open_reply p =
     (case p of PPaneOpened _ \<Rightarrow> True | PError info \<Rightarrow> is_open_failure info | _ \<Rightarrow> False)"

definition open_replies :: "nat \<Rightarrow> hub \<Rightarrow> nat" where
  "open_replies cl h = length (filter (\<lambda>env. open_reply (en_payload env)) (received (ToClient cl) (hb_out h)))"

fun is_open_request :: "session_input \<Rightarrow> bool" where
  "is_open_request (SeMsg env) = (case en_payload env of POpenPane _ \<Rightarrow> True | _ \<Rightarrow> False)"
| "is_open_request _ = False"

lemma open_replies_send:
  "open_replies cl (hub_send alive d env h) =
     open_replies cl h + (if d = ToClient cl \<and> alive d \<and> open_reply (en_payload env) then 1 else 0)"
  by (auto simp: open_replies_def hub_send_def received_send)

lemma open_replies_routes [simp]:
  "open_replies cl (drop_route a d h) = open_replies cl h"
  "register_route a r h = (i, h') \<Longrightarrow> open_replies cl h' = open_replies cl h"
  by (auto simp: open_replies_def drop_route_def register_route_def alloc_id_def)

lemma not_open_reply [simp]:
  "\<not> open_reply (en_payload (event_envelope i ev))"
  "\<not> open_reply (en_payload (unavailable_envelope_for_scope scope i reason))"
  "\<not> open_reply (en_payload (action_failure_envelope req reason))"
  "\<not> open_reply (en_payload (fleet_action_result_envelope freq outcome))"
  by (simp_all add: open_reply_def event_envelope_def envelope_of_def action_failure_envelope_def
      fleet_action_result_envelope_def)

lemma open_replies_subscribe:
  "open_replies cl (snd (route_remote_subscribe alive c i al scope req builder subs h)) = open_replies cl h"
proof -
  have out: "open_replies cl (h1\<lparr>hb_out := hb_out h1 @ [(ToAgent a, env)]\<rparr>) = open_replies cl h1" for h1 a env
    by (simp add: open_replies_def)
  show ?thesis
    by (auto simp: route_remote_subscribe_def subscribe_on_def tx_send_def out open_replies_send
        split: option.splits prod.splits)
qed

lemma open_replies_action:
  "open_replies cl (route_remote_docker_action alive c al req h) = open_replies cl h"
proof -
  have out: "open_replies cl (h1\<lparr>hb_out := hb_out h1 @ [(ToAgent a, env)]\<rparr>) = open_replies cl h1" for h1 a env
    by (simp add: open_replies_def)
  show ?thesis
    by (auto simp: route_remote_docker_action_def tx_send_def out open_replies_send
        split: option.splits prod.splits)
qed

lemma open_replies_drop: "open_replies cl (drop_agent_sub alive handle h) = open_replies cl h"
  by (auto simp: drop_agent_sub_def open_replies_send split: option.splits)

lemma da_hub_simps [simp]:
  "da_hub (with_hub f d) = f (da_hub d)" "da_hub (abort t d) = da_hub d"
  "da_hub (snd (spawn s k d)) = da_hub d"
  by (simp_all add: with_hub_def abort_def spawn_def split: option.splits)

lemma spawn_hub: "spawn s k d = (t, d') \<Longrightarrow> da_hub d' = da_hub d"
  by (auto simp: spawn_def)

lemma open_replies_reply:
  "reply w s p d = (s', d', ok) \<Longrightarrow> w_alive w (ToClient (se_client s)) \<Longrightarrow>
     open_replies (se_client s) (da_hub d') = open_replies (se_client s) (da_hub d) + (if open_reply p then 1 else 0)"
  by (auto simp: reply_def open_replies_send envelope_of_def)

lemma open_replies_handle_subscribe:
  assumes "handle_subscribe w sub s d = (s', d', ok)" "w_alive w (ToClient (se_client s))"
  shows "open_replies (se_client s) (da_hub d') = open_replies (se_client s) (da_hub d)"
proof -
  have remote: "subscribe_remote w i al scope req builder s d = (s', d', ok) \<Longrightarrow>
      open_replies (se_client s) (da_hub d') = open_replies (se_client s) (da_hub d)" for i al scope req builder
    using open_replies_subscribe by (auto simp: subscribe_remote_def split: prod.splits) (metis snd_conv)
  show ?thesis
    using assms(1)
  proof (cases "(w, sub, s, d)" rule: handle_subscribe.cases)
    case (1 w i s d)
    then show ?thesis
      using assms open_replies_reply [of w "s\<lparr>se_status_sub := Some i\<rparr>"]
      by (auto simp: send_status_def open_reply_def)
  qed (use assms(1) remote in \<open>auto simp: start_docker_def split: prod.splits dest!: spawn_hub\<close>)
qed

lemma open_replies_command:
  assumes "handle_command w p s d = (s', d', ok)" "w_alive w (ToClient (se_client s))"
  shows "open_replies (se_client s) (da_hub d') =
    open_replies (se_client s) (da_hub d) + (case p of POpenPane _ \<Rightarrow> 1 | _ \<Rightarrow> 0)"
proof (cases p)
  case (PSubscribe sub)
  then show ?thesis using assms open_replies_handle_subscribe by simp
next
  case (POpenPane spec)
  have errs: "open_reply (error_envelope Internal (''open pane: '' @ e))"
    "open_reply (error_envelope Internal (''open remote pane ('' @ e))" "open_reply (PPaneOpened i)" for e i
    by (simp_all add: open_reply_def error_envelope_def is_open_failure_def starts_with_def)
  show ?thesis
    using assms POpenPane errs
    by (auto simp: handle_open_pane_def Let_def dest!: open_replies_reply
        split: pane_target.splits sum.splits prod.splits)
next
  case (PAttachPane q i)
  have "\<not> open_reply (error_envelope UnknownPane (''no pane '' @ e))" for e
    by (simp add: open_reply_def error_envelope_def is_open_failure_def starts_with_def)
  then show ?thesis
    using assms PAttachPane
      open_replies_reply [of w "s\<lparr>se_pane_subs := (se_pane_subs s)(i := None)\<rparr>"]
    by (auto simp: handle_attach_pane_def Let_def dest!: spawn_hub split: if_splits prod.splits)
next
  case PPing
  then show ?thesis using assms open_replies_reply by (fastforce simp: open_reply_def)
next
  case PListPanes
  then show ?thesis using assms open_replies_reply by (fastforce simp: handle_list_panes_def open_reply_def)
next
  case (PDockerAction req)
  then show ?thesis
    using assms by (auto simp: handle_docker_action_def open_replies_action split: scope_target.splits)
next
  case (PFleetAction req)
  then show ?thesis
    using assms by (auto simp: handle_fleet_action_def Let_def open_replies_send split: if_splits)
next
  case (PUnsubscribe i)
  then show ?thesis
    using assms by (auto simp: handle_unsubscribe_def Let_def open_replies_drop split: option.splits)
next
  case (PSendInput q bytes)
  then show ?thesis
    using assms by (auto simp: handle_send_input_def with_remote_def split: option.splits)
next
  case (PResizePane q rows cols)
  then show ?thesis
    using assms by (auto simp: handle_resize_pane_def with_remote_def split: option.splits)
next
  case (PClosePane q)
  then show ?thesis
    using assms by (auto simp: handle_close_pane_def split: if_splits)
qed (use assms in auto)

text \<open>
  C15. The daemon answers every OpenPane with exactly one reply the client takes for an answer to an
  open request, a PaneOpened or an error whose text begins as the client expects, and sends no such
  reply otherwise: over any run of a session the client's queue of open requests stays in step.
\<close>

theorem opens_answered_one_for_one:
  assumes "session_loop w inputs s d = (s', d', ok)" "w_alive w (ToClient (se_client s))"
    and "SeReadError \<notin> set inputs"
  shows "open_replies (se_client s) (da_hub d') =
    open_replies (se_client s) (da_hub d) + length (filter is_open_request inputs)"
  using assms
proof (induction inputs arbitrary: s d)
  case (Cons i is')
  obtain s1 d1 ok1 where st: "session_step w i s d = (s1, d1, ok1)"
    by (cases "session_step w i s d") auto
  have one: "open_replies (se_client s) (da_hub d1) =
      open_replies (se_client s) (da_hub d) + (if is_open_request i then 1 else 0) \<and> ok1 \<and> se_client s1 = se_client s"
  proof (cases i)
    case SeTick
    then show ?thesis
      using st Cons.prems(2)
      by (auto simp: session_step_def send_status_def reply_def open_replies_send envelope_of_def open_reply_def
          split: option.splits)
  next
    case (SeMsg env)
    then have hc: "handle_command w (en_payload env) s d = (s1, d1, ok1)"
      using st by (simp add: session_step_def)
    from handle_command_ok [OF this Cons.prems(2)] open_replies_command [OF this Cons.prems(2)]
      handle_command_client [OF this] SeMsg
    show ?thesis by (auto split: payload.splits)
  next
    case SeReadError
    then show ?thesis using Cons.prems(3) by simp
  qed
  then have "session_loop w is' s1 d1 = (s', d', ok)"
    using Cons.prems(1) st by simp
  from Cons.IH [OF this] one Cons.prems(2,3) show ?case by auto
qed simp

definition open_local_spec :: open_pane_spec where
  "open_local_spec = \<lparr>ops_shell = None, ops_cwd = None, ops_env = [], ops_rows = 24, ops_cols = 80,
     ops_target = PtLocal\<rparr>"

abbreviation two_opens :: "session_input list" where
  "two_opens \<equiv> [SeMsg (envelope_of (POpenPane open_local_spec)), SeMsg (envelope_of PPing),
     SeMsg (envelope_of (POpenPane (open_local_spec\<lparr>ops_target := PtRemote ''web''\<rparr>)))]"

theorem opens_answered_one_for_one_witness:
  "open_replies 1 (da_hub (fst (snd (session_loop idle_world two_opens (session_new 1) fresh_daemon)))) = 2"
proof -
  obtain s d ok where run: "session_loop idle_world two_opens (session_new 1) fresh_daemon = (s, d, ok)"
    by (cases "session_loop idle_world two_opens (session_new 1) fresh_daemon") auto
  have "w_alive idle_world (ToClient (se_client (session_new 1)))" "SeReadError \<notin> set two_opens"
    "se_client (session_new 1) = 1" "open_replies 1 (da_hub fresh_daemon) = 0"
    by (simp_all add: idle_world_def session_new_def fresh_daemon_def open_replies_def hub_new_def)
  with opens_answered_one_for_one [OF run] run show ?thesis
    by (simp add: envelope_of_def)
qed

section \<open>The ids of panes\<close>

text \<open>Local ids stay below \<open>2 ^ 32\<close>, where the remote ones start.\<close>

definition pane_ids_inv :: "'c daemon \<Rightarrow> bool" where
  "pane_ids_inv d \<longleftrightarrow>
     (\<forall>i. pm_panes (da_pty d) i \<noteq> None \<longrightarrow> unat i < unat (pm_next_id (da_pty d))) \<and>
     (\<forall>i. pm_panes (da_remote_pty d) i \<noteq> None \<longrightarrow> 2 ^ 32 \<le> unat i) \<and> 2 ^ 32 \<le> unat (pm_next_id (da_remote_pty d))"

definition ids_left :: "'c daemon \<Rightarrow> nat \<Rightarrow> bool" where
  "ids_left d n \<longleftrightarrow> unat (pm_next_id (da_pty d)) + n \<le> 2 ^ 32 \<and>
     unat (pm_next_id (da_remote_pty d)) + n < 2 ^ 64"

lemma unat_suc: "unat (i :: u64) + 1 < 2 ^ 64 \<Longrightarrow> unat (i + 1) = unat i + 1"
  by (subst unat_add_lem [THEN iffD1]) auto

lemma da_pty_simps [simp]:
  "da_pty (with_hub f d) = da_pty d" "da_remote_pty (with_hub f d) = da_remote_pty d"
  "da_pty (abort t d) = da_pty d" "da_remote_pty (abort t d) = da_remote_pty d"
  "da_pty (snd (spawn s k d)) = da_pty d" "da_remote_pty (snd (spawn s k d)) = da_remote_pty d"
  by (simp_all add: with_hub_def abort_def spawn_def split: option.splits)

lemma spawn_pty: "spawn s k d = (t, d') \<Longrightarrow> da_pty d' = da_pty d \<and> da_remote_pty d' = da_remote_pty d"
  by (auto simp: spawn_def)

lemma subscribe_keeps_managers:
  assumes "handle_subscribe w sub s d = (s', d', ok)"
  shows "da_pty d' = da_pty d \<and> da_remote_pty d' = da_remote_pty d"
  using assms
  by (cases "(w, sub, s, d)" rule: handle_subscribe.cases)
    (auto simp: send_status_def reply_def start_docker_def subscribe_remote_def split: prod.splits
      dest!: spawn_pty)

lemma open_pane_ids:
  assumes "pane_ids_inv d" "ids_left d (Suc n)" "handle_open_pane w spec s d = (s', d', ok)"
  shows "pane_ids_inv d' \<and> ids_left d' n"
proof -
  have suc: "unat (pm_next_id (da_pty d) + 1) = unat (pm_next_id (da_pty d)) + 1"
    "unat (pm_next_id (da_remote_pty d) + 1) = unat (pm_next_id (da_remote_pty d)) + 1"
    using assms(2) unat_suc [of "pm_next_id (da_pty d)"] unat_suc [of "pm_next_id (da_remote_pty d)"]
    by (auto simp: ids_left_def)
  show ?thesis
  proof (cases "ops_target spec")
    case PtLocal
    then show ?thesis
      using assms suc
      by (auto simp: handle_open_pane_def manager_open_def Let_def reply_def pane_ids_inv_def ids_left_def
          less_Suc_eq split: sum.splits if_splits)
  next
    case (PtRemote al)
    then show ?thesis
      using assms suc
      by (auto simp: handle_open_pane_def remote_manager_open_def Let_def reply_def pane_ids_inv_def
          ids_left_def split: option.splits if_splits)
  qed
qed

lemma command_pane_ids:
  assumes inv: "pane_ids_inv d" "ids_left d (Suc n)" and st: "handle_command w p s d = (s', d', ok)"
  shows "pane_ids_inv d' \<and> ids_left d' n"
proof -
  have same: "da_pty d' = da_pty d \<and> da_remote_pty d' = da_remote_pty d \<Longrightarrow> ?thesis"
    using inv by (auto simp: pane_ids_inv_def ids_left_def)
  show ?thesis
  proof (cases p)
    case (PSubscribe sub)
    then show ?thesis using st subscribe_keeps_managers same by fastforce
  next
    case (POpenPane spec)
    then show ?thesis using open_pane_ids [OF inv] st by simp
  next
    case (PAttachPane q i)
    then show ?thesis
      using st by (intro same) (auto simp: handle_attach_pane_def Let_def reply_def split: if_splits prod.splits
          dest!: spawn_pty)
  next
    case (PSendInput q bytes)
    then show ?thesis
      using st inv by (auto simp: handle_send_input_def with_remote_def pane_ids_inv_def ids_left_def
          split: option.splits if_splits)
  next
    case (PResizePane q rows cols)
    then show ?thesis
      using st inv by (auto simp: handle_resize_pane_def with_remote_def pane_ids_inv_def ids_left_def
          split: option.splits if_splits)
  next
    case (PClosePane q)
    then show ?thesis
      using st inv by (auto simp: handle_close_pane_def remote_manager_close_def manager_close_def
          pane_ids_inv_def ids_left_def split: option.splits if_splits)
  next
    case (PUnsubscribe i)
    then show ?thesis
      using st by (intro same) (auto simp: handle_unsubscribe_def Let_def split: option.splits)
  next
    case (PDockerAction req)
    then show ?thesis
      using st by (intro same) (auto simp: handle_docker_action_def split: scope_target.splits)
  qed (rule same, (use st in \<open>auto simp: handle_fleet_action_def handle_list_panes_def Let_def reply_def
      split: if_splits\<close>)[1])+
qed

text \<open>
  Local and remote panes never share an id, as long as fewer than \<open>2 ^ 32\<close> commands have been
  handled, so that looking an id up among the remote panes first never hides a local pane.
\<close>

theorem pane_ids_never_collide:
  assumes "session_loop w inputs s d = (s', d', ok)" "pane_ids_inv d" "ids_left d (length inputs)"
  shows "pane_ids_inv d' \<and> dom (pm_panes (da_pty d')) \<inter> dom (pm_panes (da_remote_pty d')) = {}"
proof -
  have "pane_ids_inv d' \<and> ids_left d' 0"
    using assms
  proof (induction inputs arbitrary: s d)
    case (Cons i is')
    obtain s1 d1 ok1 where st: "session_step w i s d = (s1, d1, ok1)"
      by (cases "session_step w i s d") auto
    have "pane_ids_inv d1 \<and> ids_left d1 (length is')"
    proof (cases i)
      case (SeMsg env)
      then show ?thesis
        using st command_pane_ids [OF Cons.prems(2)] Cons.prems(3) by (simp add: session_step_def)
    qed (use st Cons.prems(2,3) in \<open>auto simp: session_step_def send_status_def reply_def pane_ids_inv_def
        ids_left_def split: option.splits\<close>)
    moreover have "ids_left d1 (length is') \<Longrightarrow> ids_left d1 0"
      by (simp add: ids_left_def)
    ultimately show ?case
      using Cons.IH [of s1 d1] Cons.prems(1) st by (cases ok1) auto
  qed simp
  moreover from this have "i \<notin> dom (pm_panes (da_remote_pty d'))" if "i \<in> dom (pm_panes (da_pty d'))" for i
    using that unfolding pane_ids_inv_def ids_left_def domIff
    by (meson add_leD1 leD le_less_trans less_le_trans)
  ultimately show ?thesis by blast
qed

theorem pane_ids_never_collide_witness:
  "dom (pm_panes (da_pty (fst (snd (session_loop idle_world two_opens (session_new 1) fresh_daemon))))) \<inter>
   dom (pm_panes (da_remote_pty (fst (snd (session_loop idle_world two_opens (session_new 1) fresh_daemon))))) = {}"
proof -
  obtain s d ok where run: "session_loop idle_world two_opens (session_new 1) fresh_daemon = (s, d, ok)"
    by (cases "session_loop idle_world two_opens (session_new 1) fresh_daemon") auto
  have "unat (push_bit 32 1 :: u64) = 2 ^ 32" by (simp add: push_bit_eq_mult)
  then have "pane_ids_inv fresh_daemon" "ids_left fresh_daemon (length two_opens)"
    by (simp_all add: pane_ids_inv_def ids_left_def fresh_daemon_def manager_new_def remote_manager_new_def)
  from pane_ids_never_collide [OF run this] run show ?thesis by simp
qed

section \<open>A remote subscription taken twice\<close>

definition web_docker_daemon :: "unit daemon" where
  "web_docker_daemon = fresh_daemon\<lparr>da_hub := register_agent (\<lambda>_. True) (\<lambda>_. []) ''web'' [''docker''] hub_new\<rparr>"

text \<open>
  A client that subscribes to a remote scope again under an id it already uses keeps both routes,
  and the daemon forgets the first: after the Unsubscribe the agent still serves it, and what it sends
  still reaches the client under the id the client has given up.
\<close>

theorem resubscribed_route_outlives_unsubscribe:
  "let again = SeMsg (envelope_of (PSubscribe (SubDocker 7 (StRemote ''web''))));
       (s, d, ok) = session_loop idle_world [again, again, SeMsg (envelope_of (PUnsubscribe 7))]
         (session_new 1) web_docker_daemon
   in ok \<and> se_agent_subs s = Map.empty \<and>
      ac_routing (hb_conns (da_hub d) 0) 1 =
        Some \<lparr>rt_client = 1, rt_client_id = 7, rt_kind = RkSubscription, rt_scope = RsDocker\<rparr> \<and>
      received (ToAgent 0) (hb_out (da_hub d)) =
        [envelope_of (PSubscribe (SubDocker 1 StLocal)), envelope_of (PSubscribe (SubDocker 2 StLocal)),
         envelope_of (PUnsubscribe 2)] \<and>
      (\<forall>ev. snd (route_agent_envelope (\<lambda>_. True) (event_envelope 1 ev) (hb_conns (da_hub d) 0) []) =
         [(ToClient 1, event_envelope 7 ev)])"
  by (simp add: session_step_def envelope_of_def web_docker_daemon_def register_agent_def hub_new_def
      agent_connection_new_def fresh_daemon_def subscribe_remote_def route_remote_subscribe_def
      subscribe_on_def register_route_def alloc_id_def tx_send_def idle_world_def session_new_def
      handle_unsubscribe_def Let_def abort_def with_hub_def drop_agent_sub_def drop_route_def hub_send_def
      received_def route_agent_envelope_def event_envelope_def fun_eq_iff)

end
