(* ===== verification/ForwarderProps.thy ===== *)
theory ForwarderProps
  imports AgentProps Agent PropsDaemon
begin

text \<open>
  What the poll loops report, how a stream ends, which container a port is given to, and how the
  daemon and an agent fit together.
\<close>

section \<open>Reports\<close>

text \<open>
  What a subscriber is meant to see of a series of polls: every result, and an outage once, when it
  begins.
\<close>

fun reports :: "bool \<Rightarrow> (event + event) list \<Rightarrow> event list" where
  "reports down [] = []"
| "reports down (Inr ev # rs) = ev # reports False rs"
| "reports down (Inl ev # rs) = (if down then [] else [ev]) @ reports True rs"

fun docker_polls :: "string \<Rightarrow> docker_input list \<Rightarrow> (event + event) list" where
  "docker_polls source [] = []"
| "docker_polls source (DiConnect (Inl e) # is') = Inl (EvDockerUnavailable e) # docker_polls source is'"
| "docker_polls source (DiConnect (Inr source') # is') = docker_polls source' is'"
| "docker_polls source (DiList (Inl e) # is') = Inl (EvDockerUnavailable e) # docker_polls source is'"
| "docker_polls source (DiList (Inr cs) # is') = Inr (EvContainerList cs source) # docker_polls source is'"

fun forward_docker :: "docker_input list \<Rightarrow> docker_forwarder \<Rightarrow> (docker_forwarder \<times> event list) option" where
  "forward_docker [] f = Some (f, [])"
| "forward_docker (i # is') f =
     (case forward_docker_step True i f of
        None \<Rightarrow> None
      | Some (f1, evs, _) \<Rightarrow> map_option (\<lambda>(f2, evs2). (f2, evs @ evs2)) (forward_docker is' f1))"

lemma forward_docker_reports:
  "forward_docker is' f = Some (f', evs) \<Longrightarrow> df_engine f \<in> {None, Some source} \<Longrightarrow>
     evs = reports (po_last_was_unavailable (df_poll f) = Some True) (docker_polls source is')"
proof (induction is' arbitrary: f evs source)
  case (Cons i is')
  from Cons.prems(1) obtain f1 evs1 sl evs2 where st: "forward_docker_step True i f = Some (f1, evs1, sl)"
    and rest: "forward_docker is' f1 = Some (f', evs2)" and evs: "evs = evs1 @ evs2"
    by (auto split: option.splits)
  show ?case
  proof (cases i)
    case (DiConnect r)
    show ?thesis
    proof (cases r)
      case (Inl e)
      then have "df_engine f1 \<in> {None, Some source}"
        using st DiConnect by (auto simp: forward_docker_step_def report_unavailable_def split: if_splits option.splits)
      from Cons.IH [OF rest this] show ?thesis
        using st DiConnect Inl evs
        by (auto simp: forward_docker_step_def report_unavailable_def split: if_splits option.splits)
    next
      case (Inr source')
      then have "df_engine f1 \<in> {None, Some source'}"
        using st DiConnect by (auto simp: forward_docker_step_def split: if_splits option.splits)
      from Cons.IH [OF rest this] show ?thesis
        using st DiConnect Inr evs by (auto simp: forward_docker_step_def split: if_splits option.splits)
    qed
  next
    case (DiList r)
    then obtain src where src: "df_engine f = Some src"
      using st by (auto simp: forward_docker_step_def split: if_splits option.splits sum.splits)
    then have "src = source" using Cons.prems(2) by simp
    show ?thesis
    proof (cases r)
      case (Inl e)
      then have "df_engine f1 \<in> {None, Some source}"
        using st DiList src by (auto simp: forward_docker_step_def report_unavailable_def split: if_splits)
      from Cons.IH [OF rest this] show ?thesis
        using st DiList Inl evs src
        by (auto simp: forward_docker_step_def report_unavailable_def split: if_splits)
    next
      case (Inr cs)
      then have "df_engine f1 \<in> {None, Some source}"
        using st DiList src \<open>src = source\<close>
        by (auto simp: forward_docker_step_def report_rows_def split: if_splits)
      from Cons.IH [OF rest this] show ?thesis
        using st DiList Inr evs src \<open>src = source\<close>
        by (auto simp: forward_docker_step_def report_rows_def split: if_splits)
    qed
  qed
qed simp

text \<open>
  C30. The Docker poll loop reports every list and, of an outage, its beginning only: a failing
  connect or list is announced if and only if the report before it was not an outage, however often
  the loop reconnects in between, and a list is always labelled with the engine it came from.
\<close>

theorem docker_outage_reported_once:
  assumes "forward_docker inputs \<lparr>df_poll = poll_new, df_engine = None\<rparr> = Some (f, evs)"
  shows "evs = reports False (docker_polls source inputs)"
  using forward_docker_reports [OF assms, of source] by (simp add: poll_new_def)

theorem docker_outage_reported_once_witness:
  "\<exists>f. forward_docker [DiConnect (Inl ''down''), DiConnect (Inl ''down''), DiConnect (Inr ''sock''),
        DiList (Inl ''gone''), DiConnect (Inr ''sock''), DiList (Inr []), DiList (Inl ''gone'')]
      \<lparr>df_poll = poll_new, df_engine = None\<rparr> =
     Some (f, [EvDockerUnavailable ''down'', EvContainerList [] ''sock'', EvDockerUnavailable ''gone''])"
proof -
  let ?in = "[DiConnect (Inl ''down''), DiConnect (Inl ''down''), DiConnect (Inr ''sock''),
        DiList (Inl ''gone''), DiConnect (Inr ''sock''), DiList (Inr []), DiList (Inl ''gone'')]"
  obtain f evs where run: "forward_docker ?in \<lparr>df_poll = poll_new, df_engine = None\<rparr> = Some (f, evs)"
    by (simp add: forward_docker_step_def report_unavailable_def report_rows_def poll_new_def)
  from docker_outage_reported_once [OF this, of "''''"] run show ?thesis by simp
qed

section \<open>Streams\<close>

text \<open>The items before the first error.\<close>

fun ok_items :: "(string + 'a) list \<Rightarrow> 'a list" where
  "ok_items (Inr x # items) = x # ok_items items"
| "ok_items _ = []"

fun end_reason :: "(string + 'a) list \<Rightarrow> string" where
  "end_reason [] = ''stream ended''"
| "end_reason (Inl e # items) = e"
| "end_reason (Inr x # items) = end_reason items"

text \<open>
  A log or statistics stream always ends with exactly one DockerStreamEnded that carries the
  reason, also when the engine cannot be reached, behind every item the engine delivered before; the
  only exception is a client that is gone, which gets the items it still took.
\<close>

theorem stream_always_ended:
  "forward_docker_logs connect_error accepts items =
     take accepts
       (case connect_error of
          Some e \<Rightarrow> [EvDockerStreamEnded (''engine unavailable: '' @ e)]
        | None \<Rightarrow> map (\<lambda>(stream, bytes). EvContainerLog stream bytes) (ok_items items) @
                  [EvDockerStreamEnded (end_reason items)])"
proof -
  have "forward_items chunk n items = take n (map chunk (ok_items items) @ [EvDockerStreamEnded (end_reason items)])"
    for chunk :: "log_stream \<times> u8 list \<Rightarrow> event" and n
    by (induction chunk n items rule: forward_items.induct) auto
  then show ?thesis
    by (auto simp: forward_docker_logs_def forward_stream_def split: option.splits)
qed

section \<open>Ports and containers\<close>

text \<open>
  Matching ports with containers keeps every row in its place, never changes a container that is
  known, and gives any other row the first container, in the engine's order, that publishes its port,
  and none if there is no such container; port 0 is never matched.
\<close>

theorem ports_correlated:
  "length (correlate_ports_to_containers ports containers) = length ports \<and>
   (\<forall>i < length ports.
      (let p = ports ! i; q = correlate_ports_to_containers ports containers ! i
       in q = p\<lparr>pp_container_id := pp_container_id q\<rparr> \<and>
          (pp_container_id p \<noteq> None \<longrightarrow> q = p) \<and>
          (pp_container_id p = None \<longrightarrow>
             (pp_container_id q = None \<longleftrightarrow> (\<forall>c \<in> set containers. \<not> matches_port p c)) \<and>
             (pp_container_id q \<noteq> None \<longrightarrow> pp_local_port p \<noteq> 0 \<and>
                (\<exists>n < length containers. matches_port p (containers ! n) \<and>
                   pp_container_id q = Some (dc_id (containers ! n)) \<and>
                   (\<forall>m < n. \<not> matches_port p (containers ! m)))))))"
proof -
  define row where "row p = (if pp_container_id p \<noteq> None then p
      else case find (matches_port p) containers of
             Some c \<Rightarrow> p\<lparr>pp_container_id := Some (dc_id c)\<rparr> | None \<Rightarrow> p)" for p
  have all: "correlate_ports_to_containers ports containers = map row ports"
    by (simp add: correlate_ports_to_containers_def row_def)
  have known: "pp_container_id p \<noteq> None \<Longrightarrow> row p = p" for p
    by (simp add: row_def)
  have keep: "row p = p\<lparr>pp_container_id := pp_container_id (row p)\<rparr>" for p
    by (simp add: row_def split: option.splits)
  have none: "pp_container_id (row p) = None \<longleftrightarrow> (\<forall>c \<in> set containers. \<not> matches_port p c)"
    if "pp_container_id p = None" for p
    using that find_None_iff [of "matches_port p" containers] by (auto simp: row_def split: option.splits)
  have some: "pp_local_port p \<noteq> 0 \<and> (\<exists>n < length containers. matches_port p (containers ! n) \<and>
      pp_container_id (row p) = Some (dc_id (containers ! n)) \<and> (\<forall>m < n. \<not> matches_port p (containers ! m)))"
    if p: "pp_container_id p = None" "pp_container_id (row p) \<noteq> None" for p
  proof -
    obtain c where c: "find (matches_port p) containers = Some c"
      using p by (auto simp: row_def split: option.splits)
    then obtain n where "n < length containers" "matches_port p (containers ! n)" "c = containers ! n"
      "\<forall>m < n. \<not> matches_port p (containers ! m)"
      by (auto simp: find_Some_iff)
    moreover have "matches_port p c \<Longrightarrow> pp_local_port p \<noteq> 0"
      by (auto simp: matches_port_def)
    ultimately show ?thesis
      using p(1) c by (auto simp: row_def)
  qed
  have body: "row p = p\<lparr>pp_container_id := pp_container_id (row p)\<rparr> \<and>
      (pp_container_id p \<noteq> None \<longrightarrow> row p = p) \<and>
      (pp_container_id p = None \<longrightarrow>
         (pp_container_id (row p) = None \<longleftrightarrow> (\<forall>c \<in> set containers. \<not> matches_port p c)) \<and>
         (pp_container_id (row p) \<noteq> None \<longrightarrow> pp_local_port p \<noteq> 0 \<and>
            (\<exists>n < length containers. matches_port p (containers ! n) \<and>
               pp_container_id (row p) = Some (dc_id (containers ! n)) \<and>
               (\<forall>m < n. \<not> matches_port p (containers ! m)))))" for p
    by (intro conjI impI keep known none) (use some [of p] in \<open>simp_all only: simp_thms not_False_eq_True\<close>)
  show ?thesis
    unfolding all Let_def length_map
    by (rule conjI [OF refl], intro allI impI, simp only: nth_map, rule body)
qed

section \<open>The daemon and its agents\<close>

text \<open>What an agent can serve, and serves for its own host.\<close>

definition agent_request :: "payload \<Rightarrow> bool" where
  "agent_request p =
     (case p of
        PSubscribe (SubDocker _ target) \<Rightarrow> target = StLocal
      | PSubscribe (SubDockerLogs _ _ _ _ target) \<Rightarrow> target = StLocal
      | PSubscribe (SubDockerStats _ _ target) \<Rightarrow> target = StLocal
      | PSubscribe (SubPorts _ target) \<Rightarrow> target = StLocal
      | PSubscribe (SubProcesses _ target) \<Rightarrow> target = StLocal
      | PUnsubscribe _ \<Rightarrow> True
      | PDockerAction req \<Rightarrow> dar_target req = StLocal
      | _ \<Rightarrow> False)"

definition agents_asked_well :: "outbox \<Rightarrow> bool" where
  "agents_asked_well out \<longleftrightarrow>
     (\<forall>a env. (ToAgent a, env) \<in> set out \<longrightarrow> en_version env = PROTOCOL_VERSION \<and> agent_request (en_payload env))"

lemma asked_send:
  "agents_asked_well (hb_out h) \<Longrightarrow>
   (\<forall>a. d = ToAgent a \<longrightarrow> en_version env = PROTOCOL_VERSION \<and> agent_request (en_payload env)) \<Longrightarrow>
   agents_asked_well (hb_out (hub_send alive d env h))"
  by (auto simp: agents_asked_well_def hub_send_def tx_send_def)

lemma asked_append:
  "agents_asked_well out \<Longrightarrow> agent_request p \<Longrightarrow> agents_asked_well (out @ [(ToAgent a, envelope_of p)])"
  by (auto simp: agents_asked_well_def envelope_of_def)

lemma asked_routes [simp]:
  "hb_out (drop_route a d h) = hb_out h"
  "register_route a r h = (i, h') \<Longrightarrow> hb_out h' = hb_out h"
  by (auto simp: drop_route_def register_route_def alloc_id_def)

lemma asked_subscribe:
  assumes "agents_asked_well (hb_out h)" "\<And>d. agent_request (PSubscribe (builder d))"
  shows "agents_asked_well (hb_out (snd (route_remote_subscribe alive cl i al scope req builder subs h)))"
  using assms
  by (auto simp: route_remote_subscribe_def subscribe_on_def tx_send_def
      split: option.splits prod.splits intro!: asked_send asked_append)

lemma asked_action:
  assumes "agents_asked_well (hb_out h)"
  shows "agents_asked_well (hb_out (route_remote_docker_action alive cl al req h))"
  using assms
  by (auto simp: route_remote_docker_action_def tx_send_def agent_request_def
      split: option.splits prod.splits intro!: asked_send asked_append)

lemma asked_drop:
  "agents_asked_well (hb_out h) \<Longrightarrow> agents_asked_well (hb_out (drop_agent_sub alive handle h))"
  by (auto simp: drop_agent_sub_def agent_request_def envelope_of_def split: option.splits intro!: asked_send)

lemma asked_reply:
  "reply w s p d = (s', d', ok) \<Longrightarrow> agents_asked_well (hb_out (da_hub d)) \<Longrightarrow> agents_asked_well (hb_out (da_hub d'))"
  by (auto simp: reply_def intro!: asked_send)

lemma asked_handle_subscribe:
  assumes "handle_subscribe w sub s d = (s', d', ok)" "agents_asked_well (hb_out (da_hub d))"
  shows "agents_asked_well (hb_out (da_hub d'))"
proof -
  have remote: "subscribe_remote w i al scope req builder s d = (s', d', ok) \<Longrightarrow>
      (\<And>j. agent_request (PSubscribe (builder j))) \<Longrightarrow> agents_asked_well (hb_out (da_hub d'))"
    for i al scope req builder
    using asked_subscribe [OF assms(2), of builder] by (auto simp: subscribe_remote_def split: prod.splits) (metis snd_conv)
  show ?thesis
    using assms
    by (cases "(w, sub, s, d)" rule: handle_subscribe.cases)
      (auto simp: send_status_def start_docker_def agent_request_def split: prod.splits
        dest!: spawn_hub dest: remote elim!: asked_reply)
qed



section \<open>A remote action and back\<close>

text \<open>
  A Docker action for a remote host, carried out: the agent runs it under the daemon's id on its
  own engine, and its result reaches the client as the local engine's would, under the client's
  request id, with one difference: the target says Local, whatever host the client had named.
\<close>

theorem remote_action_round_trip:
  assumes "hb_pool h alias = Some a" "''docker'' \<in> set (ac_capabilities (hb_conns h a))"
    and "alive (ToAgent a)" "alive (ToClient cl)"
  shows "\<exists>d. hb_out (route_remote_docker_action alive cl alias req h) =
      hb_out h @ [(ToAgent a, envelope_of (PDockerAction (req\<lparr>dar_request_id := d, dar_target := StLocal\<rparr>)))] \<and>
    snd (route_agent_envelope alive
       (envelope_of (PDockerActionResult (run_docker_action connect_error action_error
          (req\<lparr>dar_request_id := d, dar_target := StLocal\<rparr>))))
       (hb_conns (route_remote_docker_action alive cl alias req h) a)
       (hb_out (route_remote_docker_action alive cl alias req h))) =
      hb_out (route_remote_docker_action alive cl alias req h) @
        [(ToClient cl, envelope_of (PDockerActionResult
           ((run_docker_action connect_error action_error req)\<lparr>dres_target := StLocal\<rparr>)))]"
proof -
  define h' where "h' = route_remote_docker_action alive cl alias req h"
  define r where "r = \<lparr>rt_client = cl, rt_client_id = dar_request_id req, rt_kind = RkOneShot,
    rt_scope = RsDockerAction (dar_container_id req) (dar_kind req)\<rparr>"
  obtain d h1 where reg: "register_route a r h = (d, h1)" by fastforce
  then have h1: "hb_out h1 = hb_out h" "ac_routing (hb_conns h1 a) d = Some r"
    by (auto simp: register_route_def alloc_id_def)
  define res where "res = run_docker_action connect_error action_error (req\<lparr>dar_request_id := d, dar_target := StLocal\<rparr>)"
  have out: "hb_out h' = hb_out h @
      [(ToAgent a, envelope_of (PDockerAction (req\<lparr>dar_request_id := d, dar_target := StLocal\<rparr>)))]"
    and entry: "ac_routing (hb_conns h' a) d = Some r"
    using assms h1 reg [unfolded r_def]
    by (simp_all add: h'_def route_remote_docker_action_def tx_send_def)
  have answer: "dres_request_id res = d" "res\<lparr>dres_request_id := rt_client_id r\<rparr> =
      (run_docker_action connect_error action_error req)\<lparr>dres_target := StLocal\<rparr>"
    by (simp_all add: res_def run_docker_action_def r_def)
  have "snd (route_agent_envelope alive (envelope_of (PDockerActionResult res)) (hb_conns h' a) (hb_out h')) =
      hb_out h' @ [(ToClient cl, envelope_of (PDockerActionResult (res\<lparr>dres_request_id := rt_client_id r\<rparr>)))]"
    using assms(4) entry answer(1) by (simp add: route_agent_envelope_def envelope_of_def tx_send_def r_def)
  from out this [unfolded answer(2)] show ?thesis
    unfolding h'_def res_def by (intro exI [of _ d] conjI)
qed

theorem remote_action_round_trip_witness:
  "\<exists>d. hb_out (route_remote_docker_action (\<lambda>_. True) 1 ''web'' demo_action demo_hub) =
     [(ToAgent 0, envelope_of (PDockerAction (demo_action\<lparr>dar_request_id := d, dar_target := StLocal\<rparr>)))]"
proof -
  have "hb_pool demo_hub ''web'' = Some 0" "''docker'' \<in> set (ac_capabilities (hb_conns demo_hub 0))"
    "hb_out demo_hub = []"
    by (simp_all add: demo_hub_def demo_routes_def agent_connection_new_def)
  with remote_action_round_trip [OF this(1,2), of "\<lambda>_. True" 1 demo_action None None] show ?thesis
    by auto
qed

section \<open>Containers of processes\<close>

lemma after_last_None: "pat \<noteq> [] \<Longrightarrow> after_last pat s = None \<longleftrightarrow> \<not> contains s pat"
  by (induction s) (auto split: option.splits)

lemma after_last_append: "after_last pat s = Some t \<Longrightarrow> after_last pat (pre @ s) = Some t"
  by (induction pre) simp_all

text \<open>
  A cgroup path that ends in a docker scope gives the container's id: behind the last
  \<open>docker\<close> and its separators, the whole run of hexadecimal digits, in the short or the full form,
  whatever comes before and behind.
\<close>

theorem cgroup_path_gives_container:
  assumes "\<forall>c \<in> set sep. c = CHR ''-'' \<or> c = CHR ''/''" "\<forall>c \<in> set cid. is_ascii_hexdigit c"
    and "12 \<le> length cid" "rest = [] \<or> \<not> is_ascii_hexdigit (hd rest)"
    and "\<not> contains (sep @ cid @ rest) ''docker''"
  shows "container_id_from_cgroup_path (pre @ ''docker'' @ sep @ cid @ rest) = Some cid"
proof -
  have "after_last ''docker'' (''docker'' @ sep @ cid @ rest) = Some (sep @ cid @ rest)"
    using assms(5) after_last_None [of "''docker''" "sep @ cid @ rest"] by (simp add: starts_with_def)
  from after_last_append [OF this] have tail: "after_last ''docker'' (pre @ ''docker'' @ sep @ cid @ rest) =
      Some (sep @ cid @ rest)" .
  obtain c cs where cid: "cid = c # cs"
    using assms(3) by (cases cid) auto
  then have "c \<noteq> CHR ''-''" "c \<noteq> CHR ''/''"
    using assms(2) by (auto simp: is_ascii_hexdigit_def Let_def)
  then have "dropWhile (\<lambda>c. c = CHR ''-'' \<or> c = CHR ''/'') (sep @ cid @ rest) = cid @ rest"
    using assms(1) by (simp add: cid dropWhile_append2)
  moreover have "takeWhile is_ascii_hexdigit (cid @ rest) = cid"
    using assms(2,4) by (cases rest) (auto simp: takeWhile_append2)
  ultimately show ?thesis
    using tail assms(3) by (simp add: container_id_from_cgroup_path_def)
qed

theorem cgroup_path_gives_container_witness:
  "container_id_from_cgroup_path ''/docker-unrelated/containerd/docker-1234567890ab.scope'' =
     Some ''1234567890ab''"
proof -
  have "\<forall>c \<in> set ''1234567890ab''. is_ascii_hexdigit c" "\<not> is_ascii_hexdigit (hd ''.scope'')"
    by (simp_all add: is_ascii_hexdigit_def)
  moreover have "\<not> contains (''-'' @ ''1234567890ab'' @ ''.scope'') ''docker''"
    by (simp add: starts_with_def)
  ultimately show ?thesis
    using cgroup_path_gives_container [of "''-''" "''1234567890ab''" "''.scope''" "''/docker-unrelated/containerd/''"]
    by simp
qed

end
