(* ===== verification/AgentForwarders.thy ===== *)
theory AgentForwarders
  imports Forwarders
begin

text \<open>
  The forwarders of the agent (\<open>crates/tepegoz-agent/src/lib.rs\<close>, lines 326 to 766). They are written
  out a second time there, so that the daemon can pass a remote subscription on ``without the client
  noticing a behavioural difference''. They are translated here from the agent's file and shown to
  be the daemon's, up to the text of a panic.
\<close>

section \<open>The poll loops\<close>

definition agent_report_unavailable :: "bool \<Rightarrow> event \<Rightarrow> poll \<Rightarrow> poll \<times> event list" where
  "agent_report_unavailable alive ev p =
     (let first = (po_last_was_unavailable p \<noteq> Some True)
      in if first \<and> \<not> alive then (p\<lparr>po_returned := True\<rparr>, [])
         else (p\<lparr>po_last_was_unavailable := Some True\<rparr>, if first then [ev] else []))"

definition agent_forward_docker_step ::
  "bool \<Rightarrow> docker_input \<Rightarrow> docker_forwarder \<Rightarrow> (docker_forwarder \<times> event list \<times> duration list) option" where
  "agent_forward_docker_step alive i f =
     (if po_returned (df_poll f) then None
      else case df_engine f of
        None \<Rightarrow>
          (case i of
             DiConnect (Inr source) \<Rightarrow> Some (f\<lparr>df_engine := Some source\<rparr>, [], [])
           | DiConnect (Inl e) \<Rightarrow>
               (case agent_report_unavailable alive (EvDockerUnavailable e) (df_poll f) of
                  (p, evs) \<Rightarrow> Some (f\<lparr>df_poll := p\<rparr>, evs, [DOCKER_RECONNECT_INTERVAL]))
           | _ \<Rightarrow> None)
      | Some source \<Rightarrow>
          (case i of
             DiList (Inr containers) \<Rightarrow>
               (if alive
                then Some (f\<lparr>df_poll := (df_poll f)\<lparr>po_last_was_unavailable := Some False\<rparr>\<rparr>,
                           [EvContainerList containers source], [DOCKER_REFRESH_INTERVAL])
                else Some (f\<lparr>df_poll := (df_poll f)\<lparr>po_returned := True\<rparr>\<rparr>, [], [DOCKER_REFRESH_INTERVAL]))
           | DiList (Inl e) \<Rightarrow>
               (case agent_report_unavailable alive (EvDockerUnavailable e) (df_poll f) of
                  (p, evs) \<Rightarrow>
                    Some (f\<lparr>df_poll := p, df_engine := None\<rparr>, evs, [DOCKER_RECONNECT_INTERVAL]))
           | _ \<Rightarrow> None))"


text \<open>The loops over ports and containers: the first container that has the port, and no further.\<close>

fun agent_find_container :: "probe_port \<Rightarrow> docker_container list \<Rightarrow> string option" where
  "agent_find_container p [] = None"
| "agent_find_container p (c # cs) =
     (if list_ex (\<lambda>cp. dp_public_port cp = pp_local_port p \<and> dp_public_port cp \<noteq> 0) (dc_ports c)
      then Some (dc_id c) else agent_find_container p cs)"

fun agent_correlate_ports :: "probe_port list \<Rightarrow> docker_container list \<Rightarrow> probe_port list" where
  "agent_correlate_ports [] cs = []"
| "agent_correlate_ports (p # ps) cs =
     (case pp_container_id p of
        Some _ \<Rightarrow> p
      | None \<Rightarrow> (case agent_find_container p cs of
                  Some i \<Rightarrow> p\<lparr>pp_container_id := Some i\<rparr> | None \<Rightarrow> p)) # agent_correlate_ports ps cs"

definition agent_macos_block :: "engine_results \<Rightarrow> bool \<Rightarrow> probe_port list \<Rightarrow> probe_port list \<times> bool" where
  "agent_macos_block er docker_engine ports =
     (if list_ex (\<lambda>p. pp_container_id p = None \<and> pp_pid p \<noteq> 0) ports then
        (let engine = (docker_engine \<or> er_connect er)
         in if engine then
              (case er_list er of
                 Some containers \<Rightarrow> (agent_correlate_ports ports containers, True)
               | None \<Rightarrow> (ports, False))
            else (ports, False))
      else (ports, docker_engine))"

definition agent_forward_ports_step ::
  "bool \<Rightarrow> string \<Rightarrow> bool \<Rightarrow> engine_results \<Rightarrow> probe_port list probe_result \<Rightarrow> ports_forwarder \<Rightarrow>
     (ports_forwarder \<times> event list \<times> duration list) option" where
  "agent_forward_ports_step macos source_label alive er probe_result f =
     (let unavailable = (\<lambda>msg. case agent_report_unavailable alive (EvPortsUnavailable msg) (pf_poll f) of
            (p, evs) \<Rightarrow> Some (f\<lparr>pf_poll := p\<rparr>, evs, [PORTS_RECONNECT_INTERVAL]))
      in if po_returned (pf_poll f) then None
         else case probe_result of
           PrFailed e \<Rightarrow> unavailable e
         | PrPanicked e \<Rightarrow> unavailable (''agent ports probe task panicked: '' @ e)
         | PrRows rows \<Rightarrow>
             (let (ports, engine) =
                    (if macos then agent_macos_block er (pf_docker_engine f) rows
                     else (rows, pf_docker_engine f))
              in if alive
                 then Some (\<lparr>pf_poll = (pf_poll f)\<lparr>po_last_was_unavailable := Some False\<rparr>,
                             pf_docker_engine = engine\<rparr>,
                            [EvPortList ports source_label], [PORTS_REFRESH_INTERVAL])
                 else Some (\<lparr>pf_poll = (pf_poll f)\<lparr>po_returned := True\<rparr>, pf_docker_engine = engine\<rparr>,
                            [], [PORTS_REFRESH_INTERVAL])))"

text \<open>
  The sample comes back with its probe, or, after a panic, with a new probe and an error.
\<close>

definition agent_sample ::
  "sys_process list probe_result \<Rightarrow> processes_probe \<Rightarrow> processes_probe \<times> (string + probe_process list)" where
  "agent_sample r probe =
     (case r of
        PrRows procs \<Rightarrow> (case sample procs probe of (rows, p) \<Rightarrow> (p, Inr rows))
      | PrFailed e \<Rightarrow> (probe, Inl e)
      | PrPanicked e \<Rightarrow> (processes_probe_new, Inl (''agent processes probe task panicked: '' @ e)))"

definition agent_forward_processes_step ::
  "bool \<Rightarrow> sys_process list probe_result \<Rightarrow> processes_forwarder \<Rightarrow>
     (processes_forwarder \<times> event list \<times> duration list) option" where
  "agent_forward_processes_step alive r f =
     (if po_returned (xf_poll f) then None
      else case agent_sample r (xf_probe f) of
        (probe, Inl e) \<Rightarrow>
          (case agent_report_unavailable alive (EvProcessesUnavailable (processes_error_text e)) (xf_poll f) of
             (p, evs) \<Rightarrow> Some (\<lparr>xf_poll = p, xf_probe = probe\<rparr>, evs, [PROCESSES_RECONNECT_INTERVAL]))
      | (probe, Inr rows) \<Rightarrow>
          (if alive
           then Some (\<lparr>xf_poll = (xf_poll f)\<lparr>po_last_was_unavailable := Some False\<rparr>, xf_probe = probe\<rparr>,
                      [EvProcessList rows ''sysinfo''], [PROCESSES_REFRESH_INTERVAL])
           else Some (\<lparr>xf_poll = (xf_poll f)\<lparr>po_returned := True\<rparr>, xf_probe = probe\<rparr>, [],
                      [PROCESSES_REFRESH_INTERVAL])))"

section \<open>Streams and actions\<close>

text \<open>The \<open>while let\<close> loop with its variable \<open>end_reason\<close>; \<open>sends\<close> counts the sends the writer still takes.\<close>

fun agent_stream_loop :: "('a \<Rightarrow> event) \<Rightarrow> nat \<Rightarrow> string \<Rightarrow> (string + 'a) list \<Rightarrow> event list" where
  "agent_stream_loop chunk sends end_reason [] =
     (if sends = 0 then [] else [EvDockerStreamEnded end_reason])"
| "agent_stream_loop chunk sends end_reason (Inr x # items) =
     (case sends of 0 \<Rightarrow> [] | Suc n \<Rightarrow> chunk x # agent_stream_loop chunk n end_reason items)"
| "agent_stream_loop chunk sends end_reason (Inl e # items) =
     (if sends = 0 then [] else [EvDockerStreamEnded e])"

definition agent_forward_docker_logs ::
  "string option \<Rightarrow> nat \<Rightarrow> (string + log_stream \<times> u8 list) list \<Rightarrow> event list" where
  "agent_forward_docker_logs connect_error sends items =
     (case connect_error of
        Some e \<Rightarrow> if sends = 0 then [] else [EvDockerStreamEnded (''engine unavailable: '' @ e)]
      | None \<Rightarrow> agent_stream_loop (\<lambda>(kind, bytes). EvContainerLog kind bytes) sends ''stream ended'' items)"

definition agent_forward_docker_stats ::
  "string option \<Rightarrow> nat \<Rightarrow> (string + docker_stats) list \<Rightarrow> event list" where
  "agent_forward_docker_stats connect_error sends items =
     (case connect_error of
        Some e \<Rightarrow> if sends = 0 then [] else [EvDockerStreamEnded (''engine unavailable: '' @ e)]
      | None \<Rightarrow> agent_stream_loop EvContainerStats sends ''stream ended'' items)"

definition agent_run_docker_action ::
  "string option \<Rightarrow> string option \<Rightarrow> docker_action_request \<Rightarrow> docker_action_result" where
  "agent_run_docker_action connect_error action_error req =
     (let outcome = (case connect_error of
            None \<Rightarrow> (case action_error of None \<Rightarrow> DaSuccess | Some e \<Rightarrow> DaFailure e)
          | Some e \<Rightarrow> DaFailure (''docker engine unavailable: '' @ e))
      in \<lparr>dres_request_id = dar_request_id req, dres_container_id = dar_container_id req,
          dres_kind = dar_kind req, dres_outcome = outcome, dres_target = dar_target req\<rparr>)"

section \<open>The same as the daemon's\<close>

lemma agent_report_unavailable_eq: "agent_report_unavailable = report_unavailable"
  by (intro ext) (simp add: agent_report_unavailable_def report_unavailable_def Let_def)

lemma agent_forward_docker_step_eq: "agent_forward_docker_step alive i f = forward_docker_step alive i f"
  by (auto simp: agent_forward_docker_step_def forward_docker_step_def agent_report_unavailable_eq
      report_rows_def split: docker_input.splits sum.splits option.splits prod.splits)

lemma agent_find_container_eq:
  "agent_find_container p cs = map_option dc_id (find (matches_port p) cs)"
  by (induction cs) (auto simp: matches_port_def list_ex_iff)

lemma agent_correlate_eq: "agent_correlate_ports ps cs = correlate_ports_to_containers ps cs"
  by (induction ps)
     (auto simp: correlate_ports_to_containers_def agent_find_container_eq split: option.splits)

lemma agent_macos_block_eq: "agent_macos_block er e ps = macos_correlation er e ps"
  by (auto simp: agent_macos_block_def macos_correlation_def needs_correlation_def list_ex_iff
      agent_correlate_eq Let_def split: option.splits)

lemma agent_stream_loop_0 [simp]: "agent_stream_loop chunk 0 end_reason items = []"
  by (cases "(chunk, 0 :: nat, end_reason, items)" rule: agent_stream_loop.cases) auto

lemma agent_stream_loop_eq: "agent_stream_loop chunk n ''stream ended'' items = forward_items chunk n items"
  by (induction chunk n items rule: forward_items.induct) (auto split: nat.splits)

text \<open>The agent names itself in the text of a panic.\<close>

definition agent_panic_text :: "'a probe_result \<Rightarrow> event \<Rightarrow> event" where
  "agent_panic_text r ev =
     (case r of
        PrPanicked e \<Rightarrow>
          (case ev of
             EvPortsUnavailable reason \<Rightarrow> EvPortsUnavailable (''agent '' @ reason)
           | EvProcessesUnavailable reason \<Rightarrow>
               EvProcessesUnavailable (processes_error_text
                 (''agent '' @ drop (length (processes_error_text [])) reason))
           | _ \<Rightarrow> ev)
      | _ \<Rightarrow> ev)"

text \<open>
  C26. The agent's forwarders are the daemon's: from the same state, on the same answer, they emit the
  same events, sleep as long and go on in the same state, for containers, ports, processes, logs,
  statistics and actions. The one difference is the text of a panic of a probe, where the agent names
  itself.
\<close>

theorem agent_forwarders_mirror_daemon:
  "agent_forward_docker_step alive i fd = forward_docker_step alive i fd \<and>
   agent_forward_ports_step macos label alive er r fp =
     map_option (\<lambda>(f', evs, ds). (f', map (agent_panic_text r) evs, ds))
       (forward_ports_step macos label alive er r fp) \<and>
   agent_forward_processes_step alive q fx =
     map_option (\<lambda>(f', evs, ds). (f', map (agent_panic_text q) evs, ds))
       (forward_processes_step alive q fx) \<and>
   agent_forward_docker_logs connect_error sends logs = forward_docker_logs connect_error sends logs \<and>
   agent_forward_docker_stats connect_error sends stats = forward_docker_stats connect_error sends stats \<and>
   agent_run_docker_action connect_error action_error req = run_docker_action connect_error action_error req"
proof (intro conjI)
  show "agent_forward_docker_step alive i fd = forward_docker_step alive i fd"
    by (rule agent_forward_docker_step_eq)
  show "agent_forward_ports_step macos label alive er r fp =
     map_option (\<lambda>(f', evs, ds). (f', map (agent_panic_text r) evs, ds))
       (forward_ports_step macos label alive er r fp)"
    by (cases r) (auto simp: agent_forward_ports_step_def forward_ports_step_def agent_macos_block_eq
        agent_report_unavailable_eq report_unavailable_def report_rows_def agent_panic_text_def Let_def
        split: prod.splits)
  show "agent_forward_processes_step alive q fx =
     map_option (\<lambda>(f', evs, ds). (f', map (agent_panic_text q) evs, ds))
       (forward_processes_step alive q fx)"
    by (cases q) (auto simp: agent_forward_processes_step_def forward_processes_step_def agent_sample_def
        agent_report_unavailable_eq report_unavailable_def report_rows_def agent_panic_text_def
        processes_error_text_def Let_def split: prod.splits)
qed (auto simp: agent_forward_docker_logs_def forward_docker_logs_def agent_forward_docker_stats_def
    forward_docker_stats_def forward_stream_def agent_stream_loop_eq agent_run_docker_action_def
    run_docker_action_def split: option.splits)

end
