(* ===== verification/RustText.thy ===== *)
theory RustText
  imports RustStd
begin

text \<open>
  White space, lines, paths and escapes of Rust's standard library, on the UTF-8 bytes of a string:
  what the parsers of configuration files, of the agent deployment and of the Docker client use.
\<close>

section \<open>White space\<close>

text \<open>
  \<open>char::is_whitespace\<close> (the Unicode property White_Space): the length of the white-space character at
  the front, 0 if there is none.
\<close>

fun ws_len :: "string \<Rightarrow> nat" where
  "ws_len (a # s) =
     (let n = (of_char a :: nat)
      in if 9 \<le> n \<and> n \<le> 13 \<or> n = 32 then 1
         else (case s of
             b # t \<Rightarrow>
               (if a = CHR 0xC2 \<and> (b = CHR 0x85 \<or> b = CHR 0xA0) then 2
                else (case t of
                    c # _ \<Rightarrow>
                      (let k = (of_char c :: nat)
                       in if a = CHR 0xE1 \<and> b = CHR 0x9A \<and> c = CHR 0x80 then 3
                          else if a = CHR 0xE2 \<and> b = CHR 0x80 \<and>
                            (128 \<le> k \<and> k \<le> 138 \<or> k = 168 \<or> k = 169 \<or> k = 175) then 3
                          else if a = CHR 0xE2 \<and> b = CHR 0x81 \<and> c = CHR 0x9F then 3
                          else if a = CHR 0xE3 \<and> b = CHR 0x80 \<and> c = CHR 0x80 then 3
                          else 0)
                  | [] \<Rightarrow> 0))
           | [] \<Rightarrow> 0))"
| "ws_len [] = 0"

declare ws_len.simps(1) [simp del]

lemma ws_len_le: "ws_len s \<le> length s"
  by (cases s) (auto simp: ws_len.simps Let_def split: list.splits)

function trim_start :: "string \<Rightarrow> string" where
  "trim_start s = (if ws_len s = 0 then s else trim_start (drop (ws_len s) s))"
  by pat_completeness auto
termination
proof (relation "measure length")
  fix s :: string
  assume "ws_len s \<noteq> 0"
  moreover from this have "s \<noteq> []" by auto
  ultimately show "(drop (ws_len s) s, s) \<in> measure length" by simp
qed simp

declare trim_start.simps [simp del]

text \<open>
  \<open>trim_end\<close> cuts in front of the longest end that is white space throughout: a byte inside a
  character never starts one.
\<close>

fun trim_end :: "string \<Rightarrow> string" where
  "trim_end [] = []"
| "trim_end (c # s) = (if trim_start (c # s) = [] then [] else c # trim_end s)"

definition trim :: "string \<Rightarrow> string" where
  "trim s = trim_end (trim_start s)"

lemma trim_start_Nil [simp]: "trim_start [] = []"
  by (simp add: trim_start.simps)

lemma trim_start_id: "ws_len s = 0 \<Longrightarrow> trim_start s = s"
  by (simp add: trim_start.simps)

lemma length_trim_start: "length (trim_start s) \<le> length s"
proof (induction s rule: trim_start.induct)
  case (1 s)
  then show ?case
    by (cases "ws_len s = 0") (auto simp: trim_start.simps [of s])
qed

lemma ws_len_trim_start [simp]: "ws_len (trim_start s) = 0"
proof (induction s rule: trim_start.induct)
  case (1 s)
  then show ?case
    by (cases "ws_len s = 0") (auto simp: trim_start.simps [of s])
qed

lemma trim_start_idem [simp]: "trim_start (trim_start s) = trim_start s"
  by (simp add: trim_start_id)

text \<open>\<open>split_whitespace\<close>: the word at the front of a string that starts with none, and the rest.\<close>

fun word :: "string \<Rightarrow> string \<times> string" where
  "word [] = ([], [])"
| "word (c # s) =
     (if ws_len (c # s) \<noteq> 0 then ([], c # s) else (case word s of (w, r) \<Rightarrow> (c # w, r)))"

lemma word_append: "word s = (w, r) \<Longrightarrow> s = w @ r"
  by (induction s arbitrary: w) (auto split: if_splits prod.splits)

lemma word_rest: "word s = (w, r) \<Longrightarrow> r \<noteq> [] \<Longrightarrow> ws_len r \<noteq> 0"
  by (induction s arbitrary: w) (auto split: if_splits prod.splits)

lemma word_empty: "ws_len s = 0 \<Longrightarrow> s \<noteq> [] \<Longrightarrow> fst (word s) \<noteq> []"
  by (cases s) (auto split: prod.splits)

lemma word_shorter: "trim_start s = c # t \<Longrightarrow> length (snd (word (c # t))) < length s"
proof -
  assume s: "trim_start s = c # t"
  then have "ws_len (c # t) = 0" by (metis ws_len_trim_start)
  obtain w r where w: "word (c # t) = (w, r)" by fastforce
  with \<open>ws_len (c # t) = 0\<close> have "w \<noteq> []" using word_empty [of "c # t"] by simp
  moreover have "length (c # t) = length w + length r" using word_append [OF w] by (metis length_append)
  moreover have "snd (word (c # t)) = r" by (subst w) simp
  moreover have "length (c # t) \<le> length s" using length_trim_start [of s] s by simp
  ultimately show ?thesis by (cases w) auto
qed

function split_whitespace :: "string \<Rightarrow> string list" where
  "split_whitespace s =
     (case trim_start s of [] \<Rightarrow> [] | c # t \<Rightarrow> (case word (c # t) of (w, r) \<Rightarrow> w # split_whitespace r))"
  by pat_completeness auto
termination
proof (relation "measure length")
  fix s :: string and c t w r
  assume "trim_start s = c # t" "(w, r) = word (c # t)"
  then have "r = snd (word (c # t))" by (metis snd_conv)
  with word_shorter [OF \<open>trim_start s = c # t\<close>] show "(r, s) \<in> measure length" by simp
qed simp

declare split_whitespace.simps [simp del]

text \<open>Every word is non-empty and has no white space in it.\<close>

lemma split_whitespace_ne: "w \<in> set (split_whitespace s) \<Longrightarrow> w \<noteq> []"
proof (induction s rule: split_whitespace.induct)
  case (1 s)
  show ?case
  proof (cases "trim_start s")
    case Nil
    with "1.prems" show ?thesis by (simp add: split_whitespace.simps [of s])
  next
    case (Cons c t)
    obtain v r where v: "word (c # t) = (v, r)" by fastforce
    have "ws_len (c # t) = 0" using Cons by (metis ws_len_trim_start)
    with v have "v \<noteq> []" using word_empty [of "c # t"] by simp
    have "split_whitespace s = v # split_whitespace r"
      by (subst split_whitespace.simps) (simp add: Cons v del: word.simps)
    with "1.prems" \<open>v \<noteq> []\<close> "1.IH" [OF Cons v [symmetric]] show ?thesis by auto
  qed
qed

section \<open>Lines\<close>

text \<open>\<open>str::lines\<close>: a line ends at \<open>\n\<close> or \<open>\r\n\<close>; what follows the last \<open>\n\<close> is a line if it is not empty.\<close>

definition strip_cr :: "string \<Rightarrow> string" where
  "strip_cr l = (if l \<noteq> [] \<and> last l = CHR 0x0D then butlast l else l)"

fun str_lines_from :: "string \<Rightarrow> string \<Rightarrow> string list" where
  "str_lines_from acc [] = (if acc = [] then [] else [acc])"
| "str_lines_from acc (c # s) =
     (if c = CHR 0x0A then strip_cr acc # str_lines_from [] s else str_lines_from (acc @ [c]) s)"

definition str_lines :: "string \<Rightarrow> string list" where
  "str_lines s = str_lines_from [] s"

lemma str_lines_from_line:
  "CHR 0x0A \<notin> set l \<Longrightarrow> str_lines_from acc (l @ CHR 0x0A # s) = strip_cr (acc @ l) # str_lines_from [] s"
  by (induction l arbitrary: acc) auto

text \<open>Writing lines out, each with its \<open>\n\<close>, and reading them again.\<close>

lemma str_lines_unlines:
  assumes "\<forall>l \<in> set ls. CHR 0x0A \<notin> set l \<and> strip_cr l = l"
  shows "str_lines (concat (map (\<lambda>l. l @ [CHR 0x0A]) ls)) = ls"
  using assms by (induction ls) (auto simp: str_lines_def str_lines_from_line)

lemma str_lines_from_free:
  "CHR 0x0A \<notin> set acc \<Longrightarrow> l \<in> set (str_lines_from acc s) \<Longrightarrow> CHR 0x0A \<notin> set l"
  by (induction acc s rule: str_lines_from.induct)
     (auto simp: strip_cr_def split: if_splits dest: in_set_butlastD)

lemma str_lines_free: "l \<in> set (str_lines s) \<Longrightarrow> CHR 0x0A \<notin> set l"
  using str_lines_from_free [of "[]"] by (auto simp: str_lines_def)

section \<open>Comparisons, paths, escapes\<close>

definition eq_ignore_ascii_case :: "string \<Rightarrow> string \<Rightarrow> bool" where
  "eq_ignore_ascii_case a b \<longleftrightarrow> map ascii_lower a = map ascii_lower b"

text \<open>\<open>u8::is_ascii_whitespace\<close> (no vertical tab), \<open>char::is_ascii_hexdigit\<close>.\<close>

definition is_ascii_whitespace :: "char \<Rightarrow> bool" where
  "is_ascii_whitespace c \<longleftrightarrow> (let n = (of_char c :: nat) in n = 9 \<or> n = 10 \<or> n = 12 \<or> n = 13 \<or> n = 32)"

text \<open>\<open>PathBuf::join\<close> on Unix: an absolute path replaces the base.\<close>

definition path_join :: "string \<Rightarrow> string \<Rightarrow> string" where
  "path_join base p =
     (if starts_with p ''/'' \<or> base = [] then p
      else if last base = CHR ''/'' then base @ p
      else base @ ''/'' @ p)"

text \<open>
  \<open>{:?}\<close> of a string: quotes, with the escapes of ASCII written out; which characters beyond ASCII are
  escaped depends on the Unicode tables and is an argument.
\<close>

definition debug_char :: "char \<Rightarrow> string" where
  "debug_char c =
     (let n = (of_char c :: nat); bs = CHR 0x5C
      in if n = 0 then [bs, CHR ''0'']
         else if n = 9 then [bs, CHR ''t'']
         else if n = 10 then [bs, CHR ''n'']
         else if n = 13 then [bs, CHR ''r'']
         else if n = 34 \<or> n = 92 then [bs, c]
         else if n < 16 then [bs] @ ''u{'' @ [hex_digit n] @ ''}''
         else if n < 32 \<or> n = 127 then [bs] @ ''u{'' @ [hex_digit (n div 16), hex_digit (n mod 16)] @ ''}''
         else [c])"

definition debug_str :: "(string \<Rightarrow> string) \<Rightarrow> string \<Rightarrow> string" where
  "debug_str unicode s =
     [CHR 0x22] @ (if list_all (\<lambda>c. (of_char c :: nat) < 128) s then concat (map debug_char s) else unicode s) @
     [CHR 0x22]"

end
