(* ===== verification/Docker.thy ===== *)
theory Docker
  imports Forwarders RustText "HOL-Library.List_Lexorder" "HOL-Library.Char_ord"
begin

text \<open>
  The Docker client (\<open>crates/tepegoz-docker\<close>): which engine is connected to, and the translation of
  the engine's answers. bollard is third-party: the result of connecting to a host or a socket, of the
  ping, and the records it returns are inputs, reduced to the fields the code reads.
\<close>

section \<open>Socket candidates\<close>

record socket_candidate =
  sc_label :: string
  sc_path :: string

definition candidate_paths_with_home :: "string option \<Rightarrow> socket_candidate list" where
  "candidate_paths_with_home home =
     (case home of
        Some h \<Rightarrow>
          [\<lparr>sc_label = ''Docker Desktop'',
            sc_path = path_join (path_join (path_join h ''.docker'') ''run'') ''docker.sock''\<rparr>,
           \<lparr>sc_label = ''Colima (default)'',
            sc_path = path_join (path_join (path_join h ''.colima'') ''default'') ''docker.sock''\<rparr>,
           \<lparr>sc_label = ''Rancher Desktop'', sc_path = path_join (path_join h ''.rd'') ''docker.sock''\<rparr>]
      | None \<Rightarrow> []) @
     [\<lparr>sc_label = ''system'', sc_path = ''/var/run/docker.sock''\<rparr>]"

section \<open>Connecting\<close>

definition PROBE_TIMEOUT_SECS :: nat where "PROBE_TIMEOUT_SECS = 5"

datatype ping_result = PgOk | PgError string | PgTimeout

record docker_env =
  dn_docker_host :: "string option" \<comment> \<open>\<open>std::env::var\<close>\<close>
  dn_home :: "string option" \<comment> \<open>\<open>std::env::var_os\<close>\<close>
  dn_exists :: "string \<Rightarrow> bool"
  dn_connect_host :: "string \<Rightarrow> string option" \<comment> \<open>the error, or none\<close>
  dn_connect_socket :: "string \<Rightarrow> string option"
  dn_ping_host :: "string \<Rightarrow> ping_result"
  dn_ping_socket :: "string \<Rightarrow> ping_result"

definition ping_with_timeout :: "ping_result \<Rightarrow> string + unit" where
  "ping_with_timeout r =
     (case r of
        PgOk \<Rightarrow> Inr ()
      | PgError e \<Rightarrow> Inl (''ping: '' @ e)
      | PgTimeout \<Rightarrow> Inl (''ping timed out after '' @ show_nat PROBE_TIMEOUT_SECS @ ''s''))"

definition try_connect_docker_host :: "docker_env \<Rightarrow> string \<Rightarrow> string + unit" where
  "try_connect_docker_host ev host =
     (case dn_connect_host ev host of Some e \<Rightarrow> Inl e | None \<Rightarrow> ping_with_timeout (dn_ping_host ev host))"

text \<open>\<open>Path::display\<close>, and \<open>Path::to_str\<close>, which is \<open>None\<close> for a path that is not UTF-8.\<close>

definition path_display :: "string \<Rightarrow> string" where
  "path_display p = from_utf8_lossy (bytes_of p)"

definition try_connect_socket :: "docker_env \<Rightarrow> string \<Rightarrow> string + unit" where
  "try_connect_socket ev path =
     (if \<not> utf8_valid (bytes_of path) then Inl (''socket path is not valid UTF-8: '' @ path_display path)
      else case dn_connect_socket ev path of
             Some e \<Rightarrow> Inl e
           | None \<Rightarrow> ping_with_timeout (dn_ping_socket ev path))"

datatype engine_source = EsDockerHostEnv string | EsSocket socket_candidate

definition candidate_text :: "socket_candidate \<Rightarrow> string" where
  "candidate_text c = sc_label c @ '' ('' @ path_display (sc_path c) @ '')''"

fun engine_source_text :: "engine_source \<Rightarrow> string" where
  "engine_source_text (EsDockerHostEnv v) = ''DOCKER_HOST='' @ v"
| "engine_source_text (EsSocket c) = candidate_text c"

type_synonym attempts = "(string \<times> string) list"

text \<open>The loop over the candidates, with the attempts made before it.\<close>

fun try_candidates :: "docker_env \<Rightarrow> attempts \<Rightarrow> socket_candidate list \<Rightarrow> attempts + engine_source" where
  "try_candidates ev as [] = Inl as"
| "try_candidates ev as (c # cs) =
     (if \<not> dn_exists ev (sc_path c) then try_candidates ev (as @ [(sc_label c, ''socket file not found'')]) cs
      else case try_connect_socket ev (sc_path c) of
             Inr _ \<Rightarrow> Inr (EsSocket c)
           | Inl e \<Rightarrow> try_candidates ev (as @ [(candidate_text c, e)]) cs)"

definition engine_connect :: "docker_env \<Rightarrow> attempts + engine_source" where
  "engine_connect ev =
     (let candidates = candidate_paths_with_home (dn_home ev)
      in case dn_docker_host ev of
           None \<Rightarrow> try_candidates ev [] candidates
         | Some host \<Rightarrow>
             if host = [] then try_candidates ev [] candidates
             else (case try_connect_docker_host ev host of
                 Inr _ \<Rightarrow> Inr (EsDockerHostEnv host)
               | Inl e \<Rightarrow> try_candidates ev [(''DOCKER_HOST='' @ host, e)] candidates))"

definition connect_error_text :: "attempts \<Rightarrow> string" where
  "connect_error_text as =
     (if as = [] then ''no docker socket candidates available''
      else ''docker engine unreachable. Tried:'' @
           concat (map (\<lambda>(src, err). CHR 0x0A # ''  - '' @ src @ '': '' @ err) as))"

section \<open>Containers\<close>

text \<open>
  The fields of \<open>ContainerSummary\<close> that are read. The state and the port type are enumerations of
  bollard, here the text their \<open>Display\<close> prints (\<open>EMPTY\<close> prints nothing). Labels are a \<open>HashMap\<close>: a
  list in the order it iterates.
\<close>

record port_summary =
  ps_ip :: "string option"
  ps_private_port :: u16
  ps_public_port :: "u16 option"
  ps_typ :: "string option"

record container_summary =
  cs_id :: "string option"
  cs_names :: "string list option"
  cs_image :: "string option"
  cs_image_id :: "string option"
  cs_command :: "string option"
  cs_created :: "i64 option"
  cs_state :: "string option"
  cs_status :: "string option"
  cs_ports :: "port_summary list option"
  cs_labels :: "(string \<times> string) list option"

definition unwrap_or :: "'a \<Rightarrow> 'a option \<Rightarrow> 'a" where
  "unwrap_or d x = (case x of Some y \<Rightarrow> y | None \<Rightarrow> d)"

definition port_to_wire :: "port_summary \<Rightarrow> docker_port" where
  "port_to_wire p =
     \<lparr>dp_ip = unwrap_or [] (ps_ip p), dp_private_port = ps_private_port p,
      dp_public_port = unwrap_or 0 (ps_public_port p),
      dp_protocol = (case ps_typ p of Some t \<Rightarrow> if t = [] then ''tcp'' else t | None \<Rightarrow> ''tcp'')\<rparr>"

definition into_wire :: "container_summary \<Rightarrow> docker_container" where
  "into_wire s =
     \<lparr>dc_id = unwrap_or [] (cs_id s), dc_names = unwrap_or [] (cs_names s),
      dc_image = unwrap_or [] (cs_image s), dc_image_id = unwrap_or [] (cs_image_id s),
      dc_command = unwrap_or [] (cs_command s), dc_created_unix_secs = unwrap_or 0 (cs_created s),
      dc_state = (case cs_state s of Some t \<Rightarrow> if t = [] then ''unknown'' else t | None \<Rightarrow> ''unknown''),
      dc_status = unwrap_or [] (cs_status s),
      dc_ports = map port_to_wire (unwrap_or [] (cs_ports s)),
      dc_labels = map (\<lambda>(k, v). \<lparr>kv_key = k, kv_value = v\<rparr>) (sort_key fst (unwrap_or [] (cs_labels s)))\<rparr>"

definition list_containers :: "string + container_summary list \<Rightarrow> string + docker_container list" where
  "list_containers r = map_sum id (map into_wire) r"

section \<open>Actions\<close>

datatype docker_call =
  CallStart string | CallStop string | CallRestart string | CallKill string
| CallRemove string bool \<comment> \<open>with the flag \<open>force\<close>\<close>

fun docker_action_call :: "string \<Rightarrow> docker_action_kind \<Rightarrow> docker_call" where
  "docker_action_call i DaStart = CallStart i"
| "docker_action_call i DaStop = CallStop i"
| "docker_action_call i DaRestart = CallRestart i"
| "docker_action_call i DaKill = CallKill i"
| "docker_action_call i DaRemove = CallRemove i True"

section \<open>Log and statistics streams\<close>

datatype log_output =
  LoStdOut "u8 list" | LoStdErr "u8 list" | LoConsole "u8 list" | LoStdIn "u8 list"

definition logs_tail :: "u32 \<Rightarrow> string" where
  "logs_tail tail_lines = (if tail_lines = 0 then ''all'' else show_u32 tail_lines)"

fun log_item :: "string + log_output \<Rightarrow> (string + log_stream \<times> u8 list) option" where
  "log_item (Inr (LoStdOut m)) = Some (Inr (Stdout, m))"
| "log_item (Inr (LoStdErr m)) = Some (Inr (Stderr, m))"
| "log_item (Inr (LoConsole m)) = Some (Inr (Stdout, m))"
| "log_item (Inr (LoStdIn m)) = None"
| "log_item (Inl e) = Some (Inl (''docker logs: '' @ e))"

definition logs_stream :: "(string + log_output) list \<Rightarrow> (string + log_stream \<times> u8 list) list" where
  "logs_stream items = List.map_filter log_item items"

text \<open>
  The fields of the statistics that are read. \<open>f32\<close> arithmetic (conversion, division, product) is the
  record \<open>f32_ops\<close>; its values are bit patterns.
\<close>

record f32_ops =
  fo_of_u64 :: "u64 \<Rightarrow> f32"
  fo_div :: "f32 \<Rightarrow> f32 \<Rightarrow> f32"
  fo_mul :: "f32 \<Rightarrow> f32 \<Rightarrow> f32"
  fo_100 :: f32

record cpu_stats =
  cu_total_usage :: "u64 option option" \<comment> \<open>\<open>cpu_usage\<close>, and its \<open>total_usage\<close>\<close>
  cu_system_cpu_usage :: "u64 option"
  cu_online_cpus :: "u32 option"

record stats_response =
  sr_cpu_stats :: "cpu_stats option"
  sr_precpu_stats :: "cpu_stats option"
  sr_memory_stats :: "(u64 option \<times> u64 option) option" \<comment> \<open>usage and limit\<close>

text \<open>The four counters, if all are there: now and before, of the container and of the system.\<close>

definition cpu_counters :: "stats_response \<Rightarrow> (u64 \<times> u64 \<times> u64 \<times> u64 \<times> cpu_stats) option" where
  "cpu_counters s =
     Option.bind (sr_cpu_stats s) (\<lambda>cs. Option.bind (sr_precpu_stats s) (\<lambda>pre.
     Option.bind (Option.bind (cu_total_usage cs) id) (\<lambda>cpu_total.
     Option.bind (Option.bind (cu_total_usage pre) id) (\<lambda>pre_total.
     Option.bind (cu_system_cpu_usage cs) (\<lambda>sys_now.
     Option.bind (cu_system_cpu_usage pre) (\<lambda>sys_pre.
       Some (cpu_total, pre_total, sys_now, sys_pre, cs)))))))"

definition stats_to_wire :: "f32_ops \<Rightarrow> stats_response \<Rightarrow> docker_stats" where
  "stats_to_wire fo s =
     \<lparr>ds_cpu_percent =
        (case cpu_counters s of
           None \<Rightarrow> 0
         | Some (cpu_total, pre_total, sys_now, sys_pre, cs) \<Rightarrow>
             if sys_now \<le> sys_pre \<or> cpu_total \<le> pre_total then 0
             else (let online = fo_of_u64 fo (ucast (max (unwrap_or 1 (cu_online_cpus cs)) 1));
                       cpu_delta = fo_of_u64 fo (cpu_total - pre_total);
                       sys_delta = fo_of_u64 fo (sys_now - sys_pre)
                   in fo_mul fo (fo_mul fo (fo_div fo cpu_delta sys_delta) online) (fo_100 fo))),
      ds_mem_bytes = (case sr_memory_stats s of Some (usage, _) \<Rightarrow> unwrap_or 0 usage | None \<Rightarrow> 0),
      ds_mem_limit_bytes = (case sr_memory_stats s of Some (_, limit) \<Rightarrow> unwrap_or 0 limit | None \<Rightarrow> 0)\<rparr>"

definition stats_stream :: "f32_ops \<Rightarrow> (string + stats_response) list \<Rightarrow> (string + docker_stats) list" where
  "stats_stream fo items = map (map_sum (\<lambda>e. ''docker stats: '' @ e) (stats_to_wire fo)) items"

end
