(* ===== verification/DockerProps.thy ===== *)
theory DockerProps
  imports Docker
begin

text \<open>Properties of the Docker client: which engine is taken, and what the rows it sends look like.\<close>

section \<open>The first engine that answers\<close>

text \<open>The engines in the order they are tried, which of them answer, and why another does not.\<close>

definition engine_order :: "docker_env \<Rightarrow> engine_source list" where
  "engine_order ev =
     (case dn_docker_host ev of Some h \<Rightarrow> if h = [] then [] else [EsDockerHostEnv h] | None \<Rightarrow> []) @
     map EsSocket (candidate_paths_with_home (dn_home ev))"

definition engine_attempt :: "docker_env \<Rightarrow> engine_source \<Rightarrow> string \<times> (string + unit)" where
  "engine_attempt ev src =
     (case src of
        EsDockerHostEnv h \<Rightarrow> (engine_source_text src, try_connect_docker_host ev h)
      | EsSocket c \<Rightarrow>
          if dn_exists ev (sc_path c) then (engine_source_text src, try_connect_socket ev (sc_path c))
          else (sc_label c, Inl ''socket file not found''))"

definition engine_answers :: "docker_env \<Rightarrow> engine_source \<Rightarrow> bool" where
  "engine_answers ev src \<longleftrightarrow> snd (engine_attempt ev src) = Inr ()"

definition why_not :: "docker_env \<Rightarrow> engine_source \<Rightarrow> string \<times> string" where
  "why_not ev src = (fst (engine_attempt ev src), case snd (engine_attempt ev src) of Inl e \<Rightarrow> e | Inr _ \<Rightarrow> [])"

lemma try_candidates_find:
  "try_candidates ev as cs =
     (case find (engine_answers ev) (map EsSocket cs) of
        Some s \<Rightarrow> Inr s
      | None \<Rightarrow> Inl (as @ map (why_not ev) (map EsSocket cs)))"
  by (induction cs arbitrary: as)
     (auto simp: engine_answers_def why_not_def engine_attempt_def split: sum.splits option.splits)

text \<open>
  The engine that is used is the first that answers, of \<open>DOCKER_HOST\<close> if it is set and then the
  sockets of Docker Desktop, Colima, Rancher Desktop and the system; and when none answers, the error
  the clients are shown lists each of them once, in that order, with its own reason.
\<close>

theorem first_answering_engine:
  "engine_connect ev =
     (case find (engine_answers ev) (engine_order ev) of
        Some s \<Rightarrow> Inr s
      | None \<Rightarrow> Inl (map (why_not ev) (engine_order ev)))"
  by (cases "dn_docker_host ev")
     (auto simp: engine_connect_def engine_order_def try_candidates_find Let_def
       engine_answers_def why_not_def engine_attempt_def split: sum.splits option.splits)

section \<open>Rows\<close>

text \<open>Every engine state and port protocol is shown with a text.\<close>

definition well_formed_row :: "docker_container \<Rightarrow> bool" where
  "well_formed_row c \<longleftrightarrow>
     dc_state c \<noteq> [] \<and> list_all (\<lambda>p. dp_protocol p \<noteq> []) (dc_ports c) \<and>
     sorted (map kv_key (dc_labels c)) \<and> distinct (map kv_key (dc_labels c))"

lemma sort_key_canonical:
  fixes f :: "'a \<Rightarrow> 'b :: linorder"
  assumes "distinct (map f xs)" "mset xs = mset ys"
  shows "sort_key f xs = sort_key f ys"
proof -
  have set: "set xs = set ys" using assms(2) by (rule mset_eq_setD)
  have inj: "inj_on f (set xs)" using assms(1) by (simp add: distinct_map)
  have "mset (map f xs) = mset (map f ys)" using assms(2) by simp
  then have "distinct (map f ys)" using assms(1) by (metis mset_eq_imp_distinct_iff)
  have d: "distinct (map f (sort_key f zs))" if "distinct (map f zs)" for zs
    using that by (simp add: distinct_map)
  show ?thesis
    by (rule map_sorted_distinct_set_unique [of f])
       (simp_all add: set [symmetric] inj d [OF assms(1)] d [OF \<open>distinct (map f ys)\<close>])
qed

lemma map_kv_key: "map kv_key (map (\<lambda>(k, v). \<lparr>kv_key = k, kv_value = v\<rparr>) ls) = map fst ls"
  by (induction ls) auto

text \<open>
  A container is shown the same way at every refresh: its row does not depend on the order in
  which the engine's table of labels happens to iterate, the labels are in the order of their keys,
  each key once, and no state and no port protocol is blank.
\<close>

theorem container_rows_canonical:
  assumes "cs_labels s = Some ls" "distinct (map fst ls)" "mset ls' = mset ls"
  shows "into_wire (s\<lparr>cs_labels := Some ls'\<rparr>) = into_wire s \<and> well_formed_row (into_wire s)"
proof
  have "sort_key fst ls = sort_key fst ls'"
    by (rule sort_key_canonical [OF assms(2)]) (simp add: assms(3))
  then show "into_wire (s\<lparr>cs_labels := Some ls'\<rparr>) = into_wire s"
    by (simp add: into_wire_def unwrap_or_def assms(1))
  have "distinct (map fst (sort_key fst ls))"
    using assms(2) by (simp add: distinct_map)
  then show "well_formed_row (into_wire s)"
    by (auto simp: well_formed_row_def into_wire_def port_to_wire_def unwrap_or_def assms(1) map_kv_key
        list_all_iff split: option.splits simp del: map_map)
qed

text \<open>A container with two labels, which the engine's table may give in either order.\<close>

definition demo_summary :: container_summary where
  "demo_summary =
     \<lparr>cs_id = Some ''c1'', cs_names = None, cs_image = None, cs_image_id = None, cs_command = None,
      cs_created = None, cs_state = None, cs_status = None, cs_ports = None,
      cs_labels = Some [(''z'', ''1''), (''a'', ''2'')]\<rparr>"

theorem container_rows_canonical_witness:
  "into_wire (demo_summary\<lparr>cs_labels := Some [(''a'', ''2''), (''z'', ''1'')]\<rparr>) = into_wire demo_summary"
  using container_rows_canonical [of demo_summary "[(''z'', ''1''), (''a'', ''2'')]" "[(''a'', ''2''), (''z'', ''1'')]"]
  by (simp add: demo_summary_def add_mset_commute)

section \<open>Statistics\<close>

text \<open>
  The CPU share is 0 unless both counters have grown, and the differences it is computed from are
  exact: neither subtraction wraps.
\<close>

lemma cpu_share_from_exact_differences:
  "(case cpu_counters s of
      Some (cpu_total, pre_total, sys_now, sys_pre, cs) \<Rightarrow>
        if pre_total < cpu_total \<and> sys_pre < sys_now then
          (let dc = cpu_total - pre_total; ds = sys_now - sys_pre
           in int (unat dc) = int (unat cpu_total) - int (unat pre_total) \<and>
             int (unat ds) = int (unat sys_now) - int (unat sys_pre) \<and> 0 < unat ds \<and>
             ds_cpu_percent (stats_to_wire fo s) =
               fo_mul fo (fo_mul fo (fo_div fo (fo_of_u64 fo dc) (fo_of_u64 fo ds))
                  (fo_of_u64 fo (ucast (max (unwrap_or 1 (cu_online_cpus cs)) 1)))) (fo_100 fo))
        else ds_cpu_percent (stats_to_wire fo s) = 0
    | None \<Rightarrow> ds_cpu_percent (stats_to_wire fo s) = 0)"
proof (cases "cpu_counters s")
  case None
  then show ?thesis by (simp add: stats_to_wire_def)
next
  case (Some c)
  obtain ct pt sn sp cs where c: "c = (ct, pt, sn, sp, cs)" by (cases c)
  show ?thesis
  proof (cases "pt < ct \<and> sp < sn")
    case True
    have sub: "int (unat (a - b)) = int (unat a) - int (unat b)" if "b < a" for a b :: u64
      using that by (simp add: unat_sub word_less_nat_alt less_imp_le word_le_nat_alt of_nat_diff)
    have "unat (sn - sp) = unat sn - unat sp" by (rule unat_sub) (simp add: True less_imp_le)
    then have "0 < unat (sn - sp)" using True by (simp add: word_less_nat_alt)
    then show ?thesis
      using True sub [of pt ct] sub [of sp sn]
      by (auto simp: stats_to_wire_def Some c Let_def dest: leD)
  next
    case False
    then show ?thesis by (auto simp: stats_to_wire_def Some c not_less)
  qed
qed

end
