(* ===== verification/Widgets.thy ===== *)
theory Widgets
  imports AppState
begin

text \<open>
  What the renderers of \<open>crates/tepegoz-tui\<close> hand to ratatui: widgets with their texts and styles, each
  with the rectangle it is drawn in. ratatui itself is third-party: its constructors of rectangles,
  the inside of a bordered block and the split of an area by constraints are the record \<open>tui\<close>.
\<close>

section \<open>Texts and styles\<close>

datatype color =
  CoCyan | CoDarkGray | CoGray | CoYellow | CoRed | CoGreen | CoBlue | CoRgb u8 u8 u8 | CoIndexed u8

datatype modifier = MoBold | MoDim | MoItalic | MoUnderlined | MoSlowBlink | MoReversed

text \<open>The modifiers of a style in the order they were added.\<close>

record style =
  st_fg :: "color option"
  st_bg :: "color option"
  st_modifiers :: "modifier list"

definition style_default :: style where
  "style_default = \<lparr>st_fg = None, st_bg = None, st_modifiers = []\<rparr>"

definition fg :: "color \<Rightarrow> style \<Rightarrow> style" where
  "fg c s = s\<lparr>st_fg := Some c\<rparr>"

definition bg :: "color \<Rightarrow> style \<Rightarrow> style" where
  "bg c s = s\<lparr>st_bg := Some c\<rparr>"

definition add_modifier :: "modifier \<Rightarrow> style \<Rightarrow> style" where
  "add_modifier m s = (if m \<in> set (st_modifiers s) then s else s\<lparr>st_modifiers := st_modifiers s @ [m]\<rparr>)"

record span =
  sp_text :: string
  sp_style :: style

definition raw :: "string \<Rightarrow> span" where
  "raw t = \<lparr>sp_text = t, sp_style = style_default\<rparr>"

definition styled :: "string \<Rightarrow> style \<Rightarrow> span" where
  "styled t s = \<lparr>sp_text = t, sp_style = s\<rparr>"

datatype alignment = AlLeft | AlCenter

record text_line =
  tx_spans :: "span list"
  tx_alignment :: "alignment option"

definition line_of :: "span list \<Rightarrow> text_line" where
  "line_of spans = \<lparr>tx_spans = spans, tx_alignment = None\<rparr>"

definition centered :: "text_line \<Rightarrow> text_line" where
  "centered l = l\<lparr>tx_alignment := Some AlCenter\<rparr>"

section \<open>Widgets\<close>

datatype constraint = ConLength u16 | ConMin u16

record table_row =
  tr_cells :: "span list"
  tr_style :: style

record bordered_block =
  bl_title :: "span option"
  bl_border :: style

record table_widget =
  tw_header :: "table_row option"
  tw_rows :: "table_row list"
  tw_widths :: "constraint list"
  tw_spacing :: u16

record para =
  pg_lines :: "text_line list"
  pg_alignment :: alignment
  pg_wrap :: bool

datatype widget =
  WiBlock bordered_block
| WiParagraph para
| WiTable table_widget
| WiClear
| WiCell string style \<comment> \<open>one cell of the screen\<close>
| WiReverse \<comment> \<open>the cell is shown reversed\<close>

type_synonym drawing = "(rect \<times> widget) list"

record tui =
  tu_rect_new :: rect_ctor
  tu_inner :: "rect \<Rightarrow> rect" \<comment> \<open>\<open>Block::inner\<close> with all borders\<close>
  tu_split :: "constraint list \<Rightarrow> rect \<Rightarrow> nat \<Rightarrow> rect" \<comment> \<open>\<open>Layout::vertical(..).split(..)[i]\<close>\<close>
  tu_unicode :: "string \<Rightarrow> string" \<comment> \<open>lower case outside ASCII\<close>
  tu_f32 :: "f32 \<Rightarrow> string" \<comment> \<open>\<open>{:>5.1}\<close>\<close>
  tu_ratio :: "u64 \<Rightarrow> u64 \<Rightarrow> string" \<comment> \<open>\<open>{:>6.1}\<close> of the quotient as \<open>f64\<close>\<close>

text \<open>A paragraph of one span, one of lines, and a centred one.\<close>

definition text_widget :: "span \<Rightarrow> widget" where
  "text_widget s = WiParagraph \<lparr>pg_lines = [line_of [s]], pg_alignment = AlLeft, pg_wrap = False\<rparr>"

definition lines_widget :: "text_line list \<Rightarrow> widget" where
  "lines_widget ls = WiParagraph \<lparr>pg_lines = ls, pg_alignment = AlLeft, pg_wrap = False\<rparr>"

definition centered_widget :: "text_line list \<Rightarrow> widget" where
  "centered_widget ls = WiParagraph \<lparr>pg_lines = ls, pg_alignment = AlCenter, pg_wrap = False\<rparr>"

definition blank_line :: text_line where
  "blank_line = line_of [raw []]"

text \<open>\<open>{:<n}\<close> and \<open>{:>n}\<close>: padded with spaces, by characters.\<close>

definition pad_right :: "nat \<Rightarrow> string \<Rightarrow> string" where
  "pad_right n s = s @ replicate (n - chars_count s) CHR '' ''"

definition pad_left :: "nat \<Rightarrow> string \<Rightarrow> string" where
  "pad_left n s = replicate (n - chars_count s) CHR '' '' @ s"

section \<open>Symbols\<close>

definition mid_dot :: string where "mid_dot = [CHR 0xC2, CHR 0xB7]" \<comment> \<open>U+00B7\<close>
definition right_arrow :: string where "right_arrow = [CHR 0xE2, CHR 0x86, CHR 0x92]" \<comment> \<open>U+2192\<close>
definition up_arrow :: string where "up_arrow = [CHR 0xE2, CHR 0x86, CHR 0x91]" \<comment> \<open>U+2191\<close>
definition down_arrow :: string where "down_arrow = [CHR 0xE2, CHR 0x86, CHR 0x93]" \<comment> \<open>U+2193\<close>
definition selection_mark :: string where "selection_mark = [CHR 0xE2, CHR 0x96, CHR 0xB6]" \<comment> \<open>U+25B6\<close>

definition dotted :: "string list \<Rightarrow> string" where
  "dotted ts = str_join ('' '' @ mid_dot @ '' '') ts"

section \<open>Tiles\<close>

fun target_suffix :: "scope_target \<Rightarrow> string" where
  "target_suffix StLocal = ''local''"
| "target_suffix (StRemote alias) = alias"

definition border_style :: "bool \<Rightarrow> bool \<Rightarrow> color \<times> modifier option" where
  "border_style focused hovered =
     (if focused then (CoCyan, None) else if hovered then (CoCyan, Some MoDim) else (CoDarkGray, Some MoDim))"

definition with_modifier :: "modifier option \<Rightarrow> style \<Rightarrow> style" where
  "with_modifier m s = (case m of Some x \<Rightarrow> add_modifier x s | None \<Rightarrow> s)"

text \<open>The frame every tile starts with.\<close>

definition tile_block :: "string option \<Rightarrow> bool \<Rightarrow> bool \<Rightarrow> widget" where
  "tile_block title focused hovered =
     (case border_style focused hovered of
        (c, m) \<Rightarrow>
          WiBlock \<lparr>bl_title = map_option (\<lambda>t. styled t (add_modifier MoBold (fg c style_default))) title,
                   bl_border = with_modifier m (fg c style_default)\<rparr>)"

text \<open>Status bar, filter bar if shown, body, help bar.\<close>

definition list_constraints :: "bool \<Rightarrow> constraint list" where
  "list_constraints show_filter_bar =
     (if show_filter_bar then [ConLength 1, ConLength 1, ConMin 1, ConLength 1]
      else [ConLength 1, ConMin 1, ConLength 1])"

definition body_index :: "bool \<Rightarrow> nat" where
  "body_index show_filter_bar = (if show_filter_bar then 2 else 1)"

end
