(* ===== verification/DrawDocker.thy ===== *)
theory DrawDocker
  imports Widgets
begin

text \<open>
  The Docker tile as it is drawn (\<open>crates/tepegoz-tui/src/scope/docker.rs\<close>): the container table, the
  log view, the prompt of a destructive action.
\<close>

section \<open>The container table\<close>

definition state_color :: "string \<Rightarrow> style" where
  "state_color state =
     fg (if state = ''running'' then CoGreen
         else if state = ''exited'' \<or> state = ''dead'' then CoRed
         else if state = ''paused'' \<or> state = ''restarting'' then CoYellow
         else if state = ''created'' \<or> state = ''removing'' then CoBlue
         else CoDarkGray) style_default"

definition port_text :: "docker_port \<Rightarrow> string" where
  "port_text p =
     (if dp_public_port p \<noteq> 0 then
        (case split_on (CHR '':'') (dp_ip p) of ip # _ \<Rightarrow> ip | [] \<Rightarrow> []) @ '':'' @ show_nat (unat (dp_public_port p)) @
        right_arrow @ show_nat (unat (dp_private_port p)) @ ''/'' @ dp_protocol p
      else show_nat (unat (dp_private_port p)) @ ''/'' @ dp_protocol p)"

definition format_ports :: "docker_port list \<Rightarrow> string" where
  "format_ports ports =
     str_join '', '' (map port_text (take 3 ports) @
       (if 3 < length ports then [''+'' @ show_nat (length ports - 3)] else []))"

text \<open>Row \<open>i\<close> of the table: the selected one is marked.\<close>

definition container_row :: "nat \<Rightarrow> nat \<Rightarrow> docker_container \<Rightarrow> table_row" where
  "container_row selection i c =
     \<lparr>tr_cells =
        [raw (if i = selection then selection_mark @ '' '' else ''  ''),
         raw (case dc_names c of n # _ \<Rightarrow> n | [] \<Rightarrow> []), raw (dc_image c),
         styled (dc_state c) (state_color (dc_state c)), raw (dc_status c), raw (format_ports (dc_ports c))],
      tr_style =
        (if i = selection then add_modifier MoBold (bg (CoRgb 40 40 60) style_default) else style_default)\<rparr>"

definition container_rows :: "nat \<Rightarrow> docker_container list \<Rightarrow> table_row list" where
  "container_rows selection visible = map (\<lambda>(i, c). container_row selection i c) (zip [0 ..< length visible] visible)"

definition header_style :: style where
  "header_style = add_modifier MoBold (fg CoDarkGray style_default)"

definition render_container_table :: "docker_scope \<Rightarrow> docker_container list \<Rightarrow> rect \<Rightarrow> drawing" where
  "render_container_table d visible area =
     [(area, WiTable
        \<lparr>tw_header = Some
           \<lparr>tr_cells = map raw [''  '', ''NAME'', ''IMAGE'', ''STATE'', ''STATUS'', ''PORTS''], tr_style = header_style\<rparr>,
         tw_rows = container_rows (ds_selection d) visible,
         tw_widths = [ConLength 2, ConLength 20, ConLength 20, ConLength 10, ConLength 16, ConMin 10],
         tw_spacing = 1\<rparr>)]"

section \<open>Bars and messages\<close>

definition render_docker_status_bar :: "tui \<Rightarrow> docker_scope \<Rightarrow> rect \<Rightarrow> drawing" where
  "render_docker_status_bar t d area =
     (let (text, c) =
        (case ds_state d of
           DsIdle \<Rightarrow> (''idle'', CoDarkGray)
         | DsConnecting \<Rightarrow> (''connecting'' @ ellipsis, CoYellow)
         | DsAvailable containers engine_source \<Rightarrow>
             (dotted
                [show_nat (ds_visible_count (tu_unicode t) d) @ ''/'' @ show_nat (length containers) @ '' container(s)'' @
                   (if ds_filter d = [] then []
                    else '' (filter '' @ [CHR 0x22] @ ds_filter d @ [CHR 0x22] @ '')''),
                 engine_source], CoGreen)
         | DsUnavailable _ \<Rightarrow> (''unavailable'', CoRed))
      in [(area, text_widget (styled text (fg c style_default)))])"

definition render_docker_filter_bar :: "docker_scope \<Rightarrow> rect \<Rightarrow> drawing" where
  "render_docker_filter_bar d area =
     [(area, lines_widget [line_of
        ([styled ''filter: '' (add_modifier MoBold (fg CoCyan style_default)), raw (ds_filter d)] @
         (if ds_filter_active d then [styled ''_'' (add_modifier MoSlowBlink (fg CoCyan style_default))] else []))])]"

definition render_docker_centered :: "rect \<Rightarrow> string \<Rightarrow> color \<Rightarrow> drawing" where
  "render_docker_centered area text c =
     [(area, centered_widget [blank_line, line_of [styled text (add_modifier MoBold (fg c style_default))]])]"

definition render_docker_unavailable :: "rect \<Rightarrow> string \<Rightarrow> drawing" where
  "render_docker_unavailable area reason =
     [(area, WiParagraph
        \<lparr>pg_lines =
           [blank_line,
            line_of [styled ''Docker engine unavailable'' (add_modifier MoBold (fg CoRed style_default))],
            blank_line, line_of [styled reason (fg CoDarkGray style_default)], blank_line,
            line_of [styled (''Tepeg'' @ [CHR 0xC3, CHR 0xB6] @ ''z will keep retrying every 5s. Start docker and we'' @
                             [CHR 0x27] @ ''ll pick it up.'') (fg CoDarkGray style_default)]],
         pg_alignment = AlCenter, pg_wrap = True\<rparr>)]"

definition docker_help :: "docker_scope \<Rightarrow> string" where
  "docker_help d =
     (case ds_view d of
        DvLogs _ \<Rightarrow> dotted [''[j/k] scroll'', ''[PgUp/PgDn] page'', ''[G] tail'', ''[Esc/q] back'']
      | DvList \<Rightarrow>
          if ds_pending_confirm d \<noteq> None then dotted [''[y] confirm'', ''any other key cancels'']
          else if ds_filter_active d then dotted [''[Enter] apply'', ''[Esc] clear'', ''[Backspace] delete'']
          else dotted [''[j/k] nav'', ''[/] filter'', ''[l] logs'', ''[r] restart'', ''[s] stop'', ''[K] kill'',
                       ''[X] remove''])"

definition render_docker_help_bar :: "docker_scope \<Rightarrow> rect \<Rightarrow> drawing" where
  "render_docker_help_bar d area = [(area, text_widget (styled (docker_help d) (fg CoDarkGray style_default)))]"

section \<open>The prompt\<close>

definition confirm_verb :: "docker_action_kind \<Rightarrow> string" where
  "confirm_verb k = (case k of DaKill \<Rightarrow> ''Kill'' | DaRemove \<Rightarrow> ''Remove'' | other \<Rightarrow> action_verb other)"

text \<open>Width and height of the prompt; it is not drawn when one is 0.\<close>

definition confirm_size :: "rect \<Rightarrow> u16 \<times> u16" where
  "confirm_size r =
     (max (min (saturating_sub (r_width r) 4) 50) (min (r_width r) 20), min 5 (r_height r))"

definition confirm_area :: "tui \<Rightarrow> rect \<Rightarrow> rect" where
  "confirm_area t r =
     (case confirm_size r of
        (width, height) \<Rightarrow>
          tu_rect_new t (r_x r + saturating_sub (r_width r) width div 2)
            (r_y r + saturating_sub (r_height r) height div 2) width height)"

definition render_confirm_modal :: "tui \<Rightarrow> rect \<Rightarrow> pending_confirm \<Rightarrow> drawing" where
  "render_confirm_modal t tile_inner prompt =
     (if fst (confirm_size tile_inner) = 0 \<or> snd (confirm_size tile_inner) = 0 then []
      else
        (let yellow = add_modifier MoBold (fg CoYellow style_default);
             area = confirm_area t tile_inner
         in [(area, WiClear),
             (area, WiBlock \<lparr>bl_title = Some (styled '' confirm '' yellow), bl_border = yellow\<rparr>),
             (tu_inner t area, centered_widget
                [blank_line,
                 centered (line_of [styled (confirm_verb (pc_kind prompt) @ '' container '' @ pc_container_name prompt @ ''?'') yellow]),
                 centered (line_of [styled (dotted [''[y] confirm'', ''any other key cancels''])
                   (fg CoDarkGray style_default)])])]))"

section \<open>The two views\<close>

definition render_list_view :: "tui \<Rightarrow> docker_scope \<Rightarrow> rect \<Rightarrow> drawing" where
  "render_list_view t d inner =
     (let show_filter_bar = (ds_filter_active d \<or> ds_filter d \<noteq> []);
          constraints = list_constraints show_filter_bar;
          chunk = tu_split t constraints inner;
          body = chunk (body_index show_filter_bar)
      in render_docker_status_bar t d (chunk 0) @
         (if show_filter_bar then render_docker_filter_bar d (chunk 1) else []) @
         (case ds_state d of
            DsIdle \<Rightarrow> render_docker_centered body ''idle'' CoDarkGray
          | DsConnecting \<Rightarrow> render_docker_centered body (''Connecting to docker engine'' @ ellipsis) CoYellow
          | DsAvailable containers _ \<Rightarrow>
              (let visible = filter (ds_matches (tu_unicode t) d) containers
               in if visible = [] then
                    render_docker_centered body
                      (if ds_filter d = [] then ''No containers'' else ''No containers match filter'') CoDarkGray
                  else render_container_table d visible body)
          | DsUnavailable reason \<Rightarrow> render_docker_unavailable body reason) @
         render_docker_help_bar d (chunk (length constraints - 1)) @
         (case ds_pending_confirm d of Some p \<Rightarrow> render_confirm_modal t inner p | None \<Rightarrow> []))"

definition line_for_log :: "log_line \<Rightarrow> text_line" where
  "line_for_log l =
     (let (c, prefix) = (case ll_stream l of Stdout \<Rightarrow> (CoGray, '' '') | Stderr \<Rightarrow> (CoYellow, ''!''))
      in line_of [styled (prefix @ '' '') (add_modifier MoBold (fg c style_default)),
                  styled (ll_text l) (fg c style_default)])"

definition stream_label :: "string option \<Rightarrow> string" where
  "stream_label e =
     (case e of None \<Rightarrow> ''live'' | Some reason \<Rightarrow> if reason = [] then ''ended'' else ''ended: '' @ reason)"

definition logs_status :: "logs_view \<Rightarrow> text_line" where
  "logs_status v =
     (let gray = fg CoDarkGray style_default; green = fg CoGreen style_default; sep = '' '' @ mid_dot @ '' ''
      in line_of
        [styled (show_nat (length (lv_lines v)) @ '' lines'') green,
         styled (sep @ ''tail: '') gray,
         styled (if lv_at_tail v then ''on'' else ''off'')
           (if lv_at_tail v then green else fg CoYellow style_default),
         styled (sep @ ''stream: '') gray,
         styled (stream_label (lv_stream_ended v))
           (if lv_stream_ended v = None then green else fg CoRed style_default)])"

text \<open>The transcript's rows, or the panic of its indexing.\<close>

fun transcript_line :: "transcript_row \<Rightarrow> text_line" where
  "transcript_line (TrLine l) = line_for_log l"
| "transcript_line (TrEnded reason) =
     line_of [styled (em_dash @ '' log stream ended: '' @ reason @ '' '' @ em_dash)
       (add_modifier MoItalic (fg CoDarkGray style_default))]"

definition draw_transcript :: "logs_view \<Rightarrow> rect \<Rightarrow> panic + drawing" where
  "draw_transcript v area =
     and_then (render_transcript (unat (r_height area)) v)
       (\<lambda>rows. Inr (if r_height area = 0 then [] else [(area, lines_widget (map transcript_line rows))]))"

definition render_logs_view :: "tui \<Rightarrow> docker_scope \<Rightarrow> logs_view \<Rightarrow> rect \<Rightarrow> panic + drawing" where
  "render_logs_view t d v inner =
     (let chunk = tu_split t [ConLength 1, ConMin 1, ConLength 1] inner
      in and_then (draw_transcript v (chunk 1))
           (\<lambda>ts. Inr ([(chunk 0, lines_widget [logs_status v])] @ ts @ render_docker_help_bar d (chunk 2))))"

definition docker_title :: "docker_scope \<Rightarrow> string" where
  "docker_title d =
     (case ds_view d of
        DvList \<Rightarrow> dotted [''docker'', target_suffix (ds_target d)]
      | DvLogs v \<Rightarrow> dotted [''docker'', ''logs'', lv_container_name v, target_suffix (ds_target d)])"

definition render_docker_tile :: "tui \<Rightarrow> docker_scope \<Rightarrow> rect \<Rightarrow> bool \<Rightarrow> bool \<Rightarrow> panic + drawing" where
  "render_docker_tile t d area focused hovered =
     (let inner = tu_inner t area
      in and_then
           (case ds_view d of DvList \<Rightarrow> Inr (render_list_view t d inner) | DvLogs v \<Rightarrow> render_logs_view t d v inner)
           (\<lambda>ws. Inr ((area, tile_block (Some (docker_title d)) focused hovered) # ws)))"

end
