(* ===== verification/DrawPorts.thy ===== *)
theory DrawPorts
  imports Widgets RustText
begin

text \<open>
  The Ports tile with its two views as it is drawn (\<open>crates/tepegoz-tui/src/scope/ports.rs\<close>).
\<close>

section \<open>Shared parts\<close>

definition row_style :: "bool \<Rightarrow> style" where
  "row_style selected = (if selected then add_modifier MoReversed style_default else style_default)"

definition truncate :: "string \<Rightarrow> nat \<Rightarrow> string" where
  "truncate s n = (if chars_count s \<le> n then s else chars_take (n - 1) s @ ellipsis)"

definition format_bytes :: "tui \<Rightarrow> u64 \<Rightarrow> string" where
  "format_bytes t bytes =
     (let KIB = 1024; MIB = KIB * 1024; GIB = MIB * 1024
      in if GIB \<le> bytes then tu_ratio t bytes GIB @ ''G''
         else if MIB \<le> bytes then tu_ratio t bytes MIB @ ''M''
         else if KIB \<le> bytes then tu_ratio t bytes KIB @ ''K''
         else pad_left 6 (show_nat (unat bytes)) @ ''B'')"

definition render_ports_filter_bar :: "string \<Rightarrow> bool \<Rightarrow> rect \<Rightarrow> drawing" where
  "render_ports_filter_bar filter_text filter_active area =
     [(area, text_widget (styled (''filter: '' @ filter_text @ (if filter_active then ''_'' else []))
        (fg (if filter_active then CoYellow else CoDarkGray) style_default)))]"

definition ports_help :: "ports_active_view \<Rightarrow> bool \<Rightarrow> string" where
  "ports_help view filter_active =
     dotted (if filter_active then [''[Enter] apply'', ''[Esc] clear'', ''[Backspace] delete'']
             else [''[j/k] nav'', ''[/] filter'',
                   (case view of AvPorts \<Rightarrow> ''[p] Processes'' | AvProcesses \<Rightarrow> ''[p] Ports'')])"

definition render_ports_help_bar :: "ports_active_view \<Rightarrow> bool \<Rightarrow> rect \<Rightarrow> drawing" where
  "render_ports_help_bar view filter_active area =
     [(area, text_widget (styled (ports_help view filter_active) (fg CoDarkGray style_default)))]"

definition render_ports_centered :: "rect \<Rightarrow> string \<Rightarrow> color \<Rightarrow> drawing" where
  "render_ports_centered area text c =
     [(area, centered_widget [blank_line, centered (line_of [styled text (fg c style_default)])])]"

definition render_probe_unavailable :: "rect \<Rightarrow> string \<Rightarrow> string \<Rightarrow> drawing" where
  "render_probe_unavailable area title reason =
     [(area, lines_widget
        ([centered (line_of [styled title (add_modifier MoBold (fg CoRed style_default))]), blank_line] @
         map (\<lambda>l. centered (line_of [styled l (fg CoRed style_default)])) (take 10 (str_lines reason))))]"

definition status_widget :: "string \<Rightarrow> color \<Rightarrow> rect \<Rightarrow> drawing" where
  "status_widget text c area = [(area, text_widget (styled text (fg c style_default)))]"

definition filter_note :: "string \<Rightarrow> string list" where
  "filter_note f = (if f = [] then [] else [''filter: '' @ f])"

definition marker :: "bool \<Rightarrow> string" where
  "marker selected = (if selected then selection_mark @ '' '' else ''  '')"

definition partial_cue :: "bool \<Rightarrow> string" where
  "partial_cue p = (if p then ''?'' else '' '')"

section \<open>Ports\<close>

definition port_row :: "nat \<Rightarrow> nat \<Rightarrow> probe_port \<Rightarrow> table_row" where
  "port_row selection i p =
     (let s = row_style (i = selection)
      in \<lparr>tr_cells =
            [styled (marker (i = selection) @ partial_cue (pp_partial p) @ '' '' @ pp_protocol p) s,
             styled (truncate (pp_local_ip p) 15 @ '':'' @ show_nat (unat (pp_local_port p))) s,
             styled (show_nat (unat (pp_pid p))) s,
             styled (truncate (pp_process_name p) 24) s,
             styled (case pp_container_id p of Some c \<Rightarrow> chars_take 12 c | None \<Rightarrow> []) (fg CoCyan s)],
          tr_style = style_default\<rparr>)"

definition port_rows :: "nat \<Rightarrow> probe_port list \<Rightarrow> table_row list" where
  "port_rows selection visible = map (\<lambda>(i, p). port_row selection i p) (zip [0 ..< length visible] visible)"

definition probe_header :: "string list \<Rightarrow> table_row" where
  "probe_header cells =
     \<lparr>tr_cells = map raw cells, tr_style = add_modifier MoBold (fg CoDarkGray style_default)\<rparr>"

definition render_ports_table :: "ports_view \<Rightarrow> probe_port list \<Rightarrow> rect \<Rightarrow> drawing" where
  "render_ports_table v visible area =
     [(area, WiTable
        \<lparr>tw_header = Some (probe_header [''    PROTO'', ''ADDRESS'', ''PID'', ''PROCESS'', ''CONTAINER'']),
         tw_rows = port_rows (pv_selection v) visible,
         tw_widths = [ConLength 12, ConLength 22, ConLength 7, ConLength 26, ConMin 12], tw_spacing = 1\<rparr>)]"

definition render_ports_status_bar :: "tui \<Rightarrow> ports_view \<Rightarrow> rect \<Rightarrow> drawing" where
  "render_ports_status_bar t v area =
     (case pv_state v of
        PvConnecting \<Rightarrow> status_widget (''connecting'' @ ellipsis) CoYellow area
      | PvAvailable rows source \<Rightarrow>
          status_widget
            (dotted ([show_nat (length (filter (pv_matches (tu_unicode t) v) rows)) @ ''/'' @ show_nat (length rows) @
                        '' port(s)'', ''source: '' @ source] @ filter_note (pv_filter v) @ [''UDP coming v1.1'']))
            CoGreen area
      | PvUnavailable _ \<Rightarrow> status_widget ''unavailable'' CoRed area)"

definition render_ports_view :: "tui \<Rightarrow> ports_view \<Rightarrow> rect \<Rightarrow> drawing" where
  "render_ports_view t v inner =
     (let show_filter_bar = (pv_filter_active v \<or> pv_filter v \<noteq> []);
          constraints = list_constraints show_filter_bar;
          chunk = tu_split t constraints inner;
          body = chunk (body_index show_filter_bar)
      in render_ports_status_bar t v (chunk 0) @
         (if show_filter_bar then render_ports_filter_bar (pv_filter v) (pv_filter_active v) (chunk 1) else []) @
         (case pv_state v of
            PvConnecting \<Rightarrow> render_ports_centered body (''Connecting to the ports probe'' @ ellipsis) CoYellow
          | PvAvailable rows _ \<Rightarrow>
              (let visible = filter (pv_matches (tu_unicode t) v) rows
               in if visible = [] then
                    render_ports_centered body
                      (if pv_filter v = [] then ''No listening ports'' else ''No ports match filter'') CoDarkGray
                  else render_ports_table v visible body)
          | PvUnavailable reason \<Rightarrow> render_probe_unavailable body ''Ports probe unavailable'' reason) @
         render_ports_help_bar AvPorts (pv_filter_active v) (chunk (length constraints - 1)))"

section \<open>Processes\<close>

definition cpu_text :: "tui \<Rightarrow> f32 option \<Rightarrow> string" where
  "cpu_text t c = (case c of None \<Rightarrow> ''   '' @ em_dash | Some v \<Rightarrow> tu_f32 t v)"

definition process_row :: "tui \<Rightarrow> nat \<Rightarrow> nat \<Rightarrow> probe_process \<Rightarrow> table_row" where
  "process_row t selection i p =
     (let s = row_style (i = selection)
      in \<lparr>tr_cells =
            [styled (marker (i = selection) @ partial_cue (pr_partial p) @ '' '' @ show_nat (unat (pr_pid p))) s,
             styled (show_nat (unat (pr_parent_pid p))) (fg CoDarkGray s),
             styled (cpu_text t (pr_cpu_percent p)) s,
             styled (format_bytes t (pr_mem_bytes p)) s,
             styled (truncate (pr_command p) 48) s],
          tr_style = style_default\<rparr>)"

definition process_rows :: "tui \<Rightarrow> nat \<Rightarrow> probe_process list \<Rightarrow> table_row list" where
  "process_rows t selection visible =
     map (\<lambda>(i, p). process_row t selection i p) (zip [0 ..< length visible] visible)"

definition render_processes_table :: "tui \<Rightarrow> processes_view \<Rightarrow> probe_process list \<Rightarrow> rect \<Rightarrow> drawing" where
  "render_processes_table t v visible area =
     [(area, WiTable
        \<lparr>tw_header = Some (probe_header [''      PID'', ''PPID'', ''  CPU%'', ''    MEM'', ''COMMAND'']),
         tw_rows = process_rows t (sv_selection v) visible,
         tw_widths = [ConLength 10, ConLength 6, ConLength 7, ConLength 10, ConMin 20], tw_spacing = 1\<rparr>)]"

definition render_processes_status_bar :: "tui \<Rightarrow> processes_view \<Rightarrow> rect \<Rightarrow> drawing" where
  "render_processes_status_bar t v area =
     (case sv_state v of
        SvConnecting \<Rightarrow> status_widget (''connecting'' @ ellipsis) CoYellow area
      | SvAvailable rows source \<Rightarrow>
          status_widget
            (dotted ([show_nat (length (filter (sv_matches (tu_unicode t) v) rows)) @ ''/'' @ show_nat (length rows) @
                        '' process(es)'', ''source: '' @ source] @ filter_note (sv_filter v)))
            CoGreen area
      | SvUnavailable _ \<Rightarrow> status_widget ''unavailable'' CoRed area)"

definition render_processes_view :: "tui \<Rightarrow> processes_view \<Rightarrow> rect \<Rightarrow> drawing" where
  "render_processes_view t v inner =
     (let show_filter_bar = (sv_filter_active v \<or> sv_filter v \<noteq> []);
          constraints = list_constraints show_filter_bar;
          chunk = tu_split t constraints inner;
          body = chunk (body_index show_filter_bar)
      in render_processes_status_bar t v (chunk 0) @
         (if show_filter_bar then render_ports_filter_bar (sv_filter v) (sv_filter_active v) (chunk 1) else []) @
         (case sv_state v of
            SvConnecting \<Rightarrow> render_ports_centered body (''Connecting to the processes probe'' @ ellipsis) CoYellow
          | SvAvailable rows _ \<Rightarrow>
              (let visible = filter (sv_matches (tu_unicode t) v) rows
               in if visible = [] then
                    render_ports_centered body
                      (if sv_filter v = [] then ''No running processes'' else ''No processes match filter'') CoDarkGray
                  else render_processes_table t v visible body)
          | SvUnavailable reason \<Rightarrow> render_probe_unavailable body ''Processes probe unavailable'' reason) @
         render_ports_help_bar AvProcesses (sv_filter_active v) (chunk (length constraints - 1)))"

section \<open>The tile\<close>

definition ports_title :: "ports_scope \<Rightarrow> string" where
  "ports_title s =
     (case po_active s of
        AvPorts \<Rightarrow> dotted [''ports'', target_suffix (po_ports_target s)]
      | AvProcesses \<Rightarrow> dotted [''processes'', target_suffix (po_processes_target s)])"

definition render_ports_tile :: "tui \<Rightarrow> ports_scope \<Rightarrow> rect \<Rightarrow> bool \<Rightarrow> bool \<Rightarrow> drawing" where
  "render_ports_tile t s area focused hovered =
     (area, tile_block (Some (ports_title s)) focused hovered) #
     (case po_active s of
        AvPorts \<Rightarrow> render_ports_view t (po_ports s) (tu_inner t area)
      | AvProcesses \<Rightarrow> render_processes_view t (po_processes s) (tu_inner t area))"

end
