(* ===== verification/DrawFleet.thy ===== *)
theory DrawFleet
  imports Widgets SshError
begin

text \<open>
  The Fleet tile as it is drawn (\<open>crates/tepegoz-tui/src/scope/fleet.rs\<close>). The status bar cuts a long
  source label at a byte index, which panics inside a character.
\<close>

definition STATUS_BAR_NON_SOURCE_COMFORT :: nat where "STATUS_BAR_NON_SOURCE_COMFORT = 24"
definition STATUS_BAR_NON_SOURCE_TRUNCATE :: nat where "STATUS_BAR_NON_SOURCE_TRUNCATE = 30"
definition SOURCE_MIN_CHARS :: nat where "SOURCE_MIN_CHARS = 8"

text \<open>\<open>&s[i..]\<close>, for \<open>i\<close> at most the length.\<close>

definition slice_from :: "string \<Rightarrow> nat \<Rightarrow> panic + string" where
  "slice_from s i =
     (if i < length s \<and> is_cont (byte_of (s ! i)) then Inl SliceInsideChar else Inr (drop i s))"

definition short_source :: "string \<Rightarrow> nat \<Rightarrow> panic + string" where
  "short_source s n =
     (if length s \<le> n - STATUS_BAR_NON_SOURCE_COMFORT then Inr s
      else
        let budget = n - STATUS_BAR_NON_SOURCE_TRUNCATE
        in if budget < SOURCE_MIN_CHARS then Inr (chars_take SOURCE_MIN_CHARS s)
           else and_then (slice_from s (length s - budget)) (\<lambda>tail. Inr (ellipsis @ tail)))"

text \<open>The hint behind the source.\<close>

definition procs_placeholder :: span where
  "procs_placeholder =
     styled ('' procs: '' @ em_dash @ '' (per-host count v1.1 '' @ em_dash @ '' '' @ backquote ''Ctrl-b t'' @
             '' retargets Processes tile to a host)'') (add_modifier MoDim (fg CoDarkGray style_default))"

definition render_fleet_status_bar :: "nat \<Rightarrow> nat \<Rightarrow> string \<Rightarrow> rect \<Rightarrow> panic + drawing" where
  "render_fleet_status_bar total_hosts visible source area =
     and_then (short_source source (unat (r_width area)))
       (\<lambda>short. Inr [(area, lines_widget [line_of
          [styled (show_nat visible @ ''/'' @ show_nat total_hosts @ '' hosts'') (fg CoGreen style_default),
           raw ''  '', styled (''source: '' @ short) (fg CoDarkGray style_default), procs_placeholder]])])"

definition render_fleet_filter_bar :: "string \<Rightarrow> rect \<Rightarrow> drawing" where
  "render_fleet_filter_bar filter_text area =
     [(area, lines_widget [line_of
        [styled ''filter: '' (fg CoDarkGray style_default),
         styled (filter_text @ ''_'') (add_modifier MoBold (fg CoYellow style_default))]])]"

text \<open>The four symbols: full, half and empty circle, warning sign (U+25CF, U+25D0, U+25CB, U+26A0).\<close>

fun state_glyph :: "host_state \<Rightarrow> string \<times> color" where
  "state_glyph HsConnected = ([CHR 0xE2, CHR 0x97, CHR 0x8F], CoGreen)"
| "state_glyph HsConnecting = ([CHR 0xE2, CHR 0x97, CHR 0x90], CoYellow)"
| "state_glyph HsDegraded = ([CHR 0xE2, CHR 0x97, CHR 0x90], CoYellow)"
| "state_glyph HsDisconnected = ([CHR 0xE2, CHR 0x97, CHR 0x8B], CoDarkGray)"
| "state_glyph HsAuthFailed = ([CHR 0xE2, CHR 0x9A, CHR 0xA0], CoRed)"
| "state_glyph HsHostKeyMismatch = ([CHR 0xE2, CHR 0x9A, CHR 0xA0], CoRed)"
| "state_glyph HsAgentNotDeployed = ([CHR 0xE2, CHR 0x9A, CHR 0xA0], CoRed)"
| "state_glyph HsAgentVersionMismatch = ([CHR 0xE2, CHR 0x9A, CHR 0xA0], CoRed)"

definition host_row :: "(string \<rightharpoonup> host_state) \<Rightarrow> nat \<Rightarrow> nat \<Rightarrow> host_entry \<Rightarrow> table_row" where
  "host_row states selection i h =
     (let (glyph, c) = state_glyph (case states (he_alias h) of Some s \<Rightarrow> s | None \<Rightarrow> HsDisconnected);
          endpoint = (if he_port h = 22 then he_hostname h else he_hostname h @ '':'' @ show_nat (unat (he_port h)))
      in \<lparr>tr_cells =
            [raw (if i = selection then selection_mark else '' ''), styled glyph (fg c style_default),
             raw (he_alias h), styled endpoint (fg CoDarkGray style_default), raw (he_user h)],
          tr_style = style_default\<rparr>)"

definition host_rows :: "(string \<rightharpoonup> host_state) \<Rightarrow> nat \<Rightarrow> host_entry list \<Rightarrow> table_row list" where
  "host_rows states selection visible =
     map (\<lambda>(i, h). host_row states selection i h) (zip [0 ..< length visible] visible)"

definition render_host_table ::
  "fleet_scope \<Rightarrow> host_entry list \<Rightarrow> (string \<rightharpoonup> host_state) \<Rightarrow> rect \<Rightarrow> drawing" where
  "render_host_table f visible states area =
     [(area, WiTable
        \<lparr>tw_header = None, tw_rows = host_rows states (fl_selection f) visible,
         tw_widths = [ConLength 1, ConLength 2, ConMin 10, ConLength 24, ConLength 12], tw_spacing = 1\<rparr>)]"

definition fleet_help :: "bool \<Rightarrow> string" where
  "fleet_help filter_active =
     dotted (if filter_active then [''[Enter] apply'', ''[Esc] clear'', ''[Backspace] delete'']
             else [''[j/k] nav'', ''[/] filter'', ''[Enter] open'', ''[r] reconnect''])"

definition empty_fleet_message :: "host_entry list \<Rightarrow> string \<Rightarrow> string" where
  "empty_fleet_message hosts source =
     (if hosts = [] then
        (if starts_with source ''discovery error:'' then ''Host discovery failed '' @ em_dash @ '' see source label above''
         else ''No SSH hosts configured '' @ em_dash @ '' add entries to ~/.ssh/config or set TEPEGOZ_SSH_HOSTS'')
      else ''No hosts match filter'')"

definition render_fleet_available ::
  "tui \<Rightarrow> fleet_scope \<Rightarrow> host_entry list \<Rightarrow> (string \<rightharpoonup> host_state) \<Rightarrow> string \<Rightarrow> rect \<Rightarrow> panic + drawing" where
  "render_fleet_available t f hosts states source inner =
     (let show_filter_bar = (fl_filter_active f \<or> fl_filter f \<noteq> []);
          chunk = tu_split t (list_constraints show_filter_bar) inner;
          visible = filter (fl_matches (tu_unicode t) f) hosts;
          body = chunk (body_index show_filter_bar)
      in and_then (render_fleet_status_bar (length hosts) (length visible) source (chunk 0))
           (\<lambda>status. Inr (status @
              (if show_filter_bar then render_fleet_filter_bar (fl_filter f) (chunk 1) else []) @
              (if visible = [] then
                 [(body, centered_widget [line_of [styled (empty_fleet_message hosts source) (fg CoDarkGray style_default)]])]
               else render_host_table f visible states body) @
              [(chunk (body_index show_filter_bar + 1),
                text_widget (styled (fleet_help (fl_filter_active f)) (fg CoDarkGray style_default)))])))"

definition render_fleet_tile :: "tui \<Rightarrow> fleet_scope \<Rightarrow> rect \<Rightarrow> bool \<Rightarrow> bool \<Rightarrow> panic + drawing" where
  "render_fleet_tile t f area focused hovered =
     (let inner = tu_inner t area
      in and_then
           (case fl_state f of
              FsConnecting \<Rightarrow>
                Inr [(inner, centered_widget [line_of [styled (''Discovering SSH hosts'' @ ellipsis) (fg CoYellow style_default)]])]
            | FsAvailable hosts states source \<Rightarrow> render_fleet_available t f hosts states source inner)
           (\<lambda>ws. Inr ((area, tile_block (Some ''fleet'') focused hovered) # ws)))"

end
