(* ===== verification/DrawApp.thy ===== *)
theory DrawApp
  imports DrawDocker DrawPorts DrawFleet
begin

text \<open>
  A frame of the TUI: \<open>render_tiles\<close> of \<open>crates/tepegoz-tui/src/session.rs\<close>, with the pane tile
  (\<open>pty_tile.rs\<close>), the placeholder (\<open>scope/placeholder.rs\<close>), the toasts (\<open>toast.rs\<close>), the help overlay
  (\<open>help.rs\<close>) and the host picker (\<open>host_picker.rs\<close>). The screen of a pane is vt100's: the record \<open>vt\<close>.
\<close>

section \<open>The pane tile\<close>

datatype vt_color = VcDefault | VcIdx u8 | VcRgb u8 u8 u8

record vt_cell =
  vc_contents :: string
  vc_fgcolor :: vt_color
  vc_bgcolor :: vt_color
  vc_bold :: bool
  vc_italic :: bool
  vc_underline :: bool
  vc_inverse :: bool

record 'p vt =
  vt_size :: "'p \<Rightarrow> u16 \<times> u16" \<comment> \<open>rows and columns\<close>
  vt_cell_at :: "'p \<Rightarrow> u16 \<Rightarrow> u16 \<Rightarrow> vt_cell option"
  vt_hide_cursor :: "'p \<Rightarrow> bool"
  vt_cursor_position :: "'p \<Rightarrow> u16 \<times> u16"

fun convert_color :: "vt_color \<Rightarrow> color option" where
  "convert_color VcDefault = None"
| "convert_color (VcIdx i) = Some (CoIndexed i)"
| "convert_color (VcRgb r g b) = Some (CoRgb r g b)"

definition write_cell :: "vt_cell \<Rightarrow> widget" where
  "write_cell c =
     (let s1 = (case convert_color (vc_fgcolor c) of Some x \<Rightarrow> fg x style_default | None \<Rightarrow> style_default);
          s2 = (case convert_color (vc_bgcolor c) of Some x \<Rightarrow> bg x s1 | None \<Rightarrow> s1);
          s3 = (if vc_bold c then add_modifier MoBold s2 else s2);
          s4 = (if vc_italic c then add_modifier MoItalic s3 else s3);
          s5 = (if vc_underline c then add_modifier MoUnderlined s4 else s4);
          s6 = (if vc_inverse c then add_modifier MoReversed s5 else s5)
      in WiCell (if vc_contents c = [] then '' '' else vc_contents c) s6)"

definition cell_rect :: "u16 \<Rightarrow> u16 \<Rightarrow> rect" where
  "cell_rect x y = \<lparr>r_x = x, r_y = y, r_width = 1, r_height = 1\<rparr>"

definition tab_style :: "tab_strip_hit option \<Rightarrow> string \<Rightarrow> nat \<Rightarrow> style" where
  "tab_style hit txt active =
     (if hit = Some (HitTab active) then add_modifier MoBold style_default
      else if txt = '' '' then style_default
      else add_modifier MoDim (fg CoDarkGray style_default))"

definition tab_strip_widget :: "'p pane_entry list \<Rightarrow> nat \<Rightarrow> widget" where
  "tab_strip_widget panes active =
     lines_widget [line_of (map (\<lambda>(hit, txt). styled txt (tab_style hit txt active)) (render_tab_strip panes active))]"

definition screen_cells :: "'p vt \<Rightarrow> 'p \<Rightarrow> rect \<Rightarrow> u16 \<Rightarrow> u16 \<Rightarrow> drawing" where
  "screen_cells vt p content rows cols =
     concat (map (\<lambda>row. concat (map (\<lambda>col.
       (case vt_cell_at vt p (as_u16 row) (as_u16 col) of
          Some c \<Rightarrow> [(cell_rect (r_x content + as_u16 col) (r_y content + as_u16 row), write_cell c)]
        | None \<Rightarrow> [])) [0 ..< unat cols])) [0 ..< unat rows])"

definition render_pty_tile ::
  "tui \<Rightarrow> 'p vt \<Rightarrow> 'p pane_entry list \<Rightarrow> nat \<Rightarrow> rect \<Rightarrow> bool \<Rightarrow> bool \<Rightarrow> drawing" where
  "render_pty_tile t vt panes active area focused hovered =
     (let inner = tu_inner t area;
          (strip, content) =
            (if 2 \<le> r_height inner
             then (tu_rect_new t (r_x inner) (r_y inner) (r_width inner) 1,
                   tu_rect_new t (r_x inner) (r_y inner + 1) (r_width inner) (r_height inner - 1))
             else (tu_rect_new t (r_x inner) (r_y inner) (r_width inner) 0, inner))
      in (area, tile_block (Some ''pty'') focused hovered) #
         (if 0 < r_height strip then [(strip, tab_strip_widget panes active)] else []) @
         (case nth_opt panes active of
            None \<Rightarrow> []
          | Some entry \<Rightarrow>
              (let p = pe_parser entry;
                   rows = min (r_height content) (fst (vt_size vt p));
                   cols = min (r_width content) (snd (vt_size vt p));
                   (crow, ccol) = vt_cursor_position vt p
               in screen_cells vt p content rows cols @
                  (if focused \<and> \<not> vt_hide_cursor vt p \<and> crow < rows \<and> ccol < cols
                   then [(cell_rect (r_x content + ccol) (r_y content + crow), WiReverse)] else []))))"

section \<open>Placeholder, toasts, help\<close>

definition render_placeholder :: "tui \<Rightarrow> string \<Rightarrow> u8 \<Rightarrow> rect \<Rightarrow> bool \<Rightarrow> bool \<Rightarrow> drawing" where
  "render_placeholder t label eta_phase area focused hovered =
     [(area, tile_block None focused hovered),
      (tu_inner t area, centered_widget
         ([blank_line, centered (line_of [styled label (fg CoGray style_default)])] @
          (if focused then
             [blank_line,
              centered (line_of [styled (''Phase '' @ show_nat (unat eta_phase) @ '' '' @ em_dash @ '' not yet implemented'')
                (add_modifier MoItalic (fg CoDarkGray style_default))])]
           else [])))]"

definition toast_line :: "toast \<Rightarrow> text_line" where
  "toast_line x =
     (let (c, prefix) = (case to_kind x of
          TkSuccess \<Rightarrow> (CoGreen, ''ok:'') | TkError \<Rightarrow> (CoRed, ''err:'') | TkInfo \<Rightarrow> (CoCyan, ''info:''))
      in line_of [styled ('' '' @ prefix @ '' '') (add_modifier MoBold (fg c style_default)),
                  styled (to_message x) (fg c style_default)])"

text \<open>\<open>rev().take(n).rev()\<close>: the last ones, in their order.\<close>

definition render_toasts :: "tui \<Rightarrow> toast list \<Rightarrow> tile_layout \<Rightarrow> drawing" where
  "render_toasts t toasts layout =
     (if toasts = [] then []
      else case rect_of layout TileClaudeCode of
             None \<Rightarrow> []
           | Some anchor \<Rightarrow>
               (let height = as_u16 (min (length toasts) MAX_TOASTS)
                in if height = 0 \<or> r_y anchor = 0 then []
                   else
                     (let area = tu_rect_new t (r_x anchor) (saturating_sub (r_y anchor) height) (r_width anchor) height
                      in [(area, WiClear),
                          (area, lines_widget (map toast_line (rev (take MAX_TOASTS (rev toasts)))))])))"

definition HELP_OVERLAY_WIDTH :: u16 where "HELP_OVERLAY_WIDTH = 60"
definition HELP_OVERLAY_HEIGHT :: u16 where "HELP_OVERLAY_HEIGHT = 20"

definition cyan_bold :: style where
  "cyan_bold = add_modifier MoBold (fg CoCyan style_default)"

definition help_lines :: "text_line list" where
  "help_lines =
     (let heading = add_modifier MoBold style_default;
          plain = (\<lambda>s. line_of [raw s]);
          keys = (\<lambda>ks rest. plain (''   '' @ dotted ks @ rest))
      in [blank_line,
          line_of [styled '' tile focus'' heading],
          keys [''Tab'', ''Shift-Tab''] (''     cycle tile focus (PTY '' @ right_arrow @ '' shell)''),
          keys [''mouse click         focus tile'', ''select row''] [],
          blank_line,
          line_of [styled '' inside a focused scope tile'' heading],
          keys [''j'', ''k'', down_arrow, up_arrow] ''       navigate rows'',
          plain ''   Enter               primary action on selected row'',
          plain ''   /                   start filter'',
          plain ''   Esc                 cancel / back'',
          plain ''   Ctrl-b t            retarget host (Docker tile)'',
          blank_line,
          line_of [styled '' session'' heading],
          plain ''   Ctrl-b d            detach'',
          plain ''   Ctrl-b ?            toggle this help'',
          blank_line,
          line_of [styled '' any key or click dismisses the overlay''
            (add_modifier MoItalic (fg CoDarkGray style_default))]])"

text \<open>A box of at most the given size in the middle of the frame.\<close>

definition middle :: "tui \<Rightarrow> rect \<Rightarrow> u16 \<Rightarrow> u16 \<Rightarrow> rect" where
  "middle t area width height =
     tu_rect_new t (r_x area + (r_width area - width) div 2) (r_y area + (r_height area - height) div 2) width height"

definition modal_block :: "string \<Rightarrow> widget" where
  "modal_block title = WiBlock \<lparr>bl_title = Some (styled title cyan_bold), bl_border = fg CoCyan style_default\<rparr>"

definition hint_line :: "tui \<Rightarrow> rect \<Rightarrow> string \<Rightarrow> drawing" where
  "hint_line t area text =
     [(tu_rect_new t (r_x area) (r_y area) (r_width area) 1, text_widget (styled text cyan_bold))]"

definition render_help :: "tui \<Rightarrow> rect \<Rightarrow> drawing" where
  "render_help t area =
     (let width = min (r_width area) HELP_OVERLAY_WIDTH; height = min (r_height area) HELP_OVERLAY_HEIGHT
      in if width < 20 \<or> height < 8 then hint_line t area ''help: Ctrl-b ? again to close''
         else
           (let box = middle t area width height
            in [(box, WiClear), (box, modal_block (dotted ['' help'', ''Ctrl-b ? toggles ''])),
                (tu_inner t box, lines_widget help_lines)]))"

section \<open>The host picker\<close>

definition HOST_PICKER_WIDTH :: u16 where "HOST_PICKER_WIDTH = 68"
definition HOST_PICKER_CHROME :: u16 where "HOST_PICKER_CHROME = 5"

fun target_tile_label :: "host_picker_target_tile \<Rightarrow> string" where
  "target_tile_label HpDocker = ''docker''"
| "target_tile_label HpPorts = ''ports''"
| "target_tile_label HpProcesses = ''processes''"

text \<open>Its own copy of \<open>state_glyph\<close>: \<open>Disconnected\<close> has another colour there.\<close>

fun picker_glyph :: "host_state \<Rightarrow> string \<times> color" where
  "picker_glyph HsConnected = ([CHR 0xE2, CHR 0x97, CHR 0x8F], CoGreen)"
| "picker_glyph HsConnecting = ([CHR 0xE2, CHR 0x97, CHR 0x90], CoYellow)"
| "picker_glyph HsDegraded = ([CHR 0xE2, CHR 0x97, CHR 0x90], CoYellow)"
| "picker_glyph HsDisconnected = ([CHR 0xE2, CHR 0x97, CHR 0x8B], CoGray)"
| "picker_glyph HsAuthFailed = ([CHR 0xE2, CHR 0x9A, CHR 0xA0], CoRed)"
| "picker_glyph HsHostKeyMismatch = ([CHR 0xE2, CHR 0x9A, CHR 0xA0], CoRed)"
| "picker_glyph HsAgentNotDeployed = ([CHR 0xE2, CHR 0x9A, CHR 0xA0], CoRed)"
| "picker_glyph HsAgentVersionMismatch = ([CHR 0xE2, CHR 0x9A, CHR 0xA0], CoRed)"

fun state_annotation :: "host_state \<Rightarrow> string" where
  "state_annotation HsDisconnected = ''(not connected)''"
| "state_annotation HsConnecting = ''(connecting)''"
| "state_annotation HsConnected = ''connected''"
| "state_annotation HsDegraded = ''(degraded)''"
| "state_annotation HsAuthFailed = ''(auth failed)''"
| "state_annotation HsHostKeyMismatch = ''(host-key mismatch)''"
| "state_annotation HsAgentNotDeployed = ''(agent not deployed)''"
| "state_annotation HsAgentVersionMismatch = ''(agent version mismatch)''"

definition annotation_for :: "host_state \<Rightarrow> bool \<Rightarrow> bool \<Rightarrow> string \<Rightarrow> string" where
  "annotation_for state usable has_capability required =
     (if usable then '' connected''
      else if state = HsConnected \<and> \<not> has_capability then '' (no '' @ required @ '')''
      else '' '' @ state_annotation state)"

definition format_row :: "host_picker_row \<Rightarrow> bool \<Rightarrow> string \<Rightarrow> text_line" where
  "format_row row selected required =
     (let marker_style = (if selected then cyan_bold else style_default);
          label_style = (if selected then add_modifier MoBold style_default else style_default);
          dim_style = add_modifier MoDim (fg CoDarkGray style_default);
          mark = (if selected then '' '' @ selection_mark @ '' '' else ''   '')
      in case row of
           HrLocal \<Rightarrow> line_of [styled mark marker_style, styled ''Local'' label_style]
         | HrRemote alias state has_capability usable \<Rightarrow>
             (let (glyph, c) = picker_glyph state
              in line_of
                [styled mark marker_style,
                 styled (pad_right 24 alias)
                   (if usable then label_style
                    else add_modifier (if selected then MoBold else MoDim) dim_style),
                 raw '' '', styled glyph (fg c style_default),
                 styled (annotation_for state usable has_capability required) dim_style]))"

text \<open>A row for each host and the chrome, at most the largest \<open>u16\<close> rows.\<close>

definition picker_height :: "nat \<Rightarrow> u16" where
  "picker_height n = HOST_PICKER_CHROME + (if n < 2 ^ 16 then word_of_nat n else - 1)"

definition picker_lines :: "host_picker_modal \<Rightarrow> host_picker_row list \<Rightarrow> text_line list" where
  "picker_lines m rows =
     [blank_line] @
     map (\<lambda>(i, row). format_row row (i = hp_selected m) (hp_required_capability m)) (zip [0 ..< length rows] rows) @
     [blank_line]"

definition render_host_picker :: "tui \<Rightarrow> rect \<Rightarrow> 'p app \<Rightarrow> drawing" where
  "render_host_picker t area a =
     (case ap_host_picker a of
        None \<Rightarrow> []
      | Some m \<Rightarrow>
          (let rows = host_picker_rows a (hp_required_capability m);
               width = min (r_width area) HOST_PICKER_WIDTH;
               height = min (r_height area) (picker_height (length rows))
           in if width < 30 \<or> height < HOST_PICKER_CHROME + 1 then
                hint_line t area (''too small '' @ em_dash @ '' Esc closes'')
              else
                (let box = middle t area width height;
                     title = dotted
                       ['' '' @ target_tile_label (hp_target_tile m) @ '' target'',
                        up_arrow @ ''/'' @ down_arrow @ ''/j/k select'', ''Enter commits'', ''Esc cancels '']
                 in [(box, WiClear), (box, modal_block title), (tu_inner t box, lines_widget (picker_lines m rows))])))"

section \<open>A frame\<close>

definition render_too_small :: "tui \<Rightarrow> rect \<Rightarrow> drawing" where
  "render_too_small t area =
     [(area, WiBlock \<lparr>bl_title = None, bl_border = fg CoYellow style_default\<rparr>),
      (tu_inner t area, centered_widget
        [blank_line,
         line_of [styled ''Terminal too small for god view'' (add_modifier MoBold (fg CoYellow style_default))],
         blank_line,
         line_of [styled (''Resize to at least 80'' @ [CHR 0xC3, CHR 0x97] @ ''24.'') (fg CoDarkGray style_default)]])]"

definition render_tile :: "tui \<Rightarrow> 'p vt \<Rightarrow> 'p app \<Rightarrow> tile_def \<Rightarrow> panic + drawing" where
  "render_tile t vt a td =
     (let focused = (td_id td = vw_focused (ap_view a));
          hovered = (\<not> focused \<and> ap_hovered_tile a = Some (td_id td));
          area = td_rect td
      in case td_kind td of
           KindPty \<Rightarrow> Inr (render_pty_tile t vt (ap_pane_stack a) (ap_active_pane a) area focused hovered)
         | KindScope ScopeDocker \<Rightarrow> render_docker_tile t (ap_docker a) area focused hovered
         | KindScope ScopePorts \<Rightarrow> Inr (render_ports_tile t (ap_ports a) area focused hovered)
         | KindScope ScopeFleet \<Rightarrow> render_fleet_tile t (ap_fleet a) area focused hovered
         | KindPlaceholder label eta_phase \<Rightarrow> Inr (render_placeholder t label eta_phase area focused hovered)
         | KindTooSmall \<Rightarrow> Inr (render_too_small t area))"

fun render_each :: "tui \<Rightarrow> 'p vt \<Rightarrow> 'p app \<Rightarrow> tile_def list \<Rightarrow> panic + drawing" where
  "render_each t vt a [] = Inr []"
| "render_each t vt a (td # tds) =
     and_then (render_tile t vt a td) (\<lambda>d. and_then (render_each t vt a tds) (\<lambda>ds. Inr (d @ ds)))"

definition render_overlays :: "tui \<Rightarrow> rect \<Rightarrow> 'p app \<Rightarrow> drawing" where
  "render_overlays t area a =
     render_toasts t (ap_toasts a) (vw_layout (ap_view a)) @
     (if ap_help_visible a then render_help t area else []) @
     (if ap_host_picker a \<noteq> None then render_host_picker t area a else [])"

definition render_tiles :: "tui \<Rightarrow> 'p vt \<Rightarrow> rect \<Rightarrow> 'p app \<Rightarrow> panic + drawing" where
  "render_tiles t vt area a =
     (let layout = vw_layout (ap_view a)
      in case tl_tiles layout of
           [td] \<Rightarrow>
             if td_id td = TileTooSmall then Inr (render_too_small t (td_rect td))
             else and_then (render_each t vt a [td]) (\<lambda>ds. Inr (ds @ render_overlays t area a))
         | tds \<Rightarrow> and_then (render_each t vt a tds) (\<lambda>ds. Inr (ds @ render_overlays t area a)))"

end
