(* ===== verification/SshConfig.thy ===== *)
theory SshConfig
  imports Fleet RustText "HOL-Library.List_Lexorder" "HOL-Library.Char_ord"
begin

text \<open>
  Where the list of hosts comes from (\<open>crates/tepegoz-ssh/src/config.rs\<close>, \<open>paths.rs\<close>): tepegoz's own
  config file, the environment, the user's ssh_config. Files, environment and home directories are
  the record \<open>ssh_env\<close>; so are the parsers of \<open>toml\<close> and of \<open>russh-config\<close>, which are third-party.
\<close>

section \<open>The environment\<close>

record toml_host =
  th_alias :: string
  th_hostname :: string
  th_user :: "string option"
  th_port :: "u16 option"
  th_identity_file :: "string option"
  th_proxy_jump :: "string option"
  th_autoconnect :: "bool option"

text \<open>\<open>TepegozConfig\<close>: the table \<open>ssh\<close>, if there, and its list \<open>hosts\<close>, if there.\<close>

type_synonym tepegoz_config = "toml_host list option option"

record russh_host_config =
  rh_host :: string
  rh_user :: string
  rh_port :: u16
  rh_identity_file :: "string list option"
  rh_proxy_jump :: "string option"

record ssh_env =
  ev_var :: "string \<Rightarrow> string option" \<comment> \<open>\<open>std::env::var\<close>\<close>
  ev_var_os :: "string \<Rightarrow> string option"
  ev_home_dir :: "string option"
  ev_config_dir :: "string option"
  ev_data_dir :: "string option"
  ev_exists :: "string \<Rightarrow> bool"
  ev_read :: "string \<Rightarrow> string + string" \<comment> \<open>the error's text, or the contents\<close>
  ev_toml :: "string \<Rightarrow> string + tepegoz_config"
  ev_russh_config :: "string \<Rightarrow> string \<Rightarrow> string + russh_host_config"

section \<open>Paths\<close>

definition config_path :: "ssh_env \<Rightarrow> string option" where
  "config_path ev =
     (case ev_var_os ev ''TEPEGOZ_CONFIG_DIR'' of
        Some d \<Rightarrow> Some (path_join d ''config.toml'')
      | None \<Rightarrow> map_option (\<lambda>d. path_join (path_join d ''tepegoz'') ''config.toml'') (ev_config_dir ev))"

definition known_hosts_path :: "ssh_env \<Rightarrow> string option" where
  "known_hosts_path ev =
     (case ev_var_os ev ''TEPEGOZ_DATA_DIR'' of
        Some d \<Rightarrow> Some (path_join d ''known_hosts'')
      | None \<Rightarrow> map_option (\<lambda>d. path_join (path_join d ''tepegoz'') ''known_hosts'') (ev_data_dir ev))"

definition ssh_config_path :: "ssh_env \<Rightarrow> string option" where
  "ssh_config_path ev = map_option (\<lambda>d. path_join (path_join d ''.ssh'') ''config'') (ev_home_dir ev)"

definition require_known_hosts_path :: "ssh_env \<Rightarrow> ssh_error + string" where
  "require_known_hosts_path ev =
     (case known_hosts_path ev of
        Some p \<Rightarrow> Inr p
      | None \<Rightarrow> Inl (PathResolution ''could not resolve platform data_dir for known_hosts''))"

section \<open>tepegoz's own config file\<close>

definition current_user :: "ssh_env \<Rightarrow> string" where
  "current_user ev =
     (case ev_var ev ''USER'' of
        Some u \<Rightarrow> u
      | None \<Rightarrow> (case ev_var ev ''LOGNAME'' of Some u \<Rightarrow> u | None \<Rightarrow> ''unknown''))"

definition expand_tilde :: "ssh_env \<Rightarrow> string \<Rightarrow> string" where
  "expand_tilde ev path =
     (if path = ''~'' then (case ev_home_dir ev of Some h \<Rightarrow> h | None \<Rightarrow> path)
      else if starts_with path ''~/'' then
        (case ev_home_dir ev of Some h \<Rightarrow> path_join h (drop 2 path) | None \<Rightarrow> path)
      else path)"

definition toml_host_entry :: "ssh_env \<Rightarrow> toml_host \<Rightarrow> host_entry" where
  "toml_host_entry ev h =
     \<lparr>he_alias = th_alias h, he_hostname = th_hostname h,
      he_user = (case th_user h of Some u \<Rightarrow> u | None \<Rightarrow> current_user ev),
      he_port = (case th_port h of Some p \<Rightarrow> p | None \<Rightarrow> 22),
      he_identity_files = (case th_identity_file h of Some p \<Rightarrow> [expand_tilde ev p] | None \<Rightarrow> []),
      he_proxy_jump = th_proxy_jump h\<rparr>"

definition toml_hosts :: "tepegoz_config \<Rightarrow> toml_host list" where
  "toml_hosts cfg = (case cfg of Some (Some hs) \<Rightarrow> hs | _ \<Rightarrow> [])"

definition parse_tepegoz_config :: "ssh_env \<Rightarrow> string \<Rightarrow> ssh_error + host_entry list \<times> string set" where
  "parse_tepegoz_config ev path =
     (case ev_read ev path of
        Inl e \<Rightarrow> Inl (SshIo e)
      | Inr raw \<Rightarrow>
          (case ev_toml ev raw of
             Inl e \<Rightarrow> Inl (TepegozConfig path e)
           | Inr cfg \<Rightarrow>
               Inr (map (toml_host_entry ev) (toml_hosts cfg),
                    set (map th_alias (filter (\<lambda>h. th_autoconnect h = Some True) (toml_hosts cfg))))))"

section \<open>ssh_config\<close>

text \<open>Lines whose first word is \<open>Include\<close> are left out; lines are joined with \<open>\n\<close>.\<close>

definition is_include :: "string \<Rightarrow> bool" where
  "is_include line \<longleftrightarrow>
     trim_start line \<noteq> [] \<and>
     eq_ignore_ascii_case (case split_whitespace (trim_start line) of w # _ \<Rightarrow> w | [] \<Rightarrow> []) ''include''"

definition strip_include_directives :: "string \<Rightarrow> string" where
  "strip_include_directives raw = str_join [CHR 0x0A] (filter (\<lambda>l. \<not> is_include l) (str_lines raw))"

definition parse_one_alias :: "ssh_env \<Rightarrow> string \<Rightarrow> string \<Rightarrow> ssh_error + host_entry" where
  "parse_one_alias ev path alias =
     (case ev_read ev path of
        Inl e \<Rightarrow> Inl (ConfigParse path e)
      | Inr raw \<Rightarrow>
          (case ev_russh_config ev (strip_include_directives raw) alias of
             Inl e \<Rightarrow> Inl (ConfigParse path e)
           | Inr cfg \<Rightarrow>
               Inr \<lparr>he_alias = alias, he_hostname = rh_host cfg, he_user = rh_user cfg, he_port = rh_port cfg,
                    he_identity_files = (case rh_identity_file cfg of Some fs \<Rightarrow> fs | None \<Rightarrow> []),
                    he_proxy_jump = rh_proxy_jump cfg\<rparr>))"

text \<open>A loop with \<open>?\<close> in its body: the first error ends it.\<close>

fun try_each :: "('a \<Rightarrow> 'e + 'b) \<Rightarrow> 'a list \<Rightarrow> 'e + 'b list" where
  "try_each f [] = Inr []"
| "try_each f (x # xs) =
     (case f x of
        Inl e \<Rightarrow> Inl e
      | Inr y \<Rightarrow> (case try_each f xs of Inl e \<Rightarrow> Inl e | Inr ys \<Rightarrow> Inr (y # ys)))"

definition parse_ssh_config_aliases :: "ssh_env \<Rightarrow> string list \<Rightarrow> ssh_error + host_entry list" where
  "parse_ssh_config_aliases ev aliases =
     (case ssh_config_path ev of
        Some p \<Rightarrow> if ev_exists ev p then try_each (parse_one_alias ev p) aliases else Inr []
      | None \<Rightarrow> Inr [])"

text \<open>A name without wildcards and negation.\<close>

definition concrete :: "string \<Rightarrow> bool" where
  "concrete t \<longleftrightarrow>
     CHR ''*'' \<notin> set t \<and> CHR ''?'' \<notin> set t \<and> \<not> starts_with t ''!'' \<and> t \<noteq> []"

text \<open>The names one line contributes. The slice \<open>trimmed[..4]\<close> panics inside a character.\<close>

definition line_aliases :: "string \<Rightarrow> panic + string list" where
  "line_aliases line =
     (let trimmed = trim line
      in if trimmed = [] \<or> starts_with trimmed ''#'' \<or> length trimmed < 5 then Inr []
         else if is_cont (byte_of (trimmed ! 4)) then Inl SliceInsideChar
         else if \<not> eq_ignore_ascii_case (take 4 trimmed) ''host'' \<or> \<not> is_ascii_whitespace (trimmed ! 4) then Inr []
         else Inr (filter concrete (split_whitespace (drop 5 trimmed))))"

fun collect_aliases :: "string list \<Rightarrow> panic + string list" where
  "collect_aliases [] = Inr []"
| "collect_aliases (l # ls) =
     and_then (line_aliases l) (\<lambda>xs. and_then (collect_aliases ls) (\<lambda>ys. Inr (xs @ ys)))"

text \<open>A \<open>BTreeSet\<close> iterates in the order of the bytes.\<close>

definition btree_set :: "string list \<Rightarrow> string list" where
  "btree_set xs = sort (remdups xs)"

definition parse_all_ssh_config :: "ssh_env \<Rightarrow> string \<Rightarrow> panic + (ssh_error + host_entry list)" where
  "parse_all_ssh_config ev path =
     (case ev_read ev path of
        Inl e \<Rightarrow> Inr (Inl (ConfigParse path e))
      | Inr raw \<Rightarrow>
          and_then (collect_aliases (str_lines raw))
            (\<lambda>xs. Inr (try_each (parse_one_alias ev path) (btree_set xs))))"

section \<open>Discovery\<close>

text \<open>The value of \<open>TEPEGOZ_SSH_HOSTS\<close>.\<close>

definition env_aliases :: "string \<Rightarrow> string list" where
  "env_aliases v = filter (\<lambda>s. s \<noteq> []) (map trim (split_on (CHR '','') v))"

definition existing :: "ssh_env \<Rightarrow> string option \<Rightarrow> string option" where
  "existing ev p = (case p of Some q \<Rightarrow> if ev_exists ev q then Some q else None | None \<Rightarrow> None)"

definition from_ssh_config :: "ssh_env \<Rightarrow> panic + (ssh_error + host_list)" where
  "from_ssh_config ev =
     (case existing ev (ssh_config_path ev) of
        Some path \<Rightarrow>
          and_then (parse_all_ssh_config ev path) (\<lambda>r. Inr (case r of
             Inl e \<Rightarrow> Inl e
           | Inr hosts \<Rightarrow> Inr \<lparr>hl_hosts = hosts, hl_source = HsrcSshConfig path, hl_autoconnect = {}\<rparr>))
      | None \<Rightarrow> Inr (Inr \<lparr>hl_hosts = [], hl_source = HsrcNone, hl_autoconnect = {}\<rparr>))"

definition from_env :: "ssh_env \<Rightarrow> panic + (ssh_error + host_list)" where
  "from_env ev =
     (case ev_var ev ''TEPEGOZ_SSH_HOSTS'' of
        Some val \<Rightarrow>
          if env_aliases val \<noteq> [] then
            Inr (case parse_ssh_config_aliases ev (env_aliases val) of
               Inl e \<Rightarrow> Inl e
             | Inr hosts \<Rightarrow> Inr \<lparr>hl_hosts = hosts, hl_source = HsrcEnv, hl_autoconnect = {}\<rparr>)
          else from_ssh_config ev
      | None \<Rightarrow> from_ssh_config ev)"

definition discover :: "ssh_env \<Rightarrow> panic + (ssh_error + host_list)" where
  "discover ev =
     (case existing ev (config_path ev) of
        Some path \<Rightarrow>
          (case parse_tepegoz_config ev path of
             Inl e \<Rightarrow> Inr (Inl e)
           | Inr (hosts, autoconnect) \<Rightarrow>
               if hosts \<noteq> [] then
                 Inr (Inr \<lparr>hl_hosts = hosts, hl_source = HsrcTepegozConfig path, hl_autoconnect = autoconnect\<rparr>)
               else from_env ev)
      | None \<Rightarrow> from_env ev)"

definition is_override :: "host_source \<Rightarrow> bool" where
  "is_override s = (case s of HsrcTepegozConfig _ \<Rightarrow> True | HsrcEnv \<Rightarrow> True | _ \<Rightarrow> False)"

definition host_list_get :: "host_list \<Rightarrow> string \<Rightarrow> host_entry option" where
  "host_list_get l alias = find (\<lambda>h. he_alias h = alias) (hl_hosts l)"

text \<open>
  Discovery runs on the blocking pool: what its caller \<open>forward_fleet\<close> sees of a panic is the error
  of the join.
\<close>

definition discovery_of :: "panic + (ssh_error + host_list) \<Rightarrow> discovery" where
  "discovery_of r =
     (case r of Inl _ \<Rightarrow> DiscoveryPanicked | Inr (Inl e) \<Rightarrow> DiscoveryFailed e | Inr (Inr l) \<Rightarrow> Discovered l)"

section \<open>Lemmas\<close>

lemma try_each_Inr:
  "try_each f xs = Inr ys \<longleftrightarrow> length ys = length xs \<and> (\<forall>i < length xs. f (xs ! i) = Inr (ys ! i))"
proof (induction xs arbitrary: ys)
  case (Cons x xs)
  show ?case
  proof (cases ys)
    case Nil
    then show ?thesis by (auto split: sum.splits)
  next
    case (Cons y zs)
    have "(\<forall>i < Suc (length xs). f ((x # xs) ! i) = Inr ((y # zs) ! i)) \<longleftrightarrow>
        f x = Inr y \<and> (\<forall>i < length xs. f (xs ! i) = Inr (zs ! i))"
      by (auto simp: less_Suc_eq_0_disj)
    then show ?thesis
      using Cons.IH [of zs] Cons by (auto split: sum.splits)
  qed
qed auto

lemma try_each_map:
  assumes "try_each f xs = Inr ys" "\<And>x y. f x = Inr y \<Longrightarrow> g y = x"
  shows "map g ys = xs"
  using assms(1) assms(2) unfolding try_each_Inr by (auto intro: nth_equalityI)

lemma parse_one_alias_alias: "parse_one_alias ev path alias = Inr h \<Longrightarrow> he_alias h = alias"
  by (auto simp: parse_one_alias_def split: sum.splits)

lemma set_btree_set [simp]: "set (btree_set xs) = set xs"
  by (simp add: btree_set_def)

lemma btree_set_sorted: "sorted (btree_set xs) \<and> distinct (btree_set xs)"
  by (simp add: btree_set_def)

lemma collect_aliases_Inr:
  "collect_aliases ls = Inr xs \<Longrightarrow>
     (\<forall>l \<in> set ls. \<exists>ys. line_aliases l = Inr ys) \<and>
     set xs = {t. \<exists>l \<in> set ls. \<exists>ys. line_aliases l = Inr ys \<and> t \<in> set ys}"
proof (induction ls arbitrary: xs)
  case (Cons l ls)
  then obtain ys zs where "line_aliases l = Inr ys" "collect_aliases ls = Inr zs" "xs = ys @ zs"
    by (auto simp: and_then_Inr_iff)
  with Cons.IH [of zs] show ?case by auto
qed auto

end
