(* ===== verification/SshSession.thy ===== *)
theory SshSession
  imports SshConfig
begin

text \<open>
  Host keys and sessions (\<open>crates/tepegoz-ssh/src/known_hosts.rs\<close>, \<open>session.rs\<close>): trust on first use
  against tepegoz's own known_hosts file, authentication, and \<open>connect_host\<close>. The reading and writing
  of entries is russh's (\<open>check_known_hosts_path\<close>, \<open>learn_known_hosts_path\<close>) and a parameter, with a type \<open>'f\<close> for the state of the file; so are the network and the SSH
  agent, whose answers are inputs.
\<close>

section \<open>The store\<close>

datatype host_key_verdict = HkTrusted | HkUnknown | HkMismatch nat \<comment> \<open>stored line\<close>

text \<open>What russh answers: the entry matches or not, or there is none; a changed key; another error.\<close>

datatype check_result = CrMatch bool | CrKeyChanged nat | CrError string

record ('k, 'f) known_hosts_io =
  kh_check :: "string \<Rightarrow> u16 \<Rightarrow> 'k \<Rightarrow> 'f \<Rightarrow> check_result"
  kh_learn :: "string \<Rightarrow> u16 \<Rightarrow> 'k \<Rightarrow> 'f \<Rightarrow> string + 'f" \<comment> \<open>an error, or the new contents\<close>

definition known_hosts_check ::
  "('k, 'f) known_hosts_io \<Rightarrow> string \<Rightarrow> string \<Rightarrow> u16 \<Rightarrow> 'k \<Rightarrow> 'f \<Rightarrow> ssh_error + host_key_verdict" where
  "known_hosts_check io path hostname port key file =
     (case kh_check io hostname port key file of
        CrMatch True \<Rightarrow> Inr HkTrusted
      | CrMatch False \<Rightarrow> Inr HkUnknown
      | CrKeyChanged line \<Rightarrow> Inr (HkMismatch line)
      | CrError e \<Rightarrow> Inl (KnownHosts path e))"

definition known_hosts_trust ::
  "('k, 'f) known_hosts_io \<Rightarrow> string \<Rightarrow> string \<Rightarrow> u16 \<Rightarrow> 'k \<Rightarrow> 'f \<Rightarrow> (ssh_error + unit) \<times> 'f" where
  "known_hosts_trust io path hostname port key file =
     (case kh_learn io hostname port key file of
        Inl e \<Rightarrow> (Inl (KnownHosts path e), file)
      | Inr f \<Rightarrow> (Inr (), f))"

text \<open>The first word of an entry \<open>trust\<close> writes.\<close>

definition known_hosts_target :: "string \<Rightarrow> u16 \<Rightarrow> string" where
  "known_hosts_target hostname port =
     (if port = 22 then hostname else ''['' @ hostname @ '']:'' @ show_u16 port)"

definition entry_of :: "string \<Rightarrow> string \<Rightarrow> bool" where
  "entry_of target line \<longleftrightarrow>
     (let trimmed = trim_start line
      in trimmed \<noteq> [] \<and> \<not> starts_with trimmed ''#'' \<and>
         (case split_whitespace trimmed of w # _ \<Rightarrow> w | [] \<Rightarrow> []) = target)"

text \<open>
  \<open>forget\<close>: reading the file may fail, with or without the kind \<open>NotFound\<close>, and so may the rewrite.
\<close>

datatype read_result = RrNotFound | RrFailed string | RrContents string

definition known_hosts_forget ::
  "string \<Rightarrow> string \<Rightarrow> u16 \<Rightarrow> read_result \<Rightarrow> string option \<Rightarrow> (ssh_error + nat) \<times> string option" where
  "known_hosts_forget path hostname port file write_error =
     (case file of
        RrNotFound \<Rightarrow> (Inr 0, None)
      | RrFailed e \<Rightarrow> (Inl (KnownHosts path e), None)
      | RrContents raw \<Rightarrow>
          (let target = known_hosts_target hostname port;
               removed = length (filter (entry_of target) (str_lines raw));
               kept = concat (map (\<lambda>l. l @ [CHR 0x0A]) (filter (\<lambda>l. \<not> entry_of target l) (str_lines raw)))
           in if removed = 0 then (Inr 0, None)
              else (case write_error of
                  Some e \<Rightarrow> (Inl (KnownHosts path (''failed to rewrite after forget: '' @ e)), None)
                | None \<Rightarrow> (Inr removed, Some kept))))"

section \<open>The handler of the key exchange\<close>

record tofu_outcome =
  to_verdict :: "host_key_verdict option"
  to_trust_error :: "ssh_error option"

definition tofu_outcome_new :: tofu_outcome where
  "tofu_outcome_new = \<lparr>to_verdict = None, to_trust_error = None\<rparr>"

definition check_server_key ::
  "('k, 'f) known_hosts_io \<Rightarrow> string \<Rightarrow> string \<Rightarrow> u16 \<Rightarrow> 'k \<Rightarrow> tofu_outcome \<times> 'f \<Rightarrow>
     bool \<times> tofu_outcome \<times> 'f" where
  "check_server_key io path hostname port key st =
     (case st of (state, file) \<Rightarrow>
        (case known_hosts_check io path hostname port key file of
           Inr HkTrusted \<Rightarrow> (True, state\<lparr>to_verdict := Some HkTrusted\<rparr>, file)
         | Inr HkUnknown \<Rightarrow>
             (case known_hosts_trust io path hostname port key file of
                (Inl e, file') \<Rightarrow> (False, state\<lparr>to_trust_error := Some e\<rparr>, file')
              | (Inr _, file') \<Rightarrow> (True, state\<lparr>to_verdict := Some HkUnknown\<rparr>, file'))
         | Inr (HkMismatch line) \<Rightarrow> (False, state\<lparr>to_verdict := Some (HkMismatch line)\<rparr>, file)
         | Inl e \<Rightarrow> (False, state\<lparr>to_trust_error := Some e\<rparr>, file)))"

section \<open>Authentication\<close>

datatype agent_identity = AiPublicKey | AiCertificate

text \<open>
  The SSH agent: not there, or its identities, each with the answer to its attempt (an error of the
  exchange, or whether the server took it). The identity files: what loading each gives.
\<close>

datatype agent_env =
  AgNoSocket | AgConnectFailed string | AgIdentitiesFailed string
| AgIdentities "(agent_identity \<times> (string + bool)) list"

datatype key_file = KfKey "string + bool" | KfEncrypted | KfLoadError string

definition is_certificate :: "agent_identity \<times> (string + bool) \<Rightarrow> bool" where
  "is_certificate i \<longleftrightarrow> fst i = AiCertificate"

text \<open>The loops over the identities and the files: success, or the attempts noted.\<close>

fun try_identities :: "(agent_identity \<times> (string + bool)) list \<Rightarrow> bool \<times> string list" where
  "try_identities [] = (False, [])"
| "try_identities ((AiCertificate, r) # ids) = try_identities ids"
| "try_identities ((AiPublicKey, Inr True) # ids) = (True, [])"
| "try_identities ((AiPublicKey, Inr False) # ids) =
     (case try_identities ids of (ok, as) \<Rightarrow> (ok, ''agent identity rejected'' # as))"
| "try_identities ((AiPublicKey, Inl e) # ids) = (False, [''agent sign error: '' @ e])"

fun try_files :: "(string \<times> key_file) list \<Rightarrow> bool \<times> string list" where
  "try_files [] = (False, [])"
| "try_files ((path, f) # fs) =
     (case f of
        KfKey (Inr True) \<Rightarrow> (True, [])
      | _ \<Rightarrow>
          (case try_files fs of
             (ok, as) \<Rightarrow>
               (ok, (case f of
                       KfKey (Inr _) \<Rightarrow> ''IdentityFile '' @ path @ '' rejected''
                     | KfKey (Inl e) \<Rightarrow> ''IdentityFile '' @ path @ '' error: '' @ e
                     | KfEncrypted \<Rightarrow> ''IdentityFile '' @ path @
                         '' is passphrase-protected and no SSH agent unlocked it''
                     | KfLoadError e \<Rightarrow> ''IdentityFile '' @ path @ '' load error: '' @ e) # as)))"

definition try_agent :: "agent_env \<Rightarrow> bool \<times> string list" where
  "try_agent ag =
     (case ag of
        AgNoSocket \<Rightarrow> (False, [''SSH_AUTH_SOCK not set; skipping ssh-agent''])
      | AgConnectFailed e \<Rightarrow> (False, [''ssh-agent connect failed: '' @ e])
      | AgIdentitiesFailed e \<Rightarrow> (False, [''ssh-agent request_identities failed: '' @ e])
      | AgIdentities [] \<Rightarrow> (False, [''ssh-agent connected but holds no identities''])
      | AgIdentities ids \<Rightarrow>
          (let cert_count = length (filter is_certificate ids);
               pk_count = length ids - cert_count
           in case try_identities ids of
                (ok, as) \<Rightarrow>
                  (ok, [''ssh-agent: '' @ show_nat pk_count @ '' public-key identity(ies) attempted''] @
                       (if 0 < cert_count
                        then [show_nat cert_count @ '' certificate identity(ies) in agent skipped (SSH certificates not supported in Phase 5)'']
                        else []) @ as)))"

definition authenticate ::
  "agent_env \<Rightarrow> (string \<times> key_file) list \<Rightarrow> string \<Rightarrow> string \<Rightarrow> string \<Rightarrow> u16 \<Rightarrow> ssh_error + unit" where
  "authenticate ag files user alias hostname port =
     (case try_agent ag of
        (True, _) \<Rightarrow> Inr ()
      | (False, as) \<Rightarrow>
          (case try_files files of
             (True, _) \<Rightarrow> Inr ()
           | (False, bs) \<Rightarrow>
               Inl (AuthFailed alias user hostname port
                 (str_join ''; '' (as @ bs @
                    (if files = [] then [''no IdentityFile declared in ssh_config''] else []))))))"

section \<open>Connecting\<close>

record ssh_session =
  sn_alias :: string
  sn_hostname :: string
  sn_port :: u16

text \<open>
  One attempt to connect: the error that ends it before the server has shown a key, or the key; then
  the error that ends it later, or none. russh fails the connection with an error of its own when the
  handler does not accept the key.
\<close>

record 'k dial =
  di_key :: "string + 'k"
  di_error :: "string option"
  di_rejected :: string
  di_agent :: agent_env
  di_file :: "string \<Rightarrow> key_file" \<comment> \<open>what loading an identity file gives\<close>

definition client_connect ::
  "('k, 'f) known_hosts_io \<Rightarrow> string \<Rightarrow> string \<Rightarrow> u16 \<Rightarrow> 'k dial \<Rightarrow> 'f \<Rightarrow>
     string option \<times> tofu_outcome \<times> 'f" where
  "client_connect io path hostname port d file =
     (case di_key d of
        Inl e \<Rightarrow> (Some e, tofu_outcome_new, file)
      | Inr key \<Rightarrow>
          (case check_server_key io path hostname port key (tofu_outcome_new, file) of
             (True, state, file') \<Rightarrow> (di_error d, state, file')
           | (False, state, file') \<Rightarrow> (Some (di_rejected d), state, file')))"

definition connect_host ::
  "('k, 'f) known_hosts_io \<Rightarrow> string \<Rightarrow> string \<Rightarrow> host_list \<Rightarrow> 'k dial \<Rightarrow> 'f \<Rightarrow>
     (ssh_error + ssh_session) \<times> 'f" where
  "connect_host io path alias hosts d file =
     (case host_list_get hosts alias of
        None \<Rightarrow> (Inl (UnknownAlias alias (host_source_label (hl_source hosts))), file)
      | Some entry \<Rightarrow>
          (case client_connect io path (he_hostname entry) (he_port entry) d file of
             (Some e, state, file') \<Rightarrow>
               (Inl (case to_verdict state of
                   Some (HkMismatch line) \<Rightarrow>
                     HostKeyMismatch alias (he_hostname entry) (he_port entry) path line
                 | _ \<Rightarrow>
                     (case to_trust_error state of
                        Some err \<Rightarrow> err
                      | None \<Rightarrow> ConnectFailed alias (he_hostname entry) (he_port entry) e)), file')
           | (None, state, file') \<Rightarrow>
               (case authenticate (di_agent d) (map (\<lambda>p. (p, di_file d p)) (he_identity_files entry))
                       (he_user entry) alias (he_hostname entry) (he_port entry) of
                  Inl err \<Rightarrow> (Inl err, file')
                | Inr _ \<Rightarrow>
                    (Inr \<lparr>sn_alias = alias, sn_hostname = he_hostname entry, sn_port = he_port entry\<rparr>, file'))))"

text \<open>The error of a channel that cannot be opened, and of a disconnect.\<close>

definition open_session :: "ssh_session \<Rightarrow> string option \<Rightarrow> ssh_error + unit" where
  "open_session s e =
     (case e of
        Some reason \<Rightarrow> Inl (ConnectFailed (sn_alias s) (sn_hostname s) (sn_port s) (''channel_open_session: '' @ reason))
      | None \<Rightarrow> Inr ())"

definition disconnect :: "ssh_session \<Rightarrow> string option \<Rightarrow> ssh_error + unit" where
  "disconnect s e =
     (case e of
        Some reason \<Rightarrow> Inl (ConnectFailed (sn_alias s) (sn_hostname s) (sn_port s) (''disconnect: '' @ reason))
      | None \<Rightarrow> Inr ())"

end
