(* ===== verification/SshProps.thy ===== *)
theory SshProps
  imports SshSession
begin

text \<open>
  Properties of host discovery, of tepegoz's known_hosts file and of trust on first use.
\<close>

section \<open>White space in ASCII text\<close>

definition ascii_ws :: "char \<Rightarrow> bool" where
  "ascii_ws c \<longleftrightarrow> (let n = (of_char c :: nat) in 9 \<le> n \<and> n \<le> 13 \<or> n = 32)"

abbreviation ascii_text :: "string \<Rightarrow> bool" where
  "ascii_text s \<equiv> list_all (\<lambda>c. (of_char c :: nat) < 128) s"

lemma ws_len_ascii: "(of_char c :: nat) < 128 \<Longrightarrow> ws_len (c # s) = (if ascii_ws c then 1 else 0)"
proof -
  assume c: "(of_char c :: nat) < 128"
  have "c \<noteq> CHR 0xC2" "c \<noteq> CHR 0xE1" "c \<noteq> CHR 0xE2" "c \<noteq> CHR 0xE3"
    using c by auto
  then show ?thesis by (auto simp: ws_len.simps ascii_ws_def Let_def split: list.splits)
qed

lemma trim_start_ascii: "ascii_text s \<Longrightarrow> trim_start s = dropWhile ascii_ws s"
  by (induction s) (auto simp: trim_start.simps [of "_ # _"] ws_len_ascii)

lemma trim_end_ascii: "ascii_text s \<Longrightarrow> trim_end s = rev (dropWhile ascii_ws (rev s))"
proof (induction s)
  case (Cons c s)
  then have "trim_start (c # s) = [] \<longleftrightarrow> (\<forall>x \<in> set (c # s). ascii_ws x)"
    by (simp add: trim_start_ascii del: dropWhile.simps)
  with Cons show ?case
    by (auto simp: dropWhile_append)
qed simp

lemma word_ascii:
  "ascii_text s \<Longrightarrow> word s = (takeWhile (\<lambda>c. \<not> ascii_ws c) s, dropWhile (\<lambda>c. \<not> ascii_ws c) s)"
  by (induction s) (auto simp: ws_len_ascii)

lemma ascii_dropWhile: "ascii_text s \<Longrightarrow> ascii_text (dropWhile P s)"
  by (auto simp: list_all_iff dest: set_dropWhileD)

lemma split_whitespace_blank: "ascii_text (c # s) \<Longrightarrow> ascii_ws c \<Longrightarrow> split_whitespace (c # s) = split_whitespace s"
  by (subst (1 2) split_whitespace.simps) (simp add: trim_start.simps [of "c # s"] ws_len_ascii)

lemma split_whitespace_word:
  assumes "ascii_text (c # s)" "\<not> ascii_ws c"
  shows "split_whitespace (c # s) =
    (c # takeWhile (\<lambda>c. \<not> ascii_ws c) s) # split_whitespace (dropWhile (\<lambda>c. \<not> ascii_ws c) s)"
proof -
  have "trim_start (c # s) = c # s" using assms by (simp add: trim_start_ascii)
  moreover have "word (c # s) = (c # takeWhile (\<lambda>c. \<not> ascii_ws c) s, dropWhile (\<lambda>c. \<not> ascii_ws c) s)"
    using word_ascii [OF assms(1)] assms(2) by simp
  ultimately show ?thesis by (subst split_whitespace.simps) (simp del: word.simps)
qed

lemma split_whitespace_all_blank: "ascii_text s \<Longrightarrow> \<forall>c \<in> set s. ascii_ws c \<Longrightarrow> split_whitespace s = []"
  by (induction s) (auto simp: split_whitespace_blank split_whitespace.simps [of "[]"])

lemma split_whitespace_trail:
  "ascii_text (s @ t) \<Longrightarrow> \<forall>c \<in> set t. ascii_ws c \<Longrightarrow> split_whitespace (s @ t) = split_whitespace s"
proof (induction "length s" arbitrary: s rule: less_induct)
  case less
  show ?case
  proof (cases s)
    case Nil
    with less.prems show ?thesis by (simp add: split_whitespace_all_blank split_whitespace.simps [of "[]"])
  next
    case (Cons c u)
    show ?thesis
    proof (cases "ascii_ws c")
      case True
      with Cons less.prems less.hyps [of u] show ?thesis by (simp add: split_whitespace_blank)
    next
      case False
      let ?r = "dropWhile (\<lambda>c. \<not> ascii_ws c) u"
      have tw: "takeWhile (\<lambda>c. \<not> ascii_ws c) (u @ t) = takeWhile (\<lambda>c. \<not> ascii_ws c) u"
        using less.prems(2) by (induction u) (cases t; auto)+
      have dw: "dropWhile (\<lambda>c. \<not> ascii_ws c) (u @ t) = ?r @ t"
        using less.prems(2) by (induction u) (cases t; auto)+
      have "length ?r < length s" using Cons by (simp add: length_dropWhile_le le_imp_less_Suc)
      moreover have "ascii_text (?r @ t)"
        using less.prems(1) Cons ascii_dropWhile [of u] by simp
      ultimately have "split_whitespace (?r @ t) = split_whitespace ?r"
        using less.hyps less.prems(2) by blast
      with Cons False less.prems show ?thesis
        by (simp add: split_whitespace_word tw dw)
    qed
  qed
qed

lemma split_whitespace_trim: "ascii_text s \<Longrightarrow> split_whitespace (trim s) = split_whitespace s"
proof -
  assume s: "ascii_text s"
  let ?d = "dropWhile ascii_ws s"
  have d: "ascii_text ?d" by (rule ascii_dropWhile [OF s])
  have lead: "split_whitespace ?d = split_whitespace s"
    using s by (induction s) (auto simp: split_whitespace_blank)
  let ?blank = "rev (takeWhile ascii_ws (rev ?d))"
  have "trim_end ?d @ ?blank = rev (takeWhile ascii_ws (rev ?d) @ dropWhile ascii_ws (rev ?d))"
    by (simp only: rev_append trim_end_ascii [OF d])
  also have "\<dots> = ?d" by (simp only: takeWhile_dropWhile_id rev_rev_ident)
  finally have split: "trim_end ?d @ ?blank = ?d" .
  have "\<forall>c \<in> set ?blank. ascii_ws c" by (auto dest: set_takeWhileD)
  with split_whitespace_trail [of "trim_end ?d" ?blank] d
  have "split_whitespace ?d = split_whitespace (trim_end ?d)" unfolding split by blast
  then show ?thesis using lead by (simp add: trim_def trim_start_ascii [OF s])
qed

section \<open>The names of an ssh_config file\<close>

text \<open>
  What \<open>Host\<close> lines mean: the first word is \<open>host\<close> in any case, the others are patterns; those without
  wildcard and negation are names.
\<close>

definition host_line_names :: "string \<Rightarrow> string list" where
  "host_line_names line =
     (case split_whitespace line of
        w # ws \<Rightarrow> if map ascii_lower w = ''host'' then filter concrete ws else []
      | [] \<Rightarrow> [])"

lemma is_cont_ascii: "(of_char c :: nat) < 128 \<Longrightarrow> \<not> is_cont (byte_of c)"
  by (auto simp: is_cont_def byte_of_def word_le_nat_alt unsigned_of_nat take_bit_eq_mod)

lemma lower_letter:
  assumes "ascii_lower c = d" "97 \<le> (of_char d :: nat)" "(of_char d :: nat) \<le> 122"
  shows "\<not> ascii_ws c"
proof (cases "65 \<le> (of_char c :: nat) \<and> (of_char c :: nat) \<le> 90")
  case True
  then show ?thesis by (auto simp: ascii_ws_def Let_def)
next
  case False
  with assms(1) have "c = d" by (auto simp: ascii_lower_def)
  with assms(2,3) show ?thesis by (auto simp: ascii_ws_def Let_def)
qed

lemma host_chars:
  assumes "map ascii_lower w = ''host''"
  shows "list_all (\<lambda>c. \<not> ascii_ws c) w" "length w = 4"
proof -
  have "length (map ascii_lower w) = 4" by (simp add: assms)
  then show "length w = 4" by simp
  have "list_all (\<lambda>d. 97 \<le> (of_char d :: nat) \<and> (of_char d :: nat) \<le> 122) (map ascii_lower w)"
    by (simp add: assms)
  then show "list_all (\<lambda>c. \<not> ascii_ws c) w"
    unfolding list_all_iff using lower_letter [OF refl] by auto
qed

lemma trim_head: "ascii_text s \<Longrightarrow> trim s = c # u \<Longrightarrow> \<not> ascii_ws c"
  by (cases "dropWhile ascii_ws s")
     (auto simp: trim_def trim_start_ascii dropWhile_eq_Cons_conv split: if_splits)

lemma is_ascii_whitespace_ws: "is_ascii_whitespace c \<longleftrightarrow> ascii_ws c \<and> c \<noteq> CHR 0x0B"
proof -
  have "(of_char c :: nat) = 11 \<longleftrightarrow> c = CHR 0x0B"
    using of_char_eq_iff [of c "CHR 0x0B", where 'a = nat] by simp
  then show ?thesis by (auto simp: is_ascii_whitespace_def ascii_ws_def Let_def)
qed

lemma line_aliases_ascii:
  assumes "ascii_text line" "CHR 0x0B \<notin> set line"
  shows "line_aliases line = Inr (host_line_names line)"
proof -
  let ?t = "trim line"
  let ?nws = "\<lambda>c. \<not> ascii_ws c"
  have sub: "set ?t \<subseteq> set line"
    using assms(1) by (auto simp: trim_def trim_start_ascii trim_end_ascii ascii_dropWhile dest!: set_dropWhileD)
  then have t: "ascii_text ?t" "CHR 0x0B \<notin> set ?t" using assms by (auto simp: list_all_iff)
  have words: "split_whitespace line = split_whitespace ?t" by (rule split_whitespace_trim [OF assms(1), symmetric])
  show ?thesis
  proof (cases ?t)
    case Nil
    with words show ?thesis by (simp add: line_aliases_def host_line_names_def split_whitespace.simps [of "[]"])
  next
    case (Cons c u)
    define w where "w = takeWhile ?nws ?t"
    define rest where "rest = dropWhile ?nws ?t"
    have wr: "?t = w @ rest" by (simp add: w_def rest_def)
    have c: "\<not> ascii_ws c" by (rule trim_head [OF assms(1) Cons])
    have names: "host_line_names line =
        (if map ascii_lower w = ''host'' then filter concrete (split_whitespace rest) else [])"
      using split_whitespace_word [of c u] t(1) c Cons
      by (simp add: host_line_names_def words w_def rest_def)
    have no_cont: "\<not> is_cont (byte_of (?t ! 4))" if "5 \<le> length ?t"
      using t(1) that by (intro is_cont_ascii) (simp add: list_all_length)
    show ?thesis
    proof (cases "map ascii_lower w = ''host''")
      case True
      note w4 = host_chars(2) [OF True]
      have "ascii_lower c = CHR ''h''" using True Cons c by (simp add: w_def)
      then have hash: "\<not> starts_with ?t ''#''" using Cons by (auto simp: starts_with_def ascii_lower_def)
      show ?thesis
      proof (cases rest)
        case Nil
        with wr w4 names show ?thesis by (simp add: line_aliases_def Let_def split_whitespace.simps [of "[]"])
      next
        case (Cons d v)
        have d: "ascii_ws d" using Cons unfolding rest_def by (metis dropWhile_eq_Cons_conv)
        have "d \<noteq> CHR 0x0B" using t(2) wr Cons by auto
        with d have "is_ascii_whitespace d" by (simp add: is_ascii_whitespace_ws)
        moreover have "?t ! 4 = d" "take 4 ?t = w" "drop 5 ?t = v" "5 \<le> length ?t"
          using w4 Cons by (simp_all add: wr nth_append)
        moreover have "split_whitespace rest = split_whitespace v"
          using t(1) d wr Cons by (simp add: split_whitespace_blank)
        ultimately show ?thesis
          using True hash no_cont names
          by (auto simp: line_aliases_def Let_def eq_ignore_ascii_case_def ascii_lower_def)
      qed
    next
      case False
      have "line_aliases line = Inr []"
      proof (rule ccontr)
        assume ne: "line_aliases line \<noteq> Inr []"
        then have len: "5 \<le> length ?t"
          by (cases "length ?t < 5") (auto simp: line_aliases_def Let_def)
        with ne no_cont have host: "eq_ignore_ascii_case (take 4 ?t) ''host''" "is_ascii_whitespace (?t ! 4)"
          by (auto simp: line_aliases_def Let_def split: if_splits)
        then have lower: "map ascii_lower (take 4 ?t) = ''host''"
          by (simp add: eq_ignore_ascii_case_def ascii_lower_def)
        have "?t = take 4 ?t @ ?t ! 4 # drop 5 ?t"
          using id_take_nth_drop [of 4 ?t] len by simp
        moreover have "takeWhile ?nws (take 4 ?t @ ?t ! 4 # drop 5 ?t) = take 4 ?t"
          using host_chars(1) [OF lower] host(2) by (simp add: takeWhile_append2 list_all_iff is_ascii_whitespace_ws)
        ultimately have "w = take 4 ?t" by (metis w_def)
        with lower False show False by simp
      qed
      with False names show ?thesis by simp
    qed
  qed
qed

lemma str_lines_set: "set l \<subseteq> set s" if "l \<in> set (str_lines s)"
proof -
  have "l \<in> set (str_lines_from acc s) \<Longrightarrow> set l \<subseteq> set acc \<union> set s" for acc
    by (induction acc s rule: str_lines_from.induct)
       (auto simp: strip_cr_def split: if_splits dest: in_set_butlastD)
  from this [of "[]"] that show ?thesis by (simp add: str_lines_def)
qed

lemma collect_aliases_ascii:
  "\<forall>l \<in> set ls. line_aliases l = Inr (f l) \<Longrightarrow> collect_aliases ls = Inr (concat (map f ls))"
  by (induction ls) auto


text \<open>An ssh_config with two hosts, a pattern and a comment, for the examples.\<close>

definition demo_ssh_config :: string where
  "demo_ssh_config = str_join [CHR 0x0A] [''Host b a'', ''# Host c'', ''HOST *'']"

definition demo_ssh_env :: "string \<Rightarrow> ssh_env" where
  "demo_ssh_env raw =
     \<lparr>ev_var = (\<lambda>_. None), ev_var_os = (\<lambda>_. None), ev_home_dir = Some ''/h'', ev_config_dir = None,
      ev_data_dir = None, ev_exists = (\<lambda>p. p = ''/h/.ssh/config''), ev_read = (\<lambda>_. Inr raw),
      ev_toml = (\<lambda>_. Inr None),
      ev_russh_config = (\<lambda>_ a. Inr \<lparr>rh_host = a, rh_user = ''u'', rh_port = 22, rh_identity_file = None,
                                     rh_proxy_jump = None\<rparr>)\<rparr>"

definition demo_host_list :: host_list where
  "demo_host_list =
     \<lparr>hl_hosts = map (\<lambda>a. \<lparr>he_alias = a, he_hostname = a, he_user = ''u'', he_port = 22,
                          he_identity_files = [], he_proxy_jump = None\<rparr>) [''a'', ''b''],
      hl_source = HsrcSshConfig ''/h/.ssh/config'', hl_autoconnect = {}\<rparr>"

lemma demo_discovered: "from_ssh_config (demo_ssh_env demo_ssh_config) = Inr (Inr demo_host_list)"
  by code_simp



section \<open>Forgetting a host\<close>

text \<open>A host name or address without brackets.\<close>

definition plain_hostname :: "string \<Rightarrow> bool" where
  "plain_hostname h \<longleftrightarrow> CHR ''['' \<notin> set h \<and> CHR '']'' \<notin> set h"

lemma target_inj:
  assumes "plain_hostname h" "plain_hostname h'" "known_hosts_target h p = known_hosts_target h' p'"
  shows "h = h' \<and> p = p'"
proof (cases "p = 22 \<or> p' = 22")
  case True
  with assms show ?thesis
    by (auto simp: known_hosts_target_def plain_hostname_def split: if_splits)
next
  case False
  with assms(3) have eq: "h @ CHR '']'' # '':'' @ show_u16 p = h' @ CHR '']'' # '':'' @ show_u16 p'"
    by (simp add: known_hosts_target_def)
  have until: "takeWhile (\<lambda>c. c \<noteq> CHR '']'') (w @ CHR '']'' # r) = w" if "CHR '']'' \<notin> set w" for w r
    using that by (induction w) auto
  have "h = h'"
    using arg_cong [OF eq, of "takeWhile (\<lambda>c. c \<noteq> CHR '']'')"] assms(1,2)
    by (simp add: until plain_hostname_def)
  with eq have "show_u16 p = show_u16 p'" by simp
  then have "digits_val (show_u16 p) = digits_val (show_u16 p')" by simp
  with \<open>h = h'\<close> show ?thesis by (simp add: show_u16_def word_unat_eq_iff)
qed

lemma entry_of_inj: "entry_of t line \<Longrightarrow> entry_of t' line \<Longrightarrow> t = t'"
  by (simp add: entry_of_def Let_def)

text \<open>
  \<open>forget\<close> removes the entries of the host and port it is given, all of them and nothing else:
  the number it returns is theirs, the file it writes has the other lines in their order (comments and
  the entries of every other host or port included), and asked again it finds nothing and writes
  nothing. (Lines that end in CR LF are rewritten with LF, so the file is one without CR.)
\<close>

theorem forget_removes_exactly:
  assumes "CHR 0x0D \<notin> set raw" "plain_hostname h"
    and "known_hosts_forget path h p (RrContents raw) None = (Inr n, out)"
  shows "n = length (filter (entry_of (known_hosts_target h p)) (str_lines raw)) \<and>
    (n = 0 \<longrightarrow> out = None) \<and>
    (0 < n \<longrightarrow> (\<exists>new. out = Some new \<and>
       str_lines new = filter (\<lambda>l. \<not> entry_of (known_hosts_target h p) l) (str_lines raw) \<and>
       known_hosts_forget path h p (RrContents new) None = (Inr 0, None) \<and>
       (\<forall>h' p'. plain_hostname h' \<longrightarrow> (h', p') \<noteq> (h, p) \<longrightarrow>
          filter (entry_of (known_hosts_target h' p')) (str_lines new) =
          filter (entry_of (known_hosts_target h' p')) (str_lines raw))))"
proof -
  let ?t = "known_hosts_target h p"
  let ?kept = "filter (\<lambda>l. \<not> entry_of ?t l) (str_lines raw)"
  let ?new = "concat (map (\<lambda>l. l @ [CHR 0x0A]) ?kept)"
  have line: "CHR 0x0A \<notin> set l \<and> strip_cr l = l" if "l \<in> set (str_lines raw)" for l
    using str_lines_free [OF that] str_lines_set [OF that] assms(1)
    by (auto simp: strip_cr_def dest: last_in_set)
  have lines: "str_lines ?new = ?kept"
    by (rule str_lines_unlines) (simp add: line)
  have none: "filter (entry_of ?t) ?kept = []" by (simp add: filter_empty_conv)
  have again: "known_hosts_forget path h p (RrContents ?new) None = (Inr 0, None)"
    unfolding known_hosts_forget_def by (simp only: read_result.case Let_def lines none list.size simp_thms if_True)
  have others: "filter (entry_of (known_hosts_target h' p')) ?kept =
      filter (entry_of (known_hosts_target h' p')) (str_lines raw)"
    if "plain_hostname h'" "(h', p') \<noteq> (h, p)" for h' p'
  proof -
    have "entry_of (known_hosts_target h' p') l \<Longrightarrow> \<not> entry_of ?t l" for l
      using entry_of_inj target_inj [OF that(1) assms(2)] that(2) by blast
    then show ?thesis by (auto intro: filter_cong)
  qed
  have n: "n = length (filter (entry_of ?t) (str_lines raw))"
    and out: "out = (if n = 0 then None else Some ?new)"
    using assms(3) by (auto simp: known_hosts_forget_def Let_def split: if_splits)
  show ?thesis
    using n out again lines others by auto
qed

definition demo_known_hosts :: string where
  "demo_known_hosts = str_join [CHR 0x0A] [''# tepegoz'', ''a k1'', ''[a]:2 k2'', ''b k3'', ''a k4'']"

theorem forget_removes_exactly_witness:
  "(case known_hosts_forget ''f'' ''a'' 22 (RrContents demo_known_hosts) None of
      (Inr n, Some new) \<Rightarrow>
        n = 2 \<and> str_lines new = [''# tepegoz'', ''[a]:2 k2'', ''b k3''] \<and>
        known_hosts_forget ''f'' ''a'' 22 (RrContents new) None = (Inr 0, None)
    | _ \<Rightarrow> False)"
proof -
  have lines: "filter (\<lambda>l. \<not> entry_of (known_hosts_target ''a'' 22) l) (str_lines demo_known_hosts) =
      [''# tepegoz'', ''[a]:2 k2'', ''b k3'']"
    and count: "length (filter (entry_of (known_hosts_target ''a'' 22)) (str_lines demo_known_hosts)) = 2"
    and plain: "CHR 0x0D \<notin> set demo_known_hosts" "plain_hostname ''a''"
    by code_simp+
  have run: "known_hosts_forget ''f'' ''a'' 22 (RrContents demo_known_hosts) None =
      (Inr 2, Some (concat (map (\<lambda>l. l @ [CHR 0x0A]) [''# tepegoz'', ''[a]:2 k2'', ''b k3''])))"
    using count by (auto simp: known_hosts_forget_def Let_def lines)
  from forget_removes_exactly [OF plain run] show ?thesis
    by (simp add: run lines)
qed

section \<open>Trust on first use\<close>

text \<open>
  What russh promises of the file: an entry it has learned matches from then on; an entry that matches
  goes on matching when an unknown key is learned; and a key that matches is the only one of its
  algorithm for its host and port, any other is a changed one.
\<close>

definition store_laws :: "('k \<Rightarrow> 'a) \<Rightarrow> ('k, 'f) known_hosts_io \<Rightarrow> bool" where
  "store_laws alg io \<longleftrightarrow>
     (\<forall>h p k f f'. kh_learn io h p k f = Inr f' \<longrightarrow> kh_check io h p k f = CrMatch False \<longrightarrow>
        kh_check io h p k f' = CrMatch True) \<and>
     (\<forall>h p k f h' p' k' f'. kh_check io h p k f = CrMatch True \<longrightarrow> kh_check io h' p' k' f = CrMatch False \<longrightarrow>
        kh_learn io h' p' k' f = Inr f' \<longrightarrow> kh_check io h p k f' = CrMatch True) \<and>
     (\<forall>h p k k' f. kh_check io h p k f = CrMatch True \<longrightarrow> alg k' = alg k \<longrightarrow> k' \<noteq> k \<longrightarrow>
        (\<exists>line. kh_check io h p k' f = CrKeyChanged line))"

text \<open>The file after connections to hosts, each with its list of hosts and what it met.\<close>

definition after_connections ::
  "('k, 'f) known_hosts_io \<Rightarrow> string \<Rightarrow> (string \<times> host_list \<times> 'k dial) list \<Rightarrow> 'f \<Rightarrow> 'f" where
  "after_connections io path cs f = fold (\<lambda>(a, hosts, d) f. snd (connect_host io path a hosts d f)) cs f"

lemma store_learned:
  "store_laws alg io \<Longrightarrow> kh_check io h p k f = CrMatch False \<Longrightarrow> kh_learn io h p k f = Inr f' \<Longrightarrow>
     kh_check io h p k f' = CrMatch True"
  unfolding store_laws_def by blast

lemma store_keeps:
  "store_laws alg io \<Longrightarrow> kh_check io h p k f = CrMatch True \<Longrightarrow> kh_check io h' p' k' f = CrMatch False \<Longrightarrow>
     kh_learn io h' p' k' f = Inr f' \<Longrightarrow> kh_check io h p k f' = CrMatch True"
  unfolding store_laws_def by blast

lemma store_changed:
  "store_laws alg io \<Longrightarrow> kh_check io h p k f = CrMatch True \<Longrightarrow> alg k' = alg k \<Longrightarrow> k' \<noteq> k \<Longrightarrow>
     \<exists>line. kh_check io h p k' f = CrKeyChanged line"
  unfolding store_laws_def by blast

text \<open>What the handler does to the file: nothing, or it learns a key that is not known.\<close>

lemma check_server_key_file:
  assumes "check_server_key io path h p k (st, f) = (ok, st', f')"
  shows "(ok \<longrightarrow> kh_check io h p k f = CrMatch True \<and> f' = f \<or>
             kh_check io h p k f = CrMatch False \<and> kh_learn io h p k f = Inr f') \<and>
    (\<not> ok \<longrightarrow> f' = f)"
  using assms
  by (auto simp: check_server_key_def known_hosts_check_def known_hosts_trust_def
      split: check_result.splits bool.splits sum.splits)

lemma check_server_key_keeps:
  assumes "store_laws alg io" "kh_check io h p k f = CrMatch True"
    and "check_server_key io path h' p' k' (st, f) = (ok, st', f')"
  shows "kh_check io h p k f' = CrMatch True"
  using check_server_key_file [OF assms(3)] store_keeps [OF assms(1,2)] assms(2) by blast

lemma client_connect_keeps:
  assumes "store_laws alg io" "kh_check io h p k f = CrMatch True"
    and "client_connect io path h' p' d f = (e, st, f')"
  shows "kh_check io h p k f' = CrMatch True"
  using assms(2,3) check_server_key_keeps [OF assms(1,2)]
  by (auto simp: client_connect_def split: sum.splits prod.splits bool.splits)

lemma connect_host_keeps:
  assumes "store_laws alg io" "kh_check io h p k f = CrMatch True"
  shows "kh_check io h p k (snd (connect_host io path a hosts d f)) = CrMatch True"
proof (cases "host_list_get hosts a")
  case None
  with assms(2) show ?thesis by (simp add: connect_host_def)
next
  case (Some e)
  obtain r st f' where c: "client_connect io path (he_hostname e) (he_port e) d f = (r, st, f')"
    by (cases "client_connect io path (he_hostname e) (he_port e) d f")
  from client_connect_keeps [OF assms c] show ?thesis
    by (simp add: connect_host_def Some c split: option.splits sum.splits)
qed

lemma after_connections_keeps:
  assumes "store_laws alg io" "kh_check io h p k f = CrMatch True"
  shows "kh_check io h p k (after_connections io path cs f) = CrMatch True"
  using assms(2)
  by (induction cs arbitrary: f) (auto simp: after_connections_def intro!: connect_host_keeps [OF assms(1)])

lemma connected_key_matches:
  assumes "store_laws alg io" "host_list_get hosts a = Some e" "di_key d = Inr k"
    and "connect_host io path a hosts d f = (Inr s, f')"
  shows "kh_check io (he_hostname e) (he_port e) k f' = CrMatch True"
proof -
  obtain st where c: "client_connect io path (he_hostname e) (he_port e) d f = (None, st, f')"
    using assms(4) by (auto simp: connect_host_def assms(2) split: option.splits sum.splits prod.splits)
  then have "check_server_key io path (he_hostname e) (he_port e) k (tofu_outcome_new, f) = (True, st, f')"
    by (auto simp: client_connect_def assms(3) split: prod.splits bool.splits)
  from check_server_key_file [OF this] store_learned [OF assms(1)] show ?thesis by blast
qed

text \<open>
  C11. The first key a host has shown is the only one of its algorithm it can show later: once a
  connection to a host and port has succeeded, then after any connections whatever, to it and to other
  hosts, a connection to it that shows another key of that algorithm is refused as a mismatch, before
  any authentication, and leaves the file as it is, under whichever alias it is made.
\<close>

theorem tofu_first_key_wins:
  assumes "store_laws alg io" "host_list_get hosts a = Some e" "di_key d = Inr k"
    and "connect_host io path a hosts d f = (Inr s, f1)"
    and "host_list_get hosts' a' = Some e'" "he_hostname e' = he_hostname e" "he_port e' = he_port e"
    and "di_key d' = Inr k'" "alg k' = alg k" "k' \<noteq> k"
  shows "\<exists>line. connect_host io path a' hosts' d' (after_connections io path cs f1) =
    (Inl (HostKeyMismatch a' (he_hostname e) (he_port e) path line), after_connections io path cs f1)"
proof -
  let ?f = "after_connections io path cs f1"
  have "kh_check io (he_hostname e) (he_port e) k ?f = CrMatch True"
    by (rule after_connections_keeps [OF assms(1) connected_key_matches [OF assms(1-4)]])
  from store_changed [OF assms(1) this assms(9,10)] obtain line
    where "kh_check io (he_hostname e) (he_port e) k' ?f = CrKeyChanged line" by blast
  then show ?thesis
    by (simp add: connect_host_def client_connect_def check_server_key_def known_hosts_check_def
        assms(5-8))
qed

text \<open>A store in memory, with one algorithm.\<close>

definition demo_store :: "(nat, string \<times> u16 \<rightharpoonup> nat) known_hosts_io" where
  "demo_store =
     \<lparr>kh_check = (\<lambda>h p k f. case f (h, p) of
                     None \<Rightarrow> CrMatch False | Some k' \<Rightarrow> if k' = k then CrMatch True else CrKeyChanged 1),
      kh_learn = (\<lambda>h p k f. Inr (f((h, p) \<mapsto> k)))\<rparr>"

definition demo_dial :: "nat \<Rightarrow> nat dial" where
  "demo_dial k =
     \<lparr>di_key = Inr k, di_error = None, di_rejected = ''rejected'',
      di_agent = AgIdentities [(AiPublicKey, Inr True)], di_file = (\<lambda>_. KfEncrypted)\<rparr>"

lemma demo_store_laws: "store_laws (\<lambda>_. ()) demo_store"
  by (auto simp: store_laws_def demo_store_def split: option.splits if_splits)

theorem tofu_first_key_wins_witness:
  "(case connect_host demo_store ''f'' ''a'' demo_host_list (demo_dial 1) Map.empty of
      (Inr _, f1) \<Rightarrow>
        (\<exists>line. fst (connect_host demo_store ''f'' ''a'' demo_host_list (demo_dial 2)
            (after_connections demo_store ''f'' [(''b'', demo_host_list, demo_dial 5)] f1)) =
          Inl (HostKeyMismatch ''a'' ''a'' 22 ''f'' line))
    | _ \<Rightarrow> False)"
proof -
  let ?e = "\<lparr>he_alias = ''a'', he_hostname = ''a'', he_user = ''u'', he_port = 22, he_identity_files = [],
             he_proxy_jump = None\<rparr>"
  have e: "host_list_get demo_host_list ''a'' = Some ?e" by code_simp
  have key: "di_key (demo_dial k) = Inr k" for k by (simp add: demo_dial_def)
  have run: "connect_host demo_store ''f'' ''a'' demo_host_list (demo_dial 1) Map.empty =
      (Inr \<lparr>sn_alias = ''a'', sn_hostname = ''a'', sn_port = 22\<rparr>, [(''a'', 22) \<mapsto> 1])"
    by (simp add: connect_host_def e client_connect_def check_server_key_def known_hosts_check_def
        known_hosts_trust_def demo_store_def demo_dial_def tofu_outcome_new_def authenticate_def try_agent_def
        Let_def is_certificate_def)
  obtain line where "connect_host demo_store ''f'' ''a'' demo_host_list (demo_dial 2)
      (after_connections demo_store ''f'' [(''b'', demo_host_list, demo_dial 5)] [(''a'', 22) \<mapsto> 1]) =
    (Inl (HostKeyMismatch ''a'' (he_hostname ?e) (he_port ?e) ''f'' line),
     after_connections demo_store ''f'' [(''b'', demo_host_list, demo_dial 5)] [(''a'', 22) \<mapsto> 1])"
    using tofu_first_key_wins [OF demo_store_laws e key run e refl refl key refl] by fastforce
  then show ?thesis unfolding run by simp
qed

end
