(* ===== verification/DrawProps.thy ===== *)
theory DrawProps
  imports DrawApp SshProps PropsTiles
begin

text \<open>
  What is drawn and what the keys do: the marked row, the host picker's annotations, the prompt's place,
  and what a renderer can panic on.
\<close>

section \<open>The marked row\<close>

text \<open>A row with the selection mark in its first cell.\<close>

definition marked :: "table_row \<Rightarrow> bool" where
  "marked r \<longleftrightarrow> (case tr_cells r of c # _ \<Rightarrow> starts_with (sp_text c) selection_mark | [] \<Rightarrow> False)"

lemma starts_with_mark [simp]:
  "starts_with (selection_mark @ s) selection_mark" "\<not> starts_with (CHR '' '' # s) selection_mark"
  by (simp_all add: starts_with_def selection_mark_def)

lemma marked_rows:
  "marked (container_row k i c) \<longleftrightarrow> i = k"
  "marked (port_row k i p) \<longleftrightarrow> i = k"
  "marked (process_row t k i q) \<longleftrightarrow> i = k"
  "marked (host_row states k i h) \<longleftrightarrow> i = k"
  using starts_with_mark(1) [of "[]"]
  by (simp_all add: marked_def container_row_def port_row_def process_row_def host_row_def marker_def raw_def
      styled_def Let_def case_prod_beta)

lemma filter_enumerate:
  assumes "\<And>i x. P (f i x) \<longleftrightarrow> i = k"
  shows "filter P (map (\<lambda>(i, x). f i x) (zip [m ..< m + length xs] xs)) =
    (if m \<le> k then (case nth_opt xs (k - m) of Some x \<Rightarrow> [f k x] | None \<Rightarrow> []) else [])"
proof (induction xs arbitrary: m)
  case (Cons x xs)
  have "zip [m ..< m + length (x # xs)] (x # xs) = (m, x) # zip [Suc m ..< Suc m + length xs] xs"
    by (simp add: upt_conv_Cons del: upt_Suc)
  then have step: "filter P (map (\<lambda>(i, x). f i x) (zip [m ..< m + length (x # xs)] (x # xs))) =
      (if m = k then [f k x] else []) @
      (if Suc m \<le> k then (case nth_opt xs (k - Suc m) of Some y \<Rightarrow> [f k y] | None \<Rightarrow> []) else [])"
    using Cons.IH [of "Suc m"] assms by simp
  consider "k < m" | "k = m" | j where "k = m + Suc j" by (metis less_iff_Suc_add add_Suc_right linorder_cases)
  then show ?case unfolding step by cases simp_all
qed simp

lemma filter_enumerate0:
  assumes "\<And>i x. P (f i x) \<longleftrightarrow> i = k"
  shows "filter P (map (\<lambda>(i, x). f i x) (zip [0 ..< length xs] xs)) =
    (case nth_opt xs k of Some x \<Rightarrow> [f k x] | None \<Rightarrow> [])"
  using filter_enumerate [of P f k 0 xs] assms by simp

text \<open>The rows a table lists: those that match its filter.\<close>

definition listed :: "('a \<Rightarrow> bool) \<Rightarrow> 'a list option \<Rightarrow> 'a list" where
  "listed matches rows = (case rows of Some xs \<Rightarrow> filter matches xs | None \<Rightarrow> [])"


section \<open>The selected row may be off the screen\<close>

text \<open>
  What a table shows in an area \<open>h\<close> rows high when it is drawn without a state, as it is here: it starts
  at its first row, below its header.
\<close>

definition drawn_rows :: "nat \<Rightarrow> table_widget \<Rightarrow> table_row list" where
  "drawn_rows h w = take (h - (if tw_header w = None then 0 else 1)) (tw_rows w)"

lemma take_no_mark:
  assumes "\<And>i x. marked (f i x) \<longleftrightarrow> i = k" "h \<le> k"
  shows "filter marked (take h (map (\<lambda>(i, x). f i x) (zip [0 ..< length xs] xs))) = []"
  using assms by (auto simp: filter_empty_conv in_set_conv_nth)

text \<open>
  The table does not scroll: once the selection is further down than the tile is high, no row on
  the screen is marked, and the stop key still acts, without a prompt, on the container selected.
\<close>

theorem selection_off_screen_still_acts:
  assumes "ds_view (ap_docker a) = DvList" "ds_pending_confirm (ap_docker a) = None"
    and "\<not> ds_filter_active (ap_docker a)"
    and "selected_container (x_unicode rt) (ap_docker a) = Some c"
    and "unat (r_height area) - 1 \<le> ds_selection (ap_docker a)"
  shows "(case render_container_table (ap_docker a) (listed (ds_matches (x_unicode rt) (ap_docker a)) (ds_rows (ap_docker a))) area of
      [(_, WiTable w)] \<Rightarrow> filter marked (drawn_rows (unat (r_height area)) w) = []
    | _ \<Rightarrow> False) \<and>
    snd (handle_scope_key rt now (KChar 0x73) a) =
      [send (PDockerAction \<lparr>dar_request_id = ap_next_sub_id a, dar_container_id = dc_id c,
         dar_kind = DaStop, dar_target = ds_target (ap_docker a)\<rparr>), DrawFrame]"
proof
  show "case render_container_table (ap_docker a) (listed (ds_matches (x_unicode rt) (ap_docker a)) (ds_rows (ap_docker a))) area of
      [(_, WiTable w)] \<Rightarrow> filter marked (drawn_rows (unat (r_height area)) w) = []
    | _ \<Rightarrow> False"
    using take_no_mark [of "container_row (ds_selection (ap_docker a))", OF marked_rows(1) assms(5)]
    by (simp add: render_container_table_def drawn_rows_def container_rows_def)
  show "snd (handle_scope_key rt now (KChar 0x73) a) =
      [send (PDockerAction \<lparr>dar_request_id = ap_next_sub_id a, dar_container_id = dc_id c,
         dar_kind = DaStop, dar_target = ds_target (ap_docker a)\<rparr>), DrawFrame]"
    using assms(1-4)
    by (simp add: handle_scope_key_at issue_selected_docker_action_def dispatch_docker_action_def
        alloc_sub_id_def register_action_def Let_def)
qed

definition demo_three :: "(u8 list) app" where
  "demo_three = demo_listed\<lparr>ap_docker := (ap_docker demo_listed)
     \<lparr>ds_state := DsAvailable [demo_container, demo_container, demo_container\<lparr>dc_id := ''c3''\<rparr>] ''sock'',
      ds_selection := 2\<rparr>\<rparr>"

theorem selection_off_screen_still_acts_witness:
  "snd (handle_scope_key demo_rt 5 (KChar 0x73) demo_three) =
     [send (PDockerAction \<lparr>dar_request_id = 6, dar_container_id = ''c3'', dar_kind = DaStop, dar_target = StLocal\<rparr>),
      DrawFrame]"
proof -
  have d: "ds_view (ap_docker demo_three) = DvList" "ds_pending_confirm (ap_docker demo_three) = None"
    "\<not> ds_filter_active (ap_docker demo_three)" "ds_selection (ap_docker demo_three) = 2"
    "ap_next_sub_id demo_three = 6" "ds_target (ap_docker demo_three) = StLocal"
    by (simp_all add: demo_three_def demo_listed_docker)
  have c: "selected_container (x_unicode demo_rt) (ap_docker demo_three) = Some (demo_container\<lparr>dc_id := ''c3''\<rparr>)"
    by (simp add: demo_three_def selected_container_def ds_matches_def demo_listed_docker)
  have "unat (r_height \<lparr>r_x = 0, r_y = 0, r_width = 40, r_height = 3\<rparr>) - 1 \<le> ds_selection (ap_docker demo_three)"
    by (simp add: d(4))
  from selection_off_screen_still_acts [OF d(1-3) c this, of 5] show ?thesis
    by (simp add: d demo_container_def)
qed

section \<open>The prompt's place\<close>

text \<open>A terminal to draw on, for the examples.\<close>

definition demo_tui :: tui where
  "demo_tui =
     \<lparr>tu_rect_new = (\<lambda>x y w h. \<lparr>r_x = x, r_y = y, r_width = w, r_height = h\<rparr>),
      tu_inner = (\<lambda>r. \<lparr>r_x = r_x r + 1, r_y = r_y r + 1, r_width = r_width r - 2, r_height = r_height r - 2\<rparr>),
      tu_split = (\<lambda>cs r i. r\<lparr>r_height := 1\<rparr>), tu_unicode = (\<lambda>s. s), tu_f32 = (\<lambda>_. []), tu_ratio = (\<lambda>_ _. [])\<rparr>"

lemma centered_offset:
  fixes X W w :: u16
  assumes "w \<le> W" "unat X + unat W \<le> 65535"
  shows "unat (X + saturating_sub W w div 2) = unat X + (unat W - unat w) div 2"
proof -
  have d: "unat (saturating_sub W w div 2) = (unat W - unat w) div 2"
    by (simp add: unat_div unat_saturating_sub)
  have "unat X + (unat W - unat w) div 2 < 2 ^ LENGTH(16)"
    using assms(2) by simp
  then show ?thesis using d by (metis unat_add_lem)
qed

lemma confirm_size_fits: "fst (confirm_size r) \<le> r_width r" "snd (confirm_size r) \<le> r_height r"
  by (auto simp: confirm_size_def word_le_nat_alt unat_saturating_sub min_def max_def)

text \<open>
  The prompt of a destructive action is drawn inside the tile it belongs to, whatever the tile's
  size, so no other tile is covered.
\<close>

theorem confirm_modal_inside_tile:
  assumes "rect_new_law (tu_rect_new t)"
    and "unat (r_x r) + unat (r_width r) \<le> 65535" "unat (r_y r) + unat (r_height r) \<le> 65535"
  shows "list_all (\<lambda>(area, w).
      w \<noteq> WiClear \<or>
      unat (r_x r) \<le> unat (r_x area) \<and> unat (r_x area) + unat (r_width area) \<le> unat (r_x r) + unat (r_width r) \<and>
      unat (r_y r) \<le> unat (r_y area) \<and> unat (r_y area) + unat (r_height area) \<le> unat (r_y r) + unat (r_height r) \<and>
      0 < unat (r_width area) \<and> 0 < unat (r_height area))
    (render_confirm_modal t r prompt)"
proof -
  obtain w h where sz: "confirm_size r = (w, h)" by fastforce
  let ?x = "r_x r + saturating_sub (r_width r) w div 2"
  let ?y = "r_y r + saturating_sub (r_height r) h div 2"
  have fits: "w \<le> r_width r" "h \<le> r_height r"
    using confirm_size_fits [of r] by (simp_all add: sz)
  have x: "unat ?x = unat (r_x r) + (unat (r_width r) - unat w) div 2"
    and y: "unat ?y = unat (r_y r) + (unat (r_height r) - unat h) div 2"
    by (rule centered_offset [OF fits(1) assms(2)], rule centered_offset [OF fits(2) assms(3)])
  have le: "unat w \<le> unat (r_width r)" "unat h \<le> unat (r_height r)"
    using fits by (simp_all add: word_le_nat_alt)
  have xr: "unat ?x + unat w \<le> unat (r_x r) + unat (r_width r)"
    and yr: "unat ?y + unat h \<le> unat (r_y r) + unat (r_height r)"
    unfolding x y using le by linarith+
  then have "unat ?x + unat w \<le> 65535" "unat ?y + unat h \<le> 65535"
    using assms(2,3) by linarith+
  then have area: "confirm_area t r = \<lparr>r_x = ?x, r_y = ?y, r_width = w, r_height = h\<rparr>"
    using assms(1) unfolding rect_new_law_def by (simp add: confirm_area_def sz)
  show ?thesis
  proof (cases "w = 0 \<or> h = 0")
    case False
    then have "0 < unat w" "0 < unat h" by (simp_all add: unat_gt_0)
    with False xr yr x y show ?thesis
      by (simp add: render_confirm_modal_def sz area Let_def text_widget_def centered_widget_def)
  qed (auto simp: render_confirm_modal_def sz)
qed

definition demo_tile :: rect where
  "demo_tile = \<lparr>r_x = 1, r_y = 12, r_width = 24, r_height = 4\<rparr>"

theorem confirm_modal_inside_tile_witness:
  "list_all (\<lambda>(area, w). w \<noteq> WiClear \<or> unat (r_x area) + unat (r_width area) \<le> 25 \<and> unat (r_y area) + unat (r_height area) \<le> 16)
     (render_confirm_modal demo_tui demo_tile demo_prompt)"
proof -
  have "rect_new_law (tu_rect_new demo_tui)" by (simp add: rect_new_law_def demo_tui_def)
  from confirm_modal_inside_tile [OF this, of demo_tile demo_prompt]
  show ?thesis by (auto simp: demo_tile_def list_all_iff)
qed

section \<open>The host picker\<close>

text \<open>
  The host picker says \<open>connected\<close> behind exactly the hosts that Enter takes the tile to; behind
  every other host it gives the reason, and Enter does nothing there.
\<close>

theorem picker_annotation_truthful:
  assumes "ap_host_picker a = Some m"
    and "nth_opt (host_picker_rows a (picker_required a)) (hp_selected m) = Some (HrRemote alias s cap usable)"
  shows "if annotation_for s usable cap (picker_required a) = '' connected''
    then ap_host_picker (fst (commit_host_picker a)) = None
    else commit_host_picker a = (a, [])"
proof -
  have "usable = (s = HsConnected \<and> cap)"
  proof -
    have "HrRemote alias s cap usable \<in> set (host_picker_rows a (picker_required a))"
      using assms(2) by (metis nth_mem nth_opt_eq option.distinct(1) option.inject)
    then show ?thesis
      by (auto simp: host_picker_rows_def Let_def split: fleet_scope_state.splits)
  qed
  then have ann: "annotation_for s usable cap (picker_required a) = '' connected'' \<longleftrightarrow> usable"
    by (cases s) (auto simp: annotation_for_def)
  show ?thesis
    using assms by (auto simp: ann commit_host_picker_def retarget_docker_def retarget_ports_def
        retarget_processes_def Let_def split: docker_view.splits host_picker_target_tile.splits)
qed

theorem picker_annotation_truthful_witness:
  "annotation_for HsConnected True True ''docker'' = '' connected'' \<and>
   ap_host_picker (fst (commit_host_picker demo_picking)) = None"
proof -
  have p: "ap_host_picker demo_picking =
      Some \<lparr>hp_target_tile = HpDocker, hp_required_capability = ''docker'', hp_selected = 1\<rparr>"
    by (simp add: demo_picking_def)
  then have req: "picker_required demo_picking = ''docker''"
    by (simp add: picker_required_def)
  have row: "nth_opt (host_picker_rows demo_picking (picker_required demo_picking))
      (hp_selected \<lparr>hp_target_tile = HpDocker, hp_required_capability = ''docker'', hp_selected = 1\<rparr>) =
    Some (HrRemote ''web'' HsConnected True True)"
    unfolding req by (simp add: host_picker_rows_def demo_picking_def)
  from picker_annotation_truthful [OF p row] show ?thesis
    by (simp add: annotation_for_def)
qed

section \<open>A label that cannot be cut\<close>

definition demo_accent_env :: ssh_env where
  "demo_accent_env =
     (let home = ''/home/jos'' @ [CHR 0xC3, CHR 0xA9]
      in (demo_ssh_env demo_ssh_config)\<lparr>ev_home_dir := Some home,
           ev_exists := (\<lambda>p. p = home @ ''/.ssh/config'')\<rparr>)"

text \<open>
  A home directory with an accent in its name ends the TUI: the Fleet tile cuts the label of the
  host list, which names the ssh_config file, at a byte that is inside the accented character when the
  tile is 46 columns wide (a terminal of 136 columns), and the slice panics while the frame is drawn.
\<close>

theorem accented_home_panics_fleet_tile:
  "(case discover demo_accent_env of
      Inr (Inr l) \<Rightarrow>
        render_fleet_tile demo_tui
          \<lparr>fl_state = FsAvailable (hl_hosts l) Map.empty (host_source_label (hl_source l)), fl_selection = 0,
           fl_filter = [], fl_filter_active = False, fl_sub_id = 4\<rparr>
          \<lparr>r_x = 90, r_y = 12, r_width = 46, r_height = 9\<rparr> False False = Inl SliceInsideChar
    | _ \<Rightarrow> False)"
  by code_simp

end
