(* ===== verification/Deploy.thy ===== *)
theory Deploy
  imports SshSession
begin

text \<open>
  Putting the agent on a remote host (\<open>crates/tepegoz-ssh/src/deploy.rs\<close>): finding out its platform,
  comparing and uploading the binary, starting it, and the handshake. The remote host answers shell
  commands: it is a function from its state, the command and the standard input to what the SSH
  channel carried, and the new state. SHA-256 is the argument \<open>sha\<close> (the hex text of the digest), rkyv
  and the Debug output of payloads are arguments too.
\<close>

definition EXEC_TIMEOUT :: nat where "EXEC_TIMEOUT = 30"
definition UPLOAD_TIMEOUT :: nat where "UPLOAD_TIMEOUT = 120"
definition HANDSHAKE_TIMEOUT :: nat where "HANDSHAKE_TIMEOUT = 5"

section \<open>Running a command\<close>

datatype exec_msg = EmData "u8 list" | EmExtendedData u32 "u8 list" | EmExitStatus u32 | EmOther

text \<open>What happened on the channel: the first step that failed, and the messages up to its close.\<close>

record exec_io =
  xi_open :: "ssh_error option"
  xi_exec :: "string option"
  xi_data :: "string option"
  xi_eof :: "string option"
  xi_msgs :: "exec_msg list"
  xi_timed_out :: bool

record exec_output =
  eo_stdout :: string
  eo_stderr :: string
  eo_exit_status :: u32

fun stdout_of :: "exec_msg list \<Rightarrow> u8 list" where
  "stdout_of [] = []"
| "stdout_of (EmData d # ms) = d @ stdout_of ms"
| "stdout_of (_ # ms) = stdout_of ms"

fun stderr_of :: "exec_msg list \<Rightarrow> u8 list" where
  "stderr_of [] = []"
| "stderr_of (EmExtendedData ext d # ms) = (if ext = 1 then d else []) @ stderr_of ms"
| "stderr_of (_ # ms) = stderr_of ms"

fun exit_status_of :: "u32 option \<Rightarrow> exec_msg list \<Rightarrow> u32 option" where
  "exit_status_of st [] = st"
| "exit_status_of st (EmExitStatus code # ms) = exit_status_of (Some code) ms"
| "exit_status_of st (_ # ms) = exit_status_of st ms"

definition run_exec_inner :: "string \<Rightarrow> u8 list \<Rightarrow> exec_io \<Rightarrow> ssh_error + exec_output" where
  "run_exec_inner cmd stdin io =
     (case xi_open io of
        Some e \<Rightarrow> Inl e
      | None \<Rightarrow>
          (case xi_exec io of
             Some e \<Rightarrow> Inl (DeployFailed ''exec'' (''exec '' @ backquote cmd @ '': '' @ e))
           | None \<Rightarrow>
               (case (if stdin = [] then None else xi_data io) of
                  Some e \<Rightarrow> Inl (DeployFailed ''exec'' (''write stdin for '' @ backquote cmd @ '': '' @ e))
                | None \<Rightarrow>
                    (case xi_eof io of
                       Some e \<Rightarrow> Inl (DeployFailed ''exec'' (''eof for '' @ backquote cmd @ '': '' @ e))
                     | None \<Rightarrow>
                         Inr \<lparr>eo_stdout = from_utf8_lossy (stdout_of (xi_msgs io)),
                              eo_stderr = from_utf8_lossy (stderr_of (xi_msgs io)),
                              eo_exit_status =
                                (case exit_status_of None (xi_msgs io) of Some c \<Rightarrow> c | None \<Rightarrow> 255)\<rparr>))))"

type_synonym 'r remote = "'r \<Rightarrow> string \<Rightarrow> u8 list \<Rightarrow> exec_io \<times> 'r"
type_synonym ('r, 'a) remote_op = "'r \<Rightarrow> (ssh_error + 'a) \<times> 'r"

definition run_exec :: "'r remote \<Rightarrow> string \<Rightarrow> u8 list \<Rightarrow> nat \<Rightarrow> ('r, exec_output) remote_op" where
  "run_exec rx cmd stdin timeout r =
     (case rx r cmd stdin of
        (io, r') \<Rightarrow>
          (if xi_timed_out io
           then Inl (DeployFailed ''exec'' (backquote cmd @ '' timed out after '' @ show_nat timeout @ '' s''))
           else run_exec_inner cmd stdin io, r'))"

text \<open>Sequencing with \<open>?\<close>.\<close>

definition rbind :: "('r, 'a) remote_op \<Rightarrow> ('a \<Rightarrow> ('r, 'b) remote_op) \<Rightarrow> ('r, 'b) remote_op" where
  "rbind m f r = (case m r of (Inl e, r') \<Rightarrow> (Inl e, r') | (Inr x, r') \<Rightarrow> f x r')"

definition rlift :: "ssh_error + 'a \<Rightarrow> ('r, 'a) remote_op" where
  "rlift x r = (x, r)"

text \<open>A command whose exit status must be 0.\<close>

definition exited :: "string \<Rightarrow> exec_output \<Rightarrow> string" where
  "exited what out = what @ '' exited '' @ show_u32 (eo_exit_status out) @ '': '' @ trim (eo_stderr out)"

definition run_ok :: "'r remote \<Rightarrow> string \<Rightarrow> string \<Rightarrow> string \<Rightarrow> u8 list \<Rightarrow> nat \<Rightarrow> ('r, exec_output) remote_op" where
  "run_ok rx stage what cmd stdin timeout =
     rbind (run_exec rx cmd stdin timeout) (\<lambda>out.
       rlift (if eo_exit_status out \<noteq> 0 then Inl (DeployFailed stage (exited what out)) else Inr out))"

section \<open>The platform\<close>

record detected_target =
  dt_os :: string
  dt_arch :: string
  dt_target_triple :: string

definition arrow_text :: "string \<Rightarrow> string \<Rightarrow> string" where
  "arrow_text a b = a @ '' '' @ [CHR 0xE2, CHR 0x86, CHR 0x92] @ '' '' @ b"

definition supported_platforms :: "string list" where
  "supported_platforms =
     [arrow_text ''Linux x86_64'' ''x86_64-unknown-linux-musl'',
      arrow_text ''Linux aarch64'' ''aarch64-unknown-linux-musl'',
      arrow_text ''Darwin x86_64'' ''x86_64-apple-darwin'',
      arrow_text ''Darwin arm64'' ''aarch64-apple-darwin'']"

definition triple_of :: "string \<Rightarrow> string \<Rightarrow> string option" where
  "triple_of os arch =
     (if os = ''linux'' \<and> (arch = ''x86_64'' \<or> arch = ''amd64'') then Some ''x86_64-unknown-linux-musl''
      else if os = ''linux'' \<and> (arch = ''aarch64'' \<or> arch = ''arm64'') then Some ''aarch64-unknown-linux-musl''
      else if os = ''darwin'' \<and> arch = ''x86_64'' then Some ''x86_64-apple-darwin''
      else if os = ''darwin'' \<and> (arch = ''arm64'' \<or> arch = ''aarch64'') then Some ''aarch64-apple-darwin''
      else None)"

definition parse_uname_sm :: "(string \<Rightarrow> string) \<Rightarrow> string \<Rightarrow> ssh_error + detected_target" where
  "parse_uname_sm unicode line =
     (let parts = split_whitespace line;
          os_raw = (case nth_opt parts 0 of Some w \<Rightarrow> w | None \<Rightarrow> []);
          arch_raw = (case nth_opt parts 1 of Some w \<Rightarrow> w | None \<Rightarrow> []);
          os_norm = to_lowercase unicode os_raw
      in case triple_of os_norm arch_raw of
           Some triple \<Rightarrow> Inr \<lparr>dt_os = os_norm, dt_arch = arch_raw, dt_target_triple = triple\<rparr>
         | None \<Rightarrow> Inl (UnsupportedPlatform os_raw arch_raw supported_platforms))"

definition detect_target :: "(string \<Rightarrow> string) \<Rightarrow> 'r remote \<Rightarrow> ('r, detected_target) remote_op" where
  "detect_target unicode rx =
     rbind (run_ok rx ''detect_target'' ''uname -sm'' ''uname -sm'' [] EXEC_TIMEOUT) (\<lambda>out.
       rlift (parse_uname_sm unicode (trim (eo_stdout out))))"

section \<open>Commands\<close>

fun quote_chars :: "string \<Rightarrow> string" where
  "quote_chars [] = []"
| "quote_chars (c # s) =
     (if c = CHR 0x27 then [CHR 0x27, CHR 0x5C, CHR 0x27, CHR 0x27] else [c]) @ quote_chars s"

definition shell_quote :: "string \<Rightarrow> string" where
  "shell_quote s = [CHR 0x27] @ quote_chars s @ [CHR 0x27]"

definition hash_command :: "string \<Rightarrow> string \<Rightarrow> string" where
  "hash_command os path =
     (if os = ''darwin'' then ''shasum -a 256 -b '' @ shell_quote path
      else ''sha256sum -b '' @ shell_quote path)"

definition stat_command :: "string \<Rightarrow> string \<Rightarrow> string" where
  "stat_command os path =
     (if os = ''darwin'' then ''stat -f '' @ squote ''%z %m'' @ '' '' @ shell_quote path
      else ''stat -c '' @ squote ''%s %Y'' @ '' '' @ shell_quote path)"

definition presence_command :: "string \<Rightarrow> string" where
  "presence_command path = ''[ -f '' @ shell_quote path @ '' ] && echo present || echo absent''"

definition mkdir_command :: "string \<Rightarrow> string" where
  "mkdir_command dir = ''mkdir -p '' @ shell_quote dir"

definition cat_command :: "string \<Rightarrow> string" where
  "cat_command path = ''cat > '' @ shell_quote path"

definition rm_command :: "string \<Rightarrow> string" where
  "rm_command path = ''rm -f '' @ shell_quote path"

definition finalize_command :: "string \<Rightarrow> string \<Rightarrow> string" where
  "finalize_command tmp path =
     ''mv '' @ shell_quote tmp @ '' '' @ shell_quote path @ '' && chmod +x '' @ shell_quote path"

definition home_command :: string where
  "home_command = ''echo '' @ [CHR 0x22] @ ''$HOME'' @ [CHR 0x22]"

definition is_hexdigit :: "char \<Rightarrow> bool" where
  "is_hexdigit c \<longleftrightarrow>
     (let n = (of_char c :: nat) in 48 \<le> n \<and> n \<le> 57 \<or> 65 \<le> n \<and> n \<le> 70 \<or> 97 \<le> n \<and> n \<le> 102)"

definition parse_hash_output :: "(string \<Rightarrow> string) \<Rightarrow> string \<Rightarrow> ssh_error + string" where
  "parse_hash_output unicode raw =
     (case split_whitespace raw of
        [] \<Rightarrow> Inl (DeployFailed ''hash_parse'' ''empty hash output'')
      | token # _ \<Rightarrow>
          if length token \<noteq> 64 \<or> \<not> list_all is_hexdigit token
          then Inl (DeployFailed ''hash_parse''
                 (''hash token '' @ debug_str unicode token @ '' isn'' @ [CHR 0x27] @ ''t a 64-char hex digest''))
          else Inr (map ascii_lower token))"

definition parse_u64 :: "string \<Rightarrow> u64 option" where
  "parse_u64 s = map_option word_of_nat (parse_uint (2 ^ 64) s)"

definition parse_stat_output :: "(string \<Rightarrow> string) \<Rightarrow> string \<Rightarrow> ssh_error + u64 \<times> u64" where
  "parse_stat_output unicode raw =
     (let parts = split_whitespace raw; apos = [CHR 0x27]
      in case Option.bind (nth_opt parts 0) parse_u64 of
           None \<Rightarrow> Inl (DeployFailed ''stat_parse'' (''couldn'' @ apos @ ''t parse size from '' @ debug_str unicode raw))
         | Some len \<Rightarrow>
             (case Option.bind (nth_opt parts 1) parse_u64 of
                None \<Rightarrow> Inl (DeployFailed ''stat_parse''
                          (''couldn'' @ apos @ ''t parse mtime from '' @ debug_str unicode raw))
              | Some mtime \<Rightarrow> Inr (len, mtime)))"

section \<open>Inspection\<close>

datatype remote_agent_status =
  RaAbsent
| RaPresent string bool u64 u64 \<comment> \<open>hash, whether it is the expected one, size, time\<close>

definition inspect_remote_agent ::
  "(string \<Rightarrow> string) \<Rightarrow> 'r remote \<Rightarrow> string \<Rightarrow> string \<Rightarrow> detected_target \<Rightarrow> ('r, remote_agent_status) remote_op" where
  "inspect_remote_agent unicode rx path expected target =
     rbind (run_exec rx (presence_command path) [] EXEC_TIMEOUT) (\<lambda>presence.
       let word = trim (eo_stdout presence)
       in if word = ''absent'' then rlift (Inr RaAbsent)
          else if word \<noteq> ''present'' then
            rlift (Inl (DeployFailed ''inspect''
              (''presence check returned unexpected output '' @ debug_str unicode word)))
          else
            rbind (run_ok rx ''inspect_hash'' (backquote (hash_command (dt_os target) path))
                     (hash_command (dt_os target) path) [] EXEC_TIMEOUT) (\<lambda>hash_out.
            rbind (rlift (parse_hash_output unicode (eo_stdout hash_out))) (\<lambda>sha256.
            rbind (run_exec rx (stat_command (dt_os target) path) [] EXEC_TIMEOUT) (\<lambda>stat_out.
              let (len, mtime) =
                    (if eo_exit_status stat_out = 0
                     then (case parse_stat_output unicode (eo_stdout stat_out) of Inr p \<Rightarrow> p | Inl _ \<Rightarrow> (0, 0))
                     else (0, 0))
              in rlift (Inr (RaPresent sha256 (sha256 = expected) len mtime))))))"

section \<open>Deployment\<close>

definition resolve_remote_home :: "'r remote \<Rightarrow> ('r, string) remote_op" where
  "resolve_remote_home rx =
     rbind (run_ok rx ''resolve_home'' ''echo $HOME'' home_command [] EXEC_TIMEOUT) (\<lambda>out.
       let home = trim (eo_stdout out)
       in rlift (if home = [] then Inl (DeployFailed ''resolve_home'' ''remote $HOME is empty'') else Inr home))"

definition remote_dir_of :: "string \<Rightarrow> string" where
  "remote_dir_of home = home @ ''/.cache/tepegoz''"

definition remote_path_of :: "string \<Rightarrow> u32 \<Rightarrow> string" where
  "remote_path_of home protocol_version = remote_dir_of home @ ''/agent-v'' @ show_u32 protocol_version"

definition remote_agent_path :: "'r remote \<Rightarrow> u32 \<Rightarrow> ('r, string) remote_op" where
  "remote_agent_path rx protocol_version =
     rbind (resolve_remote_home rx) (\<lambda>home. rlift (Inr (remote_path_of home protocol_version)))"

definition tmp_path_of :: "u32 \<Rightarrow> string \<Rightarrow> string" where
  "tmp_path_of pid path = path @ ''.tmp.'' @ show_u32 pid"

text \<open>\<open>let _ = run_exec(..)\<close>: the result is dropped, the effect is not.\<close>

definition run_ignored :: "'r remote \<Rightarrow> string \<Rightarrow> 'r \<Rightarrow> 'r" where
  "run_ignored rx cmd r = snd (run_exec rx cmd [] EXEC_TIMEOUT r)"

definition upload_binary ::
  "'r remote \<Rightarrow> u32 \<Rightarrow> u8 list \<Rightarrow> string \<Rightarrow> string \<Rightarrow> ('r, unit) remote_op" where
  "upload_binary rx pid bytes dir path =
     rbind (run_ok rx ''mkdir'' (backquote (mkdir_command dir)) (mkdir_command dir) [] EXEC_TIMEOUT) (\<lambda>_.
     let tmp = tmp_path_of pid path
     in rbind (run_exec rx (cat_command tmp) bytes UPLOAD_TIMEOUT) (\<lambda>upload.
        if eo_exit_status upload \<noteq> 0 then
          (\<lambda>r. (Inl (DeployFailed ''upload'' (exited (backquote (cat_command tmp)) upload)),
                run_ignored rx (rm_command tmp) r))
        else
          rbind (run_ok rx ''finalize'' (backquote (finalize_command tmp path)) (finalize_command tmp path) []
                   EXEC_TIMEOUT) (\<lambda>_. rlift (Inr ()))))"

definition compute_remote_hash ::
  "(string \<Rightarrow> string) \<Rightarrow> 'r remote \<Rightarrow> string \<Rightarrow> detected_target \<Rightarrow> ('r, string) remote_op" where
  "compute_remote_hash unicode rx path target =
     rbind (run_ok rx ''verify_hash'' (backquote (hash_command (dt_os target) path))
              (hash_command (dt_os target) path) [] EXEC_TIMEOUT) (\<lambda>out.
       rlift (parse_hash_output unicode (eo_stdout out)))"

record deploy_outcome =
  do_target :: detected_target
  do_remote_path :: string
  do_sha256_hex :: string
  do_deployed_now :: bool

definition deploy_agent ::
  "(string \<Rightarrow> string) \<Rightarrow> (u8 list \<Rightarrow> string) \<Rightarrow> 'r remote \<Rightarrow> u32 \<Rightarrow> u8 list \<Rightarrow> u32 \<Rightarrow> ('r, deploy_outcome) remote_op" where
  "deploy_agent unicode sha rx pid bytes protocol_version =
     rbind (detect_target unicode rx) (\<lambda>target.
     rbind (resolve_remote_home rx) (\<lambda>home.
     let local_hash = sha bytes;
         dir = remote_dir_of home;
         path = remote_path_of home protocol_version;
         outcome = (\<lambda>now. \<lparr>do_target = target, do_remote_path = path, do_sha256_hex = local_hash,
                           do_deployed_now = now\<rparr>)
     in rbind (inspect_remote_agent unicode rx path local_hash target) (\<lambda>status.
        if (case status of RaPresent _ matches _ _ \<Rightarrow> matches | RaAbsent \<Rightarrow> False)
        then rlift (Inr (outcome False))
        else
          rbind (upload_binary rx pid bytes dir path) (\<lambda>_.
          rbind (compute_remote_hash unicode rx path target) (\<lambda>uploaded_hash.
          if uploaded_hash = local_hash then rlift (Inr (outcome True))
          else
            rbind (upload_binary rx pid bytes dir path) (\<lambda>_.
            rbind (compute_remote_hash unicode rx path target) (\<lambda>retry_hash.
              rlift (if retry_hash \<noteq> local_hash then Inl (ChecksumMismatch path local_hash retry_hash)
                     else Inr (outcome True)))))))))"

section \<open>Start and handshake\<close>

text \<open>\<open>spawn_agent_channel\<close>: the path is the command, as it is.\<close>

definition spawn_agent_channel :: "ssh_error option \<Rightarrow> string option \<Rightarrow> string \<Rightarrow> ssh_error + unit" where
  "spawn_agent_channel open_error exec_error path =
     (case open_error of
        Some e \<Rightarrow> Inl e
      | None \<Rightarrow>
          (case exec_error of
             Some e \<Rightarrow> Inl (DeployFailed ''exec_agent'' (''exec '' @ backquote path @ '': '' @ e))
           | None \<Rightarrow> Inr ()))"

record handshake_io =
  hs_serialize :: "envelope \<Rightarrow> string + u8 list"
  hs_write_len :: "string option"
  hs_write_body :: "string option"
  hs_response :: "(string + envelope) option" \<comment> \<open>\<open>None\<close> when the time is up\<close>

definition handshake_envelope :: "u32 \<Rightarrow> envelope" where
  "handshake_envelope expected_version =
     \<lparr>en_version = expected_version, en_payload = PAgentHandshake 1\<rparr>"

definition recv_failed :: "string \<Rightarrow> ssh_error + 'a" where
  "recv_failed reason = Inl (DeployFailed ''handshake_recv'' reason)"

definition send_failed :: "string \<Rightarrow> ssh_error + 'a" where
  "send_failed reason = Inl (DeployFailed ''handshake_send'' reason)"

definition check_handshake ::
  "(payload \<Rightarrow> string) \<Rightarrow> (error_kind \<Rightarrow> string) \<Rightarrow> u32 \<Rightarrow> payload \<Rightarrow> ssh_error + agent_info" where
  "check_handshake dbg_payload dbg_kind expected_version p =
     (case p of
        PAgentHandshakeResponse echoed version os arch capabilities \<Rightarrow>
          if echoed \<noteq> 1 then recv_failed (''request_id mismatch: sent 1, got '' @ show_u64 echoed)
          else if version \<noteq> expected_version then Inl (AgentVersionMismatch expected_version version)
          else Inr \<lparr>ai_version = version, ai_os = os, ai_arch = arch, ai_capabilities = capabilities\<rparr>
      | PError info \<Rightarrow>
          recv_failed (''agent returned Error('' @ dbg_kind (ei_kind info) @ ''): '' @ ei_message info)
      | other \<Rightarrow> recv_failed (''expected AgentHandshakeResponse, got '' @ dbg_payload other))"

definition handshake_agent ::
  "(payload \<Rightarrow> string) \<Rightarrow> (error_kind \<Rightarrow> string) \<Rightarrow> handshake_io \<Rightarrow> u32 \<Rightarrow> ssh_error + agent_info" where
  "handshake_agent dbg_payload dbg_kind io expected_version =
     (case hs_serialize io (handshake_envelope expected_version) of
        Inl e \<Rightarrow> send_failed (''serialize handshake envelope: '' @ e)
      | Inr body \<Rightarrow>
          if 2 ^ 32 \<le> length body then
            send_failed (''handshake envelope too large: '' @ show_nat (length body) @ '' bytes'')
          else (case hs_write_len io of
             Some e \<Rightarrow> send_failed (''write handshake length prefix: '' @ e)
           | None \<Rightarrow>
               (case hs_write_body io of
                  Some e \<Rightarrow> send_failed (''write handshake body: '' @ e)
                | None \<Rightarrow>
                    (case hs_response io of
                       None \<Rightarrow> recv_failed (''agent didn'' @ [CHR 0x27] @ ''t respond within '' @
                                show_nat HANDSHAKE_TIMEOUT @ '' s'')
                     | Some (Inl e) \<Rightarrow> recv_failed (''read AgentHandshakeResponse: '' @ e)
                     | Some (Inr env) \<Rightarrow>
                         check_handshake dbg_payload dbg_kind expected_version (en_payload env)))))"

end
