(* ===== verification/Cli.thy ===== *)
theory Cli
  imports Deploy Widgets
begin

text \<open>
  The \<open>doctor\<close> commands of the controller (\<open>crates/tepegoz/src/main.rs\<close>): the list of hosts, forgetting
  a host key, and the report on the agents of the fleet. A command is the lines it prints and its
  result, an error's text or nothing. Embedded agents (\<open>for_target\<close> of the generated module) are the
  argument \<open>embedded\<close>.
\<close>

type_synonym cli_output = "string list \<times> (string + unit)"

definition ok_mark :: string where "ok_mark = [CHR 0xE2, CHR 0x9C, CHR 0x93]" \<comment> \<open>U+2713\<close>
definition cross_mark :: string where "cross_mark = [CHR 0xE2, CHR 0x9C, CHR 0x97]" \<comment> \<open>U+2717\<close>
definition warn_mark :: string where "warn_mark = [CHR 0xE2, CHR 0x9A, CHR 0xA0]" \<comment> \<open>U+26A0\<close>

definition none_hint :: string where
  "none_hint = ''  (none) '' @ em_dash @ '' add entries to ~/.ssh/config or set TEPEGOZ_SSH_HOSTS=<alias>,<alias>,...''"

definition discovery_failed :: "ssh_error \<Rightarrow> string" where
  "discovery_failed e = ''ssh host discovery failed: '' @ ssh_error_text e"

section \<open>Which command\<close>

datatype doctor_task = DtForget string | DtHosts | DtAgents | DtNothing

definition choose_doctor :: "string option \<Rightarrow> bool \<Rightarrow> bool \<Rightarrow> doctor_task" where
  "choose_doctor ssh_forget ssh_hosts agents =
     (case ssh_forget of
        Some alias \<Rightarrow> DtForget alias
      | None \<Rightarrow> if ssh_hosts then DtHosts else if agents then DtAgents else DtNothing)"

section \<open>The list of hosts\<close>

definition host_lines :: "host_entry \<Rightarrow> string list" where
  "host_lines h =
     [''  '' @ he_alias h @ ''  '' @ he_user h @ ''@'' @ he_hostname h @ '':'' @ show_u16 (he_port h)] @
     (if he_identity_files h = [] then [] else [''    IdentityFile: '' @ str_join '', '' (he_identity_files h)]) @
     (case he_proxy_jump h of
        Some jump \<Rightarrow>
          [''    ProxyJump: '' @ jump @ '' (not supported in v1 '' @ em_dash @ '' Slice 5c surfaces this)'']
      | None \<Rightarrow> [])"

definition dump_ssh_hosts :: "ssh_env \<Rightarrow> panic + cli_output" where
  "dump_ssh_hosts ev =
     and_then (discover ev) (\<lambda>r. Inr (case r of
        Inl e \<Rightarrow> ([], Inl (discovery_failed e))
      | Inr l \<Rightarrow>
          ([''source: '' @ host_source_label (hl_source l), ''hosts ('' @ show_nat (length (hl_hosts l)) @ ''):''] @
           (if hl_hosts l = [] then [none_hint] else concat (map host_lines (hl_hosts l))), Inr ())))"

section \<open>Forgetting a key\<close>

text \<open>\<open>file\<close> and \<open>write_error\<close>: the known hosts file and what its rewrite gives. The new contents, if any.\<close>

definition forget_ssh_host ::
  "ssh_env \<Rightarrow> string \<Rightarrow> (string \<Rightarrow> read_result) \<Rightarrow> string option \<Rightarrow> panic + (cli_output \<times> string option)" where
  "forget_ssh_host ev alias file write_error =
     and_then (discover ev) (\<lambda>r. Inr (case r of
        Inl e \<Rightarrow> (([], Inl (discovery_failed e)), None)
      | Inr hosts \<Rightarrow>
          (case host_list_get hosts alias of
             None \<Rightarrow>
               (([], Inl (''alias '' @ squote alias @ '' not found in host list (source: '' @
                  host_source_label (hl_source hosts) @ '')'')), None)
           | Some entry \<Rightarrow>
               (case require_known_hosts_path ev of
                  Inl e \<Rightarrow> (([], Inl (''open known_hosts: '' @ ssh_error_text e)), None)
                | Inr path \<Rightarrow>
                    (let at = he_hostname entry @ '':'' @ show_u16 (he_port entry)
                     in case known_hosts_forget path (he_hostname entry) (he_port entry) (file path) write_error of
                          (Inl e, contents) \<Rightarrow> (([], Inl (''forget: '' @ ssh_error_text e)), contents)
                        | (Inr removed, contents) \<Rightarrow>
                            (([if removed = 0 then ''no entries for '' @ at @ '' in '' @ path
                               else ''removed '' @ show_nat removed @ '' entry(ies) for '' @ at @ '' from '' @ path @
                                 '' '' @ em_dash @ '' next connection to '' @ squote alias @ '' will re-TOFU the new key''],
                              Inr ()), contents))))))"

section \<open>The report on the agents\<close>

definition summarize_ssh_error :: "ssh_error \<Rightarrow> string" where
  "summarize_ssh_error e =
     (case e of
        ConnectFailed _ _ _ reason \<Rightarrow> reason
      | AuthFailed _ _ _ _ reason \<Rightarrow> ''auth: '' @ reason
      | HostKeyMismatch _ _ _ _ _ \<Rightarrow> ''host key mismatch''
      | other \<Rightarrow> ssh_error_text other)"

text \<open>A line on a host: alias and triple in columns, then what was found.\<close>

definition agent_line :: "host_entry \<Rightarrow> detected_target \<Rightarrow> string \<Rightarrow> string" where
  "agent_line h target what =
     ''  '' @ pad_right 20 (he_alias h) @ ''  '' @ pad_right 32 (dt_target_triple target) @ ''  '' @ what"

definition absent_fate :: string where
  "absent_fate = cross_mark @ '' absent '' @ em_dash @ '' would deploy on next connect''"

definition present_fate :: "bool \<Rightarrow> string" where
  "present_fate matches =
     (if matches then ok_mark @ '' matches embedded'' else warn_mark @ '' drift '' @ em_dash @ '' redeploy needed'')"

text \<open>Both digests are hex text, of which the first 16 characters are shown.\<close>

definition status_lines ::
  "host_entry \<Rightarrow> detected_target \<Rightarrow> string \<Rightarrow> string \<Rightarrow> remote_agent_status \<Rightarrow> string list" where
  "status_lines h target path local_sha status =
     (case status of
        RaAbsent \<Rightarrow> [agent_line h target absent_fate]
      | RaPresent sha256 matches len mtime \<Rightarrow>
          [agent_line h target (present_fate matches),
           ''    '' @ path @ '' ('' @ show_u64 len @ '' bytes, mtime '' @ show_u64 mtime @ '')'',
           ''    remote   sha256: '' @ take 16 sha256] @
          (if matches then [] else [''    embedded sha256: '' @ take 16 local_sha]))"

definition report_one_host_inner ::
  "(string \<Rightarrow> string) \<Rightarrow> (u8 list \<Rightarrow> string) \<Rightarrow> (string \<Rightarrow> u8 list option) \<Rightarrow> 'r remote \<Rightarrow> u32 \<Rightarrow> host_entry \<Rightarrow>
     'r \<Rightarrow> cli_output \<times> 'r" where
  "report_one_host_inner unicode sha embedded rx protocol_version host r =
     (let failed = (\<lambda>what e. ([], Inl (what @ '': '' @ ssh_error_text e)))
      in case detect_target unicode rx r of
           (Inl e, r1) \<Rightarrow> (failed ''detect failed'' e, r1)
         | (Inr target, r1) \<Rightarrow>
             (case embedded (dt_target_triple target) of
                None \<Rightarrow>
                  (([agent_line host target (warn_mark @ '' no embedded agent '' @ em_dash @ '' run '' @
                       backquote ''cargo xtask build-agents'')], Inr ()), r1)
              | Some bytes \<Rightarrow>
                  (case remote_agent_path rx protocol_version r1 of
                     (Inl e, r2) \<Rightarrow> (failed ''remote path resolution failed'' e, r2)
                   | (Inr path, r2) \<Rightarrow>
                       (case inspect_remote_agent unicode rx path (sha bytes) target r2 of
                          (Inl e, r3) \<Rightarrow> (failed ''inspect failed'' e, r3)
                        | (Inr status, r3) \<Rightarrow>
                            ((status_lines host target path (sha bytes) status, Inr ()), r3)))))"

text \<open>
  What the report meets: a dial for each host, the known hosts, and the machines, by host name and
  port. The result of the disconnect is dropped.
\<close>

record ('k, 'f, 'r) doctor_env =
  dn_known_hosts :: "('k, 'f) known_hosts_io"
  dn_dial :: "host_entry \<Rightarrow> 'k dial"
  dn_remote :: "'r remote"
  dn_unicode :: "string \<Rightarrow> string"
  dn_sha :: "u8 list \<Rightarrow> string"
  dn_embedded :: "string \<Rightarrow> u8 list option"

definition report_one_host ::
  "('k, 'f, 'r) doctor_env \<Rightarrow> string \<Rightarrow> host_list \<Rightarrow> u32 \<Rightarrow> host_entry \<Rightarrow> 'f \<times> (string \<times> u16 \<Rightarrow> 'r) \<Rightarrow>
     cli_output \<times> 'f \<times> (string \<times> u16 \<Rightarrow> 'r)" where
  "report_one_host dn path l protocol_version host st =
     (case st of (file, machines) \<Rightarrow>
        (case connect_host (dn_known_hosts dn) path (he_alias host) l (dn_dial dn host) file of
           (Inl e, file1) \<Rightarrow> (([], Inl (''connect failed: '' @ summarize_ssh_error e)), file1, machines)
         | (Inr s, file1) \<Rightarrow>
             (let at = (sn_hostname s, sn_port s)
              in case report_one_host_inner (dn_unicode dn) (dn_sha dn) (dn_embedded dn) (dn_remote dn)
                        protocol_version host (machines at) of
                   (out, r) \<Rightarrow> (out, file1, machines(at := r)))))"

definition error_line :: "host_entry \<Rightarrow> string \<Rightarrow> string" where
  "error_line h e = ''  '' @ pad_right 20 (he_alias h) @ ''  '' @ cross_mark @ '' '' @ e"

fun report_hosts ::
  "('k, 'f, 'r) doctor_env \<Rightarrow> string \<Rightarrow> host_list \<Rightarrow> host_entry list \<Rightarrow> 'f \<times> (string \<times> u16 \<Rightarrow> 'r) \<Rightarrow>
     string list \<times> 'f \<times> (string \<times> u16 \<Rightarrow> 'r)" where
  "report_hosts dn path l [] st = ([], st)"
| "report_hosts dn path l (h # hs) st =
     (case report_one_host dn path l PROTOCOL_VERSION h st of
        ((ls, res), st1) \<Rightarrow>
          (case report_hosts dn path l hs st1 of
             (rest, st2) \<Rightarrow> (ls @ (case res of Inl e \<Rightarrow> [error_line h e] | Inr _ \<Rightarrow> []) @ rest, st2)))"

definition dump_agents ::
  "('k, 'f, 'r) doctor_env \<Rightarrow> ssh_env \<Rightarrow> 'f \<times> (string \<times> u16 \<Rightarrow> 'r) \<Rightarrow>
     panic + (cli_output \<times> 'f \<times> (string \<times> u16 \<Rightarrow> 'r))" where
  "dump_agents dn ev st =
     and_then (discover ev) (\<lambda>r. Inr (case r of
        Inl e \<Rightarrow> (([], Inl (discovery_failed e)), st)
      | Inr l \<Rightarrow>
          (case require_known_hosts_path ev of
             Inl e \<Rightarrow> (([], Inl (''open known_hosts: '' @ ssh_error_text e)), st)
           | Inr path \<Rightarrow>
               (let heading = [''source: '' @ host_source_label (hl_source l),
                               ''agents ('' @ show_nat (length (hl_hosts l)) @ '' host(s)):'']
                in if hl_hosts l = [] then ((heading @ [none_hint], Inr ()), st)
                   else (case report_hosts dn path l (hl_hosts l) st of
                       (ls, st1) \<Rightarrow> ((heading @ ls, Inr ()), st1))))))"

end
