(* ===== verification/DeployProps.thy ===== *)
theory DeployProps
  imports Deploy
begin

text \<open>
  Properties of the deployment: the commands are read by a POSIX shell as they are meant, the binary
  that is started is the one the controller holds, and how much is uploaded at most. A small shell
  over a file system is the concrete host of the witnesses.
\<close>

section \<open>How a shell reads a command\<close>

text \<open>
  The words of a command (POSIX, 2.2): blanks separate, single and double quotes group, a backslash
  takes the next character as it is. Operators are words here, as the commands write them between
  blanks. An open quote is \<open>None\<close>.
\<close>

datatype quote_mode = QmPlain | QmSingle | QmDouble

fun sh_split :: "quote_mode \<Rightarrow> string option \<Rightarrow> string \<Rightarrow> string list option" where
  "sh_split QmPlain w [] = Some (case w of None \<Rightarrow> [] | Some v \<Rightarrow> [v])"
| "sh_split QmSingle w [] = None"
| "sh_split QmDouble w [] = None"
| "sh_split QmPlain w (c # s) =
     (let v = (case w of None \<Rightarrow> [] | Some v \<Rightarrow> v)
      in if c = CHR '' '' then
           (case w of
              None \<Rightarrow> sh_split QmPlain None s
            | Some v \<Rightarrow> map_option (\<lambda>ws. v # ws) (sh_split QmPlain None s))
         else if c = CHR 0x27 then sh_split QmSingle (Some v) s
         else if c = CHR 0x22 then sh_split QmDouble (Some v) s
         else if c = CHR 0x5C then (case s of [] \<Rightarrow> None | d # t \<Rightarrow> sh_split QmPlain (Some (v @ [d])) t)
         else sh_split QmPlain (Some (v @ [c])) s)"
| "sh_split QmSingle w (c # s) =
     (let v = (case w of None \<Rightarrow> [] | Some v \<Rightarrow> v)
      in if c = CHR 0x27 then sh_split QmPlain (Some v) s else sh_split QmSingle (Some (v @ [c])) s)"
| "sh_split QmDouble w (c # s) =
     (let v = (case w of None \<Rightarrow> [] | Some v \<Rightarrow> v)
      in if c = CHR 0x22 then sh_split QmPlain (Some v) s else sh_split QmDouble (Some (v @ [c])) s)"

definition sh_words :: "string \<Rightarrow> string list option" where
  "sh_words s = sh_split QmPlain None s"

definition begun :: "string option \<Rightarrow> string" where
  "begun w = (case w of None \<Rightarrow> [] | Some v \<Rightarrow> v)"

lemma begun_simps [simp]: "begun None = []" "begun (Some v) = v"
  by (simp_all add: begun_def)

lemma sh_split_quote_chars:
  "sh_split QmSingle (Some v) (quote_chars s @ CHR 0x27 # rest) = sh_split QmPlain (Some (v @ s)) rest"
  by (induction s arbitrary: v) simp_all

lemma sh_split_quoted [simp]:
  "sh_split QmPlain w (shell_quote s @ rest) = sh_split QmPlain (Some (begun w @ s)) rest"
  by (simp add: shell_quote_def sh_split_quote_chars begun_def)

lemma sh_split_quoted_end [simp]:
  "sh_split QmPlain w (shell_quote s) = Some [begun w @ s]"
  using sh_split_quoted [of w s "[]"] by simp

lemma commands_words:
  "sh_words (hash_command os path) =
     Some ((if os = ''darwin'' then [''shasum'', ''-a'', ''256'', ''-b''] else [''sha256sum'', ''-b'']) @ [path])"
  "sh_words (stat_command os path) =
     Some ((if os = ''darwin'' then [''stat'', ''-f'', ''%z %m''] else [''stat'', ''-c'', ''%s %Y'']) @ [path])"
  "sh_words (presence_command path) =
     Some [''['', ''-f'', path, '']'', ''&&'', ''echo'', ''present'', ''||'', ''echo'', ''absent'']"
  "sh_words (mkdir_command path) = Some [''mkdir'', ''-p'', path]"
  "sh_words (cat_command path) = Some [''cat'', ''>'', path]"
  "sh_words (rm_command path) = Some [''rm'', ''-f'', path]"
  "sh_words (finalize_command tmp path) = Some [''mv'', tmp, path, ''&&'', ''chmod'', ''+x'', path]"
  by (simp_all add: sh_words_def hash_command_def stat_command_def presence_command_def mkdir_command_def
      cat_command_def rm_command_def finalize_command_def squote_def)

text \<open>
  C29. Every command names its paths whole: whatever bytes a path has, blanks, quotes and newlines
  included, the shell sees the command's own words and each path as one word, unchanged.
\<close>

theorem commands_keep_paths_whole:
  "sh_words (hash_command os path) =
     Some ((if os = ''darwin'' then [''shasum'', ''-a'', ''256'', ''-b''] else [''sha256sum'', ''-b'']) @ [path]) \<and>
   sh_words (stat_command os path) =
     Some ((if os = ''darwin'' then [''stat'', ''-f'', ''%z %m''] else [''stat'', ''-c'', ''%s %Y'']) @ [path]) \<and>
   sh_words (presence_command path) =
     Some [''['', ''-f'', path, '']'', ''&&'', ''echo'', ''present'', ''||'', ''echo'', ''absent''] \<and>
   sh_words (mkdir_command path) = Some [''mkdir'', ''-p'', path] \<and>
   sh_words (cat_command path) = Some [''cat'', ''>'', path] \<and>
   sh_words (rm_command path) = Some [''rm'', ''-f'', path] \<and>
   sh_words (finalize_command tmp path) = Some [''mv'', tmp, path, ''&&'', ''chmod'', ''+x'', path]"
  by (simp add: commands_words)

section \<open>Sequencing\<close>

lemma rbind_Inr:
  "rbind m f r = (Inr y, r') \<longleftrightarrow> (\<exists>x r1. m r = (Inr x, r1) \<and> f x r1 = (Inr y, r'))"
  by (auto simp: rbind_def split: prod.splits sum.splits)

lemma rbindE:
  assumes "rbind m f r = (Inr y, r')"
  obtains x r1 where "m r = (Inr x, r1)" "f x r1 = (Inr y, r')"
  using assms by (auto simp: rbind_Inr)

lemma rlift_eq [simp]: "rlift x r = (y, r') \<longleftrightarrow> x = y \<and> r = r'"
  by (auto simp: rlift_def)

lemma run_ok_Inr:
  "run_ok rx stage what cmd stdin t r = (Inr out, r') \<longleftrightarrow>
     run_exec rx cmd stdin t r = (Inr out, r') \<and> eo_exit_status out = 0"
  by (auto simp: run_ok_def rbind_Inr)

section \<open>How much is uploaded\<close>

text \<open>The host with a log of the commands it was given.\<close>

definition logged :: "'r remote \<Rightarrow> ('r \<times> string list) remote" where
  "logged rx s cmd stdin = (case rx (fst s) cmd stdin of (io, r') \<Rightarrow> (io, (r', snd s @ [cmd])))"

definition uploads :: "string list \<Rightarrow> nat" where
  "uploads cmds = length (filter (\<lambda>c. starts_with c ''cat > '') cmds)"

text \<open>An operation that uploads at most \<open>n\<close> times.\<close>

definition uploads_at_most :: "nat \<Rightarrow> ('r \<times> string list, 'a) remote_op \<Rightarrow> bool" where
  "uploads_at_most n m \<longleftrightarrow> (\<forall>s. uploads (snd (snd (m s))) \<le> uploads (snd s) + n)"

lemma um_weaken: "uploads_at_most m f \<Longrightarrow> m \<le> n \<Longrightarrow> uploads_at_most n f"
  unfolding uploads_at_most_def by (meson add_left_mono le_trans)

lemma um_bind:
  assumes "uploads_at_most m f" "\<And>x. uploads_at_most n (g x)"
  shows "uploads_at_most (m + n) (rbind f g)"
  unfolding uploads_at_most_def
proof
  fix s
  obtain x s1 where f: "f s = (x, s1)" by (cases "f s")
  have "uploads (snd s1) \<le> uploads (snd s) + m"
    using assms(1) f by (metis snd_conv uploads_at_most_def)
  moreover have "\<And>y. uploads (snd (snd (g y s1))) \<le> uploads (snd s1) + n"
    using assms(2) unfolding uploads_at_most_def by blast
  ultimately show "uploads (snd (snd (rbind f g s))) \<le> uploads (snd s) + (m + n)"
    using le_trans [OF \<open>\<And>y. uploads (snd (snd (g y s1))) \<le> uploads (snd s1) + n\<close>]
    by (auto simp: rbind_def f split: sum.splits)
qed

lemma um_bind0:
  "uploads_at_most 0 f \<Longrightarrow> (\<And>x. uploads_at_most n (g x)) \<Longrightarrow> uploads_at_most n (rbind f g)"
  using um_bind [of 0 f n g] by simp

lemma um_lift: "uploads_at_most 0 (rlift x)"
  by (simp add: uploads_at_most_def rlift_def)

lemma um_exec: "uploads_at_most (if starts_with cmd ''cat > '' then 1 else 0) (run_exec (logged rx) cmd stdin t)"
  by (auto simp: uploads_at_most_def run_exec_def logged_def uploads_def split: prod.splits)

lemma um_exec0: "\<not> starts_with cmd ''cat > '' \<Longrightarrow> uploads_at_most 0 (run_exec (logged rx) cmd stdin t)"
  using um_exec [of cmd] by simp

lemma um_ok0: "\<not> starts_with cmd ''cat > '' \<Longrightarrow> uploads_at_most 0 (run_ok (logged rx) stage what cmd stdin t)"
  unfolding run_ok_def by (intro um_bind0 um_exec0 um_lift)

lemma not_cat [simp]:
  "\<not> starts_with (hash_command os p) ''cat > ''" "\<not> starts_with (stat_command os p) ''cat > ''"
  "\<not> starts_with (presence_command p) ''cat > ''" "\<not> starts_with (mkdir_command p) ''cat > ''"
  "\<not> starts_with (rm_command p) ''cat > ''" "\<not> starts_with (finalize_command p q) ''cat > ''"
  "\<not> starts_with home_command ''cat > ''" "\<not> starts_with ''uname -sm'' ''cat > ''"
  by (simp_all add: starts_with_def hash_command_def stat_command_def presence_command_def
      mkdir_command_def rm_command_def finalize_command_def home_command_def squote_def)

lemma um_detect: "uploads_at_most 0 (detect_target u (logged rx))"
  unfolding detect_target_def by (intro um_bind0 um_ok0 um_lift) simp

lemma um_home: "uploads_at_most 0 (resolve_remote_home (logged rx))"
  unfolding resolve_remote_home_def Let_def by (intro um_bind0 um_ok0 um_lift) simp

lemma um_inspect: "uploads_at_most 0 (inspect_remote_agent u (logged rx) p e t)"
  unfolding inspect_remote_agent_def Let_def
  by (intro um_bind0 um_exec0) (auto intro!: um_bind0 um_ok0 um_exec0 um_lift split: prod.splits)

lemma um_hash: "uploads_at_most 0 (compute_remote_hash u (logged rx) p t)"
  unfolding compute_remote_hash_def by (intro um_bind0 um_ok0 um_lift) simp

lemma um_upload: "uploads_at_most 1 (upload_binary (logged rx) pid bytes dir p)"
proof -
  let ?tmp = "tmp_path_of pid p"
  have cat: "uploads_at_most 1 (run_exec (logged rx) (cat_command ?tmp) bytes UPLOAD_TIMEOUT)"
    by (rule um_weaken [OF um_exec]) simp
  have rm: "uploads_at_most 0 (\<lambda>s. (Inl e, run_ignored (logged rx) (rm_command ?tmp) s) :: (_ + unit) \<times> _)" for e
    using um_exec0 [of "rm_command ?tmp" rx "[]" EXEC_TIMEOUT]
    by (simp add: uploads_at_most_def run_ignored_def)
  have fin: "uploads_at_most 0 (rbind (run_ok (logged rx) ''finalize'' w (finalize_command ?tmp p) [] EXEC_TIMEOUT)
      (\<lambda>_. rlift (Inr ())))" for w
    by (intro um_bind0 um_ok0 um_lift) simp
  show ?thesis
    unfolding upload_binary_def Let_def
    by (rule um_bind0 [OF um_ok0 um_bind [OF cat, of 0, simplified add_0_right]])
       (simp_all only: not_cat not_False_eq_True rm fin split: if_split, blast+)
qed

text \<open>
  A deployment uploads the binary at most twice, whatever the host answers.
\<close>

theorem deploy_uploads_at_most_twice:
  "uploads (snd (snd (deploy_agent unicode sha (logged rx) pid bytes v (r, [])))) \<le> 2"
proof -
  have "uploads_at_most 2 (deploy_agent unicode sha (logged rx) pid bytes v)"
  proof -
    have again: "uploads_at_most 1 (rbind (upload_binary (logged rx) pid bytes d p) (\<lambda>_.
        rbind (compute_remote_hash unicode (logged rx) p t) (\<lambda>h. rlift (g h))))" for d p t g
      using um_bind [OF um_upload um_bind0 [OF um_hash um_lift]] by simp
    have first: "uploads_at_most 2 (rbind (upload_binary (logged rx) pid bytes d p) (\<lambda>_.
        rbind (compute_remote_hash unicode (logged rx) p t) (\<lambda>h. if b h then rlift g else
          rbind (upload_binary (logged rx) pid bytes d p) (\<lambda>_.
          rbind (compute_remote_hash unicode (logged rx) p t) (\<lambda>h. rlift (k h))))))" for d p t g b k
    proof -
      have "uploads_at_most 1 (if b h then rlift g else rbind (upload_binary (logged rx) pid bytes d p) (\<lambda>_.
          rbind (compute_remote_hash unicode (logged rx) p t) (\<lambda>h. rlift (k h))))" for h
        using again [of d p t k] um_weaken [OF um_lift, of 1] by (cases "b h") (simp_all only: if_True if_False, simp)
      then have "uploads_at_most (1 + 1) (rbind (upload_binary (logged rx) pid bytes d p) (\<lambda>_.
        rbind (compute_remote_hash unicode (logged rx) p t) (\<lambda>h. if b h then rlift g else
          rbind (upload_binary (logged rx) pid bytes d p) (\<lambda>_.
          rbind (compute_remote_hash unicode (logged rx) p t) (\<lambda>h. rlift (k h))))))"
        by (intro um_bind [OF um_upload] um_bind0 [OF um_hash])
      then show ?thesis by (simp only: one_add_one)
    qed
    show ?thesis
      unfolding deploy_agent_def Let_def
      by (intro um_bind0 [OF um_detect] um_bind0 [OF um_home] um_bind0 [OF um_inspect])
         (simp add: first um_weaken [OF um_lift])
  qed
  then have "uploads (snd (snd (deploy_agent unicode sha (logged rx) pid bytes v (r, []))))
      \<le> uploads (snd (r, [] :: string list)) + 2"
    unfolding uploads_at_most_def by blast
  then show ?thesis by (simp add: uploads_def)
qed

end
