(* ===== verification/DeployHost.thy ===== *)
theory DeployHost
  imports DeployProps
begin

text \<open>
  A deployment on a host that does what its commands say: what is at the agent's path when it has
  succeeded, up to the entry of the agent in the daemon's pool. \<open>fs\<close> reads the host's file system: the
  bytes of a file and whether it may be executed.
\<close>

section \<open>Hosts\<close>

text \<open>SHA-256 in hex: 64 lower-case digits.\<close>

definition hex_digest :: "(u8 list \<Rightarrow> string) \<Rightarrow> bool" where
  "hex_digest sha \<longleftrightarrow>
     (\<forall>b. length (sha b) = 64 \<and>
        list_all (\<lambda>c. let n = (of_char c :: nat) in 48 \<le> n \<and> n \<le> 57 \<or> 97 \<le> n \<and> n \<le> 102) (sha b))"

text \<open>
  The documented behaviour of the three commands the result rests on: the hash command prints the
  digest of the file in front of a blank and changes nothing, \<open>stat\<close> changes nothing, and after
  \<open>mv a b && chmod +x b\<close> with status 0 there is an executable file at \<open>b\<close>.
\<close>

definition honest_host ::
  "('r \<Rightarrow> string \<Rightarrow> (u8 list \<times> bool) option) \<Rightarrow> (u8 list \<Rightarrow> string) \<Rightarrow> 'r remote \<Rightarrow> bool" where
  "honest_host fs sha rx \<longleftrightarrow>
     (\<forall>os p r out r'. run_exec rx (hash_command os p) [] EXEC_TIMEOUT r = (Inr out, r') \<longrightarrow>
        eo_exit_status out = 0 \<longrightarrow>
        fs r' = fs r \<and> (\<exists>b x rest. fs r p = Some (b, x) \<and> eo_stdout out = sha b @ CHR '' '' # rest)) \<and>
     (\<forall>os p r. fs (snd (run_exec rx (stat_command os p) [] EXEC_TIMEOUT r)) = fs r) \<and>
     (\<forall>a b r out r'. run_exec rx (finalize_command a b) [] EXEC_TIMEOUT r = (Inr out, r') \<longrightarrow>
        eo_exit_status out = 0 \<longrightarrow> (\<exists>c. fs r' b = Some (c, True)))"

lemma plain_char_ws:
  assumes "33 \<le> (of_char c :: nat)" "(of_char c :: nat) < 128"
  shows "ws_len (c # s) = 0"
proof -
  have "c \<noteq> CHR 0xC2" "c \<noteq> CHR 0xE1" "c \<noteq> CHR 0xE2" "c \<noteq> CHR 0xE3"
    using assms(2) by auto
  with assms(1) show ?thesis
    by (auto simp: ws_len.simps Let_def split: list.splits)
qed

lemma word_plain:
  assumes "list_all (\<lambda>c. 33 \<le> (of_char c :: nat) \<and> (of_char c :: nat) < 128) w" "ws_len rest \<noteq> 0"
  shows "word (w @ rest) = (w, rest)"
  using assms
proof (induction w)
  case Nil
  then show ?case by (cases rest) auto
next
  case (Cons c w)
  then show ?case using plain_char_ws [of c "w @ rest"] by simp
qed

lemma ws_len_blank [simp]: "ws_len (CHR '' '' # s) = 1"
  by (simp add: ws_len.simps)

lemma split_first_plain:
  assumes "list_all (\<lambda>c. 33 \<le> (of_char c :: nat) \<and> (of_char c :: nat) < 128) w" "w \<noteq> []"
  shows "\<exists>ws. split_whitespace (w @ CHR '' '' # rest) = w # ws"
proof -
  obtain c t where w: "w = c # t" using assms(2) by (cases w) auto
  have "ws_len (w @ CHR '' '' # rest) = 0"
    using assms(1) plain_char_ws [of c "t @ CHR '' '' # rest"] by (simp add: w)
  then have "trim_start (w @ CHR '' '' # rest) = w @ CHR '' '' # rest" by (rule trim_start_id)
  moreover have "word (w @ CHR '' '' # rest) = (w, CHR '' '' # rest)"
    by (rule word_plain [OF assms(1)]) simp
  ultimately show ?thesis
    by (subst split_whitespace.simps) (simp add: w del: word.simps)
qed

lemma parse_hash_of_digest:
  assumes "hex_digest sha"
  shows "parse_hash_output u (sha b @ CHR '' '' # rest) = Inr (sha b)"
proof -
  have len: "length (sha b) = 64"
    and digits: "list_all (\<lambda>c. let n = (of_char c :: nat) in 48 \<le> n \<and> n \<le> 57 \<or> 97 \<le> n \<and> n \<le> 102) (sha b)"
    using assms by (simp_all add: hex_digest_def)
  have plain: "list_all (\<lambda>c. 33 \<le> (of_char c :: nat) \<and> (of_char c :: nat) < 128) (sha b)"
    using digits by (rule list.pred_mono_strong) (auto simp: Let_def)
  have hex: "list_all is_hexdigit (sha b)"
    using digits by (rule list.pred_mono_strong) (auto simp: Let_def is_hexdigit_def)
  have "map ascii_lower (sha b) = sha b"
    using digits by (intro map_idI) (auto simp: list_all_iff Let_def ascii_lower_def)
  moreover obtain ws where "split_whitespace (sha b @ CHR '' '' # rest) = sha b # ws"
    using split_first_plain [OF plain, of rest] len by (metis list.size(3) zero_neq_numeral)
  ultimately show ?thesis
    using len hex by (simp add: parse_hash_output_def)
qed

section \<open>What a deployment leaves\<close>

lemma hash_verified:
  assumes "honest_host fs sha rx" "hex_digest sha"
    and "run_exec rx (hash_command os p) [] EXEC_TIMEOUT r = (Inr out, r')" "eo_exit_status out = 0"
    and "parse_hash_output u (eo_stdout out) = Inr h"
  shows "fs r' = fs r \<and> (\<exists>b x. fs r p = Some (b, x) \<and> sha b = h)"
proof -
  obtain b x rest where "fs r' = fs r" "fs r p = Some (b, x)" "eo_stdout out = sha b @ CHR '' '' # rest"
    using assms(1,3,4) unfolding honest_host_def by blast
  with assms(5) show ?thesis by (simp add: parse_hash_of_digest [OF assms(2)])
qed

lemma inspect_match_verified:
  assumes "honest_host fs sha rx" "hex_digest sha"
    and "inspect_remote_agent u rx p e t r = (Inr (RaPresent h True n m), r')"
  shows "\<exists>b x. fs r' p = Some (b, x) \<and> sha b = e"
proof -
  obtain r1 out1 r2 out2 where hash: "run_exec rx (hash_command (dt_os t) p) [] EXEC_TIMEOUT r1 = (Inr out1, r2)"
      "eo_exit_status out1 = 0" "parse_hash_output u (eo_stdout out1) = Inr h" "h = e"
    and stat: "run_exec rx (stat_command (dt_os t) p) [] EXEC_TIMEOUT r2 = (Inr out2, r')"
    using assms(3)
    by (auto simp: inspect_remote_agent_def rbind_Inr run_ok_Inr Let_def split: if_splits prod.splits)
  have "fs r' = fs r2"
    using assms(1) stat unfolding honest_host_def by (metis snd_conv)
  with hash_verified [OF assms(1,2) hash(1-3)] hash(4) show ?thesis by auto
qed

lemma compute_hash_verified:
  assumes "honest_host fs sha rx" "hex_digest sha" "compute_remote_hash u rx p t r = (Inr h, r')"
  shows "fs r' = fs r \<and> (\<exists>b x. fs r p = Some (b, x) \<and> sha b = h)"
  using assms(3) hash_verified [OF assms(1,2)]
  by (auto simp: compute_remote_hash_def rbind_Inr run_ok_Inr)

lemma upload_executable:
  assumes "honest_host fs sha rx" "upload_binary rx pid bytes dir p r = (Inr (), r')"
  shows "\<exists>b. fs r' p = Some (b, True)"
proof -
  obtain r1 out where "run_exec rx (finalize_command (tmp_path_of pid p) p) [] EXEC_TIMEOUT r1 = (Inr out, r')"
      "eo_exit_status out = 0"
    using assms(2) by (auto simp: upload_binary_def rbind_Inr run_ok_Inr Let_def split: if_splits)
  with assms(1) show ?thesis unfolding honest_host_def by blast
qed

lemma upload_then_hash:
  assumes "honest_host fs sha rx" "hex_digest sha"
    and "upload_binary rx pid bytes dir p r = (Inr (), r1)" "compute_remote_hash u rx p t r1 = (Inr h, r')"
  shows "\<exists>b. fs r' p = Some (b, True) \<and> sha b = h"
  using upload_executable [OF assms(1,3)] compute_hash_verified [OF assms(1,2,4)] by auto

text \<open>
  A deployment that succeeds leaves at the path it reports a file with the digest of the
  controller's binary, and one that had to upload leaves it executable.
\<close>

lemma deploy_leaves_verified:
  assumes "honest_host fs sha rx" "hex_digest sha"
    and "deploy_agent unicode sha rx pid bytes v r = (Inr o1, r')"
  shows "\<exists>b x. fs r' (do_remote_path o1) = Some (b, x) \<and> sha b = sha bytes \<and>
    do_sha256_hex o1 = sha bytes \<and> (do_deployed_now o1 \<longrightarrow> x)"
proof -
  let ?path = "\<lambda>home. remote_path_of home v"
  obtain target home st r2 r3 where
    insp: "inspect_remote_agent unicode rx (?path home) (sha bytes) target r2 = (Inr st, r3)" and
    rest: "(if (case st of RaPresent _ m _ _ \<Rightarrow> m | RaAbsent \<Rightarrow> False)
        then rlift (Inr \<lparr>do_target = target, do_remote_path = ?path home, do_sha256_hex = sha bytes,
                         do_deployed_now = False\<rparr>)
        else rbind (upload_binary rx pid bytes (remote_dir_of home) (?path home)) (\<lambda>_.
          rbind (compute_remote_hash unicode rx (?path home) target) (\<lambda>h1.
          if h1 = sha bytes
          then rlift (Inr \<lparr>do_target = target, do_remote_path = ?path home, do_sha256_hex = sha bytes,
                           do_deployed_now = True\<rparr>)
          else
            rbind (upload_binary rx pid bytes (remote_dir_of home) (?path home)) (\<lambda>_.
            rbind (compute_remote_hash unicode rx (?path home) target) (\<lambda>h2.
              rlift (if h2 \<noteq> sha bytes then Inl (ChecksumMismatch (?path home) (sha bytes) h2)
                     else Inr \<lparr>do_target = target, do_remote_path = ?path home, do_sha256_hex = sha bytes,
                               do_deployed_now = True\<rparr>)))))) r3 = (Inr o1, r')"
    using assms(3) unfolding deploy_agent_def Let_def by (elim rbindE) (rule that)
  show ?thesis
  proof (cases "case st of RaPresent _ m _ _ \<Rightarrow> m | RaAbsent \<Rightarrow> False")
    case True
    then obtain h n m where st: "st = RaPresent h True n m" by (cases st) auto
    have "o1 = \<lparr>do_target = target, do_remote_path = ?path home, do_sha256_hex = sha bytes,
        do_deployed_now = False\<rparr>" "r3 = r'"
      using rest True by simp_all
    with inspect_match_verified [OF assms(1,2) insp [unfolded st]] show ?thesis by simp
  next
    case False
    from rest obtain r4 r5 where
      "upload_binary rx pid bytes (remote_dir_of home) (?path home) r4 = (Inr (), r5)"
      "compute_remote_hash unicode rx (?path home) target r5 = (Inr (sha bytes), r')"
      "o1 = \<lparr>do_target = target, do_remote_path = ?path home, do_sha256_hex = sha bytes,
             do_deployed_now = True\<rparr>"
      unfolding if_not_P [OF False] by (elim rbindE) (auto split: if_splits elim!: rbindE)
    with upload_then_hash [OF assms(1,2)] show ?thesis by fastforce
  qed
qed

section \<open>Up to the pool\<close>

text \<open>
  A deployment as the daemon runs it: the steps of \<open>deploy_and_register_inner\<close> on one host, one after
  the other from the state \<open>r\<close>.
\<close>

record 'r deploy_env =
  dx_remote :: "'r remote"
  dx_start :: 'r
  dx_pid :: u32
  dx_open_error :: "ssh_error option"
  dx_exec_error :: "string option"
  dx_handshake :: handshake_io

definition deploy_results_of ::
  "(string \<Rightarrow> string) \<Rightarrow> (u8 list \<Rightarrow> string) \<Rightarrow> (payload \<Rightarrow> string) \<Rightarrow> (error_kind \<Rightarrow> string) \<Rightarrow> 'r deploy_env \<Rightarrow>
     deploy_results" where
  "deploy_results_of unicode sha dbg_payload dbg_kind x =
     (case detect_target unicode (dx_remote x) (dx_start x) of
        (target, r1) \<Rightarrow>
          \<lparr>de_detect_target = map_sum id dt_target_triple target,
           de_deploy_agent = (\<lambda>bytes v. map_sum id do_remote_path
              (fst (deploy_agent unicode sha (dx_remote x) (dx_pid x) bytes v r1))),
           de_spawn_channel = spawn_agent_channel (dx_open_error x) (dx_exec_error x),
           de_handshake = handshake_agent dbg_payload dbg_kind (dx_handshake x)\<rparr>)"

lemma map_sum_Inr: "map_sum f g x = Inr y \<longleftrightarrow> (\<exists>z. x = Inr z \<and> y = g z)"
  by (cases x) auto

lemma fst_Inr: "fst p = Inr y \<Longrightarrow> \<exists>z. p = (Inr y, z)"
  by (cases p) auto

lemma register_agent_entry:
  "hb_pool (register_agent alive order alias caps h) alias = Some (hb_next h)"
  "ac_capabilities (hb_conns (register_agent alive order alias caps h) (hb_next h)) = caps"
  by (auto simp: register_agent_def shutdown_agent_connection_def drain_routing_on_disconnect_def
      agent_connection_new_def Let_def split: option.splits prod.splits)

lemma check_handshake_Inr:
  "check_handshake dp dk v p = Inr info \<Longrightarrow>
     p = PAgentHandshakeResponse 1 v (ai_os info) (ai_arch info) (ai_capabilities info)"
  by (auto simp: check_handshake_def recv_failed_def split: payload.splits if_splits)

lemma handshake_agent_Inr:
  "handshake_agent dp dk io v = Inr info \<Longrightarrow>
     \<exists>env. hs_response io = Some (Inr env) \<and>
       en_payload env = PAgentHandshakeResponse 1 v (ai_os info) (ai_arch info) (ai_capabilities info)"
  by (auto simp: handshake_agent_def send_failed_def recv_failed_def dest!: check_handshake_Inr
      split: sum.splits option.splits if_splits)

lemma register_verified:
  assumes "honest_host fs sha (dx_remote x)" "hex_digest sha"
    and "deploy_and_register_inner alive order (deploy_results_of unicode sha dp dk x) resolver alias h = (Inr caps, h')"
  shows "\<exists>target r1 binary o1 r2 b e env os arch.
    detect_target unicode (dx_remote x) (dx_start x) = (Inr target, r1) \<and>
    resolver (dt_target_triple target) = Some binary \<and>
    deploy_agent unicode sha (dx_remote x) (dx_pid x) binary PROTOCOL_VERSION r1 = (Inr o1, r2) \<and>
    fs r2 (do_remote_path o1) = Some (b, e) \<and> sha b = sha binary \<and> (do_deployed_now o1 \<longrightarrow> e) \<and>
    hs_response (dx_handshake x) = Some (Inr env) \<and>
    en_payload env = PAgentHandshakeResponse 1 PROTOCOL_VERSION os arch caps \<and>
    hb_pool h' alias = Some (hb_next h) \<and>
    ac_capabilities (hb_conns h' (hb_next h)) = caps"
proof -
  obtain target r1 where t: "detect_target unicode (dx_remote x) (dx_start x) = (target, r1)" by fastforce
  obtain tg binary o1 info r2 where
    tg: "target = Inr tg" and bin: "resolver (dt_target_triple tg) = Some binary" and
    dep: "deploy_agent unicode sha (dx_remote x) (dx_pid x) binary PROTOCOL_VERSION r1 = (Inr o1, r2)" and
    hs: "handshake_agent dp dk (dx_handshake x) PROTOCOL_VERSION = Inr info" and
    caps: "caps = ai_capabilities info" "h' = register_agent alive order alias (ai_capabilities info) h"
    using assms(3)
    by (auto simp: deploy_and_register_inner_def deploy_results_of_def t map_sum_Inr
        dest!: fst_Inr split: sum.splits option.splits)
  show ?thesis
    using deploy_leaves_verified [OF assms(1,2) dep] handshake_agent_Inr [OF hs] t tg bin dep caps
      register_agent_entry [of alive order "alias" caps h] by auto
qed


section \<open>A small host\<close>

text \<open>
  A host with files in memory that runs the commands of a deployment, reading them as a shell does.
  Its \<open>chmod\<close> may be refused (\<open>may_chmod\<close>), as by a file system without the permission.
\<close>

type_synonym files = "string \<rightharpoonup> u8 list \<times> bool"

definition answer :: "string \<Rightarrow> u32 \<Rightarrow> exec_io" where
  "answer out status =
     \<lparr>xi_open = None, xi_exec = None, xi_data = None, xi_eof = None,
      xi_msgs = [EmData (bytes_of out), EmExitStatus status], xi_timed_out = False\<rparr>"

definition file_digest :: "(u8 list \<Rightarrow> string) \<Rightarrow> files \<Rightarrow> string \<Rightarrow> exec_io \<times> files" where
  "file_digest sha fs p =
     (case fs p of Some (b, _) \<Rightarrow> (answer (sha b @ '' *'' @ p) 0, fs) | None \<Rightarrow> (answer [] 1, fs))"

definition move_and_chmod :: "bool \<Rightarrow> files \<Rightarrow> string \<Rightarrow> string \<Rightarrow> string \<Rightarrow> exec_io \<times> files" where
  "move_and_chmod may_chmod fs a b c =
     (case fs a of
        Some (bytes, x) \<Rightarrow>
          (let fs' = fs(a := None, b \<mapsto> (bytes, x))
           in case fs' c of
                Some (bytes', _) \<Rightarrow>
                  if may_chmod then (answer [] 0, fs'(c \<mapsto> (bytes', True))) else (answer [] 1, fs')
              | None \<Rightarrow> (answer [] 1, fs'))
      | None \<Rightarrow> (answer [] 1, fs))"

definition small_host :: "bool \<Rightarrow> string \<Rightarrow> (u8 list \<Rightarrow> string) \<Rightarrow> files remote" where
  "small_host may_chmod home sha fs cmd stdin =
     (case sh_words cmd of
        None \<Rightarrow> (answer [] 2, fs)
      | Some ws \<Rightarrow>
          (let w = (\<lambda>i. if i < length ws then ws ! i else [])
           in if w 0 = ''uname'' then (answer ''Linux x86_64'' 0, fs)
              else if ws = [''echo'', ''$HOME''] then (answer home 0, fs)
              else if w 0 = ''['' then (answer (if fs (w 2) = None then ''absent'' else ''present'') 0, fs)
              else if w 0 = ''sha256sum'' then file_digest sha fs (w 2)
              else if w 0 = ''shasum'' then file_digest sha fs (w 4)
              else if w 0 = ''stat'' then (answer [] 1, fs)
              else if w 0 = ''mkdir'' then (answer [] 0, fs)
              else if w 0 = ''cat'' then (answer [] 0, fs(w 2 \<mapsto> (stdin, False)))
              else if w 0 = ''rm'' then (answer [] 0, fs(w 2 := None))
              else if w 0 = ''mv'' then move_and_chmod may_chmod fs (w 1) (w 2) (w 6)
              else (answer [] 127, fs)))"

lemma run_answer:
  "rx r cmd stdin = (answer out st, r') \<Longrightarrow>
     run_exec rx cmd stdin t r =
       (Inr \<lparr>eo_stdout = from_utf8_lossy (bytes_of out), eo_stderr = [], eo_exit_status = st\<rparr>, r')"
  by (simp add: run_exec_def run_exec_inner_def answer_def from_utf8_lossy_def str_of_def)

lemma byte_of_ascii: "(of_char c :: nat) < 128 \<Longrightarrow> byte_of c < 0x80"
  by (simp add: byte_of_def word_less_nat_alt unsigned_of_nat take_bit_eq_mod)

lemma from_utf8_lossy_ascii:
  "list_all (\<lambda>c. (of_char c :: nat) < 128) s \<Longrightarrow>
     from_utf8_lossy (bytes_of (s @ t)) = s @ from_utf8_lossy (bytes_of t)"
  by (induction s) (simp_all add: from_utf8_lossy_def bytes_of_def str_of_def byte_of_ascii)

lemma digest_printed:
  assumes "hex_digest sha"
  shows "\<exists>rest. from_utf8_lossy (bytes_of (sha b @ '' *'' @ p)) = sha b @ CHR '' '' # rest"
proof -
  have "list_all (\<lambda>c. (of_char c :: nat) < 128) (sha b)"
    using assms by (fastforce simp: hex_digest_def list_all_iff Let_def)
  from from_utf8_lossy_ascii [OF this]
  have "from_utf8_lossy (bytes_of (sha b @ '' *'' @ p)) = sha b @ from_utf8_lossy (bytes_of ('' *'' @ p))" .
  also have "from_utf8_lossy (bytes_of ('' *'' @ p)) = '' *'' @ from_utf8_lossy (bytes_of p)"
    by (rule from_utf8_lossy_ascii) simp
  finally show ?thesis by simp
qed

lemma small_host_honest:
  assumes "hex_digest sha"
  shows "honest_host (\<lambda>fs. fs) sha (small_host may_chmod home sha)"
  unfolding honest_host_def
proof (intro conjI allI impI)
  let ?rx = "small_host may_chmod home sha"
  fix os p r out r'
  assume run: "run_exec ?rx (hash_command os p) [] EXEC_TIMEOUT r = (Inr out, r')"
    and ok: "eo_exit_status out = 0"
  have host: "?rx r (hash_command os p) [] = file_digest sha r p"
    by (simp add: small_host_def commands_words)
  show "r' = r"
  proof (cases "r p")
    case None
    with host have "?rx r (hash_command os p) [] = (answer [] 1, r)" by (simp add: file_digest_def)
    from run_answer [of ?rx, OF this] run ok show ?thesis by auto
  next
    case (Some f)
    with host have "?rx r (hash_command os p) [] = (answer (sha (fst f) @ '' *'' @ p) 0, r)"
      by (simp add: file_digest_def split: prod.splits)
    from run_answer [of ?rx, OF this] run ok show ?thesis by auto
  qed
  show "\<exists>b x rest. r p = Some (b, x) \<and> eo_stdout out = sha b @ CHR '' '' # rest"
  proof (cases "r p")
    case None
    with host have "?rx r (hash_command os p) [] = (answer [] 1, r)" by (simp add: file_digest_def)
    from run_answer [of ?rx, OF this] run ok show ?thesis by auto
  next
    case (Some f)
    obtain b x where f: "f = (b, x)" by (cases f)
    with host Some have "?rx r (hash_command os p) [] = (answer (sha b @ '' *'' @ p) 0, r)"
      by (simp add: file_digest_def)
    from run_answer [of ?rx, OF this] run ok
    have "eo_stdout out = from_utf8_lossy (bytes_of (sha b @ '' *'' @ p))" by auto
    with digest_printed [OF assms, of b p] Some f show ?thesis by auto
  qed
next
  let ?rx = "small_host may_chmod home sha"
  fix os p r
  show "snd (run_exec ?rx (stat_command os p) [] EXEC_TIMEOUT r) = r"
    by (simp add: run_answer small_host_def commands_words)
next
  let ?rx = "small_host may_chmod home sha"
  fix a b r out r'
  assume run: "run_exec ?rx (finalize_command a b) [] EXEC_TIMEOUT r = (Inr out, r')"
    and ok: "eo_exit_status out = 0"
  have "?rx r (finalize_command a b) [] = move_and_chmod may_chmod r a b b"
    by (simp add: small_host_def commands_words)
  then have host: "?rx r (finalize_command a b) [] =
      (case r a of
         Some f \<Rightarrow> if may_chmod then (answer [] 0, r(a := None, b \<mapsto> (fst f, True)))
                  else (answer [] 1, r(a := None, b \<mapsto> f))
       | None \<Rightarrow> (answer [] 1, r))"
    by (simp add: move_and_chmod_def split: option.splits prod.splits)
  show "\<exists>c. r' b = Some (c, True)"
  proof (cases "r a")
    case None
    with host have "?rx r (finalize_command a b) [] = (answer [] 1, r)" by simp
    from run_answer [of ?rx, OF this] run ok show ?thesis by auto
  next
    case (Some f)
    with host have "?rx r (finalize_command a b) [] =
        (answer [] (if may_chmod then 0 else 1),
         r(a := None, b \<mapsto> (if may_chmod then (fst f, True) else f)))" by simp
    from run_answer [of ?rx, OF this] run ok show ?thesis by (auto split: if_splits)
  qed
qed

text \<open>A digest with 64 digits, for the examples.\<close>

definition small_sha :: "u8 list \<Rightarrow> string" where
  "small_sha b = replicate 63 CHR ''a'' @ [hex_digit (length b mod 16)]"

lemma small_sha_hex: "hex_digest small_sha"
proof -
  have "let n = (of_char (hex_digit d) :: nat) in 48 \<le> n \<and> n \<le> 57 \<or> 97 \<le> n \<and> n \<le> 102" if "d < 16" for d
    using that by (auto simp: hex_digit_def digit_char_def of_char_of Let_def)
  then show ?thesis
    by (simp add: hex_digest_def small_sha_def list_all_iff Let_def)
qed

definition small_deploy :: "bool \<Rightarrow> files \<Rightarrow> (ssh_error + deploy_outcome) \<times> files" where
  "small_deploy may_chmod fs =
     deploy_agent (\<lambda>s. s) small_sha (small_host may_chmod ''/home/a'' small_sha) 7 [1, 2, 3] PROTOCOL_VERSION fs"

text \<open>The answers of the small host, command by command.\<close>

definition printed :: "string \<Rightarrow> u32 \<Rightarrow> exec_output" where
  "printed out st = \<lparr>eo_stdout = out, eo_stderr = [], eo_exit_status = st\<rparr>"

lemma printed_simps [simp]:
  "eo_stdout (printed out st) = out" "eo_stderr (printed out st) = []" "eo_exit_status (printed out st) = st"
  by (simp_all add: printed_def)

lemma run_small:
  assumes "small_host mc home sha fs cmd stdin = (answer out st, fs')"
    and "list_all (\<lambda>c. (of_char c :: nat) < 128) out"
  shows "run_exec (small_host mc home sha) cmd stdin t fs = (Inr (printed out st), fs')"
proof -
  have "from_utf8_lossy (bytes_of out) = out"
    using from_utf8_lossy_ascii [OF assms(2), of "[]"] by (simp add: from_utf8_lossy_def bytes_of_def str_of_def)
  with run_answer [of "small_host mc home sha", OF assms(1)] show ?thesis by (simp add: printed_def)
qed

lemma plain_words: "sh_words ''uname -sm'' = Some [''uname'', ''-sm'']" "sh_words home_command = Some [''echo'', ''$HOME'']"
  by code_simp+

lemma small_runs:
  "run_exec (small_host mc ''/home/a'' sha) ''uname -sm'' [] t fs = (Inr (printed ''Linux x86_64'' 0), fs)"
  "run_exec (small_host mc ''/home/a'' sha) home_command [] t fs = (Inr (printed ''/home/a'' 0), fs)"
  "run_exec (small_host mc home sha) (presence_command p) [] t fs =
     (Inr (printed (if fs p = None then ''absent'' else ''present'') 0), fs)"
  "run_exec (small_host mc home sha) (mkdir_command p) [] t fs = (Inr (printed [] 0), fs)"
  "run_exec (small_host mc home sha) (cat_command p) bytes t fs = (Inr (printed [] 0), fs(p \<mapsto> (bytes, False)))"
  "run_exec (small_host mc home sha) (stat_command os p) [] t fs = (Inr (printed [] 1), fs)"
  by (rule run_small; simp add: small_host_def commands_words plain_words)+

lemma small_finalize:
  "fs a = Some (bytes, x) \<Longrightarrow>
   run_exec (small_host mc home sha) (finalize_command a b) [] t fs =
     (Inr (printed [] (if mc then 0 else 1)), fs(a := None, b \<mapsto> (bytes, mc \<or> x)))"
  by (rule run_small) (auto simp: small_host_def commands_words move_and_chmod_def)

lemma small_hash:
  assumes "fs p = Some (b, x)" "hex_digest sha"
  shows "\<exists>rest. run_exec (small_host mc home sha) (hash_command os p) [] t fs =
    (Inr (printed (sha b @ CHR '' '' # rest) 0), fs)"
proof -
  have "small_host mc home sha fs (hash_command os p) [] = (answer (sha b @ '' *'' @ p) 0, fs)"
    using assms(1) by (simp add: small_host_def commands_words file_digest_def)
  from run_answer [of "small_host mc home sha", OF this] digest_printed [OF assms(2), of b p]
  show ?thesis by (auto simp: printed_def)
qed

lemma small_compute:
  assumes "fs p = Some (b, x)" "hex_digest sha"
  shows "compute_remote_hash u (small_host mc home sha) p t fs = (Inr (sha b), fs)"
  using small_hash [of fs p b x sha mc home "dt_os t" EXEC_TIMEOUT] assms
  by (auto simp: compute_remote_hash_def rbind_def run_ok_def rlift_def parse_hash_of_digest [OF assms(2)])

lemma small_texts:
  "trim ''absent'' = ''absent''" "trim ''present'' = ''present''" "trim ''/home/a'' = ''/home/a''"
  "parse_uname_sm (\<lambda>s. s) (trim ''Linux x86_64'') =
     Inr \<lparr>dt_os = ''linux'', dt_arch = ''x86_64'', dt_target_triple = ''x86_64-unknown-linux-musl''\<rparr>"
  by code_simp+

lemma small_inspect:
  "inspect_remote_agent (\<lambda>s. s) (small_host mc home small_sha) p e t fs =
     (Inr (case fs p of None \<Rightarrow> RaAbsent | Some (b, x) \<Rightarrow> RaPresent (small_sha b) (small_sha b = e) 0 0), fs)"
proof (cases "fs p")
  case None
  then show ?thesis
    by (simp add: inspect_remote_agent_def rbind_def small_runs small_texts rlift_def)
next
  case (Some f)
  obtain b x where f: "f = (b, x)" by (cases f)
  obtain rest where "run_exec (small_host mc home small_sha) (hash_command (dt_os t) p) [] EXEC_TIMEOUT fs =
      (Inr (printed (small_sha b @ CHR '' '' # rest) 0), fs)"
    using small_hash [of fs p b x small_sha mc home "dt_os t" EXEC_TIMEOUT] Some f small_sha_hex by auto
  then show ?thesis
    by (simp add: inspect_remote_agent_def rbind_def run_ok_def rlift_def small_runs small_texts Some f
        parse_hash_of_digest [OF small_sha_hex])
qed

text \<open>The path of the agent and of the file it is uploaded to.\<close>

definition small_path :: string where
  "small_path = remote_path_of ''/home/a'' PROTOCOL_VERSION"

lemma small_upload:
  assumes "tmp_path_of pid p \<noteq> p"
  shows "upload_binary (small_host mc home sha) pid bytes d p fs =
    (if mc then Inr () else Inl (DeployFailed ''finalize''
       (exited (backquote (finalize_command (tmp_path_of pid p) p)) (printed [] 1))),
     fs(tmp_path_of pid p := None, p \<mapsto> (bytes, mc)))"
proof -
  have "run_exec (small_host mc home sha) (finalize_command (tmp_path_of pid p) p) [] EXEC_TIMEOUT
      (fs(tmp_path_of pid p \<mapsto> (bytes, False))) =
    (Inr (printed [] (if mc then 0 else 1)), fs(tmp_path_of pid p := None, p \<mapsto> (bytes, mc)))"
    using small_finalize [of "fs(tmp_path_of pid p \<mapsto> (bytes, False))" "tmp_path_of pid p" bytes False]
    by simp
  then show ?thesis
    by (simp add: upload_binary_def Let_def rbind_def run_ok_def rlift_def small_runs)
qed

lemma tmp_path_other: "tmp_path_of pid p \<noteq> p"
  by (simp add: tmp_path_of_def)

lemma rbind_ok: "m r = (Inr x, r') \<Longrightarrow> rbind m f r = f x r'"
  by (simp add: rbind_def)

lemma rbind_err: "m r = (Inl e, r') \<Longrightarrow> rbind m f r = (Inl e, r')"
  by (simp add: rbind_def)

lemma small_target:
  "detect_target (\<lambda>s. s) (small_host mc ''/home/a'' sha) fs =
     (Inr \<lparr>dt_os = ''linux'', dt_arch = ''x86_64'', dt_target_triple = ''x86_64-unknown-linux-musl''\<rparr>, fs)"
  "resolve_remote_home (small_host mc ''/home/a'' sha) fs = (Inr ''/home/a'', fs)"
  by (simp_all add: detect_target_def resolve_remote_home_def rbind_def run_ok_def rlift_def small_runs
      small_texts Let_def)

lemma small_deploy_eq:
  "small_deploy mc fs =
     (let out = (\<lambda>now. \<lparr>do_target = \<lparr>dt_os = ''linux'', dt_arch = ''x86_64'',
                          dt_target_triple = ''x86_64-unknown-linux-musl''\<rparr>,
                        do_remote_path = small_path, do_sha256_hex = small_sha [1, 2, 3], do_deployed_now = now\<rparr>);
          fs' = fs(tmp_path_of 7 small_path := None, small_path \<mapsto> ([1, 2, 3], mc))
      in if (case fs small_path of Some (b, _) \<Rightarrow> small_sha b = small_sha [1, 2, 3] | None \<Rightarrow> False)
         then (Inr (out False), fs)
         else if mc then (Inr (out True), fs')
         else (Inl (DeployFailed ''finalize''
                (exited (backquote (finalize_command (tmp_path_of 7 small_path) small_path)) (printed [] 1))), fs'))"
proof -
  let ?fs = "fs(tmp_path_of 7 small_path := None, small_path \<mapsto> ([1, 2, 3], mc))"
  have hash: "compute_remote_hash (\<lambda>s. s) (small_host mc ''/home/a'' small_sha) small_path t ?fs =
      (Inr (small_sha [1, 2, 3]), ?fs)" for t
    by (rule small_compute [OF _ small_sha_hex]) simp
  have up: "upload_binary (small_host mc ''/home/a'' small_sha) 7 [1, 2, 3] d small_path fs =
      (if mc then Inr () else Inl (DeployFailed ''finalize''
         (exited (backquote (finalize_command (tmp_path_of 7 small_path) small_path)) (printed [] 1))), ?fs)" for d
    by (rule small_upload [OF tmp_path_other])
  have path: "remote_path_of ''/home/a'' PROTOCOL_VERSION = small_path" by (simp add: small_path_def)
  note deploy = small_deploy_def deploy_agent_def Let_def path rbind_ok [OF small_target(1)]
    rbind_ok [OF small_target(2)] rbind_ok [OF small_inspect]
  show ?thesis
  proof (cases "case fs small_path of Some (b, _) \<Rightarrow> small_sha b = small_sha [1, 2, 3] | None \<Rightarrow> False")
    case True
    then show ?thesis by (auto simp: deploy rlift_def split: option.splits)
  next
    case False
    then have no: "(case (case fs small_path of None \<Rightarrow> RaAbsent
          | Some (b, x) \<Rightarrow> RaPresent (small_sha b) (small_sha b = small_sha [1, 2, 3]) 0 0) of
        RaAbsent \<Rightarrow> False | RaPresent _ m _ _ \<Rightarrow> m) = False"
      by (auto split: option.splits)
    have hash': "rbind (compute_remote_hash (\<lambda>s. s) (small_host mc ''/home/a'' small_sha) small_path t) f ?fs =
        f (small_sha [1, 2, 3]) ?fs" for t and f :: "string \<Rightarrow> (files, deploy_outcome) remote_op"
      by (rule rbind_ok, rule hash)
    have ok: "rbind (upload_binary (small_host mc ''/home/a'' small_sha) 7 [1, 2, 3] d small_path) f fs = f () ?fs"
      if mc for d and f :: "unit \<Rightarrow> (files, deploy_outcome) remote_op"
      using up that by (intro rbind_ok) simp
    have err: "rbind (upload_binary (small_host mc ''/home/a'' small_sha) 7 [1, 2, 3] d small_path) f fs =
        (Inl (DeployFailed ''finalize''
          (exited (backquote (finalize_command (tmp_path_of 7 small_path) small_path)) (printed [] 1))), ?fs)"
      if "\<not> mc" for d and f :: "unit \<Rightarrow> (files, deploy_outcome) remote_op"
      using up that by (intro rbind_err) simp
    show ?thesis
    proof (cases mc)
      case True
      show ?thesis
        unfolding deploy no if_False if_not_P [OF False] ok [OF True] hash' if_P [OF True] by (simp add: rlift_def)
    next
      case mc: False
      show ?thesis
        unfolding deploy no if_False if_not_P [OF False] err [OF mc] if_not_P [OF mc] by simp
    qed
  qed
qed

text \<open>A whole deployment on it, and the agent's answer.\<close>

definition small_handshake :: handshake_io where
  "small_handshake =
     \<lparr>hs_serialize = (\<lambda>_. Inr [0]), hs_write_len = None, hs_write_body = None,
      hs_response = Some (Inr (envelope_of
        (PAgentHandshakeResponse 1 PROTOCOL_VERSION ''linux'' ''x86_64'' [''docker''])))\<rparr>"

definition small_env :: "files deploy_env" where
  "small_env =
     \<lparr>dx_remote = small_host True ''/home/a'' small_sha, dx_start = Map.empty, dx_pid = 7,
      dx_open_error = None, dx_exec_error = None, dx_handshake = small_handshake\<rparr>"

definition small_resolver :: "string \<Rightarrow> u8 list option" where
  "small_resolver triple = (if triple = ''x86_64-unknown-linux-musl'' then Some [1, 2, 3] else None)"

definition small_register :: "(ssh_error + string list) \<times> hub" where
  "small_register =
     deploy_and_register_inner (\<lambda>_. True) (\<lambda>_. [])
       (deploy_results_of (\<lambda>s. s) small_sha (\<lambda>_. []) (\<lambda>_. []) small_env) small_resolver ''web'' hub_new"

lemma small_register_ok: "fst small_register = Inr [''docker'']"
proof -
  have hs: "handshake_agent dp dk small_handshake PROTOCOL_VERSION =
      Inr \<lparr>ai_version = PROTOCOL_VERSION, ai_os = ''linux'', ai_arch = ''x86_64'', ai_capabilities = [''docker'']\<rparr>"
    for dp dk
    by (simp add: handshake_agent_def small_handshake_def check_handshake_def envelope_of_def)
  have "\<exists>out. fst (deploy_agent (\<lambda>s. s) small_sha (small_host True ''/home/a'' small_sha) 7 [1, 2, 3]
      PROTOCOL_VERSION Map.empty) = Inr out"
    using small_deploy_eq [of True Map.empty] by (simp add: small_deploy_def Let_def)
  then show ?thesis
    by (auto simp: small_register_def deploy_and_register_inner_def deploy_results_of_def small_env_def
        small_target small_resolver_def spawn_agent_channel_def hs)
qed



text \<open>
  The path of the agent is quoted in every command of the deployment, but not where the agent is
  started: a home directory with a blank in it is cut there.
\<close>

theorem start_command_cuts_path:
  "sh_words (remote_path_of ''/home/a b'' PROTOCOL_VERSION) = Some [''/home/a'', ''b/.cache/tepegoz/agent-v12''] \<and>
   spawn_agent_channel None None (remote_path_of ''/home/a b'' PROTOCOL_VERSION) = Inr ()"
  by code_simp

end
