(* ===== verification/Daemon.thy ===== *)
theory Daemon
  imports SshConfig Session
begin

text \<open>
  The daemon around its clients' sessions (\<open>crates/tepegoz-core/src/daemon.rs\<close>): where its socket lies
  (\<open>crates/tepegoz-proto/src/socket.rs\<close>), how it is put there, the accept loop and its end; and how
  the TUI looks for it (\<open>crates/tepegoz-tui/src/lib.rs\<close>).

  The operating system is the record \<open>unix\<close>: what lies at each path, with its permission bits; the
  sockets name the process that listens. Every call is noted in \<open>ux_calls\<close>, and may fail for a reason
  of its own (\<open>ux_fail\<close>).
\<close>

unbundle bit_operations_syntax

section \<open>The operating system\<close>

datatype node = NdDir u32 | NdSocket u32 nat | NdFile u32

datatype syscall =
  ScCreateDirAll string | ScMetadata string | ScSetPermissions string u32 | ScConnect string
| ScRemoveFile string | ScBind string

record unix =
  ux_nodes :: "string \<rightharpoonup> node"
  ux_answers :: "nat \<Rightarrow> bool" \<comment> \<open>whether the process accepts a connection\<close>
  ux_umask :: u32
  ux_fail :: "syscall \<Rightarrow> string option"
  ux_calls :: "syscall list"

type_synonym 'a sys = "unix \<Rightarrow> (string + 'a) \<times> unix"

definition sys_return :: "'a \<Rightarrow> 'a sys" where
  "sys_return x u = (Inr x, u)"

definition sys_fail :: "string \<Rightarrow> 'a sys" where
  "sys_fail e u = (Inl e, u)"

definition sys_bind :: "'a sys \<Rightarrow> ('a \<Rightarrow> 'b sys) \<Rightarrow> 'b sys" where
  "sys_bind m f u = (case m u of (Inl e, u1) \<Rightarrow> (Inl e, u1) | (Inr x, u1) \<Rightarrow> f x u1)"

text \<open>A call: it is noted, fails for a reason of its own, or does what \<open>act\<close> says.\<close>

definition do_call :: "syscall \<Rightarrow> (unix \<Rightarrow> (string + 'a) \<times> unix) \<Rightarrow> 'a sys" where
  "do_call c act u =
     (let u1 = u\<lparr>ux_calls := ux_calls u @ [c]\<rparr>
      in case ux_fail u c of Some e \<Rightarrow> (Inl e, u1) | None \<Rightarrow> act u1)"

definition set_node :: "string \<Rightarrow> node option \<Rightarrow> unix \<Rightarrow> unix" where
  "set_node p n u = u\<lparr>ux_nodes := (ux_nodes u)(p := n)\<rparr>"

fun node_mode :: "node \<Rightarrow> u32" where
  "node_mode (NdDir m) = m"
| "node_mode (NdSocket m l) = m"
| "node_mode (NdFile m) = m"

fun with_mode :: "u32 \<Rightarrow> node \<Rightarrow> node" where
  "with_mode m (NdDir _) = NdDir m"
| "with_mode m (NdSocket _ l) = NdSocket m l"
| "with_mode m (NdFile _) = NdFile m"

text \<open>A directory, or nothing yet.\<close>

fun is_dir :: "node option \<Rightarrow> bool" where
  "is_dir (Some (NdSocket m l)) = False"
| "is_dir (Some (NdFile m)) = False"
| "is_dir _ = True"

definition no_such_file :: string where "no_such_file = ''No such file or directory (os error 2)''"
definition file_exists :: string where "file_exists = ''File exists (os error 17)''"
definition address_in_use :: string where "address_in_use = ''Address already in use (os error 98)''"

text \<open>
  \<open>Path::parent\<close>, for paths without \<open>.\<close> components: slashes at the end and in a row do not count. The
  root and the empty path have none.
\<close>

definition trim_slashes :: "string \<Rightarrow> string" where
  "trim_slashes s = rev (dropWhile (\<lambda>c. c = CHR ''/'') (rev s))"

definition up_to_slash :: "string \<Rightarrow> string" where
  "up_to_slash s = rev (dropWhile (\<lambda>c. c \<noteq> CHR ''/'') (rev s))"

definition path_parent :: "string \<Rightarrow> string option" where
  "path_parent p =
     (if trim_slashes p = [] then None
      else
        (let up = up_to_slash (trim_slashes p)
         in Some (if up \<noteq> [] \<and> trim_slashes up = [] then ''/'' else trim_slashes up)))"

lemma length_trim_slashes: "length (trim_slashes s) \<le> length s"
  using length_dropWhile_le [of _ "rev s"] by (simp add: trim_slashes_def)

lemma trim_slashes_last: "trim_slashes s \<noteq> [] \<Longrightarrow> last (trim_slashes s) \<noteq> CHR ''/''"
  using hd_dropWhile [of "\<lambda>c. c = CHR ''/''" "rev s"] by (simp add: trim_slashes_def last_rev)

lemma up_to_slash_shorter:
  assumes "s \<noteq> []" "last s \<noteq> CHR ''/''"
  shows "length (up_to_slash s) < length s"
proof -
  obtain t c where s: "s = t @ [c]" "c \<noteq> CHR ''/''" using assms by (metis append_butlast_last_id)
  show ?thesis
    using length_dropWhile_le [of "\<lambda>c. c \<noteq> CHR ''/''" "rev t"] s by (simp add: up_to_slash_def)
qed

lemma path_parent_shorter: "path_parent p = Some q \<Longrightarrow> length q < length p"
proof -
  assume a: "path_parent p = Some q"
  let ?t = "trim_slashes p"
  have t: "?t \<noteq> []" using a by (auto simp: path_parent_def split: if_splits)
  have "length (up_to_slash ?t) < length ?t" by (rule up_to_slash_shorter [OF t trim_slashes_last [OF t]])
  moreover have "length q \<le> length (up_to_slash ?t)"
    using a t length_trim_slashes [of "up_to_slash ?t"]
    by (auto simp: path_parent_def Let_def Suc_le_eq split: if_splits)
  ultimately show ?thesis using length_trim_slashes [of p] by simp
qed

text \<open>The directory itself and those above it that are not there are made.\<close>

function ancestors :: "string \<Rightarrow> string list" where
  "ancestors p = (case path_parent p of None \<Rightarrow> [] | Some q \<Rightarrow> if q = [] then [] else q # ancestors q)"
  by pat_completeness auto
termination by (relation "measure length") (auto dest: path_parent_shorter)

declare ancestors.simps [simp del]

definition make_dirs :: "u32 \<Rightarrow> string list \<Rightarrow> (string \<rightharpoonup> node) \<Rightarrow> (string \<rightharpoonup> node)" where
  "make_dirs m ps nodes = (\<lambda>p. if p \<in> set ps \<and> nodes p = None then Some (NdDir m) else nodes p)"

definition create_dir_all :: "string \<Rightarrow> unit sys" where
  "create_dir_all p = do_call (ScCreateDirAll p) (\<lambda>u.
     case ux_nodes u p of
       Some (NdDir _) \<Rightarrow> (Inr (), u)
     | Some _ \<Rightarrow> (Inl file_exists, u)
     | None \<Rightarrow>
         if p = [] then (Inr (), u)
         else if list_ex (\<lambda>q. \<not> is_dir (ux_nodes u q)) (ancestors p)
         then (Inl ''Not a directory (os error 20)'', u)
         else (Inr (), u\<lparr>ux_nodes := make_dirs (0x1FF AND NOT (ux_umask u)) (p # ancestors p) (ux_nodes u)\<rparr>))"

definition metadata :: "string \<Rightarrow> u32 sys" where
  "metadata p = do_call (ScMetadata p) (\<lambda>u.
     (case ux_nodes u p of Some n \<Rightarrow> Inr (node_mode n) | None \<Rightarrow> Inl no_such_file, u))"

definition set_permissions :: "string \<Rightarrow> u32 \<Rightarrow> unit sys" where
  "set_permissions p m = do_call (ScSetPermissions p m) (\<lambda>u.
     case ux_nodes u p of
       Some n \<Rightarrow> (Inr (), set_node p (Some (with_mode m n)) u)
     | None \<Rightarrow> (Inl no_such_file, u))"

definition connect_to :: "string \<Rightarrow> unit sys" where
  "connect_to p = do_call (ScConnect p) (\<lambda>u.
     (case ux_nodes u p of
        Some (NdSocket _ l) \<Rightarrow> if ux_answers u l then Inr () else Inl ''Connection refused (os error 111)''
      | Some _ \<Rightarrow> Inl ''Connection refused (os error 111)''
      | None \<Rightarrow> Inl no_such_file, u))"

definition remove_file :: "string \<Rightarrow> unit sys" where
  "remove_file p = do_call (ScRemoveFile p) (\<lambda>u.
     case ux_nodes u p of
       None \<Rightarrow> (Inl no_such_file, u)
     | Some (NdDir _) \<Rightarrow> (Inl ''Is a directory (os error 21)'', u)
     | Some _ \<Rightarrow> (Inr (), set_node p None u))"

definition bind_socket :: "nat \<Rightarrow> string \<Rightarrow> unit sys" where
  "bind_socket me p = do_call (ScBind p) (\<lambda>u.
     case ux_nodes u p of
       None \<Rightarrow> (Inr (), set_node p (Some (NdSocket (0x1FF AND NOT (ux_umask u)) me)) u)
     | Some _ \<Rightarrow> (Inl address_in_use, u))"

section \<open>The socket\<close>

definition default_socket_path :: "(string \<Rightarrow> string option) \<Rightarrow> u32 \<Rightarrow> string" where
  "default_socket_path var_os uid =
     (let base = (case var_os ''XDG_RUNTIME_DIR'' of
                    Some d \<Rightarrow> d
                  | None \<Rightarrow> (case var_os ''TMPDIR'' of Some d \<Rightarrow> d | None \<Rightarrow> ''/tmp''))
      in path_join (path_join base (''tepegoz-'' @ show_u32 uid)) ''daemon.sock'')"

definition prepare_socket_parent :: "string \<Rightarrow> bool \<Rightarrow> unit sys" where
  "prepare_socket_parent socket_path secure_parent =
     (case path_parent socket_path of
        None \<Rightarrow> sys_return ()
      | Some parent \<Rightarrow>
          sys_bind (create_dir_all parent) (\<lambda>_.
            if secure_parent
            then sys_bind (metadata parent) (\<lambda>_. set_permissions parent 0x1C0)
            else sys_return ()))"

definition already_running :: "string \<Rightarrow> string" where
  "already_running p = ''another tepegoz daemon is already running at '' @ p"

definition evict_stale_socket :: "string \<Rightarrow> unit sys" where
  "evict_stale_socket p u =
     (if ux_nodes u p = None then (Inr (), u)
      else (case connect_to p u of
          (Inr _, u1) \<Rightarrow> (Inl (already_running p), u1)
        | (Inl _, u1) \<Rightarrow> remove_file p u1))"

definition set_socket_perms :: "string \<Rightarrow> unit sys" where
  "set_socket_perms p = sys_bind (metadata p) (\<lambda>_. set_permissions p 0x180)"

definition daemon_socket_path :: "string option \<Rightarrow> (string \<Rightarrow> string option) \<Rightarrow> u32 \<Rightarrow> string" where
  "daemon_socket_path override var_os uid =
     (case override of Some p \<Rightarrow> p | None \<Rightarrow> default_socket_path var_os uid)"

text \<open>All that \<open>run_daemon_with_resolver\<close> does before its loop.\<close>

definition daemon_start :: "nat \<Rightarrow> string option \<Rightarrow> string \<Rightarrow> unit sys" where
  "daemon_start me override p =
     sys_bind (prepare_socket_parent p (override = None)) (\<lambda>_.
     sys_bind (evict_stale_socket p) (\<lambda>_.
     sys_bind (bind_socket me p) (\<lambda>_. set_socket_perms p)))"

section \<open>Clients\<close>

text \<open>The causes in the chain of an error; only the kind of an I/O error matters.\<close>

datatype error_kind_io = IoUnexpectedEof | IoConnectionReset | IoBrokenPipe | IoOtherKind
datatype cause = CauseIo error_kind_io | CauseOther

fun disconnect_kind :: "cause \<Rightarrow> bool" where
  "disconnect_kind (CauseIo k) = (k \<noteq> IoOtherKind)"
| "disconnect_kind CauseOther = False"

definition is_expected_disconnect :: "cause list \<Rightarrow> bool" where
  "is_expected_disconnect chain = list_ex disconnect_kind chain"

text \<open>What is logged when a client's session ends.\<close>

definition run_client :: "(string \<times> cause list) option \<Rightarrow> string list" where
  "run_client r =
     (case r of
        None \<Rightarrow> []
      | Some (text, chain) \<Rightarrow> if is_expected_disconnect chain then [] else [''client ended with error: '' @ text])"

text \<open>
  The accept loop: a connection or an error of \<open>accept\<close>, the end of a client's task, and Ctrl-C.
\<close>

datatype accept_input =
  AcAccept "string + nat" \<comment> \<open>an error, or the new stream\<close>
| AcClientDone nat "(string \<times> cause list) option"
| AcCtrlC

record server =
  sv_clients :: "nat list"
  sv_log :: "string list"

definition accept_step :: "accept_input \<Rightarrow> server \<Rightarrow> server" where
  "accept_step i s =
     (case i of
        AcAccept (Inr c) \<Rightarrow> s\<lparr>sv_clients := sv_clients s @ [c]\<rparr>
      | AcAccept (Inl e) \<Rightarrow> s\<lparr>sv_log := sv_log s @ [''accept failed: '' @ e]\<rparr>
      | AcClientDone c r \<Rightarrow>
          if c \<in> set (sv_clients s)
          then s\<lparr>sv_clients := remove1 c (sv_clients s), sv_log := sv_log s @ run_client r\<rparr>
          else s
      | AcCtrlC \<Rightarrow> s)"

fun accept_loop :: "accept_input list \<Rightarrow> server \<Rightarrow> bool \<times> server \<times> accept_input list" where
  "accept_loop [] s = (False, s, [])"
| "accept_loop (i # is) s = (if i = AcCtrlC then (True, s, is) else accept_loop is (accept_step i s))"

text \<open>
  The end: the socket is removed, whatever that gives; clients that end within a second are waited
  for, the others are aborted. The result: the clients that were aborted.
\<close>

fun grace :: "accept_input list \<Rightarrow> server \<Rightarrow> server" where
  "grace [] s = s"
| "grace (AcClientDone c r # is) s = grace is (accept_step (AcClientDone c r) s)"
| "grace (_ # is) s = grace is s"

definition daemon_stop :: "string \<Rightarrow> accept_input list \<Rightarrow> server \<Rightarrow> unix \<Rightarrow> nat list \<times> server \<times> unix" where
  "daemon_stop p within s u =
     (let s1 = grace within s
      in (sv_clients s1, s1\<lparr>sv_clients := []\<rparr>, snd (remove_file p u)))"

text \<open>
  A whole life: \<open>is\<close> is what happens while the loop runs and in the second after it. The result is
  the error of the start, or whether the daemon was stopped.
\<close>

definition run_daemon_with_resolver ::
  "nat \<Rightarrow> string option \<Rightarrow> (string \<Rightarrow> string option) \<Rightarrow> u32 \<Rightarrow> accept_input list \<Rightarrow> unix \<Rightarrow>
     (string + bool) \<times> server \<times> unix" where
  "run_daemon_with_resolver me override var_os uid is u =
     (let p = daemon_socket_path override var_os uid; s0 = \<lparr>sv_clients = [], sv_log = []\<rparr>
      in case daemon_start me override p u of
           (Inl e, u1) \<Rightarrow> (Inl e, s0, u1)
         | (Inr _, u1) \<Rightarrow>
             (case accept_loop is s0 of
                (False, s, _) \<Rightarrow> (Inr False, s, u1)
              | (True, s, rest) \<Rightarrow>
                  (case daemon_stop p rest s u1 of (_, s2, u2) \<Rightarrow> (Inr True, s2, u2))))"

section \<open>How a client finds it\<close>

definition prepare_and_init ::
  "ssh_env \<Rightarrow> u32 \<Rightarrow> string option \<Rightarrow> string option \<Rightarrow> unix \<Rightarrow> string + string" where
  "prepare_and_init ev uid override tracing_error u =
     (case ev_var ev ''TEPEGOZ_PANE_ID'' of
        Some pane \<Rightarrow>
          Inl (''this shell is already inside tepegoz pane '' @ pane @ ''. Detach first (Ctrl-b d) and run '' @
               backquote ''tepegoz tui'' @ '' from your outer terminal.'')
      | None \<Rightarrow>
          (case tracing_error of
             Some e \<Rightarrow> Inl e
           | None \<Rightarrow>
               (let p = (case override of Some q \<Rightarrow> q | None \<Rightarrow> default_socket_path (ev_var_os ev) uid)
                in if ux_nodes u p = None then
                     Inl (''no daemon socket at '' @ p @ '' '' @ em_dash @ '' is '' @ backquote ''tepegoz daemon'' @
                          '' running?'')
                   else Inr p)))"

definition resolve_socket_path :: "string option \<Rightarrow> (string \<Rightarrow> string option) \<Rightarrow> u32 \<Rightarrow> string" where
  "resolve_socket_path override var_os uid =
     (case override of Some p \<Rightarrow> p | None \<Rightarrow> default_socket_path var_os uid)"

end
