(* ===== verification/DaemonProps.thy ===== *)
theory DaemonProps
  imports Daemon
begin

text \<open>
  What the daemon promises about its socket: only its user can reach it, a daemon that answers keeps
  it, and the TUI looks at the same place; and what a daemon that does not answer does to its successor.
\<close>

section \<open>Calls\<close>

text \<open>What no call changes.\<close>

definition same_os :: "unix \<Rightarrow> unix \<Rightarrow> bool" where
  "same_os u v \<longleftrightarrow> ux_fail v = ux_fail u \<and> ux_answers v = ux_answers u \<and> ux_umask v = ux_umask u"

lemma same_os_refl [simp]: "same_os u u"
  by (simp add: same_os_def)

lemma same_os_trans: "same_os u v \<Longrightarrow> same_os v w \<Longrightarrow> same_os u w"
  by (simp add: same_os_def)

lemmas sys_simps = sys_bind_def sys_return_def do_call_def set_node_def Let_def

lemma create_dir_all_cases:
  "create_dir_all q u = (r, v) \<Longrightarrow>
     ux_calls v = ux_calls u @ [ScCreateDirAll q] \<and> same_os u v \<and>
     (\<forall>x n. ux_nodes u x = Some n \<longrightarrow> ux_nodes v x = Some n) \<and>
     (r = Inr () \<longrightarrow> q \<noteq> [] \<longrightarrow> (\<exists>m. ux_nodes v q = Some (NdDir m)))"
  by (auto simp: create_dir_all_def do_call_def same_os_def make_dirs_def Let_def
           split: option.splits node.splits if_splits)

lemma metadata_cases:
  "metadata q u = (r, v) \<Longrightarrow>
     ux_calls v = ux_calls u @ [ScMetadata q] \<and> same_os u v \<and> ux_nodes v = ux_nodes u"
  by (auto simp: metadata_def do_call_def same_os_def Let_def split: option.splits)

lemma set_permissions_cases:
  "set_permissions q m u = (r, v) \<Longrightarrow>
     ux_calls v = ux_calls u @ [ScSetPermissions q m] \<and> same_os u v \<and>
     (\<forall>x. x \<noteq> q \<longrightarrow> ux_nodes v x = ux_nodes u x) \<and>
     (r = Inr () \<longrightarrow> ux_nodes v q = map_option (with_mode m) (ux_nodes u q))"
  by (auto simp: set_permissions_def do_call_def same_os_def set_node_def Let_def split: option.splits)

lemma bind_socket_cases:
  "bind_socket me q u = (r, v) \<Longrightarrow>
     ux_calls v = ux_calls u @ [ScBind q] \<and> same_os u v \<and> (\<forall>x. x \<noteq> q \<longrightarrow> ux_nodes v x = ux_nodes u x) \<and>
     (r = Inr () \<longrightarrow> (\<exists>m. ux_nodes v q = Some (NdSocket m me)))"
  by (auto simp: bind_socket_def do_call_def same_os_def set_node_def Let_def split: option.splits)

lemma connect_to_cases:
  "connect_to q u = (r, v) \<Longrightarrow>
     ux_calls v = ux_calls u @ [ScConnect q] \<and> same_os u v \<and> ux_nodes v = ux_nodes u"
  by (auto simp: connect_to_def do_call_def same_os_def Let_def split: option.splits node.splits if_splits)

lemma remove_file_cases:
  "remove_file q u = (r, v) \<Longrightarrow>
     ux_calls v = ux_calls u @ [ScRemoveFile q] \<and> same_os u v \<and> (\<forall>x. x \<noteq> q \<longrightarrow> ux_nodes v x = ux_nodes u x)"
  by (auto simp: remove_file_def do_call_def same_os_def set_node_def Let_def
           split: option.splits node.splits)

lemma sys_bind_Inr:
  "sys_bind m f u = (Inr y, v) \<longleftrightarrow> (\<exists>x w. m u = (Inr x, w) \<and> f x w = (Inr y, v))"
  by (auto simp: sys_bind_def split: prod.splits sum.splits)

section \<open>Preparation\<close>

lemma path_parent_not_self: "path_parent p = Some q \<Longrightarrow> q \<noteq> p"
  using path_parent_shorter by fastforce

lemma prepare_keeps:
  "prepare_socket_parent p secure u = (r, v) \<Longrightarrow>
     same_os u v \<and> (\<forall>n. ux_nodes u p = Some n \<longrightarrow> ux_nodes v p = Some n) \<and>
     (\<exists>cs. ux_calls v = ux_calls u @ cs \<and> ScRemoveFile p \<notin> set cs \<and> ScBind p \<notin> set cs)"
proof -
  assume a: "prepare_socket_parent p secure u = (r, v)"
  show ?thesis
  proof (cases "path_parent p")
    case None
    with a show ?thesis by (auto simp: prepare_socket_parent_def sys_return_def)
  next
    case (Some d)
    obtain r1 u1 where c: "create_dir_all d u = (r1, u1)" by fastforce
    obtain r2 u2 where m: "metadata d u1 = (r2, u2)" by fastforce
    obtain r3 u3 where s: "set_permissions d 0x1C0 u2 = (r3, u3)" by fastforce
    have "v \<in> {u1, u2, u3}"
      using a Some c m s
      by (auto simp: prepare_socket_parent_def sys_bind_def sys_return_def split: sum.splits if_splits)
    then show ?thesis
      using create_dir_all_cases [OF c] metadata_cases [OF m] set_permissions_cases [OF s]
        path_parent_not_self [OF Some]
      by (auto intro: same_os_trans)
  qed
qed

lemma prepare_secures:
  assumes "prepare_socket_parent p True u = (Inr (), v)" "path_parent p = Some d" "d \<noteq> []"
  shows "ux_calls v = ux_calls u @ [ScCreateDirAll d, ScMetadata d, ScSetPermissions d 0x1C0]"
    "ux_nodes v d = Some (NdDir 0x1C0)" "same_os u v"
proof -
  from assms obtain u1 u2 m where st: "create_dir_all d u = (Inr (), u1)" "metadata d u1 = (Inr m, u2)"
    "set_permissions d 0x1C0 u2 = (Inr (), v)"
    by (auto simp: prepare_socket_parent_def sys_bind_Inr)
  note f = create_dir_all_cases [OF st(1)] metadata_cases [OF st(2)] set_permissions_cases [OF st(3)]
  from f assms(3) show "ux_nodes v d = Some (NdDir 0x1C0)" by auto
  from f show "ux_calls v = ux_calls u @ [ScCreateDirAll d, ScMetadata d, ScSetPermissions d 0x1C0]" by simp
  from f show "same_os u v" by (blast intro: same_os_trans)
qed

lemma evict_cases:
  "evict_stale_socket p u = (Inr (), v) \<Longrightarrow>
     (\<exists>cs \<in> {[], [ScConnect p, ScRemoveFile p]}. ux_calls v = ux_calls u @ cs) \<and> same_os u v \<and>
     (\<forall>x. x \<noteq> p \<longrightarrow> ux_nodes v x = ux_nodes u x)"
proof -
  assume a: "evict_stale_socket p u = (Inr (), v)"
  obtain r1 u1 where c: "connect_to p u = (r1, u1)" by fastforce
  obtain r2 u2 where m: "remove_file p u1 = (r2, u2)" by fastforce
  have "v = u \<or> v = u2"
    using a c m by (auto simp: evict_stale_socket_def split: if_splits sum.splits)
  then show ?thesis
    using connect_to_cases [OF c] remove_file_cases [OF m] by (auto intro: same_os_trans)
qed

lemma set_socket_perms_Inr:
  assumes "set_socket_perms p u = (Inr (), v)"
  shows "ux_calls v = ux_calls u @ [ScMetadata p, ScSetPermissions p 0x180]"
    "ux_nodes v p = map_option (with_mode 0x180) (ux_nodes u p)"
    "x \<noteq> p \<Longrightarrow> ux_nodes v x = ux_nodes u x" "same_os u v"
proof -
  from assms obtain u1 m where st: "metadata p u = (Inr m, u1)" "set_permissions p 0x180 u1 = (Inr (), v)"
    by (auto simp: set_socket_perms_def sys_bind_Inr)
  note f = metadata_cases [OF st(1)] set_permissions_cases [OF st(2)]
  from f show "ux_calls v = ux_calls u @ [ScMetadata p, ScSetPermissions p 0x180]"
    "ux_nodes v p = map_option (with_mode 0x180) (ux_nodes u p)" by simp_all
  from f show "same_os u v" by (blast intro: same_os_trans)
  from f show "x \<noteq> p \<Longrightarrow> ux_nodes v x = ux_nodes u x" by simp
qed

lemma daemon_start_Inr:
  "daemon_start me ov p u = (Inr (), v) \<longleftrightarrow>
     (\<exists>u1 u2 u3. prepare_socket_parent p (ov = None) u = (Inr (), u1) \<and> evict_stale_socket p u1 = (Inr (), u2) \<and>
        bind_socket me p u2 = (Inr (), u3) \<and> set_socket_perms p u3 = (Inr (), v))"
  by (simp add: daemon_start_def sys_bind_Inr)

lemma daemon_start_owns:
  "daemon_start me ov p u = (Inr (), v) \<Longrightarrow> ux_nodes v p = Some (NdSocket 0x180 me) \<and> same_os u v"
proof -
  assume "daemon_start me ov p u = (Inr (), v)"
  then obtain u1 u2 u3 where st: "prepare_socket_parent p (ov = None) u = (Inr (), u1)"
    "evict_stale_socket p u1 = (Inr (), u2)" "bind_socket me p u2 = (Inr (), u3)"
    "set_socket_perms p u3 = (Inr (), v)"
    unfolding daemon_start_Inr by blast
  have "same_os u u1" "same_os u1 u2" "same_os u2 u3" "same_os u3 v"
    using prepare_keeps [OF st(1)] evict_cases [OF st(2)] bind_socket_cases [OF st(3)]
      set_socket_perms_Inr(4) [OF st(4)] by simp_all
  then have "same_os u v" by (metis same_os_trans)
  then show ?thesis
    using bind_socket_cases [OF st(3)] set_socket_perms_Inr(2) [OF st(4)] by auto
qed

section \<open>The default path\<close>

lemma path_parent_join:
  assumes "d \<noteq> []" "last d \<noteq> CHR ''/''" "f \<noteq> []" "CHR ''/'' \<notin> set f"
  shows "path_parent (path_join d f) = Some d"
proof -
  have join: "path_join d f = d @ ''/'' @ f"
    using assms by (cases f) (auto simp: path_join_def starts_with_def)
  have keep: "trim_slashes s = s" if "s \<noteq> []" "last s \<noteq> CHR ''/''" for s
    using that by (cases s rule: rev_cases) (simp_all add: trim_slashes_def)
  have "last f \<noteq> CHR ''/''" using assms(3,4) last_in_set by metis
  then have t: "trim_slashes (d @ ''/'' @ f) = d @ ''/'' @ f"
    using assms(3) by (intro keep) simp_all
  have "dropWhile (\<lambda>c. c \<noteq> CHR ''/'') (rev f @ CHR ''/'' # rev d) =
      dropWhile (\<lambda>c. c \<noteq> CHR ''/'') (CHR ''/'' # rev d)"
    by (rule dropWhile_append2) (use assms(4) in auto)
  then have up: "up_to_slash (d @ ''/'' @ f) = d @ ''/''"
    by (simp add: up_to_slash_def)
  have "trim_slashes (d @ ''/'') = trim_slashes d" by (simp add: trim_slashes_def)
  then show ?thesis
    using keep [OF assms(1,2)] assms(1) unfolding join path_parent_def t up by simp
qed

lemma default_dir:
  "\<exists>d. default_socket_path var_os uid = path_join d ''daemon.sock'' \<and> d \<noteq> [] \<and> last d \<noteq> CHR ''/''"
proof -
  have ne: "show_u32 uid \<noteq> []" by (simp add: show_u32_def)
  have "\<not> is_digit (CHR ''/'')" by (simp add: is_digit_def)
  then have "last (show_u32 uid) \<noteq> CHR ''/''"
    using show_nat_no_sep [of "CHR ''/''" "unat uid"] ne by (metis last_in_set show_u32_def)
  then have "path_join b (''tepegoz-'' @ show_u32 uid) \<noteq> [] \<and>
      last (path_join b (''tepegoz-'' @ show_u32 uid)) \<noteq> CHR ''/''" for b
    using ne by (auto simp: path_join_def starts_with_def)
  then show ?thesis unfolding default_socket_path_def Let_def by blast
qed

lemma default_parent:
  "\<exists>d. path_parent (default_socket_path var_os uid) = Some d \<and> d \<noteq> []"
proof -
  obtain d where d: "default_socket_path var_os uid = path_join d ''daemon.sock''" "d \<noteq> []" "last d \<noteq> CHR ''/''"
    using default_dir by blast
  have "path_parent (path_join d ''daemon.sock'') = Some d"
    by (rule path_parent_join) (use d in simp_all)
  with d show ?thesis by simp
qed

section \<open>Properties\<close>

text \<open>
  C17. A daemon that got ready on the default path can be reached by its own user only: the directory of
  the socket was closed to others before the socket was bound, the socket itself is closed to them
  afterwards, a stale socket is removed only after nobody answered on it, and a client of the same
  environment looks at this path.
\<close>

theorem default_socket_is_private:
  assumes "p = default_socket_path (ev_var_os ev) uid" "daemon_start me None p u = (Inr (), v)"
    "ev_var ev ''TEPEGOZ_PANE_ID'' = None"
  shows "\<exists>d stale.
    path_parent p = Some d \<and> ux_nodes v d = Some (NdDir 0x1C0) \<and> ux_nodes v p = Some (NdSocket 0x180 me) \<and>
    ux_calls v = ux_calls u @ [ScCreateDirAll d, ScMetadata d, ScSetPermissions d 0x1C0] @ stale @
      [ScBind p, ScMetadata p, ScSetPermissions p 0x180] \<and>
    (stale = [] \<or> stale = [ScConnect p, ScRemoveFile p]) \<and>
    prepare_and_init ev uid None None v = Inr p"
proof -
  obtain d where d: "path_parent p = Some d" "d \<noteq> []"
    using default_parent [of "ev_var_os ev" uid] assms(1) by blast
  obtain u1 u2 u3 where st: "prepare_socket_parent p True u = (Inr (), u1)" "evict_stale_socket p u1 = (Inr (), u2)"
    "bind_socket me p u2 = (Inr (), u3)" "set_socket_perms p u3 = (Inr (), v)"
    using assms(2) unfolding daemon_start_Inr by auto
  obtain stale where stale: "stale = [] \<or> stale = [ScConnect p, ScRemoveFile p]" "ux_calls u2 = ux_calls u1 @ stale"
    using evict_cases [OF st(2)] by auto
  note f = prepare_secures [OF st(1) d] evict_cases [OF st(2)] bind_socket_cases [OF st(3)]
    set_socket_perms_Inr [OF st(4)]
  have ne: "d \<noteq> p" using path_parent_not_self [OF d(1)] .
  have own: "ux_nodes v p = Some (NdSocket 0x180 me)" using daemon_start_owns [OF assms(2)] by simp
  have dir: "ux_nodes v d = Some (NdDir 0x1C0)" using f(2,4-7) ne f(8) [OF ne] by simp
  have calls: "ux_calls v = ux_calls u @ [ScCreateDirAll d, ScMetadata d, ScSetPermissions d 0x1C0] @ stale @
      [ScBind p, ScMetadata p, ScSetPermissions p 0x180]"
    using f(1,5,6) stale(2) by simp
  have "prepare_and_init ev uid None None v = Inr p"
    using own assms(1,3) by (simp add: prepare_and_init_def)
  with d own dir calls stale(1) show ?thesis by blast
qed

text \<open>
  C33. While a daemon answers on a socket, no other one takes it away: a second daemon fails to start, and
  has neither removed nor bound anything at that path; when its directory could be prepared, the error
  says that another daemon is running there.
\<close>

theorem answering_daemon_keeps_socket:
  assumes "ux_nodes u p = Some (NdSocket m other)" "ux_answers u other" "ux_fail u (ScConnect p) = None"
  shows "\<exists>e v cs. daemon_start me ov p u = (Inl e, v) \<and> ux_nodes v p = Some (NdSocket m other) \<and>
    ux_calls v = ux_calls u @ cs \<and> ScRemoveFile p \<notin> set cs \<and> ScBind p \<notin> set cs \<and>
    (fst (prepare_socket_parent p (ov = None) u) = Inr () \<longrightarrow> e = already_running p)"
proof -
  obtain r u1 where prep: "prepare_socket_parent p (ov = None) u = (r, u1)" by fastforce
  from prepare_keeps [OF prep] obtain cs where keep: "same_os u u1" "ux_nodes u1 p = Some (NdSocket m other)"
    "ux_calls u1 = ux_calls u @ cs" "ScRemoveFile p \<notin> set cs" "ScBind p \<notin> set cs"
    using assms(1) by auto
  show ?thesis
  proof (cases r)
    case (Inl e)
    then show ?thesis using prep keep by (auto simp: daemon_start_def sys_bind_def)
  next
    case (Inr x)
    have "evict_stale_socket p u1 = (Inl (already_running p), u1\<lparr>ux_calls := ux_calls u1 @ [ScConnect p]\<rparr>)"
      using keep(1,2) assms(2,3)
      by (simp add: evict_stale_socket_def connect_to_def do_call_def same_os_def)
    then show ?thesis using prep keep Inr by (auto simp: daemon_start_def sys_bind_def)
  qed
qed

text \<open>
  Any failure to connect counts as a stale socket, also that of a daemon that is only too busy to
  answer: a second one then takes its place and runs, and when the first one stops it removes the
  socket of the second, which no client can find any more.
\<close>

theorem stopped_daemon_removes_successors_socket:
  assumes "path_parent p = Some d" "ux_nodes u d = Some (NdDir k)" "ux_nodes u p = Some (NdSocket m first)"
    "\<not> ux_answers u first" "\<forall>c. ux_fail u c = None"
  shows "\<exists>v. daemon_start second ov p u = (Inr (), v) \<and> ux_nodes v p = Some (NdSocket 0x180 second) \<and>
    ux_nodes (snd (snd (daemon_stop p within s v))) p = None"
proof -
  have ne: "d \<noteq> p" using path_parent_not_self [OF assms(1)] .
  obtain u1 where prep: "prepare_socket_parent p (ov = None) u = (Inr (), u1)"
    using assms(1,2,5)
    by (cases "ov = None") (auto simp: prepare_socket_parent_def create_dir_all_def metadata_def
        set_permissions_def sys_simps)
  have u1: "same_os u u1" "ux_nodes u1 p = Some (NdSocket m first)" using prepare_keeps [OF prep] assms(3) by auto
  have fails: "ux_fail u1 c = None" for c using u1(1) assms(5) by (simp add: same_os_def)
  have silent: "\<not> ux_answers u1 first" using u1(1) assms(4) by (simp add: same_os_def)
  obtain u2 where ev: "evict_stale_socket p u1 = (Inr (), u2)" "ux_nodes u2 p = None" "\<And>c. ux_fail u2 c = None"
    using u1(2) fails silent
    by (simp add: evict_stale_socket_def connect_to_def remove_file_def sys_simps)
  obtain v where start: "daemon_start second ov p u = (Inr (), v)"
    using prep ev
    by (auto simp: daemon_start_def bind_socket_def set_socket_perms_def metadata_def set_permissions_def sys_simps)
  have own: "ux_nodes v p = Some (NdSocket 0x180 second)" "ux_fail v (ScRemoveFile p) = None"
    using daemon_start_owns [OF start] assms(5) by (auto simp: same_os_def)
  then have "ux_nodes (snd (snd (daemon_stop p within s v))) p = None"
    by (simp add: daemon_stop_def remove_file_def sys_simps)
  with start own show ?thesis by blast
qed

text \<open>Nor need it be a socket: a file at the path given with \<open>--socket\<close> is removed as well.\<close>

lemma file_removed_as_stale_socket:
  assumes "ux_nodes u p = Some (NdFile m)" "\<forall>c. ux_fail u c = None"
  shows "fst (evict_stale_socket p u) = Inr () \<and> ux_nodes (snd (evict_stale_socket p u)) p = None"
  using assms by (simp add: evict_stale_socket_def connect_to_def remove_file_def sys_simps)

section \<open>Witnesses\<close>

definition plain_env :: ssh_env where
  "plain_env = \<lparr>ev_var = (\<lambda>_. None), ev_var_os = (\<lambda>_. None), ev_home_dir = None, ev_config_dir = None,
     ev_data_dir = None, ev_exists = (\<lambda>_. False), ev_read = (\<lambda>_. Inl []), ev_toml = (\<lambda>_. Inl []),
     ev_russh_config = (\<lambda>_ _. Inl [])\<rparr>"

definition small_os :: "(nat \<Rightarrow> bool) \<Rightarrow> node option \<Rightarrow> unix" where
  "small_os answers n =
     \<lparr>ux_nodes = [''/'' \<mapsto> NdDir 0x1ED, ''/tmp'' \<mapsto> NdDir 0x1FF, ''/tmp/tepegoz-7'' \<mapsto> NdDir 0x1ED]
        (''/tmp/tepegoz-7/daemon.sock'' := n),
      ux_answers = answers, ux_umask = 0x12, ux_fail = (\<lambda>_. None), ux_calls = []\<rparr>"

lemma small_path: "default_socket_path (ev_var_os plain_env) 7 = ''/tmp/tepegoz-7/daemon.sock''"
  by (simp add: default_socket_path_def plain_env_def path_join_def starts_with_def
      show_u32_def show_nat.simps digit_char_def char_of_def bit_Suc_0_iff Let_def)

lemma small_parent: "path_parent ''/tmp/tepegoz-7/daemon.sock'' = Some ''/tmp/tepegoz-7''"
  by (simp add: path_parent_def trim_slashes_def up_to_slash_def)

lemma small_start:
  "\<exists>v. daemon_start 2 None ''/tmp/tepegoz-7/daemon.sock'' (small_os (\<lambda>_. False) (Some (NdSocket 0x180 1))) = (Inr (), v)"
  by (simp add: daemon_start_def prepare_socket_parent_def small_parent create_dir_all_def metadata_def
      set_permissions_def evict_stale_socket_def connect_to_def remove_file_def bind_socket_def
      set_socket_perms_def sys_simps small_os_def)

lemma default_socket_is_private_witness:
  "\<exists>v d stale.
    daemon_start 2 None ''/tmp/tepegoz-7/daemon.sock'' (small_os (\<lambda>_. False) (Some (NdSocket 0x180 1))) = (Inr (), v) \<and>
    path_parent ''/tmp/tepegoz-7/daemon.sock'' = Some d \<and> ux_nodes v d = Some (NdDir 0x1C0) \<and>
    (stale = [] \<or> stale = [ScConnect ''/tmp/tepegoz-7/daemon.sock'', ScRemoveFile ''/tmp/tepegoz-7/daemon.sock''])"
proof -
  obtain v where v: "daemon_start 2 None ''/tmp/tepegoz-7/daemon.sock'' (small_os (\<lambda>_. False) (Some (NdSocket 0x180 1))) = (Inr (), v)"
    using small_start by blast
  show ?thesis
    using default_socket_is_private [OF small_path [symmetric] v] v by (auto simp: plain_env_def)
qed

lemma answering_daemon_keeps_socket_witness:
  "\<exists>e v. daemon_start 2 None ''/tmp/tepegoz-7/daemon.sock'' (small_os (\<lambda>_. True) (Some (NdSocket 0x180 1))) = (Inl e, v) \<and>
     ux_nodes v ''/tmp/tepegoz-7/daemon.sock'' = Some (NdSocket 0x180 1)"
  using answering_daemon_keeps_socket [of "small_os (\<lambda>_. True) (Some (NdSocket 0x180 1))"
      "''/tmp/tepegoz-7/daemon.sock''" "0x180" 1 2 None]
  by (auto simp: small_os_def)

lemma stopped_daemon_removes_successors_socket_witness:
  "\<exists>v. daemon_start 2 None ''/tmp/tepegoz-7/daemon.sock'' (small_os (\<lambda>_. False) (Some (NdSocket 0x180 1))) = (Inr (), v) \<and>
     ux_nodes (snd (snd (daemon_stop ''/tmp/tepegoz-7/daemon.sock'' [] \<lparr>sv_clients = [], sv_log = []\<rparr> v)))
       ''/tmp/tepegoz-7/daemon.sock'' = None"
  using stopped_daemon_removes_successors_socket [OF small_parent,
      of "small_os (\<lambda>_. False) (Some (NdSocket 0x180 1))" "0x1ED" "0x180" 1 2 None "[]"
        "\<lparr>sv_clients = [], sv_log = []\<rparr>"]
  by (auto simp: small_os_def)

end
