(* ===== verification/Startup.thy ===== *)
theory Startup
  imports Runtime
begin

text \<open>
  A run of the TUI from its connection to its last line (\<open>run_with_initial_target\<close> of
  \<open>crates/tepegoz-tui/src/session.rs\<close>): handshake and first pane over the socket, the loop, and what is
  printed when it ends. Raw mode, the terminal and the signal handler are the record \<open>host\<close>.
\<close>

definition terminal_size_fallback :: "(u16 \<times> u16) option \<Rightarrow> u16 \<times> u16" where
  "terminal_size_fallback reported = (case reported of Some s \<Rightarrow> s | None \<Rightarrow> (120, 40))"

text \<open>Before the loop: the pane to attach to. The size is columns and rows.\<close>

definition connect_pane ::
  "(envelope \<Rightarrow> u8 list option) \<Rightarrow> (u8 list \<Rightarrow> envelope option) \<Rightarrow> string option \<Rightarrow> u16 \<times> u16 \<Rightarrow> pane_target \<Rightarrow>
     bool \<Rightarrow> u8 list \<Rightarrow> writer \<Rightarrow> (startup_error + pane_info) \<times> u8 list \<times> writer" where
  "connect_pane tb fb cwd dims target reuse_alive r w =
     (case handshake tb fb r w of
        (Inl e, r1, w1) \<Rightarrow> (Inl e, r1, w1)
      | (Inr _, r1, w1) \<Rightarrow>
          (case dims of (cols, rows) \<Rightarrow> ensure_pane tb fb cwd rows cols target reuse_alive r1 w1))"

text \<open>The loop of \<open>AppRuntime::run\<close> over the turns that come; without a reason it still runs.\<close>

fun runtime_run ::
  "'p rt \<Rightarrow> (instant \<times> io \<times> runtime_input) list \<Rightarrow> 'p runtime \<Rightarrow>
     panic + ('p runtime \<times> envelope list \<times> exit_reason option)" where
  "runtime_run rt [] s = Inr (s, [], None)"
| "runtime_run rt ((now, io, i) # turns) s =
     and_then (runtime_turn rt now io i s) (\<lambda>(s1, sent, r).
       case r of
         Some reason \<Rightarrow> Inr (s1, sent, Some reason)
       | None \<Rightarrow> and_then (runtime_run rt turns s1) (\<lambda>(s2, sent2, r2). Inr (s2, sent @ sent2, r2)))"

text \<open>What is printed: on which stream (\<open>True\<close> is the error stream), and the line behind an empty one.\<close>

definition debug_code :: "i32 option \<Rightarrow> string" where
  "debug_code c = (case c of None \<Rightarrow> ''None'' | Some n \<Rightarrow> ''Some('' @ show_i32 n @ '')'')"

fun exit_message :: "pane_id \<Rightarrow> exit_reason \<Rightarrow> bool \<times> string" where
  "exit_message i ErUserDetach =
     (False, ''[detached '' @ em_dash @ '' daemon and pane '' @ show_nat (unat i) @ '' still running]'')"
| "exit_message i (ErPaneExited c) = (False, ''[pane '' @ show_nat (unat i) @ '' exited (code='' @ debug_code c @ '')]'')"
| "exit_message i (ErDaemonClosed m) = (True, ''[daemon closed: '' @ m @ '']'')"
| "exit_message i (ErDaemonError m) = (True, ''[daemon write failed: '' @ m @ '']'')"
| "exit_message i ErStdinClosed = (False, ''[stdin closed '' @ em_dash @ '' detaching]'')"
| "exit_message i (ErStdinError m) = (True, ''[stdin error: '' @ m @ '']'')"
| "exit_message i (ErAppError m) = (True, ''[runtime error: '' @ m @ '']'')"

record host =
  ho_connect :: "string option" \<comment> \<open>why the socket cannot be connected to\<close>
  ho_size :: "(u16 \<times> u16) option"
  ho_raw :: "string option" \<comment> \<open>why raw mode cannot be entered\<close>
  ho_terminal :: "string option" \<comment> \<open>why ratatui has no terminal\<close>
  ho_signal :: "string option" \<comment> \<open>why the handler of \<open>SIGWINCH\<close> cannot be installed\<close>

datatype run_error = ReIo string | ReStartup startup_error

text \<open>
  The result: the error that ends the start, or the envelopes queued for the daemon and the message
  of the end; \<open>None\<close> while the loop still runs.
\<close>

definition run_pane ::
  "'p rt \<Rightarrow> host \<Rightarrow> io \<Rightarrow> (instant \<times> io \<times> runtime_input) list \<Rightarrow> pane_info \<Rightarrow> u16 \<times> u16 \<Rightarrow>
     panic + (run_error + envelope list \<times> (bool \<times> string) option)" where
  "run_pane rt ho io turns info dims =
     (case ho_raw ho of
        Some e \<Rightarrow> Inr (Inl (ReIo e))
      | None \<Rightarrow>
          (case ho_terminal ho of
             Some e \<Rightarrow> Inr (Inl (ReIo e))
           | None \<Rightarrow>
               (let done = (\<lambda>sent r. Inr (Inr (sent, map_option (exit_message (pi_id info)) r)))
                in and_then (runtime_start rt io info (snd dims, fst dims)) (\<lambda>(s, sent, r).
                     case r of
                       Some reason \<Rightarrow> done sent (Some reason)
                     | None \<Rightarrow>
                         (case ho_signal ho of
                            Some e \<Rightarrow> done sent (Some (ErAppError (''signal install: '' @ e)))
                          | None \<Rightarrow>
                              and_then (runtime_run rt turns s) (\<lambda>(s2, sent2, r2). done (sent @ sent2) r2))))))"

definition run_with_initial_target ::
  "'p rt \<Rightarrow> host \<Rightarrow> io \<Rightarrow> (envelope \<Rightarrow> u8 list option) \<Rightarrow> (u8 list \<Rightarrow> envelope option) \<Rightarrow> string option \<Rightarrow>
     (instant \<times> io \<times> runtime_input) list \<Rightarrow> pane_target \<Rightarrow> bool \<Rightarrow> u8 list \<Rightarrow> writer \<Rightarrow>
     panic + (run_error + envelope list \<times> (bool \<times> string) option)" where
  "run_with_initial_target rt ho io tb fb cwd turns target reuse_alive r w =
     (case ho_connect ho of
        Some e \<Rightarrow> Inr (Inl (ReIo e))
      | None \<Rightarrow>
          (let dims = terminal_size_fallback (ho_size ho)
           in case connect_pane tb fb cwd dims target reuse_alive r w of
                (Inl e, _, _) \<Rightarrow> Inr (Inl (ReStartup e))
              | (Inr info, _, _) \<Rightarrow> run_pane rt ho io turns info dims))"

text \<open>\<open>tepegoz tui\<close> and \<open>tepegoz connect\<close>.\<close>

definition run_target :: "string option \<Rightarrow> pane_target \<times> bool" where
  "run_target connect_alias =
     (case connect_alias of None \<Rightarrow> (PtLocal, True) | Some a \<Rightarrow> (PtRemote a, False))"

end
