(* ===== verification/StartupProps.thy ===== *)
theory StartupProps
  imports Startup PropsRuntime SessionProps
begin

text \<open>
  The start of the TUI against the daemon's session: both sides of the socket together.
\<close>

section \<open>The daemon's side\<close>

definition listed_panes :: "'c world \<Rightarrow> 'c daemon \<Rightarrow> pane_info list" where
  "listed_panes w d =
     map pane_info_of (List.map_filter (pm_panes (da_pty d)) (w_pane_order w (pm_panes (da_pty d)))) @
     map (\<lambda>p. remote_info (rs_pane p))
       (List.map_filter (pm_panes (da_remote_pty d)) (w_remote_order w (pm_panes (da_remote_pty d))))"

definition daemon_has :: "'c daemon \<Rightarrow> pane_info \<Rightarrow> bool" where
  "daemon_has d info \<longleftrightarrow>
     (\<exists>p \<in> ran (pm_panes (da_pty d)). pane_info_of p = info) \<or>
     (\<exists>p \<in> ran (pm_panes (da_remote_pty d)). remote_info (rs_pane p) = info)"

lemma mk_envelope_of: "mk_envelope p = envelope_of p"
  by (simp add: mk_envelope_def envelope_of_def)

lemma listed_daemon_has: "info \<in> set (listed_panes w d) \<Longrightarrow> daemon_has d info"
  by (auto simp: listed_panes_def daemon_has_def List.map_filter_def ran_def)

lemma find_in: "List.find P xs = Some x \<Longrightarrow> x \<in> set xs"
  by (auto simp: find_Some_iff)

definition sent_by :: "nat \<Rightarrow> 'c daemon \<Rightarrow> envelope list" where
  "sent_by cl d = received (ToClient cl) (hb_out (da_hub d))"

lemma reply_sends:
  assumes "w_alive w (ToClient (se_client s))"
  shows "\<exists>d'. reply w s p d = (s, d', True) \<and> sent_by (se_client s) d' = sent_by (se_client s) d @ [mk_envelope p] \<and>
    da_pty d' = da_pty d \<and> da_remote_pty d' = da_remote_pty d"
  using assms
  by (simp add: reply_def with_hub_def hub_send_def tx_send_def sent_by_def mk_envelope_of)

lemma list_answer:
  assumes "w_alive w (ToClient (se_client s))"
  shows "\<exists>d'. handle_command w PListPanes s d = (s, d', True) \<and>
    sent_by (se_client s) d' = sent_by (se_client s) d @ [mk_envelope (PPaneList (listed_panes w d))] \<and>
    da_pty d' = da_pty d \<and> da_remote_pty d' = da_remote_pty d"
  using reply_sends [OF assms, of "PPaneList (listed_panes w d)" d]
  by (simp add: handle_list_panes_def listed_panes_def)

text \<open>The answer to an OpenPane, as the client takes it.\<close>

fun open_result :: "payload \<Rightarrow> startup_error + pane_info" where
  "open_result (PPaneOpened info) = Inr info"
| "open_result (PError e) = Inl (SeRefused e)"
| "open_result p = Inl (SeUnexpected p)"

definition refused_or_there :: "'c daemon \<Rightarrow> startup_error + pane_info \<Rightarrow> bool" where
  "refused_or_there d res \<longleftrightarrow>
     (case res of Inr info \<Rightarrow> daemon_has d info | Inl e \<Rightarrow> (\<exists>m. e = SeRefused m))"

lemma open_answer:
  assumes "w_alive w (ToClient (se_client s))"
  shows "\<exists>d' p. handle_command w (POpenPane spec) s d = (s, d', True) \<and>
    sent_by (se_client s) d' = sent_by (se_client s) d @ [mk_envelope p] \<and> refused_or_there d' (open_result p)"
proof (cases "ops_target spec")
  case PtLocal
  show ?thesis
  proof (cases "w_open_local w spec (pm_next_id (da_pty d))")
    case (Inl e)
    then show ?thesis
      using PtLocal reply_sends [OF assms, of "error_envelope Internal (''open pane: '' @ e)"
          "d\<lparr>da_pty := (da_pty d)\<lparr>pm_next_id := pm_next_id (da_pty d) + 1\<rparr>\<rparr>"]
      by (auto simp: handle_open_pane_def manager_open_def Let_def sent_by_def error_envelope_def
          refused_or_there_def
          intro!: exI [of _ "error_envelope Internal (''open pane: '' @ e)"])
  next
    case (Inr p)
    let ?d = "d\<lparr>da_pty := (da_pty d)\<lparr>pm_next_id := pm_next_id (da_pty d) + 1,
      pm_panes := (pm_panes (da_pty d))(pm_next_id (da_pty d) \<mapsto> p)\<rparr>\<rparr>"
    obtain d' where d': "reply w s (PPaneOpened (pane_info_of p)) ?d = (s, d', True)"
      "sent_by (se_client s) d' = sent_by (se_client s) ?d @ [mk_envelope (PPaneOpened (pane_info_of p))]"
      "da_pty d' = da_pty ?d"
      using reply_sends [OF assms, of "PPaneOpened (pane_info_of p)" ?d] by auto
    have "daemon_has d' (pane_info_of p)"
      unfolding daemon_has_def d'(3) by (rule disjI1) (auto simp: ran_def)
    then show ?thesis
      using PtLocal Inr d'(1,2)
      by (auto simp: handle_open_pane_def manager_open_def Let_def sent_by_def refused_or_there_def
          intro!: exI [of _ "PPaneOpened (pane_info_of p)"])
  qed
next
  case (PtRemote al)
  obtain m res where rem: "remote_manager_open (w_open_remote w al) (w_remote_tx w) (w_created w) al
      (ops_rows spec) (ops_cols spec) (da_remote_pty d) = (m, res)" by fastforce
  show ?thesis
  proof (cases res)
    case (Inl e)
    let ?e = "error_envelope Internal (''open remote pane ('' @ al @ ''): '' @ e)"
    show ?thesis
      using PtRemote rem Inl reply_sends [OF assms, of ?e "d\<lparr>da_remote_pty := m\<rparr>"]
      by (auto simp: handle_open_pane_def Let_def sent_by_def error_envelope_def refused_or_there_def
          intro!: exI [of _ ?e])
  next
    case (Inr p)
    have "p \<in> ran (pm_panes m)"
      using rem Inr by (auto simp: remote_manager_open_def Let_def ran_def split: option.splits if_splits)
    moreover obtain d' where d': "reply w s (PPaneOpened (remote_info (rs_pane p))) (d\<lparr>da_remote_pty := m\<rparr>) = (s, d', True)"
      "sent_by (se_client s) d' =
         sent_by (se_client s) (d\<lparr>da_remote_pty := m\<rparr>) @ [mk_envelope (PPaneOpened (remote_info (rs_pane p)))]"
      "da_remote_pty d' = m"
      using reply_sends [OF assms, of "PPaneOpened (remote_info (rs_pane p))" "d\<lparr>da_remote_pty := m\<rparr>"] by auto
    ultimately have "daemon_has d' (remote_info (rs_pane p))"
      unfolding daemon_has_def by blast
    then show ?thesis
      using PtRemote rem Inr d'(1,2)
      by (auto simp: handle_open_pane_def Let_def sent_by_def refused_or_there_def
          intro!: exI [of _ "PPaneOpened (remote_info (rs_pane p))"])
  qed
qed

text \<open>The session from the hello on: the welcome, and the answers to what start-up asks.\<close>

definition startup_opens :: "bool \<Rightarrow> pane_info list \<Rightarrow> bool" where
  "startup_opens reuse panes \<longleftrightarrow> \<not> reuse \<or> List.find pi_alive panes = None"

lemma startup_requests_eq:
  "startup_requests cwd rows cols target reuse panes =
     (if reuse then [PListPanes] else []) @
     (if startup_opens reuse panes then [first_open cwd rows cols target] else [])"
  by (simp add: startup_requests_def startup_opens_def)

lemma session_answers:
  assumes "w_alive w (ToClient cl)"
    and "reqs = startup_requests cwd rows cols target reuse (listed_panes w d)"
  shows "\<exists>s d' p. Session.session w cl (mk_envelope hello_payload) (map (SeMsg \<circ> mk_envelope) reqs) d = (Some s, d') \<and>
    sent_by cl d' = sent_by cl d @ map mk_envelope
      (welcome_payload w d # (if reuse then [PPaneList (listed_panes w d)] else []) @
       (if startup_opens reuse (listed_panes w d) then [p] else [])) \<and>
    (if startup_opens reuse (listed_panes w d) then refused_or_there d' (open_result p)
     else daemon_has d' (the (List.find pi_alive (listed_panes w d))))"
proof -
  let ?s = "session_new cl"
  have cl: "se_client ?s = cl" by (simp add: session_new_def)
  obtain d0 where d0: "reply w ?s (welcome_payload w d) d = (?s, d0, True)"
    "sent_by cl d0 = sent_by cl d @ [mk_envelope (welcome_payload w d)]"
    "da_pty d0 = da_pty d" "da_remote_pty d0 = da_remote_pty d"
    using reply_sends [of w ?s "welcome_payload w d" d] assms(1) cl by auto
  have start: "Session.session w cl (mk_envelope hello_payload) inputs d =
      (case session_loop w inputs ?s d0 of (s2, d2, True) \<Rightarrow> (Some s2, d2) | (s2, d2, False) \<Rightarrow> (None, teardown w s2 d2))"
    for inputs
    using d0(1) by (simp add: Session.session_def Session.handshake_def hello_payload_def mk_envelope_def)
  have same: "listed_panes w d0 = listed_panes w d" using d0(3,4) by (simp add: listed_panes_def)
  define d1 where "d1 = (if reuse then fst (snd (handle_command w PListPanes ?s d0)) else d0)"
  have d1: "reuse \<Longrightarrow> handle_command w PListPanes ?s d0 = (?s, d1, True)"
    "sent_by cl d1 = sent_by cl d0 @ (if reuse then [mk_envelope (PPaneList (listed_panes w d))] else [])"
    "da_pty d1 = da_pty d" "da_remote_pty d1 = da_remote_pty d"
    using list_answer [of w ?s d0] assms(1) cl d0(3,4) same by (auto simp: d1_def)
  have step: "session_step w (SeMsg (mk_envelope p)) s x = handle_command w p s x" for p s x
    by (simp add: session_step_def mk_envelope_def)
  show ?thesis
  proof (cases "startup_opens reuse (listed_panes w d)")
    case True
    obtain d2 p where d2: "handle_command w (first_open cwd rows cols target) ?s d1 = (?s, d2, True)"
      "sent_by cl d2 = sent_by cl d1 @ [mk_envelope p]" "refused_or_there d2 (open_result p)"
      using open_answer [of w ?s _ d1] assms(1) cl unfolding first_open_def by metis
    have "session_loop w (map (SeMsg \<circ> mk_envelope) reqs) ?s d0 = (?s, d2, True)"
    proof (cases reuse)
      case r: True
      from True r d1(1) [OF r] d2(1) show ?thesis
        by (simp add: assms(2) startup_requests_eq step del: handle_command.simps)
    next
      case False
      with True d2(1) show ?thesis by (simp add: assms(2) startup_requests_eq step d1_def)
    qed
    then show ?thesis using True start d2 d1(2) d0(2) by auto
  next
    case False
    then have r: "reuse" "List.find pi_alive (listed_panes w d) \<noteq> None" by (auto simp: startup_opens_def)
    then have "daemon_has d (the (List.find pi_alive (listed_panes w d)))"
      using find_in listed_daemon_has by fastforce
    then have "daemon_has d1 (the (List.find pi_alive (listed_panes w d)))"
      using d1(3,4) by (simp add: daemon_has_def)
    moreover have "session_loop w (map (SeMsg \<circ> mk_envelope) reqs) ?s d0 = (?s, d1, True)"
      using False r d1(1) by (simp add: assms(2) startup_requests_eq step del: handle_command.simps)
    ultimately show ?thesis using False start d1(2) d0(2) r by auto
  qed
qed

section \<open>The client's side\<close>

lemma framable_all: "list_all (framable tb) (map mk_envelope ps) \<Longrightarrow> p \<in> set ps \<Longrightarrow> framable tb (mk_envelope p)"
  by (auto simp: list_all_iff)

lemma open_first_answer:
  assumes "rkyv_roundtrip tb fb" "wr_room v = None" "framable tb (mk_envelope (first_open cwd rows cols target))"
    and "framable tb (mk_envelope p)"
  shows "open_first_pane tb fb cwd rows cols target (frames tb [mk_envelope p] @ rest) v =
    (open_result p, rest, v\<lparr>wr_out := wr_out v @ frames tb [mk_envelope (first_open cwd rows cols target)]\<rparr>)"
  using send_payload_open [OF assms(3,2)] read_envelope_first [OF assms(1,4), of "[]" rest]
  by (cases p) (simp_all add: open_first_pane_def first_open_def mk_envelope_def)

lemma handshake_welcomed:
  assumes "rkyv_roundtrip tb fb" "wr_room v = None" "framable tb (mk_envelope hello_payload)"
    and "framable tb (mk_envelope (PWelcome wi))"
  shows "Runtime.handshake tb fb (frames tb (mk_envelope (PWelcome wi) # envs) @ rest) v =
    (Inr wi, frames tb envs @ rest, v\<lparr>wr_out := wr_out v @ frames tb [mk_envelope hello_payload]\<rparr>)"
  using send_payload_open [OF assms(3,2)] read_envelope_first [OF assms(1,4), of envs rest]
  by (simp add: Runtime.handshake_def hello_payload_def mk_envelope_def)

lemma ensure_answered:
  assumes "rkyv_roundtrip tb fb" "wr_room v = None"
    and "list_all (framable tb) (map mk_envelope (startup_requests cwd rows cols target reuse panes))"
    and "list_all (framable tb) (map mk_envelope ((if reuse then [PPaneList panes] else []) @
      (if startup_opens reuse panes then [p] else [])))"
  shows "ensure_pane tb fb cwd rows cols target reuse
      (frames tb (map mk_envelope ((if reuse then [PPaneList panes] else []) @
         (if startup_opens reuse panes then [p] else []))) @ rest) v =
    (if startup_opens reuse panes then open_result p else Inr (the (List.find pi_alive panes)), rest,
     v\<lparr>wr_out := wr_out v @ frames tb (map mk_envelope (startup_requests cwd rows cols target reuse panes))\<rparr>)"
proof -
  note fr = assms(3,4) [unfolded startup_requests_eq]
  show ?thesis
  proof (cases reuse)
    case False
    then show ?thesis
      using fr open_first_answer [OF assms(1,2), of cwd rows cols target p rest]
      by (simp add: ensure_pane_def startup_requests_eq startup_opens_def)
  next
    case r: True
    then have fl: "framable tb (mk_envelope PListPanes)" "framable tb (mk_envelope (PPaneList panes))"
      using fr by simp_all
    note list = send_payload_open [OF fl(1) assms(2)] read_envelope_first [OF assms(1) fl(2)]
    show ?thesis
    proof (cases "List.find pi_alive panes")
      case None
      then show ?thesis
        using r fr list(1) list(2) [of "[mk_envelope p]" rest]
          open_first_answer [OF assms(1), of "v\<lparr>wr_out := wr_out v @ frames tb [mk_envelope PListPanes]\<rparr>"
            cwd rows cols target p rest] assms(2)
          frames_append [of tb "[mk_envelope PListPanes]" "[mk_envelope (first_open cwd rows cols target)]"]
        by (simp add: ensure_pane_def startup_requests_eq startup_opens_def mk_envelope_def)
    next
      case (Some i)
      then show ?thesis
        using r list(1) list(2) [of "[]" rest]
        by (simp add: ensure_pane_def startup_requests_eq startup_opens_def mk_envelope_def)
    qed
  qed
qed

section \<open>Both sides\<close>

text \<open>
  C14. The TUI and the daemon meet: the hello and the requests of the start-up, read by a session of the
  daemon, are answered so that the client, reading the answers from the socket, ends with a pane the
  daemon has, the first living one of its list when one is taken over, or with the daemon's own
  refusal to open one; it has read every answer, and the session goes on.
\<close>

theorem startup_attaches_to_daemons_pane:
  assumes "rkyv_roundtrip tb fb" "wr_room v = None" "w_alive w (ToClient cl)"
    and "reqs = startup_requests cwd (snd dims) (fst dims) target reuse (listed_panes w d)"
    and "Session.session w cl (mk_envelope hello_payload) (map (SeMsg \<circ> mk_envelope) reqs) d = (st, d')"
    and "sent_by cl d' = sent_by cl d @ answers"
    and "list_all (framable tb) (map mk_envelope (hello_payload # reqs) @ answers)"
  shows "\<exists>res. connect_pane tb fb cwd dims target reuse (frames tb answers @ rest) v =
      (res, rest, v\<lparr>wr_out := wr_out v @ frames tb (map mk_envelope (hello_payload # reqs))\<rparr>) \<and>
    st \<noteq> None \<and> refused_or_there d' res \<and>
    (\<not> startup_opens reuse (listed_panes w d) \<longrightarrow> res = Inr (the (List.find pi_alive (listed_panes w d))))"
proof -
  let ?panes = "listed_panes w d"
  let ?w = "v\<lparr>wr_out := wr_out v @ frames tb [mk_envelope hello_payload]\<rparr>"
  obtain p where st: "st \<noteq> None" and sent: "sent_by cl d' = sent_by cl d @ map mk_envelope
      (welcome_payload w d # (if reuse then [PPaneList ?panes] else []) @ (if startup_opens reuse ?panes then [p] else []))"
    and there: "if startup_opens reuse ?panes then refused_or_there d' (open_result p)
      else daemon_has d' (the (List.find pi_alive ?panes))"
    using session_answers [OF assms(3,4)] assms(5) by auto
  define rest_answers where "rest_answers = (if reuse then [PPaneList ?panes] else []) @
    (if startup_opens reuse ?panes then [p] else [])"
  have answers: "answers = mk_envelope (welcome_payload w d) # map mk_envelope rest_answers"
    using sent assms(6) by (simp add: rest_answers_def)
  obtain wi where wi: "welcome_payload w d = PWelcome wi" by (simp add: welcome_payload_def)
  have hs: "Runtime.handshake tb fb (frames tb answers @ rest) v = (Inr wi, frames tb (map mk_envelope rest_answers) @ rest, ?w)"
    using handshake_welcomed [OF assms(1,2), of wi "map mk_envelope rest_answers" rest] assms(7)
    by (simp add: answers wi)
  have "ensure_pane tb fb cwd (snd dims) (fst dims) target reuse (frames tb (map mk_envelope rest_answers) @ rest) ?w =
      (if startup_opens reuse ?panes then open_result p else Inr (the (List.find pi_alive ?panes)), rest,
       ?w\<lparr>wr_out := wr_out ?w @ frames tb (map mk_envelope reqs)\<rparr>)"
    unfolding rest_answers_def assms(4)
    by (rule ensure_answered [OF assms(1)]) (use assms(2,7) in \<open>simp_all add: answers rest_answers_def assms(4)\<close>)
  then have "connect_pane tb fb cwd dims target reuse (frames tb answers @ rest) v =
      (if startup_opens reuse ?panes then open_result p else Inr (the (List.find pi_alive ?panes)), rest,
       v\<lparr>wr_out := wr_out v @ frames tb (map mk_envelope (hello_payload # reqs))\<rparr>)"
    using hs frames_append [of tb "[mk_envelope hello_payload]" "map mk_envelope reqs"]
    by (cases dims) (simp add: connect_pane_def)
  then show ?thesis
    using st there by (auto simp: refused_or_there_def)
qed

text \<open>A daemon without panes that can start a shell.\<close>

definition shell_pane :: "pane_id \<Rightarrow> unit pane" where
  "shell_pane i = \<lparr>pn_id = i, pn_created_at_unix_millis = 0, pn_shell = ''/bin/sh'', pn_size = (24, 80),
     pn_output_tx = (), pn_scrollback = scrollback_new 10, pn_exit_code = None, pn_alive = True\<rparr>"

definition shell_world :: "unit world" where
  "shell_world = idle_world\<lparr>w_open_local := (\<lambda>spec i. Inr (shell_pane i))\<rparr>"

theorem startup_attaches_to_daemons_pane_witness:
  "\<exists>tb fb res out rest.
    connect_pane tb fb None (80, 24) PtLocal True (frames tb out) \<lparr>wr_out = [], wr_room = None\<rparr> = (res, [], rest) \<and>
    refused_or_there (snd (Session.session shell_world 1 (mk_envelope hello_payload)
      (map (SeMsg \<circ> mk_envelope) (startup_requests None 24 80 PtLocal True [])) fresh_daemon)) res"
proof -
  let ?reqs = "startup_requests None 24 80 PtLocal True []"
  have none: "listed_panes shell_world fresh_daemon = []"
    by (simp add: listed_panes_def shell_world_def idle_world_def List.map_filter_def)
  have alive: "w_alive shell_world (ToClient 1)" by (simp add: shell_world_def idle_world_def)
  have reqs: "?reqs = startup_requests None (snd (80, 24)) (fst (80, 24)) PtLocal True (listed_panes shell_world fresh_daemon)"
    by (simp add: none)
  obtain st d' where run: "Session.session shell_world 1 (mk_envelope hello_payload) (map (SeMsg \<circ> mk_envelope) ?reqs)
      fresh_daemon = (st, d')" by fastforce
  obtain out where out: "sent_by 1 d' = sent_by 1 fresh_daemon @ out" "length out \<le> 3"
    using session_answers [OF alive reqs] run by (auto split: if_splits)
  let ?known = "map mk_envelope (hello_payload # ?reqs) @ out"
  have "length ?known \<le> MAX_FRAME_SIZE"
    using out(2) by (simp add: startup_requests_def MAX_FRAME_SIZE_def)
  then have "list_all (framable (index_bytes ?known)) ?known"
    unfolding list_all_iff using index_framable by blast
  from startup_attaches_to_daemons_pane [OF index_roundtrip _ alive reqs run out(1) this,
      of "\<lparr>wr_out = [], wr_room = None\<rparr>" "[]"]
  obtain res w' where "connect_pane (index_bytes ?known) (index_of ?known) None (80, 24) PtLocal True
      (frames (index_bytes ?known) out) \<lparr>wr_out = [], wr_room = None\<rparr> = (res, [], w')" "refused_or_there d' res"
    by auto
  then show ?thesis unfolding run snd_conv by blast
qed

end
