(* ===== verification/AgentTunnel.thy ===== *)
theory AgentTunnel
  imports AgentForwarders Agent AgentProps Codec
begin

text \<open>
  The bytes between the daemon and a remote agent: the driver and the parser of
  \<open>crates/tepegoz-core/src/agent.rs\<close> (\<open>run_agent_driver_russh\<close>, \<open>run_envelope_parser\<close>) at one end of an SSH
  channel, the server loop and the writer task of \<open>crates/tepegoz-agent/src/lib.rs\<close> at the other. The tasks
  interleave as the steps of a relation on the record \<open>link\<close>. russh and the host's sshd are what moves
  bytes from one end to the other: in order, in pieces of any size, and until the channel ends.
\<close>

section \<open>The driver\<close>

definition AGENT_PIPE_BYTES :: nat where "AGENT_PIPE_BYTES = 64 * 1024"

datatype channel_msg = CmData "u8 list" | CmExtendedData "u8 list" | CmEof | CmClose | CmOther

definition serialize_envelope :: "(envelope \<Rightarrow> u8 list option) \<Rightarrow> envelope \<Rightarrow> (u8 list \<times> u8 list) option" where
  "serialize_envelope tb env =
     (case tb env of
        None \<Rightarrow> None
      | Some body \<Rightarrow> if 2 ^ 32 \<le> length body then None else Some (to_be_bytes (word_of_nat (length body)), body))"

text \<open>The arm of the \<open>select\<close> for a command: what the channel took, and whether the loop goes on.\<close>

definition driver_write :: "(envelope \<Rightarrow> u8 list option) \<Rightarrow> envelope \<Rightarrow> writer \<Rightarrow> writer \<times> bool" where
  "driver_write tb env w =
     (case serialize_envelope tb env of
        None \<Rightarrow> (w, True)
      | Some (len, body) \<Rightarrow>
          (case write_all len w of
             (Inl _, w1) \<Rightarrow> (w1, False)
           | (Inr _, w1) \<Rightarrow> (case write_all body w1 of (Inl _, w2) \<Rightarrow> (w2, False) | (Inr _, w2) \<Rightarrow> (w2, True))))"

text \<open>In the \<open>select\<close>, waiting for room in the pipe to the parser, or ended.\<close>

datatype driver = DrSelect | DrPushing "u8 list" | DrDone

text \<open>The arm for a message of the channel; \<open>None\<close> when the channel is gone.\<close>

fun driver_message :: "channel_msg option \<Rightarrow> driver" where
  "driver_message (Some (CmData data)) = (if data = [] then DrSelect else DrPushing data)"
| "driver_message (Some (CmExtendedData _)) = DrSelect"
| "driver_message (Some CmOther) = DrSelect"
| "driver_message (Some CmEof) = DrDone"
| "driver_message (Some CmClose) = DrDone"
| "driver_message None = DrDone"

text \<open>How many bytes \<open>read_envelope\<close> still waits for, when it has read \<open>buf\<close> of a frame.\<close>

definition frame_missing :: "u8 list \<Rightarrow> nat" where
  "frame_missing buf =
     (if length buf < 4 then 4 - length buf
      else (let len = unat (from_be_bytes (take 4 buf))
            in 4 + (if MAX_FRAME_SIZE < len then 32 else len) - length buf))"

section \<open>The two ends\<close>

record link =
  lk_hub :: hub
  lk_taken :: nat \<comment> \<open>envelopes for the agent the driver has taken from its queue\<close>
  lk_driver :: driver
  lk_channel :: writer \<comment> \<open>towards the agent's standard input\<close>
  lk_inbox :: "channel_msg list"
  lk_pipe :: "u8 list"
  lk_frame :: "u8 list" \<comment> \<open>what the parser has read of a frame\<close>
  lk_parsing :: bool
  lk_consumed :: nat \<comment> \<open>bytes the agent has read\<close>
  lk_agent :: agent_state
  lk_serving :: bool
  lk_sent :: "envelope list" \<comment> \<open>what the agent's tasks have queued for its writer\<close>
  lk_written :: nat
  lk_writing :: bool
  lk_stdout :: "u8 list" \<comment> \<open>written, and not yet carried away\<close>

definition link_new :: "hub \<Rightarrow> nat option \<Rightarrow> link" where
  "link_new h room =
     \<lparr>lk_hub = h, lk_taken = 0, lk_driver = DrSelect, lk_channel = \<lparr>wr_out = [], wr_room = room\<rparr>,
      lk_inbox = [], lk_pipe = [], lk_frame = [], lk_parsing = True, lk_consumed = 0,
      lk_agent = agent_state_new, lk_serving = True, lk_sent = [], lk_written = 0, lk_writing = True,
      lk_stdout = []\<rparr>"

text \<open>The driver's queue: everything that was sent to the agent of address \<open>a\<close>.\<close>

definition to_agent :: "nat \<Rightarrow> link \<Rightarrow> envelope list" where
  "to_agent a s = received (ToAgent a) (hb_out (lk_hub s))"

definition hub_route :: "(dest \<Rightarrow> bool) \<Rightarrow> nat \<Rightarrow> envelope \<Rightarrow> hub \<Rightarrow> hub" where
  "hub_route alive a env h =
     (case route_agent_envelope alive env (hb_conns h a) (hb_out h) of
        (c, out) \<Rightarrow> h\<lparr>hb_conns := (hb_conns h)(a := c), hb_out := out\<rparr>)"

definition push_rest :: "nat \<Rightarrow> u8 list \<Rightarrow> driver" where
  "push_rest n rest = (if drop n rest = [] then DrSelect else DrPushing (drop n rest))"

text \<open>
  What the tasks do on their own: the driver, the parser and the agent's writer, and the channel
  carrying bytes. The \<open>select\<close> of the driver is biased to commands. \<open>must\<close> are the receivers that are there.
\<close>

inductive delivery_step ::
  "(envelope \<Rightarrow> u8 list option) \<Rightarrow> (u8 list \<Rightarrow> envelope option) \<Rightarrow> ((u64 \<rightharpoonup> routed_sub) \<Rightarrow> u64 list) \<Rightarrow>
     dest set \<Rightarrow> nat \<Rightarrow> link \<Rightarrow> link \<Rightarrow> bool"
  for tb fb order must a
where
  ds_take: "lk_driver s = DrSelect \<Longrightarrow> lk_taken s < length (to_agent a s) \<Longrightarrow>
    driver_write tb (to_agent a s ! lk_taken s) (lk_channel s) = (w, ok) \<Longrightarrow>
    delivery_step tb fb order must a s
      (s\<lparr>lk_taken := lk_taken s + 1, lk_channel := w, lk_driver := if ok then DrSelect else DrDone\<rparr>)"
| ds_message: "lk_driver s = DrSelect \<Longrightarrow> lk_taken s = length (to_agent a s) \<Longrightarrow> lk_inbox s = m # ms \<Longrightarrow>
    delivery_step tb fb order must a s (s\<lparr>lk_inbox := ms, lk_driver := driver_message (Some m)\<rparr>)"
| ds_push: "lk_driver s = DrPushing rest \<Longrightarrow> lk_parsing s \<Longrightarrow> 0 < n \<Longrightarrow> n \<le> length rest \<Longrightarrow>
    length (lk_pipe s) + n \<le> AGENT_PIPE_BYTES \<Longrightarrow>
    delivery_step tb fb order must a s (s\<lparr>lk_pipe := lk_pipe s @ take n rest, lk_driver := push_rest n rest\<rparr>)"
| ds_push_closed: "lk_driver s = DrPushing rest \<Longrightarrow> \<not> lk_parsing s \<Longrightarrow>
    delivery_step tb fb order must a s (s\<lparr>lk_driver := DrDone\<rparr>)"
| ds_pull: "lk_parsing s \<Longrightarrow> 0 < n \<Longrightarrow> n \<le> frame_missing (lk_frame s) \<Longrightarrow> n \<le> length (lk_pipe s) \<Longrightarrow>
    delivery_step tb fb order must a s
      (s\<lparr>lk_frame := lk_frame s @ take n (lk_pipe s), lk_pipe := drop n (lk_pipe s)\<rparr>)"
| ds_parse: "lk_parsing s \<Longrightarrow> frame_missing (lk_frame s) = 0 \<Longrightarrow>
    read_envelope fb (lk_frame s) = (Inr env, rest) \<Longrightarrow> \<forall>x \<in> must. alive x \<Longrightarrow>
    delivery_step tb fb order must a s (s\<lparr>lk_frame := rest, lk_hub := hub_route alive a env (lk_hub s)\<rparr>)"
| ds_parse_fails: "lk_parsing s \<Longrightarrow> frame_missing (lk_frame s) = 0 \<Longrightarrow>
    read_envelope fb (lk_frame s) = (Inl e, rest) \<Longrightarrow> \<forall>x \<in> must. alive x \<Longrightarrow>
    delivery_step tb fb order must a s
      (s\<lparr>lk_frame := rest, lk_parsing := False,
         lk_hub := shutdown_agent_connection alive order a (lk_hub s)\<rparr>)"
| ds_end_of_pipe: "lk_parsing s \<Longrightarrow> lk_driver s = DrDone \<Longrightarrow> lk_pipe s = [] \<Longrightarrow>
    frame_missing (lk_frame s) \<noteq> 0 \<Longrightarrow> \<forall>x \<in> must. alive x \<Longrightarrow>
    delivery_step tb fb order must a s
      (s\<lparr>lk_parsing := False, lk_hub := shutdown_agent_connection alive order a (lk_hub s)\<rparr>)"
| ds_write: "lk_writing s \<Longrightarrow> lk_written s < length (lk_sent s) \<Longrightarrow>
    write_envelope tb \<lparr>wr_out = lk_stdout s, wr_room = None\<rparr> (lk_sent s ! lk_written s) = (r, w) \<Longrightarrow>
    delivery_step tb fb order must a s
      (case r of Inr _ \<Rightarrow> s\<lparr>lk_written := lk_written s + 1, lk_stdout := wr_out w\<rparr>
               | Inl _ \<Rightarrow> s\<lparr>lk_writing := False, lk_stdout := wr_out w\<rparr>)"
| ds_carry: "0 < n \<Longrightarrow> n \<le> length (lk_stdout s) \<Longrightarrow>
    delivery_step tb fb order must a s
      (s\<lparr>lk_stdout := drop n (lk_stdout s), lk_inbox := lk_inbox s @ [CmData (take n (lk_stdout s))]\<rparr>)"

section \<open>What comes from outside\<close>

fun subscription_id :: "subscription \<Rightarrow> u64" where
  "subscription_id (SubStatus i) = i"
| "subscription_id (SubDocker i _) = i"
| "subscription_id (SubDockerLogs i _ _ _ _) = i"
| "subscription_id (SubDockerStats i _ _) = i"
| "subscription_id (SubPorts i _) = i"
| "subscription_id (SubProcesses i _) = i"
| "subscription_id (SubFleet i) = i"

text \<open>
  What a handler of the daemon does to the pool meanwhile: the requests of clients. \<open>allowed\<close> says for
  which client and id one may be made, \<open>kept\<close> which of the connection's subscriptions stay.
\<close>

inductive handler_step ::
  "(dest \<Rightarrow> bool) \<Rightarrow> nat \<Rightarrow> (nat \<Rightarrow> u64 \<Rightarrow> bool) \<Rightarrow> (u64 \<Rightarrow> bool) \<Rightarrow> hub \<Rightarrow> hub \<Rightarrow> bool"
  for alive a allowed kept
where
  hs_subscribe: "allowed cl i \<Longrightarrow> \<forall>j. subscription_id (builder j) = j \<Longrightarrow>
    unat (ac_next_sub_id (hb_conns h a)) < 2 ^ 64 - 1 \<Longrightarrow>
    route_remote_subscribe alive cl i alias scope required builder subs h = (subs', h') \<Longrightarrow>
    handler_step alive a allowed kept h h'"
| hs_action: "allowed cl (dar_request_id req) \<Longrightarrow> unat (ac_next_sub_id (hb_conns h a)) < 2 ^ 64 - 1 \<Longrightarrow>
    handler_step alive a allowed kept h (route_remote_docker_action alive cl alias req h)"
| hs_unsubscribe: "hb_pool h (ah_alias handle) \<noteq> Some a \<or> \<not> kept (ah_daemon_id handle) \<Longrightarrow>
    handler_step alive a allowed kept h (drop_agent_sub alive handle h)"

text \<open>
  What a running task of the agent may send: a forwarder events under its subscription, an action the
  answer to its request (\<open>AgentForwarders\<close> says which ones).
\<close>

fun task_sends :: "task_kind \<Rightarrow> envelope \<Rightarrow> bool" where
  "task_sends (TaskDocker i) env = (\<exists>ev. env = event_envelope i ev)"
| "task_sends (TaskDockerLogs i _ _ _) env = (\<exists>ev. env = event_envelope i ev)"
| "task_sends (TaskDockerStats i _) env = (\<exists>ev. env = event_envelope i ev)"
| "task_sends (TaskPorts i) env = (\<exists>ev. env = event_envelope i ev)"
| "task_sends (TaskProcesses i) env = (\<exists>ev. env = event_envelope i ev)"
| "task_sends (TaskDockerAction req) env =
     (\<exists>e1 e2. env = envelope_of (PDockerActionResult (agent_run_docker_action e1 e2 req)))"
| "task_sends _ env = False"

text \<open>One turn of the loop of \<open>serve\<close> on what was read.\<close>

definition serve_turn :: "agent_host \<Rightarrow> codec_error + envelope \<Rightarrow> link \<Rightarrow> link" where
  "serve_turn host r s =
     (case r of
        Inl _ \<Rightarrow> s\<lparr>lk_serving := False, lk_agent := agent_stop (lk_agent s)\<rparr>
      | Inr env \<Rightarrow>
          (case serve_loop host [Inr env] (lk_agent s) of
             (g, outs, None) \<Rightarrow> s\<lparr>lk_agent := g, lk_sent := lk_sent s @ outs\<rparr>
           | (g, outs, Some _) \<Rightarrow>
               s\<lparr>lk_agent := agent_stop g, lk_sent := lk_sent s @ outs, lk_serving := False\<rparr>))"

text \<open>What the agent can read now.\<close>

definition stdin_rest :: "link \<Rightarrow> u8 list" where
  "stdin_rest s = drop (lk_consumed s) (wr_out (lk_channel s))"

inductive outside_step ::
  "(envelope \<Rightarrow> u8 list option) \<Rightarrow> (u8 list \<Rightarrow> envelope option) \<Rightarrow> agent_host \<Rightarrow> dest set \<Rightarrow>
     (nat \<Rightarrow> u64 \<Rightarrow> bool) \<Rightarrow> (u64 \<Rightarrow> bool) \<Rightarrow> nat \<Rightarrow> link \<Rightarrow> link \<Rightarrow> bool"
  for tb fb host must allowed kept a
where
  os_handler: "handler_step alive a allowed kept (lk_hub s) h \<Longrightarrow> \<forall>x \<in> must. alive x \<Longrightarrow>
    alive (ToAgent a) \<longleftrightarrow> lk_driver s \<noteq> DrDone \<Longrightarrow>
    outside_step tb fb host must allowed kept a s (s\<lparr>lk_hub := h\<rparr>)"
| os_agent_reads: "lk_serving s \<Longrightarrow> frame_missing (stdin_rest s) = 0 \<Longrightarrow>
    read_envelope fb (stdin_rest s) = (r, rest) \<Longrightarrow>
    outside_step tb fb host must allowed kept a s
      (serve_turn host r (s\<lparr>lk_consumed := length (wr_out (lk_channel s)) - length rest\<rparr>))"
| os_agent_ends: "lk_serving s \<Longrightarrow>
    outside_step tb fb host must allowed kept a s (s\<lparr>lk_serving := False, lk_agent := agent_stop (lk_agent s)\<rparr>)"
| os_task_sends: "as_tasks (lk_agent s) t = Some k \<Longrightarrow> task_sends k env \<Longrightarrow>
    outside_step tb fb host must allowed kept a s (s\<lparr>lk_sent := lk_sent s @ [env]\<rparr>)"
| os_task_ends:
    "outside_step tb fb host must allowed kept a s
       (s\<lparr>lk_agent := (lk_agent s)\<lparr>as_tasks := (as_tasks (lk_agent s))(t := None)\<rparr>\<rparr>)"
| os_channel_msg: "m = CmExtendedData bs \<or> m = CmOther \<or> m = CmEof \<or> m = CmClose \<Longrightarrow>
    outside_step tb fb host must allowed kept a s (s\<lparr>lk_inbox := lk_inbox s @ [m]\<rparr>)"
| os_channel_gone: "lk_driver s = DrSelect \<Longrightarrow> lk_taken s = length (to_agent a s) \<Longrightarrow> lk_inbox s = [] \<Longrightarrow>
    outside_step tb fb host must allowed kept a s (s\<lparr>lk_driver := driver_message None\<rparr>)"

definition link_step ::
  "(envelope \<Rightarrow> u8 list option) \<Rightarrow> (u8 list \<Rightarrow> envelope option) \<Rightarrow> agent_host \<Rightarrow>
     ((u64 \<rightharpoonup> routed_sub) \<Rightarrow> u64 list) \<Rightarrow> dest set \<Rightarrow> (nat \<Rightarrow> u64 \<Rightarrow> bool) \<Rightarrow> (u64 \<Rightarrow> bool) \<Rightarrow> nat \<Rightarrow>
     link \<Rightarrow> link \<Rightarrow> bool" where
  "link_step tb fb host order must allowed kept a s s' \<longleftrightarrow>
     delivery_step tb fb order must a s s' \<or> outside_step tb fb host must allowed kept a s s'"

end
