(* ===== verification/TunnelProps.thy ===== *)
theory TunnelProps
  imports AgentTunnel
begin

text \<open>
  What the bytes between daemon and agent amount to: a subscription for a remote host, from the client's
  request to the agent's task and back, whatever the tasks of both ends, the channel and other clients
  do in between.
\<close>

section \<open>Ids\<close>

fun env_id :: "envelope \<Rightarrow> u64 option" where
  "env_id env =
     (case en_payload env of
        PSubscribe sub \<Rightarrow> Some (subscription_id sub)
      | PDockerAction req \<Rightarrow> Some (dar_request_id req)
      | PEvent f \<Rightarrow> Some (ef_subscription_id f)
      | PDockerActionResult r \<Rightarrow> Some (dres_request_id r)
      | _ \<Rightarrow> None)"

fun task_id :: "task_kind \<Rightarrow> u64 option" where
  "task_id (TaskDocker i) = Some i"
| "task_id (TaskDockerLogs i _ _ _) = Some i"
| "task_id (TaskDockerStats i _) = Some i"
| "task_id (TaskPorts i) = Some i"
| "task_id (TaskProcesses i) = Some i"
| "task_id (TaskDockerAction req) = Some (dar_request_id req)"
| "task_id _ = None"

declare env_id.simps [simp del] agent_event.simps [simp del] event_for.simps [simp del]

text \<open>Handed out already: below the counter of the connection.\<close>

definition below :: "agent_connection \<Rightarrow> u64 option \<Rightarrow> bool" where
  "below c io \<longleftrightarrow> (\<forall>i. io = Some i \<longrightarrow> unat i < unat (ac_next_sub_id c))"

lemma below_None [simp]: "below c None"
  by (simp add: below_def)

lemma below_mono: "below c io \<Longrightarrow> unat (ac_next_sub_id c) \<le> unat (ac_next_sub_id c') \<Longrightarrow> below c' io"
  by (fastforce simp: below_def)

lemma task_sends_id: "task_sends k env \<Longrightarrow> env_id env = task_id k"
  by (cases "(k, env)" rule: task_sends.cases)
     (auto simp: env_id.simps event_envelope_def envelope_of_def agent_run_docker_action_def)

section \<open>What the daemon's handlers do\<close>

lemma unat_next: "unat (n :: u64) < 2 ^ 64 - 1 \<Longrightarrow> unat (n + 1) = unat n + 1"
  by (subst unat_add_lem [THEN iffD1]) auto

lemma conn_inv_register:
  assumes "conn_inv c" "unat (ac_next_sub_id c) < 2 ^ 64 - 1"
  shows "conn_inv (c\<lparr>ac_next_sub_id := ac_next_sub_id c + 1, ac_routing := (ac_routing c)(ac_next_sub_id c \<mapsto> r)\<rparr>)"
  using assms by (fastforce simp: conn_inv_def unat_next less_Suc_eq split: if_splits)

text \<open>
  A handler's effect on the connection at \<open>a\<close>: nothing, an entry under the next id (which may be taken
  back at once), or an entry removed.
\<close>

inductive conn_effect :: "(nat \<Rightarrow> u64 \<Rightarrow> bool) \<Rightarrow> (u64 \<Rightarrow> bool) \<Rightarrow> agent_connection \<Rightarrow> agent_connection \<Rightarrow> bool"
  for allowed kept c
where
  ce_same: "conn_effect allowed kept c c"
| ce_entry: "unat (ac_next_sub_id c) < 2 ^ 64 - 1 \<Longrightarrow> allowed (rt_client r) (rt_client_id r) \<Longrightarrow>
    conn_effect allowed kept c
      (c\<lparr>ac_next_sub_id := ac_next_sub_id c + 1, ac_routing := (ac_routing c)(ac_next_sub_id c \<mapsto> r)\<rparr>)"
| ce_taken_back: "unat (ac_next_sub_id c) < 2 ^ 64 - 1 \<Longrightarrow>
    conn_effect allowed kept c
      (c\<lparr>ac_next_sub_id := ac_next_sub_id c + 1, ac_routing := (ac_routing c)(ac_next_sub_id c := None)\<rparr>)"
| ce_removed: "\<not> kept i \<Longrightarrow> conn_effect allowed kept c (c\<lparr>ac_routing := (ac_routing c)(i := None)\<rparr>)"

text \<open>
  And on the channels: to the agent at most one envelope, without an id or with the next one; to a client
  no event that is not about an id it may ask for.
\<close>

definition sends_effect :: "nat \<Rightarrow> (nat \<Rightarrow> u64 \<Rightarrow> bool) \<Rightarrow> hub \<Rightarrow> hub \<Rightarrow> bool" where
  "sends_effect a allowed h h' \<longleftrightarrow>
     (\<exists>more. hb_out h' = hb_out h @ more \<and>
        (\<forall>env. (ToAgent a, env) \<in> set more \<longrightarrow> env_id env = None \<or>
           env_id env = Some (ac_next_sub_id (hb_conns h a)) \<and>
           ac_next_sub_id (hb_conns h' a) = ac_next_sub_id (hb_conns h a) + 1 \<and>
           unat (ac_next_sub_id (hb_conns h a)) < 2 ^ 64 - 1) \<and>
        (\<forall>cl env f. (ToClient cl, env) \<in> set more \<and> en_payload env = PEvent f \<longrightarrow>
           allowed cl (ef_subscription_id f)))"

lemma unavailable_scope_event:
  "\<exists>ev. unavailable_envelope_for_scope scope i reason = event_envelope i ev"
  by (auto intro: exI)

declare unavailable_envelope_for_scope.simps [simp del]

lemma handler_effect:
  assumes "handler_step alive a allowed kept h h'"
  shows "conn_effect allowed kept (hb_conns h a) (hb_conns h' a) \<and> sends_effect a allowed h h'"
  using assms
proof (cases rule: handler_step.cases)
  case (hs_subscribe cl i builder al scope required subs subs')
  obtain ev1 ev2 ev3 where evs:
    "unavailable_envelope_for_scope scope i (''agent not connected: '' @ al) = event_envelope i ev1"
    "unavailable_envelope_for_scope scope i (''no '' @ required @ '' on '' @ al) = event_envelope i ev2"
    "unavailable_envelope_for_scope scope i (''agent writer closed: '' @ al) = event_envelope i ev3"
    using unavailable_scope_event by metis
  show ?thesis
    using hs_subscribe evs
    by (auto simp: route_remote_subscribe_def subscribe_on_def register_route_def alloc_id_def hub_send_def
        tx_send_def drop_route_def sends_effect_def Let_def event_envelope_def
        envelope_of_def env_id.simps intro!: conn_effect.intros split: option.splits if_splits)
next
  case (hs_action cl req al)
  then show ?thesis
    by (auto simp: route_remote_docker_action_def register_route_def alloc_id_def hub_send_def
        tx_send_def drop_route_def sends_effect_def Let_def action_failure_envelope_def
        envelope_of_def env_id.simps intro!: conn_effect.intros split: option.splits if_splits)
next
  case (hs_unsubscribe handle)
  then show ?thesis
    by (auto simp: drop_agent_sub_def hub_send_def tx_send_def drop_route_def
        sends_effect_def envelope_of_def env_id.simps intro!: conn_effect.intros split: option.splits if_splits)
qed


lemma conn_effect_inv:
  assumes "conn_effect allowed kept c c'" "conn_inv c"
  shows "conn_inv c'" "unat (ac_next_sub_id c) \<le> unat (ac_next_sub_id c')" "ac_alias c' = ac_alias c"
  using assms
  by (cases rule: conn_effect.cases;
      fastforce simp: unat_next conn_inv_register conn_inv_drop conn_inv_def less_Suc_eq)+

lemma handler_to_agent:
  assumes "sends_effect a allowed h h'" "env \<in> set (received (ToAgent a) (hb_out h'))"
    and "\<forall>e \<in> set (received (ToAgent a) (hb_out h)). below (hb_conns h' a) (env_id e)"
  shows "below (hb_conns h' a) (env_id env)"
proof -
  obtain more where more: "hb_out h' = hb_out h @ more"
    "\<forall>env. (ToAgent a, env) \<in> set more \<longrightarrow> env_id env = None \<or>
       env_id env = Some (ac_next_sub_id (hb_conns h a)) \<and>
       ac_next_sub_id (hb_conns h' a) = ac_next_sub_id (hb_conns h a) + 1 \<and>
       unat (ac_next_sub_id (hb_conns h a)) < 2 ^ 64 - 1"
    using assms(1) unfolding sends_effect_def by blast
  show ?thesis
  proof (cases "env \<in> set (received (ToAgent a) (hb_out h))")
    case False
    then have "(ToAgent a, env) \<in> set more"
      using assms(2) more(1) by (auto simp: received_def)
    with more(2) show ?thesis by (auto simp: below_def unat_next)
  qed (use assms(3) in blast)
qed

section \<open>What the agent's end does\<close>

text \<open>One turn of \<open>serve\<close>: what it starts and answers is about ids it was given.\<close>

fun started_by :: "payload \<Rightarrow> task_kind option" where
  "started_by (PSubscribe (SubDocker i _)) = Some (TaskDocker i)"
| "started_by (PSubscribe (SubDockerLogs i cid follow tail_lines _)) = Some (TaskDockerLogs i cid follow tail_lines)"
| "started_by (PSubscribe (SubDockerStats i cid _)) = Some (TaskDockerStats i cid)"
| "started_by (PSubscribe (SubPorts i _)) = Some (TaskPorts i)"
| "started_by (PSubscribe (SubProcesses i _)) = Some (TaskProcesses i)"
| "started_by (PDockerAction req) = Some (TaskDockerAction req)"
| "started_by _ = None"

lemma started_by_id: "started_by (en_payload env) = Some k \<Longrightarrow> task_id k = env_id env"
  by (cases "en_payload env" rule: started_by.cases) (auto simp: env_id.simps)

lemma handle_envelope_tasks:
  assumes "handle_envelope host p g = (g', outs)" "as_tasks g' t = Some k" "as_tasks g t \<noteq> Some k"
  shows "started_by p = Some k"
  using assms by (cases "(host, p, g)" rule: handle_envelope.cases)
    (auto simp: agent_start_def agent_abort_def Let_def split: option.splits if_splits)

lemma handle_envelope_outs:
  assumes "handle_envelope host p g = (g', outs)" "out \<in> set outs"
  shows "env_id (envelope_of out) = None"
  using assms by (cases "(host, p, g)" rule: handle_envelope.cases) (auto simp: env_id.simps envelope_of_def)

lemma serve_turn_cases:
  assumes "serve_turn host r s = s'"
  shows "\<exists>g outs. lk_sent s' = lk_sent s @ outs \<and> (\<forall>e \<in> set outs. env_id e = None) \<and>
    (\<forall>t k. as_tasks (lk_agent s') t = Some k \<longrightarrow> as_tasks (lk_agent s) t = Some k \<or>
       (\<exists>env. r = Inr env \<and> started_by (en_payload env) = Some k)) \<and>
    s' = s\<lparr>lk_agent := lk_agent s', lk_sent := lk_sent s', lk_serving := lk_serving s'\<rparr> \<and>
    (lk_serving s' \<longrightarrow> (\<exists>env. r = Inr env))"
proof (cases r)
  case (Inl e)
  then show ?thesis using assms by (auto simp: serve_turn_def agent_stop_def split: if_splits)
next
  case (Inr env)
  obtain g outs where g: "handle_envelope host (en_payload env) (lk_agent s) = (g, outs)" by fastforce
  show ?thesis
  proof (cases "en_version env = PROTOCOL_VERSION")
    case True
    then have "s' = s\<lparr>lk_agent := g, lk_sent := lk_sent s @ map envelope_of outs\<rparr>"
      using assms Inr g by (simp add: serve_turn_def)
    then show ?thesis
      using handle_envelope_tasks [OF g] handle_envelope_outs [OF g] Inr by auto
  next
    case False
    then show ?thesis
      using assms Inr by (auto simp: serve_turn_def agent_stop_def env_id.simps envelope_of_def split: if_splits)
  qed
qed

section \<open>Reading frames\<close>

lemma read_torn:
  assumes "length bs < 2 ^ 32" "strict_prefix r (frame_of bs)"
  shows "\<exists>e r'. read_envelope fb r = (Inl e, r')"
proof (cases "length bs \<le> MAX_FRAME_SIZE")
  case True
  then show ?thesis using read_envelope_torn [OF True assms(2), of fb] by (metis prod.collapse)
next
  case False
  obtain t where t: "frame_of bs = r @ t" using assms(2) by (auto simp: strict_prefix_def prefix_def)
  show ?thesis
  proof (cases "length r < 4")
    case True
    then show ?thesis by (simp add: read_envelope_def read_exact_def)
  next
    case ge: False
    then have "take 4 r = take 4 (frame_of bs)" using t by simp
    then have "take 4 r = to_be_bytes (word_of_nat (length bs))" by (simp add: frame_of_def)
    then show ?thesis
      using ge False assms(1)
      by (auto simp: read_envelope_def read_exact_def unat_length_u32 Let_def split: prod.splits sum.splits)
  qed
qed

lemma read_frames:
  assumes "rkyv_roundtrip tb fb" "tb e = Some bs" "length bs < 2 ^ 32"
    and "read_envelope fb (frame_of bs @ r) = (Inr env, rest)"
  shows "env = e" "rest = r"
proof -
  have fb: "fb bs = Some e" using assms(1,2) by (simp add: rkyv_roundtrip_def)
  have "length bs \<le> MAX_FRAME_SIZE"
    using read_envelope_oversize [of bs fb r] assms(3,4) by fastforce
  then show "env = e" "rest = r"
    using read_envelope_frame [of bs fb r] fb assms(4) by simp_all
qed


section \<open>The invariant of the tunnel\<close>

abbreviation link_conn :: "nat \<Rightarrow> link \<Rightarrow> agent_connection" where
  "link_conn a s \<equiv> hb_conns (lk_hub s) a"

text \<open>Every id on its way, or in use at the agent, was handed out by the connection.\<close>

definition link_ids :: "nat \<Rightarrow> link \<Rightarrow> bool" where
  "link_ids a s \<longleftrightarrow> conn_inv (link_conn a s) \<and>
     (\<forall>e \<in> set (to_agent a s) \<union> set (lk_sent s). below (link_conn a s) (env_id e)) \<and>
     (\<forall>t k. as_tasks (lk_agent s) t = Some k \<longrightarrow> below (link_conn a s) (task_id k))"

text \<open>The agent has before it whole frames of what was sent to it, and at most one that broke off.\<close>

definition up_bytes :: "(envelope \<Rightarrow> u8 list option) \<Rightarrow> envelope set \<Rightarrow> bool \<Rightarrow> u8 list \<Rightarrow> bool" where
  "up_bytes tb envs broken bytes \<longleftrightarrow> (\<exists>bss torn. bytes = concat (map frame_of bss) @ torn \<and>
     (\<forall>bs \<in> set bss. length bs < 2 ^ 32 \<and> (\<exists>e \<in> envs. tb e = Some bs)) \<and>
     (torn = [] \<or> broken \<and> (\<exists>bs. length bs < 2 ^ 32 \<and> strict_prefix torn (frame_of bs))))"

lemma up_bytes_mono:
  "up_bytes tb envs broken bytes \<Longrightarrow> envs \<subseteq> envs' \<Longrightarrow> (broken \<longrightarrow> broken') \<Longrightarrow> up_bytes tb envs' broken' bytes"
  unfolding up_bytes_def by blast

lemma up_bytes_Nil [simp]: "up_bytes tb envs broken []"
  unfolding up_bytes_def by (intro exI [of _ "[]"]) simp

lemma up_bytes_frame:
  assumes "up_bytes tb envs False bytes" "e \<in> envs" "tb e = Some bs" "length bs < 2 ^ 32"
  shows "up_bytes tb envs broken (bytes @ frame_of bs)"
proof -
  obtain bss where "bytes = concat (map frame_of bss)"
    "\<forall>bs \<in> set bss. length bs < 2 ^ 32 \<and> (\<exists>e \<in> envs. tb e = Some bs)"
    using assms(1) unfolding up_bytes_def by auto
  then show ?thesis
    using assms unfolding up_bytes_def by (intro exI [of _ "bss @ [bs]"] exI [of _ "[]"]) auto
qed

lemma up_bytes_torn:
  assumes "up_bytes tb envs False bytes" "strict_prefix torn (frame_of bs)" "length bs < 2 ^ 32"
  shows "up_bytes tb envs True (bytes @ torn)"
  using assms unfolding up_bytes_def by auto

definition link_up :: "(envelope \<Rightarrow> u8 list option) \<Rightarrow> nat \<Rightarrow> link \<Rightarrow> bool" where
  "link_up tb a s \<longleftrightarrow> lk_consumed s \<le> length (wr_out (lk_channel s)) \<and> lk_taken s \<le> length (to_agent a s) \<and>
     (lk_serving s \<longrightarrow> up_bytes tb (set (to_agent a s)) (lk_driver s = DrDone) (stdin_rest s))"

lemma link_new_inv:
  assumes "conn_inv (hb_conns h a)" "received (ToAgent a) (hb_out h) = []"
  shows "link_ids a (link_new h room)" "link_up tb a (link_new h room)"
  using assms by (auto simp: link_ids_def link_up_def link_new_def to_agent_def agent_state_new_def stdin_rest_def)

lemma driver_write_envelope:
  assumes "tb env = Some bs" "length bs < 2 ^ 32"
  shows "driver_write tb env w = (snd (write_envelope tb w env), fst (write_envelope tb w env) = Inr ())"
  using assms by (auto simp: driver_write_def serialize_envelope_def write_envelope_def split: prod.splits sum.splits)

lemma driver_write_cases:
  assumes "driver_write tb env w = (w', ok)"
  shows "(w' = w \<and> ok) \<or> (\<exists>bs. tb env = Some bs \<and> length bs < 2 ^ 32 \<and>
     (ok \<and> wr_out w' = wr_out w @ frame_of bs \<or>
      \<not> ok \<and> (\<exists>torn. wr_out w' = wr_out w @ torn \<and> strict_prefix torn (frame_of bs))))"
proof (cases "\<exists>bs. tb env = Some bs \<and> length bs < 2 ^ 32")
  case False
  then show ?thesis
    using assms by (auto simp: driver_write_def serialize_envelope_def split: option.splits if_splits)
next
  case True
  then obtain bs where bs: "tb env = Some bs" "length bs < 2 ^ 32" by blast
  have torn: "strict_prefix (take n (frame_of bs)) (frame_of bs)" if "n < length (frame_of bs)" for n
    using that by (auto simp: strict_prefix_def take_is_prefix dest: arg_cong [of _ _ length])
  show ?thesis
  proof (cases "wr_room w")
    case None
    then show ?thesis
      using assms bs write_envelope_open [of tb env bs w, OF bs None] by (auto simp: driver_write_envelope [of tb env bs w, OF bs])
  next
    case (Some n)
    note room = write_envelope_room [of tb env bs w n, OF bs Some]
    show ?thesis
    proof (cases "length (frame_of bs) \<le> n")
      case True
      then show ?thesis using assms bs room(1) by (auto simp: driver_write_envelope [of tb env bs w, OF bs])
    next
      case False
      with room(2) have "wr_out w' = wr_out w @ take n (frame_of bs)" "\<not> ok"
        using assms by (auto simp: driver_write_envelope [of tb env bs w, OF bs])
      then show ?thesis using torn [of n] False bs by auto
    qed
  qed
qed

lemma hub_route_effect:
  "received (ToAgent b) (hb_out (hub_route alive a env h)) = received (ToAgent b) (hb_out h)"
  "conn_inv (hb_conns h a) \<Longrightarrow> conn_inv (hb_conns (hub_route alive a env h) a)"
  "ac_next_sub_id (hb_conns (hub_route alive a env h) a) = ac_next_sub_id (hb_conns h a)"
  "ac_alias (hb_conns (hub_route alive a env h) a) = ac_alias (hb_conns h a)"
  by (auto simp: hub_route_def route_agent_envelope_def tx_send_def received_def conn_inv_def
      split: payload.splits option.splits if_splits)

lemma drain_to_agent:
  "received (ToAgent b) (fold (drain_one alive reason routing) ds out) = received (ToAgent b) out"
  by (induction ds arbitrary: out) (simp_all add: drain_one_def tx_send_def split: option.splits)

lemma shutdown_effect:
  "received (ToAgent b) (hb_out (shutdown_agent_connection alive order a h)) = received (ToAgent b) (hb_out h)"
  "conn_inv (hb_conns (shutdown_agent_connection alive order a h) a)"
  "ac_next_sub_id (hb_conns (shutdown_agent_connection alive order a h) a) = ac_next_sub_id (hb_conns h a)"
  "ac_alias (hb_conns (shutdown_agent_connection alive order a h) a) = ac_alias (hb_conns h a)"
  "ac_routing (hb_conns (shutdown_agent_connection alive order a h) a) = Map.empty"
  by (simp_all add: shutdown_agent_connection_def drain_routing_on_disconnect_def drain_to_agent conn_inv_def)

lemma delivery_ids:
  assumes "delivery_step tb fb order must a s s'" "link_ids a s"
  shows "link_ids a s'"
  using assms
  by (cases rule: delivery_step.cases)
     (auto simp: link_ids_def to_agent_def hub_route_effect shutdown_effect below_def split: sum.splits)

lemma link_upI:
  assumes "link_up tb a s" "lk_consumed s' = lk_consumed s" "lk_channel s' = lk_channel s"
    and "lk_serving s' \<longrightarrow> lk_serving s" "set (to_agent a s) \<subseteq> set (to_agent a s')"
    and "lk_driver s = DrDone \<longrightarrow> lk_driver s' = DrDone"
    and "lk_taken s \<le> length (to_agent a s) \<longrightarrow> lk_taken s' \<le> length (to_agent a s')"
  shows "link_up tb a s'"
proof -
  have "stdin_rest s' = stdin_rest s" using assms(2,3) by (simp add: stdin_rest_def)
  then show ?thesis
    using assms by (auto simp: link_up_def intro: up_bytes_mono)
qed

lemma delivery_up:
  assumes "delivery_step tb fb order must a s s'" "link_up tb a s"
  shows "link_up tb a s'"
  using assms(1)
proof (cases rule: delivery_step.cases)
  case (ds_take w ok)
  let ?env = "to_agent a s ! lk_taken s"
  have to: "to_agent a s' = to_agent a s" using ds_take by (simp add: to_agent_def)
  have env: "?env \<in> set (to_agent a s)" using ds_take by simp
  have le: "lk_consumed s \<le> length (wr_out (lk_channel s))" using assms(2) by (simp add: link_up_def)
  have tk: "lk_taken s' \<le> length (to_agent a s)" using ds_take by simp
  from driver_write_cases [OF ds_take(4)] show ?thesis
  proof (elim disjE exE conjE)
    assume "w = lk_channel s" ok
    then show ?thesis by (intro link_upI [OF assms(2)]) (use ds_take to in auto)
  next
    fix bs assume bs: "tb ?env = Some bs" "length bs < 2 ^ 32" ok "wr_out w = wr_out (lk_channel s) @ frame_of bs"
    have "stdin_rest s' = stdin_rest s @ frame_of bs" using ds_take bs le by (simp add: stdin_rest_def)
    moreover have "up_bytes tb (set (to_agent a s)) False (stdin_rest s)" if "lk_serving s"
      using assms(2) that ds_take(2) unfolding link_up_def by simp
    moreover have "lk_consumed s' = lk_consumed s" "lk_serving s' = lk_serving s" "lk_channel s' = w"
      using ds_take by simp_all
    ultimately show ?thesis
      using le bs env tk unfolding link_up_def to by (auto intro: up_bytes_frame)
  next
    fix bs torn assume bs: "tb ?env = Some bs" "length bs < 2 ^ 32" "\<not> ok" "wr_out w = wr_out (lk_channel s) @ torn"
      "strict_prefix torn (frame_of bs)"
    have "stdin_rest s' = stdin_rest s @ torn" using ds_take bs le by (simp add: stdin_rest_def)
    moreover have "up_bytes tb (set (to_agent a s)) False (stdin_rest s)" if "lk_serving s"
      using assms(2) that ds_take(2) unfolding link_up_def by simp
    moreover have "lk_consumed s' = lk_consumed s" "lk_serving s' = lk_serving s" "lk_channel s' = w"
      "lk_driver s' = DrDone"
      using ds_take bs by simp_all
    ultimately show ?thesis
      using le bs tk up_bytes_torn unfolding link_up_def to by simp
  qed
next
  case (ds_write r w)
  then show ?thesis by (intro link_upI [OF assms(2)]) (auto simp: to_agent_def split: sum.splits)
qed (auto intro!: link_upI [OF assms(2)] simp: to_agent_def hub_route_effect shutdown_effect)

lemma agent_reads:
  assumes "rkyv_roundtrip tb fb" "link_up tb a s" "lk_serving s"
    and "read_envelope fb (stdin_rest s) = (Inr env, rest)"
  shows "env \<in> set (to_agent a s)"
    and "link_up tb a (s\<lparr>lk_consumed := length (wr_out (lk_channel s)) - length rest\<rparr>)"
proof -
  obtain bss torn where st: "stdin_rest s = concat (map frame_of bss) @ torn"
    "\<forall>bs \<in> set bss. length bs < 2 ^ 32 \<and> (\<exists>e \<in> set (to_agent a s). tb e = Some bs)"
    "torn = [] \<or> lk_driver s = DrDone \<and> (\<exists>bs. length bs < 2 ^ 32 \<and> strict_prefix torn (frame_of bs))"
    using assms(2,3) unfolding link_up_def up_bytes_def by blast
  have "bss \<noteq> []"
  proof
    assume "bss = []"
    then have "torn \<noteq> []" using assms(4) st(1) by (auto simp: read_envelope_def read_exact_def)
    with st(3) obtain bs where "length bs < 2 ^ 32" "strict_prefix torn (frame_of bs)" by blast
    from read_torn [OF this, of fb] show False using assms(4) st(1) \<open>bss = []\<close> by auto
  qed
  then obtain bs bss' where bss: "bss = bs # bss'" by (cases bss) auto
  with st(2) obtain e where e: "e \<in> set (to_agent a s)" "tb e = Some bs" "length bs < 2 ^ 32" by auto
  have split: "stdin_rest s = frame_of bs @ (concat (map frame_of bss') @ torn)" using st(1) bss by simp
  from read_frames [OF assms(1) e(2,3), of "concat (map frame_of bss') @ torn"] assms(4) split
  have eq: "env = e" "rest = concat (map frame_of bss') @ torn" by auto
  then show "env \<in> set (to_agent a s)" using e(1) by simp
  have "wr_out (lk_channel s) = take (lk_consumed s) (wr_out (lk_channel s)) @ frame_of bs @ rest"
    using split eq(2) by (metis append_take_drop_id stdin_rest_def)
  then have "drop (length (wr_out (lk_channel s)) - length rest) (wr_out (lk_channel s)) = rest"
    by (metis append.assoc append_eq_conv_conj length_append diff_add_inverse2)
  then show "link_up tb a (s\<lparr>lk_consumed := length (wr_out (lk_channel s)) - length rest\<rparr>)"
    using st(2,3) eq(2) bss assms(2) unfolding link_up_def up_bytes_def
    by (auto simp: stdin_rest_def to_agent_def)
qed


lemma outside_inv:
  assumes "outside_step tb fb host must allowed kept a s s'" "rkyv_roundtrip tb fb" "link_ids a s" "link_up tb a s"
  shows "link_ids a s' \<and> link_up tb a s'"
  using assms(1)
proof (cases rule: outside_step.cases)
  case (os_handler alive h)
  note effect = handler_effect [OF os_handler(2)]
  note conn = conn_effect_inv [OF conjunct1 [OF effect]]
  have inv: "conn_inv (hb_conns (lk_hub s) a)" using assms(3) by (simp add: link_ids_def)
  have mono: "below (link_conn a s) io \<Longrightarrow> below (link_conn a s') io" for io
    using below_mono conn(2) [OF inv] os_handler(1) by simp
  have "\<forall>e \<in> set (to_agent a s'). below (link_conn a s') (env_id e)"
    using handler_to_agent [OF conjunct2 [OF effect]] assms(3) mono os_handler(1)
    by (auto simp: link_ids_def to_agent_def)
  then have "link_ids a s'"
    using assms(3) mono conn(1) [OF inv] os_handler(1) by (auto simp: link_ids_def)
  moreover have "set (to_agent a s) \<subseteq> set (to_agent a s')" "length (to_agent a s) \<le> length (to_agent a s')"
    using conjunct2 [OF effect] os_handler(1) by (auto simp: sends_effect_def to_agent_def)
  ultimately show ?thesis
    using os_handler(1) by (auto intro: link_upI [OF assms(4)])
next
  case (os_agent_reads r rest)
  let ?s1 = "s\<lparr>lk_consumed := length (wr_out (lk_channel s)) - length rest\<rparr>"
  obtain outs where turn: "lk_sent s' = lk_sent s @ outs" "\<forall>e \<in> set outs. env_id e = None"
    "\<forall>t k. as_tasks (lk_agent s') t = Some k \<longrightarrow> as_tasks (lk_agent s) t = Some k \<or>
       (\<exists>env. r = Inr env \<and> started_by (en_payload env) = Some k)"
    "s' = ?s1\<lparr>lk_agent := lk_agent s', lk_sent := lk_sent s', lk_serving := lk_serving s'\<rparr>"
    "lk_serving s' \<longrightarrow> (\<exists>env. r = Inr env)"
    using serve_turn_cases [of host r ?s1 s'] os_agent_reads(1) by auto
  have same: "lk_hub s' = lk_hub s" "lk_channel s' = lk_channel s" "lk_driver s' = lk_driver s"
    "lk_consumed s' = lk_consumed ?s1" "lk_taken s' = lk_taken s"
    by (subst turn(4), simp)+
  have read: "env \<in> set (to_agent a s) \<and> link_up tb a ?s1" if "r = Inr env" for env
    using agent_reads [OF assms(2,4) os_agent_reads(2)] os_agent_reads(4) that by auto
  have "below (link_conn a s) (task_id k)" if "as_tasks (lk_agent s') t = Some k" for t k
    using that turn(3) assms(3) read started_by_id unfolding link_ids_def by (metis UnI1)
  then have "link_ids a s'"
    using assms(3) turn(1,2) same(1) by (auto simp: link_ids_def to_agent_def)
  moreover have "link_up tb a s'"
  proof (cases "lk_serving s'")
    case True
    then obtain env where "r = Inr env" using turn(5) by blast
    then have up: "link_up tb a ?s1" using read by blast
    show ?thesis using same os_agent_reads(2) by (intro link_upI [OF up]) (auto simp: to_agent_def)
  next
    case False
    then show ?thesis using same assms(4) by (simp add: link_up_def to_agent_def)
  qed
  ultimately show ?thesis ..
next
  case (os_task_sends t k env)
  then have "env_id env = task_id k" using task_sends_id by blast
  then show ?thesis
    using os_task_sends assms(3) by (auto simp: link_ids_def to_agent_def intro!: link_upI [OF assms(4)])
next
  case os_agent_ends
  then show ?thesis
    using assms(3) by (auto simp: link_ids_def to_agent_def agent_stop_def intro!: link_upI [OF assms(4)] split: if_splits)
qed (use assms(3) in \<open>auto simp: link_ids_def to_agent_def intro!: link_upI [OF assms(4)] split: if_splits\<close>)

lemma link_steps_inv:
  assumes "(link_step tb fb host order must allowed kept a)\<^sup>*\<^sup>* s s'" "rkyv_roundtrip tb fb"
    "link_ids a s" "link_up tb a s"
  shows "link_ids a s' \<and> link_up tb a s'"
  using assms(1)
proof (induction rule: rtranclp_induct)
  case (step s1 s2)
  then show ?case
    using delivery_ids delivery_up outside_inv [OF _ assms(2)] unfolding link_step_def by metis
qed (use assms in simp)


section \<open>From the agent to the parser\<close>

fun driver_bytes :: "driver \<Rightarrow> u8 list" where
  "driver_bytes (DrPushing rest) = rest"
| "driver_bytes _ = []"

fun msg_bytes :: "channel_msg \<Rightarrow> u8 list" where
  "msg_bytes (CmData data) = data"
| "msg_bytes _ = []"

definition flight :: "link \<Rightarrow> u8 list" where
  "flight s = lk_frame s @ lk_pipe s @ driver_bytes (lk_driver s) @ concat (map msg_bytes (lk_inbox s)) @ lk_stdout s"

text \<open>
  With \<open>k\<close> envelopes parsed: the bytes on their way are the frames of those written since, as long as the
  driver runs; what has reached the parser's side is a beginning of them also after it has ended.
\<close>

definition pending :: "(envelope \<Rightarrow> u8 list option) \<Rightarrow> nat \<Rightarrow> link \<Rightarrow> u8 list" where
  "pending tb k s = frames tb (drop k (take (lk_written s) (lk_sent s)))"

definition link_down :: "(envelope \<Rightarrow> u8 list option) \<Rightarrow> nat \<Rightarrow> link \<Rightarrow> bool" where
  "link_down tb k s \<longleftrightarrow> k \<le> lk_written s \<and> lk_written s \<le> length (lk_sent s) \<and> lk_driver s \<noteq> DrPushing [] \<and>
     (lk_parsing s \<longrightarrow> prefix (lk_frame s @ lk_pipe s) (pending tb k s) \<and>
        (lk_driver s \<noteq> DrDone \<longrightarrow> flight s = pending tb k s))"

lemma link_new_down [simp]: "link_down tb 0 (link_new h room)"
  by (simp add: link_down_def link_new_def pending_def flight_def frames_def)

lemma frames_Cons: "tb e = Some bs \<Longrightarrow> frames tb (e # es) = frame_of bs @ frames tb es"
  by (simp add: frames_def)

lemma frames_snoc: "tb e = Some bs \<Longrightarrow> frames tb (es @ [e]) = frames tb es @ frame_of bs"
  by (simp add: frames_def)

lemma framable_bytes: "framable tb e \<Longrightarrow> \<exists>bs. tb e = Some bs \<and> length bs \<le> MAX_FRAME_SIZE"
  by (auto simp: framable_def split: option.splits)

lemma parse_pending:
  assumes "rkyv_roundtrip tb fb" "list_all (framable tb) es" "prefix (frame @ xs) (frames tb es)"
    and "frame_missing frame = 0" "read_envelope fb frame = (r, rest)"
  shows "\<exists>e es'. es = e # es' \<and> r = Inr e \<and> prefix (rest @ xs) (frames tb es') \<and>
    (\<forall>tail. frame @ tail = frames tb es \<longrightarrow> rest @ tail = frames tb es')"
proof -
  have len: "4 \<le> length frame" using assms(4) by (auto simp: frame_missing_def split: if_splits)
  then have "es \<noteq> []" using assms(3) by (auto simp: frames_def)
  then obtain e es' where es: "es = e # es'" by (cases es) auto
  with assms(2) framable_bytes [of tb e] obtain bs where bs: "tb e = Some bs" "length bs \<le> MAX_FRAME_SIZE" by auto
  have fr: "frames tb es = frame_of bs @ frames tb es'" using es bs(1) by (simp add: frames_Cons)
  obtain zs where zs: "(frame @ xs) @ zs = frame_of bs @ frames tb es'"
    using assms(3) fr unfolding prefix_def by metis
  have cut: "take n frame = take n (frame_of bs)" if "n \<le> length frame" "n \<le> length (frame_of bs)" for n
    using arg_cong [OF zs, of "take n"] that by simp
  have "take 4 frame = take 4 (frame_of bs)" using len by (intro cut) (simp_all add: frame_of_def)
  then have "from_be_bytes (take 4 frame) = word_of_nat (length bs)" by (simp add: frame_of_def)
  then have "length (frame_of bs) \<le> length frame"
    using assms(4) len bs(2) max_frame_fits [OF bs(2)]
    by (simp add: frame_missing_def unat_length_u32 frame_of_def Let_def split: if_splits)
  then obtain r' where r': "frame = frame_of bs @ r'"
    using cut [of "length (frame_of bs)"] by (metis append_take_drop_id order.refl take_all)
  have "r = Inr e \<and> rest = r'"
    using assms(1,5) r' read_envelope_frame [OF bs(2), of fb r'] bs(1) by (simp add: rkyv_roundtrip_def)
  moreover have "frames tb es' = (r' @ xs) @ zs" using zs r' by simp
  then have "prefix (r' @ xs) (frames tb es')" by (rule prefixI)
  moreover have "\<forall>tail. frame @ tail = frames tb es \<longrightarrow> r' @ tail = frames tb es'" using fr r' by simp
  ultimately show ?thesis using es by blast
qed

lemma pending_drop:
  assumes "k \<le> lk_written s" "lk_written s \<le> length (lk_sent s)" "drop k (take (lk_written s) (lk_sent s)) = e # es"
  shows "k < lk_written s" "e = lk_sent s ! k" "drop (Suc k) (take (lk_written s) (lk_sent s)) = es"
proof -
  show lt: "k < lk_written s"
    using assms by (metis drop_all length_take list.distinct(1) min.absorb2 not_le)
  have "take (lk_written s) (lk_sent s) ! k # drop (Suc k) (take (lk_written s) (lk_sent s)) = e # es"
    using assms(3) lt assms(2) Cons_nth_drop_Suc [of k "take (lk_written s) (lk_sent s)"] by simp
  then show "e = lk_sent s ! k" "drop (Suc k) (take (lk_written s) (lk_sent s)) = es" using lt by simp_all
qed


text \<open>A delivery step moves bytes, routes the next envelope, or ends the parser.\<close>

lemma delivery_down:
  assumes "delivery_step tb fb order must a s s'" "link_down tb k s"
    and "rkyv_roundtrip tb fb" "list_all (framable tb) (lk_sent s)"
  shows "(lk_hub s' = lk_hub s \<and> lk_parsing s' = lk_parsing s \<and> link_down tb k s') \<or>
    lk_parsing s \<and> (\<exists>alive. (\<forall>x \<in> must. alive x) \<and>
      (lk_parsing s' \<and> k < length (lk_sent s) \<and> lk_hub s' = hub_route alive a (lk_sent s ! k) (lk_hub s) \<and>
         link_down tb (Suc k) s' \<or>
       \<not> lk_parsing s' \<and> lk_hub s' = shutdown_agent_connection alive order a (lk_hub s) \<and> link_down tb k s'))"
  using assms(1)
proof (cases rule: delivery_step.cases)
  case (ds_take w ok)
  then show ?thesis
    using assms(2) by (cases ok) (simp_all add: link_down_def pending_def flight_def)
next
  case (ds_message m ms)
  then show ?thesis
    using assms(2) by (cases m) (auto simp: link_down_def pending_def flight_def)
next
  case (ds_push rest n)
  let ?x = "take n rest"
  have "driver_bytes (push_rest n rest) = drop n rest" by (simp add: push_rest_def)
  then have fl: "flight s' = flight s" using ds_push by (simp add: flight_def)
  have "pending tb k s' = pending tb k s" using ds_push by (simp add: pending_def)
  moreover have "prefix (lk_frame s' @ lk_pipe s') (flight s')"
    using ds_push by (simp add: flight_def)
  ultimately show ?thesis
    using assms(2) ds_push fl by (simp add: link_down_def push_rest_def)
next
  case ds_push_closed
  then show ?thesis using assms(2) by (simp add: link_down_def)
next
  case (ds_pull n)
  have "lk_frame s' @ lk_pipe s' = lk_frame s @ lk_pipe s" using ds_pull by simp
  moreover have "flight s' = flight s" "pending tb k s' = pending tb k s"
    using ds_pull by (simp_all add: flight_def pending_def)
  ultimately show ?thesis using assms(2) ds_pull by (simp add: link_down_def)
next
  case (ds_parse env rest alive)
  let ?es = "drop k (take (lk_written s) (lk_sent s))"
  have bound: "k \<le> lk_written s" "lk_written s \<le> length (lk_sent s)"
    and pre: "prefix (lk_frame s @ lk_pipe s) (frames tb ?es)"
    using assms(2) ds_parse by (simp_all add: link_down_def pending_def)
  have fr: "list_all (framable tb) ?es"
    using assms(4) by (auto simp: list_all_iff dest: in_set_takeD in_set_dropD)
  obtain e es' where p: "?es = e # es'" "env = e" "prefix (rest @ lk_pipe s) (frames tb es')"
    "\<forall>tail. lk_frame s @ tail = frames tb ?es \<longrightarrow> rest @ tail = frames tb es'"
    using parse_pending [OF assms(3) fr pre ds_parse(3,4)] by auto
  note d = pending_drop [OF bound p(1)]
  have pend: "pending tb (Suc k) s' = frames tb es'" using ds_parse d(3) by (simp add: pending_def)
  have "link_down tb (Suc k) s'"
    using assms(2) ds_parse d(1) p(3,4) pend by (simp add: link_down_def flight_def pending_def)
  then show ?thesis
    using ds_parse d(1,2) p(2) bound(2) by auto
next
  case (ds_parse_fails e rest alive)
  let ?es = "drop k (take (lk_written s) (lk_sent s))"
  have pre: "prefix (lk_frame s @ lk_pipe s) (frames tb ?es)"
    using assms(2) ds_parse_fails by (simp add: link_down_def pending_def)
  have fr: "list_all (framable tb) ?es"
    using assms(4) by (auto simp: list_all_iff dest: in_set_takeD in_set_dropD)
  from parse_pending [OF assms(3) fr pre ds_parse_fails(3,4)] show ?thesis by auto
next
  case (ds_end_of_pipe alive)
  then show ?thesis using assms(2) by (auto simp: link_down_def)
next
  case (ds_write r w)
  let ?e = "lk_sent s ! lk_written s"
  have "framable tb ?e" using assms(4) ds_write(3) by (simp add: list_all_length)
  then obtain bs where bs: "tb ?e = Some bs" "length bs \<le> MAX_FRAME_SIZE" using framable_bytes by blast
  have w: "s' = s\<lparr>lk_written := lk_written s + 1, lk_stdout := lk_stdout s @ frame_of bs\<rparr>"
    using ds_write write_envelope_open [of tb ?e bs, OF bs(1) max_frame_fits [OF bs(2)]] by auto
  have "drop k (take (Suc (lk_written s)) (lk_sent s)) = drop k (take (lk_written s) (lk_sent s)) @ [?e]"
    if "k \<le> lk_written s"
    using that ds_write(3) by (simp add: take_Suc_conv_app_nth)
  then have "pending tb k s' = pending tb k s @ frame_of bs" if "k \<le> lk_written s"
    using that w bs(1) by (simp add: pending_def frames_snoc)
  moreover have "flight s' = flight s @ frame_of bs" using w by (simp add: flight_def)
  ultimately have "link_down tb k s'"
    using assms(2) ds_write(3) w by (auto simp: link_down_def intro: prefix_prefix)
  then show ?thesis using w by simp
next
  case (ds_carry n)
  have "flight s' = flight s" "pending tb k s' = pending tb k s"
    using ds_carry by (simp_all add: flight_def pending_def)
  then show ?thesis using assms(2) ds_carry by (simp add: link_down_def)
qed


lemma serve_turn_fields:
  "lk_hub (serve_turn host r s) = lk_hub s" "lk_driver (serve_turn host r s) = lk_driver s"
  "lk_inbox (serve_turn host r s) = lk_inbox s" "lk_pipe (serve_turn host r s) = lk_pipe s"
  "lk_frame (serve_turn host r s) = lk_frame s" "lk_parsing (serve_turn host r s) = lk_parsing s"
  "lk_written (serve_turn host r s) = lk_written s" "lk_stdout (serve_turn host r s) = lk_stdout s"
  by (simp_all add: serve_turn_def split: sum.splits prod.splits option.splits)

lemma outside_sent:
  assumes "outside_step tb fb host must allowed kept a s s'"
  shows "\<exists>outs. lk_sent s' = lk_sent s @ outs"
  using assms
proof (cases rule: outside_step.cases)
  case (os_agent_reads r rest)
  then show ?thesis
    using serve_turn_cases [OF refl, of host r "s\<lparr>lk_consumed := length (wr_out (lk_channel s)) - length rest\<rparr>"]
    by auto
qed auto

lemma delivery_sent: "delivery_step tb fb order must a s s' \<Longrightarrow> lk_sent s' = lk_sent s"
  by (cases rule: delivery_step.cases) (auto split: sum.splits)

lemma outside_down:
  assumes "outside_step tb fb host must allowed kept a s s'" "link_down tb k s"
  shows "link_down tb k s' \<and> lk_parsing s' = lk_parsing s"
proof -
  obtain outs where outs: "lk_sent s' = lk_sent s @ outs" using outside_sent [OF assms(1)] by blast
  have same: "lk_parsing s' = lk_parsing s" "lk_written s' = lk_written s" "lk_frame s' = lk_frame s"
    "lk_pipe s' = lk_pipe s" "lk_driver s' \<noteq> DrDone \<Longrightarrow> lk_driver s \<noteq> DrDone \<and> flight s' = flight s"
    "lk_driver s \<noteq> DrPushing [] \<Longrightarrow> lk_driver s' \<noteq> DrPushing []"
    using assms(1) by (cases rule: outside_step.cases; auto simp: serve_turn_fields flight_def)+
  have "pending tb k s' = pending tb k s"
    using assms(2) outs same(2) by (simp add: pending_def link_down_def)
  then show ?thesis using assms(2) outs same by (simp add: link_down_def)
qed

lemma link_steps_down:
  assumes "(link_step tb fb host order must allowed kept a)\<^sup>*\<^sup>* s s'" "rkyv_roundtrip tb fb"
    "list_all (framable tb) (lk_sent s')" "link_down tb k s"
  shows "\<exists>k'. link_down tb k' s'"
  using assms(1,3)
proof (induction rule: rtranclp_induct)
  case base
  then show ?case using assms(4) by blast
next
  case (step s1 s2)
  have "\<exists>outs. lk_sent s2 = lk_sent s1 @ outs"
    using step.hyps(2) delivery_sent outside_sent unfolding link_step_def by fastforce
  then have fr: "list_all (framable tb) (lk_sent s1)" using step.prems by auto
  with step.IH obtain k1 where "link_down tb k1 s1" by blast
  with step.hyps(2) fr show ?case
    using delivery_down [OF _ _ assms(2)] outside_down unfolding link_step_def by blast
qed

section \<open>One subscription\<close>

text \<open>What the agent knows of the id \<open>d\<close> comes from the one request for it.\<close>

definition link_asked :: "nat \<Rightarrow> u64 \<Rightarrow> subscription \<Rightarrow> link \<Rightarrow> bool" where
  "link_asked a d sub s \<longleftrightarrow>
     (\<forall>e \<in> set (to_agent a s). env_id e = Some d \<longrightarrow> en_payload e = PSubscribe sub) \<and>
     (\<forall>t k. as_tasks (lk_agent s) t = Some k \<and> task_id k = Some d \<longrightarrow> started_by (PSubscribe sub) = Some k) \<and>
     (\<forall>e \<in> set (lk_sent s). \<not> answers_to d e) \<and> unat d < unat (ac_next_sub_id (link_conn a s))"

lemma answers_to_id: "answers_to d e \<Longrightarrow> env_id e = Some d"
  by (auto simp: answers_to_def env_id.simps split: payload.splits)

lemma event_id: "agent_event d e = Some ev \<Longrightarrow> env_id e = Some d"
  by (auto simp: agent_event.simps env_id.simps split: payload.splits if_splits)

lemma delivery_asked:
  assumes "delivery_step tb fb order must a s s'" "link_asked a d sub s"
  shows "link_asked a d sub s'"
  using assms
  by (cases rule: delivery_step.cases)
     (auto simp: link_asked_def to_agent_def hub_route_effect shutdown_effect split: sum.splits)

lemma action_not_started: "started_by (PSubscribe sub) \<noteq> Some (TaskDockerAction req)"
  by (cases sub) auto

lemma outside_asked:
  assumes "outside_step tb fb host must allowed kept a s s'" "link_asked a d sub s"
    "rkyv_roundtrip tb fb" "link_ids a s" "link_up tb a s"
  shows "link_asked a d sub s'"
  using assms(1)
proof (cases rule: outside_step.cases)
  case (os_handler alive h)
  note effect = handler_effect [OF os_handler(2)]
  have inv: "conn_inv (hb_conns (lk_hub s) a)" using assms(4) by (simp add: link_ids_def)
  obtain new where new: "hb_out h = hb_out (lk_hub s) @ new"
    "\<forall>env. (ToAgent a, env) \<in> set new \<longrightarrow> env_id env = None \<or> env_id env = Some (ac_next_sub_id (link_conn a s))"
    using conjunct2 [OF effect] unfolding sends_effect_def by blast
  have lt: "unat d < unat (ac_next_sub_id (link_conn a s))" using assms(2) by (simp add: link_asked_def)
  then have "env_id e \<noteq> Some d" if "(ToAgent a, e) \<in> set new" for e
    using new(2) that by auto
  moreover have "unat d < unat (ac_next_sub_id (hb_conns h a))"
    using conn_effect_inv(2) [OF conjunct1 [OF effect] inv] lt by simp
  ultimately show ?thesis
    using assms(2) os_handler(1) new(1) by (auto simp: link_asked_def to_agent_def received_def)
next
  case (os_agent_reads r rest)
  let ?s1 = "s\<lparr>lk_consumed := length (wr_out (lk_channel s)) - length rest\<rparr>"
  obtain outs where turn: "lk_sent s' = lk_sent s @ outs" "\<forall>e \<in> set outs. env_id e = None"
    "\<forall>t k. as_tasks (lk_agent s') t = Some k \<longrightarrow> as_tasks (lk_agent s) t = Some k \<or>
       (\<exists>env. r = Inr env \<and> started_by (en_payload env) = Some k)"
    using serve_turn_cases [of host r ?s1 s'] os_agent_reads(1) by auto
  have hub: "lk_hub s' = lk_hub s" using os_agent_reads(1) by (simp add: serve_turn_fields)
  have "started_by (PSubscribe sub) = Some k" if "as_tasks (lk_agent s') t = Some k" "task_id k = Some d" for t k
  proof -
    from turn(3) that(1) consider "as_tasks (lk_agent s) t = Some k"
      | env where "r = Inr env" "started_by (en_payload env) = Some k" by blast
    then show ?thesis
    proof cases
      case 2
      then have "env \<in> set (to_agent a s)"
        using agent_reads(1) [OF assms(3,5) os_agent_reads(2)] os_agent_reads(4) by auto
      moreover have "env_id env = Some d" using started_by_id [OF 2(2)] that(2) by simp
      ultimately show ?thesis using assms(2) 2(2) unfolding link_asked_def by metis
    qed (use assms(2) that(2) in \<open>auto simp: link_asked_def\<close>)
  qed
  moreover have "\<forall>e \<in> set outs. \<not> answers_to d e" using turn(2) answers_to_id by fastforce
  ultimately show ?thesis
    using assms(2) turn(1) hub by (auto simp: link_asked_def to_agent_def)
next
  case (os_task_sends t k env)
  have "\<not> answers_to d env"
  proof
    assume ans: "answers_to d env"
    then have "task_id k = Some d" using task_sends_id [OF os_task_sends(3)] answers_to_id by fastforce
    then have "started_by (PSubscribe sub) = Some k" using assms(2) os_task_sends(2) by (auto simp: link_asked_def)
    with ans os_task_sends(3) show False
      by (cases "(k, env)" rule: task_sends.cases)
         (auto simp: answers_to_def event_envelope_def envelope_of_def action_not_started)
  qed
  then show ?thesis using assms(2) os_task_sends by (auto simp: link_asked_def to_agent_def)
next
  case os_agent_ends
  then show ?thesis using assms(2) by (auto simp: link_asked_def to_agent_def agent_stop_def split: if_splits)
qed (use assms(2) in \<open>auto simp: link_asked_def to_agent_def split: if_splits\<close>)

end
