(* ===== verification/TunnelEnd.thy ===== *)
theory TunnelEnd
  imports TunnelProps
begin

text \<open>
  A remote subscription from end to end over the tunnel of \<open>AgentTunnel\<close>: what reaches the client, and
  that nothing gets stuck on the way.
\<close>

section \<open>What has reached the client\<close>

definition gone_events :: "string \<Rightarrow> routed_sub \<Rightarrow> event list" where
  "gone_events al r =
     events_for (rt_client r) (rt_client_id r) [(ToClient (rt_client r), drain_envelope (disconnect_reason al) r)]"

text \<open>
  With \<open>k\<close> of the agent's envelopes parsed: the entry stands while the parser runs and is the client's only
  one; the client has had the events under \<open>d\<close> among the \<open>k\<close>, and in the end that the agent is gone.
\<close>

definition link_account :: "nat \<Rightarrow> u64 \<Rightarrow> routed_sub \<Rightarrow> string \<Rightarrow> event list \<Rightarrow> nat \<Rightarrow> link \<Rightarrow> bool" where
  "link_account a d r al base k s \<longleftrightarrow>
     (lk_parsing s \<longrightarrow> ac_routing (link_conn a s) d = Some r) \<and>
     (\<forall>d' r'. ac_routing (link_conn a s) d' = Some r' \<and> rt_client r' = rt_client r \<and>
        rt_client_id r' = rt_client_id r \<longrightarrow> d' = d \<and> lk_parsing s) \<and>
     ac_alias (link_conn a s) = al \<and> conn_inv (link_conn a s) \<and>
     events_for (rt_client r) (rt_client_id r) (hb_out (lk_hub s)) =
       base @ List.map_filter (agent_event d) (take k (lk_sent s)) @ (if lk_parsing s then [] else gone_events al r)"

lemma drain_events:
  assumes "distinct ds" "routing d = Some r" "alive (ToClient (rt_client r))"
    and "\<forall>d' r'. routing d' = Some r' \<and> rt_client r' = rt_client r \<and> rt_client_id r' = rt_client_id r \<longrightarrow> d' = d"
  shows "events_for (rt_client r) (rt_client_id r) (fold (drain_one alive (disconnect_reason al) routing) ds out) =
     events_for (rt_client r) (rt_client_id r) out @ (if d \<in> set ds then gone_events al r else [])"
  using assms(1)
proof (induction ds arbitrary: out)
  case (Cons d1 ds)
  have other: "event_for (rt_client r) (rt_client_id r) (ToClient (rt_client r'), drain_envelope reason r') = None"
    if "rt_client r' \<noteq> rt_client r \<or> rt_client_id r' \<noteq> rt_client_id r" for r' reason
    using that by (cases "rt_scope r'") (auto simp: event_for.simps drain_envelope.simps envelope_of_def
        docker_unavailable_envelope_def event_envelope_def stream_ended_envelope_def ports_unavailable_envelope_def
        processes_unavailable_envelope_def docker_action_failure_envelope_def)
  have "events_for (rt_client r) (rt_client_id r) (drain_one alive (disconnect_reason al) routing d1 out) =
      events_for (rt_client r) (rt_client_id r) out @ (if d1 = d then gone_events al r else [])"
  proof (cases "d1 = d")
    case True
    then show ?thesis using assms(2,3) by (simp add: drain_one_def tx_send_def gone_events_def)
  next
    case False
    then have "rt_client r' \<noteq> rt_client r \<or> rt_client_id r' \<noteq> rt_client_id r" if "routing d1 = Some r'" for r'
      using assms(4) that by blast
    then show ?thesis
      using False other by (auto simp: drain_one_def tx_send_def events_for_single split: option.splits)
  qed
  then show ?case using Cons by auto
qed simp

lemma shutdown_account:
  assumes "link_account a d r al base k s" "lk_parsing s" "iterates order" "alive (ToClient (rt_client r))"
    and "lk_hub s' = shutdown_agent_connection alive order a (lk_hub s)" "lk_sent s' = lk_sent s" "\<not> lk_parsing s'"
  shows "link_account a d r al base k s'"
proof -
  let ?ds = "order (ac_routing (link_conn a s))"
  have acc: "ac_routing (link_conn a s) d = Some r" "conn_inv (link_conn a s)" "ac_alias (link_conn a s) = al"
    "\<forall>d' r'. ac_routing (link_conn a s) d' = Some r' \<and> rt_client r' = rt_client r \<and>
        rt_client_id r' = rt_client_id r \<longrightarrow> d' = d"
    using assms(1,2) by (auto simp: link_account_def)
  have ds: "distinct ?ds" "d \<in> set ?ds"
    using assms(3) acc(1,2) unfolding iterates_def conn_inv_def by auto
  have "hb_out (lk_hub s') = fold (drain_one alive (disconnect_reason al) (ac_routing (link_conn a s))) ?ds (hb_out (lk_hub s))"
    using assms(5) acc(3) by (simp add: shutdown_agent_connection_def drain_routing_on_disconnect_def)
  with drain_events [of ?ds "ac_routing (link_conn a s)" d r alive al "hb_out (lk_hub s)",
      OF ds(1) acc(1) assms(4) acc(4)] ds(2)
  show ?thesis
    using assms(1,2,5,6,7) by (simp add: link_account_def shutdown_effect)
qed

lemma route_account:
  assumes "link_account a d r al base k s" "lk_parsing s" "alive (ToClient (rt_client r))"
    and "lk_hub s' = hub_route alive a (lk_sent s ! k) (lk_hub s)" "lk_sent s' = lk_sent s" "lk_parsing s'"
    and "k < length (lk_sent s)" "\<not> answers_to d (lk_sent s ! k)"
  shows "link_account a d r al base (Suc k) s'"
proof -
  let ?env = "lk_sent s ! k"
  obtain c out where step: "route_agent_envelope alive ?env (link_conn a s) (hb_out (lk_hub s)) = (c, out)" by fastforce
  have acc: "ac_routing (link_conn a s) d = Some r"
    "sole_route (link_conn a s) d (rt_client r) (rt_client_id r)"
    using assms(1,2) by (auto simp: link_account_def sole_route_def)
  note one = route_one_events [OF acc(1) assms(3) acc(2) assms(8) step]
  have hub: "link_conn a s' = c" "hb_out (lk_hub s') = out"
    using assms(4) step by (simp_all add: hub_route_def)
  have "conn_inv c" "ac_alias c = al"
    using hub_route_effect(2,4) [where h = "lk_hub s" and a = a and alive = alive and env = ?env] assms(1,4) hub(1)
    by (auto simp: link_account_def)
  moreover have "List.map_filter (agent_event d) (take (Suc k) (lk_sent s)) =
      List.map_filter (agent_event d) (take k (lk_sent s)) @ (case agent_event d ?env of Some e \<Rightarrow> [e] | None \<Rightarrow> [])"
    using assms(7) by (simp add: take_Suc_conv_app_nth List.map_filter_def split: option.splits)
  ultimately show ?thesis
    using one assms(1,2,5,6) hub by (auto simp: link_account_def sole_route_def)
qed

lemma events_for_others:
  assumes "\<forall>cl' env f. (ToClient cl', env) \<in> set out \<and> en_payload env = PEvent f \<longrightarrow> (cl', ef_subscription_id f) \<noteq> (cl, i)"
  shows "events_for cl i out = []"
proof -
  have "event_for cl i x = None" if "x \<in> set out" for x
    using assms that by (cases x) (fastforce simp: event_for.simps split: payload.splits)
  then show ?thesis by (simp add: events_for_def List.map_filter_def)
qed

lemma handler_account:
  assumes "handler_step alive a (\<lambda>cl' i'. (cl', i') \<noteq> (rt_client r, rt_client_id r)) (\<lambda>i. i = d) (lk_hub s) h"
    and "link_account a d r al base k s" "unat d < unat (ac_next_sub_id (link_conn a s))"
  shows "link_account a d r al base k (s\<lparr>lk_hub := h\<rparr>)"
proof -
  note effect = handler_effect [OF assms(1)]
  have acc: "conn_inv (link_conn a s)" "ac_alias (link_conn a s) = al" using assms(2) by (auto simp: link_account_def)
  note inv = conn_effect_inv [OF conjunct1 [OF effect] acc(1)]
  have new: "ac_next_sub_id (link_conn a s) \<noteq> d" using assms(3) by auto
  obtain new where out: "hb_out h = hb_out (lk_hub s) @ new"
    "\<forall>cl' env f. (ToClient cl', env) \<in> set new \<and> en_payload env = PEvent f \<longrightarrow>
       (cl', ef_subscription_id f) \<noteq> (rt_client r, rt_client_id r)"
    using conjunct2 [OF effect] unfolding sends_effect_def by blast
  have ev: "events_for (rt_client r) (rt_client_id r) (hb_out h) =
      events_for (rt_client r) (rt_client_id r) (hb_out (lk_hub s))"
    using events_for_others [OF out(2)] out(1) by simp
  have keep: "ac_routing (hb_conns h a) d = ac_routing (link_conn a s) d"
    using conjunct1 [OF effect] new by (cases rule: conn_effect.cases) auto
  have sole: "\<forall>d' r'. ac_routing (hb_conns h a) d' = Some r' \<and> rt_client r' = rt_client r \<and>
      rt_client_id r' = rt_client_id r \<longrightarrow> ac_routing (link_conn a s) d' = Some r'"
    using conjunct1 [OF effect] by (cases rule: conn_effect.cases) (auto split: if_splits)
  have fields: "lk_hub (s\<lparr>lk_hub := h\<rparr>) = h" "lk_parsing (s\<lparr>lk_hub := h\<rparr>) = lk_parsing s"
    "lk_sent (s\<lparr>lk_hub := h\<rparr>) = lk_sent s" by simp_all
  show ?thesis
    unfolding link_account_def fields
  proof (intro conjI)
    show "lk_parsing s \<longrightarrow> ac_routing (hb_conns h a) d = Some r"
      using assms(2) keep by (simp add: link_account_def)
    show "\<forall>d' r'. ac_routing (hb_conns h a) d' = Some r' \<and> rt_client r' = rt_client r \<and>
        rt_client_id r' = rt_client_id r \<longrightarrow> d' = d \<and> lk_parsing s"
      using assms(2) sole unfolding link_account_def by blast
  qed (use assms(2) inv ev acc in \<open>simp_all add: link_account_def\<close>)
qed


section \<open>Runs\<close>

definition link_served ::
  "(envelope \<Rightarrow> u8 list option) \<Rightarrow> nat \<Rightarrow> u64 \<Rightarrow> subscription \<Rightarrow> routed_sub \<Rightarrow> string \<Rightarrow> event list \<Rightarrow> link \<Rightarrow> bool" where
  "link_served tb a d sub r al base s \<longleftrightarrow> link_ids a s \<and> link_up tb a s \<and> link_asked a d sub s \<and>
     (\<exists>k. link_down tb k s \<and> link_account a d r al base k s)"

abbreviation others_step ::
  "(envelope \<Rightarrow> u8 list option) \<Rightarrow> (u8 list \<Rightarrow> envelope option) \<Rightarrow> agent_host \<Rightarrow>
     ((u64 \<rightharpoonup> routed_sub) \<Rightarrow> u64 list) \<Rightarrow> nat \<Rightarrow> u64 \<Rightarrow> u64 \<Rightarrow> nat \<Rightarrow> link \<Rightarrow> link \<Rightarrow> bool" where
  "others_step tb fb host order cl i d a \<equiv>
     link_step tb fb host order {ToClient cl} (\<lambda>cl' i'. (cl', i') \<noteq> (cl, i)) (\<lambda>i'. i' = d) a"

lemma account_same:
  assumes "link_account a d r al base k s" "lk_hub s' = lk_hub s" "lk_parsing s' = lk_parsing s"
    "take k (lk_sent s') = take k (lk_sent s)"
  shows "link_account a d r al base k s'"
  using assms by (simp add: link_account_def)

lemma delivery_served:
  assumes "delivery_step tb fb order {ToClient (rt_client r)} a s s'" "link_served tb a d sub r al base s"
    and "rkyv_roundtrip tb fb" "iterates order" "list_all (framable tb) (lk_sent s)"
  shows "link_served tb a d sub r al base s'"
proof -
  obtain k where k: "link_down tb k s" "link_account a d r al base k s"
    and inv: "link_ids a s" "link_up tb a s" "link_asked a d sub s"
    using assms(2) unfolding link_served_def by blast
  note sent = delivery_sent [OF assms(1)]
  have "\<exists>k'. link_down tb k' s' \<and> link_account a d r al base k' s'"
    using delivery_down [OF assms(1) k(1) assms(3,5)]
  proof (elim disjE conjE exE)
    assume "lk_hub s' = lk_hub s" "lk_parsing s' = lk_parsing s" "link_down tb k s'"
    then show ?thesis using account_same [OF k(2)] sent by metis
  next
    fix alive assume h: "lk_parsing s" "\<forall>x \<in> {ToClient (rt_client r)}. alive x" "lk_parsing s'" "k < length (lk_sent s)"
      "lk_hub s' = hub_route alive a (lk_sent s ! k) (lk_hub s)" "link_down tb (Suc k) s'"
    moreover have "\<not> answers_to d (lk_sent s ! k)" using inv(3) h(4) by (simp add: link_asked_def)
    ultimately show ?thesis using route_account [OF k(2) h(1)] sent by blast
  next
    fix alive assume h: "lk_parsing s" "\<forall>x \<in> {ToClient (rt_client r)}. alive x" "\<not> lk_parsing s'"
      "lk_hub s' = shutdown_agent_connection alive order a (lk_hub s)" "link_down tb k s'"
    then show ?thesis using shutdown_account [OF k(2) h(1) assms(4)] sent by blast
  qed
  then show ?thesis
    using delivery_ids [OF assms(1) inv(1)] delivery_up [OF assms(1) inv(2)] delivery_asked [OF assms(1) inv(3)]
    unfolding link_served_def by blast
qed

lemma outside_served:
  assumes "outside_step tb fb host {ToClient (rt_client r)} (\<lambda>cl' i'. (cl', i') \<noteq> (rt_client r, rt_client_id r))
      (\<lambda>i. i = d) a s s'"
    and "link_served tb a d sub r al base s" "rkyv_roundtrip tb fb"
  shows "link_served tb a d sub r al base s'"
proof -
  obtain k where k: "link_down tb k s" "link_account a d r al base k s"
    and inv: "link_ids a s" "link_up tb a s" "link_asked a d sub s"
    using assms(2) unfolding link_served_def by blast
  have "link_account a d r al base k s'"
    using assms(1)
  proof (cases rule: outside_step.cases)
    case (os_handler alive h)
    then show ?thesis
      using handler_account [OF os_handler(2) k(2)] inv(3) by (simp add: link_asked_def)
  qed (use outside_sent [OF assms(1)] k(1) in
      \<open>auto simp: serve_turn_fields link_down_def intro!: account_same [OF k(2)]\<close>)
  then show ?thesis
    using outside_inv [OF assms(1,3) inv(1,2)] outside_down [OF assms(1) k(1)]
      outside_asked [OF assms(1) inv(3) assms(3) inv(1,2)]
    unfolding link_served_def by blast
qed

lemma served_run:
  assumes "(others_step tb fb host order (rt_client r) (rt_client_id r) d a)\<^sup>*\<^sup>* s s'"
    and "link_served tb a d sub r al base s" "rkyv_roundtrip tb fb" "iterates order" "list_all (framable tb) (lk_sent s')"
  shows "link_served tb a d sub r al base s'"
  using assms(1,5)
proof (induction rule: rtranclp_induct)
  case (step s1 s2)
  have "\<exists>outs. lk_sent s2 = lk_sent s1 @ outs"
    using step.hyps(2) delivery_sent outside_sent unfolding link_step_def by fastforce
  then have fr: "list_all (framable tb) (lk_sent s1)" using step.prems by auto
  from step.IH [OF this] step.hyps(2) show ?case
    using delivery_served [OF _ _ assms(3,4) fr] outside_served [OF _ _ assms(3)] unfolding link_step_def by blast
qed (use assms(2) in simp)

section \<open>Nothing gets stuck\<close>

text \<open>What is still to be done, weighted by how many hands it has to go through.\<close>

fun msg_work :: "channel_msg \<Rightarrow> nat" where
  "msg_work m = 4 * length (msg_bytes m) + 1"

definition work :: "(envelope \<Rightarrow> u8 list option) \<Rightarrow> nat \<Rightarrow> link \<Rightarrow> nat" where
  "work tb a s = (length (to_agent a s) - lk_taken s) + (length (lk_sent s) - lk_written s) +
     6 * length (frames tb (drop (lk_written s) (lk_sent s))) + 6 * length (lk_stdout s) + sum_list (map msg_work (lk_inbox s)) + 3 * length (driver_bytes (lk_driver s)) +
     2 * length (lk_pipe s) + length (lk_frame s)"

text \<open>Both ends run, and the channel takes and brings bytes.\<close>

definition link_open :: "link \<Rightarrow> bool" where
  "link_open s \<longleftrightarrow> lk_parsing s \<and> lk_writing s \<and> lk_driver s \<noteq> DrDone \<and> wr_room (lk_channel s) = None \<and>
     CmEof \<notin> set (lk_inbox s) \<and> CmClose \<notin> set (lk_inbox s)"


lemma frame_whole:
  assumes "length bs \<le> MAX_FRAME_SIZE"
  shows "frame_missing (frame_of bs @ r) = 0"
  using assms max_frame_fits [OF assms]
  by (simp add: frame_missing_def frame_of_def unat_length_u32)

lemma driver_write_room:
  "wr_room w = None \<Longrightarrow> \<exists>w'. driver_write tb env w = (w', True) \<and> wr_room w' = None"
  by (auto simp: driver_write_def serialize_envelope_def write_all_def split: option.splits)

abbreviation can_progress ::
  "(envelope \<Rightarrow> u8 list option) \<Rightarrow> (u8 list \<Rightarrow> envelope option) \<Rightarrow> ((u64 \<rightharpoonup> routed_sub) \<Rightarrow> u64 list) \<Rightarrow>
     dest set \<Rightarrow> nat \<Rightarrow> link \<Rightarrow> bool" where
  "can_progress tb fb order must a s \<equiv>
     \<exists>s'. delivery_step tb fb order must a s s' \<and> link_open s' \<and> work tb a s' < work tb a s"

lemma progressI:
  "delivery_step tb fb order must a s s' \<Longrightarrow> link_open s' \<Longrightarrow> work tb a s' < work tb a s \<Longrightarrow>
     can_progress tb fb order must a s"
  by blast

lemmas progress_simps = work_def link_open_def to_agent_def

lemma parser_progress:
  assumes "link_open s" "link_down tb k s" "frame_missing (lk_frame s) = 0 \<or> lk_pipe s \<noteq> []"
    and "rkyv_roundtrip tb fb" "list_all (framable tb) (lk_sent s)"
  shows "can_progress tb fb order must a s"
proof (cases "frame_missing (lk_frame s) = 0")
  case whole: True
  have pre: "prefix (lk_frame s @ lk_pipe s) (frames tb (drop k (take (lk_written s) (lk_sent s))))"
    using assms(1,2) by (simp add: link_open_def link_down_def pending_def)
  have fr: "list_all (framable tb) (drop k (take (lk_written s) (lk_sent s)))"
    using assms(5) by (auto simp: list_all_iff dest: in_set_takeD in_set_dropD)
  obtain res rest where read: "read_envelope fb (lk_frame s) = (res, rest)" by fastforce
  with parse_pending [OF assms(4) fr pre whole read] obtain env
    where env: "read_envelope fb (lk_frame s) = (Inr env, rest)" by auto
  have parsing: "lk_parsing s" using assms(1) by (simp add: link_open_def)
  have short: "length rest + 4 \<le> length (lk_frame s)" using env read_envelope_takes by blast
  have step: "delivery_step tb fb order must a s
      (s\<lparr>lk_frame := rest, lk_hub := hub_route (\<lambda>_. True) a env (lk_hub s)\<rparr>)"
    by (rule ds_parse [OF parsing whole env]) simp
  show ?thesis
    by (rule progressI [OF step]) (use assms(1) short in \<open>simp_all add: progress_simps hub_route_effect\<close>)
next
  case False
  then have n: "0 < (1 :: nat)" "1 \<le> frame_missing (lk_frame s)" "1 \<le> length (lk_pipe s)"
    using assms(3) by (auto simp: Suc_le_eq)
  have parsing: "lk_parsing s" using assms(1) by (simp add: link_open_def)
  show ?thesis
    by (rule progressI [OF ds_pull [OF parsing n]]) (use assms(1) n(3) in \<open>auto simp: progress_simps\<close>)
qed

lemma driver_progress:
  assumes "link_open s" "lk_driver s \<noteq> DrPushing []" "lk_taken s \<le> length (to_agent a s)" "lk_pipe s = []"
    and "lk_driver s \<noteq> DrSelect \<or> lk_taken s < length (to_agent a s) \<or> lk_inbox s \<noteq> []"
  shows "can_progress tb fb order must a s"
proof (cases "lk_driver s")
  case (DrPushing rest)
  have n: "0 < (1 :: nat)" "1 \<le> length rest" "length (lk_pipe s) + 1 \<le> AGENT_PIPE_BYTES"
    using DrPushing assms(2,4) by (auto simp: AGENT_PIPE_BYTES_def Suc_le_eq)
  have parsing: "lk_parsing s" using assms(1) by (simp add: link_open_def)
  have rest: "length (driver_bytes (push_rest 1 rest)) + 1 = length rest" "push_rest 1 rest \<noteq> DrDone"
    using n(2) by (auto simp: push_rest_def)
  show ?thesis
    by (rule progressI [OF ds_push [OF DrPushing parsing n]])
       (use assms(1,4) DrPushing n(2) rest in \<open>auto simp: progress_simps\<close>)
next
  case select: DrSelect
  show ?thesis
  proof (cases "lk_taken s < length (to_agent a s)")
    case True
    obtain w where w: "driver_write tb (to_agent a s ! lk_taken s) (lk_channel s) = (w, True)" "wr_room w = None"
      using driver_write_room [of "lk_channel s"] assms(1) unfolding link_open_def by blast
    show ?thesis
      by (rule progressI [OF ds_take [OF select True w(1)]])
         (use assms(1) True w(2) select in \<open>simp_all add: progress_simps\<close>)
  next
    case False
    then have all: "lk_taken s = length (to_agent a s)" using assms(3) by simp
    with select False assms(5) obtain m ms where inbox: "lk_inbox s = m # ms" by (cases "lk_inbox s") auto
    then have "m \<noteq> CmEof" "m \<noteq> CmClose" using assms(1) by (auto simp: link_open_def)
    then have "driver_message (Some m) \<noteq> DrDone" "3 * length (driver_bytes (driver_message (Some m))) < msg_work m"
      by (cases m; auto)+
    then show ?thesis
      by (intro progressI [OF ds_message [OF select all inbox]])
         (use assms(1) inbox select in \<open>auto simp: progress_simps\<close>)
  qed
qed (use assms(1) in \<open>simp add: link_open_def\<close>)

lemma writer_progress:
  assumes "link_open s" "list_all (framable tb) (lk_sent s)" "lk_stdout s \<noteq> [] \<or> lk_written s < length (lk_sent s)"
  shows "can_progress tb fb order must a s"
proof (cases "lk_stdout s = []")
  case False
  then have n: "0 < (1 :: nat)" "1 \<le> length (lk_stdout s)" by (simp_all add: Suc_le_eq)
  show ?thesis
    by (rule progressI [OF ds_carry [OF n]]) (use assms(1) n(2) in \<open>auto simp: progress_simps\<close>)
next
  case True
  then have lt: "lk_written s < length (lk_sent s)" using assms(3) by simp
  let ?e = "lk_sent s ! lk_written s"
  have "framable tb ?e" using assms(2) lt by (simp add: list_all_length)
  then obtain bs where bs: "tb ?e = Some bs" "length bs \<le> MAX_FRAME_SIZE" using framable_bytes by blast
  have "drop (lk_written s) (lk_sent s) = ?e # drop (Suc (lk_written s)) (lk_sent s)"
    using lt by (simp add: Cons_nth_drop_Suc)
  then have fr: "frames tb (drop (lk_written s) (lk_sent s)) =
      frame_of bs @ frames tb (drop (Suc (lk_written s)) (lk_sent s))" using bs(1) by (simp add: frames_Cons)
  have writing: "lk_writing s" using assms(1) by (simp add: link_open_def)
  note step = ds_write [OF writing lt write_envelope_open [of tb ?e bs "\<lparr>wr_out = lk_stdout s, wr_room = None\<rparr>",
      OF bs(1) max_frame_fits [OF bs(2)]], of fb order must a]
  show ?thesis
    by (rule progressI [OF step]) (use assms(1) lt fr in \<open>simp_all add: progress_simps\<close>)
qed

lemma delivery_progress:
  assumes "link_open s" "lk_taken s \<le> length (to_agent a s)" "link_down tb k s" "k < length (lk_sent s)"
    and "rkyv_roundtrip tb fb" "list_all (framable tb) (lk_sent s)"
  shows "can_progress tb fb order must a s"
proof (cases "frame_missing (lk_frame s) = 0 \<or> lk_pipe s \<noteq> [] \<or> lk_driver s \<noteq> DrSelect \<or>
    lk_taken s < length (to_agent a s) \<or> lk_inbox s \<noteq> [] \<or> lk_stdout s \<noteq> [] \<or> lk_written s < length (lk_sent s)")
  case True
  have "lk_driver s \<noteq> DrPushing []" using assms(3) by (simp add: link_down_def)
  with True show ?thesis
    using parser_progress [OF assms(1,3) _ assms(5,6)] driver_progress [OF assms(1) _ assms(2)]
      writer_progress [OF assms(1,6)] by blast
next
  case False
  then have "lk_written s = length (lk_sent s)" using assms(3) by (simp add: link_down_def)
  then have "drop k (take (lk_written s) (lk_sent s)) = lk_sent s ! k # drop (Suc k) (lk_sent s)"
    using assms(4) by (simp add: Cons_nth_drop_Suc)
  moreover have "framable tb (lk_sent s ! k)" using assms(4,6) by (simp add: list_all_length)
  ultimately obtain bs r where "pending tb k s = frame_of bs @ r" "length bs \<le> MAX_FRAME_SIZE"
    using framable_bytes frames_Cons unfolding pending_def by metis
  moreover have "flight s = lk_frame s" using False by (simp add: flight_def)
  moreover have "flight s = pending tb k s" using assms(1,3) by (simp add: link_open_def link_down_def)
  ultimately show ?thesis using False frame_whole by metis
qed


lemma deliveries_finish:
  assumes "link_open s" "link_served tb a d sub r al base s"
    and "rkyv_roundtrip tb fb" "iterates order" "list_all (framable tb) (lk_sent s)"
  shows "\<exists>s'. (delivery_step tb fb order {ToClient (rt_client r)} a)\<^sup>*\<^sup>* s s' \<and>
    events_for (rt_client r) (rt_client_id r) (hb_out (lk_hub s')) =
      base @ List.map_filter (agent_event d) (lk_sent s)"
  using assms(1,2,5)
proof (induction "work tb a s" arbitrary: s rule: less_induct)
  case less
  obtain k where k: "link_down tb k s" "link_account a d r al base k s" and up: "link_up tb a s"
    using less.prems(2) unfolding link_served_def by blast
  show ?case
  proof (cases "k < length (lk_sent s)")
    case False
    then have "events_for (rt_client r) (rt_client_id r) (hb_out (lk_hub s)) =
        base @ List.map_filter (agent_event d) (lk_sent s)"
      using k(2) less.prems(1) by (simp add: link_account_def link_open_def)
    then show ?thesis by blast
  next
    case True
    have "lk_taken s \<le> length (to_agent a s)" using up by (simp add: link_up_def)
    from delivery_progress [OF less.prems(1) this k(1) True assms(3) less.prems(3)]
    obtain s1 where s1: "delivery_step tb fb order {ToClient (rt_client r)} a s s1" "link_open s1"
      "work tb a s1 < work tb a s" by blast
    have sent: "lk_sent s1 = lk_sent s" by (rule delivery_sent [OF s1(1)])
    have "link_served tb a d sub r al base s1"
      by (rule delivery_served [OF s1(1) less.prems(2) assms(3,4) less.prems(3)])
    from less.hyps [OF s1(3,2) this] less.prems(3) sent obtain s'
      where "(delivery_step tb fb order {ToClient (rt_client r)} a)\<^sup>*\<^sup>* s1 s'"
        "events_for (rt_client r) (rt_client_id r) (hb_out (lk_hub s')) =
           base @ List.map_filter (agent_event d) (lk_sent s)" by auto
    with s1(1) show ?thesis by (meson converse_rtranclp_into_rtranclp)
  qed
qed

section \<open>The request\<close>

definition subscription_route :: "nat \<Rightarrow> u64 \<Rightarrow> routed_scope \<Rightarrow> routed_sub" where
  "subscription_route cl i scope = \<lparr>rt_client = cl, rt_client_id = i, rt_kind = RkSubscription, rt_scope = scope\<rparr>"

lemma subscription_route_simps [simp]:
  "rt_client (subscription_route cl i scope) = cl" "rt_client_id (subscription_route cl i scope) = i"
  by (simp_all add: subscription_route_def)

lemma accepted_request:
  assumes "hb_pool h al = Some a" "required \<in> set (ac_capabilities (hb_conns h a))"
    and "unat (ac_next_sub_id (hb_conns h a)) < 2 ^ 64 - 1" "conn_inv (hb_conns h a)" "alive (ToAgent a)"
    and "route_remote_subscribe alive cl i al scope required builder subs h = (subs', h')"
    and "d = ac_next_sub_id (hb_conns h a)"
  shows "subs' = subs(i \<mapsto> \<lparr>ah_alias = al, ah_daemon_id = d\<rparr>)"
    "hb_out h' = hb_out h @ [(ToAgent a, envelope_of (PSubscribe (builder d)))]"
    "hb_conns h' a = (hb_conns h a)\<lparr>ac_next_sub_id := d + 1,
       ac_routing := (ac_routing (hb_conns h a))(d \<mapsto> subscription_route cl i scope)\<rparr>"
    "conn_inv (hb_conns h' a)"
proof -
  show conn: "subs' = subs(i \<mapsto> \<lparr>ah_alias = al, ah_daemon_id = d\<rparr>)"
    "hb_out h' = hb_out h @ [(ToAgent a, envelope_of (PSubscribe (builder d)))]"
    "hb_conns h' a = (hb_conns h a)\<lparr>ac_next_sub_id := d + 1,
       ac_routing := (ac_routing (hb_conns h a))(d \<mapsto> subscription_route cl i scope)\<rparr>"
    using assms by (auto simp: route_remote_subscribe_def subscribe_on_def register_route_def alloc_id_def tx_send_def
        subscription_route_def)
  show "conn_inv (hb_conns h' a)" using conn_inv_register [OF assms(4,3)] conn(3) assms(7) by simp
qed

lemma request_served:
  assumes "link_ids a s" "link_up tb a s" "link_down tb k s" "lk_parsing s" "rkyv_roundtrip tb fb"
    and "hb_pool (lk_hub s) al = Some a" "required \<in> set (ac_capabilities (link_conn a s))"
    and "unat (ac_next_sub_id (link_conn a s)) < 2 ^ 64 - 1" "alive (ToAgent a)" "lk_driver s \<noteq> DrDone"
    and "\<forall>d r. ac_routing (link_conn a s) d = Some r \<and> rt_client r = cl \<longrightarrow> rt_client_id r \<noteq> i"
    and "\<forall>j. subscription_id (builder j) = j"
    and "route_remote_subscribe alive cl i al scope required builder subs (lk_hub s) = (subs', h')"
    and "d = ac_next_sub_id (link_conn a s)"
  shows "link_served tb a d (builder d) (subscription_route cl i scope) (ac_alias (link_conn a s))
    (events_for cl i (hb_out (lk_hub s))) (s\<lparr>lk_hub := h'\<rparr>)"
proof -
  let ?s = "s\<lparr>lk_hub := h'\<rparr>"
  have inv: "conn_inv (link_conn a s)" using assms(1) by (simp add: link_ids_def)
  note acc = accepted_request [OF assms(6,7,8) inv assms(9,13,14)]
  have "handler_step alive a (\<lambda>_ _. True) (\<lambda>_. False) (lk_hub s) h'"
    by (rule hs_subscribe [OF TrueI assms(12,8,13)])
  then have "outside_step tb fb undefined {} (\<lambda>_ _. True) (\<lambda>_. False) a s ?s"
    by (rule os_handler) (use assms(9,10) in simp_all)
  note ok = outside_inv [OF this assms(5,1,2)]
  have old: "env_id e \<noteq> Some d" if "e \<in> set (to_agent a s) \<union> set (lk_sent s)" for e
    using assms(1,14) that by (auto simp: link_ids_def below_def)
  have tasks: "task_id k \<noteq> Some d" if "as_tasks (lk_agent s) t = Some k" for t k
    using assms(1,14) that unfolding link_ids_def below_def by blast
  have "set (to_agent a ?s) = set (to_agent a s) \<union> {envelope_of (PSubscribe (builder d))}"
    using acc(2) by (auto simp: to_agent_def)
  moreover have "unat d < unat (d + 1)" using unat_next assms(8,14) by simp
  ultimately have asked: "link_asked a d (builder d) ?s"
    using old tasks acc(3) answers_to_id by (fastforce simp: link_asked_def envelope_of_def)
  have none: "List.map_filter (agent_event d) (take k (lk_sent s)) = []"
    using old event_id by (fastforce simp: List.map_filter_def filter_empty_conv dest: in_set_takeD)
  have out: "events_for cl i (hb_out h') = events_for cl i (hb_out (lk_hub s))"
    using acc(2) by (simp add: events_for_single event_for.simps envelope_of_def)
  have "link_account a d (subscription_route cl i scope) (ac_alias (link_conn a s))
      (events_for cl i (hb_out (lk_hub s))) k ?s"
    using acc(3,4) assms(4,11) none out by (auto simp: link_account_def split: if_splits)
  moreover have "link_down tb k ?s" using assms(3) by (simp add: link_down_def flight_def pending_def)
  ultimately show ?thesis using ok asked unfolding link_served_def by blast
qed


lemma run_sent:
  assumes "(others_step tb fb host order cl i d a)\<^sup>*\<^sup>* s s'"
  shows "\<exists>outs. lk_sent s' = lk_sent s @ outs"
  using assms
proof (induction rule: rtranclp_induct)
  case (step u v)
  have "\<exists>outs. lk_sent v = lk_sent u @ outs"
    using step.hyps(2) delivery_sent outside_sent unfolding link_step_def by fastforce
  with step.IH show ?case by auto
qed simp

text \<open>
  The setting of the properties: a connection has run from its start to \<open>s1\<close>, with any clients' requests on
  it; there client \<open>cl\<close> asks for a subscription under the id \<open>i\<close>, for which it has none, and the agent has
  the capability; then everything runs on to \<open>s2\<close>.
\<close>

definition subscribed_run ::
  "(envelope \<Rightarrow> u8 list option) \<Rightarrow> (u8 list \<Rightarrow> envelope option) \<Rightarrow> agent_host \<Rightarrow>
     ((u64 \<rightharpoonup> routed_sub) \<Rightarrow> u64 list) \<Rightarrow> nat \<Rightarrow> nat \<Rightarrow> u64 \<Rightarrow> string \<Rightarrow> routed_scope \<Rightarrow> string \<Rightarrow>
     (u64 \<Rightarrow> subscription) \<Rightarrow> link \<Rightarrow> link \<Rightarrow> bool" where
  "subscribed_run tb fb host order a cl i al scope required builder s1 s2 \<longleftrightarrow>
     (\<exists>h0 room name caps. hb_conns h0 a = agent_connection_new name caps \<and>
        received (ToAgent a) (hb_out h0) = [] \<and>
        (link_step tb fb host order {} (\<lambda>_ _. True) (\<lambda>_. False) a)\<^sup>*\<^sup>* (link_new h0 room) s1) \<and>
     lk_parsing s1 \<and> lk_driver s1 \<noteq> DrDone \<and> hb_pool (lk_hub s1) al = Some a \<and>
     required \<in> set (ac_capabilities (link_conn a s1)) \<and> unat (ac_next_sub_id (link_conn a s1)) < 2 ^ 64 - 1 \<and>
     (\<forall>d r. ac_routing (link_conn a s1) d = Some r \<and> rt_client r = cl \<longrightarrow> rt_client_id r \<noteq> i) \<and>
     (\<forall>j. subscription_id (builder j) = j) \<and>
     (\<exists>alive subs subs' h'. alive (ToAgent a) \<and>
        route_remote_subscribe alive cl i al scope required builder subs (lk_hub s1) = (subs', h') \<and>
        (others_step tb fb host order cl i (ac_next_sub_id (link_conn a s1)) a)\<^sup>*\<^sup>* (s1\<lparr>lk_hub := h'\<rparr>) s2)"

lemma subscribed_run_served:
  assumes "subscribed_run tb fb host order a cl i al scope required builder s1 s2"
    and "rkyv_roundtrip tb fb" "iterates order" "list_all (framable tb) (lk_sent s2)"
    and "d = ac_next_sub_id (link_conn a s1)"
  shows "link_served tb a d (builder d) (subscription_route cl i scope) (ac_alias (link_conn a s1))
    (events_for cl i (hb_out (lk_hub s1))) s2"
proof -
  from assms(1) obtain h0 room name caps alive subs subs' h' where run:
    "hb_conns h0 a = agent_connection_new name caps" "received (ToAgent a) (hb_out h0) = []"
    "(link_step tb fb host order {} (\<lambda>_ _. True) (\<lambda>_. False) a)\<^sup>*\<^sup>* (link_new h0 room) s1"
    "lk_parsing s1" "lk_driver s1 \<noteq> DrDone" "hb_pool (lk_hub s1) al = Some a"
    "required \<in> set (ac_capabilities (link_conn a s1))" "unat (ac_next_sub_id (link_conn a s1)) < 2 ^ 64 - 1"
    "\<forall>d r. ac_routing (link_conn a s1) d = Some r \<and> rt_client r = cl \<longrightarrow> rt_client_id r \<noteq> i"
    "\<forall>j. subscription_id (builder j) = j" "alive (ToAgent a)"
    "route_remote_subscribe alive cl i al scope required builder subs (lk_hub s1) = (subs', h')"
    "(others_step tb fb host order cl i (ac_next_sub_id (link_conn a s1)) a)\<^sup>*\<^sup>* (s1\<lparr>lk_hub := h'\<rparr>) s2"
    unfolding subscribed_run_def by blast
  have fresh: "conn_inv (hb_conns h0 a)" using run(1) by simp
  have inv: "link_ids a s1" "link_up tb a s1"
    using link_steps_inv [OF run(3) assms(2) link_new_inv [OF fresh run(2)]] by blast+
  have fr: "list_all (framable tb) (lk_sent s1)" using run_sent [OF run(13)] assms(4) by auto
  obtain k where down: "link_down tb k s1"
    using link_steps_down [OF run(3) assms(2) fr link_new_down] by blast
  have "link_served tb a d (builder d) (subscription_route cl i scope) (ac_alias (link_conn a s1))
      (events_for cl i (hb_out (lk_hub s1))) (s1\<lparr>lk_hub := h'\<rparr>)"
    by (rule request_served [OF inv down run(4) assms(2) run(6,7,8,11,5,9,10,12) assms(5)])
  then show ?thesis
    using served_run [of tb fb host order "subscription_route cl i scope" d a] run(13) assms(2-5) by simp
qed

section \<open>The properties\<close>


text \<open>
  C8. And nothing gets stuck: as long as both ends run and the channel takes and brings bytes, the tasks need
  nothing from outside to bring everything the agent has sent under the id to the client, although the
  driver waits with every command while it has bytes for the parser, and the pipe between them holds
  64 KiB, which a frame may be larger than.
\<close>

theorem remote_events_arrive:
  assumes "subscribed_run tb fb host order a cl i al scope required builder s1 s2"
    and "rkyv_roundtrip tb fb" "iterates order" "list_all (framable tb) (lk_sent s2)" "link_open s2"
  shows "\<exists>s3. (delivery_step tb fb order {ToClient cl} a)\<^sup>*\<^sup>* s2 s3 \<and>
    events_for cl i (hb_out (lk_hub s3)) = events_for cl i (hb_out (lk_hub s1)) @
      List.map_filter (agent_event (ac_next_sub_id (link_conn a s1))) (lk_sent s2)"
  using deliveries_finish [OF assms(5) subscribed_run_served [OF assms(1-4) refl] assms(2-4)] by simp


section \<open>A run\<close>

text \<open>Client 1 asks for the containers of a new agent, under the id 7; the agent reads it and answers.\<close>

definition demo_order :: "(u64 \<rightharpoonup> routed_sub) \<Rightarrow> u64 list" where
  "demo_order m = sorted_list_of_set (dom m)"

definition demo_ask :: envelope where
  "demo_ask = envelope_of (PSubscribe (SubDocker 1 StLocal))"

definition demo_answer :: envelope where
  "demo_answer = event_envelope 1 (EvDockerUnavailable ''no engine'')"

definition demo_to_bytes :: "envelope \<Rightarrow> u8 list option" where
  "demo_to_bytes = index_bytes [demo_ask, demo_answer]"

definition demo_from_bytes :: "u8 list \<Rightarrow> envelope option" where
  "demo_from_bytes = index_of [demo_ask, demo_answer]"

definition demo_agent_host :: agent_host where
  "demo_agent_host = \<lparr>ag_os = ''linux'', ag_arch = ''x86_64'', ag_docker_ok = False\<rparr>"

definition demo_pool :: hub where
  "demo_pool = \<lparr>hb_conns = (\<lambda>_. agent_connection_new ''web'' [''docker'']), hb_next = 1,
     hb_pool = [''web'' \<mapsto> 0], hb_out = []\<rparr>"

definition demo_start :: link where "demo_start = link_new demo_pool None"

definition demo_asked :: link where
  "demo_asked = demo_start\<lparr>lk_hub := snd (route_remote_subscribe (\<lambda>_. True) 1 7 ''web'' RsDocker ''docker''
     (\<lambda>d. SubDocker d StLocal) Map.empty demo_pool)\<rparr>"

definition demo_taken :: link where
  "demo_taken = demo_asked\<lparr>lk_taken := 1, lk_channel := \<lparr>wr_out = frame_of [], wr_room = None\<rparr>\<rparr>"

definition demo_read :: link where
  "demo_read = serve_turn demo_agent_host (Inr demo_ask) (demo_taken\<lparr>lk_consumed := 4\<rparr>)"

definition demo_answered :: link where
  "demo_answered = demo_read\<lparr>lk_sent := [demo_answer]\<rparr>"

lemmas demo_link_defs = demo_answered_def demo_read_def demo_taken_def demo_asked_def demo_start_def
  demo_pool_def link_new_def demo_ask_def demo_answer_def demo_agent_host_def

lemma demo_link_laws: "rkyv_roundtrip demo_to_bytes demo_from_bytes" "iterates demo_order"
  by (simp_all add: demo_to_bytes_def demo_from_bytes_def index_roundtrip demo_order_def iterates_def)

lemma demo_subscribed:
  "route_remote_subscribe (\<lambda>_. True) 1 7 ''web'' RsDocker ''docker'' (\<lambda>d. SubDocker d StLocal) Map.empty demo_pool =
     ([7 \<mapsto> \<lparr>ah_alias = ''web'', ah_daemon_id = 1\<rparr>], lk_hub demo_asked)"
  "to_agent 0 demo_asked = [demo_ask]"
  by (simp_all add: demo_link_defs route_remote_subscribe_def subscribe_on_def register_route_def alloc_id_def
      tx_send_def agent_connection_new_def to_agent_def received_def)

lemma demo_step1: "delivery_step demo_to_bytes demo_from_bytes demo_order must 0 demo_asked demo_taken"
proof -
  have "driver_write demo_to_bytes demo_ask (lk_channel demo_asked) = (lk_channel demo_taken, True)"
    by (simp add: driver_write_def serialize_envelope_def demo_to_bytes_def index_bytes_def write_all_def frame_of_def
        demo_taken_def demo_asked_def demo_start_def link_new_def)
  then show ?thesis
    using ds_take [of demo_asked 0 demo_to_bytes "lk_channel demo_taken" True demo_from_bytes demo_order must]
    by (simp add: demo_subscribed(2)) (simp add: demo_taken_def demo_asked_def demo_start_def link_new_def)
qed

lemma demo_step2: "outside_step demo_to_bytes demo_from_bytes demo_agent_host must allowed kept 0 demo_taken demo_read"
proof -
  have rest: "stdin_rest demo_taken = frame_of []" "lk_serving demo_taken"
    by (simp_all add: stdin_rest_def demo_taken_def demo_asked_def demo_start_def link_new_def)
  have "read_envelope demo_from_bytes (frame_of []) = (Inr demo_ask, [])"
    using read_envelope_frame [of "[]" demo_from_bytes "[]"] by (simp add: demo_from_bytes_def index_of_def)
  moreover have "frame_missing (frame_of []) = 0" using frame_whole [of "[]" "[]"] by simp
  ultimately show ?thesis
    using os_agent_reads [of demo_taken demo_from_bytes "Inr demo_ask" "[]"] rest
    by (simp add: demo_read_def demo_taken_def frame_of_def)
qed

lemma demo_step3: "outside_step demo_to_bytes demo_from_bytes demo_agent_host must allowed kept 0 demo_read demo_answered"
proof -
  have "as_tasks (lk_agent demo_read) 0 = Some (TaskDocker 1)" "lk_sent demo_read = []"
    by (simp_all add: demo_link_defs serve_turn_def envelope_of_def agent_start_def agent_abort_def agent_state_new_def Let_def)
  moreover have "task_sends (TaskDocker 1) demo_answer" by (auto simp: demo_answer_def)
  ultimately show ?thesis
    using os_task_sends [of demo_read 0 "TaskDocker 1" demo_answer] by (simp add: demo_answered_def)
qed

lemma demo_run:
  "subscribed_run demo_to_bytes demo_from_bytes demo_agent_host demo_order 0 1 7 ''web'' RsDocker ''docker''
     (\<lambda>d. SubDocker d StLocal) demo_start demo_answered"
proof -
  have start: "link_conn 0 demo_start = agent_connection_new ''web'' [''docker'']" "lk_hub demo_start = demo_pool"
    "demo_start\<lparr>lk_hub := lk_hub demo_asked\<rparr> = demo_asked"
    by (simp_all add: demo_link_defs)
  let ?R = "others_step demo_to_bytes demo_from_bytes demo_agent_host demo_order 1 7 1 0"
  have "?R demo_asked demo_taken" "?R demo_taken demo_read" "?R demo_read demo_answered"
    unfolding link_step_def using demo_step1 demo_step2 demo_step3 by blast+
  then have run: "?R\<^sup>*\<^sup>* demo_asked demo_answered"
    by (meson rtranclp.rtrancl_refl rtranclp.rtrancl_into_rtrancl)
  show ?thesis
    unfolding subscribed_run_def
  proof (intro conjI)
    show "\<exists>h0 room name caps. hb_conns h0 0 = agent_connection_new name caps \<and>
        received (ToAgent 0) (hb_out h0) = [] \<and>
        (link_step demo_to_bytes demo_from_bytes demo_agent_host demo_order {} (\<lambda>_ _. True) (\<lambda>_. False) 0)\<^sup>*\<^sup>*
          (link_new h0 room) demo_start"
      by (intro exI [of _ demo_pool] exI [of _ None]) (auto simp: demo_start_def demo_pool_def)
    show "\<exists>alive subs subs' h'. alive (ToAgent 0) \<and>
        route_remote_subscribe alive 1 7 ''web'' RsDocker ''docker'' (\<lambda>d. SubDocker d StLocal) subs (lk_hub demo_start) =
          (subs', h') \<and>
        (others_step demo_to_bytes demo_from_bytes demo_agent_host demo_order 1 7
           (ac_next_sub_id (link_conn 0 demo_start)) 0)\<^sup>*\<^sup>* (demo_start\<lparr>lk_hub := h'\<rparr>) demo_answered"
      using run start demo_subscribed(1)
      by (intro exI [of _ "\<lambda>_. True"] exI [of _ Map.empty] exI) (auto simp: agent_connection_new_def)
  qed (simp_all add: start, simp_all add: demo_link_defs agent_connection_new_def)
qed

lemma demo_framable: "list_all (framable demo_to_bytes) (lk_sent demo_answered)"
  using index_framable [of demo_answer "[demo_ask, demo_answer]"]
  by (simp add: demo_answered_def demo_to_bytes_def MAX_FRAME_SIZE_def)


theorem remote_events_arrive_witness:
  "\<exists>s3. (delivery_step demo_to_bytes demo_from_bytes demo_order {ToClient 1} 0)\<^sup>*\<^sup>* demo_answered s3 \<and>
    events_for 1 7 (hb_out (lk_hub s3)) = [EvDockerUnavailable ''no engine'']"
proof -
  have "link_open demo_answered"
    by (simp add: link_open_def demo_link_defs serve_turn_def envelope_of_def)
  from remote_events_arrive [OF demo_run demo_link_laws demo_framable this] show ?thesis
    by (simp add: demo_link_defs agent_connection_new_def List.map_filter_def agent_event.simps event_envelope_def
        envelope_of_def)
qed

end
