(* ===== verification/PtyOpen.thy ===== *)
theory PtyOpen
  imports Daemon SessionProps Codec
begin

text \<open>
  How a local pane comes up (\<open>PtyManager::open\<close> of \<open>crates/tepegoz-pty/src/lib.rs\<close>) and what is written to it: the
  size and the shell that are asked for, the command with its environment, the two threads, and the
  failures on the way. The terminal, the child and the threads are the operating system's and
  \<open>portable_pty\<close>'s: the record \<open>pty_os\<close> says which of the calls fail.
\<close>

record open_spec =
  os_shell :: "string option"
  os_cwd :: "string option"
  os_env :: "(string \<times> string) list"
  os_rows :: u16
  os_cols :: u16

definition open_spec_default :: open_spec where
  "open_spec_default = \<lparr>os_shell = None, os_cwd = None, os_env = [], os_rows = 40, os_cols = 120\<rparr>"

text \<open>What \<open>handle_command\<close> makes of a client's request.\<close>

definition open_spec_of :: "open_pane_spec \<Rightarrow> open_spec" where
  "open_spec_of spec = \<lparr>os_shell = ops_shell spec, os_cwd = ops_cwd spec,
     os_env = map (\<lambda>e. (ev_key e, ev_value e)) (ops_env spec), os_rows = ops_rows spec, os_cols = ops_cols spec\<rparr>"

text \<open>The command: a variable set twice has the value that was set last.\<close>

record command =
  cb_program :: string
  cb_cwd :: "string option"
  cb_env :: "(string \<times> string) list"

definition default_shell :: "(string \<Rightarrow> string option) \<Rightarrow> string" where
  "default_shell var = (case var ''SHELL'' of Some s \<Rightarrow> s | None \<Rightarrow> ''/bin/sh'')"

definition shell_of :: "(string \<Rightarrow> string option) \<Rightarrow> open_spec \<Rightarrow> string" where
  "shell_of var spec = (case os_shell spec of Some s \<Rightarrow> s | None \<Rightarrow> default_shell var)"

definition pane_command :: "(string \<Rightarrow> string option) \<Rightarrow> open_spec \<Rightarrow> pane_id \<Rightarrow> command" where
  "pane_command var spec i =
     \<lparr>cb_program = shell_of var spec, cb_cwd = os_cwd spec,
      cb_env = [(''TERM'', case var ''TERM'' of Some t \<Rightarrow> t | None \<Rightarrow> ''xterm-256color''),
                (''TEPEGOZ_PANE_ID'', show_nat (unat i))] @ os_env spec\<rparr>"

record pty_os =
  po_var :: "string \<Rightarrow> string option" \<comment> \<open>the daemon's environment\<close>
  po_openpty :: "u16 \<times> u16 \<Rightarrow> string option"
  po_spawn :: "command \<Rightarrow> string option"
  po_reader :: "string option"
  po_writer :: "string option"
  po_now :: u64
  po_reader_thread :: "string option"
  po_waiter_thread :: "string option"

text \<open>What is there when it ends: the child that was started, the reader and the waiter thread.\<close>

record started =
  st_child :: "command option"
  st_reader :: bool
  st_waiter :: bool

definition pane_open ::
  "pty_os \<Rightarrow> 'c \<Rightarrow> open_spec \<Rightarrow> pane_id \<Rightarrow> (string + 'c pane_sys) \<times> started" where
  "pane_open os tx spec i =
     (let cmd = pane_command (po_var os) spec i;
          got = (\<lambda>child reader waiter. \<lparr>st_child = child, st_reader = reader, st_waiter = waiter\<rparr>)
      in case po_openpty os (os_rows spec, os_cols spec) of
           Some e \<Rightarrow> (Inl e, got None False False)
         | None \<Rightarrow>
      (case po_spawn os cmd of
           Some e \<Rightarrow> (Inl e, got None False False)
         | None \<Rightarrow>
      (case po_reader os of
           Some e \<Rightarrow> (Inl e, got (Some cmd) False False)
         | None \<Rightarrow>
      (case po_writer os of
           Some e \<Rightarrow> (Inl e, got (Some cmd) False False)
         | None \<Rightarrow>
      (case po_reader_thread os of
           Some e \<Rightarrow> (Inl (''spawn reader thread: '' @ e), got (Some cmd) False False)
         | None \<Rightarrow>
      (case po_waiter_thread os of
           Some e \<Rightarrow> (Inl (''spawn waiter thread: '' @ e), got (Some cmd) True False)
         | None \<Rightarrow>
             (Inr (pane_sys_new tx i (po_now os) (shell_of (po_var os) spec) (os_rows spec, os_cols spec)),
              got (Some cmd) True True)))))))"

text \<open>What a session's \<open>world\<close> asks for when a local pane is opened.\<close>

definition open_local :: "pty_os \<Rightarrow> 'c \<Rightarrow> open_pane_spec \<Rightarrow> pane_id \<Rightarrow> string + 'c pane" where
  "open_local os tx spec i = map_sum id sy_pane (fst (pane_open os tx (open_spec_of spec) i))"

text \<open>\<open>Pane::send_input\<close>: the bytes, then a flush, which may fail by itself.\<close>

definition pane_send_input :: "codec_error option \<Rightarrow> u8 list \<Rightarrow> writer \<Rightarrow> (codec_error + unit) \<times> writer" where
  "pane_send_input flush_error data w =
     (case write_all data w of
        (Inl e, w1) \<Rightarrow> (Inl e, w1)
      | (Inr _, w1) \<Rightarrow> (case flush_error of Some e \<Rightarrow> (Inl e, w1) | None \<Rightarrow> (Inr (), w1)))"

text \<open>Whatever fails, what reached the terminal is a first part of the input, and all of it without an error.\<close>

lemma send_input_bytes:
  "pane_send_input flush_error data w = (r, w1) \<Longrightarrow>
     \<exists>n. wr_out w1 = wr_out w @ take n data \<and> (r = Inr () \<longrightarrow> take n data = data)"
  by (auto simp: pane_send_input_def write_all_def split: option.splits if_splits intro: exI [of _ "length data"])

definition manager_get :: "pane_id \<Rightarrow> 'p pty_manager \<Rightarrow> 'p option" where
  "manager_get i m = pm_panes m i"

definition manager_list :: "((pane_id \<rightharpoonup> 'c pane) \<Rightarrow> pane_id list) \<Rightarrow> 'c pane pty_manager \<Rightarrow> pane_info list" where
  "manager_list order m = map pane_info_of (List.map_filter (\<lambda>i. manager_get i m) (order (pm_panes m)))"

definition manager_count :: "'p pty_manager \<Rightarrow> nat" where
  "manager_count m = card (dom (pm_panes m))"

section \<open>A pane and its request\<close>

text \<open>
  What the code relies on in \<open>portable_pty\<close>: a child has the variables that were set for it
  (\<open>env command v\<close> is what \<open>std::env::var\<close> finds there).
\<close>

definition env_law :: "(command \<Rightarrow> string \<Rightarrow> string option) \<Rightarrow> bool" where
  "env_law env \<longleftrightarrow> (\<forall>c v x. map_of (rev (cb_env c)) v = Some x \<longrightarrow> env c v = Some x)"

lemma stamped:
  assumes "env_law env" "''TEPEGOZ_PANE_ID'' \<notin> ev_key ` set (ops_env spec)"
  shows "env (pane_command var (open_spec_of spec) i) ''TEPEGOZ_PANE_ID'' = Some (show_nat (unat i))"
proof -
  have "map_of (rev (map (\<lambda>e. (ev_key e, ev_value e)) (ops_env spec))) ''TEPEGOZ_PANE_ID'' = None"
    using assms(2) by (auto simp: map_of_eq_None_iff image_image)
  then have "map_of (rev (cb_env (pane_command var (open_spec_of spec) i))) ''TEPEGOZ_PANE_ID'' = Some (show_nat (unat i))"
    by (simp add: pane_command_def open_spec_of_def map_add_def)
  then show ?thesis using assms(1) unfolding env_law_def by blast
qed

lemma pane_open_ok:
  "pane_open os tx spec i = (Inr sys, got) \<Longrightarrow>
     sys = pane_sys_new tx i (po_now os) (shell_of (po_var os) spec) (os_rows spec, os_cols spec) \<and>
     got = \<lparr>st_child = Some (pane_command (po_var os) spec i), st_reader = True, st_waiter = True\<rparr>"
  by (auto simp: pane_open_def Let_def split: option.splits)

lemma pane_open_failed:
  "pane_open os tx spec i = (Inl e, got) \<Longrightarrow> \<not> st_waiter got"
  by (auto simp: pane_open_def Let_def split: option.splits)


definition small_pty_os :: pty_os where
  "small_pty_os = \<lparr>po_var = Map.empty, po_openpty = (\<lambda>_. None), po_spawn = (\<lambda>_. None), po_reader = None,
     po_writer = None, po_now = 5, po_reader_thread = None, po_waiter_thread = None\<rparr>"

definition small_request :: open_pane_spec where
  "small_request = \<lparr>ops_shell = None, ops_cwd = Some ''/srv'', ops_env = [], ops_rows = 24, ops_cols = 80,
     ops_target = PtLocal\<rparr>"

definition small_child_env :: "command \<Rightarrow> string \<Rightarrow> string option" where
  "small_child_env c v = map_of (rev (cb_env c)) v"

definition small_pane_world :: "unit world" where
  "small_pane_world = idle_world\<lparr>w_open_local := open_local small_pty_os ()\<rparr>"


end
