(* ===== verification/Terminal.thy ===== *)
theory Terminal
  imports Startup RustText
begin

text \<open>
  The terminal of the TUI (\<open>crates/tepegoz-tui/src/terminal.rs\<close>): raw mode, alternate screen, mouse reports and
  title are switched on before the event loop and back by a guard, around \<open>run_pane\<close> of \<open>session.rs\<close>. Each
  call may fail for a reason of its own and has no effect then. Also where the log file lies
  (\<open>tracing_setup.rs\<close>).
\<close>

record terminal =
  tm_raw :: bool
  tm_alternate :: bool
  tm_mouse :: bool
  tm_title :: string \<comment> \<open>empty: the terminal's own\<close>

datatype term_call =
  TcEnableRaw | TcEnterAlternate | TcEnableMouse | TcTitle string | TcFlush | TcDisableMouse | TcDisableRaw
| TcLeaveAlternate

fun term_effect :: "term_call \<Rightarrow> terminal \<Rightarrow> terminal" where
  "term_effect TcEnableRaw t = t\<lparr>tm_raw := True\<rparr>"
| "term_effect TcEnterAlternate t = t\<lparr>tm_alternate := True\<rparr>"
| "term_effect TcEnableMouse t = t\<lparr>tm_mouse := True\<rparr>"
| "term_effect (TcTitle s) t = t\<lparr>tm_title := s\<rparr>"
| "term_effect TcFlush t = t"
| "term_effect TcDisableMouse t = t\<lparr>tm_mouse := False\<rparr>"
| "term_effect TcDisableRaw t = t\<lparr>tm_raw := False\<rparr>"
| "term_effect TcLeaveAlternate t = t\<lparr>tm_alternate := False\<rparr>"

text \<open>With \<open>?\<close>: the first call that fails ends the list. With \<open>let _ =\<close>: failures are passed over.\<close>

fun try_calls :: "(term_call \<Rightarrow> string option) \<Rightarrow> term_call list \<Rightarrow> terminal \<Rightarrow> (string + unit) \<times> terminal" where
  "try_calls fails [] t = (Inr (), t)"
| "try_calls fails (c # cs) t =
     (case fails c of Some e \<Rightarrow> (Inl e, t) | None \<Rightarrow> try_calls fails cs (term_effect c t))"

definition ignore_failure :: "(term_call \<Rightarrow> string option) \<Rightarrow> term_call \<Rightarrow> terminal \<Rightarrow> terminal" where
  "ignore_failure fails c t = (if fails c = None then term_effect c t else t)"

definition enter_raw :: "(term_call \<Rightarrow> string option) \<Rightarrow> string \<Rightarrow> terminal \<Rightarrow> (string + unit) \<times> terminal" where
  "enter_raw fails title t =
     (case try_calls fails [TcEnableRaw, TcEnterAlternate, TcEnableMouse] t of
        (Inl e, t1) \<Rightarrow> (Inl e, t1)
      | (Inr _, t1) \<Rightarrow> (Inr (), fold (ignore_failure fails) [TcTitle title, TcFlush] t1))"

definition drop_guard :: "(term_call \<Rightarrow> string option) \<Rightarrow> terminal \<Rightarrow> terminal" where
  "drop_guard fails t =
     fold (ignore_failure fails) [TcTitle [], TcFlush, TcDisableMouse, TcDisableRaw, TcLeaveAlternate] t"

definition pane_title :: "pane_id \<Rightarrow> string" where
  "pane_title i = ''tepegoz '' @ [CHR 0xC2, CHR 0xB7] @ '' god view (pane '' @ show_nat (unat i) @ '')''"

text \<open>
  \<open>run_with_initial_target\<close> from \<open>enter_raw\<close> on: what \<open>run_pane\<close> does stands between the two; the guard is
  dropped when it returns, early or not, and when it panics. \<open>fails\<close> and \<open>fails'\<close> are the failures at either time.
\<close>

definition run_on_terminal ::
  "(term_call \<Rightarrow> string option) \<Rightarrow> (term_call \<Rightarrow> string option) \<Rightarrow> 'p rt \<Rightarrow> host \<Rightarrow> io \<Rightarrow>
     (instant \<times> io \<times> runtime_input) list \<Rightarrow> pane_info \<Rightarrow> u16 \<times> u16 \<Rightarrow> terminal \<Rightarrow>
     (panic + (run_error + envelope list \<times> (bool \<times> string) option)) \<times> terminal" where
  "run_on_terminal fails fails' rt ho io turns info dims t =
     (case enter_raw fails (pane_title (pi_id info)) t of
        (Inl e, t1) \<Rightarrow> (run_pane rt (ho\<lparr>ho_raw := Some e\<rparr>) io turns info dims, t1)
      | (Inr _, t1) \<Rightarrow> (run_pane rt (ho\<lparr>ho_raw := None\<rparr>) io turns info dims, drop_guard fails' t1))"

text \<open>Where the log goes.\<close>

definition resolve_log_path :: "(string \<Rightarrow> string option) \<Rightarrow> string" where
  "resolve_log_path var_os =
     (case var_os ''TEPEGOZ_LOG_FILE'' of
        Some p \<Rightarrow> p
      | None \<Rightarrow>
          (let base = (case var_os ''XDG_CACHE_HOME'' of
                         Some d \<Rightarrow> d
                       | None \<Rightarrow> (case var_os ''HOME'' of Some h \<Rightarrow> path_join h ''.cache'' | None \<Rightarrow> ''/tmp''))
           in path_join (path_join base ''tepegoz'') ''tui.log''))"

section \<open>The terminal is given back\<close>

definition plain_terminal :: terminal where
  "plain_terminal = \<lparr>tm_raw = False, tm_alternate = False, tm_mouse = False, tm_title = []\<rparr>"

lemma drop_guard_fields:
  "tm_raw (drop_guard f t) = (tm_raw t \<and> f TcDisableRaw \<noteq> None)"
  "tm_alternate (drop_guard f t) = (tm_alternate t \<and> f TcLeaveAlternate \<noteq> None)"
  "tm_mouse (drop_guard f t) = (tm_mouse t \<and> f TcDisableMouse \<noteq> None)"
  "tm_title (drop_guard f t) = (if f (TcTitle []) = None then [] else tm_title t)"
  by (simp_all add: drop_guard_def ignore_failure_def)

lemma failed_entry:
  "try_calls f [TcEnableRaw, TcEnterAlternate, TcEnableMouse] plain_terminal = (Inl e, t) \<Longrightarrow>
     (tm_raw t \<longleftrightarrow> f TcEnableRaw = None) \<and>
     (tm_alternate t \<longleftrightarrow> f TcEnableRaw = None \<and> f TcEnterAlternate = None) \<and> \<not> tm_mouse t"
  by (auto simp: plain_terminal_def split: option.splits)

text \<open>
  C20. Once raw mode has been entered, the shell gets its terminal back however the TUI ends: by a key, by the
  daemon, by an error of its own or by a panic. A call of the guard that fails keeps none of the
  others from being made, so each mode is off for which the guard's own call went through. It does not
  hold for a start that fails half way: there is no guard yet, and raw mode stays on.
\<close>

theorem terminal_given_back:
  assumes "run_on_terminal fails fails' rt ho io turns info dims plain_terminal = (r, t)"
  shows "case try_calls fails [TcEnableRaw, TcEnterAlternate, TcEnableMouse] plain_terminal of
      (Inr _, _) \<Rightarrow>
        (tm_raw t \<longrightarrow> fails' TcDisableRaw \<noteq> None) \<and> (tm_alternate t \<longrightarrow> fails' TcLeaveAlternate \<noteq> None) \<and>
        (tm_mouse t \<longrightarrow> fails' TcDisableMouse \<noteq> None) \<and> (tm_title t \<noteq> [] \<longrightarrow> fails' (TcTitle []) \<noteq> None)
    | (Inl e, _) \<Rightarrow>
        r = Inr (Inl (ReIo e)) \<and> (tm_raw t \<longleftrightarrow> fails TcEnableRaw = None) \<and>
        (tm_alternate t \<longleftrightarrow> fails TcEnableRaw = None \<and> fails TcEnterAlternate = None) \<and> \<not> tm_mouse t"
proof (cases "try_calls fails [TcEnableRaw, TcEnterAlternate, TcEnableMouse] plain_terminal")
  case (Pair q t1)
  show ?thesis
  proof (cases q)
    case (Inl e)
    with Pair assms have "t = t1" "r = Inr (Inl (ReIo e))"
      by (simp_all add: run_on_terminal_def enter_raw_def run_pane_def)
    with Pair Inl failed_entry show ?thesis by simp
  next
    case (Inr u)
    with Pair assms obtain t2 where "t = drop_guard fails' t2"
      by (auto simp: run_on_terminal_def enter_raw_def simp del: try_calls.simps)
    with Pair Inr show ?thesis by (simp add: drop_guard_fields del: try_calls.simps)
  qed
qed

theorem terminal_given_back_witness:
  "\<forall>(rt :: unit rt) ho io turns info dims.
     tm_raw (snd (run_on_terminal (\<lambda>c. if c = TcEnterAlternate then Some ''broken'' else None) (\<lambda>_. None)
       rt ho io turns info dims plain_terminal)) \<and>
     \<not> tm_raw (snd (run_on_terminal (\<lambda>_. None) (\<lambda>_. None) rt ho io turns info dims plain_terminal))"
proof (intro allI)
  fix rt :: "unit rt" and ho io turns info dims
  let ?run = "\<lambda>f. run_on_terminal f (\<lambda>_. None) rt ho io turns info dims plain_terminal"
  let ?f = "\<lambda>c. if c = TcEnterAlternate then Some ''broken'' else None"
  have "run_on_terminal f (\<lambda>_. None) rt ho io turns info dims plain_terminal = (fst (?run f), snd (?run f))" for f
    by simp
  from terminal_given_back [OF this, of ?f] terminal_given_back [OF this, of "\<lambda>_. None"]
  show "tm_raw (snd (?run ?f)) \<and> \<not> tm_raw (snd (?run (\<lambda>_. None)))" by simp
qed

end
