(* ===== verification/Machine.thy ===== *)
theory Machine
  imports Docker Daemon
begin

text \<open>
  The machine that the build scripts and the \<open>xtask\<close> runners work on: its files, the programs they start, the
  texts they print, and errors as \<open>anyhow\<close> carries them, a chain of contexts with the cause at its end.
  What programs do is not under \<open>src/\<close>: the record \<open>platform\<close> holds it, next to the environment and the
  reasons of their own that calls fail for. File modes and symbolic links are left out.
\<close>

section \<open>State\<close>

datatype file_entry = FeDir | FeFile "u8 list"

type_synonym file_tree = "string \<rightharpoonup> file_entry"

text \<open>A program that is started: its command line, the directory, the variables set for it.\<close>

record invocation =
  iv_argv :: "string list"
  iv_dir :: "string option"
  iv_env :: "(string \<times> string) list"

datatype script_call =
  ClRun invocation | ClSpawn invocation | ClMakeDirs string | ClCopy string string | ClWrite string "u8 list"
| ClRead string | ClRemoveAll string | ClKill nat | ClConnect nat | ClSleep nat

record 'w machine =
  mc_files :: file_tree
  mc_world :: 'w \<comment> \<open>what else programs act on\<close>
  mc_calls :: "script_call list"
  mc_out :: "string list"

text \<open>\<open>std::io::Error\<close>: whether its kind is \<open>NotFound\<close>, and its text.\<close>

record io_error =
  ioe_not_found :: bool
  ioe_text :: string

record process_out =
  px_success :: bool
  px_status :: string \<comment> \<open>how the status is printed\<close>
  px_stdout :: "u8 list"
  px_stderr :: "u8 list"

record 'w platform =
  pl_linux :: bool
  pl_macos :: bool
  pl_cwd :: "io_error + string"
  pl_var :: "string \<Rightarrow> string option"
  pl_run :: "invocation \<Rightarrow> file_tree \<times> 'w \<Rightarrow> (io_error + process_out) \<times> file_tree \<times> 'w"
  pl_spawn :: "invocation \<Rightarrow> file_tree \<times> 'w \<Rightarrow> (io_error + nat) \<times> file_tree \<times> 'w" \<comment> \<open>the id of a child that runs on\<close>
  pl_kill :: "nat \<Rightarrow> file_tree \<times> 'w \<Rightarrow> file_tree \<times> 'w"
  pl_connects :: "nat \<Rightarrow> 'w \<Rightarrow> bool" \<comment> \<open>whether the port of this machine accepts\<close>
  pl_sleep :: "nat \<Rightarrow> file_tree \<times> 'w \<Rightarrow> file_tree \<times> 'w" \<comment> \<open>what happens in so many milliseconds\<close>
  pl_fail :: "script_call list \<Rightarrow> script_call \<Rightarrow> io_error option" \<comment> \<open>a reason of its own, by the calls before\<close>
  pl_torn :: "script_call list \<Rightarrow> nat option" \<comment> \<open>bytes that a failing write got out, if it opened the file\<close>
  pl_kept :: "script_call list \<Rightarrow> string \<Rightarrow> bool" \<comment> \<open>what a removal that fails has not removed yet\<close>
  pl_unix_secs :: "script_call list \<Rightarrow> nat"

section \<open>Scripts\<close>

type_synonym ('w, 'a) script = "'w machine \<Rightarrow> (string list + 'a) \<times> 'w machine"
type_synonym ('w, 'a) io_call = "'w machine \<Rightarrow> (io_error + 'a) \<times> 'w machine"

definition sc_return :: "'a \<Rightarrow> ('w, 'a) script" where "sc_return x m = (Inr x, m)"

definition bail :: "string \<Rightarrow> ('w, 'a) script" where "bail e m = (Inl [e], m)"

definition sc_bind :: "('w, 'a) script \<Rightarrow> ('a \<Rightarrow> ('w, 'b) script) \<Rightarrow> ('w, 'b) script" where
  "sc_bind s f m = (case s m of (Inl e, m1) \<Rightarrow> (Inl e, m1) | (Inr x, m1) \<Rightarrow> f x m1)"

definition sc_then :: "('w, 'a) script \<Rightarrow> ('w, 'b) script \<Rightarrow> ('w, 'b) script" where
  "sc_then s t = sc_bind s (\<lambda>_. t)"

definition with_context :: "string \<Rightarrow> ('w, 'a) script \<Rightarrow> ('w, 'a) script" where
  "with_context c s m = (case s m of (Inl e, m1) \<Rightarrow> (Inl (c # e), m1) | (Inr x, m1) \<Rightarrow> (Inr x, m1))"

text \<open>A call whose error is passed on, and one whose result is looked at.\<close>

definition attempt :: "('w, 'a) io_call \<Rightarrow> ('w, 'a) script" where
  "attempt c m = (case c m of (Inl e, m1) \<Rightarrow> (Inl [ioe_text e], m1) | (Inr x, m1) \<Rightarrow> (Inr x, m1))"

definition result_of :: "('w, 'a) io_call \<Rightarrow> ('w, io_error + 'a) script" where
  "result_of c m = (case c m of (r, m1) \<Rightarrow> (Inr r, m1))"

definition say :: "string \<Rightarrow> ('w, unit) script" where
  "say l m = (Inr (), m\<lparr>mc_out := mc_out m @ [l]\<rparr>)"

fun for_each :: "('a \<Rightarrow> ('w, unit) script) \<Rightarrow> 'a list \<Rightarrow> ('w, unit) script" where
  "for_each f [] = sc_return ()"
| "for_each f (x # xs) = sc_then (f x) (for_each f xs)"

lemma sc_bind_Inr: "sc_bind s f m = (Inr y, m2) \<longleftrightarrow> (\<exists>x m1. s m = (Inr x, m1) \<and> f x m1 = (Inr y, m2))"
  by (auto simp: sc_bind_def split: prod.splits sum.splits)

lemma sc_then_Inr: "sc_then s t m = (Inr y, m2) \<longleftrightarrow> (\<exists>x m1. s m = (Inr x, m1) \<and> t m1 = (Inr y, m2))"
  by (simp add: sc_then_def sc_bind_Inr)

lemma with_context_Inr: "with_context c s m = (Inr y, m2) \<longleftrightarrow> s m = (Inr y, m2)"
  by (auto simp: with_context_def split: prod.splits sum.splits)

lemma attempt_Inr: "attempt c m = (Inr y, m2) \<longleftrightarrow> c m = (Inr y, m2)"
  by (auto simp: attempt_def split: prod.splits sum.splits)

lemma bail_Inr [simp]: "\<not> bail e m = (Inr y, m2)"
  by (simp add: bail_def)

lemma sc_return_Inr: "sc_return x m = (Inr y, m2) \<longleftrightarrow> y = x \<and> m2 = m"
  by (auto simp: sc_return_def)

lemma say_Inr: "say l m = (r, m2) \<Longrightarrow> mc_files m2 = mc_files m \<and> mc_world m2 = mc_world m \<and> mc_calls m2 = mc_calls m"
  by (auto simp: say_def)

lemma sc_then_say: "sc_then (say l) s m = s (m\<lparr>mc_out := mc_out m @ [l]\<rparr>)"
  by (simp add: sc_then_def sc_bind_def say_def)

lemma sc_then_fw: "s m = (Inr x, m1) \<Longrightarrow> sc_then s t m = t m1"
  by (simp add: sc_then_def sc_bind_def)

lemma sc_bind_fw: "s m = (Inr x, m1) \<Longrightarrow> sc_bind s f m = f x m1"
  by (simp add: sc_bind_def)

lemma attempt_fw: "c m = (Inr x, m1) \<Longrightarrow> with_context e (attempt c) m = (Inr x, m1)"
  by (simp add: with_context_def attempt_def)

lemma say_fw: "\<exists>m1. say l m = (Inr (), m1) \<and> mc_files m1 = mc_files m"
  by (simp add: say_def)

lemmas script_Inr = sc_bind_Inr sc_then_Inr with_context_Inr attempt_Inr sc_return_Inr

section \<open>Calls\<close>

definition not_there :: io_error where
  "not_there = \<lparr>ioe_not_found = True, ioe_text = no_such_file\<rparr>"

definition other_error :: "string \<Rightarrow> io_error" where
  "other_error t = \<lparr>ioe_not_found = False, ioe_text = t\<rparr>"

text \<open>A call is noted; it may fail for a reason of its own, or does what \<open>act\<close> says.\<close>

definition machine_call ::
  "'w platform \<Rightarrow> script_call \<Rightarrow> ('w machine \<Rightarrow> 'w machine) \<Rightarrow> ('w, 'a) io_call \<Rightarrow> ('w, 'a) io_call" where
  "machine_call pl c torn act m =
     (let m1 = m\<lparr>mc_calls := mc_calls m @ [c]\<rparr>
      in case pl_fail pl (mc_calls m) c of Some e \<Rightarrow> (Inl e, torn m1) | None \<Rightarrow> act m1)"

definition file_exists_at :: "string \<Rightarrow> 'w machine \<Rightarrow> bool" where
  "file_exists_at p m \<longleftrightarrow> mc_files m p \<noteq> None"

definition exists_path :: "string \<Rightarrow> ('w, bool) script" where
  "exists_path p m = (Inr (file_exists_at p m), m)"

fun is_file_dir :: "file_entry option \<Rightarrow> bool" where
  "is_file_dir (Some (FeFile bs)) = False"
| "is_file_dir _ = True"

definition put_file :: "string \<Rightarrow> u8 list \<Rightarrow> 'w machine \<Rightarrow> 'w machine" where
  "put_file p bs m = m\<lparr>mc_files := (mc_files m)(p \<mapsto> FeFile bs)\<rparr>"

text \<open>What a write that fails half way leaves.\<close>

definition torn_file :: "'w platform \<Rightarrow> string \<Rightarrow> u8 list \<Rightarrow> 'w machine \<Rightarrow> 'w machine" where
  "torn_file pl p bs m =
     (case pl_torn pl (mc_calls m) of None \<Rightarrow> m | Some n \<Rightarrow> put_file p (take n bs) m)"

definition write_bytes :: "string \<Rightarrow> u8 list \<Rightarrow> ('w, unit) io_call" where
  "write_bytes p bs m =
     (if mc_files m p = Some FeDir then (Inl (other_error ''Is a directory (os error 21)''), m)
      else case path_parent p of
        None \<Rightarrow> (Inl not_there, m)
      | Some d \<Rightarrow>
          if d = [] \<or> mc_files m d = Some FeDir then (Inr (), put_file p bs m)
          else if mc_files m d = None then (Inl not_there, m)
          else (Inl (other_error ''Not a directory (os error 20)''), m))"

definition fs_write :: "'w platform \<Rightarrow> string \<Rightarrow> u8 list \<Rightarrow> ('w, unit) io_call" where
  "fs_write pl p bs = machine_call pl (ClWrite p bs) (torn_file pl p bs) (write_bytes p bs)"

definition fs_copy :: "'w platform \<Rightarrow> string \<Rightarrow> string \<Rightarrow> ('w, unit) io_call" where
  "fs_copy pl p q m =
     machine_call pl (ClCopy p q)
       (case mc_files m p of Some (FeFile bs) \<Rightarrow> torn_file pl q bs | _ \<Rightarrow> id)
       (\<lambda>m1. case mc_files m1 p of
           None \<Rightarrow> (Inl not_there, m1)
         | Some FeDir \<Rightarrow> (Inl (other_error ''the source path is neither a regular file nor a symlink to a regular file''), m1)
         | Some (FeFile bs) \<Rightarrow> write_bytes q bs m1) m"

definition fs_read :: "'w platform \<Rightarrow> string \<Rightarrow> ('w, u8 list) io_call" where
  "fs_read pl p = machine_call pl (ClRead p) id (\<lambda>m.
     (case mc_files m p of
        None \<Rightarrow> Inl not_there
      | Some FeDir \<Rightarrow> Inl (other_error ''Is a directory (os error 21)'')
      | Some (FeFile bs) \<Rightarrow> Inr bs, m))"

definition fs_read_to_string :: "'w platform \<Rightarrow> string \<Rightarrow> ('w, string) io_call" where
  "fs_read_to_string pl p m =
     (case fs_read pl p m of
        (Inl e, m1) \<Rightarrow> (Inl e, m1)
      | (Inr bs, m1) \<Rightarrow>
          (case from_utf8 bs of
             Some s \<Rightarrow> (Inr s, m1)
           | None \<Rightarrow> (Inl (other_error ''stream did not contain valid UTF-8''), m1)))"

definition fs_create_dir_all :: "'w platform \<Rightarrow> string \<Rightarrow> ('w, unit) io_call" where
  "fs_create_dir_all pl p = machine_call pl (ClMakeDirs p) id (\<lambda>m.
     case mc_files m p of
       Some FeDir \<Rightarrow> (Inr (), m)
     | Some _ \<Rightarrow> (Inl (other_error file_exists), m)
     | None \<Rightarrow>
         if p = [] then (Inr (), m)
         else if list_ex (\<lambda>q. \<not> is_file_dir (mc_files m q)) (ancestors p)
         then (Inl (other_error ''Not a directory (os error 20)''), m)
         else (Inr (), m\<lparr>mc_files := (\<lambda>q. if q \<in> set (p # ancestors p) \<and> mc_files m q = None then Some FeDir
                                     else mc_files m q)\<rparr>))"

text \<open>Everything at the path and below it.\<close>

definition below_path :: "string \<Rightarrow> string \<Rightarrow> bool" where
  "below_path p q \<longleftrightarrow> q = p \<or> p \<in> set (ancestors q)"

definition fs_remove_dir_all :: "'w platform \<Rightarrow> string \<Rightarrow> ('w, unit) io_call" where
  "fs_remove_dir_all pl p = machine_call pl (ClRemoveAll p)
     (\<lambda>m. m\<lparr>mc_files := (\<lambda>q. if below_path p q \<and> \<not> pl_kept pl (mc_calls m) q then None else mc_files m q)\<rparr>)
     (\<lambda>m.
     case mc_files m p of
       None \<Rightarrow> (Inl not_there, m)
     | Some (FeFile _) \<Rightarrow> (Inl (other_error ''Not a directory (os error 20)''), m)
     | Some FeDir \<Rightarrow> (Inr (), m\<lparr>mc_files := (\<lambda>q. if below_path p q then None else mc_files m q)\<rparr>))"

text \<open>The size a file is reported with; 0 when it cannot be read.\<close>

definition file_size :: "string \<Rightarrow> 'w machine \<Rightarrow> nat" where
  "file_size p m = (case mc_files m p of Some (FeFile bs) \<Rightarrow> length bs | _ \<Rightarrow> 0)"

definition in_world :: "file_tree \<times> 'w \<Rightarrow> 'w machine \<Rightarrow> 'w machine" where
  "in_world fw m = m\<lparr>mc_files := fst fw, mc_world := snd fw\<rparr>"

definition run_program :: "'w platform \<Rightarrow> invocation \<Rightarrow> ('w, process_out) io_call" where
  "run_program pl iv m =
     (case pl_run pl iv (mc_files m, mc_world m) of
        (r, fw) \<Rightarrow> (r, in_world fw (m\<lparr>mc_calls := mc_calls m @ [ClRun iv]\<rparr>)))"

definition invoke :: "string list \<Rightarrow> invocation" where
  "invoke argv = \<lparr>iv_argv = argv, iv_dir = None, iv_env = []\<rparr>"

definition ends_with :: "string \<Rightarrow> string \<Rightarrow> bool" where
  "ends_with s q \<longleftrightarrow> drop (length s - length q) s = q"

definition ellipsis :: string where "ellipsis = [CHR 0xE2, CHR 0x80, CHR 0xA6]"
definition right_arrow :: string where "right_arrow = [CHR 0xE2, CHR 0x86, CHR 0x92]"
definition times_sign :: string where "times_sign = [CHR 0xC3, CHR 0x97]"
definition newline :: string where "newline = [CHR 0x0A]"

section \<open>What calls leave\<close>

lemma machine_call_Inr:
  "machine_call pl c torn act m = (Inr x, m') \<Longrightarrow> act (m\<lparr>mc_calls := mc_calls m @ [c]\<rparr>) = (Inr x, m')"
  by (auto simp: machine_call_def Let_def split: option.splits)

lemma write_bytes_Inr: "write_bytes p bs m = (Inr u, m') \<Longrightarrow> m' = put_file p bs m"
  by (auto simp: write_bytes_def split: option.splits if_splits)

lemma fs_write_Inr: "fs_write pl p bs m = (Inr u, m') \<Longrightarrow> mc_files m' = (mc_files m)(p \<mapsto> FeFile bs)"
  unfolding fs_write_def by (drule machine_call_Inr, drule write_bytes_Inr) (simp add: put_file_def)

lemma fs_write_other: "fs_write pl p bs m = (r, m') \<Longrightarrow> q \<noteq> p \<Longrightarrow> mc_files m' q = mc_files m q"
  by (auto simp: fs_write_def machine_call_def Let_def torn_file_def put_file_def write_bytes_def
      split: option.splits if_splits)

lemma fs_copy_Inr:
  assumes "fs_copy pl p q m = (Inr u, m')"
  obtains bs where "mc_files m p = Some (FeFile bs)" "mc_files m' = (mc_files m)(q \<mapsto> FeFile bs)"
  using assms machine_call_Inr [of pl _ _ _ m u m'] unfolding fs_copy_def
  by (fastforce simp: put_file_def dest!: machine_call_Inr write_bytes_Inr split: option.splits file_entry.splits)

lemma fs_read_Inr:
  "fs_read pl p m = (Inr bs, m') \<Longrightarrow> mc_files m p = Some (FeFile bs) \<and> mc_files m' = mc_files m"
  unfolding fs_read_def by (drule machine_call_Inr) (auto split: option.splits file_entry.splits)

lemma fs_read_to_string_Inr:
  "fs_read_to_string pl p m = (Inr s, m') \<Longrightarrow>
     \<exists>bs. mc_files m p = Some (FeFile bs) \<and> from_utf8 bs = Some s \<and> mc_files m' = mc_files m"
  by (auto simp: fs_read_to_string_def dest: fs_read_Inr split: prod.splits sum.splits option.splits)

lemma fs_read_files: "mc_files (snd (fs_read pl p m)) = mc_files m"
  by (simp add: fs_read_def machine_call_def Let_def split: option.splits)

lemma fs_read_to_string_files: "fs_read_to_string pl p m = (r, m') \<Longrightarrow> mc_files m' = mc_files m"
  using fs_read_files [of pl p m]
  by (auto simp: fs_read_to_string_def split: prod.splits sum.splits option.splits)

text \<open>New directories, and nothing that was there is lost.\<close>

definition dirs_added :: "file_tree \<Rightarrow> file_tree \<Rightarrow> bool" where
  "dirs_added fs fs' \<longleftrightarrow> (\<forall>p. fs' p = fs p \<or> fs p = None \<and> fs' p = Some FeDir)"

lemma fs_create_dir_all_Inr:
  "fs_create_dir_all pl p m = (Inr u, m') \<Longrightarrow> dirs_added (mc_files m) (mc_files m')"
  unfolding fs_create_dir_all_def
  by (drule machine_call_Inr) (auto simp: dirs_added_def split: option.splits file_entry.splits if_splits)

lemma dirs_added_Some: "dirs_added fs fs' \<Longrightarrow> fs p = Some x \<Longrightarrow> fs' p = Some x"
  unfolding dirs_added_def by (metis option.distinct(1))

lemma dirs_added_File: "dirs_added fs fs' \<Longrightarrow> fs' p = Some (FeFile bs) \<longleftrightarrow> fs p = Some (FeFile bs)"
  unfolding dirs_added_def by (metis file_entry.distinct(1) option.distinct(1) option.inject)

lemma run_program_Inr:
  assumes "run_program pl iv m = (Inr out, m')"
  obtains w where "pl_run pl iv (mc_files m, mc_world m) = (Inr out, mc_files m', w)"
  using assms by (auto simp: run_program_def in_world_def split: prod.splits)

lemma for_each_Inr:
  assumes "for_each f xs m = (Inr u, m')"
    and "\<And>x v m1 m2. x \<in> set xs \<Longrightarrow> f x m1 = (Inr v, m2) \<Longrightarrow> P m1 \<Longrightarrow> P m2" "P m"
  shows "P m'"
  using assms
proof (induction xs arbitrary: m)
  case Nil
  then show ?case by (simp add: sc_return_def)
next
  case (Cons x xs)
  from Cons.prems(1) obtain v m1 where s: "f x m = (Inr v, m1)" "for_each f xs m1 = (Inr u, m')"
    by (auto simp: sc_then_Inr)
  then have "P m1" using Cons.prems(2,3) by (meson list.set_intros(1))
  then show ?case using Cons.IH [OF s(2)] Cons.prems(2) by (meson list.set_intros(2))
qed

section \<open>Paths of plain names\<close>

definition slashed :: "string \<Rightarrow> string" where
  "slashed p = (if last p = CHR ''/'' then p else p @ ''/'')"

definition plain_name :: "string \<Rightarrow> bool" where
  "plain_name q \<longleftrightarrow> q \<noteq> [] \<and> hd q \<noteq> CHR ''/'' \<and> last q \<noteq> CHR ''/''"

lemma path_join_plain: "p \<noteq> [] \<Longrightarrow> plain_name q \<Longrightarrow> path_join p q = slashed p @ q"
  by (cases q) (auto simp: path_join_def slashed_def plain_name_def starts_with_def)

lemma slashed_ne [simp]: "p \<noteq> [] \<Longrightarrow> slashed p \<noteq> []"
  by (simp add: slashed_def)

lemma slashed_append: "plain_name q \<Longrightarrow> slashed (p @ q) = p @ q @ ''/''"
  by (auto simp: slashed_def plain_name_def)

end
