(* ===== verification/Preflight.thy ===== *)
theory Preflight
  imports Machine
begin

text \<open>
  The checks in front of a cross-build (\<open>xtask/src/preflight.rs\<close>). They only start programs that tell what is
  installed.
\<close>

definition RELEASE_TARGETS :: "string list" where
  "RELEASE_TARGETS =
     [''x86_64-apple-darwin'', ''aarch64-apple-darwin'', ''x86_64-unknown-linux-musl'', ''aarch64-unknown-linux-musl'']"

definition ensure_on_path :: "'w platform \<Rightarrow> string \<Rightarrow> string \<Rightarrow> ('w, unit) script" where
  "ensure_on_path pl binary hint =
     sc_bind (result_of (run_program pl (invoke [binary, ''--version'']))) (\<lambda>r.
       case r of
         Inr _ \<Rightarrow> sc_return ()
       | Inl e \<Rightarrow>
           if ioe_not_found e then bail (backquote binary @ '' not found on PATH. '' @ hint)
           else bail (''failed to probe '' @ backquote binary @ '': '' @ ioe_text e @ ''. '' @ hint))"

definition is_on_path :: "'w platform \<Rightarrow> string \<Rightarrow> ('w, bool) script" where
  "is_on_path pl binary =
     sc_bind (result_of (run_program pl (invoke [binary, ''--version''])))
       (\<lambda>r. sc_return (case r of Inr _ \<Rightarrow> True | Inl _ \<Rightarrow> False))"

definition rustup_has_target :: "'w platform \<Rightarrow> string \<Rightarrow> ('w, bool) script" where
  "rustup_has_target pl target =
     sc_bind (result_of (run_program pl (invoke [''rustup'', ''target'', ''list'', ''--installed'']))) (\<lambda>r.
       sc_return (case r of
         Inr out \<Rightarrow> px_success out \<and> list_ex (\<lambda>l. trim l = target) (str_lines (from_utf8_lossy (px_stdout out)))
       | Inl _ \<Rightarrow> False))"

fun missing_targets :: "'w platform \<Rightarrow> string list \<Rightarrow> ('w, string list) script" where
  "missing_targets pl [] = sc_return []"
| "missing_targets pl (t # ts) =
     sc_bind (rustup_has_target pl t) (\<lambda>has.
     sc_bind (missing_targets pl ts) (\<lambda>rest. sc_return (if has then rest else t # rest)))"

definition forbidden_text :: "string list \<Rightarrow> string" where
  "forbidden_text forbidden =
     ''R1 preflight: cross-compiling to darwin from a Linux host is not supported '' @
     ''(needs a macOS SDK shim we don'' @ [CHR 0x27] @ ''t ship). Use a macOS host for darwin targets.'' @ newline @
     ''Forbidden on this host: '' @ str_join '', '' forbidden"

definition missing_summary :: "string list \<Rightarrow> bool \<Rightarrow> string" where
  "missing_summary missing zigbuild_missing =
     (if missing = [] then []
      else newline @ ''  - rustup targets (std-lib): '' @ str_join '', '' missing) @
     (if zigbuild_missing
      then newline @ ''  - cargo-zigbuild (linker; covers both musl and darwin via zig'' @ [CHR 0x27] @ ''s cross-toolchain)''
      else [])"

definition install_lines :: "bool \<Rightarrow> string list \<Rightarrow> bool \<Rightarrow> string list" where
  "install_lines macos missing zigbuild_missing =
     (if missing = [] then [] else [''rustup target add '' @ str_join '' '' missing]) @
     (if zigbuild_missing
      then [''cargo install --locked cargo-zigbuild'',
            if macos then ''brew install zig''
            else ''# then install zig via your package manager (apt/dnf/pacman)'']
      else [])"

definition toolchain_text :: "bool \<Rightarrow> string list \<Rightarrow> bool \<Rightarrow> string" where
  "toolchain_text macos missing zigbuild_missing =
     ''cross-compile preflight failed. Missing on this host:'' @ missing_summary missing zigbuild_missing @ newline @
     newline @ ''Install:'' @ newline @ ''  '' @
     str_join (newline @ ''  && '') (install_lines macos missing zigbuild_missing) @ newline @
     newline @ ''Then re-run.''"

definition is_darwin :: "string \<Rightarrow> bool" where
  "is_darwin t \<longleftrightarrow> ends_with t ''-apple-darwin''"

definition check_cross_build_toolchain :: "'w platform \<Rightarrow> string list \<Rightarrow> ('w, unit) script" where
  "check_cross_build_toolchain pl targets =
     (if pl_linux pl \<and> filter is_darwin targets \<noteq> []
      then bail (forbidden_text (filter is_darwin targets))
      else
        sc_bind (missing_targets pl targets) (\<lambda>missing.
        sc_bind (is_on_path pl ''cargo-zigbuild'') (\<lambda>zigbuild.
          if missing = [] \<and> zigbuild then sc_return ()
          else bail (toolchain_text (pl_macos pl) missing (\<not> zigbuild)))))"

definition zig_text :: "string \<Rightarrow> string" where
  "zig_text version =
     ''zig '' @ version @ '' is incompatible with ring 0.17.14'' @ [CHR 0x27] @ ''s cross-build (llvm-ar 21 '' @
     ''regressed archive creation '' @ em_dash @ '' '' @ backquote ''ar cq libfoo.a foo.o'' @ '' no longer auto-creates '' @
     ''the output). Install zig 0.15 (0.14 also works but has a macOS 26 SDK-path '' @
     ''bug that can break darwin agent builds):'' @ newline @ newline @ ''  '' @
     ''brew install zig@0.15'' @ newline @ ''  '' @
     ''export PATH='' @ [CHR 0x22] @ ''/opt/homebrew/opt/zig@0.15/bin:$PATH'' @ [CHR 0x22] @ newline @ newline @
     ''Then re-run. (The agent cross-build isn'' @ [CHR 0x27] @ ''t affected because '' @ backquote ''tepegoz-agent'' @ '' '' @
     ''has no russh/ring dep '' @ em_dash @ '' this check only gates '' @ backquote ''build-release'' @ ''.)''"

definition check_zig_ring_compatibility :: "'w platform \<Rightarrow> ('w, unit) script" where
  "check_zig_ring_compatibility pl =
     sc_bind (result_of (run_program pl (invoke [''zig'', ''version'']))) (\<lambda>r.
       case r of
         Inr out \<Rightarrow>
           if px_success out then
             (let version = trim (from_utf8_lossy (px_stdout out))
              in if starts_with version ''0.14.'' \<or> starts_with version ''0.15.'' then sc_return ()
                 else bail (zig_text version))
           else sc_return ()
       | Inl _ \<Rightarrow> sc_return ())"

definition find_lipo :: "'w platform \<Rightarrow> ('w, string option) script" where
  "find_lipo pl =
     sc_bind (is_on_path pl ''lipo'') (\<lambda>lipo.
       if lipo then sc_return (Some ''lipo'')
       else sc_bind (is_on_path pl ''llvm-lipo'') (\<lambda>llvm. sc_return (if llvm then Some ''llvm-lipo'' else None)))"

section \<open>What the checks do\<close>

text \<open>The programs a check may start.\<close>

definition asks_only :: "script_call \<Rightarrow> bool" where
  "asks_only c \<longleftrightarrow> (\<exists>argv. c = ClRun (invoke argv) \<and>
     (argv = [''rustup'', ''target'', ''list'', ''--installed''] \<or> argv = [''zig'', ''version''] \<or>
      (\<exists>b. argv = [b, ''--version''])))"

definition only_asks :: "('w, 'a) script \<Rightarrow> bool" where
  "only_asks s \<longleftrightarrow> (\<forall>m. \<exists>cs. mc_calls (snd (s m)) = mc_calls m @ cs \<and> list_all asks_only cs \<and>
     mc_out (snd (s m)) = mc_out m)"

named_theorems asking

lemma asks_return [asking]: "only_asks (sc_return x)"
  by (simp add: only_asks_def sc_return_def)

lemma asks_bail [asking]: "only_asks (bail e)"
  by (simp add: only_asks_def bail_def)

lemma asks_bind [asking]:
  assumes "only_asks s" "\<And>x. only_asks (f x)"
  shows "only_asks (sc_bind s f)"
  unfolding only_asks_def
proof
  fix m
  obtain r m1 where s: "s m = (r, m1)" by fastforce
  then obtain cs where cs: "mc_calls m1 = mc_calls m @ cs" "list_all asks_only cs" "mc_out m1 = mc_out m"
    using assms(1) unfolding only_asks_def by (metis snd_conv)
  show "\<exists>cs. mc_calls (snd (sc_bind s f m)) = mc_calls m @ cs \<and> list_all asks_only cs \<and>
      mc_out (snd (sc_bind s f m)) = mc_out m"
  proof (cases r)
    case (Inl e)
    with s cs show ?thesis by (auto simp: sc_bind_def)
  next
    case (Inr x)
    obtain ds where "mc_calls (snd (f x m1)) = mc_calls m1 @ ds" "list_all asks_only ds" "mc_out (snd (f x m1)) = mc_out m1"
      using assms(2) unfolding only_asks_def by metis
    with s cs Inr show ?thesis by (auto simp: sc_bind_def intro!: exI [of _ "cs @ ds"])
  qed
qed

lemma asks_run:
  "asks_only (ClRun iv) \<Longrightarrow> only_asks (result_of (run_program pl iv))"
  by (auto simp: only_asks_def result_of_def run_program_def in_world_def split: prod.splits)

lemma asks_programs [asking]:
  "only_asks (result_of (run_program pl (invoke [b, ''--version''])))"
  "only_asks (result_of (run_program pl (invoke [''rustup'', ''target'', ''list'', ''--installed''])))"
  "only_asks (result_of (run_program pl (invoke [''zig'', ''version''])))"
  by (rule asks_run, unfold asks_only_def, blast)+

lemma asks_checks [asking]:
  "only_asks (ensure_on_path pl binary hint)" "only_asks (is_on_path pl binary)" "only_asks (rustup_has_target pl target)"
  "only_asks (check_zig_ring_compatibility pl)"
  by (auto simp: ensure_on_path_def is_on_path_def rustup_has_target_def check_zig_ring_compatibility_def Let_def
      intro!: asking split: sum.split)

lemma asks_lipo [asking]: "only_asks (find_lipo pl)"
  by (auto simp: find_lipo_def intro!: asking)

lemma asks_missing [asking]: "only_asks (missing_targets pl ts)"
  by (induction ts) (auto intro!: asking)

lemma asks_toolchain [asking]: "only_asks (check_cross_build_toolchain pl targets)"
  by (auto simp: check_cross_build_toolchain_def intro!: asking)

end
