(* ===== verification/BuildAgents.thy ===== *)
theory BuildAgents
  imports Preflight
begin

text \<open>
  From the sources of the agent to the bytes the daemon deploys: \<open>cargo xtask build-agents\<close>
  (\<open>xtask/src/build_agents.rs\<close>) lays out a binary and a manifest per target, the build script of the controller
  (\<open>crates/tepegoz/build.rs\<close>) embeds what it finds if the protocol version is right, and \<open>for_target\<close> is what
  \<open>crates/tepegoz/src/agents.rs\<close> includes. The protocol version itself is the file that
  \<open>crates/tepegoz-proto/build.rs\<close> reads. Cargo is a program of the \<open>platform\<close>, serde_json an argument.
\<close>

definition TARGETS :: "string list" where
  "TARGETS =
     [''x86_64-unknown-linux-musl'', ''aarch64-unknown-linux-musl'', ''x86_64-apple-darwin'', ''aarch64-apple-darwin'']"

definition AGENT_PROFILE :: string where "AGENT_PROFILE = ''release-agent''"

definition join_all :: "string \<Rightarrow> string list \<Rightarrow> string" where
  "join_all p qs = foldl path_join p qs"

definition version_file :: "string \<Rightarrow> string" where
  "version_file root = join_all root [''crates'', ''tepegoz-proto'', ''PROTOCOL_VERSION'']"

definition agents_dir :: "string \<Rightarrow> string" where
  "agents_dir root = join_all root [''target'', ''agents'']"

definition agent_bin :: "string \<Rightarrow> string \<Rightarrow> string" where
  "agent_bin root triple = path_join (path_join (agents_dir root) triple) ''tepegoz-agent''"

definition agent_manifest :: "string \<Rightarrow> string \<Rightarrow> string" where
  "agent_manifest root triple = path_join (path_join (agents_dir root) triple) ''manifest.json''"

definition cargo_output :: "string \<Rightarrow> string \<Rightarrow> string" where
  "cargo_output root triple = join_all root [''target'', triple, AGENT_PROFILE, ''tepegoz-agent'']"

text \<open>\<open>str::parse::<u32>\<close>: the text of its error.\<close>

definition invalid_digit :: string where "invalid_digit = ''invalid digit found in string''"

fun digits_error :: "nat \<Rightarrow> string \<Rightarrow> string" where
  "digits_error acc [] = invalid_digit"
| "digits_error acc (c # s) =
     (if \<not> is_digit c then invalid_digit
      else let n = acc * 10 + digit_val c
           in if 2 ^ 32 \<le> n then ''number too large to fit in target type'' else digits_error n s)"

definition parse_u32_error :: "string \<Rightarrow> string" where
  "parse_u32_error s =
     (if s = [] then ''cannot parse integer from empty string''
      else digits_error 0 (if hd s = CHR ''+'' then tl s else s))"

section \<open>build-agents\<close>

definition locate_workspace_root :: "'w platform \<Rightarrow> string \<Rightarrow> ('w, string) script" where
  "locate_workspace_root pl task =
     (case pl_cwd pl of
        Inl e \<Rightarrow> with_context ''read CWD'' (bail (ioe_text e))
      | Inr cwd \<Rightarrow>
          sc_bind (exists_path (path_join cwd ''Cargo.toml'')) (\<lambda>there.
            if there then sc_return cwd
            else bail (backquote (''cargo xtask '' @ task) @
              '' must be invoked from the workspace root (no Cargo.toml at '' @ path_display cwd @ '')'')))"

definition parse_version :: "'w platform \<Rightarrow> string \<Rightarrow> ('w, u32) script" where
  "parse_version pl path =
     sc_bind (with_context (''reading '' @ path_display path) (attempt (fs_read_to_string pl path))) (\<lambda>raw.
       case parse_u32 (trim raw) of
         Some v \<Rightarrow> sc_return v
       | None \<Rightarrow> with_context (path_display path @ '' must contain a u32 decimal literal'')
                   (bail (parse_u32_error (trim raw))))"

definition agents_preflight :: "'w platform \<Rightarrow> ('w, unit) script" where
  "agents_preflight pl =
     sc_then (ensure_on_path pl ''cargo''
       (''cargo is required '' @ em_dash @ '' install Rust via https://rustup.rs and retry''))
    (sc_then (ensure_on_path pl ''zig''
       (''zig is required for cross-compilation '' @ em_dash @
        '' install via https://ziglang.org/download/ (or '' @ backquote ''brew install zig'' @ '')''))
     (ensure_on_path pl ''cargo-zigbuild''
       (''cargo-zigbuild is required '' @ em_dash @ '' install via '' @ backquote ''cargo install cargo-zigbuild'' @
        '' (https://github.com/rust-cross/cargo-zigbuild)'')))"

definition cargo_subcmd :: "'w platform \<Rightarrow> string \<Rightarrow> string" where
  "cargo_subcmd pl triple = (if pl_macos pl \<and> is_darwin triple then ''build'' else ''zigbuild'')"

definition cargo_invocation :: "'w platform \<Rightarrow> string \<Rightarrow> string \<Rightarrow> string \<Rightarrow> string \<Rightarrow> invocation" where
  "cargo_invocation pl root package profile triple =
     \<lparr>iv_argv = [''cargo'', cargo_subcmd pl triple, ''--package'', package, ''--bin'', package, ''--profile'', profile,
        ''--target'', triple], iv_dir = Some root, iv_env = []\<rparr>"

text \<open>Running cargo, which both builds do in the same words.\<close>

definition run_cargo :: "'w platform \<Rightarrow> string \<Rightarrow> string \<Rightarrow> string \<Rightarrow> string \<Rightarrow> ('w, unit) script" where
  "run_cargo pl root package profile triple =
     sc_bind (with_context (''spawn cargo '' @ cargo_subcmd pl triple @ '' for '' @ triple)
       (attempt (run_program pl (cargo_invocation pl root package profile triple)))) (\<lambda>status.
         if px_success status then sc_return ()
         else bail (''cargo '' @ cargo_subcmd pl triple @ '' failed for '' @ triple @ '' (exit: '' @ px_status status @ '')''))"

definition quoted :: "string \<Rightarrow> string" where "quoted s = [CHR 0x22] @ s @ [CHR 0x22]"

definition agent_manifest_text :: "u32 \<Rightarrow> string \<Rightarrow> nat \<Rightarrow> string" where
  "agent_manifest_text version triple built_at =
     ''{'' @ newline @
     ''  '' @ quoted ''protocol_version'' @ '': '' @ show_u32 version @ '','' @ newline @
     ''  '' @ quoted ''target_triple'' @ '': '' @ quoted triple @ '','' @ newline @
     ''  '' @ quoted ''built_at_unix_secs'' @ '': '' @ show_nat built_at @ newline @
     ''}'' @ newline"

definition copy_context :: "string \<Rightarrow> string \<Rightarrow> string" where
  "copy_context source dest = ''copying '' @ path_display source @ '' '' @ right_arrow @ '' '' @ path_display dest"

definition write_agent_manifest :: "'w platform \<Rightarrow> string \<Rightarrow> string \<Rightarrow> u32 \<Rightarrow> ('w, unit) script" where
  "write_agent_manifest pl path triple version m =
     with_context (''writing manifest '' @ path_display path)
       (attempt (fs_write pl path (bytes_of (agent_manifest_text version triple (pl_unix_secs pl (mc_calls m)))))) m"

definition report_size :: "string \<Rightarrow> string \<Rightarrow> ('w, unit) script" where
  "report_size triple bin m =
     say (''[build-agents] '' @ triple @ '': '' @ path_display bin @ '' ('' @ show_nat (file_size bin m) @ '' bytes)'') m"

definition build_agent :: "'w platform \<Rightarrow> string \<Rightarrow> u32 \<Rightarrow> string \<Rightarrow> ('w, unit) script" where
  "build_agent pl root version triple =
     (let source = cargo_output root triple; dir = path_join (agents_dir root) triple;
          bin = agent_bin root triple; subcmd = cargo_subcmd pl triple
      in sc_then (say (''[build-agents] cross-compiling '' @ triple @ '' (cargo '' @ subcmd @ '')'' @ ellipsis))
        (sc_then (run_cargo pl root ''tepegoz-agent'' AGENT_PROFILE triple)
        (sc_bind (exists_path source) (\<lambda>there.
           if \<not> there
           then bail (''expected cargo '' @ subcmd @ '' output at '' @ path_display source @ '' '' @ em_dash @
                  '' did the profile or bin name change?'')
           else
             sc_then (with_context (''creating agent output dir at '' @ path_display dir) (attempt (fs_create_dir_all pl dir)))
            (sc_then (with_context (copy_context source bin) (attempt (fs_copy pl source bin)))
            (sc_then (write_agent_manifest pl (agent_manifest root triple) triple version)
             (report_size triple bin)))))))"

definition build_agents :: "'w platform \<Rightarrow> ('w, unit) script" where
  "build_agents pl =
     sc_then (agents_preflight pl)
    (sc_bind (locate_workspace_root pl ''build-agents'') (\<lambda>root.
     sc_bind (with_context (''reading PROTOCOL_VERSION source of truth at '' @ path_display (version_file root))
                (parse_version pl (version_file root))) (\<lambda>version.
     sc_then (say (''[build-agents] source of truth: protocol v'' @ show_u32 version @ '' (from '' @
                path_display (version_file root) @ '')''))
    (sc_then (for_each (build_agent pl root version) TARGETS)
    (sc_then (say ''[build-agents] all four targets built + manifests written.'')
     (say (''[build-agents] layout: '' @ path_display (agents_dir root))))))))"

section \<open>The build script of the controller\<close>

text \<open>A panic is an error of one text.\<close>

definition build_rs_version :: "(string \<Rightarrow> string) \<Rightarrow> 'w platform \<Rightarrow> string \<Rightarrow> ('w, u32) script" where
  "build_rs_version unicode pl path =
     sc_bind (result_of (fs_read_to_string pl path)) (\<lambda>r.
       case r of
         Inl e \<Rightarrow> bail (''failed to read '' @ path_display path @ '': '' @ ioe_text e)
       | Inr raw \<Rightarrow>
           (case parse_u32 (trim raw) of
              Some v \<Rightarrow> sc_return v
            | None \<Rightarrow> bail (path_display path @ '' must contain a u32 decimal literal, got '' @
                        debug_str unicode (trim raw) @ '': '' @ parse_u32_error (trim raw))))"

text \<open>
  \<open>json\<close> is serde_json: an error, or what \<open>as_u64\<close> gives of the field. The number is cut to 32 bits.
\<close>

definition read_manifest_version :: "(string \<Rightarrow> string + u64 option) \<Rightarrow> 'w platform \<Rightarrow> string \<Rightarrow> ('w, u32) script" where
  "read_manifest_version json pl path =
     sc_bind (result_of (fs_read_to_string pl path)) (\<lambda>r.
       case r of
         Inl e \<Rightarrow> bail (''failed to read agent manifest '' @ path_display path @ '': '' @ ioe_text e)
       | Inr raw \<Rightarrow>
           (case json raw of
              Inl e \<Rightarrow> bail (''agent manifest '' @ path_display path @ '' is not valid JSON: '' @ e)
            | Inr None \<Rightarrow> bail (''agent manifest '' @ path_display path @ '' missing numeric '' @
                            backquote ''protocol_version'' @ '' field'')
            | Inr (Some n) \<Rightarrow> sc_return (ucast n)))"

definition ascii_upper :: "char \<Rightarrow> char" where
  "ascii_upper c = (let n = (of_char c :: nat) in if 97 \<le> n \<and> n \<le> 122 then char_of (n - 32) else c)"

definition triple_to_const_ident :: "string \<Rightarrow> string" where
  "triple_to_const_ident triple = map (\<lambda>c. ascii_upper (if c = CHR ''-'' then CHR ''_'' else c)) triple"

definition stale_text :: "string \<Rightarrow> u32 \<Rightarrow> u32 \<Rightarrow> string" where
  "stale_text bin embedded proto =
     ''tepegoz agent at '' @ path_display bin @ '' reports protocol v'' @ show_u32 embedded @ '', but tepegoz-proto is v'' @
     show_u32 proto @ ''. Rebuild agents with '' @ backquote ''cargo xtask build-agents'' @
     '' (or delete target/agents/ and rebuild).''"

text \<open>The constant of a target: its name and the file whose bytes it includes.\<close>

definition embed_target ::
  "(string \<Rightarrow> string + u64 option) \<Rightarrow> 'w platform \<Rightarrow> string \<Rightarrow> u32 \<Rightarrow> string \<Rightarrow> ('w, string \<times> string option) script" where
  "embed_target json pl root proto triple =
     (let bin = agent_bin root triple; manifest = agent_manifest root triple; name = triple_to_const_ident triple
      in sc_then (say (''cargo:rerun-if-changed='' @ path_display bin))
        (sc_then (say (''cargo:rerun-if-changed='' @ path_display manifest))
        (sc_bind (exists_path bin) (\<lambda>has_bin.
         sc_bind (exists_path manifest) (\<lambda>has_manifest.
           if has_bin \<and> has_manifest then
             sc_bind (read_manifest_version json pl manifest) (\<lambda>embedded.
               if embedded \<noteq> proto then bail (stale_text bin embedded proto)
               else sc_return (name, Some (path_display bin)))
           else if has_bin \<or> has_manifest then
             sc_then (say (''cargo:warning=tepegoz-agent/'' @ triple @
                 '': found partial artifact (binary or manifest missing). Run '' @
                 backquote ''cargo xtask build-agents'' @ '' to repopulate.''))
               (sc_return (name, None))
           else sc_return (name, None))))))"

fun embed_targets ::
  "(string \<Rightarrow> string + u64 option) \<Rightarrow> 'w platform \<Rightarrow> string \<Rightarrow> u32 \<Rightarrow> string list \<Rightarrow>
     ('w, (string \<times> string option) list) script" where
  "embed_targets json pl root proto [] = sc_return []"
| "embed_targets json pl root proto (t # ts) =
     sc_bind (embed_target json pl root proto t) (\<lambda>c.
     sc_bind (embed_targets json pl root proto ts) (\<lambda>cs. sc_return (c # cs)))"

text \<open>The generated file.\<close>

definition emitted_header :: string where
  "emitted_header = concat (map (\<lambda>l. l @ newline)
     [''// Generated by crates/tepegoz/build.rs '' @ em_dash @ '' do not edit.'',
      ''//'',
      ''// Every target this controller can deploy to gets an entry'',
      ''// here. '' @ backquote ''Some(bytes)'' @ '' means the agent was cross-compiled by'',
      ''// '' @ backquote ''cargo xtask build-agents'' @ '' and is embedded; '' @ backquote ''None'' @ '' means'',
      ''// that target wasn'' @ [CHR 0x27] @ ''t populated at compile time (plain'',
      ''// '' @ backquote ''cargo build'' @ '' scenario).'',
      [],
      ''pub mod embedded_agents {''])"

definition emitted_const :: "string \<times> string option \<Rightarrow> string" where
  "emitted_const c =
     ''    pub const '' @ fst c @ '': Option<&[u8]> = '' @
     (case snd c of None \<Rightarrow> ''None'' | Some path \<Rightarrow> ''Some(include_bytes!(r'' @ quoted path @ ''))'') @ '';'' @ newline"

definition emitted_footer :: string where
  "emitted_footer = concat (map (\<lambda>l. l @ newline)
     [[],
      ''    /// Look up the embedded agent binary for a target triple.'',
      ''    /// Returns '' @ backquote ''None'' @ '' when that target wasn'' @ [CHR 0x27] @ ''t populated via'',
      ''    /// '' @ backquote ''cargo xtask build-agents'' @ '' at compile time.'',
      ''    #[allow(dead_code)]'',
      ''    pub fn for_target(triple: &str) -> Option<&'' @ [CHR 0x27] @ ''static [u8]> {'',
      ''        match triple {'',
      ''            '' @ quoted ''x86_64-unknown-linux-musl'' @ '' => X86_64_UNKNOWN_LINUX_MUSL,'',
      ''            '' @ quoted ''aarch64-unknown-linux-musl'' @ '' => AARCH64_UNKNOWN_LINUX_MUSL,'',
      ''            '' @ quoted ''x86_64-apple-darwin'' @ '' => X86_64_APPLE_DARWIN,'',
      ''            '' @ quoted ''aarch64-apple-darwin'' @ '' => AARCH64_APPLE_DARWIN,'',
      ''            _ => None,'',
      ''        }'',
      ''    }'',
      ''}''])"

text \<open>\<open>env::var(..).expect(..)\<close>.\<close>

definition expect_var :: "'w platform \<Rightarrow> string \<Rightarrow> ('w, string) script" where
  "expect_var pl v =
     (case pl_var pl v of Some x \<Rightarrow> sc_return x | None \<Rightarrow> bail (v @ '' set by cargo: NotPresent''))"

definition expect_var_os :: "'w platform \<Rightarrow> string \<Rightarrow> ('w, string) script" where
  "expect_var_os pl v =
     (case pl_var pl v of Some x \<Rightarrow> sc_return x | None \<Rightarrow> bail (v @ '' set by cargo''))"

definition build_root :: "string \<Rightarrow> string option" where
  "build_root manifest_dir = (case path_parent manifest_dir of Some c \<Rightarrow> path_parent c | None \<Rightarrow> None)"

definition no_agents_warning :: string where
  "no_agents_warning =
     ''cargo:warning=tepegoz-agent binaries not found at target/agents/. Remote deploy will be unavailable at '' @
     ''runtime. Run '' @ backquote ''cargo xtask build-agents'' @ '' to populate (requires zig + cargo-zigbuild).''"

text \<open>\<open>main\<close> of \<open>crates/tepegoz/build.rs\<close>; the result is what the constants of the generated file say.\<close>

definition controller_build_rs ::
  "(string \<Rightarrow> string) \<Rightarrow> (string \<Rightarrow> string + u64 option) \<Rightarrow> 'w platform \<Rightarrow> ('w, (string \<times> string option) list) script" where
  "controller_build_rs unicode json pl =
     sc_then (say ''cargo:rerun-if-changed=build.rs'')
    (sc_bind (expect_var pl ''CARGO_MANIFEST_DIR'') (\<lambda>manifest_dir.
       case build_root manifest_dir of
         None \<Rightarrow> bail ''workspace root is crates/..''
       | Some root \<Rightarrow>
           sc_then (say (''cargo:rerun-if-changed='' @ path_display (version_file root)))
          (sc_bind (build_rs_version unicode pl (version_file root)) (\<lambda>proto.
           sc_bind (embed_targets json pl root proto TARGETS) (\<lambda>cts.
           sc_then (if list_all (\<lambda>c. snd c = None) cts then say no_agents_warning else sc_return ())
          (sc_bind (expect_var pl ''OUT_DIR'') (\<lambda>out_dir.
             (let out_path = path_join out_dir ''embedded_agents.rs''
              in sc_bind (result_of (fs_write pl out_path
                     (bytes_of (emitted_header @ concat (map emitted_const cts) @ emitted_footer)))) (\<lambda>r.
                   case r of
                     Inl e \<Rightarrow> bail (''failed to write '' @ path_display out_path @ '': '' @ ioe_text e)
                   | Inr _ \<Rightarrow> sc_return cts)))))))))"

text \<open>
  What rustc makes of the constants, with the files as they are when it compiles (an included file that
  is not there ends the compilation), and the generated \<open>for_target\<close>.
\<close>

fun compile_consts :: "file_tree \<Rightarrow> (string \<times> string option) list \<Rightarrow> (string \<times> u8 list option) list option" where
  "compile_consts fs [] = Some []"
| "compile_consts fs ((name, None) # cs) = map_option (\<lambda>rest. (name, None) # rest) (compile_consts fs cs)"
| "compile_consts fs ((name, Some path) # cs) =
     (case fs path of
        Some (FeFile bs) \<Rightarrow> map_option (\<lambda>rest. (name, Some bs) # rest) (compile_consts fs cs)
      | _ \<Rightarrow> None)"

definition for_target :: "(string \<times> u8 list option) list \<Rightarrow> string \<Rightarrow> u8 list option" where
  "for_target cts triple =
     (let const = (\<lambda>name. case map_of cts name of Some c \<Rightarrow> c | None \<Rightarrow> None)
      in if triple = ''x86_64-unknown-linux-musl'' then const ''X86_64_UNKNOWN_LINUX_MUSL''
         else if triple = ''aarch64-unknown-linux-musl'' then const ''AARCH64_UNKNOWN_LINUX_MUSL''
         else if triple = ''x86_64-apple-darwin'' then const ''X86_64_APPLE_DARWIN''
         else if triple = ''aarch64-apple-darwin'' then const ''AARCH64_APPLE_DARWIN''
         else None)"

text \<open>
  \<open>main\<close> of \<open>crates/tepegoz-proto/build.rs\<close>, in its package's directory: the constant that every crate shares.
\<close>

definition version_rs :: "u32 \<Rightarrow> string" where
  "version_rs version =
     ''/// Wire protocol version. Generated at build time from'' @ newline @
     ''/// '' @ backquote ''crates/tepegoz-proto/PROTOCOL_VERSION'' @ '' '' @ em_dash @ '' see build.rs.'' @ newline @
     ''pub const PROTOCOL_VERSION: u32 = '' @ show_u32 version @ '';'' @ newline"

definition proto_build_rs :: "(string \<Rightarrow> string) \<Rightarrow> 'w platform \<Rightarrow> ('w, u32) script" where
  "proto_build_rs unicode pl =
     sc_then (say ''cargo:rerun-if-changed=PROTOCOL_VERSION'')
    (sc_then (say ''cargo:rerun-if-changed=build.rs'')
    (sc_bind (build_rs_version unicode pl ''PROTOCOL_VERSION'') (\<lambda>version.
     sc_bind (expect_var_os pl ''OUT_DIR'') (\<lambda>out_dir.
       (let out_path = path_join out_dir ''version.rs''
        in sc_bind (result_of (fs_write pl out_path (bytes_of (version_rs version)))) (\<lambda>r.
             case r of
               Inl e \<Rightarrow> bail (''failed to write '' @ path_display out_path @ '': '' @ ioe_text e)
             | Inr _ \<Rightarrow> sc_return version))))))"

end
