(* ===== verification/BuildRelease.thy ===== *)
theory BuildRelease
  imports BuildAgents
begin

text \<open>
  \<open>cargo xtask build-release\<close> (\<open>xtask/src/build_release.rs\<close>): the agents first, then a controller per target, the
  universal macOS binary where \<open>lipo\<close> is there, and the index of digests. SHA-256 in hexadecimal is an argument.
\<close>

definition RELEASE_PROFILE :: string where "RELEASE_PROFILE = ''release''"
definition BIN_NAME :: string where "BIN_NAME = ''tepegoz''"
definition BUNDLE_ROOT_REL :: string where "BUNDLE_ROOT_REL = ''target/release-bundles''"
definition UNIVERSAL_DIR :: string where "UNIVERSAL_DIR = ''universal-apple-darwin''"

definition release_output :: "string \<Rightarrow> string \<Rightarrow> string" where
  "release_output root triple = join_all root [''target'', triple, RELEASE_PROFILE, BIN_NAME]"

definition bundle_bin :: "string \<Rightarrow> string \<Rightarrow> string" where
  "bundle_bin bundles triple = path_join (path_join bundles triple) BIN_NAME"

definition release_manifest_text :: "string \<Rightarrow> string \<Rightarrow> nat \<Rightarrow> string" where
  "release_manifest_text version triple built_at =
     ''{'' @ newline @
     ''  '' @ quoted ''version'' @ '': '' @ quoted version @ '','' @ newline @
     ''  '' @ quoted ''target_triple'' @ '': '' @ quoted triple @ '','' @ newline @
     ''  '' @ quoted ''built_at_unix_secs'' @ '': '' @ show_nat built_at @ newline @
     ''}'' @ newline"

definition write_manifest :: "'w platform \<Rightarrow> string \<Rightarrow> string \<Rightarrow> string \<Rightarrow> ('w, unit) script" where
  "write_manifest pl dir triple version m =
     (let path = path_join dir ''manifest.json''
      in with_context (''writing manifest '' @ path_display path)
           (attempt (fs_write pl path
              (bytes_of (release_manifest_text version triple (pl_unix_secs pl (mc_calls m)))))) m)"

definition report_bundle :: "string \<Rightarrow> ('w, unit) script" where
  "report_bundle bin m =
     say (''[build-release]     '' @ right_arrow @ '' '' @ path_display bin @ '' ('' @ show_nat (file_size bin m) @ '' bytes)'') m"

definition build_controller :: "'w platform \<Rightarrow> string \<Rightarrow> string \<Rightarrow> string \<Rightarrow> string \<Rightarrow> ('w, unit) script" where
  "build_controller pl root bundles version triple =
     (let source = release_output root triple; dir = path_join bundles triple; bin = bundle_bin bundles triple
      in sc_then (say (''[build-release]   cross-compiling '' @ triple @ '' (cargo '' @ cargo_subcmd pl triple @ '')'' @ ellipsis))
        (sc_then (run_cargo pl root BIN_NAME RELEASE_PROFILE triple)
        (sc_bind (exists_path source) (\<lambda>there.
           if \<not> there
           then bail (''expected cargo output at '' @ path_display source @ '' '' @ em_dash @
                  '' did the profile or bin name change?'')
           else
             sc_then (with_context (''creating bundle dir '' @ path_display dir) (attempt (fs_create_dir_all pl dir)))
            (sc_then (with_context (copy_context source bin) (attempt (fs_copy pl source bin)))
            (sc_then (write_manifest pl dir triple version)
             (report_bundle bin)))))))"

definition need_darwin :: "string \<Rightarrow> ('w, unit) script" where
  "need_darwin bin =
     sc_bind (exists_path bin) (\<lambda>there.
       if there then sc_return ()
       else bail (''universal-apple-darwin requires both darwin binaries '' @ em_dash @ '' missing '' @ path_display bin))"

definition fuse_universal_macos :: "'w platform \<Rightarrow> string \<Rightarrow> string \<Rightarrow> string \<Rightarrow> ('w, unit) script" where
  "fuse_universal_macos pl bundles lipo_tool version =
     (let x86 = bundle_bin bundles ''x86_64-apple-darwin''; arm64 = bundle_bin bundles ''aarch64-apple-darwin'';
          dir = path_join bundles UNIVERSAL_DIR; bin = bundle_bin bundles UNIVERSAL_DIR
      in sc_then (for_each need_darwin [x86, arm64])
        (sc_then (with_context (''creating universal dir '' @ path_display dir) (attempt (fs_create_dir_all pl dir)))
        (sc_then (say (''[build-release]   fusing via '' @ lipo_tool @ ellipsis))
        (sc_bind (with_context (''spawning '' @ lipo_tool)
                   (attempt (run_program pl (invoke [lipo_tool, ''-create'', ''-output'', bin, x86, arm64])))) (\<lambda>status.
           if \<not> px_success status
           then bail (lipo_tool @ '' failed to fuse darwin binaries (exit: '' @ px_status status @ '')'')
           else sc_then (write_manifest pl dir UNIVERSAL_DIR version) (report_bundle bin))))))"

definition sha256_file :: "(u8 list \<Rightarrow> string) \<Rightarrow> 'w platform \<Rightarrow> string \<Rightarrow> ('w, string) script" where
  "sha256_file sha pl path =
     sc_bind (with_context (''reading '' @ path_display path) (attempt (fs_read pl path))) (\<lambda>bytes. sc_return (sha bytes))"

definition sum_entry :: "(u8 list \<Rightarrow> string) \<Rightarrow> 'w platform \<Rightarrow> string \<Rightarrow> string \<Rightarrow> ('w, string \<times> string) script" where
  "sum_entry sha pl bundles dir =
     sc_bind (sha256_file sha pl (bundle_bin bundles dir)) (\<lambda>digest. sc_return (digest, dir @ ''/'' @ BIN_NAME))"

fun sum_entries :: "(u8 list \<Rightarrow> string) \<Rightarrow> 'w platform \<Rightarrow> string \<Rightarrow> string list \<Rightarrow> ('w, (string \<times> string) list) script" where
  "sum_entries sha pl bundles [] = sc_return []"
| "sum_entries sha pl bundles (d # ds) =
     sc_bind (sum_entry sha pl bundles d) (\<lambda>e.
     sc_bind (sum_entries sha pl bundles ds) (\<lambda>es. sc_return (e # es)))"

definition sums_text :: "(string \<times> string) list \<Rightarrow> string" where
  "sums_text entries = concat (map (\<lambda>(digest, relpath). digest @ ''  '' @ relpath @ newline) (sort_key snd entries))"

definition write_sha256sums :: "(u8 list \<Rightarrow> string) \<Rightarrow> 'w platform \<Rightarrow> string \<Rightarrow> bool \<Rightarrow> ('w, unit) script" where
  "write_sha256sums sha pl bundles produced_universal =
     (let path = path_join bundles ''SHA256SUMS''
      in sc_bind (sum_entries sha pl bundles (RELEASE_TARGETS @ (if produced_universal then [UNIVERSAL_DIR] else [])))
           (\<lambda>entries.
             sc_then (with_context (''writing SHA256SUMS at '' @ path_display path)
                        (attempt (fs_write pl path (bytes_of (sums_text entries)))))
               (say (''[build-release]   '' @ right_arrow @ '' '' @ path_display path @ '' ('' @
                   show_nat (length entries) @ '' entries)''))))"

definition universal_step :: "'w platform \<Rightarrow> string \<Rightarrow> string \<Rightarrow> ('w, bool) script" where
  "universal_step pl bundles version =
     sc_bind (find_lipo pl) (\<lambda>lipo.
       case lipo of
         Some tool \<Rightarrow> sc_then (fuse_universal_macos pl bundles tool version) (sc_return True)
       | None \<Rightarrow>
           sc_then (say (''[build-release]   lipo / llvm-lipo not on PATH '' @ em_dash @
               '' skipping universal macOS binary.'' @ newline @
               ''[build-release]   4 per-triple binaries still produced. R2'' @ [CHR 0x27] @
               ''s CI workflow treats this as a hard failure on macos-latest.''))
             (sc_return False))"

text \<open>\<open>run\<close>; \<open>version\<close> is the version of the package.\<close>

definition build_release :: "(u8 list \<Rightarrow> string) \<Rightarrow> 'w platform \<Rightarrow> string \<Rightarrow> ('w, unit) script" where
  "build_release sha pl version =
     sc_bind (locate_workspace_root pl ''build-release'') (\<lambda>root.
       (let bundles = path_join root BUNDLE_ROOT_REL
        in sc_then (say (''[build-release] step 1/5: preflight cross-build toolchain (4 targets '' @ times_sign @ '' 2 layers)''))
          (sc_then (check_cross_build_toolchain pl RELEASE_TARGETS)
          (sc_then (check_zig_ring_compatibility pl)
          (sc_then (say ''[build-release] step 2/5: build embedded agents (prereq for controller build.rs)'')
          (sc_then (with_context ''build-agents (prerequisite) failed'' (build_agents pl))
          (sc_then (with_context (''creating bundles root at '' @ path_display bundles) (attempt (fs_create_dir_all pl bundles)))
          (sc_then (say (''[build-release] step 3/5: cross-compile '' @ BIN_NAME @ '' '' @ times_sign @ '' 4 triples''))
          (sc_then (for_each (build_controller pl root bundles version) RELEASE_TARGETS)
          (sc_then (say ''[build-release] step 4/5: universal macOS binary (lipo)'')
          (sc_bind (universal_step pl bundles version) (\<lambda>produced_universal.
           sc_then (say ''[build-release] step 5/5: write SHA256SUMS'')
          (sc_then (write_sha256sums sha pl bundles produced_universal)
          (sc_then (say (''[build-release] done: '' @
               show_nat (length RELEASE_TARGETS + (if produced_universal then 1 else 0)) @ '' artifact(s) + SHA256SUMS''))
           (say (''[build-release] layout: '' @ path_display bundles))))))))))))))))"

end
