(* ===== verification/BuildProps.thy ===== *)
theory BuildProps
  imports BuildRelease DeployHost
begin

text \<open>
  What the build guarantees: the agents a daemon deploys are those cargo has built, of the daemon's protocol
  version; and where the build scripts take a damaged file for a good one.
\<close>

section \<open>Paths\<close>

lemma target_names: "t \<in> set TARGETS \<Longrightarrow> plain_name t"
  by (auto simp: TARGETS_def plain_name_def)

lemma agent_paths:
  assumes "root \<noteq> []" "plain_name t"
  shows "agent_bin root t = slashed root @ ''target/agents/'' @ t @ ''/tepegoz-agent''"
    and "agent_manifest root t = slashed root @ ''target/agents/'' @ t @ ''/manifest.json''"
    and "cargo_output root t = slashed root @ ''target/'' @ t @ ''/release-agent/tepegoz-agent''"
    and "version_file root = slashed root @ ''crates/tepegoz-proto/PROTOCOL_VERSION''"
proof -
  have names: "plain_name ''target''" "plain_name ''agents''" "plain_name ''tepegoz-agent''" "plain_name ''manifest.json''"
    "plain_name ''release-agent''" "plain_name ''crates''" "plain_name ''tepegoz-proto''" "plain_name ''PROTOCOL_VERSION''"
    by (simp_all add: plain_name_def)
  have join: "p \<noteq> [] \<Longrightarrow> plain_name q \<Longrightarrow> plain_name r \<Longrightarrow> path_join (p @ q) r = p @ q @ ''/'' @ r" for p q r
    by (simp add: path_join_plain slashed_append)
  have dir: "agents_dir root = slashed root @ ''target/agents''"
    using assms(1) names join [of "slashed root" "''target''" "''agents''"]
    by (simp add: agents_dir_def join_all_def path_join_plain)
  have "plain_name ''target/agents''" by (simp add: plain_name_def)
  then have under: "path_join (agents_dir root) t = slashed root @ ''target/agents/'' @ t"
    using join [of "slashed root" "''target/agents''" t] assms by (simp add: dir)
  have "plain_name (''target/agents/'' @ t)" "plain_name (''target/'' @ t)" "plain_name (''target/'' @ t @ ''/release-agent'')"
    using assms(2) by (simp_all add: plain_name_def)
  note plain = this
  show "agent_bin root t = slashed root @ ''target/agents/'' @ t @ ''/tepegoz-agent''"
    "agent_manifest root t = slashed root @ ''target/agents/'' @ t @ ''/manifest.json''"
    using join [of "slashed root" "''target/agents/'' @ t"] assms(1) plain names
    by (simp_all add: agent_bin_def agent_manifest_def under)
  show "cargo_output root t = slashed root @ ''target/'' @ t @ ''/release-agent/tepegoz-agent''"
    using join [of "slashed root" "''target''" t] join [of "slashed root" "''target/'' @ t" "''release-agent''"]
      join [of "slashed root" "''target/'' @ t @ ''/release-agent''" "''tepegoz-agent''"] assms plain names
    by (simp add: cargo_output_def AGENT_PROFILE_def join_all_def path_join_plain)
  have "plain_name ''crates/tepegoz-proto''" by (simp add: plain_name_def)
  then show "version_file root = slashed root @ ''crates/tepegoz-proto/PROTOCOL_VERSION''"
    using join [of "slashed root" "''crates''" "''tepegoz-proto''"]
      join [of "slashed root" "''crates/tepegoz-proto''" "''PROTOCOL_VERSION''"] assms(1) names
    by (simp add: version_file_def join_all_def path_join_plain)
qed

text \<open>The places of different targets, and of different files of one target, are different.\<close>

lemma places_differ:
  assumes "root \<noteq> []" "t \<in> set TARGETS" "t' \<in> set TARGETS"
  shows "agent_bin root t = agent_bin root t' \<longleftrightarrow> t = t'"
    and "agent_manifest root t = agent_manifest root t' \<longleftrightarrow> t = t'"
    and "agent_bin root t \<noteq> agent_manifest root t'"
    and "agent_bin root t \<noteq> cargo_output root t'"
    and "agent_manifest root t \<noteq> cargo_output root t'"
    and "agent_bin root t \<noteq> version_file root"
    and "agent_manifest root t \<noteq> version_file root"
proof -
  note p = agent_paths [OF assms(1) target_names [OF assms(2)]] agent_paths [OF assms(1) target_names [OF assms(3)]]
  show "agent_bin root t = agent_bin root t' \<longleftrightarrow> t = t'"
    "agent_manifest root t = agent_manifest root t' \<longleftrightarrow> t = t'"
    unfolding p by simp_all
  show "agent_bin root t \<noteq> agent_manifest root t'" "agent_bin root t \<noteq> cargo_output root t'"
    "agent_manifest root t \<noteq> cargo_output root t'" "agent_bin root t \<noteq> version_file root"
    "agent_manifest root t \<noteq> version_file root"
    unfolding p using assms(2,3) by (auto simp: TARGETS_def)
qed

section \<open>One agent\<close>

text \<open>
  What the build relies on in cargo (its documentation: a build for a target writes below that target's
  directory): it leaves the agents and the version file alone, and the output for other targets.
\<close>

definition cargo_keeps :: "'w platform \<Rightarrow> string \<Rightarrow> bool" where
  "cargo_keeps pl root \<longleftrightarrow>
     (\<forall>package profile t fs w p.
        p = version_file root \<or>
        (\<exists>t' \<in> set TARGETS. p = agent_bin root t' \<or> p = agent_manifest root t' \<or> t' \<noteq> t \<and> p = cargo_output root t') \<longrightarrow>
        fst (snd (pl_run pl (cargo_invocation pl root package profile t) (fs, w))) p = fs p)"

lemma run_cargo_Inr:
  assumes "run_cargo pl root package profile t m = (Inr u, m')"
  shows "\<exists>out w. pl_run pl (cargo_invocation pl root package profile t) (mc_files m, mc_world m) = (Inr out, mc_files m', w) \<and>
    px_success out"
  using assms
  by (auto simp: run_cargo_def script_Inr split: if_splits elim!: run_program_Inr)

text \<open>The agent of a target is in place: cargo's output, and a manifest of the version.\<close>

definition in_place :: "string \<Rightarrow> u32 \<Rightarrow> string \<Rightarrow> file_tree \<Rightarrow> bool" where
  "in_place root v t fs \<longleftrightarrow>
     (\<exists>bs n. fs (cargo_output root t) = Some (FeFile bs) \<and> fs (agent_bin root t) = Some (FeFile bs) \<and>
        fs (agent_manifest root t) = Some (FeFile (bytes_of (agent_manifest_text v t n))))"

lemma build_agent_Inr:
  assumes "build_agent pl root v t m = (Inr u, m')"
  shows "\<exists>out fs1 w fs2 bs n.
    pl_run pl (cargo_invocation pl root ''tepegoz-agent'' AGENT_PROFILE t) (mc_files m, mc_world m) = (Inr out, fs1, w) \<and>
    dirs_added fs1 fs2 \<and> fs2 (cargo_output root t) = Some (FeFile bs) \<and>
    mc_files m' = fs2(agent_bin root t \<mapsto> FeFile bs,
      agent_manifest root t \<mapsto> FeFile (bytes_of (agent_manifest_text v t n)))"
proof -
  obtain m0 m1 m2 m3 m4 m5 where
    "mc_files m0 = mc_files m" "mc_world m0 = mc_world m"
    and run: "run_cargo pl root ''tepegoz-agent'' AGENT_PROFILE t m0 = (Inr (), m1)"
    and dir: "fs_create_dir_all pl (path_join (agents_dir root) t) m1 = (Inr (), m2)"
    and copy: "fs_copy pl (cargo_output root t) (agent_bin root t) m2 = (Inr (), m3)"
    and man: "write_agent_manifest pl (agent_manifest root t) t v m3 = (Inr (), m4)"
    and rep: "report_size t (agent_bin root t) m4 = (Inr (), m')"
    using assms
    by (auto simp: build_agent_def Let_def script_Inr exists_path_def dest!: say_Inr split: if_splits)
  moreover from man obtain n where
    "mc_files m4 = (mc_files m3)(agent_manifest root t \<mapsto> FeFile (bytes_of (agent_manifest_text v t n)))"
    by (auto simp: write_agent_manifest_def script_Inr dest: fs_write_Inr)
  moreover from rep have "mc_files m' = mc_files m4"
    by (auto simp: report_size_def dest: say_Inr)
  moreover obtain bs where "mc_files m2 (cargo_output root t) = Some (FeFile bs)"
      "mc_files m3 = (mc_files m2)(agent_bin root t \<mapsto> FeFile bs)"
    by (rule fs_copy_Inr [OF copy])
  moreover obtain out w where
    "pl_run pl (cargo_invocation pl root ''tepegoz-agent'' AGENT_PROFILE t) (mc_files m0, mc_world m0) =
       (Inr out, mc_files m1, w)"
    using run_cargo_Inr [OF run] by blast
  ultimately show ?thesis
    using fs_create_dir_all_Inr [OF dir]
    by (intro exI [of _ out] exI [of _ "mc_files m1"] exI [of _ w] exI [of _ "mc_files m2"] exI [of _ bs] exI [of _ n]) simp
qed

lemma build_agent_places:
  assumes "root \<noteq> []" "cargo_keeps pl root" "t \<in> set TARGETS" "build_agent pl root v t m = (Inr u, m')"
  shows "in_place root v t (mc_files m')"
    and "\<And>t'. t' \<in> set TARGETS \<Longrightarrow> t' \<noteq> t \<Longrightarrow> in_place root v t' (mc_files m) \<Longrightarrow> in_place root v t' (mc_files m')"
    and "\<And>x. mc_files m (version_file root) = Some x \<Longrightarrow> mc_files m' (version_file root) = Some x"
proof -
  obtain out fs1 w fs2 bs n where
    run: "pl_run pl (cargo_invocation pl root ''tepegoz-agent'' AGENT_PROFILE t) (mc_files m, mc_world m) = (Inr out, fs1, w)"
    and fs: "dirs_added fs1 fs2" "fs2 (cargo_output root t) = Some (FeFile bs)"
      "mc_files m' = fs2(agent_bin root t \<mapsto> FeFile bs,
        agent_manifest root t \<mapsto> FeFile (bytes_of (agent_manifest_text v t n)))"
    using build_agent_Inr [OF assms(4)] by blast
  note d = places_differ [OF assms(1)]
  show "in_place root v t (mc_files m')"
    unfolding in_place_def fs(3) using fs(2) d [OF assms(3) assms(3)]
    by (intro exI [of _ bs] exI [of _ n]) (simp add: not_sym)
  have keep: "p = version_file root \<or> (\<exists>t' \<in> set TARGETS. p = agent_bin root t' \<or> p = agent_manifest root t' \<or>
      t' \<noteq> t \<and> p = cargo_output root t') \<Longrightarrow> fs1 p = mc_files m p" for p
    using assms(2) run unfolding cargo_keeps_def by (metis fst_conv snd_conv)
  then have old: "mc_files m p = Some x \<Longrightarrow> fs2 p = Some x" if "p = version_file root \<or> (\<exists>t' \<in> set TARGETS.
      p = agent_bin root t' \<or> p = agent_manifest root t' \<or> t' \<noteq> t \<and> p = cargo_output root t')" for p x
    using that dirs_added_Some [OF fs(1)] by metis
  show "in_place root v t' (mc_files m')" if "t' \<in> set TARGETS" "t' \<noteq> t" "in_place root v t' (mc_files m)" for t'
  proof -
    from that(3) obtain bs' n' where p: "mc_files m (cargo_output root t') = Some (FeFile bs')"
        "mc_files m (agent_bin root t') = Some (FeFile bs')"
        "mc_files m (agent_manifest root t') = Some (FeFile (bytes_of (agent_manifest_text v t' n')))"
      by (auto simp: in_place_def)
    then have "fs2 (cargo_output root t') = Some (FeFile bs')" "fs2 (agent_bin root t') = Some (FeFile bs')"
        "fs2 (agent_manifest root t') = Some (FeFile (bytes_of (agent_manifest_text v t' n')))"
      using that(1,2) by (auto intro!: old)
    then show ?thesis
      unfolding in_place_def fs(3) using d [OF assms(3) that(1)] d [OF that(1) assms(3)] that(2)
      by (intro exI [of _ bs'] exI [of _ n']) (simp add: not_sym)
  qed
  show "mc_files m' (version_file root) = Some x" if "mc_files m (version_file root) = Some x" for x
    using old [OF _ that] d [OF assms(3) assms(3)] by (simp add: fs(3) not_sym)
qed

lemma build_agents_each:
  assumes "root \<noteq> []" "cargo_keeps pl root" "for_each (build_agent pl root v) ts m = (Inr u, m')" "set ts \<subseteq> set TARGETS"
  shows "\<forall>t \<in> set ts. in_place root v t (mc_files m')"
    and "\<And>t. t \<in> set TARGETS \<Longrightarrow> in_place root v t (mc_files m) \<Longrightarrow> in_place root v t (mc_files m')"
    and "\<And>x. mc_files m (version_file root) = Some x \<Longrightarrow> mc_files m' (version_file root) = Some x"
proof -
  have "(\<forall>t \<in> set ts. in_place root v t (mc_files m')) \<and>
    (\<forall>t \<in> set TARGETS. in_place root v t (mc_files m) \<longrightarrow> in_place root v t (mc_files m')) \<and>
    (\<forall>x. mc_files m (version_file root) = Some x \<longrightarrow> mc_files m' (version_file root) = Some x)"
    using assms(3,4)
  proof (induction ts arbitrary: m)
    case Nil
    then show ?case by (simp add: sc_return_def)
  next
    case (Cons t ts)
    then obtain u1 m1 where s: "build_agent pl root v t m = (Inr u1, m1)" "for_each (build_agent pl root v) ts m1 = (Inr u, m')"
      by (auto simp: sc_then_Inr)
    have t: "t \<in> set TARGETS" using Cons.prems(2) by simp
    note p = build_agent_places [OF assms(1,2) t s(1)]
    have ih: "\<forall>t \<in> set ts. in_place root v t (mc_files m')"
      "t' \<in> set TARGETS \<Longrightarrow> in_place root v t' (mc_files m1) \<Longrightarrow> in_place root v t' (mc_files m')"
      "mc_files m1 (version_file root) = Some x \<Longrightarrow> mc_files m' (version_file root) = Some x" for t' x
      using Cons.IH [OF s(2)] Cons.prems(2) by auto
    have "in_place root v t' (mc_files m1)" if "t' \<in> set TARGETS" "in_place root v t' (mc_files m)" for t'
      using p(1) p(2) [OF that(1) _ that(2)] by (cases "t' = t") auto
    with ih p(1,3) t show ?case by auto
  qed
  then show "\<forall>t \<in> set ts. in_place root v t (mc_files m')"
    and "\<And>t. t \<in> set TARGETS \<Longrightarrow> in_place root v t (mc_files m) \<Longrightarrow> in_place root v t (mc_files m')"
    and "\<And>x. mc_files m (version_file root) = Some x \<Longrightarrow> mc_files m' (version_file root) = Some x"
    by blast+
qed

text \<open>The protocol version, as both sides read it.\<close>

definition version_in :: "file_tree \<Rightarrow> string \<Rightarrow> u32 option" where
  "version_in fs p =
     (case fs p of
        Some (FeFile bs) \<Rightarrow> (case from_utf8 bs of Some raw \<Rightarrow> parse_u32 (trim raw) | None \<Rightarrow> None)
      | _ \<Rightarrow> None)"

lemma parse_version_Inr:
  "parse_version pl p m = (Inr v, m') \<Longrightarrow> version_in (mc_files m) p = Some v \<and> mc_files m' = mc_files m"
  by (auto simp: parse_version_def script_Inr version_in_def dest!: fs_read_to_string_Inr split: option.splits)

lemma build_agents_Inr:
  assumes "build_agents pl m = (Inr u, m')" "pl_cwd pl = Inr root" "root \<noteq> []" "cargo_keeps pl root"
  shows "\<exists>v. version_in (mc_files m') (version_file root) = Some v \<and> (\<forall>t \<in> set TARGETS. in_place root v t (mc_files m'))"
proof -
  obtain v m1 m2 m3 m4 where
    v: "parse_version pl (version_file root) m1 = (Inr v, m2)" and m3: "mc_files m3 = mc_files m2"
    and each: "for_each (build_agent pl root v) TARGETS m3 = (Inr (), m4)" and m': "mc_files m' = mc_files m4"
    using assms(1,2)
    by (auto simp: build_agents_def locate_workspace_root_def exists_path_def script_Inr dest!: say_Inr split: if_splits)
  note e = build_agents_each [OF assms(3,4) each]
  from parse_version_Inr [OF v] obtain bs where "mc_files m3 (version_file root) = Some (FeFile bs)"
      "version_in (mc_files m3) (version_file root) = Some v"
    by (auto simp: m3 version_in_def split: option.splits file_entry.splits)
  with e(1,3) show ?thesis by (auto simp: m' version_in_def)
qed

section \<open>What the controller embeds\<close>

text \<open>The field as the build script reads it.\<close>

definition manifest_version :: "(string \<Rightarrow> string + u64 option) \<Rightarrow> file_tree \<Rightarrow> string \<Rightarrow> u32 option" where
  "manifest_version json fs p =
     (case fs p of
        Some (FeFile bs) \<Rightarrow>
          (case from_utf8 bs of
             Some raw \<Rightarrow> (case json raw of Inr (Some n) \<Rightarrow> Some (ucast n) | _ \<Rightarrow> None)
           | None \<Rightarrow> None)
      | _ \<Rightarrow> None)"

definition populated :: "string \<Rightarrow> file_tree \<Rightarrow> string \<Rightarrow> bool" where
  "populated root fs t \<longleftrightarrow> fs (agent_bin root t) \<noteq> None \<and> fs (agent_manifest root t) \<noteq> None"

definition embedded_const :: "string \<Rightarrow> file_tree \<Rightarrow> string \<Rightarrow> string \<times> string option" where
  "embedded_const root fs t =
     (triple_to_const_ident t, if populated root fs t then Some (path_display (agent_bin root t)) else None)"

lemma read_manifest_version_result:
  "read_manifest_version json pl p m = (r, m') \<Longrightarrow>
     mc_files m' = mc_files m \<and> (\<forall>v. r = Inr v \<longrightarrow> manifest_version json (mc_files m) p = Some v)"
proof -
  assume a: "read_manifest_version json pl p m = (r, m')"
  obtain q m1 where q: "fs_read_to_string pl p m = (q, m1)" by fastforce
  with a have "mc_files m' = mc_files m1"
    by (auto simp: read_manifest_version_def sc_bind_def result_of_def bail_def sc_return_def
        split: sum.splits option.splits)
  moreover have "manifest_version json (mc_files m) p = Some v" if "r = Inr v" for v
    using a that q fs_read_to_string_Inr [of pl p m _ m1]
    by (auto simp: read_manifest_version_def sc_bind_def result_of_def bail_def sc_return_def manifest_version_def
        split: sum.splits option.splits)
  ultimately show ?thesis using fs_read_to_string_files [OF q] by simp
qed

lemma embed_target_result:
  assumes "embed_target json pl root v t m = (r, m')"
  shows "mc_files m' = mc_files m"
    and "r = Inr c \<Longrightarrow> c = embedded_const root (mc_files m) t \<and>
      (populated root (mc_files m) t \<longrightarrow> manifest_version json (mc_files m) (agent_manifest root t) = Some v)"
proof -
  define m1 where "m1 = snd (say (''cargo:rerun-if-changed='' @ path_display (agent_manifest root t))
    (snd (say (''cargo:rerun-if-changed='' @ path_display (agent_bin root t)) m)))"
  have m1: "mc_files m1 = mc_files m" by (simp add: m1_def say_def)
  obtain q m2 where q: "read_manifest_version json pl (agent_manifest root t) m1 = (q, m2)" by fastforce
  note rd = read_manifest_version_result [OF q]
  have eq: "embed_target json pl root v t m =
     (if file_exists_at (agent_bin root t) m1 \<and> file_exists_at (agent_manifest root t) m1 then
        sc_bind (read_manifest_version json pl (agent_manifest root t)) (\<lambda>embedded.
          if embedded \<noteq> v then bail (stale_text (agent_bin root t) embedded v)
          else sc_return (triple_to_const_ident t, Some (path_display (agent_bin root t)))) m1
      else if file_exists_at (agent_bin root t) m1 \<or> file_exists_at (agent_manifest root t) m1 then
        sc_then (say (''cargo:warning=tepegoz-agent/'' @ t @
            '': found partial artifact (binary or manifest missing). Run '' @
            backquote ''cargo xtask build-agents'' @ '' to repopulate.''))
          (sc_return (triple_to_const_ident t, None)) m1
      else sc_return (triple_to_const_ident t, None) m1)"
    by (simp add: embed_target_def Let_def sc_then_def sc_bind_def say_def exists_path_def m1_def)
  show "mc_files m' = mc_files m"
    using assms q rd m1 unfolding eq
    by (auto simp: sc_bind_def sc_then_say bail_def sc_return_def split: if_splits sum.splits)
  show "c = embedded_const root (mc_files m) t \<and>
      (populated root (mc_files m) t \<longrightarrow> manifest_version json (mc_files m) (agent_manifest root t) = Some v)"
    if "r = Inr c"
    using assms q rd m1 that unfolding eq
    by (auto simp: sc_bind_Inr sc_return_Inr sc_then_say embedded_const_def populated_def file_exists_at_def split: if_splits)
qed

lemma embed_targets_result:
  "embed_targets json pl root v ts m = (r, m') \<Longrightarrow>
     mc_files m' = mc_files m \<and>
     (\<forall>cs. r = Inr cs \<longrightarrow> cs = map (embedded_const root (mc_files m)) ts \<and>
        (\<forall>t \<in> set ts. populated root (mc_files m) t \<longrightarrow>
           manifest_version json (mc_files m) (agent_manifest root t) = Some v))"
proof (induction ts arbitrary: m r m')
  case Nil
  then show ?case by (auto simp: sc_return_def)
next
  case (Cons t ts)
  obtain q m1 where q: "embed_target json pl root v t m = (q, m1)" by fastforce
  note e = embed_target_result [OF q]
  show ?case
  proof (cases q)
    case (Inl x)
    with Cons.prems q e show ?thesis by (auto simp: sc_bind_def)
  next
    case (Inr c)
    obtain q2 m2 where q2: "embed_targets json pl root v ts m1 = (q2, m2)" by fastforce
    from Cons.IH [OF q2] e(2) [OF Inr] e(1) Cons.prems q Inr q2 show ?thesis
      by (auto simp: sc_bind_def sc_return_def split: sum.splits)
  qed
qed

lemma build_rs_version_result:
  "build_rs_version unicode pl p m = (r, m') \<Longrightarrow>
     mc_files m' = mc_files m \<and> (\<forall>v. r = Inr v \<longrightarrow> version_in (mc_files m) p = Some v)"
proof -
  assume a: "build_rs_version unicode pl p m = (r, m')"
  obtain q m1 where q: "fs_read_to_string pl p m = (q, m1)" by fastforce
  with a have "mc_files m' = mc_files m1"
    by (auto simp: build_rs_version_def sc_bind_def result_of_def bail_def sc_return_def split: sum.splits option.splits)
  moreover have "version_in (mc_files m) p = Some v" if "r = Inr v" for v
    using a that q fs_read_to_string_Inr [of pl p m _ m1]
    by (auto simp: build_rs_version_def sc_bind_def result_of_def bail_def sc_return_def version_in_def
        split: sum.splits option.splits)
  ultimately show ?thesis using fs_read_to_string_files [OF q] by simp
qed

definition embedded_agents_file :: "'w platform \<Rightarrow> string" where
  "embedded_agents_file pl = path_join (case pl_var pl ''OUT_DIR'' of Some o1 \<Rightarrow> o1 | None \<Rightarrow> []) ''embedded_agents.rs''"

text \<open>The end of the script: the warning, and the file that is written.\<close>

definition emit_consts :: "'w platform \<Rightarrow> (string \<times> string option) list \<Rightarrow> ('w, (string \<times> string option) list) script" where
  "emit_consts pl cts =
     sc_then (if list_all (\<lambda>c. snd c = None) cts then say no_agents_warning else sc_return ())
       (sc_bind (expect_var pl ''OUT_DIR'') (\<lambda>out_dir.
          (let out_path = path_join out_dir ''embedded_agents.rs''
           in sc_bind (result_of (fs_write pl out_path
                  (bytes_of (emitted_header @ concat (map emitted_const cts) @ emitted_footer)))) (\<lambda>r.
                case r of
                  Inl e \<Rightarrow> bail (''failed to write '' @ path_display out_path @ '': '' @ ioe_text e)
                | Inr _ \<Rightarrow> sc_return cts))))"

lemma emit_consts_result:
  assumes "emit_consts pl cts m = (r, m')"
  shows "(\<forall>cs. r = Inr cs \<longrightarrow> cs = cts) \<and> (\<forall>p. p \<noteq> embedded_agents_file pl \<longrightarrow> mc_files m' p = mc_files m p)"
proof -
  define m1 where "m1 = snd ((if list_all (\<lambda>c. snd c = None) cts then say no_agents_warning else sc_return ()) m)"
  have m1: "mc_files m1 = mc_files m" by (simp add: m1_def say_def sc_return_def)
  have eq: "emit_consts pl cts m = sc_bind (expect_var pl ''OUT_DIR'') (\<lambda>out_dir.
          (let out_path = path_join out_dir ''embedded_agents.rs''
           in sc_bind (result_of (fs_write pl out_path
                  (bytes_of (emitted_header @ concat (map emitted_const cts) @ emitted_footer)))) (\<lambda>r.
                case r of
                  Inl e \<Rightarrow> bail (''failed to write '' @ path_display out_path @ '': '' @ ioe_text e)
                | Inr _ \<Rightarrow> sc_return cts))) m1"
    by (simp add: emit_consts_def sc_then_def sc_bind_def m1_def say_def sc_return_def)
  show ?thesis
  proof (cases "pl_var pl ''OUT_DIR''")
    case None
    with assms m1 show ?thesis
      unfolding eq by (auto simp: sc_bind_def expect_var_def bail_def)
  next
    case (Some out_dir)
    then have out: "embedded_agents_file pl = path_join out_dir ''embedded_agents.rs''"
      by (simp add: embedded_agents_file_def)
    define body where "body = bytes_of (emitted_header @ concat (map emitted_const cts) @ emitted_footer)"
    obtain q m2 where q: "fs_write pl (embedded_agents_file pl) body m1 = (q, m2)" by fastforce
    have "mc_files m2 p = mc_files m p" if "p \<noteq> embedded_agents_file pl" for p
      using fs_write_other [OF q that] m1 by simp
    with assms q Some show ?thesis
      unfolding eq out [symmetric] body_def [symmetric]
      by (auto simp: sc_bind_def expect_var_def sc_return_def result_of_def bail_def Let_def out [symmetric] body_def [symmetric]
          split: sum.splits)
  qed
qed

lemma controller_build_rs_split:
  assumes "pl_var pl ''CARGO_MANIFEST_DIR'' = Some d" "build_root d = Some root"
  shows "\<exists>m1. mc_files m1 = mc_files m \<and> mc_world m1 = mc_world m \<and> controller_build_rs unicode json pl m =
    sc_bind (build_rs_version unicode pl (version_file root)) (\<lambda>proto.
      sc_bind (embed_targets json pl root proto TARGETS) (emit_consts pl)) m1"
proof -
  have var: "expect_var pl ''CARGO_MANIFEST_DIR'' = sc_return d"
    using assms(1) by (simp add: expect_var_def)
  show ?thesis
    unfolding controller_build_rs_def emit_consts_def [symmetric] sc_then_say
    by (simp add: var assms(2) sc_bind_def [of "sc_return d"] sc_return_def sc_then_say emit_consts_def [symmetric])
      (rule exI [of _ "m\<lparr>mc_out := mc_out m @ _\<rparr>"], simp)
qed


section \<open>From cargo to the host\<close>

text \<open>What the build relies on in serde_json: the manifests that \<open>build-agents\<close> writes are read as they are meant.\<close>

definition json_reads :: "(string \<Rightarrow> string + u64 option) \<Rightarrow> bool" where
  "json_reads json \<longleftrightarrow> (\<forall>v n. \<forall>t \<in> set TARGETS. json (agent_manifest_text v t n) = Inr (Some (ucast v)))"

text \<open>Texts of ASCII characters.\<close>

definition ascii :: "string \<Rightarrow> bool" where
  "ascii s \<longleftrightarrow> list_all (\<lambda>c. (of_char c :: nat) < 128) s"

lemma from_utf8_ascii: "ascii s \<Longrightarrow> from_utf8 (bytes_of s) = Some s"
proof -
  assume "ascii s"
  then have "utf8_valid (bytes_of s)"
    unfolding ascii_def by (induction s) (simp_all add: bytes_of_def byte_of_ascii)
  then show ?thesis by (simp add: from_utf8_def)
qed

lemma ascii_show_nat: "ascii (show_nat n)"
  using show_nat_digits [of n] unfolding ascii_def is_digit_def by (rule list.pred_mono_strong) simp

lemma manifest_ascii:
  assumes "t \<in> set TARGETS"
  shows "ascii (agent_manifest_text v t n)"
proof -
  have append: "ascii (a @ b) \<longleftrightarrow> ascii a \<and> ascii b" for a b by (simp add: ascii_def)
  have "ascii t" using assms by (auto simp: TARGETS_def ascii_def)
  then show ?thesis
    unfolding agent_manifest_text_def show_u32_def quoted_def newline_def append
    using ascii_show_nat by (simp add: ascii_def)
qed

lemma u32_through_u64: "ucast (ucast (v :: u32) :: u64) = v"
  by (rule bit_word_eqI) (simp add: bit_unsigned_iff)

lemma in_place_version:
  assumes "json_reads json" "t \<in> set TARGETS" "in_place root v t fs"
  shows "manifest_version json fs (agent_manifest root t) = Some v" "populated root fs t"
  using assms from_utf8_ascii [OF manifest_ascii [OF assms(2)]]
  by (auto simp: in_place_def manifest_version_def populated_def json_reads_def u32_through_u64)

text \<open>Reading, when no call fails.\<close>

definition no_failures :: "'w platform \<Rightarrow> bool" where
  "no_failures pl \<longleftrightarrow> (\<forall>cs c. pl_fail pl cs c = None)"

lemma read_forward:
  "no_failures pl \<Longrightarrow> mc_files m p = Some (FeFile bs) \<Longrightarrow> from_utf8 bs = Some s \<Longrightarrow>
     fs_read_to_string pl p m = (Inr s, m\<lparr>mc_calls := mc_calls m @ [ClRead p]\<rparr>)"
  by (simp add: fs_read_to_string_def fs_read_def machine_call_def no_failures_def)

lemma embed_target_forward:
  assumes "no_failures pl" "populated root (mc_files m) t"
    and "manifest_version json (mc_files m) (agent_manifest root t) = Some v"
  shows "\<exists>m'. embed_target json pl root v t m = (Inr (embedded_const root (mc_files m) t), m') \<and> mc_files m' = mc_files m"
proof -
  obtain bs raw n where f: "mc_files m (agent_manifest root t) = Some (FeFile bs)" "from_utf8 bs = Some raw"
      "json raw = Inr (Some n)" "ucast n = v"
    using assms(3) by (auto simp: manifest_version_def split: option.splits file_entry.splits sum.splits)
  obtain q m' where q: "embed_target json pl root v t m = (q, m')" by fastforce
  have "q = Inr (embedded_const root (mc_files m) t)"
    using q assms(2) f read_forward [OF assms(1), of _ "agent_manifest root t" bs raw]
    by (simp add: embed_target_def Let_def sc_then_say sc_bind_def exists_path_def file_exists_at_def populated_def
        embedded_const_def read_manifest_version_def result_of_def sc_return_def)
  with q embed_target_result(1) [OF q] show ?thesis by simp
qed

lemma embed_targets_forward:
  assumes "no_failures pl"
    and "\<forall>t \<in> set ts. populated root (mc_files m) t \<and> manifest_version json (mc_files m) (agent_manifest root t) = Some v"
  shows "\<exists>m'. embed_targets json pl root v ts m = (Inr (map (embedded_const root (mc_files m)) ts), m') \<and>
    mc_files m' = mc_files m"
  using assms(2)
proof (induction ts arbitrary: m)
  case Nil
  then show ?case by (simp add: sc_return_def)
next
  case (Cons t ts)
  then obtain m1 where 1: "embed_target json pl root v t m = (Inr (embedded_const root (mc_files m) t), m1)"
      "mc_files m1 = mc_files m"
    using embed_target_forward [OF assms(1), of root m t json v] by auto
  with Cons.IH [of m1] Cons.prems obtain m2 where
    "embed_targets json pl root v ts m1 = (Inr (map (embedded_const root (mc_files m)) ts), m2)" "mc_files m2 = mc_files m"
    by auto
  with 1 show ?case by (simp add: sc_bind_def sc_return_def)
qed

text \<open>A file can be written there: its directory is there, and it is none itself.\<close>

definition can_write :: "file_tree \<Rightarrow> string \<Rightarrow> bool" where
  "can_write fs p \<longleftrightarrow> fs p \<noteq> Some FeDir \<and> (case path_parent p of Some d \<Rightarrow> d = [] \<or> fs d = Some FeDir | None \<Rightarrow> False)"

lemma emit_consts_forward:
  fixes pl :: "'w platform"
  assumes "no_failures pl" "pl_var pl ''OUT_DIR'' = Some out" "can_write (mc_files m) (embedded_agents_file pl)"
  shows "\<exists>m'. emit_consts pl cts m = (Inr cts, m')"
proof -
  define w :: "('w, unit) script" where
    "w = (if list_all (\<lambda>c. snd c = None) cts then say no_agents_warning else sc_return ())"
  obtain m1 where w: "w m = (Inr (), m1)" "mc_files m1 = mc_files m"
    by (cases "list_all (\<lambda>c. snd c = None) cts") (simp_all add: w_def say_def sc_return_def)
  have out: "path_join out ''embedded_agents.rs'' = embedded_agents_file pl"
    using assms(2) by (simp add: embedded_agents_file_def)
  have wr: "\<exists>m2. fs_write pl (embedded_agents_file pl) bs m1 = (Inr (), m2)" for bs
    using assms(1,3) w(2)
    by (auto simp: fs_write_def machine_call_def no_failures_def write_bytes_def can_write_def Let_def split: option.splits)
  show ?thesis
    using wr [of "bytes_of (emitted_header @ concat (map emitted_const cts) @ emitted_footer)"]
    unfolding emit_consts_def w_def [symmetric]
    by (auto simp: sc_then_def sc_bind_def w expect_var_def assms(2) sc_return_def out result_of_def Let_def)
qed

lemma compile_consts_all:
  assumes "\<forall>t \<in> set ts. fs (p t) = Some (FeFile (b t))"
  shows "compile_consts fs (map (\<lambda>t. (nm t, Some (p t))) ts) = Some (map (\<lambda>t. (nm t, Some (b t))) ts)"
  using assms by (induction ts) auto

lemma const_idents:
  "triple_to_const_ident ''x86_64-unknown-linux-musl'' = ''X86_64_UNKNOWN_LINUX_MUSL''"
  "triple_to_const_ident ''aarch64-unknown-linux-musl'' = ''AARCH64_UNKNOWN_LINUX_MUSL''"
  "triple_to_const_ident ''x86_64-apple-darwin'' = ''X86_64_APPLE_DARWIN''"
  "triple_to_const_ident ''aarch64-apple-darwin'' = ''AARCH64_APPLE_DARWIN''"
  by code_simp+

lemma for_target_all:
  "for_target (map (\<lambda>t. (triple_to_const_ident t, Some (b t))) TARGETS) t =
     (if t \<in> set TARGETS then Some (b t) else None)"
  by (simp add: for_target_def TARGETS_def const_idents Let_def)

text \<open>The whole build script and its compilation, when every target has a binary and a manifest of the right version.\<close>

lemma controller_forward:
  assumes "no_failures pl" "pl_var pl ''CARGO_MANIFEST_DIR'' = Some d" "build_root d = Some root"
    and "pl_var pl ''OUT_DIR'' = Some out" "can_write (mc_files m) (embedded_agents_file pl)"
    and "\<forall>t \<in> set TARGETS. embedded_agents_file pl \<noteq> agent_bin root t \<and> path_display (agent_bin root t) = agent_bin root t"
    and "version_in (mc_files m) (version_file root) = Some v"
    and "\<And>t. t \<in> set TARGETS \<Longrightarrow> mc_files m (agent_bin root t) = Some (FeFile (b t)) \<and>
      populated root (mc_files m) t \<and> manifest_version json (mc_files m) (agent_manifest root t) = Some v"
  shows "\<exists>cts m'. controller_build_rs unicode json pl m = (Inr cts, m') \<and>
    compile_consts (mc_files m') cts = Some (map (\<lambda>t. (triple_to_const_ident t, Some (b t))) TARGETS)"
proof -
  obtain m2 where m2: "mc_files m2 = mc_files m" and eq: "controller_build_rs unicode json pl m =
    sc_bind (build_rs_version unicode pl (version_file root)) (\<lambda>proto.
      sc_bind (embed_targets json pl root proto TARGETS) (emit_consts pl)) m2"
    using controller_build_rs_split [OF assms(2,3)] by metis
  from assms(7) obtain raw s where "mc_files m2 (version_file root) = Some (FeFile raw)" "from_utf8 raw = Some s" "parse_u32 (trim s) = Some v"
    by (auto simp: m2 version_in_def split: option.splits file_entry.splits)
  then obtain m3 where m3: "build_rs_version unicode pl (version_file root) m2 = (Inr v, m3)" "mc_files m3 = mc_files m"
    using read_forward [OF assms(1), of m2 "version_file root" raw s]
    by (simp add: build_rs_version_def sc_bind_def result_of_def sc_return_def m2)
  let ?cts = "map (embedded_const root (mc_files m)) TARGETS"
  obtain m4 where m4: "embed_targets json pl root v TARGETS m3 = (Inr ?cts, m4)" "mc_files m4 = mc_files m"
    using embed_targets_forward [OF assms(1), of TARGETS root m3 json v] assms(8) m3(2) by auto
  obtain m5 where m5: "emit_consts pl ?cts m4 = (Inr ?cts, m5)"
    using emit_consts_forward [OF assms(1,4), of m4] assms(5) m4(2) by auto
  have run: "controller_build_rs unicode json pl m = (Inr ?cts, m5)"
    unfolding eq by (simp add: sc_bind_def m3 m4 m5)
  have "?cts = map (\<lambda>t. (triple_to_const_ident t, Some (agent_bin root t))) TARGETS"
    using assms(6,8) by (simp add: embedded_const_def)
  moreover have "\<forall>t \<in> set TARGETS. mc_files m5 (agent_bin root t) = Some (FeFile (b t))"
    using emit_consts_result [OF m5] assms(6,8) m4(2) by (metis (no_types, lifting))
  ultimately have "compile_consts (mc_files m5) ?cts = Some (map (\<lambda>t. (triple_to_const_ident t, Some (b t))) TARGETS)"
    by (simp only: compile_consts_all)
  with run show ?thesis by blast
qed


section \<open>A small workshop\<close>

text \<open>
  A workspace at \<open>/w\<close> whose cargo writes the name of the target as its output, and does so at once; a build
  script with its output directory at \<open>/o\<close>, and a reader of manifests that takes the first number.
\<close>

definition shop_out :: "string" where "shop_out = ''/o''"

definition shop_files :: file_tree where
  "shop_files p =
     (if p = version_file ''/w'' then Some (FeFile (bytes_of ''12''))
      else if p = ''/o/embedded_agents.rs'' \<or> p \<in> agent_bin ''/w'' ` set TARGETS \<or> p \<in> agent_manifest ''/w'' ` set TARGETS
      then None else Some FeDir)"

definition shop_machine :: "unit machine" where
  "shop_machine = \<lparr>mc_files = shop_files, mc_world = (), mc_calls = [], mc_out = []\<rparr>"

definition shop_run :: "invocation \<Rightarrow> file_tree \<times> unit \<Rightarrow> (io_error + process_out) \<times> file_tree \<times> unit" where
  "shop_run iv fw =
     (Inr \<lparr>px_success = True, px_status = ''exit status: 0'', px_stdout = [], px_stderr = []\<rparr>,
      (if list_ex (\<lambda>t. t = last (iv_argv iv)) TARGETS
       then (fst fw)(cargo_output ''/w'' (last (iv_argv iv)) \<mapsto> FeFile (bytes_of (last (iv_argv iv))))
       else fst fw), ())"

definition shop :: "unit platform" where
  "shop = \<lparr>pl_linux = True, pl_macos = False, pl_cwd = Inr ''/w'',
     pl_var = [''CARGO_MANIFEST_DIR'' \<mapsto> ''/w/crates/tepegoz'', ''OUT_DIR'' \<mapsto> shop_out], pl_run = shop_run,
     pl_spawn = (\<lambda>_ fw. (Inr 1, fw)), pl_kill = (\<lambda>_ fw. fw), pl_connects = (\<lambda>_ _. True), pl_sleep = (\<lambda>_ fw. fw),
     pl_fail = (\<lambda>_ _. None), pl_torn = (\<lambda>_. None), pl_kept = (\<lambda>_ _. False), pl_unix_secs = (\<lambda>_. 7)\<rparr>"

definition first_number :: "string \<Rightarrow> string + u64 option" where
  "first_number s = Inr (map_option word_of_nat (parse_uint (2 ^ 64)
     (takeWhile is_digit (dropWhile (\<lambda>c. \<not> is_digit c) s))))"

lemma number_in_front:
  "dropWhile (\<lambda>c. \<not> is_digit c) (show_nat k @ r) = show_nat k @ r"
  "\<not> is_digit c \<Longrightarrow> takeWhile is_digit (show_nat k @ c # r) = show_nat k"
proof -
  have digits: "\<forall>x \<in> set (show_nat k). is_digit x" using show_nat_digits [of k] by (simp add: list_all_iff)
  show "dropWhile (\<lambda>c. \<not> is_digit c) (show_nat k @ r) = show_nat k @ r"
    using digits by (cases "show_nat k") auto
  show "takeWhile is_digit (show_nat k @ c # r) = show_nat k" if "\<not> is_digit c"
    using digits that by (simp add: takeWhile_append)
qed

lemma first_number_reads: "json_reads first_number"
proof -
  have "first_number (agent_manifest_text v t n) = Inr (Some (ucast v))" for v t n
  proof -
    obtain r where "dropWhile (\<lambda>c. \<not> is_digit c) (agent_manifest_text v t n) =
        dropWhile (\<lambda>c. \<not> is_digit c) (show_nat (unat v) @ CHR '','' # r)"
      by (simp add: agent_manifest_text_def newline_def quoted_def show_u32_def is_digit_def)
    moreover have "\<not> is_digit (CHR '','')" by (simp add: is_digit_def)
    ultimately have "takeWhile is_digit (dropWhile (\<lambda>c. \<not> is_digit c) (agent_manifest_text v t n)) = show_nat (unat v)"
      by (simp only: number_in_front simp_thms)
    moreover have "unat v < 2 ^ LENGTH(32)" by (rule unsigned_less)
    ultimately show ?thesis
      by (simp add: first_number_def parse_uint_show_nat unsigned_ucast_eq)
  qed
  then show ?thesis by (simp add: json_reads_def)
qed

lemma shop_places:
  "t \<in> set TARGETS \<Longrightarrow> path_join (agents_dir ''/w'') t \<noteq> version_file ''/w'' \<and>
     path_join (agents_dir ''/w'') t \<noteq> ''/o/embedded_agents.rs'' \<and> agent_bin ''/w'' t \<noteq> ''/o/embedded_agents.rs'' \<and>
     agent_manifest ''/w'' t \<noteq> ''/o/embedded_agents.rs'' \<and> path_display (agent_bin ''/w'' t) = agent_bin ''/w'' t \<and>
     path_parent (agent_bin ''/w'' t) = Some (path_join (agents_dir ''/w'') t) \<and>
     path_parent (agent_manifest ''/w'' t) = Some (path_join (agents_dir ''/w'') t) \<and>
     (\<forall>t' \<in> set TARGETS. path_join (agents_dir ''/w'') t \<noteq> agent_bin ''/w'' t' \<and>
        path_join (agents_dir ''/w'') t \<noteq> agent_manifest ''/w'' t' \<and> path_join (agents_dir ''/w'') t \<noteq> cargo_output ''/w'' t') \<and>
     cargo_output ''/w'' t \<noteq> version_file ''/w'' \<and> ''/o'' \<noteq> agent_bin ''/w'' t \<and> ''/o'' \<noteq> agent_manifest ''/w'' t \<and>
     ''/o'' \<noteq> cargo_output ''/w'' t"
proof -
  have "list_all (\<lambda>t. path_join (agents_dir ''/w'') t \<noteq> version_file ''/w'' \<and>
     path_join (agents_dir ''/w'') t \<noteq> ''/o/embedded_agents.rs'' \<and> agent_bin ''/w'' t \<noteq> ''/o/embedded_agents.rs'' \<and>
     agent_manifest ''/w'' t \<noteq> ''/o/embedded_agents.rs'' \<and> path_display (agent_bin ''/w'' t) = agent_bin ''/w'' t \<and>
     path_parent (agent_bin ''/w'' t) = Some (path_join (agents_dir ''/w'') t) \<and>
     path_parent (agent_manifest ''/w'' t) = Some (path_join (agents_dir ''/w'') t) \<and>
     list_all (\<lambda>t'. path_join (agents_dir ''/w'') t \<noteq> agent_bin ''/w'' t' \<and>
        path_join (agents_dir ''/w'') t \<noteq> agent_manifest ''/w'' t' \<and> path_join (agents_dir ''/w'') t \<noteq> cargo_output ''/w'' t') TARGETS \<and>
     cargo_output ''/w'' t \<noteq> version_file ''/w'' \<and> ''/o'' \<noteq> agent_bin ''/w'' t \<and> ''/o'' \<noteq> agent_manifest ''/w'' t \<and>
     ''/o'' \<noteq> cargo_output ''/w'' t) TARGETS"
    by code_simp
  then show "t \<in> set TARGETS \<Longrightarrow> ?thesis" by (simp only: list_all_iff) blast
qed

lemma calls_forward:
  assumes "no_failures pl"
  shows "mc_files m p = Some FeDir \<Longrightarrow> \<exists>m'. fs_create_dir_all pl p m = (Inr (), m') \<and> mc_files m' = mc_files m"
    and "can_write (mc_files m) p \<Longrightarrow>
      \<exists>m'. fs_write pl p bs m = (Inr (), m') \<and> mc_files m' = (mc_files m)(p \<mapsto> FeFile bs)"
    and "can_write (mc_files m) p \<Longrightarrow> mc_files m q = Some (FeFile bs) \<Longrightarrow>
      \<exists>m'. fs_copy pl q p m = (Inr (), m') \<and> mc_files m' = (mc_files m)(p \<mapsto> FeFile bs)"
  using assms
  by (auto simp: fs_create_dir_all_def fs_write_def fs_copy_def machine_call_def no_failures_def write_bytes_def
      can_write_def put_file_def Let_def split: option.splits)

definition shop_ready :: "file_tree \<Rightarrow> bool" where
  "shop_ready fs \<longleftrightarrow> fs ''/o'' = Some FeDir \<and> fs ''/o/embedded_agents.rs'' \<noteq> Some FeDir \<and> (\<forall>t \<in> set TARGETS. fs (path_join (agents_dir ''/w'') t) = Some FeDir \<and>
     fs (agent_bin ''/w'' t) \<noteq> Some FeDir \<and> fs (agent_manifest ''/w'' t) \<noteq> Some FeDir)"

lemma shop_can_write:
  "shop_ready fs \<Longrightarrow> t \<in> set TARGETS \<Longrightarrow> can_write fs (agent_bin ''/w'' t) \<and> can_write fs (agent_manifest ''/w'' t)"
  using shop_places [of t] by (auto simp: shop_ready_def can_write_def)

lemma shop_ready_put:
  assumes "shop_ready fs" "t \<in> set TARGETS"
    and "q = agent_bin ''/w'' t \<or> q = agent_manifest ''/w'' t \<or> q = cargo_output ''/w'' t"
  shows "shop_ready (fs(q \<mapsto> FeFile bs))"
  unfolding shop_ready_def
proof (intro conjI ballI)
  have "''/o'' \<noteq> q" using shop_places [OF assms(2)] assms(3) by blast
  with assms(1) show "(fs(q \<mapsto> FeFile bs)) ''/o'' = Some FeDir"
    unfolding shop_ready_def by (simp only: fun_upd_apply if_False)
  show "(fs(q \<mapsto> FeFile bs)) ''/o/embedded_agents.rs'' \<noteq> Some FeDir"
    using assms(1) unfolding shop_ready_def by (simp only: fun_upd_apply) (simp split: if_split)
  fix t' assume t': "t' \<in> set TARGETS"
  then have "path_join (agents_dir ''/w'') t' \<noteq> q" using shop_places assms(2,3) by blast
  with assms(1) t' show "(fs(q \<mapsto> FeFile bs)) (path_join (agents_dir ''/w'') t') = Some FeDir"
    unfolding shop_ready_def by (simp only: fun_upd_apply if_False)
  show "(fs(q \<mapsto> FeFile bs)) (agent_bin ''/w'' t') \<noteq> Some FeDir" "(fs(q \<mapsto> FeFile bs)) (agent_manifest ''/w'' t') \<noteq> Some FeDir"
    using assms(1) t' unfolding shop_ready_def by (simp_all only: fun_upd_apply) (simp_all split: if_split)
qed

lemma shop_quiet: "no_failures shop"
  by (simp add: no_failures_def shop_def)

lemma shop_cargo:
  assumes "t \<in> set TARGETS"
  shows "\<exists>m'. run_cargo shop ''/w'' package profile t m = (Inr (), m') \<and>
    mc_files m' = (mc_files m)(cargo_output ''/w'' t \<mapsto> FeFile (bytes_of t))"
  using assms
  by (auto simp: run_cargo_def with_context_def attempt_def run_program_def shop_def shop_run_def cargo_invocation_def
      sc_bind_def sc_return_def in_world_def list_ex_iff)

lemma shop_build_agent:
  assumes "shop_ready (mc_files m)" "t \<in> set TARGETS"
  shows "\<exists>m'. build_agent shop ''/w'' v t m = (Inr (), m') \<and> shop_ready (mc_files m') \<and>
    (\<forall>p. mc_files m p \<noteq> None \<longrightarrow> mc_files m' p \<noteq> None)"
proof -
  let ?src = "cargo_output ''/w'' t" and ?bin = "agent_bin ''/w'' t" and ?man = "agent_manifest ''/w'' t"
  let ?dir = "path_join (agents_dir ''/w'') t"
  obtain m0 where m0: "say (''[build-agents] cross-compiling '' @ t @ '' (cargo '' @ cargo_subcmd shop t @ '')'' @ ellipsis) m = (Inr (), m0)"
      "mc_files m0 = mc_files m"
    using say_fw by blast
  obtain m1 where m1: "run_cargo shop ''/w'' ''tepegoz-agent'' AGENT_PROFILE t m0 = (Inr (), m1)"
      "mc_files m1 = (mc_files m)(?src \<mapsto> FeFile (bytes_of t))"
    using shop_cargo [OF assms(2), of "''tepegoz-agent''" AGENT_PROFILE m0] m0(2) by auto
  have r1: "shop_ready (mc_files m1)"
    unfolding m1(2) using assms by (intro shop_ready_put) auto
  then obtain m2 where m2: "fs_create_dir_all shop ?dir m1 = (Inr (), m2)" "mc_files m2 = mc_files m1"
    using calls_forward(1) [OF shop_quiet, of m1 ?dir] assms(2) by (auto simp: shop_ready_def)
  obtain m3 where m3: "fs_copy shop ?src ?bin m2 = (Inr (), m3)" "mc_files m3 = (mc_files m1)(?bin \<mapsto> FeFile (bytes_of t))"
    using calls_forward(3) [OF shop_quiet, of m2 ?bin ?src "bytes_of t"] shop_can_write [OF r1 assms(2)] m1(2) m2(2) by auto
  have r3: "shop_ready (mc_files m3)"
    unfolding m3(2) using r1 assms(2) by (intro shop_ready_put) auto
  define n where "n = pl_unix_secs shop (mc_calls m3)"
  obtain m4 where w: "fs_write shop ?man (bytes_of (agent_manifest_text v t n)) m3 = (Inr (), m4)"
      and f4: "mc_files m4 = (mc_files m3)(?man \<mapsto> FeFile (bytes_of (agent_manifest_text v t n)))"
    using calls_forward(2) [OF shop_quiet, of m3 ?man] shop_can_write [OF r3 assms(2)] by blast
  from w have "write_agent_manifest shop ?man t v m3 = (Inr (), m4)"
    by (simp add: write_agent_manifest_def with_context_def attempt_def n_def)
  note m4 = this f4
  have there: "exists_path ?src m1 = (Inr True, m1)"
    by (simp add: exists_path_def file_exists_at_def m1(2))
  have "build_agent shop ''/w'' v t m = report_size t ?bin m4"
    unfolding build_agent_def Let_def sc_then_fw [of "say _", OF m0(1)] sc_then_fw [of "run_cargo _ _ _ _ _", OF m1(1)]
      sc_bind_fw [of "exists_path _", OF there] not_True_eq_False if_False
      sc_then_fw [of "with_context _ _", OF attempt_fw [of "fs_create_dir_all _ _", OF m2(1)]]
      sc_then_fw [of "with_context _ _", OF attempt_fw [of "fs_copy _ _ _", OF m3(1)]]
      sc_then_fw [of "write_agent_manifest _ _ _ _", OF m4(1)] ..
  then have "\<exists>m'. build_agent shop ''/w'' v t m = (Inr (), m') \<and> mc_files m' = mc_files m4"
    by (simp add: report_size_def say_def)
  moreover have "shop_ready (mc_files m4)"
    unfolding m4(2) using r3 assms(2) by (intro shop_ready_put) auto
  moreover have "\<forall>p. mc_files m p \<noteq> None \<longrightarrow> mc_files m4 p \<noteq> None"
    by (simp add: m4(2) m3(2) m1(2))
  ultimately show ?thesis by auto
qed

lemma shop_each:
  "set ts \<subseteq> set TARGETS \<Longrightarrow> shop_ready (mc_files m) \<Longrightarrow>
     \<exists>m'. for_each (build_agent shop ''/w'' v) ts m = (Inr (), m') \<and> shop_ready (mc_files m') \<and>
       (\<forall>p. mc_files m p \<noteq> None \<longrightarrow> mc_files m' p \<noteq> None)"
proof (induction ts arbitrary: m)
  case Nil
  then show ?case by (simp add: sc_return_def)
next
  case (Cons t ts)
  then obtain m1 where m1: "build_agent shop ''/w'' v t m = (Inr (), m1)" "shop_ready (mc_files m1)"
      "\<forall>p. mc_files m p \<noteq> None \<longrightarrow> mc_files m1 p \<noteq> None"
    using shop_build_agent [of m t v] by auto
  moreover obtain m2 where "for_each (build_agent shop ''/w'' v) ts m1 = (Inr (), m2)" "shop_ready (mc_files m2)"
      "\<forall>p. mc_files m1 p \<noteq> None \<longrightarrow> mc_files m2 p \<noteq> None"
    using Cons.IH [of m1] Cons.prems(1) m1(2) by auto
  ultimately show ?case by (auto simp: sc_then_def sc_bind_def)
qed

lemma shop_asks: "\<exists>m'. ensure_on_path shop b h m = (Inr (), m') \<and> mc_files m' = mc_files m"
proof -
  have "\<not> list_ex (\<lambda>t. t = ''--version'') TARGETS" by (simp add: TARGETS_def)
  then show ?thesis
    by (simp add: ensure_on_path_def sc_bind_def result_of_def run_program_def shop_def shop_run_def in_world_def
        invoke_def sc_return_def)
qed

lemma shop_preflight: "\<exists>m'. agents_preflight shop m = (Inr (), m') \<and> mc_files m' = mc_files m"
proof -
  obtain m1 where 1: "ensure_on_path shop ''cargo''
       (''cargo is required '' @ em_dash @ '' install Rust via https://rustup.rs and retry'') m = (Inr (), m1)"
      "mc_files m1 = mc_files m"
    using shop_asks by blast
  obtain m2 where 2: "ensure_on_path shop ''zig''
       (''zig is required for cross-compilation '' @ em_dash @
        '' install via https://ziglang.org/download/ (or '' @ backquote ''brew install zig'' @ '')'') m1 = (Inr (), m2)"
      "mc_files m2 = mc_files m1"
    using shop_asks by blast
  show ?thesis
    unfolding agents_preflight_def sc_then_fw [of "ensure_on_path _ _ _", OF 1(1)]
      sc_then_fw [of "ensure_on_path _ _ _", OF 2(1)]
    using 1(2) 2(2) shop_asks by metis
qed

lemma shop_start: "shop_ready shop_files"
  unfolding shop_ready_def
proof (intro conjI ballI)
  have "''/o'' \<noteq> version_file ''/w''" "''/o/embedded_agents.rs'' \<noteq> version_file ''/w''" by code_simp+
  then show "shop_files ''/o'' = Some FeDir" "shop_files ''/o/embedded_agents.rs'' \<noteq> Some FeDir"
    using shop_places by (auto simp: shop_files_def)
  fix t assume t: "t \<in> set TARGETS"
  have "''/w'' \<noteq> []" by simp
  from t shop_places [OF t] places_differ(6,7) [OF this t t]
  show "shop_files (path_join (agents_dir ''/w'') t) = Some FeDir" "shop_files (agent_bin ''/w'' t) \<noteq> Some FeDir"
    "shop_files (agent_manifest ''/w'' t) \<noteq> Some FeDir"
    by (auto simp: shop_files_def)
qed

text \<open>The same workshop, when the disk is full whenever a binary is copied, after three bytes.\<close>

definition full_disk :: "unit platform" where
  "full_disk = shop\<lparr>pl_fail := (\<lambda>_ c. case c of ClCopy _ _ \<Rightarrow> Some (other_error ''No space left on device (os error 28)'') | _ \<Rightarrow> None),
     pl_torn := (\<lambda>_. Some 3)\<rparr>"

lemma full_disk_same:
  "run_program full_disk iv m = run_program shop iv m" "pl_cwd full_disk = pl_cwd shop" "pl_macos full_disk = pl_macos shop"
  "fs_create_dir_all full_disk p m = fs_create_dir_all shop p m" "fs_read full_disk p m = fs_read shop p m"
  by (simp_all add: run_program_def full_disk_def shop_def fs_create_dir_all_def fs_read_def machine_call_def)

lemma full_disk_calls:
  "run_program full_disk = run_program shop" "fs_read_to_string full_disk = fs_read_to_string shop"
  by (intro ext, simp add: full_disk_same fs_read_to_string_def)+

lemma full_disk_scripts:
  "run_cargo full_disk root package profile t m = run_cargo shop root package profile t m"
  "agents_preflight full_disk = agents_preflight shop"
  "locate_workspace_root full_disk = locate_workspace_root shop"
  "parse_version full_disk = parse_version shop"
  by (simp_all only: run_cargo_def cargo_invocation_def cargo_subcmd_def full_disk_calls full_disk_same)
     (intro ext, simp only: agents_preflight_def ensure_on_path_def locate_workspace_root_def parse_version_def
       full_disk_calls full_disk_same)+

text \<open>\<open>build-agents\<close> up to its loop, in the workshop and with the full disk.\<close>

lemma shop_opening:
  assumes "mc_files m (path_join ''/w'' ''Cargo.toml'') \<noteq> None" "version_in (mc_files m) (version_file ''/w'') = Some v"
    and "pl = shop \<or> pl = full_disk"
  shows "\<exists>m1. mc_files m1 = mc_files m \<and> build_agents pl m = sc_then (for_each (build_agent pl ''/w'' v) TARGETS)
     (sc_then (say ''[build-agents] all four targets built + manifests written.'')
       (say (''[build-agents] layout: '' @ path_display (agents_dir ''/w'')))) m1"
proof -
  have same: "agents_preflight pl = agents_preflight shop" "locate_workspace_root pl = locate_workspace_root shop"
      "parse_version pl = parse_version shop"
    using assms(3) full_disk_scripts by auto
  obtain m1 where 1: "agents_preflight shop m = (Inr (), m1)" "mc_files m1 = mc_files m"
    using shop_preflight by blast
  have ex: "exists_path (path_join ''/w'' ''Cargo.toml'') m1 = (Inr True, m1)"
    using assms(1) by (simp only: exists_path_def file_exists_at_def 1(2)) simp
  have cwd: "pl_cwd shop = Inr ''/w''" by (simp add: shop_def)
  have 2: "locate_workspace_root shop ''build-agents'' m1 = (Inr ''/w'', m1)"
    unfolding locate_workspace_root_def cwd sum.case sc_bind_fw [of "exists_path _", OF ex] if_True by (rule sc_return_def)
  from assms(2) obtain raw s where "mc_files m1 (version_file ''/w'') = Some (FeFile raw)" "from_utf8 raw = Some s"
      "parse_u32 (trim s) = Some v"
    by (auto simp: 1(2) version_in_def split: option.splits file_entry.splits)
  then obtain m3 where 3: "parse_version shop (version_file ''/w'') m1 = (Inr v, m3)" "mc_files m3 = mc_files m"
    using read_forward [OF shop_quiet, of m1 "version_file ''/w''" raw s] 1(2)
    by (simp add: parse_version_def sc_bind_def with_context_def attempt_def sc_return_def)
  obtain m4 where 4: "say (''[build-agents] source of truth: protocol v'' @ show_u32 v @ '' (from '' @
        path_display (version_file ''/w'') @ '')'') m3 = (Inr (), m4)" "mc_files m4 = mc_files m"
    using say_fw 3(2) by metis
  have ctx: "with_context (''reading PROTOCOL_VERSION source of truth at '' @ path_display (version_file ''/w''))
      (parse_version shop (version_file ''/w'')) m1 = (Inr v, m3)"
    using 3(1) by (simp add: with_context_def)
  show ?thesis
    unfolding build_agents_def same sc_then_fw [of "agents_preflight _", OF 1(1)] sc_bind_fw [of "locate_workspace_root _ _", OF 2]
      sc_bind_fw [of "with_context _ _", OF ctx] sc_then_fw [of "say _", OF 4(1)]
    using 4(2) by blast
qed

lemma shop_writable: "shop_ready fs \<Longrightarrow> can_write fs ''/o/embedded_agents.rs''"
proof -
  have "path_parent ''/o/embedded_agents.rs'' = Some ''/o''" by code_simp
  then show "shop_ready fs \<Longrightarrow> can_write fs ''/o/embedded_agents.rs''"
    by (simp add: can_write_def shop_ready_def)
qed

lemma shop_version: "version_in shop_files (version_file ''/w'') = Some 12"
proof -
  have "from_utf8 (bytes_of ''12'') = Some ''12''" by (rule from_utf8_ascii) (simp add: ascii_def)
  moreover have "trim ''12'' = ''12''" by (simp add: trim_def trim_start_id ws_len.simps)
  moreover have "parse_u32 ''12'' = Some 12"
    by (simp add: parse_u32_def parse_uint_def is_digit_def digits_val_def digit_val_def)
  ultimately show ?thesis by (simp add: version_in_def shop_files_def)
qed

lemma shop_build_agents:
  "\<exists>m'. build_agents shop shop_machine = (Inr (), m') \<and> can_write (mc_files m') ''/o/embedded_agents.rs'' \<and>
     shop_ready (mc_files m') \<and> mc_files m' (path_join ''/w'' ''Cargo.toml'') \<noteq> None"
proof -
  have "path_join ''/w'' ''Cargo.toml'' \<notin> agent_bin ''/w'' ` set TARGETS \<union> agent_manifest ''/w'' ` set TARGETS"
    "path_join ''/w'' ''Cargo.toml'' \<noteq> ''/o/embedded_agents.rs''"
    by code_simp+
  then have toml: "mc_files shop_machine (path_join ''/w'' ''Cargo.toml'') \<noteq> None"
    unfolding shop_machine_def machine.select_convs shop_files_def
    by (simp only: Un_iff de_Morgan_disj) (simp split: if_split)
  moreover have "version_in (mc_files shop_machine) (version_file ''/w'') = Some 12"
    using shop_version by (simp add: shop_machine_def)
  ultimately obtain m4 where 4: "mc_files m4 = mc_files shop_machine"
      and run: "build_agents shop shop_machine = sc_then (for_each (build_agent shop ''/w'' 12) TARGETS)
        (sc_then (say ''[build-agents] all four targets built + manifests written.'')
          (say (''[build-agents] layout: '' @ path_display (agents_dir ''/w'')))) m4"
    using shop_opening by blast
  have "shop_ready (mc_files m4)" using shop_start by (simp add: 4 shop_machine_def)
  then obtain m5 where 5: "for_each (build_agent shop ''/w'' 12) TARGETS m4 = (Inr (), m5)" "shop_ready (mc_files m5)"
      "\<forall>p. mc_files m4 p \<noteq> None \<longrightarrow> mc_files m5 p \<noteq> None"
    using shop_each [of TARGETS m4 12] by auto
  obtain m6 where 6: "say ''[build-agents] all four targets built + manifests written.'' m5 = (Inr (), m6)"
      "mc_files m6 = mc_files m5"
    using say_fw by metis
  obtain m7 where 7: "say (''[build-agents] layout: '' @ path_display (agents_dir ''/w'')) m6 = (Inr (), m7)"
      "mc_files m7 = mc_files m5"
    using say_fw 6(2) by metis
  have "build_agents shop shop_machine = (Inr (), m7)"
    unfolding run sc_then_fw [of "for_each _ _", OF 5(1)] sc_then_fw [of "say _", OF 6(1)] by (rule 7(1))
  moreover have "can_write (mc_files m7) ''/o/embedded_agents.rs''"
    using 5(2) by (simp add: 7(2) shop_writable)
  moreover have "mc_files m7 (path_join ''/w'' ''Cargo.toml'') \<noteq> None"
    using 5(3) toml by (simp add: 7(2) 4)
  ultimately show ?thesis using 5(2) by (auto simp: 7(2))
qed

lemma shop_keeps: "cargo_keeps shop ''/w''"
  unfolding cargo_keeps_def
proof (intro allI impI)
  fix package profile t fs p and w :: unit
  assume p: "p = version_file ''/w'' \<or> (\<exists>t' \<in> set TARGETS. p = agent_bin ''/w'' t' \<or> p = agent_manifest ''/w'' t' \<or>
    t' \<noteq> t \<and> p = cargo_output ''/w'' t')"
  have ne: "''/w'' \<noteq> []" by simp
  have "cargo_output ''/w'' t \<noteq> p" if t: "t \<in> set TARGETS"
    using p shop_places [OF t] places_differ(4,5) [OF ne _ t] agent_paths(3) [OF ne target_names [OF t]]
      agent_paths(3) [OF ne target_names] by fastforce
  then show "fst (snd (pl_run shop (cargo_invocation shop ''/w'' package profile t) (fs, w))) p = fs p"
    by (auto simp: shop_def shop_run_def cargo_invocation_def list_ex_iff)
qed

lemma shop_env:
  "pl_cwd shop = Inr ''/w''" "''/w'' \<noteq> []" "pl_var shop ''CARGO_MANIFEST_DIR'' = Some ''/w/crates/tepegoz''"
  "pl_var shop ''OUT_DIR'' = Some ''/o''" "build_root ''/w/crates/tepegoz'' = Some ''/w''"
  "embedded_agents_file shop = ''/o/embedded_agents.rs''"
proof -
  show "pl_cwd shop = Inr ''/w''" "''/w'' \<noteq> []" "pl_var shop ''CARGO_MANIFEST_DIR'' = Some ''/w/crates/tepegoz''"
    by (simp_all add: shop_def)
  show var: "pl_var shop ''OUT_DIR'' = Some ''/o''" by (simp add: shop_def shop_out_def)
  have "path_join ''/o'' ''embedded_agents.rs'' = ''/o/embedded_agents.rs''" by code_simp
  then show "embedded_agents_file shop = ''/o/embedded_agents.rs''" by (simp add: embedded_agents_file_def var)
  show "build_root ''/w/crates/tepegoz'' = Some ''/w''" by code_simp
qed

lemma shop_apart:
  "\<forall>t \<in> set TARGETS. embedded_agents_file shop \<noteq> agent_bin ''/w'' t \<and> path_display (agent_bin ''/w'' t) = agent_bin ''/w'' t"
  using shop_places by (metis shop_env(6))



section \<open>A disk that fills up\<close>

lemma full_disk_build_agent:
  assumes "shop_ready (mc_files m)" "t \<in> set TARGETS"
  shows "\<exists>e m'. build_agent full_disk ''/w'' v t m = (Inl e, m') \<and>
    mc_files m' = (mc_files m)(cargo_output ''/w'' t \<mapsto> FeFile (bytes_of t), agent_bin ''/w'' t \<mapsto> FeFile (take 3 (bytes_of t)))"
proof -
  let ?src = "cargo_output ''/w'' t" and ?bin = "agent_bin ''/w'' t"
  let ?dir = "path_join (agents_dir ''/w'') t"
  obtain m0 where m0: "say (''[build-agents] cross-compiling '' @ t @ '' (cargo '' @ cargo_subcmd full_disk t @ '')'' @ ellipsis) m = (Inr (), m0)"
      "mc_files m0 = mc_files m"
    using say_fw by blast
  obtain m1 where m1: "run_cargo full_disk ''/w'' ''tepegoz-agent'' AGENT_PROFILE t m0 = (Inr (), m1)"
      "mc_files m1 = (mc_files m)(?src \<mapsto> FeFile (bytes_of t))"
    using shop_cargo [OF assms(2), of "''tepegoz-agent''" AGENT_PROFILE m0] m0(2) by (auto simp: full_disk_scripts)
  have "shop_ready (mc_files m1)"
    unfolding m1(2) using assms by (intro shop_ready_put) auto
  then obtain m2 where m2: "fs_create_dir_all full_disk ?dir m1 = (Inr (), m2)" "mc_files m2 = mc_files m1"
    using calls_forward(1) [OF shop_quiet, of m1 ?dir] assms(2) by (auto simp: shop_ready_def full_disk_same)
  have there: "exists_path ?src m1 = (Inr True, m1)"
    by (simp add: exists_path_def file_exists_at_def m1(2))
  obtain e m3 where m3: "with_context (copy_context ?src ?bin) (attempt (fs_copy full_disk ?src ?bin)) m2 = (Inl e, m3)"
      "mc_files m3 = (mc_files m1)(?bin \<mapsto> FeFile (take 3 (bytes_of t)))"
    using m1(2) m2(2)
    by (simp add: with_context_def attempt_def fs_copy_def machine_call_def full_disk_def torn_file_def put_file_def Let_def)
  have "build_agent full_disk ''/w'' v t m = (Inl e, m3)"
    unfolding build_agent_def Let_def sc_then_fw [of "say _", OF m0(1)] sc_then_fw [of "run_cargo _ _ _ _ _", OF m1(1)]
      sc_bind_fw [of "exists_path _", OF there] not_True_eq_False if_False
      sc_then_fw [of "with_context _ _", OF attempt_fw [of "fs_create_dir_all _ _", OF m2(1)]]
    by (simp add: sc_then_def sc_bind_def m3(1) del: append.simps)
  with m3(2) m1(2) show ?thesis by simp
qed

text \<open>
  What a torn copy leaves. Where a run of \<open>build-agents\<close> fails because the disk fills up while a binary is copied,
  the shortened binary lies beside the manifest of the run before, which says the right version: the next build of
  the controller embeds it without a word.
\<close>

theorem torn_agent_is_embedded:
  "\<exists>m1 e m2 cts m3 cs. build_agents shop shop_machine = (Inr (), m1) \<and> build_agents full_disk m1 = (Inl e, m2) \<and>
     controller_build_rs (\<lambda>s. s) first_number shop m2 = (Inr cts, m3) \<and>
     compile_consts (mc_files m3) cts = Some cs \<and>
     mc_files m2 (cargo_output ''/w'' ''x86_64-unknown-linux-musl'') = Some (FeFile (bytes_of ''x86_64-unknown-linux-musl'')) \<and>
     for_target cs ''x86_64-unknown-linux-musl'' = Some (bytes_of ''x86'')"
proof -
  define x where "x = ''x86_64-unknown-linux-musl''"
  have x: "x \<in> set TARGETS" and first: "TARGETS = x # tl TARGETS" by (simp_all add: TARGETS_def x_def)
  note p = places_differ [OF shop_env(2)]
  obtain m1 where m1: "build_agents shop shop_machine = (Inr (), m1)" "can_write (mc_files m1) (embedded_agents_file shop)"
      "shop_ready (mc_files m1)" "mc_files m1 (path_join ''/w'' ''Cargo.toml'') \<noteq> None"
    using shop_build_agents by (auto simp: shop_env(6))
  obtain v where v: "version_in (mc_files m1) (version_file ''/w'') = Some v"
    and placed: "\<forall>t \<in> set TARGETS. in_place ''/w'' v t (mc_files m1)"
    using build_agents_Inr [OF m1(1) shop_env(1,2) shop_keeps] by blast
  obtain n where n: "mc_files n = mc_files m1"
      and run: "build_agents full_disk m1 = sc_then (for_each (build_agent full_disk ''/w'' v) TARGETS)
        (sc_then (say ''[build-agents] all four targets built + manifests written.'')
          (say (''[build-agents] layout: '' @ path_display (agents_dir ''/w'')))) n"
    using shop_opening [OF m1(4) v] by blast
  obtain e m2 where "build_agent full_disk ''/w'' v x n = (Inl e, m2)" and f2: "mc_files m2 =
      (mc_files m1)(cargo_output ''/w'' x \<mapsto> FeFile (bytes_of x), agent_bin ''/w'' x \<mapsto> FeFile (take 3 (bytes_of x)))"
    using full_disk_build_agent [of n x v] m1(3) x n by auto
  then have fails: "build_agents full_disk m1 = (Inl e, m2)"
    unfolding run by (subst first) (simp add: sc_then_def sc_bind_def del: append.simps)
  have m2_ready: "shop_ready (mc_files m2)"
    unfolding f2 using m1(3) x by (intro shop_ready_put) auto
  define b where "b t = (if t = x then take 3 (bytes_of x) else (SOME bs. mc_files m1 (agent_bin ''/w'' t) = Some (FeFile bs)))" for t
  have bin: "mc_files m2 (agent_bin ''/w'' t) = Some (FeFile (b t))" if t: "t \<in> set TARGETS" for t
    using bspec [OF placed t] p(1,4) [OF t x] by (auto simp: f2 b_def in_place_def)
  have man: "mc_files m2 (agent_manifest ''/w'' t) = mc_files m1 (agent_manifest ''/w'' t)" if t: "t \<in> set TARGETS" for t
    using p(3) [OF x t] p(5) [OF t x] by (simp only: f2 fun_upd_apply) metis
  have version: "version_in (mc_files m2) (version_file ''/w'') = Some v"
  proof -
    have "version_file ''/w'' \<noteq> cargo_output ''/w'' x" using shop_places [OF x] by (metis (full_types))
    with v not_sym [OF p(6) [OF x x]] show ?thesis by (simp only: version_in_def f2 fun_upd_apply if_False)
  qed
  have pop: "populated ''/w'' (mc_files m2) t \<and> manifest_version first_number (mc_files m2) (agent_manifest ''/w'' t) = Some v"
    if t: "t \<in> set TARGETS" for t
    using in_place_version [OF first_number_reads t] bspec [OF placed t] bin [OF t] man [OF t]
    by (auto simp: populated_def manifest_version_def file_exists_at_def)
  have "can_write (mc_files m2) (embedded_agents_file shop)"
    using m2_ready by (simp add: shop_env(6) shop_writable)
  then obtain cts m3 where "controller_build_rs (\<lambda>s. s) first_number shop m2 = (Inr cts, m3)"
      and "compile_consts (mc_files m3) cts = Some (map (\<lambda>t. (triple_to_const_ident t, Some (b t))) TARGETS)"
    using controller_forward [OF shop_quiet shop_env(3,5,4) _ shop_apart version] bin pop by blast
  moreover have "for_target (map (\<lambda>t. (triple_to_const_ident t, Some (b t))) TARGETS) x = Some (b x)"
    using x by (simp only: for_target_all if_True)
  moreover have "b x = bytes_of ''x86''" by (simp add: b_def x_def bytes_of_def)
  moreover have "mc_files m2 (cargo_output ''/w'' x) = Some (FeFile (bytes_of x))"
    unfolding f2 using not_sym [OF p(4) [OF x x]] by (simp only: fun_upd_apply refl if_True if_False)
  ultimately show ?thesis using m1(1) fails unfolding x_def by (metis (no_types, lifting))
qed

end
