(* ===== verification/ReleaseProps.thy ===== *)
theory ReleaseProps
  imports BuildProps
begin

text \<open>
  Properties of a release: the list of digests is what \<open>sha256sum -c\<close> wants, for the bundles as they lie there in
  the end; and what happens on a Linux host.
\<close>

section \<open>The list of digests\<close>

text \<open>
  How \<open>sha256sum -c\<close>, run among the bundles, reads a line: 64 digits, two blanks, a path. It passes
  when every file is there and has its digest.
\<close>

definition sum_line_ok :: "(u8 list \<Rightarrow> string) \<Rightarrow> file_tree \<Rightarrow> string \<Rightarrow> string \<Rightarrow> bool" where
  "sum_line_ok sha fs dir l \<longleftrightarrow>
     take 2 (drop 64 l) = ''  '' \<and>
     (case fs (path_join dir (drop 66 l)) of Some (FeFile bs) \<Rightarrow> take 64 l = sha bs | _ \<Rightarrow> False)"

definition sums_verify :: "(u8 list \<Rightarrow> string) \<Rightarrow> file_tree \<Rightarrow> string \<Rightarrow> string \<Rightarrow> bool" where
  "sums_verify sha fs dir text \<longleftrightarrow> list_all (sum_line_ok sha fs dir) (str_lines text)"

definition artifacts :: "bool \<Rightarrow> string list" where
  "artifacts universal = RELEASE_TARGETS @ (if universal then [UNIVERSAL_DIR] else [])"

lemma artifact_names: "d \<in> set (artifacts universal) \<Longrightarrow> plain_name d \<and> CHR 0x0A \<notin> set d"
  by (auto simp: artifacts_def RELEASE_TARGETS_def UNIVERSAL_DIR_def plain_name_def split: if_splits)

lemma bundle_path:
  assumes "bundles \<noteq> []" "d \<in> set (artifacts universal)"
  shows "path_join bundles (d @ ''/'' @ BIN_NAME) = bundle_bin bundles d"
    and "bundle_bin bundles d \<noteq> path_join bundles ''SHA256SUMS''"
proof -
  have d: "plain_name d" "plain_name (d @ ''/'' @ BIN_NAME)" "plain_name BIN_NAME" "plain_name ''SHA256SUMS''"
    using artifact_names [OF assms(2)] by (auto simp: plain_name_def BIN_NAME_def)
  then have bin: "bundle_bin bundles d = slashed bundles @ d @ ''/'' @ BIN_NAME"
    using assms(1) by (simp add: bundle_bin_def path_join_plain slashed_append)
  then show "path_join bundles (d @ ''/'' @ BIN_NAME) = bundle_bin bundles d"
    using assms(1) d by (simp add: path_join_plain)
  have "d @ ''/'' @ BIN_NAME \<noteq> ''SHA256SUMS''"
    using assms(2) by (auto simp: artifacts_def RELEASE_TARGETS_def UNIVERSAL_DIR_def BIN_NAME_def split: if_splits)
  then show "bundle_bin bundles d \<noteq> path_join bundles ''SHA256SUMS''"
    using assms(1) d bin by (simp add: path_join_plain)
qed

lemma sum_entries_Inr:
  "sum_entries sha pl bundles ds m = (Inr es, m') \<Longrightarrow>
     mc_files m' = mc_files m \<and> map snd es = map (\<lambda>d. d @ ''/'' @ BIN_NAME) ds \<and>
     (\<forall>e \<in> set es. \<exists>d \<in> set ds. \<exists>bs. e = (sha bs, d @ ''/'' @ BIN_NAME) \<and> mc_files m (bundle_bin bundles d) = Some (FeFile bs))"
proof (induction ds arbitrary: m es)
  case Nil
  then show ?case by (simp add: sc_return_def)
next
  case (Cons d ds)
  then obtain e es' m1 where e: "sum_entry sha pl bundles d m = (Inr e, m1)"
      and es': "sum_entries sha pl bundles ds m1 = (Inr es', m')" "es = e # es'"
    by (auto simp: script_Inr)
  then obtain bs where "mc_files m1 = mc_files m" "mc_files m (bundle_bin bundles d) = Some (FeFile bs)"
      "e = (sha bs, d @ ''/'' @ BIN_NAME)"
    by (auto simp: sum_entry_def sha256_file_def script_Inr dest: fs_read_Inr)
  with Cons.IH [OF es'(1)] es'(2) show ?case by auto
qed

lemma sum_line:
  assumes "hex_digest sha" "fs (path_join dir p) = Some (FeFile bs)" "CHR 0x0A \<notin> set p" "p \<noteq> []" "last p \<noteq> CHR 0x0D"
  shows "sum_line_ok sha fs dir (sha bs @ ''  '' @ p)" "drop 66 (sha bs @ ''  '' @ p) = p"
    "CHR 0x0A \<notin> set (sha bs @ ''  '' @ p)" "strip_cr (sha bs @ ''  '' @ p) = sha bs @ ''  '' @ p"
proof -
  have len: "length (sha bs) = 64" and digits: "list_all (\<lambda>c. let n = (of_char c :: nat) in 48 \<le> n \<and> n \<le> 57 \<or> 97 \<le> n \<and> n \<le> 102) (sha bs)"
    using assms(1) by (simp_all add: hex_digest_def)
  show "drop 66 (sha bs @ ''  '' @ p) = p" by (simp add: len)
  then show "sum_line_ok sha fs dir (sha bs @ ''  '' @ p)"
    by (simp add: sum_line_ok_def len assms(2))
  have "CHR 0x0A \<notin> set (sha bs)" using digits by (auto simp: list_all_iff Let_def)
  then show "CHR 0x0A \<notin> set (sha bs @ ''  '' @ p)" using assms(3) by simp
  show "strip_cr (sha bs @ ''  '' @ p) = sha bs @ ''  '' @ p"
    using assms(4,5) by (simp add: strip_cr_def)
qed

lemma write_sums_Inr:
  assumes "hex_digest sha" "bundles \<noteq> []" "write_sha256sums sha pl bundles universal m = (Inr u, m')"
  shows "\<exists>text. mc_files m' (path_join bundles ''SHA256SUMS'') = Some (FeFile (bytes_of text)) \<and>
    sums_verify sha (mc_files m') bundles text \<and>
    map (drop 66) (str_lines text) = sort (map (\<lambda>d. d @ ''/'' @ BIN_NAME) (artifacts universal)) \<and>
    (\<forall>p. p \<noteq> path_join bundles ''SHA256SUMS'' \<longrightarrow> mc_files m' p = mc_files m p)"
proof -
  let ?sums = "path_join bundles ''SHA256SUMS''"
  obtain es m1 m2 where es: "sum_entries sha pl bundles (artifacts universal) m = (Inr es, m1)"
      and w: "fs_write pl ?sums (bytes_of (sums_text es)) m1 = (Inr (), m2)" and m': "mc_files m' = mc_files m2"
    using assms(3) by (auto simp: write_sha256sums_def artifacts_def script_Inr Let_def say_def)
  note e = sum_entries_Inr [OF es]
  have files: "mc_files m' = (mc_files m)(?sums \<mapsto> FeFile (bytes_of (sums_text es)))"
    using fs_write_Inr [OF w] e m' by simp
  let ?ls = "map (\<lambda>(digest, p). digest @ ''  '' @ p) (sort_key snd es)"
  have each: "sum_line_ok sha (mc_files m') bundles (g @ ''  '' @ p) \<and> drop 66 (g @ ''  '' @ p) = p \<and>
      CHR 0x0A \<notin> set (g @ ''  '' @ p) \<and> strip_cr (g @ ''  '' @ p) = g @ ''  '' @ p" if "(g, p) \<in> set es" for g p
  proof -
    from that e obtain d bs where d: "d \<in> set (artifacts universal)" "g = sha bs" "p = d @ ''/'' @ BIN_NAME"
        "mc_files m (bundle_bin bundles d) = Some (FeFile bs)"
      by fast
    then have "mc_files m' (path_join bundles p) = Some (FeFile bs)"
      using bundle_path [OF assms(2) d(1)] by (simp add: files)
    moreover have "CHR 0x0A \<notin> set p" "p \<noteq> []" "last p \<noteq> CHR 0x0D"
      using artifact_names [OF d(1)] by (simp_all add: d(3) BIN_NAME_def)
    ultimately show ?thesis
      unfolding d(2) using sum_line [OF assms(1)] by meson
  qed
  have body: "sums_text es = concat (map (\<lambda>l. l @ [CHR 0x0A]) ?ls)"
    by (simp add: sums_text_def newline_def o_def split_def)
  have lines: "str_lines (sums_text es) = ?ls"
    unfolding body by (rule str_lines_unlines) (use each in auto)
  have "map (drop 66) ?ls = map snd (sort_key snd es)"
    using each by (auto simp: map_eq_conv)
  also have "\<dots> = sort (map snd es)"
    by (rule properties_for_sort [symmetric]) simp_all
  finally have paths: "map (drop 66) (str_lines (sums_text es)) = sort (map (\<lambda>d. d @ ''/'' @ BIN_NAME) (artifacts universal))"
    by (simp add: lines e)
  have "sums_verify sha (mc_files m') bundles (sums_text es)"
    unfolding sums_verify_def lines using each by (auto simp: list_all_iff)
  with paths files show ?thesis by (intro exI [of _ "sums_text es"]) simp
qed

text \<open>
  The list of digests of a release, when it has been written, is accepted by \<open>sha256sum -c\<close> in the directory of the
  bundles: it names every binary of the release once, in the order of their paths, and each with
  the digest of what lies there. Nothing else is changed by writing it.
\<close>

theorem checksums_verify:
  assumes "hex_digest sha" "bundles \<noteq> []" "write_sha256sums sha pl bundles universal m = (Inr u, m')"
  shows "\<exists>text. mc_files m' (path_join bundles ''SHA256SUMS'') = Some (FeFile (bytes_of text)) \<and>
    sums_verify sha (mc_files m') bundles text \<and>
    map (drop 66) (str_lines text) = sort (map (\<lambda>d. d @ ''/'' @ BIN_NAME) (artifacts universal)) \<and>
    (\<forall>p. p \<noteq> path_join bundles ''SHA256SUMS'' \<longrightarrow> mc_files m' p = mc_files m p)"
  by (rule write_sums_Inr [OF assms])

lemma sum_entries_forward:
  "no_failures pl \<Longrightarrow> \<forall>d \<in> set ds. \<exists>bs. mc_files m (bundle_bin bundles d) = Some (FeFile bs) \<Longrightarrow>
     \<exists>es m'. sum_entries sha pl bundles ds m = (Inr es, m') \<and> mc_files m' = mc_files m"
proof (induction ds arbitrary: m)
  case Nil
  then show ?case by (simp add: sc_return_def)
next
  case (Cons d ds)
  then obtain bs where bs: "mc_files m (bundle_bin bundles d) = Some (FeFile bs)" by auto
  let ?m1 = "m\<lparr>mc_calls := mc_calls m @ [ClRead (bundle_bin bundles d)]\<rparr>"
  have "fs_read pl (bundle_bin bundles d) m = (Inr bs, ?m1)"
    using Cons.prems(1) bs by (simp add: fs_read_def machine_call_def no_failures_def)
  then have "sum_entry sha pl bundles d m = (Inr (sha bs, d @ ''/'' @ BIN_NAME), ?m1)"
    unfolding sum_entry_def sha256_file_def
    by (simp only: sc_bind_def with_context_def attempt_def sc_return_def prod.case sum.case)
  moreover have "mc_files ?m1 = mc_files m" by simp
  ultimately obtain e m1 where e: "sum_entry sha pl bundles d m = (Inr e, m1)" "mc_files m1 = mc_files m"
    by blast
  with Cons.IH [of m1] Cons.prems obtain es m2 where "sum_entries sha pl bundles ds m1 = (Inr es, m2)"
      "mc_files m2 = mc_files m1"
    by auto
  with e show ?case by (simp add: sc_bind_def sc_return_def)
qed

lemma write_sums_forward:
  assumes "no_failures pl" "\<forall>d \<in> set (artifacts universal). \<exists>bs. mc_files m (bundle_bin bundles d) = Some (FeFile bs)"
    and "can_write (mc_files m) (path_join bundles ''SHA256SUMS'')"
  shows "\<exists>m'. write_sha256sums sha pl bundles universal m = (Inr (), m')"
proof -
  obtain es m1 where es: "sum_entries sha pl bundles (artifacts universal) m = (Inr es, m1)" "mc_files m1 = mc_files m"
    using sum_entries_forward [OF assms(1,2)] by metis
  obtain m2 where "fs_write pl (path_join bundles ''SHA256SUMS'') (bytes_of (sums_text es)) m1 = (Inr (), m2)"
    using calls_forward(2) [OF assms(1)] assms(3) es(2) by metis
  note w = this
  show ?thesis
    unfolding write_sha256sums_def Let_def sc_bind_fw [of "sum_entries _ _ _ _", OF es(1) [unfolded artifacts_def]]
      sc_then_fw [of "with_context _ _", OF attempt_fw [of "fs_write _ _ _", OF w]] say_def
    by (rule exI, rule refl)
qed

text \<open>A machine with a bundle for each artifact, and a digest that tells two contents apart.\<close>

definition small_sha :: "u8 list \<Rightarrow> string" where
  "small_sha bs = replicate 64 (if bs = [1] then CHR ''a'' else CHR ''b'')"

definition bundled :: "unit machine" where
  "bundled = \<lparr>mc_files = (\<lambda>p. if p = ''/b'' then Some FeDir else if p = ''/b/SHA256SUMS'' then None
       else if p = ''/b/x86_64-apple-darwin/tepegoz'' then Some (FeFile [1]) else Some (FeFile [2])),
     mc_world = (), mc_calls = [], mc_out = []\<rparr>"

theorem checksums_verify_witness:
  "\<exists>m' text. write_sha256sums small_sha shop ''/b'' True bundled = (Inr (), m') \<and>
     mc_files m' ''/b/SHA256SUMS'' = Some (FeFile (bytes_of text)) \<and> sums_verify small_sha (mc_files m') ''/b'' text \<and>
     length (str_lines text) = 5"
proof -
  have sha: "hex_digest small_sha" by (simp add: hex_digest_def small_sha_def list_all_iff)
  have at: "path_join ''/b'' ''SHA256SUMS'' = ''/b/SHA256SUMS''" by code_simp
  have "path_parent ''/b/SHA256SUMS'' = Some ''/b''" by code_simp
  then have "can_write (mc_files bundled) (path_join ''/b'' ''SHA256SUMS'')"
    unfolding at by (simp add: can_write_def bundled_def)
  moreover have "list_all (\<lambda>d. bundle_bin ''/b'' d \<noteq> ''/b'' \<and> bundle_bin ''/b'' d \<noteq> ''/b/SHA256SUMS'') (artifacts True)"
    by code_simp
  then have "\<forall>d \<in> set (artifacts True). \<exists>bs. mc_files bundled (bundle_bin ''/b'' d) = Some (FeFile bs)"
    by (simp add: bundled_def list_all_iff)
  ultimately obtain m' where run: "write_sha256sums small_sha shop ''/b'' True bundled = (Inr (), m')"
    using write_sums_forward [OF shop_quiet] by metis
  obtain t where t: "mc_files m' ''/b/SHA256SUMS'' = Some (FeFile (bytes_of t))" "sums_verify small_sha (mc_files m') ''/b'' t"
      "map (drop 66) (str_lines t) = sort (map (\<lambda>d. d @ ''/'' @ BIN_NAME) (artifacts True))"
    using checksums_verify [OF sha _ run] unfolding at by blast
  have "length (str_lines t) = length (artifacts True)"
    using arg_cong [OF t(3), of length] by (simp only: length_map length_sort)
  then have "length (str_lines t) = 5" by (simp add: artifacts_def RELEASE_TARGETS_def)
  with run t(1,2) show ?thesis by blast
qed

text \<open>So it is at the end of a whole release.\<close>

lemma release_verifies:
  assumes "hex_digest sha" "pl_cwd pl = Inr root" "root \<noteq> []" "build_release sha pl version m = (Inr u, m')"
  shows "\<exists>universal text. mc_files m' (path_join (path_join root BUNDLE_ROOT_REL) ''SHA256SUMS'') = Some (FeFile (bytes_of text)) \<and>
    sums_verify sha (mc_files m') (path_join root BUNDLE_ROOT_REL) text \<and>
    map (drop 66) (str_lines text) = sort (map (\<lambda>d. d @ ''/'' @ BIN_NAME) (artifacts universal))"
proof -
  let ?bundles = "path_join root BUNDLE_ROOT_REL"
  have "?bundles \<noteq> []" by (simp add: path_join_def BUNDLE_ROOT_REL_def starts_with_def)
  moreover obtain universal m1 m2 v where "write_sha256sums sha pl ?bundles universal m1 = (Inr v, m2)" "mc_files m' = mc_files m2"
    using assms(2,4) unfolding build_release_def locate_workspace_root_def Let_def
    by (auto simp: script_Inr exists_path_def say_def split: if_splits)
  ultimately show ?thesis using write_sums_Inr [OF assms(1)] by metis
qed

section \<open>On a Linux host\<close>

text \<open>
  On a Linux host a release builds nothing at all: the check refuses the two darwin targets for the whole run,
  before anything is started or written.
\<close>

theorem linux_release_builds_nothing:
  assumes "pl_linux pl" "pl_cwd pl = Inr root" "mc_files m (path_join root ''Cargo.toml'') \<noteq> None"
  shows "\<exists>line. build_release sha pl version m =
     (Inl [forbidden_text [''x86_64-apple-darwin'', ''aarch64-apple-darwin'']], m\<lparr>mc_out := mc_out m @ [line]\<rparr>)"
proof -
  have darwin: "filter is_darwin RELEASE_TARGETS = [''x86_64-apple-darwin'', ''aarch64-apple-darwin'']"
    by code_simp
  have there: "exists_path (path_join root ''Cargo.toml'') m = (Inr True, m)"
    using assms(3) by (simp only: exists_path_def file_exists_at_def) simp
  have root: "locate_workspace_root pl ''build-release'' m = (Inr root, m)"
    unfolding locate_workspace_root_def assms(2) sum.case sc_bind_fw [of "exists_path _", OF there] if_True by (rule sc_return_def)
  have check: "check_cross_build_toolchain pl RELEASE_TARGETS =
      bail (forbidden_text [''x86_64-apple-darwin'', ''aarch64-apple-darwin''])"
    unfolding check_cross_build_toolchain_def darwin using assms(1) by (simp only: simp_thms list.distinct if_True)
  show ?thesis
    unfolding build_release_def sc_bind_fw [of "locate_workspace_root _ _", OF root] Let_def sc_then_say check
    by (simp only: sc_then_def [of "bail _"] sc_bind_def bail_def prod.case sum.case) (rule exI, rule refl)
qed

theorem linux_release_builds_nothing_witness:
  "\<exists>line. build_release small_sha shop ''0.1.0'' bundled =
     (Inl [forbidden_text [''x86_64-apple-darwin'', ''aarch64-apple-darwin'']], bundled\<lparr>mc_out := [line]\<rparr>)"
proof -
  have "mc_files bundled (path_join ''/w'' ''Cargo.toml'') \<noteq> None" by code_simp
  then have "\<exists>line. build_release small_sha shop ''0.1.0'' bundled =
     (Inl [forbidden_text [''x86_64-apple-darwin'', ''aarch64-apple-darwin'']], bundled\<lparr>mc_out := mc_out bundled @ [line]\<rparr>)"
    by (rule linux_release_builds_nothing [rotated 2]) (simp_all add: shop_def)
  then show ?thesis by (simp add: bundled_def)
qed

end
