(* ===== verification/Spec2Isabelle.thy ===== *)
theory Spec2Isabelle
  imports PropsRuntime PropsTiles PropsRequests RemoteProps FleetProps ForwarderProps
    AgentForwarders DockerProps DrawProps CliProps DaemonProps StartupProps TunnelEnd PtyOpen Terminal
    ReleaseProps
begin

text \<open>
  A verification development for tepegoz, a terminal multiplexer with container, port and fleet tiles:
  a daemon owns the pseudo terminals and the subscriptions, a TUI attaches to it over a Unix socket.

  \<^bold>\<open>The program and its model.\<close> The TUI is a pure state machine (\<open>App::handle_event\<close>, an event and a
  state to a new state and a list of actions) inside an I/O loop; the daemon is a set of tasks that
  talk through channels. The state machine is modelled as functions on the record \<open>app\<close>, with a panic
  as a value of a sum type; threads of the daemon are steps of an inductive relation; channels and the
  socket are lists. Machine integers keep their width; strings and byte buffers are lists.

  \<^item> \<open>Prelude\<close>, \<open>RustStd\<close>, \<open>RustText\<close>: error values, runs of events (\<open>event_machine\<close>, the interface every stateful part
    is an instance of), the string and slice functions of the standard library.
  \<^item> \<open>Proto\<close>, \<open>Codec\<close>: \<open>crates/tepegoz-proto\<close>, the messages and the length-prefixed frames. Serialisation
    (rkyv) is a pair of functions with the law \<open>rkyv_roundtrip\<close>. Shown: a stream of frames, broken off
    anywhere, is read back up to the break; the reader ends on every stream; the frame limit holds on the
    reading side only.
  \<^item> \<open>Tile\<close>: \<open>crates/tepegoz-tui/src/tile.rs\<close>. Shown: the tiles partition the screen; navigation.
  \<^item> \<open>Input\<close>, \<open>Mouse\<close>, \<open>Keys\<close>: \<open>input.rs\<close>, \<open>mouse.rs\<close> and \<open>ScopeKeyParser\<close> of \<open>app.rs\<close>, three byte automata.
    Shown: each accounts for every byte, for every cut of the stream into reads; encoded reports and
    keys are decoded to what was encoded.
  \<^item> \<open>Logs\<close>: \<open>LogsView\<close> of \<open>app.rs\<close> and \<open>render_transcript\<close> of \<open>scope/docker.rs\<close>.
  \<^item> \<open>RowViews\<close>: the tables of the scope tiles; the locale \<open>row_view\<close> is the contract of filter,
    selection and re-anchoring, interpreted on the four tables of the code.
  \<^item> \<open>TabStrip\<close>: \<open>render_tab_strip\<close> and \<open>hit_test_tab_strip\<close> of \<open>pty_tile.rs\<close>. Shown: they agree.
  \<^item> \<open>AppState\<close>, \<open>AppPanes\<close>, \<open>AppScopes\<close>, \<open>AppPicker\<close>, \<open>AppDaemon\<close>, \<open>App\<close>: the state machine of \<open>app.rs\<close>, every
    handler with every branch. What it is given from outside (vt100, ratatui's rectangles, Unicode
    lower case, the working directory, the iteration order of a \<open>HashMap\<close>) is the record \<open>rt\<close>.
  \<^item> \<open>AppInv\<close>, \<open>AppSafety\<close>: the invariant of the state and its preservation by every handler; when a
    handler can panic.
  \<^item> \<open>Widgets\<close>, \<open>DrawDocker\<close>, \<open>DrawPorts\<close>, \<open>DrawFleet\<close>, \<open>DrawApp\<close>, \<open>DrawProps\<close>: \<open>render_tiles\<close> of \<open>session.rs\<close> and
    the renderers it calls (\<open>scope/*.rs\<close>, \<open>pty_tile.rs\<close>, \<open>toast.rs\<close>, \<open>help.rs\<close>, \<open>host_picker.rs\<close>). A frame is
    the list of widgets with their rectangles, texts and styles; splitting a rectangle and drawing a
    widget are ratatui's, a pane's screen is vt100's: the records \<open>tui\<close> and \<open>vt\<close>. Shown: the marked row is the
    one the keys act on, the picker's notes are true; and where drawing panics.
  \<^item> \<open>Runtime\<close>, \<open>Startup\<close>, \<open>StartupProps\<close>: \<open>session.rs\<close>: handshake, first pane, the turns of the event loop,
    \<open>dispatch\<close>, a whole run. Shown: TUI and daemon agree on the first pane over the socket.
  \<^item> \<open>Pty\<close>: \<open>crates/tepegoz-pty/src/lib.rs\<close> and \<open>forward_pane\<close> of \<open>crates/tepegoz-core/src/client.rs\<close>: the
    scrollback, the reader and waiter threads, subscriptions, the pane table. \<open>PtyOpen\<close> has \<open>PtyManager::open\<close>:
    the command of the child, its variables, the failures on the way; the operating system is the record \<open>pty_os\<close>.
    Shown: a pane is what was asked for, and a TUI started inside one refuses to attach.
  \<^item> \<open>Terminal\<close>: \<open>terminal.rs\<close>, its guard around the TUI, and where the log lies (\<open>tracing_setup.rs\<close>). Shown: the
    shell gets its terminal back however the TUI ends, unless entering raw mode fails half way.
  \<^item> \<open>SshError\<close>: the error type of \<open>crates/tepegoz-ssh\<close> with its texts.
  \<^item> \<open>SshConfig\<close>, \<open>SshSession\<close>, \<open>SshProps\<close>: \<open>config.rs\<close>, \<open>paths.rs\<close>, \<open>known_hosts.rs\<close> and \<open>session.rs\<close> of
    \<open>crates/tepegoz-ssh\<close>: where the hosts come from, host keys, authentication, connections. Environment, files
    and the parsers of toml and russh-config are the record \<open>ssh_env\<close>, russh's reading and writing of
    entries is \<open>known_hosts_io\<close>. Shown: exactly the names of the file are found, the first key of a host wins,
    \<open>forget\<close> removes exactly its entries.
  \<^item> \<open>Deploy\<close>, \<open>DeployProps\<close>, \<open>DeployHost\<close>: \<open>deploy.rs\<close>. The remote host is a function from its state, a
    command and its input to what the SSH channel carried and a new state; SHA-256 is an argument. Shown:
    a shell reads the commands as they are meant, an agent in the pool is the embedded one on any host
    whose hash, \<open>stat\<close> and \<open>mv && chmod\<close> commands do what is documented (\<open>honest_host\<close>), and what a failed \<open>chmod\<close>
    leaves behind.
  \<^item> \<open>Docker\<close>, \<open>DockerProps\<close>: \<open>crates/tepegoz-docker\<close>: which engine is used, container rows, actions, logs and
    statistics; bollard's answers are inputs, \<open>f32\<close> arithmetic is a record of functions.
  \<^item> \<open>Daemon\<close>, \<open>DaemonProps\<close>: \<open>daemon.rs\<close>, \<open>crates/tepegoz-proto/src/socket.rs\<close> and \<open>prepare_and_init\<close> of the TUI: the
    socket from its path to its removal, the accept loop. The operating system is the record \<open>unix\<close>, a map
    from paths to what lies there and the list of the calls made. Shown: the default socket is private at
    every moment, a daemon that answers keeps its socket, and how one that does not harms its successor.
  \<^item> \<open>Cli\<close>, \<open>CliProps\<close>: the \<open>doctor\<close> commands of \<open>crates/tepegoz/src/main.rs\<close>. Shown: the report on the agents
    changes nothing and says what a deployment would do.
  \<^item> \<open>AgentRouting\<close>, \<open>AgentProps\<close>: \<open>crates/tepegoz-core/src/agent.rs\<close> and the \<open>route_remote_*\<close> functions of
    \<open>client.rs\<close>: the pool of remote agents, the ids under which clients' requests travel to them, and what
    happens at a disconnect. Channels are the list of what was sent (\<open>outbox\<close>); connections live in a store
    and are named by address, because the code shares them. Shown: requests are answered once, events
    reach the client that asked, a disconnect is told to everyone concerned; a handle that outlives its
    connection hits another client.
  \<^item> \<open>AgentTunnel\<close>, \<open>TunnelProps\<close>, \<open>TunnelEnd\<close>: the way between the two (\<open>run_agent_driver_russh\<close>,
    \<open>run_envelope_parser\<close>, \<open>serve\<close>, \<open>spawn_writer_task\<close>): driver, parser, agent and its writer as the steps of one
    relation on the record \<open>link\<close>, with the bytes in every buffer; russh moves bytes from end to end, in
    pieces of any size. Shown: what the agent runs and what the client has had of it at every moment, and
    that nothing sticks on the bounded pipe.
  \<^item> \<open>Fleet\<close>, \<open>FleetProps\<close>: the Fleet part of \<open>client.rs\<close>: a supervisor per host as a machine whose states are
    the points of suspension of \<open>host_supervisor\<close>, and the coordinator. Shown: the table of state changes,
    the retry ladder, heartbeats, what a Reconnect does from every state.
  \<^item> \<open>RemotePane\<close>, \<open>RemoteProps\<close>: \<open>remote_pane.rs\<close>: the driver of an SSH channel as a step relation that
    interleaves with the clients' handlers; what a subscriber gets. It shares scrollback and pane table
    with \<open>Pty\<close>.
  \<^item> \<open>Session\<close>, \<open>SessionProps\<close>, \<open>PropsDaemon\<close>: a client's session with the daemon (\<open>client.rs\<close>, \<open>state.rs\<close>): handshake,
    \<open>handle_command\<close> with every command, the tables of running forwarders, status, teardown. A spawned
    task is an entry of \<open>da_tasks\<close>, aborting it removes the entry. Shown: the tables are exact through any
    run and empty at the end; opens are answered one for one; pane ids of the two managers stay apart.
  \<^item> \<open>Forwarders\<close>, \<open>AgentForwarders\<close>, \<open>Agent\<close>, \<open>ForwarderProps\<close>: the poll loops, log and statistics streams and
    actions of \<open>client.rs\<close>, the copies of them in \<open>crates/tepegoz-agent/src/lib.rs\<close>, the probes' rows
    (\<open>crates/tepegoz-probe\<close>), and the agent's server loop. Shown: the copies agree; outages are reported once;
    an agent is only asked for what it serves.
  \<^item> \<open>Machine\<close>, \<open>Preflight\<close>, \<open>BuildAgents\<close>, \<open>BuildRelease\<close>, \<open>BuildProps\<close>, \<open>ReleaseProps\<close>: \<open>preflight.rs\<close>, \<open>build_agents.rs\<close> and
    \<open>build_release.rs\<close> of \<open>xtask\<close>, the build scripts of the controller and of the protocol crate, and the generated
    \<open>for_target\<close>. A script is a function on the record \<open>machine\<close> (files, calls, lines printed) with an error as a chain
    of contexts; programs it starts, cargo and lipo among them, are the record \<open>platform\<close>. Shown: an agent started on a
    host is the one cargo has built for it; only agents of the protocol's version are embedded; the list of digests
    is that of the bundles; what a copy that breaks off leaves.
  \<^item> \<open>AppProps\<close>, \<open>PropsInput\<close>, \<open>PropsRequests\<close>, \<open>PropsTiles\<close>, \<open>PropsParts\<close>, \<open>PropsRuntime\<close>: the properties, each
    with a concrete instance where it has hypotheses.

  \<^bold>\<open>Bounds.\<close> The layout properties hold for terminals of at least 80 by 24 cells and at most 21848 rows,
  where the 16-bit arithmetic of the layout does not wrap. Ids are 64-bit counters that wrap: properties that
  need fresh ones assume that an agent's counter has not reached its last value, and that fewer than
  \<open>2 ^ 32\<close> commands have been handled where the ids of local panes must stay below those of remote ones.
  No definition uses fuel: every loop of the
  code is structural or has a measure. Time is a natural number of milliseconds.

  \<^bold>\<open>Not modelled.\<close> Signals, the log subscriber, argument parsing, file modes of the known_hosts file and of the
  agents' binaries; the \<open>xtask\<close> demonstrations. Third-party, and so arguments of the
  definitions or their inputs: rkyv, russh, cargo, serde_json, portable_pty, the toml and ssh_config parsers, bollard, netstat2, sysinfo,
  ratatui, vt100, SHA-256, and the channels of tokio.
\<close>

end
